(* ===== verification/GoPrelude.thy ===== *)
theory GoPrelude
  imports
    Main
    "HOL-Library.AList"
    "HOL-Library.Multiset"
    "HOL-Library.Char_ord"
    "HOL-Library.List_Lexorder"
    "HOL-Library.Product_Lexorder"
    "HOL-Library.Word"
begin

text \<open>
  What the whole development shares: the fragment of the Go language and its standard
  library that the modelled packages use, and the generic lemmas about it.

  \<^item> A Go \<open>string\<close> is a list of bytes, here \<open>string\<close> (a list of \<open>char\<close>, each one byte);
    the case and white-space functions of package \<open>strings\<close> are modelled on ASCII: bytes from
    128 on are left alone, so Unicode case folding and Unicode spaces are outside the model.
  \<^item> \<open>int\<close> and \<open>int64\<close> values are \<open>int\<close>; where the code's arithmetic can overflow the result
    goes through \<open>i64\<close>, the two's-complement wrap-around to 64 bits.
  \<^item> \<open>time.Time\<close> is the number of nanoseconds since Go's zero time, so \<open>IsZero\<close> is being 0;
    \<open>time.Duration\<close> is a number of nanoseconds. Clock readings are arguments.
  \<^item> A Go map is an association list without repeated keys. The list order stands for the
    iteration order of a \<open>range\<close> loop, which Go leaves open: a theorem that holds for every
    list holds for every iteration order. A nil map or slice is the empty one.
  \<^item> \<open>sort.Slice\<close> with a comparison is \<open>sort_key\<close> with the corresponding key. Go's sort is
    not stable; where keys are distinct the result is the only sorted permutation
    (lemma \<open>sort_key_unique\<close>), whatever the algorithm.
\<close>

section \<open>Lemma collections\<close>

named_theorems op_defs \<open>unfoldings of operations whose proofs are by case analysis\<close>
named_theorems go_str \<open>evaluation of string functions on literals\<close>

section \<open>Errors\<close>

text \<open>
  The sentinel errors of the modelled packages, an error built by \<open>errors.New\<close> or
  \<open>fmt.Errorf\<close> with its text, a failure of the file system under the store, and a run-time
  panic such as a slice out of bounds, which no caller of the modelled code recovers from.
  A Go result \<open>(T, error)\<close> is \<open>go_error + 'a\<close>, an \<open>error\<close> alone is \<open>go_error option\<close>.
\<close>

datatype go_error =
    ErrNotFound
  | ErrLeaseOwner
  | ErrNoChunk
  | ErrNoValidationEvidence
  | ErrValidationArchiveNotTerminal
  | ErrValidationReportArchiveConflict
  | ErrText string
  | ErrIO string
  | GoPanic string

section \<open>Integers\<close>

definition i64 :: "int \<Rightarrow> int" where
  "i64 x = (x + 2 ^ 63) mod 2 ^ 64 - 2 ^ 63"

definition in_i64 :: "int \<Rightarrow> bool" where
  "in_i64 x \<longleftrightarrow> - (2 ^ 63) \<le> x \<and> x < 2 ^ 63"

lemma i64_id [simp]: "in_i64 x \<Longrightarrow> i64 x = x"
  by (simp add: i64_def in_i64_def)

lemma i64_in_range [simp]: "in_i64 (i64 x)"
proof -
  have "0 \<le> (x + 2 ^ 63) mod (2 ^ 64 :: int)" and "(x + 2 ^ 63) mod (2 ^ 64 :: int) < 2 ^ 64"
    by simp_all
  then show ?thesis by (simp add: i64_def in_i64_def)
qed

lemma i64_idem [simp]: "i64 (i64 x) = i64 x"
  by simp

lemma in_i64I: "- 9223372036854775808 \<le> x \<Longrightarrow> x < 9223372036854775808 \<Longrightarrow> in_i64 x"
  by (simp add: in_i64_def)

text \<open>Above the range the wrap subtracts \<open>2 ^ 64\<close>.\<close>

lemma i64_above:
  assumes "2 ^ 63 \<le> x" and "x < 2 ^ 63 + 2 ^ 64"
  shows "i64 x = x - 2 ^ 64"
proof -
  have "(x + 2 ^ 63 - 2 ^ 64) mod 2 ^ 64 = x + 2 ^ 63 - 2 ^ 64"
    by (rule mod_pos_pos_trivial) (use assms in simp_all)
  then have "(x + 2 ^ 63) mod 2 ^ 64 = x + 2 ^ 63 - 2 ^ 64"
    by (simp only: minus_mod_self2)
  then show ?thesis unfolding i64_def by simp
qed

text \<open>Go's \<open>/\<close> and \<open>%\<close> on integers truncate towards zero.\<close>

definition go_div :: "int \<Rightarrow> int \<Rightarrow> int" where
  "go_div a b = sgn a * sgn b * (\<bar>a\<bar> div \<bar>b\<bar>)"

definition go_mod :: "int \<Rightarrow> int \<Rightarrow> int" where
  "go_mod a b = a - go_div a b * b"

lemma go_div_nonneg [simp]: "0 \<le> a \<Longrightarrow> 0 < b \<Longrightarrow> go_div a b = a div b"
  by (cases "a = 0") (auto simp: go_div_def)

lemma go_mod_nonneg [simp]: "0 \<le> a \<Longrightarrow> 0 < b \<Longrightarrow> go_mod a b = a mod b"
  by (simp add: go_mod_def minus_div_mult_eq_mod)

section \<open>Time\<close>

type_synonym time = int
type_synonym duration = int

text \<open>\<open>Time.Sub\<close> saturates at the ends of the \<open>Duration\<close> range.\<close>

definition time_sub :: "time \<Rightarrow> time \<Rightarrow> duration" where
  "time_sub t u = max (- (2 ^ 63)) (min (2 ^ 63 - 1) (t - u))"

lemma time_sub_mono: "u \<le> v \<Longrightarrow> time_sub t v \<le> time_sub t u"
  by (simp add: time_sub_def)

section \<open>Strings\<close>

definition is_space :: "char \<Rightarrow> bool" where
  "is_space c \<longleftrightarrow> (of_char c :: nat) \<in> {9, 10, 11, 12, 13, 32}"

definition trim_space :: "string \<Rightarrow> string" where
  "trim_space s = rev (dropWhile is_space (rev (dropWhile is_space s)))"

definition lower_char :: "char \<Rightarrow> char" where
  "lower_char c = (let n = (of_char c :: nat) in
     if 65 \<le> n \<and> n \<le> 90 then char_of (n + 32) else c)"

definition upper_char :: "char \<Rightarrow> char" where
  "upper_char c = (let n = (of_char c :: nat) in
     if 97 \<le> n \<and> n \<le> 122 then char_of (n - 32) else c)"

definition to_lower :: "string \<Rightarrow> string" where
  "to_lower s = map lower_char s"

definition to_upper :: "string \<Rightarrow> string" where
  "to_upper s = map upper_char s"

definition equal_fold :: "string \<Rightarrow> string \<Rightarrow> bool" where
  "equal_fold s t \<longleftrightarrow> to_lower s = to_lower t"

lemmas go_str_defs = is_space_def trim_space_def lower_char_def upper_char_def
  to_lower_def to_upper_def equal_fold_def

lemma equal_fold_refl [simp]: "equal_fold s s"
  by (simp add: equal_fold_def)

lemma equal_fold_sym: "equal_fold s t \<longleftrightarrow> equal_fold t s"
  by (auto simp: equal_fold_def)

lemma equal_fold_trans: "equal_fold s t \<Longrightarrow> equal_fold t u \<Longrightarrow> equal_fold s u"
  by (simp add: equal_fold_def)

lemma to_lower_Nil [simp]: "to_lower [] = []" and to_upper_Nil [simp]: "to_upper [] = []"
  by (simp_all add: to_lower_def to_upper_def)

lemma trim_space_Nil [simp]: "trim_space [] = []"
  by (simp add: trim_space_def)

lemma dropWhile_idem' [simp]: "dropWhile P (dropWhile P xs) = dropWhile P xs"
  by (induction xs) auto

lemma lower_char_idem [simp]: "lower_char (lower_char c) = lower_char c"
  by (simp add: lower_char_def Let_def)

lemma to_lower_idem [simp]: "to_lower (to_lower s) = to_lower s"
  by (simp add: to_lower_def comp_def)

text \<open>\<open>strconv.Atoi\<close>: an optional sign and decimal digits, in the range of \<open>int\<close>.\<close>

definition digit_val :: "char \<Rightarrow> int option" where
  "digit_val c = (let n = (of_char c :: nat) in
     if 48 \<le> n \<and> n \<le> 57 then Some (int n - 48) else None)"

fun parse_digits :: "int \<Rightarrow> string \<Rightarrow> int option" where
  "parse_digits acc [] = Some acc"
| "parse_digits acc (c # cs) =
     (case digit_val c of None \<Rightarrow> None | Some d \<Rightarrow> parse_digits (10 * acc + d) cs)"

definition parse_nat :: "string \<Rightarrow> int option" where
  "parse_nat s = (if s = [] then None else parse_digits 0 s)"

definition atoi :: "string \<Rightarrow> int option" where
  "atoi s =
     (let r = (case s of
          [] \<Rightarrow> None
        | c # cs \<Rightarrow>
            if c = CHR ''-'' then map_option uminus (parse_nat cs)
            else if c = CHR ''+'' then parse_nat cs
            else parse_nat s)
      in case r of None \<Rightarrow> None | Some n \<Rightarrow> if in_i64 n then Some n else None)"

text \<open>Decimal printing, as \<open>strconv.FormatInt\<close> and \<open>FormatUint\<close> do.\<close>

fun nat_str :: "nat \<Rightarrow> string" where
  "nat_str n = (if n < 10 then [char_of (48 + n)]
                else nat_str (n div 10) @ [char_of (48 + n mod 10)])"

declare nat_str.simps [simp del]

definition int_str :: "int \<Rightarrow> string" where
  "int_str n = (if n < 0 then CHR ''-'' # nat_str (nat (- n)) else nat_str (nat n))"

lemma nat_str_nonempty [simp]: "nat_str n \<noteq> []"
  by (subst nat_str.simps) simp

lemma of_char_digit [simp]: "d < 10 \<Longrightarrow> of_char (char_of (48 + d) :: char) = 48 + (d :: nat)"
  by (simp add: of_char_of)

lemma digit_val_char: "d < 10 \<Longrightarrow> digit_val (char_of (48 + d)) = Some (int d)"
  by (simp add: digit_val_def Let_def)

lemma parse_digits_append:
  "parse_digits a (s @ t) = (case parse_digits a s of None \<Rightarrow> None | Some b \<Rightarrow> parse_digits b t)"
  by (induction s arbitrary: a) (auto split: option.splits)

lemma parse_digits_nat_str: "parse_digits 0 (nat_str n) = Some (int n)"
proof (induction n rule: nat_str.induct)
  case (1 n)
  show ?case
  proof (cases "n < 10")
    case True
    then show ?thesis by (subst nat_str.simps) (simp add: digit_val_char)
  next
    case False
    with 1 have "parse_digits 0 (nat_str (n div 10)) = Some (int (n div 10))" by simp
    with False show ?thesis
      by (subst nat_str.simps)
        (simp add: parse_digits_append digit_val_char zdiv_int zmod_int)
  qed
qed

lemma parse_nat_nat_str [simp]: "parse_nat (nat_str n) = Some (int n)"
  by (simp add: parse_nat_def parse_digits_nat_str)

section \<open>Go maps\<close>

type_synonym ('k, 'v) gomap = "('k \<times> 'v) list"

abbreviation gmap_wf :: "('k, 'v) gomap \<Rightarrow> bool" where
  "gmap_wf m \<equiv> distinct (map fst m)"

text \<open>\<open>m[k]\<close> of a map of strings: the empty string when the key is absent.\<close>

definition sget :: "(string, string) gomap \<Rightarrow> string \<Rightarrow> string" where
  "sget m k = (case map_of m k of None \<Rightarrow> [] | Some v \<Rightarrow> v)"

lemma map_of_update_same [simp]: "map_of (AList.update k v m) k = Some v"
  by (simp add: update_conv)

lemma map_of_update_other [simp]: "k' \<noteq> k \<Longrightarrow> map_of (AList.update k v m) k' = map_of m k'"
  by (simp add: update_conv)

lemma wf_update [simp]: "gmap_wf m \<Longrightarrow> gmap_wf (AList.update k v m)"
  by (rule distinct_update)

lemma wf_delete [simp]: "gmap_wf m \<Longrightarrow> gmap_wf (AList.delete k m)"
  by (simp add: distinct_delete)

lemma set_updateD: "(a, b) \<in> set (AList.update k v m) \<Longrightarrow> (a, b) = (k, v) \<or> (a, b) \<in> set m"
  by (induction m) (auto split: if_splits)

lemma in_update_same: "(k, v) \<in> set (AList.update k v m)"
  by (induction m) auto

lemma in_update_iff:
  assumes "gmap_wf m"
  shows "(a, b) \<in> set (AList.update k v m) \<longleftrightarrow> (if a = k then b = v else (a, b) \<in> set m)"
proof -
  have "(a, b) \<in> set (AList.update k v m) \<longleftrightarrow> map_of (AList.update k v m) a = Some b"
    using assms by (simp add: distinct_update)
  then show ?thesis using assms by (auto simp: update_conv)
qed

lemma length_update_present:
  "map_of m k \<noteq> None \<Longrightarrow> length (AList.update k v m) = length m"
  by (induction m) auto

lemma map_of_is_SomeI': "gmap_wf m \<Longrightarrow> (k, v) \<in> set m \<Longrightarrow> map_of m k = Some v"
  by (rule map_of_is_SomeI)

text \<open>A \<open>range\<close> loop that rewrites values in place keeps the keys.\<close>

definition gmap_values :: "('k \<Rightarrow> 'v \<Rightarrow> 'v) \<Rightarrow> ('k, 'v) gomap \<Rightarrow> ('k, 'v) gomap" where
  "gmap_values f m = map (\<lambda>(k, v). (k, f k v)) m"

lemma gmap_values_keys [simp]: "map fst (gmap_values f m) = map fst m"
  by (induction m) (auto simp: gmap_values_def)

lemma map_of_gmap_values: "map_of (gmap_values f m) k = map_option (f k) (map_of m k)"
  by (induction m) (auto simp: gmap_values_def)

lemma set_gmap_values: "(k, v) \<in> set (gmap_values f m) \<longleftrightarrow> (\<exists>w. (k, w) \<in> set m \<and> v = f k w)"
  by (auto simp: gmap_values_def)

text \<open>Counting over a map does not depend on the iteration order.\<close>

definition count_if :: "('a \<Rightarrow> bool) \<Rightarrow> 'a list \<Rightarrow> nat" where
  "count_if P xs = length (filter P xs)"

lemma count_if_Nil [simp]: "count_if P [] = 0"
  and count_if_Cons [simp]: "count_if P (x # xs) = (if P x then Suc (count_if P xs) else count_if P xs)"
  by (simp_all add: count_if_def)

lemma count_if_append [simp]: "count_if P (xs @ ys) = count_if P xs + count_if P ys"
  by (simp add: count_if_def)

lemma count_if_mset: "mset xs = mset ys \<Longrightarrow> count_if P xs = count_if P ys"
  by (metis count_if_def mset_filter size_mset)

lemma count_if_le: "count_if P xs \<le> length xs"
  by (simp add: count_if_def)

lemma count_if_mono: "(\<And>x. x \<in> set xs \<Longrightarrow> P x \<Longrightarrow> Q x) \<Longrightarrow> count_if P xs \<le> count_if Q xs"
  by (induction xs) auto

lemma count_if_cong: "(\<And>x. x \<in> set xs \<Longrightarrow> P x = Q x) \<Longrightarrow> count_if P xs = count_if Q xs"
  by (induction xs) auto

section \<open>Sorting\<close>

lemma sort_key_mset: "mset (sort_key f xs) = mset xs"
  by simp

text \<open>With distinct keys there is one sorted permutation, so any sorting algorithm gives it.\<close>

lemma sort_key_unique:
  assumes "mset ys = mset xs" and "sorted (map f ys)" and "inj_on f (set xs)"
  shows "ys = sort_key f xs"
proof -
  have "mset (sort_key f xs) = mset ys" using assms(1) by simp
  moreover have "inj_on f (set ys)"
    using assms(1,3) by (metis set_mset_mset)
  ultimately show ?thesis
    using assms(2) by (metis map_sorted_distinct_set_unique properties_for_sort_key
        sort_key_inj_key_eq sorted_sort_key)
qed

lemma sort_key_cong_mset:
  assumes "mset xs = mset ys" and "inj_on f (set xs)"
  shows "sort_key f xs = sort_key f ys"
  using assms by (intro sort_key_unique) (auto simp: set_mset_mset [symmetric] simp del: set_mset_mset)

text \<open>The first hit in a sorted list has a least key among all hits.\<close>

lemma find_sort_key:
  assumes "find P (sort_key f xs) = Some x"
  shows "x \<in> set xs" "P x" "y \<in> set xs \<Longrightarrow> P y \<Longrightarrow> f x \<le> (f y :: 'b :: linorder)"
proof -
  from assms obtain i where i: "i < length (sort_key f xs)" "P (sort_key f xs ! i)"
    "x = sort_key f xs ! i" "\<forall>j < i. \<not> P (sort_key f xs ! j)"
    by (auto simp: find_Some_iff)
  then show "P x" by simp
  from i(1,3) have "x \<in> set (sort_key f xs)" by (metis nth_mem)
  then show "x \<in> set xs" by simp
  show "f x \<le> f y" if y: "y \<in> set xs" "P y"
  proof -
    from y(1) have "y \<in> set (sort_key f xs)" by simp
    then obtain j where j: "j < length (sort_key f xs)" "y = sort_key f xs ! j"
      unfolding in_set_conv_nth by blast
    with i(4) y(2) have "i \<le> j" by (metis not_less)
    have "sorted (map f (sort_key f xs))" by simp
    from sorted_nth_mono [OF this \<open>i \<le> j\<close>] i j show ?thesis by simp
  qed
qed

lemma find_sort_key_None: "find P (sort_key f xs) = None \<longleftrightarrow> (\<forall>x \<in> set xs. \<not> P x)"
  by (auto simp: find_None_iff)

lemma count_if_update:
  assumes "gmap_wf m" and "map_of m k = Some v"
  shows "count_if P (map snd (AList.update k w m)) + (if P v then 1 else 0)
       = count_if P (map snd m) + (if P w then 1 else 0)"
  using assms
proof (induction m)
  case Nil
  then show ?case by simp
next
  case (Cons e m)
  obtain i x where e: "e = (i, x)" by (cases e)
  show ?case
  proof (cases "i = k")
    case True
    with Cons.prems e show ?thesis by auto
  next
    case False
    with Cons e show ?thesis by auto
  qed
qed

end
