(* ===== verification/Domain.thy ===== *)
theory Domain
  imports GoPrelude Complex_Main
begin

text \<open>
  The data model of package \<open>domain\<close> (\<open>backend/internal/domain/models.go\<close>): every string
  enumeration is a datatype with one constructor per declared constant and a constructor
  \<open>...Other\<close> for any other string (the zero value of the type among them), every
  struct is a record whose fields carry the source's names behind a short prefix.
  \<open>int\<close> and \<open>int64\<close> fields are \<open>int\<close>, \<open>float64\<close> fields \<open>rat\<close>, \<open>time.Time\<close> is \<open>time\<close>, slices are
  lists and maps association lists. The zero value of a struct \<open>T\<close>, which a composite literal
  or a missing map entry starts from, is \<open>zero_T\<close>.
\<close>

section \<open>Enumerations\<close>

datatype DataSourceType =
    DataSourceMySQL
  | DataSourceMariaDB
  | DataSourcePolarDBX
  | DataSourceTiDB
  | DataSourceOceanBase
  | DataSourcePolarDBMySQL
  | DataSourcePostgreSQL
  | DataSourcePolarDBPostgreSQL
  | DataSourceOracle
  | DataSourceSQLServer
  | DataSourceDB2
  | DataSourceOpenGauss
  | DataSourceKingbase
  | DataSourceDameng
  | DataSourceGaussDB
  | DataSourceGBase
  | DataSourceGBase8s
  | DataSourceTypeOther string

datatype TLSMode =
    TLSModeDisable
  | TLSModePreferred
  | TLSModeRequired
  | TLSModeOther string

datatype MigrationStatus =
    StatusCreated
  | StatusPrechecking
  | StatusPrecheckSuccess
  | StatusPreparing
  | StatusCDCInitializing
  | StatusFullMigrating
  | StatusFullFinished
  | StatusCDCCatchingUp
  | StatusValidating
  | StatusReadyCutover
  | StatusCutoverRunning
  | StatusFinished
  | StatusPaused
  | StatusFailed
  | StatusCancelled
  | StatusRollbackPreparing
  | StatusRollbackSyncing
  | StatusRollbackReady
  | StatusRollbackRunning
  | StatusRolledBack
  | MigrationStatusOther string

datatype MigrationMode =
    ModeFull
  | ModeIncremental
  | ModeFullAndIncremental
  | MigrationModeOther string

datatype TransformAction =
    TransformTrim
  | TransformLower
  | TransformUpper
  | TransformEmptyToNull
  | TransformNullToValue
  | TransformReplaceLiteral
  | TransformZeroDateToNull
  | TransformZeroDateToValue
  | TransformJSONCompact
  | TransformActionOther string

datatype ChunkStatus =
    ChunkPending
  | ChunkRunning
  | ChunkSuccess
  | ChunkFailed
  | ChunkStale
  | ChunkStatusOther string

datatype ValidationStatus =
    ValidationPending
  | ValidationRunning
  | ValidationSuccess
  | ValidationMismatch
  | ValidationError
  | ValidationStatusOther string

datatype CDCOperation =
    CDCInsert
  | CDCUpdate
  | CDCDelete
  | CDCTruncate
  | CDCDDL
  | CDCCheckpoint
  | CDCOperationOther string

datatype CDCDeadLetterStatus =
    CDCDeadLetterOpen
  | CDCDeadLetterCommitUncertain
  | CDCDeadLetterReplayRequired
  | CDCDeadLetterResolved
  | CDCDeadLetterStatusOther string

datatype CDCConflictDecision =
    CDCConflictTargetKept
  | CDCConflictSourceApplied
  | CDCConflictDecisionOther string

datatype CDCSpoolStatus =
    CDCSpoolPending
  | CDCSpoolApplied
  | CDCSpoolStatusOther string

datatype EngineJobStatus =
    EngineJobPending
  | EngineJobRunning
  | EngineJobStopRequested
  | EngineJobStopped
  | EngineJobFailed
  | EngineJobStatusOther string

fun MigrationStatus_string :: "MigrationStatus \<Rightarrow> string" where
  "MigrationStatus_string StatusCreated = ''CREATED''"
| "MigrationStatus_string StatusPrechecking = ''PRECHECKING''"
| "MigrationStatus_string StatusPrecheckSuccess = ''PRECHECK_SUCCESS''"
| "MigrationStatus_string StatusPreparing = ''PREPARING''"
| "MigrationStatus_string StatusCDCInitializing = ''CDC_INITIALIZING''"
| "MigrationStatus_string StatusFullMigrating = ''FULL_MIGRATING''"
| "MigrationStatus_string StatusFullFinished = ''FULL_FINISHED''"
| "MigrationStatus_string StatusCDCCatchingUp = ''CDC_CATCHING_UP''"
| "MigrationStatus_string StatusValidating = ''VALIDATING''"
| "MigrationStatus_string StatusReadyCutover = ''READY_FOR_CUTOVER''"
| "MigrationStatus_string StatusCutoverRunning = ''CUTOVER_RUNNING''"
| "MigrationStatus_string StatusFinished = ''FINISHED''"
| "MigrationStatus_string StatusPaused = ''PAUSED''"
| "MigrationStatus_string StatusFailed = ''FAILED''"
| "MigrationStatus_string StatusCancelled = ''CANCELLED''"
| "MigrationStatus_string StatusRollbackPreparing = ''ROLLBACK_PREPARING''"
| "MigrationStatus_string StatusRollbackSyncing = ''ROLLBACK_SYNCING''"
| "MigrationStatus_string StatusRollbackReady = ''ROLLBACK_READY''"
| "MigrationStatus_string StatusRollbackRunning = ''ROLLBACK_RUNNING''"
| "MigrationStatus_string StatusRolledBack = ''ROLLED_BACK''"
| "MigrationStatus_string (MigrationStatusOther s) = s"

fun ValidationStatus_string :: "ValidationStatus \<Rightarrow> string" where
  "ValidationStatus_string ValidationPending = ''PENDING''"
| "ValidationStatus_string ValidationRunning = ''RUNNING''"
| "ValidationStatus_string ValidationSuccess = ''SUCCESS''"
| "ValidationStatus_string ValidationMismatch = ''MISMATCH''"
| "ValidationStatus_string ValidationError = ''ERROR''"
| "ValidationStatus_string (ValidationStatusOther s) = s"

section \<open>Structs\<close>

record ColumnMapping =
  cmap_SourceColumn :: "string"
  cmap_TargetColumn :: "string"

record TableMapping =
  tmap_SourceSchema :: "string"
  tmap_SourceTable :: "string"
  tmap_TargetSchema :: "string"
  tmap_TargetTable :: "string"
  tmap_Columns :: "ColumnMapping list"
  tmap_SplitStrategy :: "string"
  tmap_Partitions :: "string list"
  tmap_HashBuckets :: "int"
  tmap_CustomWhere :: "string"

record RateLimitWindow =
  rlw_Start :: "string"
  rlw_End :: "string"
  rlw_ReadLimitMBps :: "int"
  rlw_WriteLimitMBps :: "int"
  rlw_TargetThroughputMBps :: "int"
  rlw_RowsPerSecond :: "int"
  rlw_QPS :: "int"
  rlw_Parallelism :: "int"

record TransformRule =
  tr_SourceSchema :: "string"
  tr_SourceTable :: "string"
  tr_Column :: "string"
  tr_Action :: "TransformAction"
  tr_Match :: "string"
  tr_Value :: "string"

record DataSource =
  ds_ID :: "string"
  ds_Name :: "string"
  ds_Type :: "DataSourceType"
  ds_Host :: "string"
  ds_Port :: "int"
  ds_Username :: "string"
  ds_Password :: "string"
  ds_PasswordCiphertext :: "string"
  ds_Database :: "string"
  ds_Schema :: "string"
  ds_JDBCURL :: "string"
  ds_DriverClass :: "string"
  ds_CDCURL :: "string"
  ds_TLSMode :: "TLSMode"
  ds_TLSServerName :: "string"
  ds_TLSCACert :: "string"
  ds_TLSClientCert :: "string"
  ds_TLSClientKey :: "string"
  ds_TLSClientKeyCiphertext :: "string"
  ds_CreatedAt :: "time"
  ds_UpdatedAt :: "time"

record DataSourceCredential =
  cred_Type :: "DataSourceType"
  cred_Host :: "string"
  cred_Port :: "int"
  cred_Username :: "string"
  cred_Password :: "string"
  cred_Database :: "string"
  cred_Schema :: "string"
  cred_JDBCURL :: "string"
  cred_DriverClass :: "string"
  cred_CDCURL :: "string"
  cred_TLSMode :: "TLSMode"
  cred_TLSServerName :: "string"
  cred_TLSCACert :: "string"
  cred_TLSClientCert :: "string"
  cred_TLSClientKey :: "string"

record MigrationTask =
  mig_ID :: "string"
  mig_Name :: "string"
  mig_SourceID :: "string"
  mig_TargetID :: "string"
  mig_Mode :: "MigrationMode"
  mig_Status :: "MigrationStatus"
  mig_PausedFromStatus :: "MigrationStatus"
  mig_FullEngine :: "string"
  mig_CDCEngine :: "string"
  mig_RollbackCDCEngine :: "string"
  mig_CDCDDLMode :: "string"
  mig_CDCConflictMode :: "string"
  mig_CDCConflictColumn :: "string"
  mig_SequenceSyncedAt :: "time"
  mig_Tables :: "TableMapping list"
  mig_ChunkRows :: "int"
  mig_BatchRows :: "int"
  mig_Parallelism :: "int"
  mig_MaxRetries :: "int"
  mig_AutoCreateTable :: "bool"
  mig_ValidationEnabled :: "bool"
  mig_ValidationMode :: "string"
  mig_PostLoadDDLMode :: "string"
  mig_ReadLimitMBps :: "int"
  mig_WriteLimitMBps :: "int"
  mig_TargetThroughputMBps :: "int"
  mig_AutoThroughputEnabled :: "bool"
  mig_CompletionSLASeconds :: "int"
  mig_SLAStartedAt :: "time"
  mig_ControllerTargetBytesSec :: "int"
  mig_ThroughputControllerReason :: "string"
  mig_AdaptiveHotspotSplits :: "int"
  mig_AdaptiveRunningYields :: "int"
  mig_AdaptiveTopologyDrains :: "int"
  mig_AdaptiveTopologyDegradedYields :: "int"
  mig_AdaptiveFaultDomainYields :: "int"
  mig_ControllerAutoProbePct :: "int"
  mig_ControllerSLAHeadroomPct :: "int"
  mig_ControllerLearningSamples :: "int"
  mig_RowsLimitPerSec :: "int"
  mig_QPSLimit :: "int"
  mig_RateLimitTimezone :: "string"
  mig_RateLimitWindows :: "RateLimitWindow list"
  mig_TransformRules :: "TransformRule list"
  mig_WorkerSelector :: "(string, string) gomap"
  mig_WorkerAffinity :: "string"
  mig_EffectiveParallelism :: "int"
  mig_FlowControlLevel :: "string"
  mig_FlowControlReason :: "string"
  mig_CDCSpoolGrowthBytesSec :: "int"
  mig_CDCSpoolCriticalETASeconds :: "int"
  mig_Progress :: "rat"
  mig_TotalChunks :: "int"
  mig_FinishedChunks :: "int"
  mig_RowsMigrated :: "int"
  mig_BytesMigrated :: "int"
  mig_SpeedBytesSec :: "int"
  mig_SpeedRowsSec :: "int"
  mig_ETASeconds :: "int"
  mig_SLAP95ETASeconds :: "int"
  mig_SLAP99ETASeconds :: "int"
  mig_SLARiskLevel :: "string"
  mig_SLARiskReason :: "string"
  mig_CDCLagMS :: "int"
  mig_CDCStartTimestampMS :: "int"
  mig_CDCStartPositionType :: "string"
  mig_CDCStartPositionValue :: "string"
  mig_CDCStartResource :: "string"
  mig_ValidationBarrierPositionType :: "string"
  mig_ValidationBarrierPositionValue :: "string"
  mig_ValidationBarrierResource :: "string"
  mig_ValidationBarrierCapturedAt :: "time"
  mig_LastError :: "string"
  mig_CreatedAt :: "time"
  mig_UpdatedAt :: "time"

record Worker =
  wk_ID :: "string"
  wk_Hostname :: "string"
  wk_CPU :: "int"
  wk_MemoryMB :: "int"
  wk_Status :: "string"
  wk_RunningJobs :: "int"
  wk_CPUUsagePct :: "rat"
  wk_MemoryUsagePct :: "rat"
  wk_NetworkRxBps :: "int"
  wk_NetworkTxBps :: "int"
  wk_Capabilities :: "string list"
  wk_Labels :: "(string, string) gomap"
  wk_LastHeartbeat :: "time"
  wk_SchedulerLoadScore :: "rat"

record ColumnInfo =
  col_Name :: "string"
  col_DataType :: "string"
  col_ColumnType :: "string"
  col_Nullable :: "bool"
  col_Extra :: "string"
  col_Ordinal :: "int"
  col_PrimaryKey :: "bool"

record IndexInfo =
  idx_Name :: "string"
  idx_Columns :: "string list"
  idx_Unique :: "bool"
  idx_Primary :: "bool"

record ForeignKeyInfo =
  fk_Name :: "string"
  fk_Columns :: "string list"
  fk_ReferencedSchema :: "string"
  fk_ReferencedTable :: "string"
  fk_ReferencedColumns :: "string list"

record TopologyPlacement =
  tp_ID :: "string"
  tp_Kind :: "string"
  tp_Labels :: "(string, string) gomap"
  tp_Address :: "string"
  tp_Weight :: "int"

record TableTopologyPerformance =
  ttp_BytesPerSec :: "int"
  ttp_RowsPerSec :: "int"
  ttp_RecommendedChunkRows :: "int"
  ttp_Samples :: "int"
  ttp_DurationSamplesMS :: "int list"
  ttp_P95DurationMS :: "int"
  ttp_P99DurationMS :: "int"
  ttp_Health :: "string"
  ttp_SlowStreak :: "int"
  ttp_GoodStreak :: "int"
  ttp_RecoveryConcurrencyCap :: "int"
  ttp_HealthChangedAt :: "time"
  ttp_LastProbeAt :: "time"

record MigrationTable =
  tbl_ID :: "string"
  tbl_TaskID :: "string"
  tbl_Engine :: "string"
  tbl_SourceSchema :: "string"
  tbl_SourceTable :: "string"
  tbl_TargetSchema :: "string"
  tbl_TargetTable :: "string"
  tbl_PrimaryKeys :: "string list"
  tbl_TargetPrimaryKeys :: "string list"
  tbl_PrimaryKey :: "string"
  tbl_TargetPrimaryKey :: "string"
  tbl_PrimaryKeyType :: "string"
  tbl_Columns :: "ColumnInfo list"
  tbl_TargetColumns :: "ColumnInfo list"
  tbl_Indexes :: "IndexInfo list"
  tbl_ForeignKeys :: "ForeignKeyInfo list"
  tbl_Partitions :: "string list"
  tbl_SplitStrategy :: "string"
  tbl_CustomWhere :: "string"
  tbl_HashBuckets :: "int"
  tbl_Topology :: "TopologyPlacement list"
  tbl_EstimatedRows :: "int"
  tbl_DataLength :: "int"
  tbl_MinPK :: "int"
  tbl_MaxPK :: "int"
  tbl_TotalChunks :: "int"
  tbl_FinishedChunks :: "int"
  tbl_RowsMigrated :: "int"
  tbl_BytesMigrated :: "int"
  tbl_ProfileBytesPerSec :: "int"
  tbl_ProfileRowsPerSec :: "int"
  tbl_RecommendedChunkRows :: "int"
  tbl_PerformanceSamples :: "int"
  tbl_TopologyPerformance :: "(string, TableTopologyPerformance) gomap"
  tbl_Status :: "string"

record MigrationChunk =
  ch_ID :: "string"
  ch_TaskID :: "string"
  ch_TableID :: "string"
  ch_ChunkNo :: "int"
  ch_SplitType :: "string"
  ch_PrimaryKey :: "string"
  ch_Start :: "int"
  ch_End :: "int"
  ch_StartCursorJSON :: "string"
  ch_EndCursorJSON :: "string"
  ch_CursorJSON :: "string"
  ch_Status :: "ChunkStatus"
  ch_WorkerID :: "string"
  ch_LeaseUntil :: "time"
  ch_RowsRead :: "int"
  ch_RowsWritten :: "int"
  ch_BytesRead :: "int"
  ch_BytesWritten :: "int"
  ch_RetryCount :: "int"
  ch_LastError :: "string"
  ch_LastReadMS :: "int"
  ch_LastWriteMS :: "int"
  ch_LastBatchRows :: "int"
  ch_BackpressureLevel :: "string"
  ch_PlacementHint :: "(string, string) gomap"
  ch_FaultDomain :: "(string, string) gomap"
  ch_TopologyID :: "string"
  ch_TopologyKind :: "string"
  ch_PartitionName :: "string"
  ch_HashBucket :: "int"
  ch_HashBuckets :: "int"
  ch_CustomWhere :: "string"
  ch_StartedAt :: "time"
  ch_FinishedAt :: "time"

record ChunkProgress =
  cp_CursorJSON :: "string"
  cp_RowsRead :: "int"
  cp_RowsWritten :: "int"
  cp_BytesRead :: "int"
  cp_BytesWritten :: "int"
  cp_LastReadMS :: "int"
  cp_LastWriteMS :: "int"
  cp_LastBatchRows :: "int"
  cp_BackpressureLevel :: "string"

record ValidationResult =
  vr_ID :: "string"
  vr_TaskID :: "string"
  vr_TableID :: "string"
  vr_ChunkID :: "string"
  vr_Status :: "ValidationStatus"
  vr_SourceRows :: "int"
  vr_TargetRows :: "int"
  vr_SourceChecksum :: "string"
  vr_TargetChecksum :: "string"
  vr_LastError :: "string"
  vr_StartedAt :: "time"
  vr_FinishedAt :: "time"

record ValidationTableArchive =
  vta_TableID :: "string"
  vta_SourceSchema :: "string"
  vta_SourceTable :: "string"
  vta_TargetSchema :: "string"
  vta_TargetTable :: "string"
  vta_EvidenceScope :: "string"
  vta_ChecksumKind :: "string"
  vta_TotalChunks :: "int"
  vta_CoveredChunks :: "int"
  vta_SuccessChunks :: "int"
  vta_MismatchChunks :: "int"
  vta_ErrorChunks :: "int"
  vta_MissingChunks :: "int"
  vta_SourceRows :: "int"
  vta_TargetRows :: "int"
  vta_SourceChecksum :: "string"
  vta_TargetChecksum :: "string"
  vta_SourceChecksumDigest :: "string"
  vta_TargetChecksumDigest :: "string"
  vta_EvidenceDigest :: "string"
  vta_FirstStartedAt :: "time"
  vta_LastFinishedAt :: "time"

record ValidationArchive =
  va_TaskID :: "string"
  va_TerminalStatus :: "MigrationStatus"
  va_ValidationMode :: "string"
  va_ValidationBarrierPositionType :: "string"
  va_ValidationBarrierPosition :: "string"
  va_ValidationBarrierResource :: "string"
  va_TotalTables :: "int"
  va_TotalChunks :: "int"
  va_CoveredChunks :: "int"
  va_SuccessChunks :: "int"
  va_MismatchChunks :: "int"
  va_ErrorChunks :: "int"
  va_MissingChunks :: "int"
  va_EvidenceDigest :: "string"
  va_Tables :: "ValidationTableArchive list"
  va_ArchivedAt :: "time"

record ValidationReportArchiveRecord =
  vra_TaskID :: "string"
  vra_EvidenceDigest :: "string"
  vra_URI :: "string"
  vra_Bucket :: "string"
  vra_Prefix :: "string"
  vra_ManifestSHA256 :: "string"
  vra_PublicSignatureAlgorithm :: "string"
  vra_PublicSignatureKeyID :: "string"
  vra_PublicKeyEd25519 :: "string"
  vra_PublicKeyFingerprintSHA256 :: "string"
  vra_ObjectLockMode :: "string"
  vra_RetainUntil :: "string"
  vra_LegalHold :: "bool"
  vra_CommittedAt :: "time"

record Alert =
  al_ID :: "string"
  al_Severity :: "string"
  al_Title :: "string"
  al_Message :: "string"
  al_TaskID :: "string"
  al_Acknowledged :: "bool"
  al_CreatedAt :: "time"

record AuditEvent =
  au_ID :: "string"
  au_Actor :: "string"
  au_Action :: "string"
  au_ResourceType :: "string"
  au_ResourceID :: "string"
  au_Detail :: "string"
  au_RemoteAddr :: "string"
  au_CreatedAt :: "time"

record TaskLog =
  lg_ID :: "string"
  lg_TaskID :: "string"
  lg_WorkerID :: "string"
  lg_TableID :: "string"
  lg_ChunkID :: "string"
  lg_Level :: "string"
  lg_Message :: "string"
  lg_CreatedAt :: "time"

record CDCField =
  cf_Column :: "string"
  cf_Null :: "bool"
  cf_Value :: "string"
  cf_Encoding :: "string"

record CDCEvent =
  ev_ID :: "string"
  ev_Operation :: "CDCOperation"
  ev_SourceSchema :: "string"
  ev_SourceTable :: "string"
  ev_SQL :: "string"
  ev_Before :: "CDCField list"
  ev_After :: "CDCField list"
  ev_PositionType :: "string"
  ev_PositionValue :: "string"
  ev_Resource :: "string"
  ev_SourceTimestampMS :: "int"

record CDCDeadLetter =
  dl_ID :: "string"
  dl_TaskID :: "string"
  dl_Direction :: "string"
  dl_PositionType :: "string"
  dl_PositionValue :: "string"
  dl_Resource :: "string"
  dl_Events :: "CDCEvent list"
  dl_EventsCiphertext :: "string"
  dl_LastError :: "string"
  dl_RetryCount :: "int"
  dl_Status :: "CDCDeadLetterStatus"
  dl_CreatedAt :: "time"
  dl_UpdatedAt :: "time"
  dl_ResolvedAt :: "time"

record CDCConflictRecord =
  cc_ID :: "string"
  cc_TaskID :: "string"
  cc_Direction :: "string"
  cc_SourceSchema :: "string"
  cc_SourceTable :: "string"
  cc_KeyFingerprint :: "string"
  cc_Policy :: "string"
  cc_Decision :: "CDCConflictDecision"
  cc_SourceVersion :: "string"
  cc_TargetVersion :: "string"
  cc_PositionType :: "string"
  cc_PositionValue :: "string"
  cc_CreatedAt :: "time"

record CDCPosition =
  pos_ID :: "string"
  pos_TaskID :: "string"
  pos_Direction :: "string"
  pos_DatabaseType :: "string"
  pos_PositionType :: "string"
  pos_PositionValue :: "string"
  pos_Resource :: "string"
  pos_SourceTimestampMS :: "int"
  pos_ApplyTimestampMS :: "int"
  pos_LagMS :: "int"
  pos_EventsTotal :: "int"
  pos_EventsPending :: "int"
  pos_RecordedAt :: "time"

record CDCSpoolRecord =
  sp_ID :: "string"
  sp_TaskID :: "string"
  sp_Direction :: "string"
  sp_Sequence :: "int"
  sp_PositionType :: "string"
  sp_PositionValue :: "string"
  sp_Resource :: "string"
  sp_SourceTimestampMS :: "int"
  sp_Events :: "CDCEvent list"
  sp_EventCount :: "int"
  sp_PayloadBytes :: "int"
  sp_EventsCiphertext :: "string"
  sp_Status :: "CDCSpoolStatus"
  sp_CreatedAt :: "time"
  sp_AppliedAt :: "time"

record CDCSpoolStats =
  ss_PendingTransactions :: "int"
  ss_PendingEvents :: "int"
  ss_PendingBytes :: "int"
  ss_FirstPosition :: "string"
  ss_LastPosition :: "string"
  ss_StorageBackend :: "string"
  ss_StorageLevel :: "string"
  ss_StorageCapacityBytes :: "int"
  ss_StorageUsedBytes :: "int"
  ss_StorageFreeBytes :: "int"
  ss_StorageUsedPct :: "rat"

record EngineJob =
  ej_ID :: "string"
  ej_TaskID :: "string"
  ej_Kind :: "string"
  ej_Direction :: "string"
  ej_Engine :: "string"
  ej_Status :: "EngineJobStatus"
  ej_WorkerID :: "string"
  ej_LeaseUntil :: "time"
  ej_RetryCount :: "int"
  ej_LastError :: "string"
  ej_StartedAt :: "time"
  ej_UpdatedAt :: "time"
  ej_FinishedAt :: "time"

record User =
  us_ID :: "string"
  us_Username :: "string"
  us_PasswordHash :: "string"
  us_Role :: "string"
  us_Enabled :: "bool"
  us_CreatedAt :: "time"
  us_UpdatedAt :: "time"
  us_LastLoginAt :: "time"

section \<open>Zero values\<close>

definition zero_MigrationTable :: MigrationTable where
  "zero_MigrationTable = \<lparr>tbl_ID = '''',
    tbl_TaskID = '''',
    tbl_Engine = '''',
    tbl_SourceSchema = '''',
    tbl_SourceTable = '''',
    tbl_TargetSchema = '''',
    tbl_TargetTable = '''',
    tbl_PrimaryKeys = [],
    tbl_TargetPrimaryKeys = [],
    tbl_PrimaryKey = '''',
    tbl_TargetPrimaryKey = '''',
    tbl_PrimaryKeyType = '''',
    tbl_Columns = [],
    tbl_TargetColumns = [],
    tbl_Indexes = [],
    tbl_ForeignKeys = [],
    tbl_Partitions = [],
    tbl_SplitStrategy = '''',
    tbl_CustomWhere = '''',
    tbl_HashBuckets = 0,
    tbl_Topology = [],
    tbl_EstimatedRows = 0,
    tbl_DataLength = 0,
    tbl_MinPK = 0,
    tbl_MaxPK = 0,
    tbl_TotalChunks = 0,
    tbl_FinishedChunks = 0,
    tbl_RowsMigrated = 0,
    tbl_BytesMigrated = 0,
    tbl_ProfileBytesPerSec = 0,
    tbl_ProfileRowsPerSec = 0,
    tbl_RecommendedChunkRows = 0,
    tbl_PerformanceSamples = 0,
    tbl_TopologyPerformance = [],
    tbl_Status = ''''\<rparr>"

definition zero_MigrationChunk :: MigrationChunk where
  "zero_MigrationChunk = \<lparr>ch_ID = '''',
    ch_TaskID = '''',
    ch_TableID = '''',
    ch_ChunkNo = 0,
    ch_SplitType = '''',
    ch_PrimaryKey = '''',
    ch_Start = 0,
    ch_End = 0,
    ch_StartCursorJSON = '''',
    ch_EndCursorJSON = '''',
    ch_CursorJSON = '''',
    ch_Status = ChunkStatusOther '''',
    ch_WorkerID = '''',
    ch_LeaseUntil = 0,
    ch_RowsRead = 0,
    ch_RowsWritten = 0,
    ch_BytesRead = 0,
    ch_BytesWritten = 0,
    ch_RetryCount = 0,
    ch_LastError = '''',
    ch_LastReadMS = 0,
    ch_LastWriteMS = 0,
    ch_LastBatchRows = 0,
    ch_BackpressureLevel = '''',
    ch_PlacementHint = [],
    ch_FaultDomain = [],
    ch_TopologyID = '''',
    ch_TopologyKind = '''',
    ch_PartitionName = '''',
    ch_HashBucket = 0,
    ch_HashBuckets = 0,
    ch_CustomWhere = '''',
    ch_StartedAt = 0,
    ch_FinishedAt = 0\<rparr>"

definition zero_ValidationTableArchive :: ValidationTableArchive where
  "zero_ValidationTableArchive = \<lparr>vta_TableID = '''',
    vta_SourceSchema = '''',
    vta_SourceTable = '''',
    vta_TargetSchema = '''',
    vta_TargetTable = '''',
    vta_EvidenceScope = '''',
    vta_ChecksumKind = '''',
    vta_TotalChunks = 0,
    vta_CoveredChunks = 0,
    vta_SuccessChunks = 0,
    vta_MismatchChunks = 0,
    vta_ErrorChunks = 0,
    vta_MissingChunks = 0,
    vta_SourceRows = 0,
    vta_TargetRows = 0,
    vta_SourceChecksum = '''',
    vta_TargetChecksum = '''',
    vta_SourceChecksumDigest = '''',
    vta_TargetChecksumDigest = '''',
    vta_EvidenceDigest = '''',
    vta_FirstStartedAt = 0,
    vta_LastFinishedAt = 0\<rparr>"

definition zero_CDCEvent :: CDCEvent where
  "zero_CDCEvent = \<lparr>ev_ID = '''',
    ev_Operation = CDCOperationOther '''',
    ev_SourceSchema = '''',
    ev_SourceTable = '''',
    ev_SQL = '''',
    ev_Before = [],
    ev_After = [],
    ev_PositionType = '''',
    ev_PositionValue = '''',
    ev_Resource = '''',
    ev_SourceTimestampMS = 0\<rparr>"

definition zero_CDCField :: CDCField where
  "zero_CDCField = \<lparr>cf_Column = '''',
    cf_Null = False,
    cf_Value = '''',
    cf_Encoding = ''''\<rparr>"

definition zero_MigrationTask :: MigrationTask where
  "zero_MigrationTask = \<lparr>mig_ID = '''',
    mig_Name = '''',
    mig_SourceID = '''',
    mig_TargetID = '''',
    mig_Mode = MigrationModeOther '''',
    mig_Status = MigrationStatusOther '''',
    mig_PausedFromStatus = MigrationStatusOther '''',
    mig_FullEngine = '''',
    mig_CDCEngine = '''',
    mig_RollbackCDCEngine = '''',
    mig_CDCDDLMode = '''',
    mig_CDCConflictMode = '''',
    mig_CDCConflictColumn = '''',
    mig_SequenceSyncedAt = 0,
    mig_Tables = [],
    mig_ChunkRows = 0,
    mig_BatchRows = 0,
    mig_Parallelism = 0,
    mig_MaxRetries = 0,
    mig_AutoCreateTable = False,
    mig_ValidationEnabled = False,
    mig_ValidationMode = '''',
    mig_PostLoadDDLMode = '''',
    mig_ReadLimitMBps = 0,
    mig_WriteLimitMBps = 0,
    mig_TargetThroughputMBps = 0,
    mig_AutoThroughputEnabled = False,
    mig_CompletionSLASeconds = 0,
    mig_SLAStartedAt = 0,
    mig_ControllerTargetBytesSec = 0,
    mig_ThroughputControllerReason = '''',
    mig_AdaptiveHotspotSplits = 0,
    mig_AdaptiveRunningYields = 0,
    mig_AdaptiveTopologyDrains = 0,
    mig_AdaptiveTopologyDegradedYields = 0,
    mig_AdaptiveFaultDomainYields = 0,
    mig_ControllerAutoProbePct = 0,
    mig_ControllerSLAHeadroomPct = 0,
    mig_ControllerLearningSamples = 0,
    mig_RowsLimitPerSec = 0,
    mig_QPSLimit = 0,
    mig_RateLimitTimezone = '''',
    mig_RateLimitWindows = [],
    mig_TransformRules = [],
    mig_WorkerSelector = [],
    mig_WorkerAffinity = '''',
    mig_EffectiveParallelism = 0,
    mig_FlowControlLevel = '''',
    mig_FlowControlReason = '''',
    mig_CDCSpoolGrowthBytesSec = 0,
    mig_CDCSpoolCriticalETASeconds = 0,
    mig_Progress = 0,
    mig_TotalChunks = 0,
    mig_FinishedChunks = 0,
    mig_RowsMigrated = 0,
    mig_BytesMigrated = 0,
    mig_SpeedBytesSec = 0,
    mig_SpeedRowsSec = 0,
    mig_ETASeconds = 0,
    mig_SLAP95ETASeconds = 0,
    mig_SLAP99ETASeconds = 0,
    mig_SLARiskLevel = '''',
    mig_SLARiskReason = '''',
    mig_CDCLagMS = 0,
    mig_CDCStartTimestampMS = 0,
    mig_CDCStartPositionType = '''',
    mig_CDCStartPositionValue = '''',
    mig_CDCStartResource = '''',
    mig_ValidationBarrierPositionType = '''',
    mig_ValidationBarrierPositionValue = '''',
    mig_ValidationBarrierResource = '''',
    mig_ValidationBarrierCapturedAt = 0,
    mig_LastError = '''',
    mig_CreatedAt = 0,
    mig_UpdatedAt = 0\<rparr>"

definition zero_ValidationArchive :: ValidationArchive where
  "zero_ValidationArchive = \<lparr>va_TaskID = '''',
    va_TerminalStatus = MigrationStatusOther '''',
    va_ValidationMode = '''',
    va_ValidationBarrierPositionType = '''',
    va_ValidationBarrierPosition = '''',
    va_ValidationBarrierResource = '''',
    va_TotalTables = 0,
    va_TotalChunks = 0,
    va_CoveredChunks = 0,
    va_SuccessChunks = 0,
    va_MismatchChunks = 0,
    va_ErrorChunks = 0,
    va_MissingChunks = 0,
    va_EvidenceDigest = '''',
    va_Tables = [],
    va_ArchivedAt = 0\<rparr>"

definition zero_CDCSpoolRecord :: CDCSpoolRecord where
  "zero_CDCSpoolRecord = \<lparr>sp_ID = '''',
    sp_TaskID = '''',
    sp_Direction = '''',
    sp_Sequence = 0,
    sp_PositionType = '''',
    sp_PositionValue = '''',
    sp_Resource = '''',
    sp_SourceTimestampMS = 0,
    sp_Events = [],
    sp_EventCount = 0,
    sp_PayloadBytes = 0,
    sp_EventsCiphertext = '''',
    sp_Status = CDCSpoolStatusOther '''',
    sp_CreatedAt = 0,
    sp_AppliedAt = 0\<rparr>"

definition zero_EngineJob :: EngineJob where
  "zero_EngineJob = \<lparr>ej_ID = '''',
    ej_TaskID = '''',
    ej_Kind = '''',
    ej_Direction = '''',
    ej_Engine = '''',
    ej_Status = EngineJobStatusOther '''',
    ej_WorkerID = '''',
    ej_LeaseUntil = 0,
    ej_RetryCount = 0,
    ej_LastError = '''',
    ej_StartedAt = 0,
    ej_UpdatedAt = 0,
    ej_FinishedAt = 0\<rparr>"

definition zero_CDCPosition :: CDCPosition where
  "zero_CDCPosition = \<lparr>pos_ID = '''',
    pos_TaskID = '''',
    pos_Direction = '''',
    pos_DatabaseType = '''',
    pos_PositionType = '''',
    pos_PositionValue = '''',
    pos_Resource = '''',
    pos_SourceTimestampMS = 0,
    pos_ApplyTimestampMS = 0,
    pos_LagMS = 0,
    pos_EventsTotal = 0,
    pos_EventsPending = 0,
    pos_RecordedAt = 0\<rparr>"

definition zero_User :: User where
  "zero_User = \<lparr>us_ID = '''',
    us_Username = '''',
    us_PasswordHash = '''',
    us_Role = '''',
    us_Enabled = False,
    us_CreatedAt = 0,
    us_UpdatedAt = 0,
    us_LastLoginAt = 0\<rparr>"

definition zero_ValidationResult :: ValidationResult where
  "zero_ValidationResult = \<lparr>vr_ID = '''',
    vr_TaskID = '''',
    vr_TableID = '''',
    vr_ChunkID = '''',
    vr_Status = ValidationStatusOther '''',
    vr_SourceRows = 0,
    vr_TargetRows = 0,
    vr_SourceChecksum = '''',
    vr_TargetChecksum = '''',
    vr_LastError = '''',
    vr_StartedAt = 0,
    vr_FinishedAt = 0\<rparr>"

definition zero_DataSource :: DataSource where
  "zero_DataSource = \<lparr>ds_ID = '''',
    ds_Name = '''',
    ds_Type = DataSourceTypeOther '''',
    ds_Host = '''',
    ds_Port = 0,
    ds_Username = '''',
    ds_Password = '''',
    ds_PasswordCiphertext = '''',
    ds_Database = '''',
    ds_Schema = '''',
    ds_JDBCURL = '''',
    ds_DriverClass = '''',
    ds_CDCURL = '''',
    ds_TLSMode = TLSModeOther '''',
    ds_TLSServerName = '''',
    ds_TLSCACert = '''',
    ds_TLSClientCert = '''',
    ds_TLSClientKey = '''',
    ds_TLSClientKeyCiphertext = '''',
    ds_CreatedAt = 0,
    ds_UpdatedAt = 0\<rparr>"

definition zero_CDCSpoolStats :: CDCSpoolStats where
  "zero_CDCSpoolStats = \<lparr>ss_PendingTransactions = 0,
    ss_PendingEvents = 0,
    ss_PendingBytes = 0,
    ss_FirstPosition = '''',
    ss_LastPosition = '''',
    ss_StorageBackend = '''',
    ss_StorageLevel = '''',
    ss_StorageCapacityBytes = 0,
    ss_StorageUsedBytes = 0,
    ss_StorageFreeBytes = 0,
    ss_StorageUsedPct = 0\<rparr>"

definition zero_TableTopologyPerformance :: TableTopologyPerformance where
  "zero_TableTopologyPerformance = \<lparr>ttp_BytesPerSec = 0,
    ttp_RowsPerSec = 0,
    ttp_RecommendedChunkRows = 0,
    ttp_Samples = 0,
    ttp_DurationSamplesMS = [],
    ttp_P95DurationMS = 0,
    ttp_P99DurationMS = 0,
    ttp_Health = '''',
    ttp_SlowStreak = 0,
    ttp_GoodStreak = 0,
    ttp_RecoveryConcurrencyCap = 0,
    ttp_HealthChangedAt = 0,
    ttp_LastProbeAt = 0\<rparr>"

section \<open>Methods\<close>

fun IsMySQLFamily :: "DataSourceType \<Rightarrow> bool" where
  "IsMySQLFamily DataSourceMySQL = True"
| "IsMySQLFamily DataSourceMariaDB = True"
| "IsMySQLFamily DataSourcePolarDBX = True"
| "IsMySQLFamily DataSourceTiDB = True"
| "IsMySQLFamily DataSourceOceanBase = True"
| "IsMySQLFamily DataSourcePolarDBMySQL = True"
| "IsMySQLFamily _ = False"

definition IsPostgreSQLFamily :: "DataSourceType \<Rightarrow> bool" where
  "IsPostgreSQLFamily t \<longleftrightarrow> t = DataSourcePostgreSQL \<or> t = DataSourcePolarDBPostgreSQL"

definition IsPostgreSQLWireCompatible :: "DataSourceType \<Rightarrow> bool" where
  "IsPostgreSQLWireCompatible t \<longleftrightarrow> IsPostgreSQLFamily t \<or> t = DataSourceOpenGauss \<or>
     t = DataSourceKingbase \<or> t = DataSourceGaussDB"

definition Credential :: "DataSource \<Rightarrow> DataSourceCredential" where
  "Credential d = \<lparr>cred_Type = ds_Type d,
    cred_Host = ds_Host d,
    cred_Port = ds_Port d,
    cred_Username = ds_Username d,
    cred_Password = ds_Password d,
    cred_Database = ds_Database d,
    cred_Schema = ds_Schema d,
    cred_JDBCURL = ds_JDBCURL d,
    cred_DriverClass = ds_DriverClass d,
    cred_CDCURL = ds_CDCURL d,
    cred_TLSMode = ds_TLSMode d,
    cred_TLSServerName = ds_TLSServerName d,
    cred_TLSCACert = ds_TLSCACert d,
    cred_TLSClientCert = ds_TLSClientCert d,
    cred_TLSClientKey = ds_TLSClientKey d\<rparr>"

lemma mysql_not_postgres: "IsMySQLFamily t \<Longrightarrow> \<not> IsPostgreSQLWireCompatible t"
  by (cases t) (auto simp: IsPostgreSQLWireCompatible_def IsPostgreSQLFamily_def)

end
