(* ===== verification/StateMachine.thy ===== *)
theory StateMachine
  imports Domain
begin

text \<open>
  The migration life cycle of \<open>backend/internal/migration/state_machine.go\<close>: the table of
  allowed status changes, the guarded \<open>Transition\<close>, and the runs the table allows. The lemmas
  are a dominator analysis of the table (which statuses every run to a status has visited),
  the sinks, and progress to a sink.
\<close>

section \<open>The transition table\<close>

fun transitions :: "MigrationStatus \<Rightarrow> MigrationStatus list" where
  "transitions StatusCreated = [StatusPrechecking, StatusCancelled]"
| "transitions StatusPrechecking = [StatusPrecheckSuccess, StatusFailed, StatusCancelled]"
| "transitions StatusPrecheckSuccess = [StatusPreparing, StatusCancelled]"
| "transitions StatusPreparing =
     [StatusCDCInitializing, StatusFullMigrating, StatusFailed, StatusCancelled]"
| "transitions StatusCDCInitializing =
     [StatusFullMigrating, StatusCDCCatchingUp, StatusPaused, StatusFailed, StatusCancelled]"
| "transitions StatusFullMigrating =
     [StatusPaused, StatusFullFinished, StatusFailed, StatusCancelled]"
| "transitions StatusPaused =
     [StatusCDCInitializing, StatusFullMigrating, StatusCDCCatchingUp, StatusValidating,
      StatusRollbackSyncing, StatusCancelled]"
| "transitions StatusFullFinished = [StatusCDCCatchingUp, StatusValidating, StatusFinished]"
| "transitions StatusCDCCatchingUp =
     [StatusPaused, StatusValidating, StatusReadyCutover, StatusFailed]"
| "transitions StatusValidating =
     [StatusPaused, StatusReadyCutover, StatusFinished, StatusFailed]"
| "transitions StatusReadyCutover = [StatusCutoverRunning, StatusFailed]"
| "transitions StatusCutoverRunning = [StatusFinished, StatusFailed]"
| "transitions StatusFinished = [StatusRollbackPreparing]"
| "transitions StatusRollbackPreparing = [StatusRollbackSyncing, StatusFailed, StatusCancelled]"
| "transitions StatusRollbackSyncing =
     [StatusPaused, StatusRollbackReady, StatusFailed, StatusCancelled]"
| "transitions StatusRollbackReady = [StatusRollbackRunning, StatusFailed]"
| "transitions StatusRollbackRunning = [StatusRolledBack, StatusFailed]"
| "transitions _ = []"

definition CanTransition :: "MigrationStatus \<Rightarrow> MigrationStatus \<Rightarrow> bool" where
  "CanTransition from to \<longleftrightarrow> to \<in> set (transitions from)"

definition Transition :: "MigrationTask \<Rightarrow> MigrationStatus \<Rightarrow> go_error + MigrationTask" where
  "Transition m to =
     (if \<not> CanTransition (mig_Status m) to
      then Inl (ErrText (''invalid state transition: '' @ MigrationStatus_string (mig_Status m)
                         @ '' -> '' @ MigrationStatus_string to))
      else Inr (m\<lparr>mig_Status := to\<rparr>))"

lemma Transition_Inr_iff:
  "Transition m to = Inr m' \<longleftrightarrow> CanTransition (mig_Status m) to \<and> m' = m\<lparr>mig_Status := to\<rparr>"
  by (auto simp: Transition_def)

lemma Transition_Inl_iff:
  "(\<exists>e. Transition m to = Inl e) \<longleftrightarrow> \<not> CanTransition (mig_Status m) to"
  by (simp add: Transition_def)

section \<open>Runs\<close>

text \<open>
  A run is the list of statuses a task has had, the current one first, each step accepted by
  the table. Every run starts at \<open>CREATED\<close>, the status \<open>Service.Create\<close> writes.
\<close>

inductive status_run :: "MigrationStatus list \<Rightarrow> bool" where
  run_start: "status_run [StatusCreated]"
| run_step: "status_run (s # h) \<Longrightarrow> CanTransition s t \<Longrightarrow> status_run (t # s # h)"

inductive_cases status_run_ConsE: "status_run (t # h)"

code_pred status_run .

text \<open>A list of statuses is accepted by a chain of \<open>Transition\<close> calls.\<close>

fun apply_transitions :: "MigrationTask \<Rightarrow> MigrationStatus list \<Rightarrow> go_error + MigrationTask" where
  "apply_transitions m [] = Inr m"
| "apply_transitions m (t # ts) =
     (case Transition m t of Inl e \<Rightarrow> Inl e | Inr m' \<Rightarrow> apply_transitions m' ts)"

lemma apply_transitions_run:
  "apply_transitions m ts = Inr m' \<Longrightarrow> status_run (mig_Status m # h) \<Longrightarrow>
   status_run (rev ts @ mig_Status m # h) \<and> mig_Status m' = hd (rev ts @ [mig_Status m])"
proof (induction ts arbitrary: m h)
  case Nil
  then show ?case by simp
next
  case (Cons t ts)
  then obtain m1 where m1: "Transition m t = Inr m1" "apply_transitions m1 ts = Inr m'"
    by (auto split: sum.splits)
  then have ct: "CanTransition (mig_Status m) t" "mig_Status m1 = t"
    by (auto simp: Transition_Inr_iff)
  with Cons.prems(2) have "status_run (mig_Status m1 # mig_Status m # h)"
    by (auto intro: run_step)
  from Cons.IH [OF m1(2) this] ct(2) show ?case by (cases ts rule: rev_cases) auto
qed

section \<open>Dominators: what every run to a status has visited\<close>

definition base_phase :: "MigrationStatus set" where
  "base_phase = {StatusCreated, StatusPrechecking}"

definition prep_phase :: "MigrationStatus set" where
  "prep_phase = insert StatusPreparing (insert StatusPrecheckSuccess base_phase)"

fun visited_before :: "MigrationStatus \<Rightarrow> MigrationStatus set" where
  "visited_before StatusCreated = {}"
| "visited_before StatusPrechecking = {StatusCreated}"
| "visited_before StatusPrecheckSuccess = base_phase"
| "visited_before StatusPreparing = insert StatusPrecheckSuccess base_phase"
| "visited_before StatusFailed = base_phase"
| "visited_before StatusCancelled = {StatusCreated}"
| "visited_before StatusFullFinished = insert StatusFullMigrating prep_phase"
| "visited_before StatusCutoverRunning = insert StatusReadyCutover prep_phase"
| "visited_before StatusRollbackPreparing = insert StatusFinished prep_phase"
| "visited_before StatusRollbackReady = insert StatusRollbackSyncing prep_phase"
| "visited_before StatusRollbackRunning =
     insert StatusRollbackReady (insert StatusRollbackSyncing prep_phase)"
| "visited_before StatusRolledBack =
     insert StatusRollbackRunning (insert StatusRollbackReady
       (insert StatusRollbackSyncing prep_phase))"
| "visited_before _ = prep_phase"

lemma visited_before_step:
  "CanTransition s t \<Longrightarrow> visited_before t \<subseteq> insert s (visited_before s)"
  by (cases s; auto simp: CanTransition_def prep_phase_def base_phase_def)

lemma run_visited: "status_run (t # h) \<Longrightarrow> visited_before t \<subseteq> set h"
proof (induction "t # h" arbitrary: t h rule: status_run.induct)
  case run_start
  then show ?case by simp
next
  case (run_step s h t)
  have "visited_before t \<subseteq> insert s (visited_before s)"
    using run_step.hyps(3) by (rule visited_before_step)
  with run_step.hyps(2) show ?case by auto
qed

text \<open>Statuses a task can only have after data started to move.\<close>

definition after_transfer :: "MigrationStatus set" where
  "after_transfer = {StatusFullFinished, StatusCDCCatchingUp, StatusValidating,
     StatusReadyCutover, StatusCutoverRunning, StatusFinished, StatusPaused,
     StatusRollbackPreparing, StatusRollbackSyncing, StatusRollbackReady,
     StatusRollbackRunning, StatusRolledBack}"

definition transfer :: "MigrationStatus set" where
  "transfer = {StatusFullMigrating, StatusCDCInitializing}"

lemma after_transfer_step:
  "CanTransition s t \<Longrightarrow> t \<in> after_transfer \<Longrightarrow> s \<in> transfer \<union> after_transfer"
  by (cases s; auto simp: CanTransition_def after_transfer_def transfer_def)

lemma run_transfer: "status_run (t # h) \<Longrightarrow> t \<in> after_transfer \<Longrightarrow> set h \<inter> transfer \<noteq> {}"
proof (induction "t # h" arbitrary: t h rule: status_run.induct)
  case run_start
  then show ?case by (simp add: after_transfer_def)
next
  case (run_step s h t)
  from run_step.hyps(3) run_step.prems have "s \<in> transfer \<union> after_transfer"
    by (rule after_transfer_step)
  with run_step.hyps(2) show ?case by auto
qed

text \<open>Only catching up with CDC or a validation opens the cutover gate.\<close>

lemma ready_pred: "CanTransition s StatusReadyCutover \<Longrightarrow> s \<in> {StatusCDCCatchingUp, StatusValidating}"
  by (cases s) (auto simp: CanTransition_def)

lemma run_ready:
  "status_run (t # h) \<Longrightarrow> t = StatusReadyCutover \<or> StatusReadyCutover \<in> set h \<Longrightarrow>
   StatusCDCCatchingUp \<in> set h \<or> StatusValidating \<in> set h"
proof (induction "t # h" arbitrary: t h rule: status_run.induct)
  case run_start
  then show ?case by simp
next
  case (run_step s h t)
  then show ?case
    using ready_pred [of s] by (cases "t = StatusReadyCutover") auto
qed

section \<open>Sinks and progress\<close>

definition terminal_status :: "MigrationStatus \<Rightarrow> bool" where
  "terminal_status s \<longleftrightarrow> transitions s = []"

inductive status_reach :: "MigrationStatus \<Rightarrow> MigrationStatus \<Rightarrow> bool" where
  reach_refl: "status_reach s s"
| reach_step: "CanTransition s t \<Longrightarrow> status_reach t u \<Longrightarrow> status_reach s u"

lemma reach_one: "CanTransition s t \<Longrightarrow> status_reach s t"
  by (blast intro: status_reach.intros)

lemma reach_failed_or_cancelled:
  "transitions s \<noteq> [] \<Longrightarrow> s \<noteq> StatusFullFinished \<Longrightarrow> s \<noteq> StatusFinished \<Longrightarrow>
   status_reach s StatusFailed \<or> status_reach s StatusCancelled"
  by (cases s) (auto simp: CanTransition_def intro!: reach_one)

lemma reach_finished_step: "status_reach StatusFullFinished StatusFinished"
  by (rule reach_one) (simp add: CanTransition_def)

lemma reach_rolled_back: "status_reach StatusFinished StatusRolledBack"
proof -
  have "CanTransition StatusFinished StatusRollbackPreparing"
    and "CanTransition StatusRollbackPreparing StatusRollbackSyncing"
    and "CanTransition StatusRollbackSyncing StatusRollbackReady"
    and "CanTransition StatusRollbackReady StatusRollbackRunning"
    and "CanTransition StatusRollbackRunning StatusRolledBack"
    by (simp_all add: CanTransition_def)
  then show ?thesis by (blast intro: status_reach.intros)
qed

section \<open>Properties\<close>

text \<open>
  C1. A task reaches \<open>CUTOVER_RUNNING\<close> through the status table only after a successful
  precheck, a prepare step, a data transfer (full load or CDC initialisation) and the gate
  \<open>READY_FOR_CUTOVER\<close>, itself opened only from CDC catch-up or a validation.
\<close>

theorem cutover_is_gated:
  assumes "status_run (StatusCutoverRunning # h)"
  shows "{StatusPrecheckSuccess, StatusPreparing, StatusReadyCutover} \<subseteq> set h
    \<and> set h \<inter> {StatusFullMigrating, StatusCDCInitializing} \<noteq> {}
    \<and> set h \<inter> {StatusCDCCatchingUp, StatusValidating} \<noteq> {}"
proof -
  from run_visited [OF assms]
  have v: "{StatusPrecheckSuccess, StatusPreparing, StatusReadyCutover} \<subseteq> set h"
    by (simp add: prep_phase_def)
  moreover have "set h \<inter> transfer \<noteq> {}"
    using run_transfer [OF assms] by (simp add: after_transfer_def)
  moreover have "StatusCDCCatchingUp \<in> set h \<or> StatusValidating \<in> set h"
    using run_ready [OF assms] v by simp
  ultimately show ?thesis by (auto simp: transfer_def)
qed

theorem cutover_is_gated_witness:
  "\<exists>h. status_run (StatusCutoverRunning # h) \<and>
    {StatusPrecheckSuccess, StatusPreparing, StatusReadyCutover} \<subseteq> set h"
proof -
  let ?h = "[StatusReadyCutover, StatusValidating, StatusFullFinished, StatusFullMigrating,
     StatusPreparing, StatusPrecheckSuccess, StatusPrechecking, StatusCreated]"
  have r: "status_run (StatusCutoverRunning # ?h)"
    by (intro status_run.intros) (simp_all add: CanTransition_def)
  from cutover_is_gated [OF r] r show ?thesis by blast
qed

text \<open>
  \<open>Transition\<close> never traps a task: from every status either no change is allowed at all
  (exactly \<open>FAILED\<close>, \<open>CANCELLED\<close>, \<open>ROLLED_BACK\<close> and unknown strings) or one of these three
  sinks can be reached by allowed changes.
\<close>

theorem no_status_trap:
  "(terminal_status s \<longleftrightarrow> s \<in> {StatusFailed, StatusCancelled, StatusRolledBack}
      \<union> range MigrationStatusOther)
   \<and> (terminal_status s \<or> (\<exists>t \<in> {StatusFailed, StatusCancelled, StatusRolledBack}. status_reach s t))"
proof
  show "terminal_status s \<longleftrightarrow> s \<in> {StatusFailed, StatusCancelled, StatusRolledBack}
      \<union> range MigrationStatusOther"
    by (cases s) (auto simp: terminal_status_def)
next
  have "status_reach StatusFullFinished StatusRolledBack"
    using reach_finished_step reach_rolled_back
    by (metis CanTransition_def list.set_intros reach_step transitions.simps(8))
  then show "terminal_status s \<or> (\<exists>t \<in> {StatusFailed, StatusCancelled, StatusRolledBack}. status_reach s t)"
    using reach_failed_or_cancelled [of s] reach_rolled_back
    by (cases "s = StatusFullFinished \<or> s = StatusFinished") (auto simp: terminal_status_def)
qed

end
