(* ===== verification/GoCodec.thy ===== *)
theory GoCodec
  imports GoPrelude
begin

text \<open>
  The encodings of Go's standard library that the program uses: \<open>base64.StdEncoding\<close>,
  fixed-width big- and little-endian integers of \<open>encoding/binary\<close> and lower-case
  hexadecimal. Each encoder comes with its decoder and the inverse law.
\<close>

section \<open>Bytes\<close>

definition byte_nat :: "char \<Rightarrow> nat" where
  "byte_nat c = of_char c"

lemma byte_nat_less [simp]: "byte_nat c < 256"
  by (simp add: byte_nat_def)

lemma byte_of_nat [simp]: "char_of (byte_nat c) = c"
  by (simp add: byte_nat_def)

lemma byte_nat_of [simp]: "byte_nat (char_of n) = n mod 256"
  by (simp add: byte_nat_def)

lemma byte_nat_eq_iff: "byte_nat c = byte_nat d \<longleftrightarrow> c = d"
  by (metis byte_of_nat)

section \<open>base64.StdEncoding\<close>

definition b64_char :: "nat \<Rightarrow> char" where
  "b64_char n =
     (if n < 26 then char_of (65 + n)
      else if n < 52 then char_of (71 + n)
      else if n < 62 then char_of (n - 4)
      else if n = 62 then CHR ''+'' else CHR ''/'')"

definition b64_val :: "char \<Rightarrow> nat option" where
  "b64_val c = (let n = byte_nat c in
     if 65 \<le> n \<and> n \<le> 90 then Some (n - 65)
     else if 97 \<le> n \<and> n \<le> 122 then Some (n - 71)
     else if 48 \<le> n \<and> n \<le> 57 then Some (n + 4)
     else if n = 43 then Some 62
     else if n = 47 then Some 63 else None)"

lemma b64_val_char [simp]: "n < 64 \<Longrightarrow> b64_val (b64_char n) = Some n"
  unfolding b64_val_def b64_char_def Let_def byte_nat_def
  by (simp add: of_char_of) (linarith?)

lemma b64_char_not_pad [simp]: "n < 64 \<Longrightarrow> b64_char n \<noteq> CHR ''=''"
  using b64_val_char [of n] by (auto simp: b64_val_def byte_nat_def)

fun base64_encode :: "string \<Rightarrow> string" where
  "base64_encode [] = []"
| "base64_encode [a] =
     [b64_char (byte_nat a div 4), b64_char (byte_nat a mod 4 * 16), CHR ''='', CHR ''='']"
| "base64_encode [a, b] =
     [b64_char (byte_nat a div 4), b64_char (byte_nat a mod 4 * 16 + byte_nat b div 16),
      b64_char (byte_nat b mod 16 * 4), CHR ''='']"
| "base64_encode (a # b # c # rest) =
     b64_char (byte_nat a div 4) # b64_char (byte_nat a mod 4 * 16 + byte_nat b div 16)
       # b64_char (byte_nat b mod 16 * 4 + byte_nat c div 64) # b64_char (byte_nat c mod 64)
       # base64_encode rest"

fun base64_decode :: "string \<Rightarrow> string option" where
  "base64_decode [] = Some []"
| "base64_decode (w # x # y # z # rest) =
     (case (b64_val w, b64_val x) of
        (Some i, Some j) \<Rightarrow>
          (if y = CHR ''='' then
             (if z = CHR ''='' \<and> rest = [] then Some [char_of (i * 4 + j div 16)] else None)
           else (case b64_val y of
               None \<Rightarrow> None
             | Some k \<Rightarrow>
                 (if z = CHR ''='' then
                    (if rest = [] then Some [char_of (i * 4 + j div 16), char_of (j mod 16 * 16 + k div 4)]
                     else None)
                  else (case (b64_val z, base64_decode rest) of
                      (Some l, Some t) \<Rightarrow>
                        Some (char_of (i * 4 + j div 16) # char_of (j mod 16 * 16 + k div 4)
                              # char_of (k mod 4 * 64 + l) # t)
                    | _ \<Rightarrow> None))))
      | _ \<Rightarrow> None)"
| "base64_decode _ = None"

lemma b64_first:
  assumes "a < 256" "b < (256 :: nat)"
  shows "a div 4 < 64" "a mod 4 * 16 + b div 16 < 64"
    "a div 4 * 4 + (a mod 4 * 16 + b div 16) div 16 = a"
proof -
  have "b div 16 < 16" using assms by linarith
  then have "(a mod 4 * 16 + b div 16) div 16 = a mod 4" by simp
  then show "a div 4 * 4 + (a mod 4 * 16 + b div 16) div 16 = a" by simp
qed (use assms in linarith)+

lemma b64_second:
  assumes "b < 256" "c < (256 :: nat)"
  shows "b mod 16 * 4 + c div 64 < 64"
    "(a mod 4 * 16 + b div 16) mod 16 * 16 + (b mod 16 * 4 + c div 64) div 4 = b"
proof -
  have "c div 64 < 4" "b div 16 < 16" using assms by linarith+
  then have "(b mod 16 * 4 + c div 64) div 4 = b mod 16"
    and "(a mod 4 * 16 + b div 16) mod 16 = b div 16" by simp_all
  then show "(a mod 4 * 16 + b div 16) mod 16 * 16 + (b mod 16 * 4 + c div 64) div 4 = b" by simp
qed (use assms in linarith)

lemma b64_third:
  assumes "c < (256 :: nat)"
  shows "(b mod 16 * 4 + c div 64) mod 4 * 64 + c mod 64 = c"
proof -
  have "c div 64 < 4" using assms by linarith
  then have "(b mod 16 * 4 + c div 64) mod 4 = c div 64" by simp
  then show ?thesis by simp
qed

lemma b64_decode_group:
  assumes "i < 64" "j < 64" "k < 64" "l < 64"
  shows "base64_decode (b64_char i # b64_char j # b64_char k # b64_char l # rest) =
    (case base64_decode rest of None \<Rightarrow> None
     | Some t \<Rightarrow> Some (char_of (i * 4 + j div 16) # char_of (j mod 16 * 16 + k div 4)
                     # char_of (k mod 4 * 64 + l) # t))"
  using assms by (simp split: option.split)

lemma base64_roundtrip [simp]: "base64_decode (base64_encode s) = Some s"
proof (induction s rule: base64_encode.induct)
  case 1
  show ?case by simp
next
  case (2 a)
  have "byte_nat a div 4 < 64" "byte_nat a mod 4 * 16 < 64"
    and "byte_nat a div 4 * 4 + byte_nat a mod 4 * 16 div 16 = byte_nat a"
    using b64_first [of "byte_nat a" 0] by simp_all
  then show ?case by (simp del: mult_div_mod_eq add: byte_nat_def [symmetric])
next
  case (3 a b)
  note f = b64_first [of "byte_nat a" "byte_nat b"]
  have "byte_nat b mod 16 * 4 < 64"
    and "(byte_nat a mod 4 * 16 + byte_nat b div 16) mod 16 * 16 + byte_nat b mod 16 * 4 div 4
      = byte_nat b"
    using b64_second(1) [of "byte_nat b" 0] b64_second(2) [of "byte_nat b" 0 "byte_nat a"] by simp_all
  with f show ?case by simp
next
  case (4 a b c rest)
  note f = b64_first [of "byte_nat a" "byte_nat b", OF byte_nat_less byte_nat_less]
    b64_second(1) [of "byte_nat b" "byte_nat c", OF byte_nat_less byte_nat_less]
    b64_second(2) [of "byte_nat b" "byte_nat c" "byte_nat a", OF byte_nat_less byte_nat_less]
    b64_third [of "byte_nat c" "byte_nat b", OF byte_nat_less]
  have l: "byte_nat c mod 64 < 64" by simp
  show ?case
    by (simp only: base64_encode.simps b64_decode_group [OF f(1) f(2) f(4) l] f byte_of_nat
        "4.IH" option.case)
qed

lemma base64_inj: "base64_encode s = base64_encode t \<Longrightarrow> s = t"
  by (metis base64_roundtrip option.inject)

section \<open>Fixed-width integers\<close>

text \<open>Big-endian and little-endian values of \<open>n\<close> bytes.\<close>

fun be_nat :: "string \<Rightarrow> nat" where
  "be_nat [] = 0"
| "be_nat (c # cs) = byte_nat c * 256 ^ length cs + be_nat cs"

fun le_nat :: "string \<Rightarrow> nat" where
  "le_nat [] = 0"
| "le_nat (c # cs) = byte_nat c + 256 * le_nat cs"

fun be_bytes :: "nat \<Rightarrow> nat \<Rightarrow> string" where
  "be_bytes 0 v = []"
| "be_bytes (Suc n) v = char_of (v div 256 ^ n mod 256) # be_bytes n v"

fun le_bytes :: "nat \<Rightarrow> nat \<Rightarrow> string" where
  "le_bytes 0 v = []"
| "le_bytes (Suc n) v = char_of (v mod 256) # le_bytes n (v div 256)"

lemma length_be_bytes [simp]: "length (be_bytes n v) = n"
  by (induction n) auto

lemma length_le_bytes [simp]: "length (le_bytes n v) = n"
  by (induction n arbitrary: v) auto

lemma be_nat_be_bytes: "be_nat (be_bytes n v) = v mod 256 ^ n"
proof (induction n)
  case 0
  then show ?case by simp
next
  case (Suc n)
  have "v mod 256 ^ Suc n = v div 256 ^ n mod 256 * 256 ^ n + v mod 256 ^ n"
    by (simp add: mod_mult2_eq mult.commute [of 256])
  with Suc show ?case by simp
qed

lemma le_nat_le_bytes: "le_nat (le_bytes n v) = v mod 256 ^ n"
  by (induction n arbitrary: v) (simp_all add: mod_mult2_eq)

lemma be_nat_bound: "be_nat bs < 256 ^ length bs"
proof (induction bs)
  case Nil
  then show ?case by simp
next
  case (Cons c cs)
  have "byte_nat c * 256 ^ length cs + be_nat cs < (byte_nat c + 1) * 256 ^ length cs"
    using Cons by simp
  also have "\<dots> \<le> 256 * 256 ^ length cs"
    by (intro mult_right_mono) (use byte_nat_less [of c] in \<open>simp_all add: Suc_le_eq\<close>)
  finally show ?case by simp
qed

lemma le_nat_bound: "le_nat bs < 256 ^ length bs"
proof (induction bs)
  case Nil
  then show ?case by simp
next
  case (Cons c cs)
  have "byte_nat c + 256 * le_nat cs < 256 * (le_nat cs + 1)"
    using byte_nat_less [of c] by simp
  also have "\<dots> \<le> 256 * 256 ^ length cs"
    by (intro mult_left_mono) (use Cons in \<open>simp_all add: Suc_le_eq\<close>)
  finally show ?case by simp
qed

section \<open>Hexadecimal\<close>

definition hex_digit :: "nat \<Rightarrow> char" where
  "hex_digit n = (if n < 10 then char_of (48 + n) else char_of (87 + n))"

definition hex_val :: "char \<Rightarrow> nat option" where
  "hex_val c = (let n = byte_nat c in
     if 48 \<le> n \<and> n \<le> 57 then Some (n - 48)
     else if 97 \<le> n \<and> n \<le> 102 then Some (n - 87)
     else if 65 \<le> n \<and> n \<le> 70 then Some (n - 55) else None)"

lemma hex_val_digit [simp]: "n < 16 \<Longrightarrow> hex_val (hex_digit n) = Some n"
  unfolding hex_val_def hex_digit_def Let_def byte_nat_def
  by (simp add: of_char_of) (linarith?)

definition hex_byte :: "char \<Rightarrow> string" where
  "hex_byte c = [hex_digit (byte_nat c div 16), hex_digit (byte_nat c mod 16)]"

definition hex_encode :: "string \<Rightarrow> string" where
  "hex_encode s = concat (map hex_byte s)"

fun hex_decode :: "string \<Rightarrow> string option" where
  "hex_decode [] = Some []"
| "hex_decode (a # b # rest) =
     (case (hex_val a, hex_val b, hex_decode rest) of
        (Some i, Some j, Some t) \<Rightarrow> Some (char_of (i * 16 + j) # t)
      | _ \<Rightarrow> None)"
| "hex_decode [_] = None"

lemma hex_roundtrip [simp]: "hex_decode (hex_encode s) = Some s"
proof (induction s)
  case Nil
  then show ?case by (simp add: hex_encode_def)
next
  case (Cons c s)
  have "byte_nat c div 16 < 16" using byte_nat_less [of c] by linarith
  with Cons show ?case by (simp add: hex_encode_def hex_byte_def)
qed

lemma length_hex_encode [simp]: "length (hex_encode s) = 2 * length s"
  by (induction s) (simp_all add: hex_encode_def hex_byte_def)

end
