(* ===== verification/GoFloat.thy ===== *)
theory GoFloat
  imports GoPrelude Complex_Main
begin

text \<open>
  Finite \<open>float64\<close> values are rationals; every arithmetic operation is followed by \<open>f64\<close>,
  rounding to 53 significant bits, ties to even. The modelled code stays within the
  exponent range, so there is no overflow, underflow or NaN in the model.
\<close>

function bit_len :: "int \<Rightarrow> int" where
  "bit_len n = (if n \<le> 0 then 0 else 1 + bit_len (n div 2))"
  by pat_completeness auto
termination
  by (relation "measure nat") auto

declare bit_len.simps [simp del]

definition pow2 :: "int \<Rightarrow> rat" where
  "pow2 e = (if 0 \<le> e then 2 ^ nat e else 1 / 2 ^ nat (- e))"

definition round_half_even :: "rat \<Rightarrow> int" where
  "round_half_even x = (let f = \<lfloor>x\<rfloor>; d = x - of_int f in
     if d < 1 / 2 then f else if 1 / 2 < d then f + 1 else if even f then f else f + 1)"

definition f64 :: "rat \<Rightarrow> rat" where
  "f64 x =
     (if x = 0 then 0
      else let (p, q) = quotient_of \<bar>x\<bar>;
               e0 = bit_len p - bit_len q - 53;
               e = (if 2 ^ 53 \<le> \<bar>x\<bar> / pow2 e0 then e0 + 1 else e0)
           in of_int (round_half_even (x / pow2 e)) * pow2 e)"

section \<open>Accuracy\<close>

lemma pow2_powi: "pow2 e = 2 powi e"
  by (simp add: pow2_def power_int_def inverse_eq_divide power_one_over)

lemma pow2_pos [simp]: "0 < pow2 e"
  by (simp add: pow2_powi)

lemma pow2_neq_0 [simp]: "pow2 e \<noteq> 0"
  by (metis less_irrefl pow2_pos)

lemma pow2_add: "pow2 (a + b) = pow2 a * pow2 b"
  by (simp add: pow2_powi power_int_add)

lemma pow2_nat: "0 \<le> e \<Longrightarrow> pow2 e = of_int (2 ^ nat e)"
  by (simp add: pow2_def)

lemma bit_len_bounds: "0 < n \<Longrightarrow> 1 \<le> bit_len n \<and> 2 ^ nat (bit_len n - 1) \<le> n \<and> n < 2 ^ nat (bit_len n)"
proof (induction n rule: bit_len.induct)
  case (1 n)
  show ?case
  proof (cases "n = 1")
    case True
    then show ?thesis by (simp add: bit_len.simps)
  next
    case False
    with 1 have IH: "1 \<le> bit_len (n div 2)" "2 ^ nat (bit_len (n div 2) - 1) \<le> n div 2"
      "n div 2 < 2 ^ nat (bit_len (n div 2))" by simp_all
    let ?b = "bit_len (n div 2)"
    have b: "bit_len n = 1 + ?b" using 1 by (subst bit_len.simps) simp
    have "nat ?b = Suc (nat (?b - 1))" "nat (1 + ?b) = Suc (nat ?b)" using IH(1) by simp_all
    then have p: "(2::int) ^ nat ?b = 2 * 2 ^ nat (?b - 1)" "(2::int) ^ nat (1 + ?b) = 2 * 2 ^ nat ?b"
      by simp_all
    have "2 * (n div 2) \<le> n" "n < 2 * (n div 2) + 2" by simp_all
    with IH p show ?thesis unfolding b by simp
  qed
qed

lemma bit_len_le: "0 < n \<Longrightarrow> n < 2 ^ k \<Longrightarrow> bit_len n \<le> int k"
proof -
  assume n: "0 < n" "n < 2 ^ k"
  from bit_len_bounds [OF n(1)] have "(2::int) ^ nat (bit_len n - 1) < 2 ^ k" using n(2) by linarith
  then have "nat (bit_len n - 1) < k" by (rule power_less_imp_less_exp [rotated]) simp
  with bit_len_bounds [OF n(1)] show ?thesis by linarith
qed

lemma round_half_even_int [simp]: "round_half_even (of_int n) = n"
  by (simp add: round_half_even_def)

lemma round_half_even_err: "\<bar>of_int (round_half_even x) - x\<bar> \<le> 1 / 2"
  unfolding round_half_even_def Let_def by (auto simp: abs_if) linarith+

text \<open>The exponent that \<open>f64\<close> chooses for a positive argument.\<close>

definition f64_exp :: "rat \<Rightarrow> int" where
  "f64_exp x = (let (p, q) = quotient_of x; e0 = bit_len p - bit_len q - 53
     in if 2 ^ 53 \<le> x / pow2 e0 then e0 + 1 else e0)"

lemma f64_pos: "0 < x \<Longrightarrow> f64 x = of_int (round_half_even (x / pow2 (f64_exp x))) * pow2 (f64_exp x)"
  by (simp add: f64_def f64_exp_def Let_def split: prod.splits)

text \<open>Integers of at most 53 bits are represented exactly.\<close>

lemma f64_int:
  assumes "0 \<le> n" "n < 2 ^ 53"
  shows "f64 (of_int n) = of_int n"
proof (cases "n = 0")
  case True
  then show ?thesis by (simp add: f64_def)
next
  case False
  with assms have n: "0 < n" by simp
  have b1: "bit_len 1 = 1" by (simp add: bit_len.simps)
  from bit_len_le [OF n assms(2)] have "f64_exp (of_int n) \<le> 0"
    by (simp add: f64_exp_def quotient_of_int b1 Let_def)
  then have "pow2 (- f64_exp (of_int n)) = of_int (2 ^ nat (- f64_exp (of_int n)))"
    by (intro pow2_nat) simp
  moreover have "pow2 (f64_exp (of_int n)) * pow2 (- f64_exp (of_int n)) = 1"
    by (simp add: pow2_add [symmetric]) (simp add: pow2_def)
  ultimately have "of_int n / pow2 (f64_exp (of_int n))
      = of_int (n * 2 ^ nat (- f64_exp (of_int n)))"
    by (simp add: nonzero_divide_eq_eq mult.assoc mult.commute mult.left_commute)
  then have "of_int (round_half_even (of_int n / pow2 (f64_exp (of_int n))))
      = (of_int n / pow2 (f64_exp (of_int n)) :: rat)"
    by (metis round_half_even_int)
  with n show ?thesis by (simp add: f64_pos)
qed

lemma f64_exp_normal:
  assumes "0 < x"
  shows "2 ^ 52 \<le> x / pow2 (f64_exp x)"
proof -
  obtain p q where pq: "quotient_of x = (p, q)" by (cases "quotient_of x")
  then have q: "0 < q" by (rule quotient_of_denom_pos)
  have x: "x = of_int p / of_int q" using pq by (rule quotient_of_div)
  with assms q have p: "0 < p" by (simp add: zero_less_divide_iff)
  let ?a = "bit_len p" and ?b = "bit_len q"
  have P: "pow2 (?a - 1) \<le> of_int p" "of_int q \<le> pow2 ?b"
    using bit_len_bounds [OF p] bit_len_bounds [OF q]
    by (simp_all add: pow2_nat del: of_int_power)
  have e0: "2 ^ 52 \<le> x / pow2 (?a - ?b - 53)"
  proof -
    have "?a - 1 = (?a - ?b - 53) + (?b + 52)" by simp
    then have "pow2 (?a - 1) = pow2 (?a - ?b - 53) * (pow2 ?b * pow2 52)"
      by (metis pow2_add)
    moreover have "pow2 52 = 2 ^ 52" by (simp add: pow2_def)
    ultimately have "pow2 (?a - ?b - 53) * pow2 ?b * 2 ^ 52 \<le> of_int p" using P(1) by simp
    moreover have "pow2 (?a - ?b - 53) * of_int q * 2 ^ 52 \<le> pow2 (?a - ?b - 53) * pow2 ?b * 2 ^ 52"
      using P(2) by (intro mult_right_mono mult_left_mono) (simp_all add: less_imp_le)
    ultimately have "2 ^ 52 * (pow2 (?a - ?b - 53) * of_int q) \<le> of_int p"
      by (simp only: mult.commute mult.left_commute)
    with q show ?thesis by (simp add: x pos_le_divide_eq mult.commute)
  qed
  show ?thesis
  proof (cases "2 ^ 53 \<le> x / pow2 (?a - ?b - 53)")
    case True
    have "pow2 (?a - ?b - 52) = 2 * pow2 (?a - ?b - 53)"
      using pow2_add [of 1 "?a - ?b - 53"] by (simp add: pow2_def [of 1])
    with True pq show ?thesis by (simp add: f64_exp_def Let_def field_simps)
  next
    case False
    with e0 pq show ?thesis by (simp add: f64_exp_def Let_def)
  qed
qed

text \<open>The relative error of a rounding is at most \<open>2 ^ -53\<close>.\<close>

lemma f64_err:
  assumes "0 < x"
  shows "\<bar>f64 x - x\<bar> \<le> x / 2 ^ 53"
proof -
  let ?P = "pow2 (f64_exp x)"
  let ?y = "x / ?P"
  have "f64 x - x = (of_int (round_half_even ?y) - ?y) * ?P"
    using pow2_pos [of "f64_exp x"] by (simp add: f64_pos [OF assms] left_diff_distrib)
  then have "\<bar>f64 x - x\<bar> = \<bar>of_int (round_half_even ?y) - ?y\<bar> * ?P"
    by (simp add: abs_mult less_imp_le)
  also have "\<dots> \<le> 1 / 2 * ?P"
    by (intro mult_right_mono round_half_even_err) (simp add: less_imp_le)
  also have "\<dots> \<le> ?y / 2 ^ 53 * ?P"
  proof (rule mult_right_mono)
    show "1 / 2 \<le> ?y / 2 ^ 53"
      using divide_right_mono [OF f64_exp_normal [OF assms], of "2 ^ 53"] by simp
  qed (simp add: less_imp_le)
  also have "\<dots> = x / 2 ^ 53" using pow2_pos [of "f64_exp x"] by simp
  finally show ?thesis .
qed

text \<open>
  A quotient of integers by a small divisor keeps its ceiling: the rounding error is far
  below the distance of a non-integer quotient from the next integer.
\<close>

lemma ceil_div_int:
  assumes "0 < (d :: int)"
  shows "(x + d - 1) div d = (if x mod d = 0 then x div d else x div d + 1)"
proof -
  have x: "x = d * (x div d) + x mod d" by simp
  have m: "0 \<le> x mod d" "x mod d < d" using assms by simp_all
  show ?thesis
  proof (cases "x mod d = 0")
    case True
    with x have "x + d - 1 = d * (x div d) + (d - 1)" by linarith
    then have "(x + d - 1) div d = x div d" by (rule int_div_pos_eq) (use assms in auto)
    with True show ?thesis by simp
  next
    case False
    from x have "x + d - 1 = d * (x div d + 1) + (x mod d - 1)"
      by (simp add: distrib_left)
    then have "(x + d - 1) div d = x div d + 1" by (rule int_div_pos_eq) (use m False in auto)
    with False show ?thesis by simp
  qed
qed

lemma ceil_f64_quotient:
  assumes "0 < x" "0 < d" "x < 2 ^ 53"
  shows "\<lceil>f64 (of_int x / of_int d)\<rceil> = (x + d - 1) div d"
proof (cases "x mod d = 0")
  case True
  then have xd: "x = d * (x div d)" by auto
  then have q: "of_int x / of_int d = (of_int (x div d) :: rat)"
    using assms(2) by (metis less_irrefl nonzero_mult_div_cancel_left of_int_eq_0_iff of_int_mult)
  have "0 \<le> x div d" using assms by (simp add: pos_imp_zdiv_nonneg_iff)
  then have "1 * (x div d) \<le> d * (x div d)" using assms(2) by (intro mult_right_mono) auto
  with xd have "x div d \<le> x" by linarith
  then have "f64 (of_int x / of_int d) = of_int (x div d)"
    unfolding q using assms by (intro f64_int) (simp_all add: pos_imp_zdiv_nonneg_iff)
  with True assms(2) show ?thesis by (simp add: ceil_div_int)
next
  case False
  let ?y = "of_int x / of_int d :: rat" and ?r = "x div d"
  have d: "0 < (of_int d :: rat)" using assms(2) by simp
  have "of_int x < (2 ^ 53 :: rat)" using assms(3) by (metis of_int_less_iff of_int_numeral of_int_power)
  then have "?y / 2 ^ 53 < 1 / of_int d" using d by (simp add: field_simps)
  moreover have "\<bar>f64 ?y - ?y\<bar> \<le> ?y / 2 ^ 53" using assms d by (intro f64_err) simp
  ultimately have err: "\<bar>f64 ?y - ?y\<bar> < 1 / of_int d" by linarith
  have "0 \<le> x mod d" "x mod d < d" using assms(2) by simp_all
  with False have m: "1 \<le> x mod d" "x mod d + 1 \<le> d" by linarith+
  have x: "x = ?r * d + x mod d" by simp
  with m have "?r * d + 1 \<le> x" "x + 1 \<le> (?r + 1) * d"
    unfolding distrib_right mult_1 by linarith+
  then have "of_int (?r * d + 1) \<le> (of_int x :: rat)" "of_int (x + 1) \<le> (of_int ((?r + 1) * d) :: rat)"
    by (simp_all only: of_int_le_iff)
  then have "of_int (?r * d + 1) / of_int d \<le> ?y" "of_int (x + 1) / of_int d \<le> (of_int ((?r + 1) * d) / of_int d :: rat)"
    using d by (simp_all only: divide_right_mono less_imp_le)
  then have "of_int ?r + 1 / of_int d \<le> ?y" "?y + 1 / of_int d \<le> of_int ?r + 1"
    using d by (simp_all add: add_divide_distrib)
  with err have "of_int ?r < f64 ?y" "f64 ?y \<le> of_int ?r + 1" by linarith+
  then have "\<lceil>f64 ?y\<rceil> = ?r + 1" by (simp add: ceiling_eq_iff)
  with False assms(2) show ?thesis by (simp add: ceil_div_int)
qed

text \<open>
  Conversion of a \<open>float64\<close> to \<open>int64\<close> truncates; a value out of range gives the smallest
  \<open>int64\<close>, as the amd64 instruction does (Go leaves the value implementation-defined).
\<close>

definition f64_to_i64 :: "rat \<Rightarrow> int" where
  "f64_to_i64 x = (let t = (if 0 \<le> x then \<lfloor>x\<rfloor> else \<lceil>x\<rceil>) in
     if in_i64 t then t else - (2 ^ 63))"

text \<open>\<open>math.Round\<close> rounds half away from zero.\<close>

definition go_round :: "rat \<Rightarrow> rat" where
  "go_round x = (if 0 \<le> x then of_int \<lfloor>x + 1 / 2\<rfloor> else of_int \<lceil>x - 1 / 2\<rceil>)"

lemma f64_to_i64_range [simp]: "in_i64 (f64_to_i64 x)"
  by (auto simp: f64_to_i64_def Let_def in_i64_def)

end
