(* ===== verification/ChunkPlanner.thy ===== *)
theory ChunkPlanner
  imports Domain GoCodec GoFloat
begin

text \<open>
  Chunk planning, \<open>backend/internal/migration/chunk_planner.go\<close>: the split of a signed integer
  key range into inclusive chunks, by key span and by estimated rows, the conversion of
  ordered split points into keyset chunks with JSON cursors, and the number of partitions a
  table is cut into. Arithmetic wraps at 64 bits and the row estimate goes through \<open>float64\<close>.
\<close>

section \<open>Integer ranges\<close>

definition range_chunk :: "int \<Rightarrow> int \<Rightarrow> int \<Rightarrow> MigrationChunk" where
  "range_chunk no start stop = zero_MigrationChunk\<lparr>ch_ChunkNo := no,
     ch_SplitType := ''PRIMARY_KEY_RANGE'', ch_Start := start, ch_End := stop,
     ch_Status := ChunkPending\<rparr>"

definition range_end :: "int \<Rightarrow> int \<Rightarrow> int \<Rightarrow> int" where
  "range_end maxPK width start = (let e = i64 (i64 (start + width) - 1) in
     if e < start \<or> e > maxPK then maxPK else e)"

text \<open>
  The loop of \<open>PlanIntegerRange\<close>. \<open>end + 1\<close> is only computed for an end below \<open>maxPK\<close>, so it
  stays in range and is written without the wrap.
\<close>

function range_loop :: "int \<Rightarrow> int \<Rightarrow> int \<Rightarrow> int \<Rightarrow> MigrationChunk list" where
  "range_loop maxPK width no start =
     (if start \<le> maxPK then
        (let stop = range_end maxPK width start in
           range_chunk no start stop
             # (if stop = maxPK then [] else range_loop maxPK width (no + 1) (stop + 1)))
      else [])"
  by pat_completeness auto
termination
  by (relation "measure (\<lambda>(maxPK, width, no, start). nat (maxPK - start + 1))")
    (auto simp: range_end_def Let_def split: if_splits)

declare range_loop.simps [simp del]

definition PlanIntegerRange :: "int \<Rightarrow> int \<Rightarrow> int \<Rightarrow> go_error + MigrationChunk list" where
  "PlanIntegerRange minPK maxPK width =
     (if width \<le> 0 then Inl (ErrText ''span must be greater than zero'')
      else if minPK > maxPK then Inl (ErrText ''minPK must be <= maxPK'')
      else Inr (range_loop maxPK width 1 minPK))"

lemma range_chunk_simps [simp]:
  "ch_ChunkNo (range_chunk n s e) = n" "ch_Start (range_chunk n s e) = s"
  "ch_End (range_chunk n s e) = e" "ch_Status (range_chunk n s e) = ChunkPending"
  by (simp_all add: range_chunk_def)

lemma range_end_eq:
  assumes "in_i64 start" "in_i64 maxPK" "in_i64 width" "0 < width" "start \<le> maxPK"
  shows "range_end maxPK width start = min maxPK (start + width - 1)"
proof (cases "in_i64 (start + width)")
  case True
  then have "in_i64 (start + width - 1)"
    using assms by (simp add: in_i64_def)
  with True show ?thesis using assms by (simp add: range_end_def Let_def)
next
  case False
  then have big: "2 ^ 63 \<le> start + width" using assms by (simp add: in_i64_def)
  then have w: "i64 (start + width) = start + width - 2 ^ 64"
    by (rule i64_above) (use assms in \<open>simp add: in_i64_def\<close>)
  show ?thesis
  proof (cases "start + width = 2 ^ 63")
    case True
    then have "i64 (i64 (start + width) - 1) = 2 ^ 63 - 1" by (simp add: i64_def)
    with True show ?thesis using assms by (auto simp: range_end_def Let_def in_i64_def)
  next
    case False
    with big w assms have "i64 (i64 (start + width) - 1) = start + width - 2 ^ 64 - 1"
      by (simp add: in_i64_def)
    moreover have "start + width - 2 ^ 64 - 1 < start" using assms by (simp add: in_i64_def)
    ultimately show ?thesis using assms big by (auto simp: range_end_def Let_def in_i64_def)
  qed
qed

text \<open>What one call of the loop delivers, by induction along the loop.\<close>

lemma range_loop_spec:
  assumes "in_i64 maxPK" "in_i64 width" "0 < width" "in_i64 start" "start \<le> maxPK"
  shows "range_loop maxPK width no start \<noteq> []
    \<and> concat (map (\<lambda>c. [ch_Start c..ch_End c]) (range_loop maxPK width no start)) = [start..maxPK]
    \<and> map ch_ChunkNo (range_loop maxPK width no start)
        = [no..no + int (length (range_loop maxPK width no start)) - 1]
    \<and> (\<forall>c \<in> set (range_loop maxPK width no start).
          ch_Start c \<le> ch_End c \<and> ch_End c - ch_Start c < width \<and> ch_Status c = ChunkPending)
    \<and> (int (length (range_loop maxPK width no start)) - 1) * width \<le> maxPK - start"
  using assms
proof (induction maxPK width no start rule: range_loop.induct)
  case (1 maxPK width no start)
  let ?e = "range_end maxPK width start"
  have e: "?e = min maxPK (start + width - 1)" using "1.prems" by (intro range_end_eq)
  show ?case
  proof (cases "?e = maxPK")
    case True
    with "1.prems" have "range_loop maxPK width no start = [range_chunk no start maxPK]"
      by (subst range_loop.simps) simp
    with True e "1.prems" show ?thesis by simp
  next
    case False
    with e have e': "?e = start + width - 1" "?e < maxPK" by auto
    let ?r = "range_loop maxPK width (no + 1) (?e + 1)"
    have "in_i64 (?e + 1)" using e' "1.prems" by (simp add: in_i64_def)
    with "1.IH" [OF "1.prems"(5) refl False] e' "1.prems"
    have IH: "?r \<noteq> []" "concat (map (\<lambda>c. [ch_Start c..ch_End c]) ?r) = [?e + 1..maxPK]"
      "map ch_ChunkNo ?r = [no + 1..no + 1 + int (length ?r) - 1]"
      "\<forall>c \<in> set ?r. ch_Start c \<le> ch_End c \<and> ch_End c - ch_Start c < width \<and> ch_Status c = ChunkPending"
      "(int (length ?r) - 1) * width \<le> maxPK - (?e + 1)"
      by simp_all
    have un: "range_loop maxPK width no start = range_chunk no start ?e # ?r"
      using "1.prems" False by (subst range_loop.simps) (simp add: Let_def)
    have "[start..maxPK] = [start..?e] @ [?e + 1..maxPK]"
      using e' "1.prems" by (subst upto_split2 [of start ?e maxPK]) auto
    moreover have "[no..no + int (length ?r)] = no # [no + 1..no + int (length ?r)]"
      by (subst upto.simps) simp
    moreover have "int (length ?r) * width \<le> maxPK - start"
      using IH(5) e' by (simp add: algebra_simps)
    ultimately show ?thesis
      unfolding un using IH(1-4) e' "1.prems" by simp
  qed
qed

text \<open>The chunks of a plan cover the range exactly: each key is in one chunk, in key order.\<close>

definition chunk_partition :: "int \<Rightarrow> int \<Rightarrow> MigrationChunk list \<Rightarrow> bool" where
  "chunk_partition minPK maxPK cs \<longleftrightarrow>
     concat (map (\<lambda>c. [ch_Start c..ch_End c]) cs) = [minPK..maxPK] \<and>
     map ch_ChunkNo cs = [1..int (length cs)] \<and>
     (\<forall>c \<in> set cs. ch_Start c \<le> ch_End c \<and> ch_Status c = ChunkPending)"

lemma PlanIntegerRange_ok:
  assumes "in_i64 minPK" "in_i64 maxPK" "in_i64 width" "0 < width" "minPK \<le> maxPK"
  obtains cs where "PlanIntegerRange minPK maxPK width = Inr cs" "chunk_partition minPK maxPK cs"
    "cs \<noteq> []" "\<forall>c \<in> set cs. ch_End c - ch_Start c < width"
    "(int (length cs) - 1) * width \<le> maxPK - minPK"
  using range_loop_spec [OF assms(2-4,1,5), of 1] assms(4,5)
  by (auto simp: PlanIntegerRange_def chunk_partition_def)

section \<open>Ranges by estimated rows\<close>

definition rows_chunk_count :: "int \<Rightarrow> int \<Rightarrow> int" where
  "rows_chunk_count estimatedRows targetRows =
     (let n = f64_to_i64 (of_int \<lceil>f64 (f64 (of_int estimatedRows) / f64 (of_int targetRows))\<rceil>) in
      if n < 1 then 1 else n)"

definition rows_estimate :: "int \<Rightarrow> int \<Rightarrow> int \<Rightarrow> int" where
  "rows_estimate minPK maxPK estimatedRows =
     (if estimatedRows \<le> 0 then i64 (i64 (maxPK - minPK) + 1) else estimatedRows)"

definition rows_span :: "int \<Rightarrow> int \<Rightarrow> int" where
  "rows_span rangeSize chunkCount =
     (let w = go_div rangeSize chunkCount;
          w = (if go_mod rangeSize chunkCount \<noteq> 0 then i64 (w + 1) else w)
      in if w < 1 then 1 else w)"

definition PlanIntegerRangeByRows ::
  "int \<Rightarrow> int \<Rightarrow> int \<Rightarrow> int \<Rightarrow> go_error + MigrationChunk list" where
  "PlanIntegerRangeByRows minPK maxPK estimatedRows targetRows =
     (if targetRows \<le> 0 then Inl (ErrText ''targetRows must be greater than zero'')
      else if minPK > maxPK then Inl (ErrText ''minPK must be <= maxPK'')
      else let chunkCount = rows_chunk_count (rows_estimate minPK maxPK estimatedRows) targetRows;
               rangeSize = i64 (i64 (maxPK - minPK) + 1)
           in if rangeSize \<le> 0 then Inl (ErrText ''primary key range overflow'')
              else PlanIntegerRange minPK maxPK (rows_span rangeSize chunkCount))"

lemma rows_chunk_count_pos: "1 \<le> rows_chunk_count e t"
  by (simp add: rows_chunk_count_def Let_def)

lemma wrapped_range_size:
  assumes "in_i64 minPK" "in_i64 maxPK" "minPK \<le> maxPK"
  shows "i64 (i64 (maxPK - minPK) + 1) \<le> 0 \<longleftrightarrow> 2 ^ 63 \<le> maxPK - minPK + 1"
    and "maxPK - minPK + 1 < 2 ^ 63 \<Longrightarrow> i64 (i64 (maxPK - minPK) + 1) = maxPK - minPK + 1"
proof -
  show small: "i64 (i64 (maxPK - minPK) + 1) = maxPK - minPK + 1"
    if "maxPK - minPK + 1 < 2 ^ 63" using that assms by (simp add: in_i64_def)
  show "i64 (i64 (maxPK - minPK) + 1) \<le> 0 \<longleftrightarrow> 2 ^ 63 \<le> maxPK - minPK + 1"
  proof (cases "maxPK - minPK + 1 < 2 ^ 63")
    case True
    then show ?thesis using small assms by simp
  next
    case False
    have "i64 (i64 (maxPK - minPK) + 1) \<le> 0"
    proof (cases "maxPK - minPK < 2 ^ 63")
      case True
      with False have "maxPK - minPK = 2 ^ 63 - 1" by simp
      then show ?thesis by (simp add: i64_def)
    next
      case False
      then have "i64 (maxPK - minPK) = maxPK - minPK - 2 ^ 64"
        by (intro i64_above) (use assms in \<open>simp_all add: in_i64_def\<close>)
      then show ?thesis using False assms by (simp add: in_i64_def)
    qed
    with False show ?thesis by simp
  qed
qed

text \<open>The span for \<open>n\<close> chunks is the quotient rounded up.\<close>

lemma rows_span_ok:
  assumes "0 < rsize" "in_i64 rsize" "1 \<le> (n :: int)"
  shows "0 < rows_span rsize n" "in_i64 (rows_span rsize n)" "rsize \<le> rows_span rsize n * n"
proof -
  let ?q = "rsize div n"
  have q: "go_div rsize n = ?q" "go_mod rsize n = rsize mod n" using assms(1,3) by simp_all
  have sz: "rsize = ?q * n + rsize mod n" by simp
  have mod: "0 \<le> rsize mod n" "rsize mod n < n" using assms(3) by simp_all
  have nonneg: "0 \<le> ?q" using assms(1,3) by (simp add: pos_imp_zdiv_nonneg_iff)
  then have "?q * 1 \<le> ?q * n" using assms(3) by (intro mult_left_mono) auto
  with sz mod have le: "?q \<le> rsize" by linarith
  show "0 < rows_span rsize n" by (simp add: rows_span_def Let_def)
  have "in_i64 ?q" "in_i64 1" using nonneg le assms(2) by (simp_all add: in_i64_def)
  then show "in_i64 (rows_span rsize n)" by (auto simp: rows_span_def q Let_def)
  show "rsize \<le> rows_span rsize n * n"
  proof (cases "rsize mod n = 0")
    case True
    with sz assms(1,3) have "1 \<le> ?q"
      by (metis add.right_neutral int_one_le_iff_zero_less less_le mult_zero_left nonneg)
    with True sz show ?thesis by (simp add: rows_span_def q)
  next
    case False
    with assms(3) mod have "2 \<le> n" by (cases "n = 1") auto
    then have "?q * 2 \<le> ?q * n" using nonneg by (intro mult_left_mono) auto
    with sz mod False nonneg have "?q < rsize" by linarith
    with assms(2) nonneg have "in_i64 (?q + 1)" by (simp add: in_i64_def)
    with False nonneg have "rows_span rsize n = ?q + 1" by (simp add: rows_span_def q)
    moreover have "(?q + 1) * n = ?q * n + n" by (simp add: distrib_right)
    moreover have "rsize \<le> ?q * n + n" using sz mod by linarith
    ultimately show ?thesis by simp
  qed
qed

lemma PlanIntegerRangeByRows_ok:
  assumes "in_i64 minPK" "in_i64 maxPK" "minPK \<le> maxPK" "0 < targetRows"
    and "maxPK - minPK + 1 < 2 ^ 63"
  obtains cs where "PlanIntegerRangeByRows minPK maxPK estimatedRows targetRows = Inr cs"
    "chunk_partition minPK maxPK cs"
    "int (length cs) \<le> rows_chunk_count (rows_estimate minPK maxPK estimatedRows) targetRows"
proof -
  let ?n = "rows_chunk_count (rows_estimate minPK maxPK estimatedRows) targetRows"
  let ?s = "maxPK - minPK + 1"
  let ?w = "rows_span ?s ?n"
  have s: "0 < ?s" "in_i64 ?s" using assms(3,5) by (simp_all add: in_i64_def)
  note w = rows_span_ok [OF s rows_chunk_count_pos
      [of "rows_estimate minPK maxPK estimatedRows" targetRows]]
  from PlanIntegerRange_ok [OF assms(1,2) w(2,1) assms(3)] obtain cs where
    cs: "PlanIntegerRange minPK maxPK ?w = Inr cs" "chunk_partition minPK maxPK cs"
      "(int (length cs) - 1) * ?w \<le> maxPK - minPK" by blast
  have "PlanIntegerRangeByRows minPK maxPK estimatedRows targetRows = Inr cs"
    using assms(3,4) s(1) cs(1) wrapped_range_size(2) [OF assms(1-3,5)]
    by (simp add: PlanIntegerRangeByRows_def)
  moreover have "int (length cs) \<le> ?n"
  proof (rule ccontr)
    assume "\<not> int (length cs) \<le> ?n"
    then have "?n \<le> int (length cs) - 1" by simp
    then have "?w * ?n \<le> ?w * (int (length cs) - 1)" by (intro mult_left_mono less_imp_le [OF w(1)])
    with cs(3) have "?w * ?n \<le> maxPK - minPK" by (simp only: mult.commute)
    with w(3) show False by linarith
  qed
  ultimately show thesis using cs(2) that by blast
qed

section \<open>Keyset chunks\<close>

text \<open>
  \<open>connector.Value\<close>. A nil \<open>Raw\<close> is \<open>None\<close>; \<open>encoding/json\<close> prints it as \<open>null\<close> and any
  other byte slice in base64.
\<close>

record Value =
  val_Null :: bool
  val_Raw :: "string option"

fun raw_json :: "string option \<Rightarrow> string" where
  "raw_json None = ''null''"
| "raw_json (Some b) = CHR 0x22 # base64_encode b @ [CHR 0x22]"

definition value_json :: "Value \<Rightarrow> string" where
  "value_json v = CHR ''{'' # CHR 0x22 # ''Null'' @ CHR 0x22 # CHR '':''
     # (if val_Null v then ''true'' else ''false'') @ CHR '','' # CHR 0x22 # ''Raw''
     @ CHR 0x22 # CHR '':'' # raw_json (val_Raw v) @ ''}''"

fun values_json :: "Value list \<Rightarrow> string" where
  "values_json [] = '']''"
| "values_json [v] = value_json v @ '']''"
| "values_json (v # w # vs) = value_json v @ CHR '','' # values_json (w # vs)"

definition keyset_json :: "Value list \<Rightarrow> string" where
  "keyset_json vs = CHR ''['' # values_json vs"

definition keyset_chunk :: "int \<Rightarrow> Value list \<Rightarrow> MigrationChunk" where
  "keyset_chunk no lower = zero_MigrationChunk\<lparr>ch_ChunkNo := no,
     ch_SplitType := ''PRIMARY_KEY_KEYSET'', ch_Status := ChunkPending,
     ch_StartCursorJSON := (if lower = [] then [] else keyset_json lower)\<rparr>"

text \<open>The loop over the boundaries, \<open>no\<close> being \<open>i + 1\<close>; the last round has no upper bound.\<close>

fun keyset_loop :: "int \<Rightarrow> Value list \<Rightarrow> Value list list \<Rightarrow> go_error + MigrationChunk list" where
  "keyset_loop no lower [] = Inr [keyset_chunk no lower]"
| "keyset_loop no lower (upper # bs) =
     (if upper = [] then Inl (ErrText ''keyset boundary cannot be empty'')
      else case keyset_loop (no + 1) upper bs of
          Inl e \<Rightarrow> Inl e
        | Inr cs \<Rightarrow> Inr ((keyset_chunk no lower)\<lparr>ch_EndCursorJSON := keyset_json upper\<rparr> # cs))"

definition PlanBoundedKeyset :: "Value list list \<Rightarrow> go_error + MigrationChunk list" where
  "PlanBoundedKeyset boundaries = keyset_loop 1 [] boundaries"

lemma keyset_chunk_simps [simp]:
  "ch_ChunkNo (keyset_chunk n l) = n" "ch_EndCursorJSON (keyset_chunk n l) = []"
  "ch_StartCursorJSON (keyset_chunk n l) = (if l = [] then [] else keyset_json l)"
  "ch_Status (keyset_chunk n l) = ChunkPending"
  by (simp_all add: keyset_chunk_def zero_MigrationChunk_def)

lemma keyset_json_nonempty [simp]: "keyset_json vs \<noteq> []"
  by (simp add: keyset_json_def)

lemma keyset_loop_ok:
  assumes "\<forall>b \<in> set bs. b \<noteq> []"
  shows "\<exists>cs. keyset_loop no lower bs = Inr cs
    \<and> map ch_StartCursorJSON cs = (if lower = [] then [] else keyset_json lower) # map keyset_json bs
    \<and> map ch_EndCursorJSON cs = map keyset_json bs @ [[]]
    \<and> map ch_ChunkNo cs = [no..no + int (length bs)]
    \<and> (\<forall>c \<in> set cs. ch_Status c = ChunkPending)"
  using assms
proof (induction bs arbitrary: no lower)
  case Nil
  then show ?case by simp
next
  case (Cons b bs)
  then have "b \<noteq> []" and "\<forall>b \<in> set bs. b \<noteq> []" by simp_all
  from Cons.IH [OF this(2), of "no + 1" b] this(1) obtain cs where
    cs: "keyset_loop (no + 1) b bs = Inr cs"
      "map ch_StartCursorJSON cs = keyset_json b # map keyset_json bs"
      "map ch_EndCursorJSON cs = map keyset_json bs @ [[]]"
      "map ch_ChunkNo cs = [no + 1..no + 1 + int (length bs)]"
      "\<forall>c \<in> set cs. ch_Status c = ChunkPending"
    by auto
  have "[no..no + (1 + int (length bs))] = no # [no + 1..no + 1 + int (length bs)]"
    using upto_rec1 [of no "no + (1 + int (length bs))"] by (simp add: add.assoc)
  with cs \<open>b \<noteq> []\<close> show ?case by simp
qed

lemma keyset_loop_error:
  "[] \<in> set bs \<Longrightarrow> keyset_loop no lower bs = Inl (ErrText ''keyset boundary cannot be empty'')"
  by (induction bs arbitrary: no lower) auto

text \<open>The JSON of a cursor determines the cursor.\<close>

lemma b64_char_not_quote: "n < 64 \<Longrightarrow> CHR 0x22 \<noteq> b64_char n"
proof -
  have "b64_val (CHR 0x22) = None" by (simp add: b64_val_def byte_nat_def)
  then show "n < 64 \<Longrightarrow> CHR 0x22 \<noteq> b64_char n" using b64_val_char [of n] by auto
qed

lemma base64_no_quote [simp]: "CHR 0x22 \<notin> set (base64_encode s)"
proof (induction s rule: base64_encode.induct)
  case (2 a)
  have "byte_nat a div 4 < 64" "byte_nat a mod 4 * 16 < 64"
    using b64_first [of "byte_nat a" 0] by simp_all
  then show ?case by (simp add: b64_char_not_quote)
next
  case (3 a b)
  have "byte_nat b mod 16 * 4 < 64" using b64_second(1) [of "byte_nat b" 0] by simp
  with b64_first(1,2) [of "byte_nat a" "byte_nat b"] show ?case
    by (simp add: b64_char_not_quote)
next
  case (4 a b c rest)
  have "byte_nat c mod 64 < 64" by simp
  with 4 b64_first(1,2) [of "byte_nat a" "byte_nat b"] b64_second(1) [of "byte_nat b" "byte_nat c"]
  show ?case by (simp add: b64_char_not_quote)
qed simp

lemma quote_split:
  "q \<notin> set s \<Longrightarrow> q \<notin> set t \<Longrightarrow> s @ q # x = t @ q # y \<Longrightarrow> s = t \<and> x = y"
proof (induction s arbitrary: t)
  case Nil
  then show ?case by (cases t) auto
next
  case (Cons c s)
  then show ?case by (cases t) auto
qed

lemma raw_json_prefix: "raw_json a @ x = raw_json b @ y \<Longrightarrow> a = b \<and> x = y"
proof (cases a; cases b)
  fix s t assume "raw_json a @ x = raw_json b @ y" and ab: "a = Some s" "b = Some t"
  then have "base64_encode s @ CHR 0x22 # x = base64_encode t @ CHR 0x22 # y" by simp
  from quote_split [OF base64_no_quote base64_no_quote this] ab
  show "a = b \<and> x = y" by (auto dest: base64_inj)
qed simp_all

lemma value_json_prefix: "value_json v @ x = value_json w @ y \<Longrightarrow> v = w \<and> x = y"
proof -
  assume e: "value_json v @ x = value_json w @ y"
  then have n: "val_Null v = val_Null w" by (simp add: value_json_def split: if_splits)
  with e have "raw_json (val_Raw v) @ CHR ''}'' # x = raw_json (val_Raw w) @ CHR ''}'' # y"
    by (simp add: value_json_def)
  from raw_json_prefix [OF this] n show "v = w \<and> x = y" by simp
qed

lemma value_json_hd: "\<exists>r. value_json v = CHR ''{'' # r"
  by (simp add: value_json_def)

lemma value_json_nonempty [simp]: "value_json v \<noteq> []"
  by (simp add: value_json_def)

lemma value_json_not_close: "value_json v @ x \<noteq> CHR '']'' # y"
  using value_json_hd [of v] by auto

lemma values_json_inj: "values_json vs = values_json ws \<Longrightarrow> vs = ws"
proof (induction vs arbitrary: ws rule: values_json.induct)
  case 1
  then show ?case
    by (cases ws rule: values_json.cases) (auto simp: value_json_not_close dest!: sym [of "[_]"])
next
  case (2 v)
  then show ?case
    by (cases ws rule: values_json.cases)
      (auto simp: value_json_not_close dest: value_json_prefix [of _ "[]" _ "[]", simplified] dest!: value_json_prefix)
next
  case (3 v w vs)
  then show ?case
    by (cases ws rule: values_json.cases) (auto simp: value_json_not_close dest!: value_json_prefix)
qed

lemma keyset_json_inj: "keyset_json vs = keyset_json ws \<longleftrightarrow> vs = ws"
  by (auto simp: keyset_json_def dest: values_json_inj)

section \<open>Number of partitions\<close>

definition DesiredKeysetPartitions :: "int \<Rightarrow> int \<Rightarrow> int \<Rightarrow> int" where
  "DesiredKeysetPartitions estimatedRows targetRows parallelism =
     (if estimatedRows \<le> 0 then 1
      else let targetRows = (if targetRows \<le> 0 then 100000 else targetRows);
               parallelism = (if parallelism \<le> 0 then 1 else parallelism);
               byRows = go_div (i64 (i64 (estimatedRows + targetRows) - 1)) targetRows;
               byRows = (if byRows < 1 then 1 else byRows);
               capByWorkers = i64 (parallelism * 4);
               capByWorkers = (if capByWorkers < 1 then 1 else capByWorkers);
               capByWorkers = (if capByWorkers > 128 then 128 else capByWorkers)
           in if byRows > capByWorkers then capByWorkers else byRows)"

section \<open>Properties\<close>

text \<open>
  C2. \<open>PlanIntegerRange\<close> on \<open>int64\<close> bounds with a positive span never fails or runs on: the
  chunks, numbered from 1 and pending, cover the inclusive key range exactly once and in
  order, and none holds more than \<open>span\<close> keys. This holds up to the ends of the \<open>int64\<close>
  range, where \<open>start + span - 1\<close> wraps.
\<close>

theorem plan_range_partition:
  assumes "in_i64 minPK" and "in_i64 maxPK" and "in_i64 width" and "0 < width" and "minPK \<le> maxPK"
  shows "\<exists>cs. PlanIntegerRange minPK maxPK width = Inr cs
    \<and> concat (map (\<lambda>c. [ch_Start c..ch_End c]) cs) = [minPK..maxPK]
    \<and> map ch_ChunkNo cs = [1..int (length cs)]
    \<and> (\<forall>c \<in> set cs. ch_Start c \<le> ch_End c \<and> ch_End c - ch_Start c < width
          \<and> ch_Status c = ChunkPending)"
proof -
  from PlanIntegerRange_ok [OF assms] obtain cs where
    "PlanIntegerRange minPK maxPK width = Inr cs" "chunk_partition minPK maxPK cs"
    "\<forall>c \<in> set cs. ch_End c - ch_Start c < width" .
  then show ?thesis by (auto simp: chunk_partition_def)
qed

theorem plan_range_partition_witness:
  "\<exists>cs. PlanIntegerRange (2 ^ 63 - 5) (2 ^ 63 - 1) 3 = Inr cs
    \<and> concat (map (\<lambda>c. [ch_Start c..ch_End c]) cs) = [2 ^ 63 - 5..2 ^ 63 - 1]"
proof -
  have "in_i64 (2 ^ 63 - 5)" "in_i64 (2 ^ 63 - 1)" "in_i64 3" "(0::int) < 3"
    "(2 ^ 63 - 5 :: int) \<le> 2 ^ 63 - 1" by (simp_all add: in_i64_def)
  from plan_range_partition [OF this] show ?thesis by blast
qed

text \<open>
  \<open>PlanIntegerRangeByRows\<close>: on \<open>int64\<close> bounds in order and a positive target it fails exactly
  when the range holds more than \<open>2 ^ 63 - 1\<close> keys, and otherwise returns a partition of the
  range into at most as many chunks as the rounded-up quotient of the row estimate asks for.
\<close>

theorem plan_by_rows_partition:
  assumes "in_i64 minPK" and "in_i64 maxPK" and "minPK \<le> maxPK" and "0 < targetRows"
  shows "case PlanIntegerRangeByRows minPK maxPK estimatedRows targetRows of
      Inl e \<Rightarrow> 2 ^ 63 \<le> maxPK - minPK + 1 \<and> e = ErrText ''primary key range overflow''
    | Inr cs \<Rightarrow> maxPK - minPK + 1 < 2 ^ 63
        \<and> concat (map (\<lambda>c. [ch_Start c..ch_End c]) cs) = [minPK..maxPK]
        \<and> int (length cs) \<le> rows_chunk_count (rows_estimate minPK maxPK estimatedRows) targetRows"
proof (cases "maxPK - minPK + 1 < 2 ^ 63")
  case True
  from PlanIntegerRangeByRows_ok [OF assms True, of estimatedRows] obtain cs where
    "PlanIntegerRangeByRows minPK maxPK estimatedRows targetRows = Inr cs"
    "chunk_partition minPK maxPK cs"
    "int (length cs) \<le> rows_chunk_count (rows_estimate minPK maxPK estimatedRows) targetRows" .
  with True show ?thesis by (simp add: chunk_partition_def)
next
  case False
  then show ?thesis
    using assms(3,4) wrapped_range_size(1) [OF assms(1-3)]
    by (simp add: PlanIntegerRangeByRows_def)
qed

theorem plan_by_rows_partition_witness:
  "case PlanIntegerRangeByRows (- (2 ^ 63)) 0 10 5 of
      Inl e \<Rightarrow> e = ErrText ''primary key range overflow'' | Inr cs \<Rightarrow> False"
proof -
  have "in_i64 (- (2 ^ 63))" "in_i64 0" "(- (2 ^ 63) :: int) \<le> 0" "(0::int) < 5"
    by (simp_all add: in_i64_def)
  from plan_by_rows_partition [OF this, of 10] show ?thesis by (simp split: sum.splits)
qed

text \<open>
  C3. \<open>PlanBoundedKeyset\<close> leaves no gap: with non-empty split points it returns one chunk more
  than there are split points, numbered from 1; the end cursor of each chunk is the start
  cursor of the next, the first start and the last end are open, and the cursor texts
  determine the split points. It fails exactly when a split point is empty.
\<close>

theorem plan_keyset_gap_free:
  "case PlanBoundedKeyset bs of
      Inl e \<Rightarrow> [] \<in> set bs
    | Inr cs \<Rightarrow> [] \<notin> set bs
        \<and> map ch_StartCursorJSON cs = [] # map keyset_json bs
        \<and> map ch_EndCursorJSON cs = map keyset_json bs @ [[]]
        \<and> map ch_ChunkNo cs = [1..int (length bs) + 1]
        \<and> (\<forall>bs'. map keyset_json bs' = map keyset_json bs \<longrightarrow> bs' = bs)"
proof (cases "[] \<in> set bs")
  case True
  then show ?thesis by (simp add: PlanBoundedKeyset_def keyset_loop_error)
next
  case False
  have "inj keyset_json" by (auto intro: injI simp: keyset_json_inj)
  moreover from False have "\<forall>b \<in> set bs. b \<noteq> []" by auto
  from keyset_loop_ok [OF this, of 1 "[]"] obtain cs where
    "keyset_loop 1 [] bs = Inr cs" "map ch_StartCursorJSON cs = [] # map keyset_json bs"
    "map ch_EndCursorJSON cs = map keyset_json bs @ [[]]"
    "map ch_ChunkNo cs = [1..1 + int (length bs)]"
    by auto
  ultimately show ?thesis using False
    by (simp add: PlanBoundedKeyset_def inj_map_eq_map add.commute)
qed

theorem plan_keyset_gap_free_witness:
  "\<exists>cs. PlanBoundedKeyset [[\<lparr>val_Null = False, val_Raw = Some ''7''\<rparr>]] = Inr cs
    \<and> map ch_ChunkNo cs = [1, 2]
    \<and> (\<forall>bs'. map keyset_json bs' = map keyset_json [[\<lparr>val_Null = False, val_Raw = Some ''7''\<rparr>]]
          \<longrightarrow> bs' = [[\<lparr>val_Null = False, val_Raw = Some ''7''\<rparr>]])"
  using plan_keyset_gap_free [of "[[\<lparr>val_Null = False, val_Raw = Some ''7''\<rparr>]]"]
  by (auto split: sum.splits simp: upto.simps)

text \<open>
  \<open>DesiredKeysetPartitions\<close> stays between 1 and 128 for every argument, wrap-around
  included; without overflow it is the number of target-sized pieces of the table, capped by
  four per worker and by 128.
\<close>

theorem desired_partitions_exact:
  "1 \<le> DesiredKeysetPartitions e t p \<and> DesiredKeysetPartitions e t p \<le> 128
   \<and> (0 < e \<and> 0 < t \<and> 0 < p \<and> e + t < 2 ^ 63 \<and> p * 4 < 2 ^ 63 \<longrightarrow>
        DesiredKeysetPartitions e t p = min ((e + t - 1) div t) (min 128 (p * 4)))"
proof -
  have "1 \<le> DesiredKeysetPartitions e t p" "DesiredKeysetPartitions e t p \<le> 128"
    by (simp_all add: DesiredKeysetPartitions_def Let_def)
  moreover have "DesiredKeysetPartitions e t p = min ((e + t - 1) div t) (min 128 (p * 4))"
    if h: "0 < e" "0 < t" "0 < p" "e + t < 2 ^ 63" "p * 4 < 2 ^ 63"
  proof -
    have i: "in_i64 (e + t)" "in_i64 (e + t - 1)" "in_i64 (p * 4)" "in_i64 128"
      using h by (simp_all add: in_i64_def)
    have "t div t \<le> (e + t - 1) div t" using h by (intro zdiv_mono1) auto
    then have "1 \<le> (e + t - 1) div t" using h by simp
    with h i show ?thesis by (simp add: DesiredKeysetPartitions_def Let_def min_def)
  qed
  ultimately show ?thesis by blast
qed

theorem desired_partitions_exact_witness:
  "DesiredKeysetPartitions 1000000 1000 4 = 16 \<and> DesiredKeysetPartitions 10 100 8 = 1"
  using desired_partitions_exact [of 1000000 1000 4] desired_partitions_exact [of 10 100 8]
  by simp

end
