(* ===== verification/PerfModel.thy ===== *)
theory PerfModel
  imports Domain GoFloat
begin

text \<open>
  The performance model, \<open>backend/internal/perfmodel/model.go\<close>: smoothing, chunk sizing,
  bounded latency samples and their percentiles, the health of a storage topology with its
  rank, weight and concurrency cap, and the tail-risk estimate of the completion time.
\<close>

section \<open>Operations\<close>

definition EWMA :: "int \<Rightarrow> int \<Rightarrow> int \<Rightarrow> int" where
  "EWMA previous current alphaPct =
     (if current \<le> 0 then previous
      else if previous \<le> 0 then current
      else let a = (if alphaPct < 1 then 1 else alphaPct);
               a = (if a > 100 then 100 else a)
           in go_div (i64 (i64 (previous * (100 - a)) + i64 (current * a))) 100)"

definition RecommendChunkRows :: "int \<Rightarrow> int \<Rightarrow> int \<Rightarrow> int \<Rightarrow> int" where
  "RecommendChunkRows rowsPerSec targetSeconds minRows maxRows =
     (if rowsPerSec \<le> 0 \<or> targetSeconds \<le> 0 then 0
      else let n = i64 (rowsPerSec * targetSeconds);
               n = (if minRows > 0 \<and> n < minRows then minRows else n)
           in if maxRows > 0 \<and> n > maxRows then maxRows else n)"

definition BoundHistoricalRows :: "int \<Rightarrow> int \<Rightarrow> rat \<Rightarrow> rat \<Rightarrow> int" where
  "BoundHistoricalRows recommended baseline minFactor maxFactor =
     (if recommended \<le> 0 then baseline
      else if baseline \<le> 0 then recommended
      else let lo = f64_to_i64 (go_round (f64 (f64 (of_int baseline) * minFactor)));
               hi = f64_to_i64 (go_round (f64 (f64 (of_int baseline) * maxFactor)));
               lo = (if lo < 1 then 1 else lo);
               hi = (if hi < lo then lo else hi)
           in if recommended < lo then lo
              else if recommended > hi then hi else recommended)"

definition PiecesForRows :: "int \<Rightarrow> int \<Rightarrow> int \<Rightarrow> int" where
  "PiecesForRows estimatedRows recommendedRows maxPieces =
     (if estimatedRows \<le> 0 \<or> recommendedRows \<le> 0 then 1
      else let p = go_div (i64 (i64 (estimatedRows + recommendedRows) - 1)) recommendedRows;
               p = (if p < 1 then 1 else p)
           in if maxPieces > 0 \<and> p > maxPieces then maxPieces else p)"

definition AppendSample :: "int list \<Rightarrow> int \<Rightarrow> int \<Rightarrow> int list" where
  "AppendSample samples value mx =
     (if value \<le> 0 then samples
      else let mx = (if mx \<le> 0 then 64 else mx);
               out = samples @ [value]
           in if int (length out) > mx then drop (nat (int (length out) - mx)) out else out)"

definition percentile_rank :: "int \<Rightarrow> int \<Rightarrow> int" where
  "percentile_rank pct n =
     f64_to_i64 (of_int \<lceil>f64 (f64 (f64 (of_int pct) * f64 (of_int n)) / 100)\<rceil>)"

definition Percentile :: "int list \<Rightarrow> int \<Rightarrow> int" where
  "Percentile samples pct =
     (if samples = [] then 0
      else let pct = (if pct < 0 then 0 else pct);
               pct = (if pct > 100 then 100 else pct);
               v = sort samples;
               n = int (length v);
               idx = percentile_rank pct n - 1;
               idx = (if idx < 0 then 0 else idx);
               idx = (if idx \<ge> n then n - 1 else idx)
           in v ! nat idx)"

definition NormalizeTopologyHealth :: "string \<Rightarrow> string" where
  "NormalizeTopologyHealth health =
     (let h = to_upper (trim_space health) in
      if h = ''DEGRADED'' then ''DEGRADED''
      else if h = ''CIRCUIT_OPEN'' then ''CIRCUIT_OPEN''
      else if h = ''HALF_OPEN'' then ''HALF_OPEN''
      else ''HEALTHY'')"

definition TopologySchedulingWeight :: "string \<Rightarrow> int" where
  "TopologySchedulingWeight health =
     (let h = NormalizeTopologyHealth health in
      if h = ''HEALTHY'' then 100
      else if h = ''DEGRADED'' then 50
      else if h = ''HALF_OPEN'' then 10
      else if h = ''CIRCUIT_OPEN'' then 0 else 100)"

definition TopologyHealthRank :: "string \<Rightarrow> int" where
  "TopologyHealthRank health =
     (let h = NormalizeTopologyHealth health in
      if h = ''HEALTHY'' then 0
      else if h = ''DEGRADED'' then 1
      else if h = ''HALF_OPEN'' then 2
      else if h = ''CIRCUIT_OPEN'' then 3 else 0)"

definition TopologyConcurrencyCap :: "string \<Rightarrow> int \<Rightarrow> int \<Rightarrow> int" where
  "TopologyConcurrencyCap health healthyCap degradedCap =
     (let h = NormalizeTopologyHealth health in
      if h = ''CIRCUIT_OPEN'' then 0
      else if h = ''HALF_OPEN'' then 1
      else if h = ''DEGRADED'' then (if degradedCap \<le> 0 then 1 else degradedCap)
      else healthyCap)"

definition TopologyHealthWithThreshold ::
  "int \<Rightarrow> int \<Rightarrow> int \<Rightarrow> int \<Rightarrow> int \<Rightarrow> int \<Rightarrow> string" where
  "TopologyHealthWithThreshold topologyBPS tableBPS p99MS slowStreak samples slowP99MS =
     (if samples < 3 then ''HEALTHY''
      else let slow = (if slowP99MS \<le> 0 then 90000 else slowP99MS);
               badThroughput = (tableBPS > 0 \<and> i64 (topologyBPS * 100) < i64 (tableBPS * 55));
               badTail = (p99MS \<ge> slow)
           in if badThroughput \<or> badTail
              then (if slowStreak \<ge> 5 then ''CIRCUIT_OPEN''
                    else if slowStreak \<ge> 2 then ''DEGRADED'' else ''HEALTHY'')
              else ''HEALTHY'')"

definition TopologyHealth :: "int \<Rightarrow> int \<Rightarrow> int \<Rightarrow> int \<Rightarrow> int \<Rightarrow> string" where
  "TopologyHealth topologyBPS tableBPS p99MS slowStreak samples =
     TopologyHealthWithThreshold topologyBPS tableBPS p99MS slowStreak samples 90000"

definition TailRiskETA :: "int \<Rightarrow> int \<Rightarrow> int \<Rightarrow> int \<Rightarrow> int" where
  "TailRiskETA baseETASeconds targetChunkMS percentileMS weightPct =
     (if baseETASeconds \<le> 0 then 0
      else if targetChunkMS \<le> 0 \<or> percentileMS \<le> targetChunkMS then baseETASeconds
      else let w = (if weightPct < 0 then 0 else weightPct);
               w = (if w > 100 then 100 else w);
               excessPct = go_div (i64 (i64 (percentileMS - targetChunkMS) * 100)) targetChunkMS;
               penaltyPct = go_div (i64 (excessPct * w)) 100
           in go_div (i64 (baseETASeconds * i64 (100 + penaltyPct))) 100)"

section \<open>Health\<close>

lemma normalize_cases:
  obtains "NormalizeTopologyHealth h = ''HEALTHY''" | "NormalizeTopologyHealth h = ''DEGRADED''"
  | "NormalizeTopologyHealth h = ''HALF_OPEN''" | "NormalizeTopologyHealth h = ''CIRCUIT_OPEN''"
  unfolding NormalizeTopologyHealth_def Let_def by (metis (full_types))

lemma normalize_literals [simp]:
  "NormalizeTopologyHealth ''HEALTHY'' = ''HEALTHY''"
  "NormalizeTopologyHealth ''DEGRADED'' = ''DEGRADED''"
  "NormalizeTopologyHealth ''HALF_OPEN'' = ''HALF_OPEN''"
  "NormalizeTopologyHealth ''CIRCUIT_OPEN'' = ''CIRCUIT_OPEN''"
  by (simp_all add: NormalizeTopologyHealth_def to_upper_def upper_char_def trim_space_def is_space_def Let_def)

lemma normalize_idem [simp]:
  "NormalizeTopologyHealth (NormalizeTopologyHealth h) = NormalizeTopologyHealth h"
  by (cases h rule: normalize_cases) simp_all

lemma health_rank_bounds: "0 \<le> TopologyHealthRank h \<and> TopologyHealthRank h \<le> 3"
  by (simp add: TopologyHealthRank_def Let_def)

lemma health_rank_pos_iff: "0 < TopologyHealthRank h \<longleftrightarrow> NormalizeTopologyHealth h \<noteq> ''HEALTHY''"
  by (cases h rule: normalize_cases) (simp_all add: TopologyHealthRank_def)

section \<open>Percentiles\<close>

lemma count_if_sort: "count_if P (sort xs) = count_if P xs"
  by (rule count_if_mset) simp

lemma sorted_count_le:
  assumes "sorted xs" "i < length xs"
  shows "i + 1 \<le> count_if (\<lambda>x. x \<le> xs ! i) xs"
proof -
  have "\<forall>x \<in> set (take (i + 1) xs). x \<le> xs ! i"
    using assms by (auto simp: in_set_conv_nth intro!: sorted_nth_mono)
  then have "count_if (\<lambda>x. x \<le> xs ! i) (take (i + 1) xs) = length (take (i + 1) xs)"
    unfolding count_if_def by (simp only: filter_True)
  then have "i + 1 \<le> count_if (\<lambda>x. x \<le> xs ! i) (take (i + 1) xs @ drop (i + 1) xs)"
    using assms(2) by (simp only: count_if_append) simp
  then show ?thesis by simp
qed

lemma sorted_count_less:
  assumes "sorted xs" "i < length xs"
  shows "count_if (\<lambda>x. x < xs ! i) xs \<le> i"
proof -
  have "count_if (\<lambda>x. x < xs ! i) (drop i xs) = 0"
    using assms by (auto simp: count_if_def filter_empty_conv in_set_conv_nth not_less
        intro!: sorted_nth_mono)
  moreover have "count_if (\<lambda>x. x < xs ! i) (take i xs) \<le> i"
    using count_if_le [of _ "take i xs"] assms(2) by (metis length_take min.absorb4)
  ultimately have "count_if (\<lambda>x. x < xs ! i) (take i xs @ drop i xs) \<le> i"
    by (simp only: count_if_append)
  then show ?thesis by simp
qed

text \<open>The nearest-rank index, with the rounding of the quotient discharged.\<close>

lemma percentile_index:
  assumes "0 < n" "n < 2 ^ 40" "0 \<le> pct" "pct \<le> 100"
  shows "percentile_rank pct n = (pct * n + 99) div 100"
proof -
  have le: "pct * n \<le> 100 * n" using assms by (intro mult_right_mono) auto
  have "100 * n < 2 ^ 53" using assms(2) by simp
  then have b: "0 \<le> pct * n" "pct * n < 2 ^ 53" using assms le by (simp_all only: mult_nonneg_nonneg le_less_trans less_imp_le)
  have "f64 (of_int pct) = of_int pct" "f64 (of_int n) = of_int n"
    using assms by (auto intro!: f64_int)
  with b have e: "f64 (f64 (of_int pct) * f64 (of_int n)) = of_int (pct * n)"
    using f64_int [of "pct * n"] by simp
  have "\<lceil>f64 (of_int (pct * n) / 100)\<rceil> = (pct * n + 99) div 100"
  proof (cases "pct * n = 0")
    case True
    then show ?thesis unfolding True by (simp add: f64_def)
  next
    case False
    with b have "0 < pct * n" by linarith
    from ceil_f64_quotient [OF this _ b(2), of 100] show ?thesis by (simp add: add.commute)
  qed
  moreover have "0 \<le> (pct * n + 99) div 100" "(pct * n + 99) div 100 \<le> n"
    using b(1) le by linarith+
  then have "in_i64 ((pct * n + 99) div 100)" using assms by (simp add: in_i64_def)
  ultimately show ?thesis unfolding percentile_rank_def e by (simp add: f64_to_i64_def Let_def)
qed

section \<open>Properties\<close>

text \<open>
  \<open>Percentile\<close> is the nearest-rank percentile, the \<open>float64\<close> division included, for up to
  \<open>2 ^ 40\<close> samples: the result is one of the samples, at least \<open>pct\<close> percent of the samples
  are at most the result, and no more than \<open>pct\<close> percent are smaller than it.
\<close>

theorem percentile_nearest_rank:
  assumes "samples \<noteq> []" and "length samples < 2 ^ 40" and "0 \<le> pct" and "pct \<le> 100"
  shows "Percentile samples pct \<in> set samples
    \<and> pct * int (length samples) \<le> 100 * int (count_if (\<lambda>x. x \<le> Percentile samples pct) samples)
    \<and> 100 * int (count_if (\<lambda>x. x < Percentile samples pct) samples) \<le> pct * int (length samples)"
proof -
  let ?n = "int (length samples)" and ?v = "sort samples"
  define r where "r = (pct * ?n + 99) div 100"
  have n: "0 < ?n" "?n < 2 ^ 40" using assms(1,2) by simp_all
  have "pct * ?n \<le> 100 * ?n" using assms(4) by (intro mult_right_mono) auto
  moreover have nn: "0 \<le> pct * ?n" using assms(3) by simp
  ultimately have r: "0 \<le> r" "r \<le> ?n" "pct * ?n \<le> 100 * r" "100 * r < pct * ?n + 100"
    unfolding r_def by linarith+
  define i where "i = nat (if r = 0 then 0 else r - 1)"
  have P: "Percentile samples pct = ?v ! i"
    using assms n r unfolding Percentile_def i_def
    by (simp add: percentile_index [OF n assms(3,4)] r_def [symmetric] Let_def)
  have i: "i < length ?v" using r n by (auto simp: i_def)
  have "int i + 1 \<le> int (count_if (\<lambda>x. x \<le> ?v ! i) samples)"
    using sorted_count_le [OF sorted_sort i] unfolding count_if_sort by linarith
  moreover have "int (count_if (\<lambda>x. x < ?v ! i) samples) \<le> int i"
    using sorted_count_less [OF sorted_sort i] unfolding count_if_sort by linarith
  moreover have "?v ! i \<in> set samples" using i by (metis nth_mem set_sort)
  moreover have "r \<le> int i + 1" "100 * int i \<le> pct * ?n" using r nn by (auto simp: i_def)
  ultimately show ?thesis unfolding P using r by (intro conjI) linarith+
qed

theorem percentile_nearest_rank_witness:
  "Percentile [40, 10, 30, 20] 95 \<in> {40, 10, 30, 20}
   \<and> count_if (\<lambda>x. x < Percentile [40, 10, 30, 20] 95) [40, 10, 30, 20] \<le> 3"
  using percentile_nearest_rank [of "[40, 10, 30, 20]" 95] by simp

text \<open>
  \<open>EWMA\<close> of two positive rates stays between them while the products fit in 63 bits, and
  a rate that is not positive is ignored.
\<close>

theorem ewma_between:
  assumes "0 < previous" and "0 < current" and "previous < 2 ^ 56" and "current < 2 ^ 56"
  shows "min previous current \<le> EWMA previous current alphaPct
    \<and> EWMA previous current alphaPct \<le> max previous current"
proof -
  define a where "a = max 1 (min 100 alphaPct)"
  have a: "1 \<le> a" "a \<le> 100" by (simp_all add: a_def)
  let ?lo = "min previous current" and ?hi = "max previous current"
  have "?lo * (100 - a) \<le> previous * (100 - a)" "?lo * a \<le> current * a"
    "previous * (100 - a) \<le> ?hi * (100 - a)" "current * a \<le> ?hi * a"
    using a by (intro mult_right_mono; simp)+
  moreover have "?lo * (100 - a) + ?lo * a = ?lo * 100" "?hi * (100 - a) + ?hi * a = ?hi * 100"
    by (simp_all only: distrib_left [symmetric]) simp_all
  ultimately have s: "?lo * 100 \<le> previous * (100 - a) + current * a"
    "previous * (100 - a) + current * a \<le> ?hi * 100" by linarith+
  have "0 \<le> previous * (100 - a)" "0 \<le> current * a" using assms a by simp_all
  moreover have "?hi * 100 < 2 ^ 63" using assms by simp
  ultimately have "in_i64 (previous * (100 - a))" "in_i64 (current * a)"
    "in_i64 (previous * (100 - a) + current * a)"
    using s unfolding in_i64_def by linarith+
  then have "EWMA previous current alphaPct = (previous * (100 - a) + current * a) div 100"
    using assms a \<open>0 \<le> previous * (100 - a)\<close> \<open>0 \<le> current * a\<close>
    by (auto simp: EWMA_def Let_def a_def)
  with s show ?thesis by linarith
qed

theorem ewma_between_witness:
  "min 100 200 \<le> EWMA 100 200 30 \<and> EWMA 100 200 30 \<le> max (100::int) 200"
  using ewma_between [of 100 200 30] by simp

end
