(* ===== verification/TopologyPolicy.thy ===== *)
theory TopologyPolicy
  imports PerfModel
begin

text \<open>
  Admission of work per storage topology, \<open>backend/internal/repository/topology_policy.go\<close>:
  the concurrency limits read from the environment, the health profile of a topology, fault
  domains normalised from placement labels, and the correlated risk of unhealthy peers in the
  same rack, zone or region. The process environment is the argument \<open>env\<close> (\<open>os.Getenv\<close> gives
  the empty string for an unset name); a nil table is \<open>None\<close>.
\<close>

section \<open>Limits from the environment\<close>

type_synonym environment = "string \<Rightarrow> string"

definition positiveEnvInt :: "environment \<Rightarrow> string \<Rightarrow> int \<Rightarrow> int" where
  "positiveEnvInt env name fallback =
     (let v = trim_space (env name) in
      if v = [] then fallback
      else case atoi v of None \<Rightarrow> fallback | Some n \<Rightarrow> if n < 0 then fallback else n)"

definition TopologyHealthyMaxConcurrency :: "environment \<Rightarrow> int" where
  "TopologyHealthyMaxConcurrency env = positiveEnvInt env ''DTS_TOPOLOGY_HEALTHY_MAX_CONCURRENCY'' 0"

definition TopologyDegradedMaxConcurrency :: "environment \<Rightarrow> int" where
  "TopologyDegradedMaxConcurrency env =
     (let n = positiveEnvInt env ''DTS_TOPOLOGY_DEGRADED_MAX_CONCURRENCY'' 1 in
      if n \<le> 0 then 1 else n)"

definition TopologyRecoveryMaxConcurrency :: "environment \<Rightarrow> int" where
  "TopologyRecoveryMaxConcurrency env =
     (let healthy = TopologyHealthyMaxConcurrency env;
          fallback = (if healthy > 0 then healthy else 4);
          n = positiveEnvInt env ''DTS_TOPOLOGY_RECOVERY_MAX_CONCURRENCY'' fallback;
          base = TopologyDegradedMaxConcurrency env;
          n = (if n < base then base else n)
      in if healthy > 0 \<and> n > healthy then healthy else n)"

definition TopologyProfileHealth :: "MigrationTable option \<Rightarrow> string \<Rightarrow> string" where
  "TopologyProfileHealth table topologyID =
     (case table of
        None \<Rightarrow> ''HEALTHY''
      | Some t \<Rightarrow>
          if trim_space topologyID = [] then ''HEALTHY''
          else case map_of (tbl_TopologyPerformance t) topologyID of
              None \<Rightarrow> ''HEALTHY''
            | Some p \<Rightarrow> NormalizeTopologyHealth (ttp_Health p))"

definition TopologyEffectiveConcurrencyCap ::
  "environment \<Rightarrow> MigrationTable option \<Rightarrow> string \<Rightarrow> int" where
  "TopologyEffectiveConcurrencyCap env table topologyID =
     (let health = TopologyProfileHealth table topologyID;
          base = TopologyConcurrencyCap health (TopologyHealthyMaxConcurrency env)
                   (TopologyDegradedMaxConcurrency env)
      in case table of
           None \<Rightarrow> base
         | Some t \<Rightarrow>
             if health \<noteq> ''DEGRADED'' then base
             else case map_of (tbl_TopologyPerformance t) topologyID of
                 None \<Rightarrow> base
               | Some profile \<Rightarrow>
                   if ttp_RecoveryConcurrencyCap profile \<le> base then base
                   else let maxCap = TopologyRecoveryMaxConcurrency env in
                        if ttp_RecoveryConcurrencyCap profile > maxCap then maxCap
                        else ttp_RecoveryConcurrencyCap profile)"

definition TopologyClaimRank :: "MigrationTable option \<Rightarrow> string \<Rightarrow> int" where
  "TopologyClaimRank table topologyID = TopologyHealthRank (TopologyProfileHealth table topologyID)"

definition TopologyClaimAllowed ::
  "environment \<Rightarrow> MigrationTable option \<Rightarrow> string \<Rightarrow> int \<Rightarrow> bool" where
  "TopologyClaimAllowed env table topologyID running =
     (if trim_space topologyID = [] then True
      else let health = TopologyProfileHealth table topologyID;
               c = TopologyEffectiveConcurrencyCap env table topologyID
           in if c = 0 then health \<noteq> ''CIRCUIT_OPEN'' else running < c)"

definition envDefaultOn :: "environment \<Rightarrow> string \<Rightarrow> bool" where
  "envDefaultOn env name =
     (let v = to_lower (trim_space (env name)) in
      v = [] \<or> v = ''1'' \<or> v = ''true'' \<or> v = ''yes'' \<or> v = ''on'')"

definition FaultDomainProtectionEnabled :: "environment \<Rightarrow> bool" where
  "FaultDomainProtectionEnabled env = envDefaultOn env ''DTS_TOPOLOGY_FAULT_DOMAIN_PROTECTION''"

definition FaultDomainDegradedMaxConcurrency :: "environment \<Rightarrow> int" where
  "FaultDomainDegradedMaxConcurrency env =
     (let n = positiveEnvInt env ''DTS_TOPOLOGY_FAULT_DOMAIN_DEGRADED_MAX_CONCURRENCY'' 2 in
      if n \<le> 0 then 1 else n)"

definition FaultDomainCriticalMaxConcurrency :: "environment \<Rightarrow> int" where
  "FaultDomainCriticalMaxConcurrency env =
     (let n = positiveEnvInt env ''DTS_TOPOLOGY_FAULT_DOMAIN_CRITICAL_MAX_CONCURRENCY'' 1 in
      if n \<le> 0 then 1 else n)"

definition FaultDomainRegionMinUnhealthyZones :: "environment \<Rightarrow> int" where
  "FaultDomainRegionMinUnhealthyZones env =
     (let n = positiveEnvInt env ''DTS_TOPOLOGY_FAULT_DOMAIN_REGION_MIN_UNHEALTHY_ZONES'' 2 in
      if n < 2 then 2 else n)"

section \<open>Fault domains\<close>

text \<open>The first key, in the given order, for which some label has that name and a value.\<close>

fun firstLabel :: "(string, string) gomap \<Rightarrow> string list \<Rightarrow> string" where
  "firstLabel labels [] = []"
| "firstLabel labels (key # keys) =
     (case find (\<lambda>(actual, value). equal_fold (trim_space actual) key \<and> trim_space value \<noteq> []) labels of
        Some (actual, value) \<Rightarrow> trim_space value
      | None \<Rightarrow> firstLabel labels keys)"

definition CanonicalFaultDomain :: "(string, string) gomap \<Rightarrow> (string, string) gomap" where
  "CanonicalFaultDomain labels =
     (if labels = [] then []
      else let region = firstLabel labels [''region'', ''cloud_region'', ''failure_domain_region'',
                 ''topology.kubernetes.io/region''];
               zoneRaw = firstLabel labels [''zone'', ''az'', ''availability_zone'', ''ob_zone'',
                 ''failure_domain_zone'', ''topology.kubernetes.io/zone''];
               rackRaw = firstLabel labels [''rack'', ''rack_id'', ''failure_domain_rack'',
                 ''topology.kubernetes.io/rack''];
               out = (if region \<noteq> [] then AList.update ''region'' region [] else []);
               out = (if zoneRaw \<noteq> [] then
                        (if region \<noteq> [] then AList.update ''zone'' (region @ ''/'' @ zoneRaw) out
                         else AList.update ''zone'' zoneRaw out)
                      else out)
           in if rackRaw \<noteq> [] then
                (let prefix = sget out ''zone'';
                     prefix = (if prefix = [] then region else prefix)
                 in if prefix \<noteq> [] then AList.update ''rack'' (prefix @ ''/'' @ rackRaw) out
                    else AList.update ''rack'' rackRaw out)
              else out)"

definition FaultDomainsOverlap :: "(string, string) gomap \<Rightarrow> (string, string) gomap \<Rightarrow> bool" where
  "FaultDomainsOverlap a b =
     (if a = [] \<or> b = [] then False
      else list_ex (\<lambda>key. let av = trim_space (sget a key); bv = trim_space (sget b key) in
                      av \<noteq> [] \<and> bv \<noteq> [] \<and> av = bv) [''rack'', ''zone'', ''region''])"

definition TopologyFaultDomain :: "MigrationTable option \<Rightarrow> string \<Rightarrow> (string, string) gomap" where
  "TopologyFaultDomain table topologyID =
     (case table of
        None \<Rightarrow> []
      | Some t \<Rightarrow>
          if trim_space topologyID = [] then []
          else case find (\<lambda>p. tp_ID p = topologyID) (tbl_Topology t) of
              None \<Rightarrow> []
            | Some p \<Rightarrow> CanonicalFaultDomain (tp_Labels p))"

section \<open>Correlated risk\<close>

text \<open>The variables of the loop over the performance profiles.\<close>

record peer_risk =
  pr_rack :: int
  pr_zone :: int
  pr_region :: int
  pr_zones :: "string list"

definition peer_step ::
  "MigrationTable \<Rightarrow> (string, string) gomap \<Rightarrow> string \<Rightarrow> string \<times> TableTopologyPerformance \<Rightarrow>
   peer_risk \<Rightarrow> peer_risk" where
  "peer_step t candidate topologyID entry st =
     (let (peerID, profile) = entry in
      if peerID = topologyID then st
      else let rank = TopologyHealthRank (ttp_Health profile) in
      if rank \<le> 0 then st
      else let peer = TopologyFaultDomain (Some t) peerID;
               st = (if sget candidate ''rack'' \<noteq> [] \<and> sget peer ''rack'' = sget candidate ''rack''
                        \<and> rank > pr_rack st then st\<lparr>pr_rack := rank\<rparr> else st);
               st = (if sget candidate ''zone'' \<noteq> [] \<and> sget peer ''zone'' = sget candidate ''zone''
                        \<and> rank > pr_zone st then st\<lparr>pr_zone := rank\<rparr> else st)
           in if sget candidate ''region'' \<noteq> [] \<and> sget peer ''region'' = sget candidate ''region'' then
                (let zoneKey = (if sget peer ''zone'' = [] then ''topology:'' @ peerID
                                else sget peer ''zone'');
                     st = st\<lparr>pr_zones := List.insert zoneKey (pr_zones st)\<rparr>
                 in if rank > pr_region st then st\<lparr>pr_region := rank\<rparr> else st)
              else st)"

definition TopologyFaultDomainPeerState ::
  "environment \<Rightarrow> MigrationTable option \<Rightarrow> string \<Rightarrow> int \<times> string" where
  "TopologyFaultDomainPeerState env table topologyID =
     (case table of
        None \<Rightarrow> (0, [])
      | Some t \<Rightarrow>
          if \<not> FaultDomainProtectionEnabled env then (0, [])
          else let candidate = TopologyFaultDomain (Some t) topologyID in
          if candidate = [] then (0, [])
          else let st = fold (peer_step t candidate topologyID) (tbl_TopologyPerformance t)
                          \<lparr>pr_rack = 0, pr_zone = 0, pr_region = 0, pr_zones = []\<rparr>;
                   regionRisk = (if int (length (pr_zones st)) < FaultDomainRegionMinUnhealthyZones env
                                 then 0 else pr_region st)
               in if regionRisk > 0 then (regionRisk, ''region'')
                  else if pr_zone st > 0 then (pr_zone st, ''zone'')
                  else if pr_rack st > 0 then (pr_rack st, ''rack'')
                  else (0, []))"

definition TopologyFaultDomainPeerRisk :: "environment \<Rightarrow> MigrationTable option \<Rightarrow> string \<Rightarrow> int" where
  "TopologyFaultDomainPeerRisk env table topologyID =
     fst (TopologyFaultDomainPeerState env table topologyID)"

definition FaultDomainConcurrencyCap :: "environment \<Rightarrow> int \<Rightarrow> int" where
  "FaultDomainConcurrencyCap env peerRisk =
     (if \<not> FaultDomainProtectionEnabled env \<or> peerRisk \<le> 0 then 0
      else if peerRisk \<ge> TopologyHealthRank ''HALF_OPEN'' then FaultDomainCriticalMaxConcurrency env
      else FaultDomainDegradedMaxConcurrency env)"

section \<open>Limits\<close>

lemma positiveEnvInt_nonneg: "0 \<le> d \<Longrightarrow> 0 \<le> positiveEnvInt env n d"
  by (auto simp: positiveEnvInt_def Let_def split: option.split)

lemma healthy_max_nonneg: "0 \<le> TopologyHealthyMaxConcurrency env"
  by (simp add: TopologyHealthyMaxConcurrency_def positiveEnvInt_nonneg)

lemma degraded_max_pos: "1 \<le> TopologyDegradedMaxConcurrency env"
  by (simp add: TopologyDegradedMaxConcurrency_def Let_def)

lemma recovery_max_pos: "1 \<le> TopologyRecoveryMaxConcurrency env"
  using degraded_max_pos [of env] by (simp add: TopologyRecoveryMaxConcurrency_def Let_def)

lemma profile_health_normal:
  "TopologyProfileHealth t i = ''HEALTHY'' \<or> TopologyProfileHealth t i = ''DEGRADED''
   \<or> TopologyProfileHealth t i = ''HALF_OPEN'' \<or> TopologyProfileHealth t i = ''CIRCUIT_OPEN''"
proof -
  have "h = ''HEALTHY'' \<or> h = ''DEGRADED'' \<or> h = ''HALF_OPEN'' \<or> h = ''CIRCUIT_OPEN''"
    if "h = NormalizeTopologyHealth x" for h x
    using that by (cases x rule: normalize_cases) simp_all
  then show ?thesis
    by (auto simp: TopologyProfileHealth_def split: option.split)
qed

lemma effective_cap_degraded:
  "TopologyProfileHealth t i = ''DEGRADED'' \<Longrightarrow>
   1 \<le> TopologyEffectiveConcurrencyCap env t i \<and>
   TopologyEffectiveConcurrencyCap env t i
     \<le> max (TopologyDegradedMaxConcurrency env) (TopologyRecoveryMaxConcurrency env)"
  using degraded_max_pos [of env] recovery_max_pos [of env]
  by (auto simp: TopologyEffectiveConcurrencyCap_def TopologyConcurrencyCap_def Let_def
      split: option.split)

lemma effective_cap_other:
  assumes "TopologyProfileHealth t i \<noteq> ''DEGRADED''"
  shows "TopologyEffectiveConcurrencyCap env t i
     = TopologyConcurrencyCap (TopologyProfileHealth t i) (TopologyHealthyMaxConcurrency env)
         (TopologyDegradedMaxConcurrency env)"
  using assms by (cases t) (simp_all add: TopologyEffectiveConcurrencyCap_def Let_def)

section \<open>The loop over the peers as a specification on sets\<close>

text \<open>
  The unhealthy peers that share the candidate's rack, zone or region, the highest rank among
  them, and the distinct zones that report an unhealthy peer in the region.
\<close>

definition peer_at ::
  "MigrationTable \<Rightarrow> (string, string) gomap \<Rightarrow> string \<Rightarrow> string \<Rightarrow>
   string \<times> TableTopologyPerformance \<Rightarrow> bool" where
  "peer_at t candidate topologyID level e \<longleftrightarrow>
     fst e \<noteq> topologyID \<and> 0 < TopologyHealthRank (ttp_Health (snd e)) \<and>
     sget candidate level \<noteq> [] \<and>
     sget (TopologyFaultDomain (Some t) (fst e)) level = sget candidate level"

definition peer_zone :: "MigrationTable \<Rightarrow> string \<times> TableTopologyPerformance \<Rightarrow> string" where
  "peer_zone t e = (let z = sget (TopologyFaultDomain (Some t) (fst e)) ''zone'' in
     if z = [] then ''topology:'' @ fst e else z)"

definition level_peers :: "MigrationTable \<Rightarrow> string \<Rightarrow> string \<Rightarrow> (string \<times> TableTopologyPerformance) set" where
  "level_peers t topologyID level =
     {e \<in> set (tbl_TopologyPerformance t).
        peer_at t (TopologyFaultDomain (Some t) topologyID) topologyID level e}"

definition level_risk :: "MigrationTable \<Rightarrow> string \<Rightarrow> string \<Rightarrow> int" where
  "level_risk t topologyID level =
     Max (insert 0 ((\<lambda>e. TopologyHealthRank (ttp_Health (snd e))) ` level_peers t topologyID level))"

definition level_zones :: "MigrationTable \<Rightarrow> string \<Rightarrow> string set" where
  "level_zones t topologyID = peer_zone t ` level_peers t topologyID ''region''"

lemma peer_step_fields:
  "pr_rack (peer_step t c i e st) =
     (if peer_at t c i ''rack'' e then max (TopologyHealthRank (ttp_Health (snd e))) (pr_rack st)
      else pr_rack st)"
  "pr_zone (peer_step t c i e st) =
     (if peer_at t c i ''zone'' e then max (TopologyHealthRank (ttp_Health (snd e))) (pr_zone st)
      else pr_zone st)"
  "pr_region (peer_step t c i e st) =
     (if peer_at t c i ''region'' e then max (TopologyHealthRank (ttp_Health (snd e))) (pr_region st)
      else pr_region st)"
  "pr_zones (peer_step t c i e st) =
     (if peer_at t c i ''region'' e then List.insert (peer_zone t e) (pr_zones st) else pr_zones st)"
  by (auto simp: peer_step_def peer_at_def peer_zone_def Let_def max_def split: prod.splits)

lemma fold_max_filter:
  assumes "\<And>e st. g (f e st) = (if Q e then max (h e) (g st) else (g st :: int))"
  shows "g (fold f es st) = Max (insert (g st) (h ` {e \<in> set es. Q e}))"
proof -
  have "g (fold f es st) = fold max (map h (filter Q es)) (g st)"
    by (induction es arbitrary: st) (simp_all add: assms)
  also have "\<dots> = Max (set (g st # map h (filter Q es)))"
    by (simp only: Max.set_eq_fold)
  finally show ?thesis by simp
qed

lemma fold_peer_zones:
  "distinct (pr_zones st) \<Longrightarrow>
   distinct (pr_zones (fold (peer_step t c i) es st)) \<and>
   set (pr_zones (fold (peer_step t c i) es st))
     = set (pr_zones st) \<union> peer_zone t ` {e \<in> set es. peer_at t c i ''region'' e}"
  by (induction es arbitrary: st) (auto simp: peer_step_fields)

section \<open>Properties\<close>



text \<open>
  C5. The correlated risk of a topology, computed by one pass over the performance map, is a
  function of the set of its entries, so the iteration order of the map does not matter: it is
  the highest rank among the unhealthy peers of the region when at least the configured number
  of distinct zones (never fewer than two) report one, else the highest rank in the zone, else
  in the rack.
\<close>

theorem peer_state_spec:
  "TopologyFaultDomainPeerState env (Some t) i =
     (if FaultDomainProtectionEnabled env \<and> TopologyFaultDomain (Some t) i \<noteq> [] then
        (if FaultDomainRegionMinUnhealthyZones env \<le> int (card (level_zones t i))
              \<and> 0 < level_risk t i ''region'' then (level_risk t i ''region'', ''region'')
         else if 0 < level_risk t i ''zone'' then (level_risk t i ''zone'', ''zone'')
         else if 0 < level_risk t i ''rack'' then (level_risk t i ''rack'', ''rack'')
         else (0, []))
      else (0, []))
   \<and> 2 \<le> FaultDomainRegionMinUnhealthyZones env"
proof -
  let ?c = "TopologyFaultDomain (Some t) i"
  let ?st = "\<lparr>pr_rack = 0, pr_zone = 0, pr_region = 0, pr_zones = []\<rparr>"
  let ?r = "fold (peer_step t ?c i) (tbl_TopologyPerformance t) ?st"
  have "pr_rack ?r = level_risk t i ''rack''" "pr_zone ?r = level_risk t i ''zone''"
    "pr_region ?r = level_risk t i ''region''"
    unfolding level_risk_def level_peers_def
    by (simp_all only: fold_max_filter [where g = pr_rack, OF peer_step_fields(1)]
        fold_max_filter [where g = pr_zone, OF peer_step_fields(2)]
        fold_max_filter [where g = pr_region, OF peer_step_fields(3)] peer_risk.simps)
  moreover have "length (pr_zones ?r) = card (level_zones t i)"
    using fold_peer_zones [of ?st t ?c i "tbl_TopologyPerformance t"]
    unfolding level_zones_def level_peers_def by (metis (no_types, lifting) distinct.simps(1)
        distinct_card empty_set peer_risk.select_convs(4) sup_bot_left)
  moreover have "2 \<le> FaultDomainRegionMinUnhealthyZones env"
    by (simp add: FaultDomainRegionMinUnhealthyZones_def Let_def)
  ultimately show ?thesis by (auto simp: TopologyFaultDomainPeerState_def Let_def)
qed

end
