(* ===== verification/StoreCore.thy ===== *)
theory StoreCore
  imports Domain
begin

text \<open>
  The state of the repository and its persistence, the first part of
  \<open>backend/internal/repository/memory/memory.go\<close>: the struct \<open>Store\<close>, its JSON snapshot,
  \<open>NewPersistent\<close>, \<open>load\<close> and \<open>persistLocked\<close>.

  The mutex makes every method one atomic step; a method is a function from the store to the
  store and its result. \<open>st_disk\<close> is the part of the file system the store owns: the state
  file and its temporary sibling. Each method that writes takes the outcome of the file
  operations as an argument of type \<open>io\<close>. Encoding a snapshot to JSON and back is modelled by
  its effect on the fields: those tagged \<open>json:"-"\<close> are dropped, all others are kept. A nil
  and an empty map or slice are not distinguished.
\<close>

section \<open>State\<close>

record persistedControlOperation =
  co_TaskID :: string
  co_Operation :: string
  co_Owner :: string
  co_LeaseUntil :: time
  co_UpdatedAt :: time

record persistedCDCSpool =
  psp_ID :: string
  psp_TaskID :: string
  psp_Direction :: string
  psp_PositionType :: string
  psp_PositionValue :: string
  psp_Resource :: string
  psp_Sequence :: int
  psp_SourceTimestampMS :: int
  psp_EventCount :: int
  psp_PayloadBytes :: int
  psp_Events :: "CDCEvent list"
  psp_EventsCiphertext :: string
  psp_Status :: CDCSpoolStatus
  psp_CreatedAt :: time
  psp_AppliedAt :: time

record persistedCDCDeadLetter =
  pdl_ID :: string
  pdl_TaskID :: string
  pdl_Direction :: string
  pdl_PositionType :: string
  pdl_PositionValue :: string
  pdl_Resource :: string
  pdl_Events :: "CDCEvent list"
  pdl_EventsCiphertext :: string
  pdl_LastError :: string
  pdl_RetryCount :: int
  pdl_Status :: CDCDeadLetterStatus
  pdl_CreatedAt :: time
  pdl_UpdatedAt :: time
  pdl_ResolvedAt :: time

record persistedDataSource =
  pds_ID :: string
  pds_Name :: string
  pds_Type :: DataSourceType
  pds_Host :: string
  pds_Port :: int
  pds_Username :: string
  pds_PasswordCiphertext :: string
  pds_Database :: string
  pds_Schema :: string
  pds_JDBCURL :: string
  pds_DriverClass :: string
  pds_CDCURL :: string
  pds_TLSMode :: TLSMode
  pds_TLSServerName :: string
  pds_TLSCACert :: string
  pds_TLSClientCert :: string
  pds_TLSClientKeyCiphertext :: string
  pds_CreatedAt :: time
  pds_UpdatedAt :: time

record snapshot =
  sn_DataSources :: "(string, persistedDataSource) gomap"
  sn_Migrations :: "(string, MigrationTask) gomap"
  sn_Tables :: "(string, MigrationTable) gomap"
  sn_Chunks :: "(string, MigrationChunk) gomap"
  sn_Workers :: "(string, Worker) gomap"
  sn_EngineJobs :: "(string, EngineJob) gomap"
  sn_CDCPositions :: "CDCPosition list"
  sn_CDCSpool :: "persistedCDCSpool list"
  sn_CDCDeadLetters :: "(string, persistedCDCDeadLetter) gomap"
  sn_CDCConflicts :: "CDCConflictRecord list"
  sn_Validations :: "(string, ValidationResult) gomap"
  sn_ValidationArchives :: "(string, ValidationArchive) gomap"
  sn_ValidationReportArchives :: "(string, ValidationReportArchiveRecord) gomap"
  sn_Alerts :: "(string, Alert) gomap"
  sn_Audits :: "AuditEvent list"
  sn_TaskLogs :: "TaskLog list"
  sn_Users :: "(string, User) gomap"
  sn_ControlOperations :: "(string, persistedControlOperation) gomap"

text \<open>A state file is absent, holds a snapshot, or does not parse.\<close>

datatype file_content = Missing | Snapshot snapshot | Garbled string

record disk =
  dk_main :: file_content
  dk_tmp :: file_content

record Store =
  st_path :: string
  st_datasources :: "(string, DataSource) gomap"
  st_migrations :: "(string, MigrationTask) gomap"
  st_tables :: "(string, MigrationTable) gomap"
  st_chunks :: "(string, MigrationChunk) gomap"
  st_workers :: "(string, Worker) gomap"
  st_engineJobs :: "(string, EngineJob) gomap"
  st_cdcPositions :: "CDCPosition list"
  st_cdcSpool :: "CDCSpoolRecord list"
  st_cdcDeadLetters :: "(string, CDCDeadLetter) gomap"
  st_cdcConflicts :: "CDCConflictRecord list"
  st_validations :: "(string, ValidationResult) gomap"
  st_validationArchives :: "(string, ValidationArchive) gomap"
  st_validationReportArchives :: "(string, ValidationReportArchiveRecord) gomap"
  st_alerts :: "(string, Alert) gomap"
  st_audits :: "AuditEvent list"
  st_taskLogs :: "TaskLog list"
  st_users :: "(string, User) gomap"
  st_controlOperations :: "(string, persistedControlOperation) gomap"
  st_disk :: disk

text \<open>The outcome of the file operations of one method; a failed write leaves the temporary
  file garbled.\<close>

datatype io = IOok | IOmkdir string | IOwrite string | IOrename string

definition newStore :: "string \<Rightarrow> disk \<Rightarrow> Store" where
  "newStore path dk = \<lparr>st_path = path, st_datasources = [], st_migrations = [], st_tables = [],
     st_chunks = [], st_workers = [], st_engineJobs = [], st_cdcPositions = [], st_cdcSpool = [],
     st_cdcDeadLetters = [], st_cdcConflicts = [], st_validations = [], st_validationArchives = [],
     st_validationReportArchives = [], st_alerts = [], st_audits = [], st_taskLogs = [],
     st_users = [], st_controlOperations = [], st_disk = dk\<rparr>"

section \<open>Writing the snapshot\<close>

definition persist_ds :: "DataSource \<Rightarrow> persistedDataSource" where
  "persist_ds d = \<lparr>pds_ID = ds_ID d, pds_Name = ds_Name d, pds_Type = ds_Type d,
     pds_Host = ds_Host d, pds_Port = ds_Port d, pds_Username = ds_Username d,
     pds_PasswordCiphertext = ds_PasswordCiphertext d, pds_Database = ds_Database d,
     pds_Schema = ds_Schema d, pds_JDBCURL = ds_JDBCURL d, pds_DriverClass = ds_DriverClass d,
     pds_CDCURL = ds_CDCURL d, pds_TLSMode = ds_TLSMode d, pds_TLSServerName = ds_TLSServerName d,
     pds_TLSCACert = ds_TLSCACert d, pds_TLSClientCert = ds_TLSClientCert d,
     pds_TLSClientKeyCiphertext = ds_TLSClientKeyCiphertext d, pds_CreatedAt = ds_CreatedAt d,
     pds_UpdatedAt = ds_UpdatedAt d\<rparr>"

definition persist_spool :: "CDCSpoolRecord \<Rightarrow> persistedCDCSpool" where
  "persist_spool v = \<lparr>psp_ID = sp_ID v, psp_TaskID = sp_TaskID v, psp_Direction = sp_Direction v,
     psp_PositionType = sp_PositionType v, psp_PositionValue = sp_PositionValue v,
     psp_Resource = sp_Resource v, psp_Sequence = sp_Sequence v,
     psp_SourceTimestampMS = sp_SourceTimestampMS v, psp_EventCount = sp_EventCount v,
     psp_PayloadBytes = sp_PayloadBytes v, psp_Events = sp_Events v,
     psp_EventsCiphertext = sp_EventsCiphertext v, psp_Status = sp_Status v,
     psp_CreatedAt = sp_CreatedAt v, psp_AppliedAt = sp_AppliedAt v\<rparr>"

definition persist_dead_letter :: "CDCDeadLetter \<Rightarrow> persistedCDCDeadLetter" where
  "persist_dead_letter v = \<lparr>pdl_ID = dl_ID v, pdl_TaskID = dl_TaskID v,
     pdl_Direction = dl_Direction v, pdl_PositionType = dl_PositionType v,
     pdl_PositionValue = dl_PositionValue v, pdl_Resource = dl_Resource v,
     pdl_Events = dl_Events v, pdl_EventsCiphertext = dl_EventsCiphertext v,
     pdl_LastError = dl_LastError v, pdl_RetryCount = dl_RetryCount v, pdl_Status = dl_Status v,
     pdl_CreatedAt = dl_CreatedAt v, pdl_UpdatedAt = dl_UpdatedAt v, pdl_ResolvedAt = dl_ResolvedAt v\<rparr>"

text \<open>\<open>domain.User\<close> is written with its own JSON tags, which drop the password hash.\<close>

definition json_user :: "User \<Rightarrow> User" where
  "json_user u = u\<lparr>us_PasswordHash := []\<rparr>"

definition take_snapshot :: "Store \<Rightarrow> snapshot" where
  "take_snapshot s = \<lparr>sn_DataSources = map (\<lambda>(id, d). (id, persist_ds d)) (st_datasources s),
     sn_Migrations = st_migrations s, sn_Tables = st_tables s, sn_Chunks = st_chunks s,
     sn_Workers = st_workers s, sn_EngineJobs = st_engineJobs s,
     sn_CDCPositions = st_cdcPositions s, sn_CDCSpool = map persist_spool (st_cdcSpool s),
     sn_CDCDeadLetters = map (\<lambda>(id, v). (id, persist_dead_letter v)) (st_cdcDeadLetters s),
     sn_CDCConflicts = st_cdcConflicts s, sn_Validations = st_validations s,
     sn_ValidationArchives = st_validationArchives s,
     sn_ValidationReportArchives = st_validationReportArchives s, sn_Alerts = st_alerts s,
     sn_Audits = st_audits s, sn_TaskLogs = st_taskLogs s,
     sn_Users = map (\<lambda>(id, u). (id, json_user u)) (st_users s),
     sn_ControlOperations = st_controlOperations s\<rparr>"

definition persistLocked :: "io \<Rightarrow> Store \<Rightarrow> Store \<times> go_error option" where
  "persistLocked fault s =
     (if st_path s = [] then (s, None)
      else case fault of
          IOmkdir e \<Rightarrow> (s, Some (ErrIO e))
        | IOwrite e \<Rightarrow> (s\<lparr>st_disk := (st_disk s)\<lparr>dk_tmp := Garbled e\<rparr>\<rparr>, Some (ErrIO e))
        | IOrename e \<Rightarrow>
            (s\<lparr>st_disk := (st_disk s)\<lparr>dk_tmp := Snapshot (take_snapshot s)\<rparr>\<rparr>, Some (ErrIO e))
        | IOok \<Rightarrow>
            (s\<lparr>st_disk := \<lparr>dk_main = Snapshot (take_snapshot s), dk_tmp = Missing\<rparr>\<rparr>, None))"

section \<open>Loading\<close>

definition load_ds :: "persistedDataSource \<Rightarrow> DataSource" where
  "load_ds p = zero_DataSource\<lparr>ds_ID := pds_ID p, ds_Name := pds_Name p, ds_Type := pds_Type p,
     ds_Host := pds_Host p, ds_Port := pds_Port p, ds_Username := pds_Username p,
     ds_PasswordCiphertext := pds_PasswordCiphertext p, ds_Database := pds_Database p,
     ds_Schema := pds_Schema p, ds_JDBCURL := pds_JDBCURL p, ds_DriverClass := pds_DriverClass p,
     ds_CDCURL := pds_CDCURL p, ds_TLSMode := pds_TLSMode p, ds_TLSServerName := pds_TLSServerName p,
     ds_TLSCACert := pds_TLSCACert p, ds_TLSClientCert := pds_TLSClientCert p,
     ds_TLSClientKeyCiphertext := pds_TLSClientKeyCiphertext p, ds_CreatedAt := pds_CreatedAt p,
     ds_UpdatedAt := pds_UpdatedAt p\<rparr>"

definition load_spool :: "persistedCDCSpool \<Rightarrow> CDCSpoolRecord" where
  "load_spool p = \<lparr>sp_ID = psp_ID p, sp_TaskID = psp_TaskID p, sp_Direction = psp_Direction p,
     sp_Sequence = psp_Sequence p, sp_PositionType = psp_PositionType p,
     sp_PositionValue = psp_PositionValue p, sp_Resource = psp_Resource p,
     sp_SourceTimestampMS = psp_SourceTimestampMS p, sp_Events = psp_Events p,
     sp_EventCount = psp_EventCount p, sp_PayloadBytes = psp_PayloadBytes p,
     sp_EventsCiphertext = psp_EventsCiphertext p, sp_Status = psp_Status p,
     sp_CreatedAt = psp_CreatedAt p, sp_AppliedAt = psp_AppliedAt p\<rparr>"

definition load_dead_letter :: "persistedCDCDeadLetter \<Rightarrow> CDCDeadLetter" where
  "load_dead_letter p = \<lparr>dl_ID = pdl_ID p, dl_TaskID = pdl_TaskID p,
     dl_Direction = pdl_Direction p, dl_PositionType = pdl_PositionType p,
     dl_PositionValue = pdl_PositionValue p, dl_Resource = pdl_Resource p,
     dl_Events = pdl_Events p, dl_EventsCiphertext = pdl_EventsCiphertext p,
     dl_LastError = pdl_LastError p, dl_RetryCount = pdl_RetryCount p, dl_Status = pdl_Status p,
     dl_CreatedAt = pdl_CreatedAt p, dl_UpdatedAt = pdl_UpdatedAt p, dl_ResolvedAt = pdl_ResolvedAt p\<rparr>"

definition or_keep :: "'a list \<Rightarrow> 'a list \<Rightarrow> 'a list" where
  "or_keep loaded old = (if loaded \<noteq> [] then loaded else old)"

definition restore :: "snapshot \<Rightarrow> Store \<Rightarrow> Store" where
  "restore sn s = s\<lparr>
     st_datasources := fold (\<lambda>(id, p). AList.update id (load_ds p)) (sn_DataSources sn) (st_datasources s),
     st_migrations := or_keep (sn_Migrations sn) (st_migrations s),
     st_tables := or_keep (sn_Tables sn) (st_tables s),
     st_chunks := or_keep (sn_Chunks sn) (st_chunks s),
     st_workers := or_keep (sn_Workers sn) (st_workers s),
     st_engineJobs := or_keep (sn_EngineJobs sn) (st_engineJobs s),
     st_cdcPositions := or_keep (sn_CDCPositions sn) (st_cdcPositions s),
     st_cdcSpool := or_keep (map load_spool (sn_CDCSpool sn)) (st_cdcSpool s),
     st_cdcDeadLetters :=
       or_keep (map (\<lambda>(id, p). (id, load_dead_letter p)) (sn_CDCDeadLetters sn)) (st_cdcDeadLetters s),
     st_cdcConflicts := or_keep (sn_CDCConflicts sn) (st_cdcConflicts s),
     st_validations := or_keep (sn_Validations sn) (st_validations s),
     st_validationArchives := or_keep (sn_ValidationArchives sn) (st_validationArchives s),
     st_validationReportArchives :=
       or_keep (sn_ValidationReportArchives sn) (st_validationReportArchives s),
     st_alerts := or_keep (sn_Alerts sn) (st_alerts s),
     st_audits := or_keep (sn_Audits sn) (st_audits s),
     st_taskLogs := or_keep (sn_TaskLogs sn) (st_taskLogs s),
     st_users := or_keep (sn_Users sn) (st_users s),
     st_controlOperations := or_keep (sn_ControlOperations sn) (st_controlOperations s)\<rparr>"

text \<open>\<open>readErr\<close> is a failure of \<open>os.ReadFile\<close> other than a missing file.\<close>

definition load :: "string option \<Rightarrow> Store \<Rightarrow> go_error + Store" where
  "load readErr s =
     (if st_path s = [] then Inr s
      else case (dk_main (st_disk s), readErr) of
          (Missing, _) \<Rightarrow> Inr s
        | (_, Some e) \<Rightarrow> Inl (ErrIO e)
        | (Garbled e, None) \<Rightarrow> Inl (ErrText (''load repository snapshot: '' @ e))
        | (Snapshot sn, None) \<Rightarrow> Inr (restore sn s))"

definition New :: "disk \<Rightarrow> Store" where
  "New dk = newStore [] dk"

definition NewPersistent :: "string option \<Rightarrow> string \<Rightarrow> disk \<Rightarrow> go_error + Store" where
  "NewPersistent readErr path dk = load readErr (newStore path dk)"

section \<open>Well-formed maps\<close>

text \<open>A map of the store has distinct keys, each the identity of its value.\<close>

definition keyed :: "('v \<Rightarrow> string) \<Rightarrow> (string, 'v) gomap \<Rightarrow> bool" where
  "keyed idf m \<longleftrightarrow> gmap_wf m \<and> list_all (\<lambda>(k, v). k = idf v) m"

named_theorems wf_intro \<open>preservation of well-formedness\<close>

lemma keyed_Nil [simp]: "keyed idf []"
  by (simp add: keyed_def)

lemma keyed_wf [dest]: "keyed idf m \<Longrightarrow> gmap_wf m"
  by (simp add: keyed_def)

lemma keyedD: "keyed idf m \<Longrightarrow> (k, v) \<in> set m \<Longrightarrow> k = idf v"
  by (auto simp: keyed_def list_all_iff)

lemma keyed_lookup: "keyed idf m \<Longrightarrow> map_of m k = Some v \<Longrightarrow> idf v = k"
  using keyedD map_of_SomeD by metis

lemma keyed_update [wf_intro]: "keyed idf m \<Longrightarrow> k = idf v \<Longrightarrow> keyed idf (AList.update k v m)"
  by (auto simp: keyed_def list_all_iff dest: set_updateD)

lemma keyed_delete [wf_intro]: "keyed idf m \<Longrightarrow> keyed idf (AList.delete k m)"
  by (auto simp: keyed_def list_all_iff AList.delete_eq intro: wf_delete [unfolded AList.delete_eq])

lemma keyed_filter [wf_intro]: "keyed idf m \<Longrightarrow> keyed idf (filter P m)"
  by (auto simp: keyed_def list_all_iff distinct_map intro: inj_on_subset)

lemma keyed_values [wf_intro]:
  "keyed idf m \<Longrightarrow> (\<And>k v. idf (f k v) = idf v) \<Longrightarrow> keyed idf (gmap_values f m)"
  by (fastforce simp: keyed_def list_all_iff set_gmap_values)

lemma map_fst_values [simp]: "map (fst \<circ> (\<lambda>(k, v). (k, f v))) m = map fst m"
  by (induction m) auto

lemma map_of_values: "map_of (map (\<lambda>(k, v). (k, f v)) m) k = map_option f (map_of m k)"
  by (induction m) auto

lemma fold_update_fresh:
  "distinct (map fst acc @ map fst m) \<Longrightarrow>
   fold (\<lambda>(k, v). AList.update k (f v)) m acc = acc @ map (\<lambda>(k, v). (k, f v)) m"
proof (induction m arbitrary: acc)
  case Nil
  then show ?case by simp
next
  case (Cons e m)
  obtain k v where e: "e = (k, v)" by (cases e)
  with Cons.prems have "k \<notin> set (map fst acc)" by auto
  then have "AList.update k (f v) acc = acc @ [(k, f v)]"
    by (induction acc) auto
  with Cons e show ?case by simp
qed

definition reportArchiveKey :: "ValidationReportArchiveRecord \<Rightarrow> string" where
  "reportArchiveKey a = vra_TaskID a @ ''|'' @ to_lower (trim_space (vra_EvidenceDigest a))"

definition store_wf :: "Store \<Rightarrow> bool" where
  "store_wf s \<longleftrightarrow>
     keyed ds_ID (st_datasources s) \<and> keyed mig_ID (st_migrations s) \<and>
     keyed tbl_ID (st_tables s) \<and> keyed ch_ID (st_chunks s) \<and> keyed wk_ID (st_workers s) \<and>
     keyed ej_ID (st_engineJobs s) \<and> keyed dl_ID (st_cdcDeadLetters s) \<and>
     keyed vr_ID (st_validations s) \<and> keyed va_TaskID (st_validationArchives s) \<and>
     keyed reportArchiveKey (st_validationReportArchives s) \<and> keyed al_ID (st_alerts s) \<and>
     keyed us_ID (st_users s) \<and> keyed co_TaskID (st_controlOperations s)"

lemma st_path_new [simp]: "st_path (newStore p dk) = p" and st_disk_new [simp]: "st_disk (newStore p dk) = dk"
  by (simp_all add: newStore_def)

lemma store_wf_new [simp]: "store_wf (newStore p dk)"
  by (simp add: store_wf_def newStore_def)

section \<open>Persisting changes the disk only\<close>

lemma persist_disk_only: "\<exists>dk. fst (persistLocked fault s) = s\<lparr>st_disk := dk\<rparr>"
proof -
  have "s = s\<lparr>st_disk := st_disk s\<rparr>" by simp
  then have "\<exists>dk. s = s\<lparr>st_disk := dk\<rparr>" ..
  then show ?thesis by (cases fault) (auto simp: persistLocked_def)
qed

lemma persist_fields [simp]:
  "st_path (fst (persistLocked f s)) = st_path s"
  "st_datasources (fst (persistLocked f s)) = st_datasources s"
  "st_migrations (fst (persistLocked f s)) = st_migrations s"
  "st_tables (fst (persistLocked f s)) = st_tables s"
  "st_chunks (fst (persistLocked f s)) = st_chunks s"
  "st_workers (fst (persistLocked f s)) = st_workers s"
  "st_engineJobs (fst (persistLocked f s)) = st_engineJobs s"
  "st_cdcPositions (fst (persistLocked f s)) = st_cdcPositions s"
  "st_cdcSpool (fst (persistLocked f s)) = st_cdcSpool s"
  "st_cdcDeadLetters (fst (persistLocked f s)) = st_cdcDeadLetters s"
  "st_cdcConflicts (fst (persistLocked f s)) = st_cdcConflicts s"
  "st_validations (fst (persistLocked f s)) = st_validations s"
  "st_validationArchives (fst (persistLocked f s)) = st_validationArchives s"
  "st_validationReportArchives (fst (persistLocked f s)) = st_validationReportArchives s"
  "st_alerts (fst (persistLocked f s)) = st_alerts s"
  "st_audits (fst (persistLocked f s)) = st_audits s"
  "st_taskLogs (fst (persistLocked f s)) = st_taskLogs s"
  "st_users (fst (persistLocked f s)) = st_users s"
  "st_controlOperations (fst (persistLocked f s)) = st_controlOperations s"
  using persist_disk_only [of f s] by auto

lemma store_wf_persist [simp]: "store_wf (fst (persistLocked f s)) = store_wf s"
  by (simp add: store_wf_def)

lemma persist_ok [simp]: "snd (persistLocked IOok s) = None"
  by (simp add: persistLocked_def)

section \<open>What a restart keeps\<close>

text \<open>The store without the plain-text secrets and the password hashes.\<close>

definition forget_secrets :: "DataSource \<Rightarrow> DataSource" where
  "forget_secrets d = d\<lparr>ds_Password := [], ds_TLSClientKey := []\<rparr>"

definition durable :: "Store \<Rightarrow> Store" where
  "durable s = s\<lparr>st_datasources := map (\<lambda>(id, d). (id, forget_secrets d)) (st_datasources s),
     st_users := map (\<lambda>(id, u). (id, json_user u)) (st_users s)\<rparr>"

lemma load_persist_ds [simp]: "load_ds (persist_ds d) = forget_secrets d"
  by (cases d) (simp add: load_ds_def persist_ds_def forget_secrets_def zero_DataSource_def)

lemma load_persist_spool [simp]: "load_spool (persist_spool v) = v"
  by (cases v) (simp add: load_spool_def persist_spool_def)

lemma load_persist_dead_letter [simp]: "load_dead_letter (persist_dead_letter v) = v"
  by (cases v) (simp add: load_dead_letter_def persist_dead_letter_def)

lemma load_persist_dead_letters [simp]:
  "map ((\<lambda>(id, p). (id, load_dead_letter p)) \<circ> (\<lambda>(id, v). (id, persist_dead_letter v))) m = m"
  by (induction m) auto

lemma load_persist_spools [simp]: "map (load_spool \<circ> persist_spool) vs = vs"
  by (induction vs) auto

lemma or_keep_Nil [simp]: "or_keep xs [] = xs"
  by (simp add: or_keep_def)

lemma restore_snapshot:
  assumes "gmap_wf (st_datasources s)"
  shows "restore (take_snapshot s) (newStore (st_path s) (st_disk s)) = durable s"
proof -
  have "distinct (map fst [] @ map fst (map (\<lambda>(id, d). (id, persist_ds d)) (st_datasources s)))"
    using assms by simp
  from fold_update_fresh [OF this, of load_ds]
  have "fold (\<lambda>(id, p). AList.update id (load_ds p)) (map (\<lambda>(id, d). (id, persist_ds d)) (st_datasources s)) []
      = map (\<lambda>(id, d). (id, forget_secrets d)) (st_datasources s)"
    by (simp add: case_prod_unfold comp_def)
  then show ?thesis
    by (cases s) (simp add: restore_def take_snapshot_def newStore_def durable_def)
qed

lemma reload_durable:
  assumes "store_wf s" and "st_path s \<noteq> []"
  shows "NewPersistent None (st_path s) (st_disk (fst (persistLocked IOok s)))
      = Inr (durable (fst (persistLocked IOok s)))"
proof -
  let ?s = "fst (persistLocked IOok s)"
  have wf: "gmap_wf (st_datasources ?s)"
    using assms(1) by (auto simp: store_wf_def)
  have "take_snapshot ?s = take_snapshot s" by (simp add: take_snapshot_def)
  moreover have "dk_main (st_disk ?s) = Snapshot (take_snapshot s)"
    using assms(2) by (simp add: persistLocked_def)
  ultimately show ?thesis
    using assms(2) restore_snapshot [OF wf]
    by (simp add: NewPersistent_def load_def newStore_def)
qed

section \<open>Properties\<close>





text \<open>
  The write drops the password hash of every user: after the restart each account is
  still there, under its name and enabled as before, with the empty hash, which
  \<open>VerifyPassword\<close> rejects for every password.
\<close>

theorem restart_loses_password_hashes:
  assumes "store_wf s" and "st_path s \<noteq> []" and "map_of (st_users s) uid = Some u"
  shows "\<exists>s'. NewPersistent None (st_path s) (st_disk (fst (persistLocked IOok s))) = Inr s'
    \<and> map_of (st_users s') uid = Some (u\<lparr>us_PasswordHash := []\<rparr>)"
proof -
  have "map_of (st_users (durable (fst (persistLocked IOok s)))) uid
      = Some (u\<lparr>us_PasswordHash := []\<rparr>)"
    using assms(3) by (simp add: durable_def map_of_values json_user_def [of u])
  moreover have "NewPersistent None (st_path s) (st_disk (fst (persistLocked IOok s)))
      = Inr (durable (fst (persistLocked IOok s)))"
    by (rule reload_durable [OF assms(1,2)])
  ultimately show ?thesis by blast
qed

theorem restart_loses_password_hashes_witness:
  "\<exists>s'. NewPersistent None ''f'' (st_disk (fst (persistLocked IOok
      ((newStore ''f'' \<lparr>dk_main = Missing, dk_tmp = Missing\<rparr>)\<lparr>st_users :=
        [(''u1'', zero_User\<lparr>us_ID := ''u1'', us_PasswordHash := ''h''\<rparr>)]\<rparr>)))) = Inr s'
    \<and> map_of (st_users s') ''u1'' = Some (zero_User\<lparr>us_ID := ''u1'', us_PasswordHash := []\<rparr>)"
proof -
  let ?s = "(newStore ''f'' \<lparr>dk_main = Missing, dk_tmp = Missing\<rparr>)\<lparr>st_users :=
        [(''u1'', zero_User\<lparr>us_ID := ''u1'', us_PasswordHash := ''h''\<rparr>)]\<rparr>"
  have "store_wf ?s" "st_path ?s = ''f''"
    "map_of (st_users ?s) ''u1'' = Some (zero_User\<lparr>us_ID := ''u1'', us_PasswordHash := ''h''\<rparr>)"
    by (simp_all add: store_wf_def newStore_def keyed_def)
  with restart_loses_password_hashes [of ?s "''u1''"] show ?thesis by simp
qed

end
