(* ===== verification/RepoSpec.thy ===== *)
theory RepoSpec
  imports GoPrelude
begin

text \<open>
  The contracts the parts of the repository share. \<open>keyed_repo\<close>: a map with insert-or-replace,
  read by key; \<open>erasing_repo\<close> adds deletion; \<open>lease_table\<close>: work items held by an owner until a
  deadline, which no operation takes away before the deadline has passed; \<open>fifo_log\<close>: a durable
  first-in first-out queue whose entries leave by acknowledgement only. The lemmas are what
  a client may use; each component interprets the contracts on its own operations.
\<close>

section \<open>Keyed collections\<close>

locale keyed_repo =
  fixes get :: "'s \<Rightarrow> string \<Rightarrow> 'v option"
    and put :: "'v \<Rightarrow> 's \<Rightarrow> 's"
    and key :: "'v \<Rightarrow> string"
  assumes get_put: "get (put v s) k = (if k = key v then Some v else get s k)"
begin

lemma get_put_same: "get (put v s) (key v) = Some v"
  by (simp add: get_put)

lemma get_put_other: "k \<noteq> key v \<Longrightarrow> get (put v s) k = get s k"
  by (simp add: get_put)

text \<open>After a batch of writes a key has the value of the last write to it.\<close>

lemma last_write_wins:
  "get (fold put vs s) k = (case find (\<lambda>v. key v = k) (rev vs) of Some v \<Rightarrow> Some v | None \<Rightarrow> get s k)"
proof (induction vs rule: rev_induct)
  case Nil
  then show ?case by simp
next
  case (snoc v vs)
  then show ?case by (simp add: get_put)
qed

lemma put_swap: "key v \<noteq> key w \<Longrightarrow> get (put v (put w s)) k = get (put w (put v s)) k"
  by (simp add: get_put)

end

locale erasing_repo = keyed_repo get put key
  for get :: "'s \<Rightarrow> string \<Rightarrow> 'v option" and put :: "'v \<Rightarrow> 's \<Rightarrow> 's" and key :: "'v \<Rightarrow> string" +
  fixes del :: "string \<Rightarrow> 's \<Rightarrow> 's"
  assumes get_del: "get (del j s) k = (if k = j then None else get s k)"
begin

lemma get_del_put: "get (del (key v) (put v s)) k = (if k = key v then None else get s k)"
  by (simp add: get_del get_put)

lemma del_all: "get (fold del ks s) k = (if k \<in> set ks then None else get s k)"
  by (induction ks arbitrary: s) (auto simp: get_del)

end

section \<open>Leases\<close>

text \<open>
  \<open>holder s k\<close> is the owner and the deadline of item \<open>k\<close> when it is held; \<open>step\<close> is any
  operation of any client at a clock reading; \<open>free now l\<close> tells that a deadline is over.
\<close>

locale lease_table =
  fixes holder :: "'s \<Rightarrow> string \<Rightarrow> (string \<times> time) option"
    and step :: "time \<Rightarrow> 'op \<Rightarrow> 's \<Rightarrow> 's"
    and free :: "time \<Rightarrow> time \<Rightarrow> bool"
    and ok :: "'s \<Rightarrow> bool"
    and leaves :: "string \<Rightarrow> string \<Rightarrow> 'op \<Rightarrow> bool"
  assumes step_ok: "ok s \<Longrightarrow> ok (step now a s)"
    and step_keeps: "ok s \<Longrightarrow> holder s k = Some (w, l) \<Longrightarrow> \<not> free now l \<Longrightarrow> \<not> leaves k w a \<Longrightarrow>
      \<exists>l'. holder (step now a s) k = Some (w, l')"
begin

text \<open>
  A trace of operations with their clock readings. As long as the deadline of item \<open>k\<close> is not
  over at any of the readings, and its owner does not give it up, the owner keeps it.
\<close>

lemma holder_kept:
  assumes "ok s" and "holder s k = Some (w, l)"
    and "\<And>i. i < length tr \<Longrightarrow> \<not> leaves k w (snd (tr ! i))"
    and "\<And>i l'. i < length tr \<Longrightarrow>
      holder (fold (\<lambda>(now, a). step now a) (take i tr) s) k = Some (w, l') \<Longrightarrow> \<not> free (fst (tr ! i)) l'"
  shows "\<exists>l'. holder (fold (\<lambda>(now, a). step now a) tr s) k = Some (w, l')"
  using assms
proof (induction tr arbitrary: s l)
  case Nil
  then show ?case by simp
next
  case (Cons e tr)
  obtain now a where e: "e = (now, a)" by (cases e)
  have "\<not> free now l" "\<not> leaves k w a"
    using Cons.prems(4) [of 0 l] Cons.prems(2) Cons.prems(3) [of 0] e by simp_all
  with step_keeps [OF Cons.prems(1,2)] obtain l1 where
    l1: "holder (step now a s) k = Some (w, l1)" by blast
  have "\<exists>l'. holder (fold (\<lambda>(now, a). step now a) tr (step now a s)) k = Some (w, l')"
  proof (rule Cons.IH [OF step_ok [OF Cons.prems(1)] l1])
    show "\<not> leaves k w (snd (tr ! i))" if "i < length tr" for i
      using Cons.prems(3) [of "Suc i"] that by simp
    show "\<not> free (fst (tr ! i)) l'"
      if "i < length tr" "holder (fold (\<lambda>(now, a). step now a) (take i tr) (step now a s)) k = Some (w, l')"
      for i l'
      using Cons.prems(4) [of "Suc i" l'] that e by simp
  qed
  then show ?case by (simp add: e)
qed

end

section \<open>Queues\<close>

text \<open>
  \<open>pending s\<close> are the entries not yet acknowledged, oldest first; \<open>fresh\<close> is what a new entry
  must satisfy; \<open>purge\<close> discards old acknowledged entries.
\<close>

locale fifo_log =
  fixes pending :: "'s \<Rightarrow> string list"
    and add :: "'v \<Rightarrow> 's \<Rightarrow> 's"
    and ack :: "string \<Rightarrow> 's \<Rightarrow> 's"
    and purge :: "'s \<Rightarrow> 's"
    and idf :: "'v \<Rightarrow> string"
    and fresh :: "'s \<Rightarrow> 'v \<Rightarrow> bool"
    and ok :: "'s \<Rightarrow> bool"
  assumes ok_add: "ok s \<Longrightarrow> fresh s v \<Longrightarrow> ok (add v s)"
    and ok_ack: "ok s \<Longrightarrow> ok (ack i s)"
    and ok_purge: "ok s \<Longrightarrow> ok (purge s)"
    and pending_distinct: "ok s \<Longrightarrow> distinct (pending s)"
    and pending_add: "ok s \<Longrightarrow> fresh s v \<Longrightarrow> pending (add v s) = pending s @ [idf v]"
    and pending_ack: "ok s \<Longrightarrow> pending (ack i s) = filter (\<lambda>j. j \<noteq> i) (pending s)"
    and pending_purge: "ok s \<Longrightarrow> pending (purge s) = pending s"
begin

lemma ok_acks: "ok s \<Longrightarrow> ok (fold ack is s)"
  by (induction "is" arbitrary: s) (auto intro: ok_ack)

lemma pending_acks: "ok s \<Longrightarrow> pending (fold ack is s) = filter (\<lambda>j. j \<notin> set is) (pending s)"
proof (induction "is" arbitrary: s)
  case Nil
  then show ?case by simp
next
  case (Cons i "is")
  then show ?case by (auto simp: ok_ack pending_ack intro!: filter_cong)
qed

text \<open>Acknowledging the entries in order leaves the rest, in order, at any moment.\<close>

lemma drain_prefix: "ok s \<Longrightarrow> pending (fold ack (take n (pending s)) s) = drop n (pending s)"
proof -
  assume s: "ok s"
  have "distinct (take n (pending s) @ drop n (pending s))"
    using pending_distinct [OF s] by simp
  then have d: "set (take n (pending s)) \<inter> set (drop n (pending s)) = {}"
    by (simp only: distinct_append)
  have "pending (fold ack (take n (pending s)) s)
      = filter (\<lambda>j. j \<notin> set (take n (pending s))) (take n (pending s) @ drop n (pending s))"
    using pending_acks [OF s] by simp
  also have "\<dots> = drop n (pending s)"
    using d by (auto simp: filter_empty_conv simp del: append_take_drop_id intro!: filter_True)
  finally show ?thesis .
qed

end

end
