(* ===== verification/StoreCatalog.thy ===== *)
theory StoreCatalog
  imports StoreCore RepoSpec
begin

text \<open>
  The catalogue of the repository: data sources, migrations, tables, workers, users, alerts,
  dead letters, conflicts, audit events and task logs, with every method of \<open>memory.go\<close> on
  them. Sorting follows the comparison of the code; results that compare equal may come in any
  order there, here they come in the order of the map.
\<close>

section \<open>Errors and lookups\<close>

definition found :: "'v option \<Rightarrow> go_error + 'v" where
  "found r = (case r of None \<Rightarrow> Inl ErrNotFound | Some v \<Rightarrow> Inr v)"

text \<open>Newest first, the comparison \<open>out[i].T.After(out[j].T)\<close>.\<close>

definition newest_first :: "('v \<Rightarrow> time) \<Rightarrow> 'v list \<Rightarrow> 'v list" where
  "newest_first f = sort_key (\<lambda>v. - f v)"

section \<open>Data sources\<close>

definition CreateDataSource :: "io \<Rightarrow> DataSource \<Rightarrow> Store \<Rightarrow> Store \<times> go_error option" where
  "CreateDataSource fault d s =
     persistLocked fault (s\<lparr>st_datasources := AList.update (ds_ID d) d (st_datasources s)\<rparr>)"

definition ListDataSources :: "Store \<Rightarrow> DataSource list" where
  "ListDataSources s = sort_key ds_CreatedAt (map snd (st_datasources s))"

definition GetDataSource :: "string \<Rightarrow> Store \<Rightarrow> go_error + DataSource" where
  "GetDataSource i s = found (map_of (st_datasources s) i)"

definition UpdateDataSource :: "io \<Rightarrow> DataSource \<Rightarrow> Store \<Rightarrow> Store \<times> go_error option" where
  "UpdateDataSource fault d s =
     (if map_of (st_datasources s) (ds_ID d) = None then (s, Some ErrNotFound)
      else persistLocked fault (s\<lparr>st_datasources := AList.update (ds_ID d) d (st_datasources s)\<rparr>))"

definition DeleteDataSource :: "io \<Rightarrow> string \<Rightarrow> Store \<Rightarrow> Store \<times> go_error option" where
  "DeleteDataSource fault i s =
     (if map_of (st_datasources s) i = None then (s, Some ErrNotFound)
      else case find (\<lambda>(k, m). mig_SourceID m = i \<or> mig_TargetID m = i) (st_migrations s) of
          Some (k, m) \<Rightarrow> (s, Some (ErrText (''datasource is referenced by migration '' @ mig_ID m)))
        | None \<Rightarrow> persistLocked fault (s\<lparr>st_datasources := AList.delete i (st_datasources s)\<rparr>))"

section \<open>Migrations\<close>

definition CreateMigration :: "io \<Rightarrow> MigrationTask \<Rightarrow> Store \<Rightarrow> Store \<times> go_error option" where
  "CreateMigration fault m s =
     persistLocked fault (s\<lparr>st_migrations := AList.update (mig_ID m) m (st_migrations s)\<rparr>)"

definition ListMigrations :: "Store \<Rightarrow> MigrationTask list" where
  "ListMigrations s = newest_first mig_CreatedAt (map snd (st_migrations s))"

definition GetMigration :: "string \<Rightarrow> Store \<Rightarrow> go_error + MigrationTask" where
  "GetMigration i s = found (map_of (st_migrations s) i)"

definition UpdateMigration :: "io \<Rightarrow> MigrationTask \<Rightarrow> Store \<Rightarrow> Store \<times> go_error option" where
  "UpdateMigration fault m s =
     (if map_of (st_migrations s) (mig_ID m) = None then (s, Some ErrNotFound)
      else persistLocked fault (s\<lparr>st_migrations := AList.update (mig_ID m) m (st_migrations s)\<rparr>))"

section \<open>Tables\<close>

definition CreateMigrationTable :: "io \<Rightarrow> MigrationTable \<Rightarrow> Store \<Rightarrow> Store \<times> go_error option" where
  "CreateMigrationTable fault t s =
     persistLocked fault (s\<lparr>st_tables := AList.update (tbl_ID t) t (st_tables s)\<rparr>)"

definition ListMigrationTables :: "string \<Rightarrow> Store \<Rightarrow> MigrationTable list" where
  "ListMigrationTables taskID s =
     sort_key (\<lambda>t. (tbl_SourceSchema t, tbl_SourceTable t))
       (filter (\<lambda>t. tbl_TaskID t = taskID) (map snd (st_tables s)))"

definition GetMigrationTable :: "string \<Rightarrow> Store \<Rightarrow> go_error + MigrationTable" where
  "GetMigrationTable i s = found (map_of (st_tables s) i)"

definition UpdateMigrationTable :: "io \<Rightarrow> MigrationTable \<Rightarrow> Store \<Rightarrow> Store \<times> go_error option" where
  "UpdateMigrationTable fault t s =
     (if map_of (st_tables s) (tbl_ID t) = None then (s, Some ErrNotFound)
      else persistLocked fault (s\<lparr>st_tables := AList.update (tbl_ID t) t (st_tables s)\<rparr>))"

text \<open>The most recent usable profile: the loop keeps the best table and its task's update time.\<close>

definition profile_step ::
  "Store \<Rightarrow> string \<Rightarrow> string \<Rightarrow> string \<Rightarrow> string \<Rightarrow> MigrationTable \<Rightarrow>
   (MigrationTable \<times> time) option \<Rightarrow> (MigrationTable \<times> time) option" where
  "profile_step s sourceID targetID schema table t best =
     (case map_of (st_migrations s) (tbl_TaskID t) of
        None \<Rightarrow> best
      | Some m \<Rightarrow>
          if mig_SourceID m \<noteq> sourceID \<or> mig_TargetID m \<noteq> targetID
             \<or> \<not> equal_fold (tbl_SourceSchema t) schema \<or> \<not> equal_fold (tbl_SourceTable t) table
             \<or> tbl_PerformanceSamples t \<le> 0 then best
          else case best of
              None \<Rightarrow> Some (t, mig_UpdatedAt m)
            | Some (b, u) \<Rightarrow>
                if mig_UpdatedAt m > u
                   \<or> (mig_UpdatedAt m = u \<and> tbl_PerformanceSamples t > tbl_PerformanceSamples b)
                then Some (t, mig_UpdatedAt m) else best)"

definition FindMigrationTableProfile ::
  "string \<Rightarrow> string \<Rightarrow> string \<Rightarrow> string \<Rightarrow> Store \<Rightarrow> go_error + MigrationTable" where
  "FindMigrationTableProfile sourceID targetID schema table s =
     found (map_option fst
       (fold (profile_step s sourceID targetID schema table) (map snd (st_tables s)) None))"

section \<open>Workers\<close>

definition UpsertWorker :: "io \<Rightarrow> Worker \<Rightarrow> Store \<Rightarrow> Store \<times> go_error option" where
  "UpsertWorker fault w s =
     persistLocked fault (s\<lparr>st_workers := AList.update (wk_ID w) w (st_workers s)\<rparr>)"

definition ListWorkers :: "Store \<Rightarrow> Worker list" where
  "ListWorkers s = sort_key wk_Hostname (map snd (st_workers s))"

definition GetWorker :: "string \<Rightarrow> Store \<Rightarrow> go_error + Worker" where
  "GetWorker i s = found (map_of (st_workers s) i)"

section \<open>Users\<close>

definition CreateUser :: "io \<Rightarrow> User \<Rightarrow> Store \<Rightarrow> Store \<times> go_error option" where
  "CreateUser fault u s =
     (if list_ex (\<lambda>(i, x). us_Username x = us_Username u) (st_users s)
      then (s, Some (ErrText ''username already exists''))
      else persistLocked fault (s\<lparr>st_users := AList.update (us_ID u) u (st_users s)\<rparr>))"

definition UpdateUser :: "io \<Rightarrow> User \<Rightarrow> Store \<Rightarrow> Store \<times> go_error option" where
  "UpdateUser fault u s =
     (if map_of (st_users s) (us_ID u) = None then (s, Some ErrNotFound)
      else if list_ex (\<lambda>(i, x). i \<noteq> us_ID u \<and> us_Username x = us_Username u) (st_users s)
      then (s, Some (ErrText ''username already exists''))
      else persistLocked fault (s\<lparr>st_users := AList.update (us_ID u) u (st_users s)\<rparr>))"

definition GetUser :: "string \<Rightarrow> Store \<Rightarrow> go_error + User" where
  "GetUser i s = found (map_of (st_users s) i)"

definition GetUserByUsername :: "string \<Rightarrow> Store \<Rightarrow> go_error + User" where
  "GetUserByUsername name s =
     found (find (\<lambda>u. us_Username u = name) (map snd (st_users s)))"

definition ListUsers :: "Store \<Rightarrow> User list" where
  "ListUsers s = sort_key us_Username (map snd (st_users s))"

section \<open>Dead letters and conflicts\<close>

definition CreateCDCDeadLetter :: "io \<Rightarrow> CDCDeadLetter \<Rightarrow> Store \<Rightarrow> Store \<times> go_error option" where
  "CreateCDCDeadLetter fault v s =
     persistLocked fault (s\<lparr>st_cdcDeadLetters := AList.update (dl_ID v) v (st_cdcDeadLetters s)\<rparr>)"

definition UpdateCDCDeadLetter :: "io \<Rightarrow> CDCDeadLetter \<Rightarrow> Store \<Rightarrow> Store \<times> go_error option" where
  "UpdateCDCDeadLetter fault v s =
     (if map_of (st_cdcDeadLetters s) (dl_ID v) = None then (s, Some ErrNotFound)
      else persistLocked fault
             (s\<lparr>st_cdcDeadLetters := AList.update (dl_ID v) v (st_cdcDeadLetters s)\<rparr>))"

definition GetCDCDeadLetter :: "string \<Rightarrow> Store \<Rightarrow> go_error + CDCDeadLetter" where
  "GetCDCDeadLetter i s = found (map_of (st_cdcDeadLetters s) i)"

definition ListCDCDeadLetters :: "string \<Rightarrow> Store \<Rightarrow> CDCDeadLetter list" where
  "ListCDCDeadLetters taskID s =
     newest_first dl_UpdatedAt
       (filter (\<lambda>v. taskID = [] \<or> dl_TaskID v = taskID) (map snd (st_cdcDeadLetters s)))"

definition DeleteCDCDeadLetter :: "io \<Rightarrow> string \<Rightarrow> Store \<Rightarrow> Store \<times> go_error option" where
  "DeleteCDCDeadLetter fault i s =
     persistLocked fault (s\<lparr>st_cdcDeadLetters := AList.delete i (st_cdcDeadLetters s)\<rparr>)"

text \<open>The last \<open>n\<close> elements, and the newest \<open>n\<close> matching elements, newest first.\<close>

definition keep_last :: "nat \<Rightarrow> 'a list \<Rightarrow> 'a list" where
  "keep_last n xs = (if length xs > n then drop (length xs - n) xs else xs)"

definition newest_matching :: "int \<Rightarrow> ('a \<Rightarrow> bool) \<Rightarrow> 'a list \<Rightarrow> 'a list" where
  "newest_matching limit P xs = take (nat limit) (filter P (rev xs))"

definition page_limit :: "int \<Rightarrow> int \<Rightarrow> int \<Rightarrow> int" where
  "page_limit mx dflt limit = (if limit \<le> 0 \<or> limit > mx then dflt else limit)"

definition CreateCDCConflict :: "io \<Rightarrow> CDCConflictRecord \<Rightarrow> Store \<Rightarrow> Store \<times> go_error option" where
  "CreateCDCConflict fault v s =
     (if list_ex (\<lambda>x. cc_ID x = cc_ID v) (st_cdcConflicts s) then (s, None)
      else persistLocked fault
             (s\<lparr>st_cdcConflicts := keep_last 100000 (st_cdcConflicts s @ [v])\<rparr>))"

definition ListCDCConflicts :: "string \<Rightarrow> int \<Rightarrow> Store \<Rightarrow> CDCConflictRecord list" where
  "ListCDCConflicts taskID limit s =
     newest_matching (page_limit 5000 500 limit) (\<lambda>v. taskID = [] \<or> cc_TaskID v = taskID)
       (st_cdcConflicts s)"

section \<open>Alerts, audit events, task logs\<close>

definition CreateAlert :: "io \<Rightarrow> Alert \<Rightarrow> Store \<Rightarrow> Store \<times> go_error option" where
  "CreateAlert fault a s =
     persistLocked fault (s\<lparr>st_alerts := AList.update (al_ID a) a (st_alerts s)\<rparr>)"

definition ListAlerts :: "Store \<Rightarrow> Alert list" where
  "ListAlerts s = newest_first al_CreatedAt (map snd (st_alerts s))"

definition AcknowledgeAlert :: "io \<Rightarrow> string \<Rightarrow> Store \<Rightarrow> Store \<times> go_error option" where
  "AcknowledgeAlert fault i s =
     (case map_of (st_alerts s) i of
        None \<Rightarrow> (s, Some ErrNotFound)
      | Some a \<Rightarrow> persistLocked fault
          (s\<lparr>st_alerts := AList.update i (a\<lparr>al_Acknowledged := True\<rparr>) (st_alerts s)\<rparr>))"

definition CreateAuditEvent :: "io \<Rightarrow> AuditEvent \<Rightarrow> Store \<Rightarrow> Store \<times> go_error option" where
  "CreateAuditEvent fault a s =
     persistLocked fault (s\<lparr>st_audits := keep_last 10000 (st_audits s @ [a])\<rparr>)"

definition ListAuditEvents :: "int \<Rightarrow> Store \<Rightarrow> AuditEvent list" where
  "ListAuditEvents limit s = rev (keep_last (nat (page_limit 1000 200 limit)) (st_audits s))"

definition CreateTaskLog :: "io \<Rightarrow> TaskLog \<Rightarrow> Store \<Rightarrow> Store \<times> go_error option" where
  "CreateTaskLog fault v s =
     persistLocked fault (s\<lparr>st_taskLogs := keep_last 20000 (st_taskLogs s @ [v])\<rparr>)"

definition ListTaskLogs :: "string \<Rightarrow> int \<Rightarrow> Store \<Rightarrow> TaskLog list" where
  "ListTaskLogs taskID limit s =
     newest_matching (page_limit 5000 500 limit) (\<lambda>v. taskID = [] \<or> lg_TaskID v = taskID)
       (st_taskLogs s)"

section \<open>Every operation keeps the maps well formed\<close>

lemmas catalog_defs = CreateDataSource_def UpdateDataSource_def DeleteDataSource_def
  CreateMigration_def UpdateMigration_def CreateMigrationTable_def UpdateMigrationTable_def
  UpsertWorker_def CreateUser_def UpdateUser_def CreateCDCDeadLetter_def UpdateCDCDeadLetter_def
  DeleteCDCDeadLetter_def CreateCDCConflict_def CreateAlert_def CreateAuditEvent_def CreateTaskLog_def

lemma catalog_wf:
  assumes "store_wf s"
  shows "store_wf (fst (CreateDataSource f d s))" "store_wf (fst (UpdateDataSource f d s))"
    "store_wf (fst (DeleteDataSource f i s))" "store_wf (fst (CreateMigration f m s))"
    "store_wf (fst (UpdateMigration f m s))" "store_wf (fst (CreateMigrationTable f t s))"
    "store_wf (fst (UpdateMigrationTable f t s))" "store_wf (fst (UpsertWorker f w s))"
    "store_wf (fst (CreateUser f u s))" "store_wf (fst (UpdateUser f u s))"
    "store_wf (fst (CreateCDCDeadLetter f dl s))" "store_wf (fst (UpdateCDCDeadLetter f dl s))"
    "store_wf (fst (DeleteCDCDeadLetter f i s))" "store_wf (fst (CreateCDCConflict f cc s))"
    "store_wf (fst (CreateAlert f al s))" "store_wf (fst (CreateAuditEvent f au s))"
    "store_wf (fst (CreateTaskLog f lg s))"
  using assms
  by (simp_all add: catalog_defs store_wf_def wf_intro split: option.split)

lemma acknowledge_wf: "store_wf s \<Longrightarrow> store_wf (fst (AcknowledgeAlert f i s))"
  by (auto simp: AcknowledgeAlert_def store_wf_def split: option.split
      intro!: wf_intro dest: keyed_lookup)

section \<open>The catalogue as keyed collections\<close>

interpretation migrations: keyed_repo
  "\<lambda>s k. map_of (st_migrations s) k" "\<lambda>m s. fst (CreateMigration fault m s)" mig_ID for fault
  by unfold_locales (simp add: CreateMigration_def update_conv)

interpretation datasources: keyed_repo
  "\<lambda>s k. map_of (st_datasources s) k" "\<lambda>d s. fst (CreateDataSource fault d s)" ds_ID for fault
  by unfold_locales (simp add: CreateDataSource_def update_conv)

interpretation migration_tables: keyed_repo
  "\<lambda>s k. map_of (st_tables s) k" "\<lambda>t s. fst (CreateMigrationTable fault t s)" tbl_ID for fault
  by unfold_locales (simp add: CreateMigrationTable_def update_conv)

interpretation workers: keyed_repo
  "\<lambda>s k. map_of (st_workers s) k" "\<lambda>w s. fst (UpsertWorker fault w s)" wk_ID for fault
  by unfold_locales (simp add: UpsertWorker_def update_conv)

interpretation alerts: keyed_repo
  "\<lambda>s k. map_of (st_alerts s) k" "\<lambda>a s. fst (CreateAlert fault a s)" al_ID for fault
  by unfold_locales (simp add: CreateAlert_def update_conv)

interpretation dead_letters: erasing_repo
  "\<lambda>s k. map_of (st_cdcDeadLetters s) k" "\<lambda>v s. fst (CreateCDCDeadLetter fault v s)" dl_ID
  "\<lambda>k s. fst (DeleteCDCDeadLetter fault k s)" for fault
  by unfold_locales (simp_all add: CreateCDCDeadLetter_def DeleteCDCDeadLetter_def update_conv
      delete_conv)

section \<open>Users\<close>

definition usernames_unique :: "Store \<Rightarrow> bool" where
  "usernames_unique s \<longleftrightarrow> distinct (map (\<lambda>(i, u). us_Username u) (st_users s))"

lemma distinct_names_update:
  assumes "gmap_wf m" "distinct (map (\<lambda>(i, u). f u) m)"
    and "\<forall>(i, x) \<in> set m. i \<noteq> k \<longrightarrow> f x \<noteq> f v"
  shows "distinct (map (\<lambda>(i, u). f u) (AList.update k v m))"
  using assms
proof (induction m)
  case Nil
  then show ?case by simp
next
  case (Cons e m)
  obtain i x where e: "e = (i, x)" by (cases e)
  show ?case
  proof (cases "i = k")
    case True
    with Cons.prems e have "\<forall>(j, y) \<in> set m. f y \<noteq> f v" by force
    with Cons.prems True e show ?thesis by (auto simp: image_iff split: prod.splits)
  next
    case False
    with Cons e have "distinct (map (\<lambda>(i, u). f u) (AList.update k v m))" by auto
    moreover have "f x \<notin> (\<lambda>(i, u). f u) ` set (AList.update k v m)"
      using Cons.prems False e by (auto simp: image_iff dest!: set_updateD)
    ultimately show ?thesis using False e by simp
  qed
qed

lemma CreateUser_unique:
  "store_wf s \<Longrightarrow> usernames_unique s \<Longrightarrow> usernames_unique (fst (CreateUser f u s))"
  unfolding usernames_unique_def
  by (auto simp: CreateUser_def list_ex_iff store_wf_def intro!: distinct_names_update)

lemma UpdateUser_unique:
  "store_wf s \<Longrightarrow> usernames_unique s \<Longrightarrow> usernames_unique (fst (UpdateUser f u s))"
  unfolding usernames_unique_def
  by (auto simp: UpdateUser_def list_ex_iff store_wf_def intro!: distinct_names_update)

lemma find_username:
  "distinct (map (\<lambda>(i, u). f u) m) \<Longrightarrow> (k, v) \<in> set m \<Longrightarrow> find (\<lambda>u. f u = f v) (map snd m) = Some v"
  by (induction m) (auto simp: image_iff split: prod.splits)

section \<open>The best profile\<close>

definition profile_ok :: "Store \<Rightarrow> string \<Rightarrow> string \<Rightarrow> string \<Rightarrow> string \<Rightarrow> MigrationTable \<Rightarrow> bool" where
  "profile_ok s sourceID targetID schema table t \<longleftrightarrow>
     (case map_of (st_migrations s) (tbl_TaskID t) of
        None \<Rightarrow> False
      | Some m \<Rightarrow> mig_SourceID m = sourceID \<and> mig_TargetID m = targetID
          \<and> equal_fold (tbl_SourceSchema t) schema \<and> equal_fold (tbl_SourceTable t) table
          \<and> 0 < tbl_PerformanceSamples t)"

definition profile_time :: "Store \<Rightarrow> MigrationTable \<Rightarrow> time" where
  "profile_time s t = (case map_of (st_migrations s) (tbl_TaskID t) of
     None \<Rightarrow> 0 | Some m \<Rightarrow> mig_UpdatedAt m)"

abbreviation profile_rank :: "Store \<Rightarrow> MigrationTable \<Rightarrow> time \<times> int" where
  "profile_rank s t \<equiv> (profile_time s t, tbl_PerformanceSamples t)"

lemma profile_step_eq:
  "profile_step s a b c d t best =
     (if profile_ok s a b c d t
      then (case best of None \<Rightarrow> Some (t, profile_time s t)
            | Some (x, u) \<Rightarrow> if (u, tbl_PerformanceSamples x) < profile_rank s t
                then Some (t, profile_time s t) else best)
      else best)"
  by (auto simp: profile_step_def profile_ok_def profile_time_def split: option.split)

lemma profile_fold:
  "case fold (profile_step s a b c d) ts None of
     None \<Rightarrow> \<forall>t \<in> set ts. \<not> profile_ok s a b c d t
   | Some (x, u) \<Rightarrow> x \<in> set ts \<and> profile_ok s a b c d x \<and> u = profile_time s x
       \<and> (\<forall>t \<in> set ts. profile_ok s a b c d t \<longrightarrow> profile_rank s t \<le> profile_rank s x)"
proof (induction ts rule: rev_induct)
  case Nil
  then show ?case by simp
next
  case (snoc t ts)
  show ?case
  proof (cases "fold (profile_step s a b c d) ts None")
    case None
    with snoc show ?thesis by (auto simp: profile_step_eq [of s a b c d t])
  next
    case (Some r)
    obtain x u where r: "r = (x, u)" by (cases r)
    show ?thesis
    proof (cases "profile_ok s a b c d t \<and> profile_rank s x < profile_rank s t")
      case True
      with snoc Some r have "fold (profile_step s a b c d) (ts @ [t]) None = Some (t, profile_time s t)"
        by (simp add: profile_step_eq [of s a b c d t])
      moreover have "profile_rank s y \<le> profile_rank s t" if "y \<in> set ts" "profile_ok s a b c d y" for y
      proof -
        have "profile_rank s y \<le> profile_rank s x" using snoc Some r that by simp
        also have "\<dots> \<le> profile_rank s t" using True by (simp only: less_imp_le)
        finally show ?thesis .
      qed
      ultimately show ?thesis using True by (auto simp del: less_eq_prod_simp)
    next
      case False
      with snoc Some r have "fold (profile_step s a b c d) (ts @ [t]) None = Some (x, u)"
        by (auto simp: profile_step_eq [of s a b c d t])
      with False snoc Some r show ?thesis by (auto simp: not_less)
    qed
  qed
qed

lemma FindMigrationTableProfile_best:
  "FindMigrationTableProfile a b c d s = Inr x \<Longrightarrow>
   x \<in> snd ` set (st_tables s) \<and> profile_ok s a b c d x
     \<and> (\<forall>t \<in> snd ` set (st_tables s). profile_ok s a b c d t \<longrightarrow> profile_rank s t \<le> profile_rank s x)"
  using profile_fold [where s = s and a = a and b = b and c = c and d = d and ts = "map snd (st_tables s)"]
  by (cases "fold (profile_step s a b c d) (map snd (st_tables s)) None")
    (simp_all add: FindMigrationTableProfile_def found_def split_def)

lemma FindMigrationTableProfile_none:
  "FindMigrationTableProfile a b c d s = Inl e \<Longrightarrow>
   e = ErrNotFound \<and> (\<forall>t \<in> snd ` set (st_tables s). \<not> profile_ok s a b c d t)"
  using profile_fold [where s = s and a = a and b = b and c = c and d = d and ts = "map snd (st_tables s)"]
  by (simp add: FindMigrationTableProfile_def found_def split: option.splits)

section \<open>Properties\<close>

text \<open>
  User names stay unique under every creation and update, whatever the outcome of the
  write, and an accepted creation makes the account the one found by its name.
\<close>

theorem usernames_stay_unique:
  assumes "store_wf s" and "usernames_unique s"
  shows "usernames_unique (fst (CreateUser f u s)) \<and> usernames_unique (fst (UpdateUser f u s))
    \<and> (snd (CreateUser f u s) = None \<longrightarrow>
         GetUserByUsername (us_Username u) (fst (CreateUser f u s)) = Inr u)"
proof (intro conjI impI)
  show c: "usernames_unique (fst (CreateUser f u s))"
    by (rule CreateUser_unique [OF assms])
  show "usernames_unique (fst (UpdateUser f u s))"
    by (rule UpdateUser_unique [OF assms])
  assume "snd (CreateUser f u s) = None"
  then have "(us_ID u, u) \<in> set (st_users (fst (CreateUser f u s)))"
    by (auto simp: CreateUser_def in_update_same split: if_splits)
  with c show "GetUserByUsername (us_Username u) (fst (CreateUser f u s)) = Inr u"
    unfolding usernames_unique_def GetUserByUsername_def found_def
    by (simp add: find_username)
qed

theorem usernames_stay_unique_witness:
  "usernames_unique (fst (CreateUser IOok (zero_User\<lparr>us_ID := ''u2'', us_Username := ''bob''\<rparr>)
     ((New \<lparr>dk_main = Missing, dk_tmp = Missing\<rparr>)\<lparr>st_users :=
       [(''u1'', zero_User\<lparr>us_ID := ''u1'', us_Username := ''ann''\<rparr>)]\<rparr>)))"
  using usernames_stay_unique [of "(New \<lparr>dk_main = Missing, dk_tmp = Missing\<rparr>)\<lparr>st_users :=
       [(''u1'', zero_User\<lparr>us_ID := ''u1'', us_Username := ''ann''\<rparr>)]\<rparr>" IOok
       "zero_User\<lparr>us_ID := ''u2'', us_Username := ''bob''\<rparr>"]
  by (simp add: store_wf_def New_def newStore_def keyed_def usernames_unique_def)

text \<open>
  Deleting a data source never leaves a migration without its source or target: if every
  migration refers to existing data sources, so it does afterwards; a refused deletion changes
  nothing.
\<close>

theorem delete_datasource_safe:
  assumes "\<forall>(k, m) \<in> set (st_migrations s). map_of (st_datasources s) (mig_SourceID m) \<noteq> None
      \<and> map_of (st_datasources s) (mig_TargetID m) \<noteq> None"
  shows "(\<forall>(k, m) \<in> set (st_migrations (fst (DeleteDataSource f i s))).
            map_of (st_datasources (fst (DeleteDataSource f i s))) (mig_SourceID m) \<noteq> None
          \<and> map_of (st_datasources (fst (DeleteDataSource f i s))) (mig_TargetID m) \<noteq> None)
    \<and> (snd (DeleteDataSource f i s) = None \<longrightarrow>
         GetDataSource i (fst (DeleteDataSource f i s)) = Inl ErrNotFound)
    \<and> (snd (DeleteDataSource f i s) = Some ErrNotFound \<longrightarrow> fst (DeleteDataSource f i s) = s)"
proof (cases "map_of (st_datasources s) i = None
    \<or> find (\<lambda>(k, m). mig_SourceID m = i \<or> mig_TargetID m = i) (st_migrations s) \<noteq> None")
  case True
  then have "fst (DeleteDataSource f i s) = s" "snd (DeleteDataSource f i s) \<noteq> None"
    by (auto simp: DeleteDataSource_def split: option.split)
  with assms show ?thesis by auto
next
  case False
  let ?s = "s\<lparr>st_datasources := AList.delete i (st_datasources s)\<rparr>"
  from False have fn: "find (\<lambda>(k, m). mig_SourceID m = i \<or> mig_TargetID m = i) (st_migrations s) = None"
    by blast
  with False have d: "DeleteDataSource f i s = persistLocked f ?s"
    by (auto simp: DeleteDataSource_def)
  from fn have n: "\<forall>(k, m) \<in> set (st_migrations s). mig_SourceID m \<noteq> i \<and> mig_TargetID m \<noteq> i"
    by (auto simp: find_None_iff)
  have "snd (persistLocked f ?s) \<noteq> Some ErrNotFound"
    by (cases f) (auto simp: persistLocked_def)
  with d n assms show ?thesis
    by (fastforce simp: GetDataSource_def found_def delete_conv)
qed

theorem delete_datasource_safe_witness:
  "GetDataSource ''d1'' (fst (DeleteDataSource IOok ''d1''
     ((New \<lparr>dk_main = Missing, dk_tmp = Missing\<rparr>)\<lparr>st_datasources :=
       [(''d1'', zero_DataSource\<lparr>ds_ID := ''d1''\<rparr>)]\<rparr>))) = Inl ErrNotFound"
proof -
  let ?s = "(New \<lparr>dk_main = Missing, dk_tmp = Missing\<rparr>)\<lparr>st_datasources :=
       [(''d1'', zero_DataSource\<lparr>ds_ID := ''d1''\<rparr>)]\<rparr>"
  have "snd (DeleteDataSource IOok ''d1'' ?s) = None"
    by (simp add: New_def newStore_def DeleteDataSource_def)
  moreover have "st_migrations ?s = []" by (simp add: New_def newStore_def)
  ultimately show ?thesis using delete_datasource_safe [of ?s IOok "''d1''"] by simp
qed

text \<open>
  \<open>FindMigrationTableProfile\<close> fails exactly when no table has a usable profile for the
  given pair of data sources and table name, and otherwise returns one from the most recently
  updated migration, among those one with the most samples; no iteration order of the table
  map changes that.
\<close>

theorem profile_is_best:
  "case FindMigrationTableProfile a b c d s of
     Inl e \<Rightarrow> e = ErrNotFound \<and> (\<forall>(k, t) \<in> set (st_tables s). \<not> profile_ok s a b c d t)
   | Inr x \<Rightarrow> x \<in> snd ` set (st_tables s) \<and> profile_ok s a b c d x
       \<and> (\<forall>(k, t) \<in> set (st_tables s). profile_ok s a b c d t \<longrightarrow> profile_rank s t \<le> profile_rank s x)"
proof (cases "FindMigrationTableProfile a b c d s")
  case (Inl e)
  with FindMigrationTableProfile_none [OF Inl] show ?thesis by force
next
  case (Inr x)
  with FindMigrationTableProfile_best [OF Inr] show ?thesis by force
qed

theorem profile_is_best_witness:
  "FindMigrationTableProfile ''a'' ''b'' ''s'' ''t'' (New \<lparr>dk_main = Missing, dk_tmp = Missing\<rparr>)
     = Inl ErrNotFound"
  using profile_is_best [where a = "''a''" and b = "''b''" and c = "''s''" and d = "''t''" and s = "New \<lparr>dk_main = Missing, dk_tmp = Missing\<rparr>"]
  by (simp add: FindMigrationTableProfile_def New_def newStore_def found_def)

end
