(* ===== verification/StoreChunks.thy ===== *)
theory StoreChunks
  imports StoreCatalog TopologyPolicy
begin

text \<open>
  The chunk queue of the repository (\<open>memory.go\<close>): creation, listing and update of chunks, the
  claim of the next runnable chunk by a worker with its admission rules, the renewal of leases,
  progress reports and the hand-over of a yielded chunk. The clock reading and the environment
  are arguments.
\<close>

section \<open>Chunks\<close>

definition CreateChunks :: "io \<Rightarrow> MigrationChunk list \<Rightarrow> Store \<Rightarrow> Store \<times> go_error option" where
  "CreateChunks fault chunks s =
     persistLocked fault
       (s\<lparr>st_chunks := fold (\<lambda>c. AList.update (ch_ID c) c) chunks (st_chunks s)\<rparr>)"

definition ListChunks :: "string \<Rightarrow> Store \<Rightarrow> MigrationChunk list" where
  "ListChunks taskID s =
     sort_key (\<lambda>c. (ch_TableID c, ch_ChunkNo c))
       (filter (\<lambda>c. ch_TaskID c = taskID) (map snd (st_chunks s)))"

definition GetChunk :: "string \<Rightarrow> Store \<Rightarrow> go_error + MigrationChunk" where
  "GetChunk i s = found (map_of (st_chunks s) i)"

definition UpdateChunk :: "io \<Rightarrow> MigrationChunk \<Rightarrow> Store \<Rightarrow> Store \<times> go_error option" where
  "UpdateChunk fault c s =
     (if map_of (st_chunks s) (ch_ID c) = None then (s, Some ErrNotFound)
      else persistLocked fault (s\<lparr>st_chunks := AList.update (ch_ID c) c (st_chunks s)\<rparr>))"

definition YieldChunk ::
  "io \<Rightarrow> string \<Rightarrow> MigrationChunk option \<Rightarrow> MigrationChunk list \<Rightarrow> Store \<Rightarrow> Store \<times> go_error option" where
  "YieldChunk fault worker completed created s =
     (case completed of
        None \<Rightarrow> (s, Some (ErrText ''yielded chunk is nil''))
      | Some done \<Rightarrow>
          (case map_of (st_chunks s) (ch_ID done) of
             None \<Rightarrow> (s, Some ErrNotFound)
           | Some current \<Rightarrow>
               if ch_Status current \<noteq> ChunkRunning \<or> ch_WorkerID current \<noteq> worker
               then (s, Some ErrLeaseOwner)
               else case find (\<lambda>ch. map_of (st_chunks s) (ch_ID ch) \<noteq> None) created of
                   Some ch \<Rightarrow> (s, Some (ErrText (''chunk '' @ ch_ID ch @ '' already exists'')))
                 | None \<Rightarrow> persistLocked fault
                     (s\<lparr>st_chunks := fold (\<lambda>c. AList.update (ch_ID c) c) (done # created) (st_chunks s)\<rparr>)))"

section \<open>Ranks\<close>

definition labelsMatch :: "(string, string) gomap \<Rightarrow> (string, string) gomap \<Rightarrow> bool" where
  "labelsMatch labels selector = list_all (\<lambda>(key, want). sget labels key = want) selector"

definition affinityRank :: "MigrationTask \<Rightarrow> (string, string) gomap \<Rightarrow> int" where
  "affinityRank m labels =
     (if mig_WorkerSelector m = [] then 1
      else if labelsMatch labels (mig_WorkerSelector m) then 0
      else if equal_fold (mig_WorkerAffinity m) ''REQUIRED'' then 100
      else 2)"

definition placementRank :: "MigrationChunk \<Rightarrow> (string, string) gomap \<Rightarrow> int" where
  "placementRank c labels =
     (if ch_PlacementHint c = [] then 1
      else if labelsMatch labels (ch_PlacementHint c) then 0 else 2)"

section \<open>Claiming a chunk\<close>

definition lease_over :: "time \<Rightarrow> time \<Rightarrow> bool" where
  "lease_over now l \<longleftrightarrow> l \<noteq> 0 \<and> now > l"

definition expire_chunk :: "time \<Rightarrow> MigrationChunk \<Rightarrow> MigrationChunk" where
  "expire_chunk now c =
     (if ch_Status c = ChunkRunning \<and> lease_over now (ch_LeaseUntil c)
      then c\<lparr>ch_Status := ChunkPending, ch_WorkerID := [], ch_LeaseUntil := 0,
             ch_RetryCount := ch_RetryCount c + 1, ch_LastError := ''worker lease expired''\<rparr>
      else c)"

definition table_or_zero :: "Store \<Rightarrow> string \<Rightarrow> MigrationTable" where
  "table_or_zero s i = (case map_of (st_tables s) i of None \<Rightarrow> zero_MigrationTable | Some t \<Rightarrow> t)"

definition worker_labels :: "Store \<Rightarrow> string \<Rightarrow> (string, string) gomap" where
  "worker_labels s workerID =
     (case map_of (st_workers s) workerID of None \<Rightarrow> [] | Some w \<Rightarrow> wk_Labels w)"

definition running_where :: "(MigrationChunk \<Rightarrow> bool) \<Rightarrow> Store \<Rightarrow> int" where
  "running_where P s = int (count_if (\<lambda>c. P c \<and> ch_Status c = ChunkRunning) (map snd (st_chunks s)))"

definition tableRunning :: "Store \<Rightarrow> string \<Rightarrow> int" where
  "tableRunning s tableID = running_where (\<lambda>c. ch_TableID c = tableID) s"

definition topologyRunning :: "Store \<Rightarrow> string \<Rightarrow> string \<Rightarrow> int" where
  "topologyRunning s taskID topologyID =
     (if topologyID = [] then 0
      else running_where (\<lambda>c. ch_TaskID c = taskID \<and> ch_TopologyID c = topologyID) s)"

definition taskRunning :: "Store \<Rightarrow> string \<Rightarrow> int" where
  "taskRunning s taskID = running_where (\<lambda>c. ch_TaskID c = taskID) s"

definition fd_step ::
  "Store \<Rightarrow> MigrationChunk \<Rightarrow> MigrationChunk \<Rightarrow> peer_risk \<Rightarrow> peer_risk" where
  "fd_step s cand ch st =
     (if ch_TaskID ch \<noteq> ch_TaskID cand \<or> ch_TopologyID ch = [] \<or> ch_TopologyID ch = ch_TopologyID cand
      then st
      else let rank = TopologyClaimRank (Some (table_or_zero s (ch_TableID ch))) (ch_TopologyID ch) in
      if rank \<le> 0 then st
      else let same = (\<lambda>level. sget (ch_FaultDomain cand) level \<noteq> []
                         \<and> sget (ch_FaultDomain ch) level = sget (ch_FaultDomain cand) level);
               st = (if same ''rack'' \<and> rank > pr_rack st then st\<lparr>pr_rack := rank\<rparr> else st);
               st = (if same ''zone'' \<and> rank > pr_zone st then st\<lparr>pr_zone := rank\<rparr> else st)
           in if same ''region'' then
                (let z = sget (ch_FaultDomain ch) ''zone'';
                     zoneKey = (if z = [] then ''topology:'' @ ch_TopologyID ch else z);
                     st = st\<lparr>pr_zones := List.insert zoneKey (pr_zones st)\<rparr>
                 in if rank > pr_region st then st\<lparr>pr_region := rank\<rparr> else st)
              else st)"

text \<open>Risk and number of running chunks of the candidate's broadest endangered domain.\<close>

definition faultDomainState :: "environment \<Rightarrow> Store \<Rightarrow> MigrationChunk \<Rightarrow> int \<times> int" where
  "faultDomainState env s cand =
     (if \<not> FaultDomainProtectionEnabled env \<or> ch_FaultDomain cand = [] then (0, 0)
      else let st = fold (fd_step s cand) (map snd (st_chunks s))
                      \<lparr>pr_rack = 0, pr_zone = 0, pr_region = 0, pr_zones = []\<rparr>;
               regionRisk = (if int (length (pr_zones st)) < FaultDomainRegionMinUnhealthyZones env
                             then 0 else pr_region st);
               (risk, scope) = (if pr_rack st > 0 then (pr_rack st, ''rack'') else (0, []));
               (risk, scope) = (if pr_zone st > 0 then (max risk (pr_zone st), ''zone'') else (risk, scope));
               (risk, scope) = (if regionRisk > 0 then (max risk regionRisk, ''region'') else (risk, scope))
           in if scope = [] then (0, 0)
              else (risk, running_where (\<lambda>c. ch_TaskID c = ch_TaskID cand
                      \<and> sget (ch_FaultDomain cand) scope \<noteq> []
                      \<and> sget (ch_FaultDomain c) scope = sget (ch_FaultDomain cand) scope) s))"

text \<open>The comparison of the sort, field by field.\<close>

definition claim_key ::
  "environment \<Rightarrow> Store \<Rightarrow> (string, string) gomap \<Rightarrow> MigrationChunk \<Rightarrow>
   int \<times> int \<times> int \<times> int \<times> int \<times> int \<times> int \<times> string \<times> string \<times> int" where
  "claim_key env s labels c =
     ((case map_of (st_migrations s) (ch_TaskID c) of None \<Rightarrow> 50 | Some m \<Rightarrow> affinityRank m labels),
      TopologyClaimRank (Some (table_or_zero s (ch_TableID c))) (ch_TopologyID c),
      fst (faultDomainState env s c), snd (faultDomainState env s c),
      placementRank c labels,
      topologyRunning s (ch_TaskID c) (ch_TopologyID c),
      tableRunning s (ch_TableID c),
      ch_TaskID c, ch_TableID c, ch_ChunkNo c)"

definition chunk_engine :: "Store \<Rightarrow> MigrationTask \<Rightarrow> MigrationChunk \<Rightarrow> string" where
  "chunk_engine s m c =
     (let e = (case map_of (st_tables s) (ch_TableID c) of
                 None \<Rightarrow> mig_FullEngine m
               | Some t \<Rightarrow> if tbl_Engine t \<noteq> [] then tbl_Engine t else mig_FullEngine m)
      in if e = [] \<or> e = ''auto'' then ''dts'' else e)"

definition capable :: "string \<Rightarrow> string list \<Rightarrow> bool" where
  "capable engine caps = list_ex (\<lambda>c. c = engine \<or> (engine = ''dts'' \<and> c = ''native'')) caps"

definition task_limit :: "MigrationTask \<Rightarrow> int" where
  "task_limit m =
     (if mig_EffectiveParallelism m \<le> 0 \<or> mig_EffectiveParallelism m > mig_Parallelism m
      then mig_Parallelism m else mig_EffectiveParallelism m)"

text \<open>The conditions of the claim loop, one per \<open>continue\<close>.\<close>

definition claimable ::
  "environment \<Rightarrow> Store \<Rightarrow> (string, string) gomap \<Rightarrow> string list \<Rightarrow> MigrationChunk \<Rightarrow> bool" where
  "claimable env s labels caps c \<longleftrightarrow>
     ch_Status c = ChunkPending \<and>
     (case map_of (st_migrations s) (ch_TaskID c) of
        None \<Rightarrow> False
      | Some m \<Rightarrow>
          mig_Status m = StatusFullMigrating \<and>
          affinityRank m labels < 100 \<and>
          capable (chunk_engine s m c) caps \<and>
          (case map_of (st_tables s) (ch_TableID c) of
             None \<Rightarrow> True
           | Some t \<Rightarrow> TopologyClaimAllowed env (Some t) (ch_TopologyID c)
                         (topologyRunning s (ch_TaskID c) (ch_TopologyID c))) \<and>
          (let cap = FaultDomainConcurrencyCap env (fst (faultDomainState env s c)) in
           \<not> (cap > 0 \<and> snd (faultDomainState env s c) \<ge> cap)) \<and>
          \<not> (task_limit m > 0 \<and> taskRunning s (ch_TaskID c) \<ge> task_limit m))"

definition claimed :: "time \<Rightarrow> duration \<Rightarrow> string \<Rightarrow> MigrationChunk \<Rightarrow> MigrationChunk" where
  "claimed now lease workerID c =
     c\<lparr>ch_Status := ChunkRunning, ch_WorkerID := workerID, ch_LeaseUntil := now + lease,
       ch_StartedAt := (if ch_StartedAt c = 0 then now else ch_StartedAt c), ch_LastError := []\<rparr>"

definition expire_chunks :: "time \<Rightarrow> Store \<Rightarrow> Store" where
  "expire_chunks now s = s\<lparr>st_chunks := gmap_values (\<lambda>_. expire_chunk now) (st_chunks s)\<rparr>"

definition claim_queue ::
  "environment \<Rightarrow> Store \<Rightarrow> (string, string) gomap \<Rightarrow> (string \<times> MigrationChunk) list" where
  "claim_queue env s labels = sort_key (\<lambda>(i, c). claim_key env s labels c) (st_chunks s)"

definition ClaimChunk ::
  "environment \<Rightarrow> io \<Rightarrow> time \<Rightarrow> string \<Rightarrow> duration \<Rightarrow> string list \<Rightarrow> Store \<Rightarrow>
   Store \<times> (go_error + MigrationChunk)" where
  "ClaimChunk env fault now workerID lease caps s =
     (let changed = list_ex (\<lambda>(i, c). ch_Status c = ChunkRunning \<and> lease_over now (ch_LeaseUntil c))
                      (st_chunks s);
          s = expire_chunks now s;
          labels = worker_labels s workerID
      in case find (\<lambda>(i, c). claimable env s labels caps c) (claim_queue env s labels) of
           Some (i, c) \<Rightarrow>
             (fst (persistLocked fault
                (s\<lparr>st_chunks := AList.update i (claimed now lease workerID c) (st_chunks s)\<rparr>)),
              Inr (claimed now lease workerID c))
         | None \<Rightarrow> ((if changed then fst (persistLocked fault s) else s), Inl ErrNoChunk))"

section \<open>Leases and progress\<close>

definition RenewChunkLease ::
  "io \<Rightarrow> time \<Rightarrow> string \<Rightarrow> string \<Rightarrow> duration \<Rightarrow> Store \<Rightarrow> Store \<times> go_error option" where
  "RenewChunkLease fault now i workerID lease s =
     (case map_of (st_chunks s) i of
        None \<Rightarrow> (s, Some ErrNotFound)
      | Some c \<Rightarrow>
          if ch_Status c \<noteq> ChunkRunning \<or> ch_WorkerID c \<noteq> workerID then (s, Some ErrLeaseOwner)
          else persistLocked fault
                 (s\<lparr>st_chunks := AList.update i (c\<lparr>ch_LeaseUntil := now + lease\<rparr>) (st_chunks s)\<rparr>))"

definition apply_progress :: "ChunkProgress \<Rightarrow> MigrationChunk \<Rightarrow> MigrationChunk" where
  "apply_progress p c =
     c\<lparr>ch_CursorJSON := (if cp_CursorJSON p \<noteq> [] then cp_CursorJSON p else ch_CursorJSON c),
       ch_RowsRead := cp_RowsRead p, ch_RowsWritten := cp_RowsWritten p,
       ch_BytesRead := cp_BytesRead p, ch_BytesWritten := cp_BytesWritten p,
       ch_LastReadMS := cp_LastReadMS p, ch_LastWriteMS := cp_LastWriteMS p,
       ch_LastBatchRows := cp_LastBatchRows p, ch_BackpressureLevel := cp_BackpressureLevel p\<rparr>"

definition UpdateChunkProgress ::
  "io \<Rightarrow> string \<Rightarrow> string \<Rightarrow> ChunkProgress \<Rightarrow> Store \<Rightarrow> Store \<times> go_error option" where
  "UpdateChunkProgress fault i workerID p s =
     (case map_of (st_chunks s) i of
        None \<Rightarrow> (s, Some ErrNotFound)
      | Some c \<Rightarrow>
          if ch_Status c \<noteq> ChunkRunning \<or> ch_WorkerID c \<noteq> workerID then (s, Some ErrLeaseOwner)
          else persistLocked fault
                 (s\<lparr>st_chunks := AList.update i (apply_progress p c) (st_chunks s)\<rparr>))"

section \<open>Claims\<close>

lemma expire_chunk_id [simp]: "ch_ID (expire_chunk now c) = ch_ID c"
  "ch_TaskID (expire_chunk now c) = ch_TaskID c" "ch_TableID (expire_chunk now c) = ch_TableID c"
  by (simp_all add: expire_chunk_def)

lemma claimed_simps [simp]:
  "ch_ID (claimed now lease w c) = ch_ID c" "ch_TaskID (claimed now lease w c) = ch_TaskID c"
  "ch_TableID (claimed now lease w c) = ch_TableID c" "ch_Status (claimed now lease w c) = ChunkRunning"
  "ch_WorkerID (claimed now lease w c) = w" "ch_LeaseUntil (claimed now lease w c) = now + lease"
  "ch_TopologyID (claimed now lease w c) = ch_TopologyID c"
  by (simp_all add: claimed_def)

lemma expire_chunks_fields [simp]:
  "st_migrations (expire_chunks now s) = st_migrations s" "st_tables (expire_chunks now s) = st_tables s"
  "st_workers (expire_chunks now s) = st_workers s"
  by (simp_all add: expire_chunks_def)

lemma expire_chunks_lookup:
  "map_of (st_chunks (expire_chunks now s)) i = map_option (expire_chunk now) (map_of (st_chunks s) i)"
  by (simp add: expire_chunks_def map_of_gmap_values)

lemma expire_chunks_wf: "store_wf s \<Longrightarrow> store_wf (expire_chunks now s)"
  by (auto simp: expire_chunks_def store_wf_def intro!: wf_intro)

lemma chunks_keyed: "store_wf s \<Longrightarrow> keyed ch_ID (st_chunks s)"
  by (simp add: store_wf_def)

text \<open>What an accepted claim did, in terms of the store after the expiry of old leases.\<close>

lemma ClaimChunk_InrE:
  assumes "ClaimChunk env f now w lease caps s = (s', Inr c)" and "store_wf s"
  obtains c0 where "map_of (st_chunks (expire_chunks now s)) (ch_ID c) = Some c0"
    "claimable env (expire_chunks now s) (worker_labels s w) caps c0"
    "c = claimed now lease w c0"
    "st_chunks s' = AList.update (ch_ID c) c (st_chunks (expire_chunks now s))"
    "st_migrations s' = st_migrations s" "st_tables s' = st_tables s"
    "\<And>i x. (i, x) \<in> set (st_chunks (expire_chunks now s)) \<Longrightarrow>
       claimable env (expire_chunks now s) (worker_labels s w) caps x \<Longrightarrow>
       claim_key env (expire_chunks now s) (worker_labels s w) c0
         \<le> claim_key env (expire_chunks now s) (worker_labels s w) x"
proof -
  let ?s = "expire_chunks now s" and ?l = "worker_labels s w"
  have labels: "worker_labels ?s w = ?l" by (simp add: worker_labels_def)
  let ?P = "\<lambda>(i, c). claimable env ?s ?l caps c" and ?k = "\<lambda>(i :: string, c). claim_key env ?s ?l c"
  from assms(1) labels obtain i c0 where
    f: "find ?P (sort_key ?k (st_chunks ?s)) = Some (i, c0)"
    and r: "c = claimed now lease w c0"
      "s' = fst (persistLocked f (?s\<lparr>st_chunks := AList.update i c (st_chunks ?s)\<rparr>))"
    by (auto simp: ClaimChunk_def Let_def claim_queue_def split: option.splits)
  from find_sort_key(1) [OF f] have i: "(i, c0) \<in> set (st_chunks ?s)" .
  have k: "keyed ch_ID (st_chunks ?s)" using assms(2) by (simp add: chunks_keyed expire_chunks_wf)
  have "i = ch_ID c" using keyedD [OF k i] r(1) by simp
  moreover have "map_of (st_chunks ?s) i = Some c0" using i k by (simp add: keyed_wf)
  moreover have "claimable env ?s ?l caps c0" using find_sort_key(2) [OF f] by simp
  moreover have "claim_key env ?s ?l c0 \<le> claim_key env ?s ?l x"
    if "(j, x) \<in> set (st_chunks ?s)" "claimable env ?s ?l caps x" for j x
    using find_sort_key(3) [OF f that(1)] that(2) by simp
  ultimately show thesis using that r by simp
qed

lemma running_where_claim:
  assumes "store_wf s" and "map_of (st_chunks s) i = Some c0" and "ch_Status c0 \<noteq> ChunkRunning"
    and "ch_Status c = ChunkRunning" and "P c"
    and "st_chunks s' = AList.update i c (st_chunks s)"
  shows "running_where P s' = running_where P s + 1"
  using count_if_update [of "st_chunks s" i c0 "\<lambda>c. P c \<and> ch_Status c = ChunkRunning" c] assms
  by (simp add: running_where_def chunks_keyed [THEN keyed_wf])

text \<open>A store with one task in full migration and one pending chunk, for the witnesses.\<close>

definition demo_store :: Store where
  "demo_store = (New \<lparr>dk_main = Missing, dk_tmp = Missing\<rparr>)\<lparr>
     st_migrations := [(''t'', zero_MigrationTask\<lparr>mig_ID := ''t'',
       mig_Status := StatusFullMigrating, mig_Parallelism := 1\<rparr>)],
     st_chunks := [(''c'', zero_MigrationChunk\<lparr>ch_ID := ''c'', ch_TaskID := ''t'',
       ch_Status := ChunkPending\<rparr>)]\<rparr>"

definition demo_claim :: "Store \<times> (go_error + MigrationChunk)" where
  "demo_claim = ClaimChunk (\<lambda>_. []) IOok 100 ''w'' 10 [''dts''] demo_store"

lemma demo_store_wf: "store_wf demo_store"
  by (simp add: demo_store_def store_wf_def New_def newStore_def keyed_def)

lemma demo_claim_ok:
  "demo_claim = (fst demo_claim, Inr (claimed 100 10 ''w'' (zero_MigrationChunk\<lparr>ch_ID := ''c'',
     ch_TaskID := ''t'', ch_Status := ChunkPending\<rparr>)))"
  by (simp add: demo_claim_def demo_store_def ClaimChunk_def claim_queue_def expire_chunks_def
      gmap_values_def expire_chunk_def New_def newStore_def claimable_def Let_def affinityRank_def
      zero_MigrationTask_def zero_MigrationChunk_def capable_def chunk_engine_def
      faultDomainState_def FaultDomainConcurrencyCap_def task_limit_def taskRunning_def
      running_where_def)

lemma ClaimChunk_Inl:
  assumes "ClaimChunk env f now w lease caps s = (s', Inl e)"
  shows "e = ErrNoChunk" "st_chunks s' = st_chunks (expire_chunks now s)"
    "(i, c) \<in> set (st_chunks (expire_chunks now s)) \<Longrightarrow>
     \<not> claimable env (expire_chunks now s) (worker_labels s w) caps c"
proof -
  let ?s = "expire_chunks now s" and ?l = "worker_labels s w"
  have labels: "worker_labels ?s w = ?l" by (simp add: worker_labels_def)
  from assms labels have f: "find (\<lambda>(i, c). claimable env ?s ?l caps c)
      (sort_key (\<lambda>(i, c). claim_key env ?s ?l c) (st_chunks ?s)) = None"
    and r: "e = ErrNoChunk" "st_chunks s' = st_chunks ?s"
    by (auto simp: ClaimChunk_def Let_def claim_queue_def split: option.splits if_splits)
  from r show "e = ErrNoChunk" "st_chunks s' = st_chunks ?s" .
  from f show "(i, c) \<in> set (st_chunks ?s) \<Longrightarrow> \<not> claimable env ?s ?l caps c"
    unfolding find_sort_key_None by auto
qed

section \<open>Leases\<close>

definition chunk_holder :: "Store \<Rightarrow> string \<Rightarrow> (string \<times> time) option" where
  "chunk_holder s k =
     (case map_of (st_chunks s) k of
        None \<Rightarrow> None
      | Some c \<Rightarrow> if ch_Status c = ChunkRunning then Some (ch_WorkerID c, ch_LeaseUntil c) else None)"

datatype chunk_op =
    OpClaim environment io string duration "string list"
  | OpRenew io string string duration
  | OpProgress io string string ChunkProgress
  | OpYield io string "MigrationChunk option" "MigrationChunk list"

fun chunk_step :: "time \<Rightarrow> chunk_op \<Rightarrow> Store \<Rightarrow> Store" where
  "chunk_step now (OpClaim env f w lease caps) s = fst (ClaimChunk env f now w lease caps s)"
| "chunk_step now (OpRenew f i w lease) s = fst (RenewChunkLease f now i w lease s)"
| "chunk_step now (OpProgress f i w p) s = fst (UpdateChunkProgress f i w p s)"
| "chunk_step now (OpYield f w completed created) s = fst (YieldChunk f w completed created s)"

text \<open>The owner gives a chunk up by yielding it.\<close>

fun chunk_leaves :: "string \<Rightarrow> string \<Rightarrow> chunk_op \<Rightarrow> bool" where
  "chunk_leaves k w (OpYield f w' (Some done) created) \<longleftrightarrow> w' = w \<and> ch_ID done = k"
| "chunk_leaves k w _ \<longleftrightarrow> False"

lemma keyed_fold_update: "keyed idf m \<Longrightarrow> keyed idf (fold (\<lambda>c. AList.update (idf c) c) cs m)"
  by (induction cs arbitrary: m) (auto intro: keyed_update)

lemma map_of_fold_update_other:
  "\<forall>c \<in> set cs. idf c \<noteq> k \<Longrightarrow> map_of (fold (\<lambda>c. AList.update (idf c) c) cs m) k = map_of m k"
  by (induction cs arbitrary: m) auto

lemma set_chunks_wf: "store_wf s \<Longrightarrow> keyed ch_ID m \<Longrightarrow> store_wf (s\<lparr>st_chunks := m\<rparr>)"
  by (simp add: store_wf_def)

lemma ClaimChunk_wf:
  assumes "store_wf s" shows "store_wf (fst (ClaimChunk env f now w lease caps s))"
proof (cases "find (\<lambda>(i, c). claimable env (expire_chunks now s) (worker_labels (expire_chunks now s) w) caps c)
    (claim_queue env (expire_chunks now s) (worker_labels (expire_chunks now s) w))")
  case None
  with expire_chunks_wf [OF assms] show ?thesis by (simp add: ClaimChunk_def Let_def)
next
  case (Some ic)
  obtain i c where ic: "ic = (i, c)" by (cases ic)
  have k: "keyed ch_ID (st_chunks (expire_chunks now s))"
    using assms by (simp add: chunks_keyed expire_chunks_wf)
  from Some ic have "(i, c) \<in> set (st_chunks (expire_chunks now s))"
    unfolding claim_queue_def by (metis find_sort_key(1))
  from keyedD [OF k this] Some ic k expire_chunks_wf [OF assms] show ?thesis
    by (simp add: ClaimChunk_def Let_def set_chunks_wf keyed_update)
qed

lemma chunk_step_wf: "store_wf s \<Longrightarrow> store_wf (chunk_step now a s)"
proof (cases a)
  case (OpClaim env f w lease caps)
  assume "store_wf s" with OpClaim show ?thesis by (simp add: ClaimChunk_wf)
next
  case (OpRenew f i w lease)
  assume "store_wf s" with OpRenew show ?thesis
    by (auto simp: RenewChunkLease_def intro!: set_chunks_wf keyed_update dest: keyed_lookup [OF chunks_keyed]
        chunks_keyed split: option.split)
next
  case (OpProgress f i w p)
  assume "store_wf s" with OpProgress show ?thesis
    by (auto simp: UpdateChunkProgress_def apply_progress_def intro!: set_chunks_wf keyed_update
        dest: keyed_lookup [OF chunks_keyed] chunks_keyed split: option.split)
next
  case (OpYield f w completed created)
  assume "store_wf s" with OpYield show ?thesis
    by (auto simp: YieldChunk_def intro!: set_chunks_wf keyed_fold_update keyed_update
        dest: chunks_keyed split: option.split)
qed

lemma claim_keeps_holder:
  assumes "store_wf s" "chunk_holder s k = Some (w, l)" "\<not> lease_over now l"
  shows "chunk_holder (fst (ClaimChunk env f now v lease caps s)) k = Some (w, l)"
proof -
  from assms(2) obtain c where c: "map_of (st_chunks s) k = Some c" "ch_Status c = ChunkRunning"
    "ch_WorkerID c = w" "ch_LeaseUntil c = l"
    by (auto simp: chunk_holder_def split: option.splits if_splits)
  with assms(3) have e: "map_of (st_chunks (expire_chunks now s)) k = Some c"
    by (simp add: expire_chunks_lookup expire_chunk_def)
  obtain s' r where r: "ClaimChunk env f now v lease caps s = (s', r)"
    by (cases "ClaimChunk env f now v lease caps s")
  show ?thesis
  proof (cases r)
    case (Inl x)
    with r ClaimChunk_Inl(2) [of env f now v lease caps s s' x] e c show ?thesis
      by (simp add: chunk_holder_def)
  next
    case (Inr x)
    with r have "ClaimChunk env f now v lease caps s = (s', Inr x)" by simp
    from ClaimChunk_InrE [OF this assms(1)] obtain c0 where
      "map_of (st_chunks (expire_chunks now s)) (ch_ID x) = Some c0"
      "claimable env (expire_chunks now s) (worker_labels s v) caps c0"
      "st_chunks s' = AList.update (ch_ID x) x (st_chunks (expire_chunks now s))" .
    moreover from this(1,2) e c(2) have "ch_ID x \<noteq> k" by (auto simp: claimable_def)
    ultimately show ?thesis using r e c by (simp add: chunk_holder_def update_conv)
  qed
qed

lemma chunk_step_keeps:
  assumes "store_wf s" "chunk_holder s k = Some (w, l)" "\<not> lease_over now l" "\<not> chunk_leaves k w a"
  shows "\<exists>l'. chunk_holder (chunk_step now a s) k = Some (w, l')"
proof (cases a)
  case (OpClaim env f v lease caps)
  with claim_keeps_holder [OF assms(1-3)] show ?thesis by simp
next
  case (OpRenew f i v lease)
  with assms(2) show ?thesis
    by (auto simp: RenewChunkLease_def chunk_holder_def update_conv split: option.splits if_splits)
next
  case (OpProgress f i v p)
  with assms(2) show ?thesis
    by (auto simp: UpdateChunkProgress_def apply_progress_def chunk_holder_def update_conv
        split: option.splits if_splits)
next
  case (OpYield f v completed created)
  from assms(2) obtain c where c: "map_of (st_chunks s) k = Some c" "ch_Status c = ChunkRunning"
    "ch_WorkerID c = w" "ch_LeaseUntil c = l"
    by (auto simp: chunk_holder_def split: option.splits if_splits)
  show ?thesis
  proof (cases "st_chunks (chunk_step now a s) = st_chunks s")
    case True
    with assms(2) show ?thesis by (simp add: chunk_holder_def)
  next
    case False
    with OpYield obtain d x where d: "completed = Some d" "map_of (st_chunks s) (ch_ID d) = Some x"
      "ch_WorkerID x = v" "find (\<lambda>ch. map_of (st_chunks s) (ch_ID ch) \<noteq> None) created = None"
      "st_chunks (chunk_step now a s)
         = fold (\<lambda>c. AList.update (ch_ID c) c) (d # created) (st_chunks s)"
      by (auto simp: YieldChunk_def split: option.splits if_splits)
    from d(1-3) c OpYield assms(4) have "ch_ID d \<noteq> k" by auto
    with d(4) c(1) have "\<forall>c \<in> set (d # created). ch_ID c \<noteq> k" by (auto simp: find_None_iff)
    from map_of_fold_update_other [OF this, of "st_chunks s"] c d(5)
    show ?thesis by (simp add: chunk_holder_def)
  qed
qed

interpretation chunk_leases: lease_table chunk_holder chunk_step lease_over store_wf chunk_leaves
  by unfold_locales (simp_all add: chunk_step_wf chunk_step_keeps)

section \<open>Properties\<close>

text \<open>
  C8. A claim respects every admission rule: the task of the claimed chunk is in full
  migration, the worker matches a required selector and has the engine, and after the claim
  the task runs at most as many chunks as its effective parallelism, and the chunk's topology,
  whose circuit is not open, at most as many as its concurrency cap.
\<close>

theorem claim_respects_limits:
  assumes "store_wf s" and "ClaimChunk env f now w lease caps s = (s', Inr c)"
  shows "\<exists>m. map_of (st_migrations s') (ch_TaskID c) = Some m \<and> mig_Status m = StatusFullMigrating
    \<and> affinityRank m (worker_labels s w) < 100
    \<and> capable (chunk_engine s' m c) caps
    \<and> (0 < task_limit m \<longrightarrow> taskRunning s' (ch_TaskID c) \<le> task_limit m)
    \<and> (\<forall>t. map_of (st_tables s') (ch_TableID c) = Some t \<and> trim_space (ch_TopologyID c) \<noteq> [] \<longrightarrow>
          TopologyProfileHealth (Some t) (ch_TopologyID c) \<noteq> ''CIRCUIT_OPEN''
          \<and> (TopologyEffectiveConcurrencyCap env (Some t) (ch_TopologyID c) \<noteq> 0 \<longrightarrow>
                topologyRunning s' (ch_TaskID c) (ch_TopologyID c)
                  \<le> TopologyEffectiveConcurrencyCap env (Some t) (ch_TopologyID c)))"
proof -
  let ?s = "expire_chunks now s"
  from ClaimChunk_InrE [OF assms(2,1)] obtain c0 where
    c0: "map_of (st_chunks ?s) (ch_ID c) = Some c0"
      "claimable env ?s (worker_labels s w) caps c0" "c = claimed now lease w c0"
      "st_chunks s' = AList.update (ch_ID c) c (st_chunks ?s)"
      "st_migrations s' = st_migrations s" "st_tables s' = st_tables s" .
  have wf: "store_wf ?s" using assms(1) by (rule expire_chunks_wf)
  have run: "running_where P s' = running_where P ?s + 1" if "P c" for P
  proof (rule running_where_claim [where c = c, OF wf c0(1)])
    show "ch_Status c0 \<noteq> ChunkRunning" "ch_Status c = ChunkRunning"
      using c0(2,3) by (simp_all add: claimable_def)
  qed (use that c0(4) in simp_all)
  from c0(2) obtain m where m: "map_of (st_migrations s) (ch_TaskID c0) = Some m"
    by (auto simp: claimable_def split: option.splits)
  show ?thesis
  proof (intro exI conjI impI allI)
    show "map_of (st_migrations s') (ch_TaskID c) = Some m" using m c0(3,5) by simp
    show "mig_Status m = StatusFullMigrating" "affinityRank m (worker_labels s w) < 100"
      using c0(2) m by (simp_all add: claimable_def)
    show "capable (chunk_engine s' m c) caps"
      using c0(2,3,6) m by (simp add: claimable_def chunk_engine_def)
    show "taskRunning s' (ch_TaskID c) \<le> task_limit m" if "0 < task_limit m"
      using c0(2,3) m that run [of "\<lambda>x. ch_TaskID x = ch_TaskID c"]
      by (simp add: claimable_def taskRunning_def)
    fix t assume t: "map_of (st_tables s') (ch_TableID c) = Some t \<and> trim_space (ch_TopologyID c) \<noteq> []"
    then have ok: "TopologyClaimAllowed env (Some t) (ch_TopologyID c)
        (topologyRunning ?s (ch_TaskID c) (ch_TopologyID c))"
      using c0(2,3,6) m by (simp add: claimable_def)
    from t have ne: "ch_TopologyID c \<noteq> []" by auto
    show "TopologyProfileHealth (Some t) (ch_TopologyID c) \<noteq> ''CIRCUIT_OPEN''"
      using ok t effective_cap_other [of "Some t" "ch_TopologyID c" env]
      by (auto simp: TopologyClaimAllowed_def TopologyConcurrencyCap_def Let_def split: if_splits)
    show "topologyRunning s' (ch_TaskID c) (ch_TopologyID c)
        \<le> TopologyEffectiveConcurrencyCap env (Some t) (ch_TopologyID c)"
      if "TopologyEffectiveConcurrencyCap env (Some t) (ch_TopologyID c) \<noteq> 0"
      using ok t that ne run [of "\<lambda>x. ch_TaskID x = ch_TaskID c \<and> ch_TopologyID x = ch_TopologyID c"]
      by (simp add: TopologyClaimAllowed_def topologyRunning_def Let_def)
  qed
qed

theorem claim_respects_limits_witness:
  "taskRunning (fst demo_claim) ''t'' \<le> 1"
proof -
  have "ClaimChunk (\<lambda>_. []) IOok 100 ''w'' 10 [''dts''] demo_store
      = (fst demo_claim, Inr (claimed 100 10 ''w'' (zero_MigrationChunk\<lparr>ch_ID := ''c'',
     ch_TaskID := ''t'', ch_Status := ChunkPending\<rparr>)))"
    using demo_claim_ok by (simp add: demo_claim_def)
  from claim_respects_limits [OF demo_store_wf this] obtain m where
    "map_of (st_migrations (fst demo_claim)) ''t'' = Some m"
    "0 < task_limit m \<longrightarrow> taskRunning (fst demo_claim) ''t'' \<le> task_limit m"
    by (auto simp: zero_MigrationChunk_def)
  moreover have "st_migrations (fst demo_claim) = st_migrations demo_store"
    by (simp add: demo_claim_def ClaimChunk_def Let_def split: option.split)
  ultimately show ?thesis
    by (auto simp: demo_store_def New_def newStore_def task_limit_def zero_MigrationTask_def)
qed

text \<open>
  C9. \<open>ClaimChunk\<close> returns no chunk exactly when none is claimable once the expired leases are
  released; otherwise it hands out a claimable chunk that no other claimable chunk precedes in
  the order of affinity, health, correlated risk, placement, load, task, table and number, for
  \<open>lease\<close> from now; it changes no other chunk beyond the release of expired leases.
\<close>

theorem claim_picks_first:
  assumes "store_wf s"
  shows "case ClaimChunk env f now w lease caps s of
      (s', Inl e) \<Rightarrow> e = ErrNoChunk \<and> st_chunks s' = st_chunks (expire_chunks now s)
        \<and> (\<forall>(i, x) \<in> set (st_chunks (expire_chunks now s)).
              \<not> claimable env (expire_chunks now s) (worker_labels s w) caps x)
    | (s', Inr c) \<Rightarrow> (\<exists>c0. map_of (st_chunks (expire_chunks now s)) (ch_ID c) = Some c0
        \<and> claimable env (expire_chunks now s) (worker_labels s w) caps c0
        \<and> c = claimed now lease w c0
        \<and> st_chunks s' = AList.update (ch_ID c) c (st_chunks (expire_chunks now s))
        \<and> (\<forall>(i, x) \<in> set (st_chunks (expire_chunks now s)).
              claimable env (expire_chunks now s) (worker_labels s w) caps x \<longrightarrow>
              claim_key env (expire_chunks now s) (worker_labels s w) c0
                \<le> claim_key env (expire_chunks now s) (worker_labels s w) x))"
proof -
  obtain s' r where r: "ClaimChunk env f now w lease caps s = (s', r)"
    by (cases "ClaimChunk env f now w lease caps s")
  show ?thesis
  proof (cases r)
    case (Inl e)
    with r have "ClaimChunk env f now w lease caps s = (s', Inl e)" by simp
    from ClaimChunk_Inl [OF this] this show ?thesis by auto
  next
    case (Inr c)
    with r have c: "ClaimChunk env f now w lease caps s = (s', Inr c)" by simp
    show ?thesis
      unfolding c prod.case sum.case
      by (rule ClaimChunk_InrE [OF c assms]) (intro exI conjI ballI; auto simp del: less_eq_prod_simp)
  qed
qed

theorem claim_picks_first_witness:
  "\<exists>c0. claimed 100 10 ''w'' (zero_MigrationChunk\<lparr>ch_ID := ''c'', ch_TaskID := ''t'',
     ch_Status := ChunkPending\<rparr>) = claimed 100 10 ''w'' c0
   \<and> claimable (\<lambda>_. []) (expire_chunks 100 demo_store) (worker_labels demo_store ''w'') [''dts''] c0"
proof -
  have "ClaimChunk (\<lambda>_. []) IOok 100 ''w'' 10 [''dts''] demo_store
      = (fst demo_claim, Inr (claimed 100 10 ''w'' (zero_MigrationChunk\<lparr>ch_ID := ''c'',
     ch_TaskID := ''t'', ch_Status := ChunkPending\<rparr>)))"
    using demo_claim_ok by (simp add: demo_claim_def)
  with claim_picks_first [OF demo_store_wf, where env = "\<lambda>_. []" and f = IOok and now = 100
      and w = "''w''" and lease = 10 and caps = "[''dts'']"]
  show ?thesis by auto
qed

text \<open>
  C10. A worker keeps a running chunk as long as its lease is not over at the clock reading of
  any operation of any worker: no claim, renewal, progress report or yield of another worker
  takes it away, in any interleaving; only its own yield ends it.
\<close>

theorem chunk_lease_kept:
  assumes "store_wf s" and "chunk_holder s k = Some (w, l)"
    and "\<And>i. i < length tr \<Longrightarrow> \<not> chunk_leaves k w (snd (tr ! i))"
    and "\<And>i l'. i < length tr \<Longrightarrow>
      chunk_holder (fold (\<lambda>(now, a). chunk_step now a) (take i tr) s) k = Some (w, l') \<Longrightarrow>
      \<not> lease_over (fst (tr ! i)) l'"
  shows "\<exists>l'. chunk_holder (fold (\<lambda>(now, a). chunk_step now a) tr s) k = Some (w, l')"
  by (rule chunk_leases.holder_kept [OF assms])

theorem chunk_lease_kept_witness:
  "\<exists>l'. chunk_holder (fst (ClaimChunk (\<lambda>_. []) IOok 105 ''v'' 10 [''dts'']
      (demo_store\<lparr>st_chunks := [(''c'', claimed 100 10 ''w'' (zero_MigrationChunk\<lparr>ch_ID := ''c''\<rparr>))]\<rparr>)))
      ''c'' = Some (''w'', l')"
proof -
  let ?s = "demo_store\<lparr>st_chunks := [(''c'', claimed 100 10 ''w'' (zero_MigrationChunk\<lparr>ch_ID := ''c''\<rparr>))]\<rparr>"
  let ?tr = "[(105 :: int, OpClaim (\<lambda>_. []) IOok ''v'' 10 [''dts''])]"
  have "store_wf ?s" using demo_store_wf by (simp add: store_wf_def keyed_def)
  moreover have "chunk_holder ?s ''c'' = Some (''w'', 110)" by (simp add: chunk_holder_def)
  ultimately have "\<exists>l'. chunk_holder (fold (\<lambda>(now, a). chunk_step now a) ?tr ?s) ''c'' = Some (''w'', l')"
    by (rule chunk_lease_kept) (auto simp: chunk_holder_def lease_over_def)
  then show ?thesis by simp
qed

end
