(* ===== verification/StoreJobs.thy ===== *)
theory StoreJobs
  imports StoreCatalog
begin

text \<open>
  The other leased items of the repository (\<open>memory.go\<close>): engine jobs, claimed by workers that
  have the engine, and control operations, at most one per task at a time. Both interpret the
  lease contract.
\<close>

section \<open>Engine jobs\<close>

definition CreateEngineJob :: "io \<Rightarrow> EngineJob \<Rightarrow> Store \<Rightarrow> Store \<times> go_error option" where
  "CreateEngineJob fault j s =
     (if map_of (st_engineJobs s) (ej_ID j) \<noteq> None then (s, Some (ErrText ''engine job already exists''))
      else persistLocked fault (s\<lparr>st_engineJobs := AList.update (ej_ID j) j (st_engineJobs s)\<rparr>))"

definition GetEngineJob :: "string \<Rightarrow> Store \<Rightarrow> go_error + EngineJob" where
  "GetEngineJob i s = found (map_of (st_engineJobs s) i)"

definition ListEngineJobs :: "string \<Rightarrow> Store \<Rightarrow> EngineJob list" where
  "ListEngineJobs taskID s =
     newest_first ej_UpdatedAt
       (filter (\<lambda>j. taskID = [] \<or> ej_TaskID j = taskID) (map snd (st_engineJobs s)))"

definition UpdateEngineJob :: "io \<Rightarrow> EngineJob \<Rightarrow> Store \<Rightarrow> Store \<times> go_error option" where
  "UpdateEngineJob fault j s =
     (if map_of (st_engineJobs s) (ej_ID j) = None then (s, Some ErrNotFound)
      else persistLocked fault (s\<lparr>st_engineJobs := AList.update (ej_ID j) j (st_engineJobs s)\<rparr>))"

definition job_over :: "time \<Rightarrow> time \<Rightarrow> bool" where
  "job_over now l \<longleftrightarrow> l \<noteq> 0 \<and> l < now"

definition job_capable :: "string list \<Rightarrow> string \<Rightarrow> bool" where
  "job_capable caps engine \<longleftrightarrow> engine \<in> set caps \<or>
     (engine = ''dts'' \<and> list_ex (\<lambda>c. c = ''native'' \<or> c = ''native-mysql-cdc''
        \<or> c = ''native-postgres-cdc'') caps)"

definition expire_job :: "time \<Rightarrow> EngineJob \<Rightarrow> EngineJob" where
  "expire_job now j =
     (if ej_Status j = EngineJobRunning \<and> job_over now (ej_LeaseUntil j)
      then j\<lparr>ej_Status := EngineJobPending, ej_WorkerID := [], ej_LeaseUntil := 0,
             ej_RetryCount := ej_RetryCount j + 1, ej_LastError := ''worker lease expired'',
             ej_UpdatedAt := now\<rparr>
      else j)"

definition claimed_job :: "time \<Rightarrow> duration \<Rightarrow> string \<Rightarrow> EngineJob \<Rightarrow> EngineJob" where
  "claimed_job now lease workerID j =
     j\<lparr>ej_Status := EngineJobRunning, ej_WorkerID := workerID, ej_LeaseUntil := now + lease,
       ej_StartedAt := (if ej_StartedAt j = 0 then now else ej_StartedAt j), ej_UpdatedAt := now,
       ej_LastError := []\<rparr>"

definition expire_jobs :: "time \<Rightarrow> Store \<Rightarrow> Store" where
  "expire_jobs now s = s\<lparr>st_engineJobs := gmap_values (\<lambda>_. expire_job now) (st_engineJobs s)\<rparr>"

definition job_claimable :: "string list \<Rightarrow> EngineJob \<Rightarrow> bool" where
  "job_claimable caps j \<longleftrightarrow> ej_Status j = EngineJobPending \<and> job_capable caps (ej_Engine j)"

definition ClaimEngineJob ::
  "io \<Rightarrow> time \<Rightarrow> string \<Rightarrow> duration \<Rightarrow> string list \<Rightarrow> Store \<Rightarrow> Store \<times> (go_error + EngineJob)" where
  "ClaimEngineJob fault now workerID lease caps s =
     (let changed = list_ex (\<lambda>(i, j). ej_Status j = EngineJobRunning \<and> job_over now (ej_LeaseUntil j))
                      (st_engineJobs s);
          s = expire_jobs now s
      in case find (\<lambda>(i, j). job_claimable caps j) (sort_key fst (st_engineJobs s)) of
           Some (i, j) \<Rightarrow>
             (fst (persistLocked fault
                (s\<lparr>st_engineJobs := AList.update i (claimed_job now lease workerID j) (st_engineJobs s)\<rparr>)),
              Inr (claimed_job now lease workerID j))
         | None \<Rightarrow> ((if changed then fst (persistLocked fault s) else s), Inl ErrNoChunk))"

definition RenewEngineJobLease ::
  "io \<Rightarrow> time \<Rightarrow> string \<Rightarrow> string \<Rightarrow> duration \<Rightarrow> Store \<Rightarrow> Store \<times> go_error option" where
  "RenewEngineJobLease fault now i workerID lease s =
     (case map_of (st_engineJobs s) i of
        None \<Rightarrow> (s, Some ErrNotFound)
      | Some j \<Rightarrow>
          if ej_Status j \<noteq> EngineJobRunning \<or> ej_WorkerID j \<noteq> workerID then (s, Some ErrLeaseOwner)
          else persistLocked fault
                 (s\<lparr>st_engineJobs := AList.update i (j\<lparr>ej_LeaseUntil := now + lease, ej_UpdatedAt := now\<rparr>)
                      (st_engineJobs s)\<rparr>))"

lemma jobs_keyed: "store_wf s \<Longrightarrow> keyed ej_ID (st_engineJobs s)"
  by (simp add: store_wf_def)

lemma set_jobs_wf: "store_wf s \<Longrightarrow> keyed ej_ID m \<Longrightarrow> store_wf (s\<lparr>st_engineJobs := m\<rparr>)"
  by (simp add: store_wf_def)

lemma expire_jobs_wf: "store_wf s \<Longrightarrow> store_wf (expire_jobs now s)"
  by (auto simp: expire_jobs_def expire_job_def intro!: set_jobs_wf keyed_values dest: jobs_keyed)

lemma expire_jobs_lookup:
  "map_of (st_engineJobs (expire_jobs now s)) i = map_option (expire_job now) (map_of (st_engineJobs s) i)"
  by (simp add: expire_jobs_def map_of_gmap_values)

lemma claimed_job_simps [simp]:
  "ej_ID (claimed_job now lease w j) = ej_ID j" "ej_Status (claimed_job now lease w j) = EngineJobRunning"
  "ej_WorkerID (claimed_job now lease w j) = w" "ej_LeaseUntil (claimed_job now lease w j) = now + lease"
  by (simp_all add: claimed_job_def)

lemma ClaimEngineJob_cases:
  assumes "store_wf s"
  obtains (claim) i j where "map_of (st_engineJobs (expire_jobs now s)) i = Some j" "job_claimable caps j"
      "i = ej_ID j" "snd (ClaimEngineJob f now w lease caps s) = Inr (claimed_job now lease w j)"
      "st_engineJobs (fst (ClaimEngineJob f now w lease caps s))
         = AList.update i (claimed_job now lease w j) (st_engineJobs (expire_jobs now s))"
      "\<And>i' j'. (i', j') \<in> set (st_engineJobs (expire_jobs now s)) \<Longrightarrow> job_claimable caps j' \<Longrightarrow> i \<le> i'"
  | (none) "snd (ClaimEngineJob f now w lease caps s) = Inl ErrNoChunk"
      "st_engineJobs (fst (ClaimEngineJob f now w lease caps s)) = st_engineJobs (expire_jobs now s)"
      "\<And>i' j'. (i', j') \<in> set (st_engineJobs (expire_jobs now s)) \<Longrightarrow> \<not> job_claimable caps j'"
proof (cases "find (\<lambda>(i, j). job_claimable caps j) (sort_key fst (st_engineJobs (expire_jobs now s)))")
  case None
  show thesis
  proof (rule none)
    show "snd (ClaimEngineJob f now w lease caps s) = Inl ErrNoChunk"
      "st_engineJobs (fst (ClaimEngineJob f now w lease caps s)) = st_engineJobs (expire_jobs now s)"
      using None by (simp_all add: ClaimEngineJob_def Let_def)
    show "(i', j') \<in> set (st_engineJobs (expire_jobs now s)) \<Longrightarrow> \<not> job_claimable caps j'" for i' j'
      using None unfolding find_sort_key_None by auto
  qed
next
  case (Some ij)
  obtain i j where ij: "ij = (i, j)" by (cases ij)
  note f = Some [unfolded ij]
  have k: "keyed ej_ID (st_engineJobs (expire_jobs now s))"
    using assms by (simp add: jobs_keyed expire_jobs_wf)
  from find_sort_key(1) [OF f] have m: "(i, j) \<in> set (st_engineJobs (expire_jobs now s))" .
  show thesis
  proof (rule claim)
    show "map_of (st_engineJobs (expire_jobs now s)) i = Some j" using m k by (simp add: keyed_wf)
    show "job_claimable caps j" using find_sort_key(2) [OF f] by simp
    show "i = ej_ID j" using keyedD [OF k m] .
    show "snd (ClaimEngineJob f now w lease caps s) = Inr (claimed_job now lease w j)"
      "st_engineJobs (fst (ClaimEngineJob f now w lease caps s))
         = AList.update i (claimed_job now lease w j) (st_engineJobs (expire_jobs now s))"
      using f by (simp_all add: ClaimEngineJob_def Let_def)
    show "i \<le> i'" if "(i', j') \<in> set (st_engineJobs (expire_jobs now s))" "job_claimable caps j'" for i' j'
      using find_sort_key(3) [OF f that(1)] that(2) by simp
  qed
qed

section \<open>Engine jobs under the lease contract\<close>

definition job_holder :: "Store \<Rightarrow> string \<Rightarrow> (string \<times> time) option" where
  "job_holder s k =
     (case map_of (st_engineJobs s) k of
        None \<Rightarrow> None
      | Some j \<Rightarrow> if ej_Status j = EngineJobRunning then Some (ej_WorkerID j, ej_LeaseUntil j) else None)"

datatype job_op =
    JobClaim io string duration "string list"
  | JobRenew io string string duration
  | JobCreate io EngineJob

fun job_step :: "time \<Rightarrow> job_op \<Rightarrow> Store \<Rightarrow> Store" where
  "job_step now (JobClaim f w lease caps) s = fst (ClaimEngineJob f now w lease caps s)"
| "job_step now (JobRenew f i w lease) s = fst (RenewEngineJobLease f now i w lease s)"
| "job_step now (JobCreate f j) s = fst (CreateEngineJob f j s)"

lemma job_step_wf: "store_wf s \<Longrightarrow> store_wf (job_step now a s)"
proof (cases a)
  case (JobClaim f w lease caps)
  assume s: "store_wf s"
  obtain m where m: "store_wf (job_step now a s) = store_wf ((expire_jobs now s)\<lparr>st_engineJobs := m\<rparr>)"
    "m = st_engineJobs (job_step now a s)"
    using JobClaim by (auto simp: ClaimEngineJob_def Let_def store_wf_def split: option.split)
  have "keyed ej_ID (st_engineJobs (expire_jobs now s))" using s by (simp add: jobs_keyed expire_jobs_wf)
  moreover from s have "keyed ej_ID m"
    by (rule ClaimEngineJob_cases [of s now caps f w lease])
      (use m JobClaim \<open>keyed ej_ID (st_engineJobs (expire_jobs now s))\<close> in \<open>auto intro: keyed_update\<close>)
  ultimately show ?thesis using m(1) expire_jobs_wf [OF s] set_jobs_wf by blast
next
  case (JobRenew f i w lease)
  assume "store_wf s" with JobRenew show ?thesis
    by (auto simp: RenewEngineJobLease_def intro!: set_jobs_wf keyed_update
        dest: keyed_lookup [OF jobs_keyed] jobs_keyed split: option.split)
next
  case (JobCreate f j)
  assume "store_wf s" with JobCreate show ?thesis
    by (auto simp: CreateEngineJob_def intro!: set_jobs_wf keyed_update dest: jobs_keyed)
qed

lemma job_step_keeps:
  assumes "store_wf s" "job_holder s k = Some (w, l)" "\<not> job_over now l"
  shows "\<exists>l'. job_holder (job_step now a s) k = Some (w, l')"
proof -
  from assms(2) obtain j where j: "map_of (st_engineJobs s) k = Some j" "ej_Status j = EngineJobRunning"
    "ej_WorkerID j = w" "ej_LeaseUntil j = l"
    by (auto simp: job_holder_def split: option.splits if_splits)
  with assms(3) have e: "map_of (st_engineJobs (expire_jobs now s)) k = Some j"
    by (simp add: expire_jobs_lookup expire_job_def)
  show ?thesis
  proof (cases a)
    case (JobClaim f v lease caps)
    from assms(1) show ?thesis
    proof (cases rule: ClaimEngineJob_cases [of s now caps f v lease])
      case (claim i j')
      then have "i \<noteq> k" using e j(2) by (auto simp: job_claimable_def)
      with claim(5) e j JobClaim show ?thesis by (simp add: job_holder_def update_conv)
    next
      case none
      with e j JobClaim show ?thesis by (simp add: job_holder_def)
    qed
  next
    case (JobRenew f i v lease)
    with assms(2) show ?thesis
      by (auto simp: RenewEngineJobLease_def job_holder_def update_conv split: option.splits if_splits)
  next
    case (JobCreate f j')
    with j show ?thesis by (auto simp: CreateEngineJob_def job_holder_def update_conv)
  qed
qed

interpretation job_leases: lease_table job_holder job_step job_over store_wf "\<lambda>_ _ _. False"
  by unfold_locales (simp_all add: job_step_wf job_step_keeps)

section \<open>Control operations\<close>

definition AcquireControlOperation ::
  "io \<Rightarrow> time \<Rightarrow> string \<Rightarrow> string \<Rightarrow> string \<Rightarrow> duration \<Rightarrow> Store \<Rightarrow> Store \<times> (go_error + bool)" where
  "AcquireControlOperation fault now taskID operation owner lease s =
     (case map_of (st_controlOperations s) taskID of
        Some current \<Rightarrow>
          if co_LeaseUntil current > now then (s, Inr False)
          else let (s', err) = persistLocked fault (s\<lparr>st_controlOperations := AList.update taskID
                     \<lparr>co_TaskID = taskID, co_Operation = operation, co_Owner = owner,
                      co_LeaseUntil = now + lease, co_UpdatedAt = now\<rparr> (st_controlOperations s)\<rparr>)
               in (s', case err of None \<Rightarrow> Inr True | Some e \<Rightarrow> Inl e)
      | None \<Rightarrow>
          let (s', err) = persistLocked fault (s\<lparr>st_controlOperations := AList.update taskID
                     \<lparr>co_TaskID = taskID, co_Operation = operation, co_Owner = owner,
                      co_LeaseUntil = now + lease, co_UpdatedAt = now\<rparr> (st_controlOperations s)\<rparr>)
          in (s', case err of None \<Rightarrow> Inr True | Some e \<Rightarrow> Inl e))"

definition RenewControlOperation ::
  "io \<Rightarrow> time \<Rightarrow> string \<Rightarrow> string \<Rightarrow> string \<Rightarrow> duration \<Rightarrow> Store \<Rightarrow> Store \<times> go_error option" where
  "RenewControlOperation fault now taskID operation owner lease s =
     (case map_of (st_controlOperations s) taskID of
        None \<Rightarrow> (s, Some ErrLeaseOwner)
      | Some current \<Rightarrow>
          if co_Owner current \<noteq> owner \<or> co_Operation current \<noteq> operation then (s, Some ErrLeaseOwner)
          else persistLocked fault (s\<lparr>st_controlOperations := AList.update taskID
                 (current\<lparr>co_LeaseUntil := now + lease, co_UpdatedAt := now\<rparr>) (st_controlOperations s)\<rparr>))"

definition ReleaseControlOperation ::
  "io \<Rightarrow> string \<Rightarrow> string \<Rightarrow> string \<Rightarrow> Store \<Rightarrow> Store \<times> go_error option" where
  "ReleaseControlOperation fault taskID operation owner s =
     (case map_of (st_controlOperations s) taskID of
        None \<Rightarrow> (s, None)
      | Some current \<Rightarrow>
          if co_Owner current \<noteq> owner \<or> co_Operation current \<noteq> operation then (s, Some ErrLeaseOwner)
          else persistLocked fault
                 (s\<lparr>st_controlOperations := AList.delete taskID (st_controlOperations s)\<rparr>))"

definition control_over :: "time \<Rightarrow> time \<Rightarrow> bool" where
  "control_over now l \<longleftrightarrow> \<not> l > now"

definition control_holder :: "Store \<Rightarrow> string \<Rightarrow> (string \<times> time) option" where
  "control_holder s k = map_option (\<lambda>c. (co_Owner c, co_LeaseUntil c)) (map_of (st_controlOperations s) k)"

datatype control_op =
    CtlAcquire io string string string duration
  | CtlRenew io string string string duration
  | CtlRelease io string string string

fun control_step :: "time \<Rightarrow> control_op \<Rightarrow> Store \<Rightarrow> Store" where
  "control_step now (CtlAcquire f k op w lease) s = fst (AcquireControlOperation f now k op w lease s)"
| "control_step now (CtlRenew f k op w lease) s = fst (RenewControlOperation f now k op w lease s)"
| "control_step now (CtlRelease f k op w) s = fst (ReleaseControlOperation f k op w s)"

fun control_leaves :: "string \<Rightarrow> string \<Rightarrow> control_op \<Rightarrow> bool" where
  "control_leaves k w (CtlRelease f k' op w') \<longleftrightarrow> k' = k \<and> w' = w"
| "control_leaves k w _ \<longleftrightarrow> False"

lemma set_control_wf:
  "store_wf s \<Longrightarrow> keyed co_TaskID m \<Longrightarrow> store_wf (s\<lparr>st_controlOperations := m\<rparr>)"
  by (simp add: store_wf_def)

lemma control_keyed: "store_wf s \<Longrightarrow> keyed co_TaskID (st_controlOperations s)"
  by (simp add: store_wf_def)

lemma control_step_wf: "store_wf s \<Longrightarrow> store_wf (control_step now a s)"
  by (cases a) (auto simp: AcquireControlOperation_def RenewControlOperation_def
      ReleaseControlOperation_def Let_def split_def intro!: set_control_wf keyed_update keyed_delete
      dest: control_keyed keyed_lookup [OF control_keyed] split: option.split)

lemma control_step_keeps:
  "control_holder s k = Some (w, l) \<Longrightarrow> \<not> control_over now l \<Longrightarrow> \<not> control_leaves k w a \<Longrightarrow>
   \<exists>l'. control_holder (control_step now a s) k = Some (w, l')"
  by (cases a) (auto simp: AcquireControlOperation_def RenewControlOperation_def
      ReleaseControlOperation_def Let_def split_def control_holder_def control_over_def update_conv
      delete_conv split: option.splits if_splits)

interpretation control_leases:
  lease_table control_holder control_step control_over store_wf control_leaves
  by unfold_locales (simp_all add: control_step_wf control_step_keeps)

lemma acquire_result:
  "snd (AcquireControlOperation f now k op w lease s) = Inr True \<Longrightarrow>
   control_holder (fst (AcquireControlOperation f now k op w lease s)) k = Some (w, now + lease)
   \<and> (\<forall>v l. control_holder s k = Some (v, l) \<longrightarrow> control_over now l)"
  by (auto simp: AcquireControlOperation_def control_holder_def control_over_def Let_def split_def
      split: option.splits if_splits)

section \<open>Properties\<close>

text \<open>
  \<open>ClaimEngineJob\<close> hands out the claimable job with the least identity, running under the
  worker until \<open>now + lease\<close>, and returns no job exactly when none is pending (once expired
  leases are released) whose engine the worker has.
\<close>

theorem job_claim_first:
  assumes "store_wf s"
  shows "case snd (ClaimEngineJob f now w lease caps s) of
      Inl e \<Rightarrow> e = ErrNoChunk \<and> (\<forall>(i, j) \<in> set (st_engineJobs (expire_jobs now s)). \<not> job_claimable caps j)
    | Inr j \<Rightarrow> job_holder (fst (ClaimEngineJob f now w lease caps s)) (ej_ID j) = Some (w, now + lease)
        \<and> (\<exists>j0. map_of (st_engineJobs (expire_jobs now s)) (ej_ID j) = Some j0
              \<and> job_claimable caps j0 \<and> j = claimed_job now lease w j0)
        \<and> (\<forall>(i, j') \<in> set (st_engineJobs (expire_jobs now s)). job_claimable caps j' \<longrightarrow> ej_ID j \<le> i)"
  using assms
proof (cases rule: ClaimEngineJob_cases [of s now caps f w lease])
  case (claim i j)
  then show ?thesis by (auto simp: job_holder_def update_conv)
next
  case none
  then show ?thesis by auto
qed

text \<open>A store with one pending job, for the witnesses.\<close>

definition demo_jobs :: Store where
  "demo_jobs = (New \<lparr>dk_main = Missing, dk_tmp = Missing\<rparr>)\<lparr>
     st_engineJobs := [(''j'', zero_EngineJob\<lparr>ej_ID := ''j'', ej_Engine := ''dts'',
       ej_Status := EngineJobPending\<rparr>)]\<rparr>"

lemma demo_jobs_wf: "store_wf demo_jobs"
  by (simp add: demo_jobs_def store_wf_def New_def newStore_def keyed_def)

theorem job_claim_first_witness:
  "\<exists>j. snd (ClaimEngineJob IOok 100 ''w'' 10 [''native''] demo_jobs) = Inr j
     \<and> job_holder (fst (ClaimEngineJob IOok 100 ''w'' 10 [''native''] demo_jobs)) (ej_ID j) = Some (''w'', 110)"
proof -
  have "\<exists>j. snd (ClaimEngineJob IOok 100 ''w'' 10 [''native''] demo_jobs) = Inr j"
    by (simp add: ClaimEngineJob_def demo_jobs_def New_def newStore_def expire_jobs_def
        gmap_values_def expire_job_def job_claimable_def job_capable_def Let_def)
  with job_claim_first [OF demo_jobs_wf, where f = IOok and now = 100 and w = "''w''" and lease = 10
      and caps = "[''native'']"]
  show ?thesis by auto
qed

text \<open>
  A running engine job stays with its worker as long as its lease is not over at the
  clock reading of any claim, renewal or job creation of any client, in any interleaving.
\<close>

theorem job_lease_kept:
  assumes "store_wf s" and "job_holder s k = Some (w, l)"
    and "\<And>i l'. i < length tr \<Longrightarrow>
      job_holder (fold (\<lambda>(now, a). job_step now a) (take i tr) s) k = Some (w, l') \<Longrightarrow>
      \<not> job_over (fst (tr ! i)) l'"
  shows "\<exists>l'. job_holder (fold (\<lambda>(now, a). job_step now a) tr s) k = Some (w, l')"
  by (rule job_leases.holder_kept [OF assms(1,2) _ assms(3)]) simp_all

theorem job_lease_kept_witness:
  "\<exists>l'. job_holder (fst (ClaimEngineJob IOok 105 ''v'' 10 [''dts'']
      (demo_jobs\<lparr>st_engineJobs := [(''j'', claimed_job 100 10 ''w'' (zero_EngineJob\<lparr>ej_ID := ''j''\<rparr>))]\<rparr>)))
      ''j'' = Some (''w'', l')"
proof -
  let ?s = "demo_jobs\<lparr>st_engineJobs := [(''j'', claimed_job 100 10 ''w'' (zero_EngineJob\<lparr>ej_ID := ''j''\<rparr>))]\<rparr>"
  let ?tr = "[(105 :: int, JobClaim IOok ''v'' 10 [''dts''])]"
  have "store_wf ?s" using demo_jobs_wf by (simp add: store_wf_def keyed_def)
  moreover have "job_holder ?s ''j'' = Some (''w'', 110)" by (simp add: job_holder_def)
  ultimately have "\<exists>l'. job_holder (fold (\<lambda>(now, a). job_step now a) ?tr ?s) ''j'' = Some (''w'', l')"
    by (rule job_lease_kept) (auto simp: job_holder_def job_over_def)
  then show ?thesis by simp
qed

text \<open>
  C11. Control operations exclude each other per task: an acquisition succeeds only when no
  lease of the task lies in the future, then the caller holds it until \<open>now + lease\<close>, and while
  the holder's lease lies in the future no acquisition, renewal or release by anyone else
  takes it away.
\<close>

theorem control_exclusive:
  assumes "store_wf s" and "snd (AcquireControlOperation f now k op w lease s) = Inr True"
    and "\<And>i. i < length tr \<Longrightarrow> \<not> control_leaves k w (snd (tr ! i))"
    and "\<And>i l'. i < length tr \<Longrightarrow>
      control_holder (fold (\<lambda>(now, a). control_step now a) (take i tr)
        (fst (AcquireControlOperation f now k op w lease s))) k = Some (w, l') \<Longrightarrow>
      \<not> control_over (fst (tr ! i)) l'"
  shows "(\<forall>v l. control_holder s k = Some (v, l) \<longrightarrow> l \<le> now)
    \<and> control_holder (fst (AcquireControlOperation f now k op w lease s)) k = Some (w, now + lease)
    \<and> (\<exists>l'. control_holder (fold (\<lambda>(now, a). control_step now a) tr
              (fst (AcquireControlOperation f now k op w lease s))) k = Some (w, l'))"
proof -
  let ?s = "fst (AcquireControlOperation f now k op w lease s)"
  from acquire_result [OF assms(2)] have a: "control_holder ?s k = Some (w, now + lease)"
    "\<forall>v l. control_holder s k = Some (v, l) \<longrightarrow> l \<le> now"
    by (auto simp: control_over_def)
  have "store_wf ?s" using control_step_wf [OF assms(1), of now "CtlAcquire f k op w lease"] by simp
  from control_leases.holder_kept [OF this a(1) assms(3,4)] a show ?thesis by blast
qed

theorem control_exclusive_witness:
  "control_holder (fst (AcquireControlOperation IOok 100 ''t'' ''pause'' ''a'' 10 demo_jobs)) ''t''
     = Some (''a'', 110)"
proof -
  have "snd (AcquireControlOperation IOok 100 ''t'' ''pause'' ''a'' 10 demo_jobs) = Inr True"
    by (simp add: AcquireControlOperation_def demo_jobs_def New_def newStore_def persistLocked_def)
  from control_exclusive [OF demo_jobs_wf this, of "[]"] show ?thesis by simp
qed

text \<open>
  When the snapshot of an acquisition cannot be written, the caller is told so, yet the
  lease stays in memory: until \<open>now + lease\<close> every other acquisition for the task is refused,
  although nobody was told to hold it.
\<close>

theorem failed_acquire_blocks:
  assumes "snd (AcquireControlOperation f now k op w lease s) = Inl e" and "now' < now + lease"
  shows "AcquireControlOperation f' now' k op' w' lease' (fst (AcquireControlOperation f now k op w lease s))
    = (fst (AcquireControlOperation f now k op w lease s), Inr False)"
  using assms
  by (auto simp: AcquireControlOperation_def Let_def split_def update_conv split: option.splits if_splits)

theorem failed_acquire_blocks_witness:
  "\<exists>s. snd (AcquireControlOperation IOok 101 ''t'' ''stop'' ''b'' 10 s) = Inr False
     \<and> s = fst (AcquireControlOperation (IOrename ''no space'') 100 ''t'' ''pause'' ''a'' 10
          (newStore ''f'' \<lparr>dk_main = Missing, dk_tmp = Missing\<rparr>))"
proof -
  let ?s = "newStore ''f'' \<lparr>dk_main = Missing, dk_tmp = Missing\<rparr>"
  have "snd (AcquireControlOperation (IOrename ''no space'') 100 ''t'' ''pause'' ''a'' 10 ?s)
      = Inl (ErrIO ''no space'')"
    by (simp add: AcquireControlOperation_def newStore_def persistLocked_def)
  from failed_acquire_blocks [OF this, of 101 IOok "''stop''" "''b''" 10] show ?thesis by simp
qed

end
