(* ===== verification/StoreCDC.thy ===== *)
theory StoreCDC
  imports StoreCatalog "HOL-Library.Sublist"
begin

text \<open>
  The CDC part of the repository (\<open>memory.go\<close>): checkpoints with the hard limit on their number,
  and the spool of captured transactions, a first-in first-out queue per task and direction
  whose records are numbered, marked as applied, and purged. \<open>jsonLen\<close> is the length of the
  JSON encoding of a list of events, used only to fill in a missing payload size.
\<close>

section \<open>Checkpoints\<close>

definition stream_key :: "CDCPosition \<Rightarrow> string" where
  "stream_key p = pos_TaskID p @ CHR 0x00 # pos_Direction p"

text \<open>One round of the loop that finds the newest index of each stream.\<close>

definition latest_step :: "CDCPosition list \<Rightarrow> nat \<Rightarrow> (string, nat) gomap \<Rightarrow> (string, nat) gomap" where
  "latest_step ps i m =
     (let k = stream_key (ps ! i) in
      case map_of m k of
        None \<Rightarrow> AList.update k i m
      | Some prev \<Rightarrow>
          if pos_RecordedAt (ps ! i) > pos_RecordedAt (ps ! prev)
             \<or> (pos_RecordedAt (ps ! i) = pos_RecordedAt (ps ! prev) \<and> i > prev)
          then AList.update k i m else m)"

text \<open>The loop from the last index down that fills up to the limit.\<close>

fun fill_newest :: "nat \<Rightarrow> nat \<Rightarrow> nat list \<Rightarrow> nat list" where
  "fill_newest limit 0 keep = keep"
| "fill_newest limit (Suc i) keep =
     (if length keep < limit then fill_newest limit i (List.insert i keep) else keep)"

definition compactCDCPositionsHardLimit :: "CDCPosition list \<Rightarrow> int \<Rightarrow> CDCPosition list" where
  "compactCDCPositionsHardLimit ps limit =
     (if limit \<le> 0 \<or> int (length ps) \<le> limit then ps
      else let latest = fold (latest_step ps) [0..<length ps] [];
               keep = fill_newest (nat limit) (length ps) (map snd latest)
           in map ((!) ps) (filter (\<lambda>i. i \<in> set keep) [0..<length ps]))"

definition CreateCDCPosition :: "io \<Rightarrow> CDCPosition \<Rightarrow> Store \<Rightarrow> Store \<times> go_error option" where
  "CreateCDCPosition fault v s =
     (let ps = st_cdcPositions s @ [v];
          ps = (if length ps > 60000 then compactCDCPositionsHardLimit ps 50000 else ps)
      in persistLocked fault (s\<lparr>st_cdcPositions := ps\<rparr>))"

definition ListCDCPositions :: "string \<Rightarrow> int \<Rightarrow> Store \<Rightarrow> CDCPosition list" where
  "ListCDCPositions taskID limit s =
     newest_matching (page_limit 1000 200 limit) (\<lambda>p. pos_TaskID p = taskID) (st_cdcPositions s)"

section \<open>Spool\<close>

definition in_stream :: "string \<Rightarrow> string \<Rightarrow> CDCSpoolRecord \<Rightarrow> bool" where
  "in_stream taskID direction v \<longleftrightarrow> sp_TaskID v = taskID \<and> sp_Direction v = direction"

definition max_seq :: "string \<Rightarrow> string \<Rightarrow> CDCSpoolRecord list \<Rightarrow> int" where
  "max_seq taskID direction vs =
     fold (\<lambda>v m. if in_stream taskID direction v \<and> sp_Sequence v > m then sp_Sequence v else m) vs 0"

definition numbered_spool ::
  "(CDCEvent list \<Rightarrow> int) \<Rightarrow> CDCSpoolRecord list \<Rightarrow> CDCSpoolRecord \<Rightarrow> CDCSpoolRecord" where
  "numbered_spool jsonLen vs v =
     v\<lparr>sp_Sequence := max_seq (sp_TaskID v) (sp_Direction v) vs + 1,
       sp_EventCount := (if sp_EventCount v = 0 then int (length (sp_Events v)) else sp_EventCount v),
       sp_PayloadBytes := (if sp_PayloadBytes v = 0 \<and> sp_Events v \<noteq> [] then jsonLen (sp_Events v)
                           else sp_PayloadBytes v)\<rparr>"

text \<open>The record is returned as the method leaves it behind the caller's pointer.\<close>

definition CreateCDCSpool ::
  "(CDCEvent list \<Rightarrow> int) \<Rightarrow> io \<Rightarrow> CDCSpoolRecord \<Rightarrow> Store \<Rightarrow>
   Store \<times> CDCSpoolRecord \<times> go_error option" where
  "CreateCDCSpool jsonLen fault v s =
     (case find (\<lambda>x. sp_ID x = sp_ID v) (st_cdcSpool s) of
        Some x \<Rightarrow> (s, v\<lparr>sp_Sequence := sp_Sequence x\<rparr>, None)
      | None \<Rightarrow>
          let v' = numbered_spool jsonLen (st_cdcSpool s) v;
              (s', err) = persistLocked fault (s\<lparr>st_cdcSpool := st_cdcSpool s @ [v']\<rparr>)
          in (s', v', err))"

definition pending_in :: "string \<Rightarrow> string \<Rightarrow> CDCSpoolRecord \<Rightarrow> bool" where
  "pending_in taskID direction v \<longleftrightarrow> in_stream taskID direction v \<and> sp_Status v = CDCSpoolPending"

definition ListCDCSpool :: "string \<Rightarrow> string \<Rightarrow> int \<Rightarrow> Store \<Rightarrow> CDCSpoolRecord list" where
  "ListCDCSpool taskID direction limit s =
     take (nat (page_limit 10000 200 limit))
       (sort_key sp_Sequence (filter (pending_in taskID direction) (st_cdcSpool s)))"

definition LatestPendingCDCSpool :: "string \<Rightarrow> string \<Rightarrow> Store \<Rightarrow> go_error + CDCSpoolRecord" where
  "LatestPendingCDCSpool taskID direction s =
     found (fold (\<lambda>v best. if \<not> pending_in taskID direction v then best
                  else case best of None \<Rightarrow> Some v
                       | Some b \<Rightarrow> if sp_Sequence v > sp_Sequence b then Some v else best)
              (st_cdcSpool s) None)"

fun mark_applied :: "string \<Rightarrow> time \<Rightarrow> CDCSpoolRecord list \<Rightarrow> CDCSpoolRecord list option" where
  "mark_applied i tm [] = None"
| "mark_applied i tm (v # vs) =
     (if sp_ID v = i then Some (v\<lparr>sp_Status := CDCSpoolApplied, sp_AppliedAt := tm\<rparr> # vs)
      else map_option ((#) v) (mark_applied i tm vs))"

definition MarkCDCSpoolApplied :: "io \<Rightarrow> string \<Rightarrow> time \<Rightarrow> Store \<Rightarrow> Store \<times> go_error option" where
  "MarkCDCSpoolApplied fault i tm s =
     (case mark_applied i tm (st_cdcSpool s) of
        None \<Rightarrow> (s, Some ErrNotFound)
      | Some vs \<Rightarrow> persistLocked fault (s\<lparr>st_cdcSpool := vs\<rparr>))"

definition applied_in :: "string \<Rightarrow> string \<Rightarrow> CDCSpoolRecord \<Rightarrow> bool" where
  "applied_in taskID direction v \<longleftrightarrow> in_stream taskID direction v \<and> sp_Status v = CDCSpoolApplied"

text \<open>Dropping the first \<open>n\<close> records that match.\<close>

fun drop_matching :: "('a \<Rightarrow> bool) \<Rightarrow> nat \<Rightarrow> 'a list \<Rightarrow> 'a list" where
  "drop_matching P n [] = []"
| "drop_matching P n (x # xs) =
     (if P x \<and> n > 0 then drop_matching P (n - 1) xs else x # drop_matching P n xs)"

definition DeleteAppliedCDCSpool ::
  "io \<Rightarrow> string \<Rightarrow> string \<Rightarrow> int \<Rightarrow> Store \<Rightarrow> Store \<times> go_error option" where
  "DeleteAppliedCDCSpool fault taskID direction keep s =
     (let keep = (if keep < 0 then 0 else keep);
          remove = int (count_if (applied_in taskID direction) (st_cdcSpool s)) - keep
      in if remove \<le> 0 then (s, None)
         else persistLocked fault
                (s\<lparr>st_cdcSpool := drop_matching (applied_in taskID direction) (nat remove) (st_cdcSpool s)\<rparr>))"

text \<open>The statistics of the pending records, one pass over the spool.\<close>

definition stats_step :: "string \<Rightarrow> string \<Rightarrow> CDCSpoolRecord \<Rightarrow> CDCSpoolStats \<Rightarrow> CDCSpoolStats" where
  "stats_step taskID direction v out =
     (if \<not> pending_in taskID direction v then out
      else out\<lparr>ss_PendingTransactions := ss_PendingTransactions out + 1,
        ss_PendingEvents := ss_PendingEvents out + sp_EventCount v,
        ss_PendingBytes := ss_PendingBytes out + sp_PayloadBytes v,
        ss_FirstPosition := (if ss_FirstPosition out = [] then sp_PositionValue v else ss_FirstPosition out),
        ss_LastPosition := sp_PositionValue v\<rparr>)"

definition CDCSpoolStats_of :: "string \<Rightarrow> string \<Rightarrow> Store \<Rightarrow> CDCSpoolStats" where
  "CDCSpoolStats_of taskID direction s =
     fold (stats_step taskID direction) (st_cdcSpool s) zero_CDCSpoolStats"

section \<open>The hard limit keeps the newest checkpoint of every stream\<close>

definition newest_index :: "CDCPosition list \<Rightarrow> (string, nat) gomap \<Rightarrow> nat \<Rightarrow> bool" where
  "newest_index ps m n \<longleftrightarrow> gmap_wf m \<and>
     (\<forall>(k, i) \<in> set m. i < n \<and> stream_key (ps ! i) = k) \<and>
     (\<forall>j < n. \<exists>i. map_of m (stream_key (ps ! j)) = Some i \<and> pos_RecordedAt (ps ! j) \<le> pos_RecordedAt (ps ! i))"

lemma latest_step_newest:
  assumes "newest_index ps m n"
  shows "newest_index ps (latest_step ps n m) (Suc n)"
proof -
  let ?k = "stream_key (ps ! n)"
  have wf: "gmap_wf m" using assms by (simp add: newest_index_def)
  have keys: "i < n \<and> stream_key (ps ! i) = k" if "map_of m k = Some i" for k i
    using assms map_of_SomeD [OF that] by (auto simp: newest_index_def)
  have old: "\<exists>i. map_of m (stream_key (ps ! j)) = Some i \<and> pos_RecordedAt (ps ! j) \<le> pos_RecordedAt (ps ! i)"
    if "j < n" for j using assms that unfolding newest_index_def by blast
  show ?thesis
  proof (cases "\<exists>prev. map_of m ?k = Some prev \<and> \<not> (pos_RecordedAt (ps ! n) > pos_RecordedAt (ps ! prev)
      \<or> (pos_RecordedAt (ps ! n) = pos_RecordedAt (ps ! prev) \<and> n > prev))")
    case True
    then obtain prev where p: "map_of m ?k = Some prev" "pos_RecordedAt (ps ! n) \<le> pos_RecordedAt (ps ! prev)"
      and l: "latest_step ps n m = m"
      by (auto simp: latest_step_def)
    show ?thesis unfolding l newest_index_def
    proof (intro conjI allI impI)
      show "gmap_wf m" by (rule wf)
      show "\<forall>(k, i) \<in> set m. i < Suc n \<and> stream_key (ps ! i) = k"
        using assms by (auto simp: newest_index_def)
      show "\<exists>i. map_of m (stream_key (ps ! j)) = Some i \<and> pos_RecordedAt (ps ! j) \<le> pos_RecordedAt (ps ! i)"
        if "j < Suc n" for j using p old that by (cases "j = n") auto
    qed
  next
    case False
    then have l: "latest_step ps n m = AList.update ?k n m"
      by (auto simp: latest_step_def Let_def split: option.split)
    have le: "pos_RecordedAt (ps ! i) \<le> pos_RecordedAt (ps ! n)" if "map_of m ?k = Some i" for i
      using False that by force
    show ?thesis unfolding l newest_index_def
    proof (intro conjI allI impI)
      show "gmap_wf (AList.update ?k n m)" using wf by simp
      show "\<forall>(k, i) \<in> set (AList.update ?k n m). i < Suc n \<and> stream_key (ps ! i) = k"
        using assms by (fastforce simp: newest_index_def dest: set_updateD)
      show "\<exists>i. map_of (AList.update ?k n m) (stream_key (ps ! j)) = Some i
          \<and> pos_RecordedAt (ps ! j) \<le> pos_RecordedAt (ps ! i)" if "j < Suc n" for j
      proof (cases "stream_key (ps ! j) = ?k")
        case True
        then have "pos_RecordedAt (ps ! j) \<le> pos_RecordedAt (ps ! n)"
          using old [of j] le that by (cases "j = n") (auto intro: order_trans)
        with True show ?thesis by (simp add: update_conv)
      next
        case False
        with that have "j < n" by (cases "j = n") auto
        with old False show ?thesis by (simp add: update_conv)
      qed
    qed
  qed
qed

lemma latest_newest: "newest_index ps (fold (latest_step ps) [0..<n] []) n"
proof (induction n)
  case 0
  then show ?case by (simp add: newest_index_def)
next
  case (Suc n)
  then show ?case by (simp add: latest_step_newest)
qed

lemma fill_newest_keeps: "set keep \<subseteq> set (fill_newest limit n keep)"
  by (induction limit n keep rule: fill_newest.induct) auto

lemma fill_newest_length:
  "length (fill_newest limit n keep) \<le> max limit (length keep)"
proof (induction limit n keep rule: fill_newest.induct)
  case (2 limit i keep)
  have "length (List.insert i keep) \<le> Suc (length keep)" by (simp add: List.insert_def)
  with 2 show ?case by (cases "length keep < limit") simp_all
qed simp

definition stream_count :: "CDCPosition list \<Rightarrow> nat" where
  "stream_count ps = card (stream_key ` set ps)"

lemma latest_length:
  "length (fold (latest_step ps) [0..<length ps] []) \<le> stream_count ps"
proof -
  let ?m = "fold (latest_step ps) [0..<length ps] []"
  have n: "newest_index ps ?m (length ps)" by (rule latest_newest)
  then have "gmap_wf ?m" by (simp add: newest_index_def)
  from distinct_card [OF this] have "length ?m = card (fst ` set ?m)" by simp
  also have "fst ` set ?m \<subseteq> stream_key ` set ps"
  proof
    fix k assume "k \<in> fst ` set ?m"
    then obtain i where "(k, i) \<in> set ?m" by force
    with n have "i < length ps" "stream_key (ps ! i) = k" unfolding newest_index_def by blast+
    then show "k \<in> stream_key ` set ps" by auto
  qed
  then have "card (fst ` set ?m) \<le> stream_count ps"
    unfolding stream_count_def by (intro card_mono) auto
  finally show ?thesis .
qed

lemma compact_length:
  assumes "0 < limit"
  shows "int (length (compactCDCPositionsHardLimit ps limit)) \<le> max limit (int (stream_count ps))"
proof (cases "int (length ps) \<le> limit")
  case True
  then show ?thesis by (simp add: compactCDCPositionsHardLimit_def)
next
  case False
  let ?keep = "fill_newest (nat limit) (length ps) (map snd (fold (latest_step ps) [0..<length ps] []))"
  have "length (filter (\<lambda>i. i \<in> set ?keep) [0..<length ps]) = card (set (filter (\<lambda>i. i \<in> set ?keep) [0..<length ps]))"
    by (intro distinct_card [symmetric]) simp
  also have "\<dots> \<le> card (set ?keep)" by (intro card_mono) auto
  also have "\<dots> \<le> length ?keep" by (rule card_length)
  also have "\<dots> \<le> max (nat limit) (stream_count ps)"
    using fill_newest_length [of "nat limit" "length ps" "map snd (fold (latest_step ps) [0..<length ps] [])"]
      latest_length [of ps] by simp
  finally show ?thesis using False assms by (simp add: compactCDCPositionsHardLimit_def Let_def)
qed

lemma compact_newest:
  assumes "p \<in> set ps"
  shows "\<exists>q \<in> set (compactCDCPositionsHardLimit ps limit).
    stream_key q = stream_key p \<and> pos_RecordedAt p \<le> pos_RecordedAt q"
proof (cases "limit \<le> 0 \<or> int (length ps) \<le> limit")
  case True
  with assms show ?thesis by (auto simp: compactCDCPositionsHardLimit_def)
next
  case False
  let ?m = "fold (latest_step ps) [0..<length ps] []"
  let ?keep = "fill_newest (nat limit) (length ps) (map snd ?m)"
  from assms obtain j where j: "j < length ps" "p = ps ! j" by (auto simp: in_set_conv_nth)
  have n: "newest_index ps ?m (length ps)" by (rule latest_newest)
  with j obtain i where i: "map_of ?m (stream_key p) = Some i" "pos_RecordedAt p \<le> pos_RecordedAt (ps ! i)"
    by (auto simp: newest_index_def)
  from map_of_SomeD [OF i(1)] n have "i < length ps" "stream_key (ps ! i) = stream_key p" "i \<in> snd ` set ?m"
    by (force simp: newest_index_def)+
  moreover have "i \<in> set ?keep"
    using fill_newest_keeps [of "map snd ?m" "nat limit" "length ps"] \<open>i \<in> snd ` set ?m\<close> by auto
  ultimately show ?thesis using False i(2)
    by (auto simp: compactCDCPositionsHardLimit_def Let_def)
qed

lemma compact_subseq: "subseq (compactCDCPositionsHardLimit ps limit) ps"
proof -
  have "subseq (map ((!) ps) (filter P [0..<length ps])) (map ((!) ps) [0..<length ps])" for P
    by (intro subseq_map subseq_filter_left)
  then show ?thesis by (simp add: compactCDCPositionsHardLimit_def Let_def map_nth)
qed

section \<open>The spool as a numbered queue\<close>

definition seq_of :: "string \<Rightarrow> string \<Rightarrow> CDCSpoolRecord list \<Rightarrow> int list" where
  "seq_of taskID direction vs = map sp_Sequence (filter (in_stream taskID direction) vs)"

text \<open>Identities are unique, and every stream is numbered upwards from a positive number.\<close>

definition spool_ok :: "CDCSpoolRecord list \<Rightarrow> bool" where
  "spool_ok vs \<longleftrightarrow> distinct (map sp_ID vs) \<and>
     (\<forall>t d. sorted_wrt (<) (seq_of t d vs) \<and> (\<forall>n \<in> set (seq_of t d vs). 0 < n))"

lemma max_seq_fold:
  "fold (\<lambda>v m. if in_stream t d v \<and> sp_Sequence v > m then sp_Sequence v else m) vs a
     = Max (insert a (set (seq_of t d vs)))"
proof (induction vs arbitrary: a)
  case Nil
  then show ?case by (simp add: seq_of_def)
next
  case (Cons v vs)
  have fin: "finite (set (seq_of t d vs))" by simp
  show ?case
  proof (cases "in_stream t d v")
    case True
    have "Max (insert (max (sp_Sequence v) a) (set (seq_of t d vs)))
        = max (max (sp_Sequence v) a) (Max (insert a (set (seq_of t d vs))))"
      by (cases "set (seq_of t d vs) = {}") (auto simp: max.assoc max.left_commute)
    also have "\<dots> = Max (insert a (insert (sp_Sequence v) (set (seq_of t d vs))))"
      by (cases "set (seq_of t d vs) = {}") (auto simp: max.assoc max.commute max.left_commute)
    finally have "Max (insert (max (sp_Sequence v) a) (set (seq_of t d vs)))
        = Max (insert a (insert (sp_Sequence v) (set (seq_of t d vs))))" .
    moreover have "(if sp_Sequence v > a then sp_Sequence v else a) = max (sp_Sequence v) a" by simp
    ultimately show ?thesis using True Cons.IH [of "max (sp_Sequence v) a"]
      by (simp add: seq_of_def)
  next
    case False
    then show ?thesis using Cons.IH [of a] by (simp add: seq_of_def)
  qed
qed

lemma max_seq_Max: "max_seq t d vs = Max (insert 0 (set (seq_of t d vs)))"
  by (simp add: max_seq_def max_seq_fold)

lemma max_seq_ge: "n \<in> set (seq_of t d vs) \<Longrightarrow> n \<le> max_seq t d vs"
  and max_seq_nonneg: "0 \<le> max_seq t d vs"
  by (simp_all add: max_seq_Max)

lemma seq_of_append: "seq_of t d (vs @ [v]) = seq_of t d vs @ (if in_stream t d v then [sp_Sequence v] else [])"
  by (simp add: seq_of_def)

lemma find_id_None: "find (\<lambda>x. f x = i) xs = None \<longleftrightarrow> i \<notin> set (map f xs)"
  by (induction xs) auto

text \<open>What a created record looks like.\<close>

lemma numbered_spool_simps [simp]:
  "sp_ID (numbered_spool jl vs v) = sp_ID v" "sp_TaskID (numbered_spool jl vs v) = sp_TaskID v"
  "sp_Direction (numbered_spool jl vs v) = sp_Direction v"
  "sp_Status (numbered_spool jl vs v) = sp_Status v" "sp_Events (numbered_spool jl vs v) = sp_Events v"
  "sp_Sequence (numbered_spool jl vs v) = max_seq (sp_TaskID v) (sp_Direction v) vs + 1"
  by (simp_all add: numbered_spool_def)

lemma CreateCDCSpool_new:
  assumes "sp_ID v \<notin> set (map sp_ID (st_cdcSpool s))"
  shows "st_cdcSpool (fst (CreateCDCSpool jl f v s)) = st_cdcSpool s @ [numbered_spool jl (st_cdcSpool s) v]"
    and "fst (snd (CreateCDCSpool jl f v s)) = numbered_spool jl (st_cdcSpool s) v"
proof -
  have "find (\<lambda>x. sp_ID x = sp_ID v) (st_cdcSpool s) = None"
    using assms by (subst find_id_None)
  then show "st_cdcSpool (fst (CreateCDCSpool jl f v s)) = st_cdcSpool s @ [numbered_spool jl (st_cdcSpool s) v]"
    "fst (snd (CreateCDCSpool jl f v s)) = numbered_spool jl (st_cdcSpool s) v"
    by (simp_all add: CreateCDCSpool_def Let_def split_def)
qed

lemma CreateCDCSpool_old:
  assumes "sp_ID v \<in> set (map sp_ID (st_cdcSpool s))"
  obtains x where "x \<in> set (st_cdcSpool s)" "sp_ID x = sp_ID v"
    "CreateCDCSpool jl f v s = (s, v\<lparr>sp_Sequence := sp_Sequence x\<rparr>, None)"
proof -
  from assms obtain x where f: "find (\<lambda>x. sp_ID x = sp_ID v) (st_cdcSpool s) = Some x"
    by (cases "find (\<lambda>x. sp_ID x = sp_ID v) (st_cdcSpool s)") (auto simp: find_None_iff)
  then have "x \<in> set (st_cdcSpool s)" "sp_ID x = sp_ID v" by (auto simp: find_Some_iff)
  with f that show thesis by (simp add: CreateCDCSpool_def)
qed

lemma spool_ok_snoc:
  assumes "spool_ok vs" "sp_ID v \<notin> set (map sp_ID vs)"
    and "sp_Sequence v = max_seq (sp_TaskID v) (sp_Direction v) vs + 1"
  shows "spool_ok (vs @ [v])"
  unfolding spool_ok_def
proof (intro conjI allI)
  show "distinct (map sp_ID (vs @ [v]))" using assms by (auto simp: spool_ok_def)
  fix t d
  have old: "sorted_wrt (<) (seq_of t d vs)" "\<forall>n \<in> set (seq_of t d vs). 0 < n"
    using assms(1) by (simp_all add: spool_ok_def)
  have new: "in_stream t d v \<Longrightarrow> sp_Sequence v = max_seq t d vs + 1"
    using assms(3) by (simp add: in_stream_def)
  show "sorted_wrt (<) (seq_of t d (vs @ [v]))"
    using old new max_seq_ge [of _ t d vs]
    by (fastforce simp: seq_of_append sorted_wrt_append)
  show "\<forall>n \<in> set (seq_of t d (vs @ [v])). 0 < n"
    using old new max_seq_nonneg [of t d vs] by (auto simp: seq_of_append)
qed

lemma spool_ok_create: "spool_ok (st_cdcSpool s) \<Longrightarrow> spool_ok (st_cdcSpool (fst (CreateCDCSpool jl f v s)))"
proof (cases "sp_ID v \<in> set (map sp_ID (st_cdcSpool s))")
  case True
  assume "spool_ok (st_cdcSpool s)"
  with True show ?thesis by (elim CreateCDCSpool_old [where jl = jl and f = f]) simp
next
  case False
  assume ok: "spool_ok (st_cdcSpool s)"
  with False show ?thesis by (simp add: CreateCDCSpool_new spool_ok_snoc)
qed

lemma mark_applied_None: "mark_applied i tm vs = None \<longleftrightarrow> i \<notin> set (map sp_ID vs)"
  by (induction vs) auto

lemma mark_applied_keeps:
  "mark_applied i tm vs = Some ws \<Longrightarrow> map sp_ID ws = map sp_ID vs \<and> seq_of t d ws = seq_of t d vs"
  by (induction vs arbitrary: ws) (auto simp: seq_of_def in_stream_def split: if_splits)

lemma mark_applied_pending:
  "mark_applied i tm vs = Some ws \<Longrightarrow> distinct (map sp_ID vs) \<Longrightarrow>
   filter (pending_in t d) ws = filter (\<lambda>v. pending_in t d v \<and> sp_ID v \<noteq> i) vs"
proof (induction vs arbitrary: ws)
  case Nil
  then show ?case by simp
next
  case (Cons v vs)
  show ?case
  proof (cases "sp_ID v = i")
    case True
    with Cons.prems(2) have "i \<notin> set (map sp_ID vs)" by simp
    then have "\<forall>x \<in> set vs. sp_ID x \<noteq> i" by (metis image_eqI set_map)
    then have "filter (\<lambda>v. pending_in t d v \<and> sp_ID v \<noteq> i) vs = filter (pending_in t d) vs"
      by (intro filter_cong) auto
    moreover have "\<not> pending_in t d (v\<lparr>sp_Status := CDCSpoolApplied, sp_AppliedAt := tm\<rparr>)"
      by (simp add: pending_in_def)
    ultimately show ?thesis using True Cons.prems by auto
  next
    case False
    with Cons show ?thesis by auto
  qed
qed

lemma drop_matching_filter: "(\<And>x. Q x \<Longrightarrow> \<not> P x) \<Longrightarrow> filter Q (drop_matching P n xs) = filter Q xs"
  by (induction P n xs rule: drop_matching.induct) auto

lemma drop_matching_subseq: "subseq (drop_matching P n xs) xs"
  by (induction P n xs rule: drop_matching.induct) (auto intro: subseq_Cons')

lemma drop_matching_last:
  "n < count_if P xs \<Longrightarrow> \<exists>ys x. filter P xs = ys @ [x] \<and> x \<in> set (drop_matching P n xs)"
proof (induction P n xs rule: drop_matching.induct)
  case (1 P n)
  then show ?case by simp
next
  case (2 P n x xs)
  show ?case
  proof (cases "P x \<and> n > 0")
    case True
    with 2(1,3) have "\<exists>ys y. filter P xs = ys @ [y] \<and> y \<in> set (drop_matching P (n - 1) xs)" by auto
    with True show ?thesis by (auto intro: exI [of _ "x # _"])
  next
    case F: False
    show ?thesis
    proof (cases "filter P xs = []")
      case True
      with 2(3) F have "P x" by (auto simp: count_if_def split: if_splits)
      with True F show ?thesis by auto
    next
      case False
      have "n < count_if P xs"
        using F False 2(3) by (auto simp: count_if_def split: if_splits)
      with 2(2) F obtain ys y where "filter P xs = ys @ [y]" "y \<in> set (drop_matching P n xs)" by auto
      with F show ?thesis by (cases "P x") (auto intro: exI [of _ "x # ys"])
    qed
  qed
qed

lemma seq_of_subseq: "subseq vs ws \<Longrightarrow> subseq (seq_of t d vs) (seq_of t d ws)"
  unfolding seq_of_def by (intro subseq_map subseq_filter)

lemma subseq_set: "subseq xs ys \<Longrightarrow> set xs \<subseteq> set ys"
  by (induction rule: list_emb.induct) auto

lemma sorted_wrt_subseq: "subseq xs ys \<Longrightarrow> sorted_wrt R ys \<Longrightarrow> sorted_wrt R xs"
  by (induction rule: list_emb.induct) (auto dest: subseq_set)

lemma distinct_subseq: "subseq xs ys \<Longrightarrow> distinct ys \<Longrightarrow> distinct xs"
  by (induction rule: list_emb.induct) (auto dest: subseq_set)

lemma spool_ok_subseq:
  assumes "subseq vs ws" "spool_ok ws" shows "spool_ok vs"
  unfolding spool_ok_def
proof (intro conjI allI)
  show "distinct (map sp_ID vs)"
    using assms by (auto simp: spool_ok_def intro: distinct_subseq subseq_map)
  show "sorted_wrt (<) (seq_of t d vs)" for t d
    using assms by (auto simp: spool_ok_def intro: sorted_wrt_subseq seq_of_subseq)
  show "\<forall>n \<in> set (seq_of t d vs). 0 < n" for t d
    using assms subseq_set [OF seq_of_subseq [OF assms(1), of t d]] by (auto simp: spool_ok_def)
qed

lemma spool_ok_mark: "spool_ok (st_cdcSpool s) \<Longrightarrow> spool_ok (st_cdcSpool (fst (MarkCDCSpoolApplied f i tm s)))"
proof (cases "mark_applied i tm (st_cdcSpool s)")
  case None
  assume "spool_ok (st_cdcSpool s)" with None show ?thesis by (simp add: MarkCDCSpoolApplied_def)
next
  case (Some vs)
  assume "spool_ok (st_cdcSpool s)"
  with Some mark_applied_keeps [OF Some] show ?thesis
    by (simp add: MarkCDCSpoolApplied_def spool_ok_def)
qed

lemma spool_ok_delete: "spool_ok (st_cdcSpool s) \<Longrightarrow> spool_ok (st_cdcSpool (fst (DeleteAppliedCDCSpool f t d k s)))"
  by (auto simp: DeleteAppliedCDCSpool_def Let_def intro: spool_ok_subseq drop_matching_subseq)

text \<open>Pending records of a stream in insertion order are in the order of their numbers.\<close>

lemma pending_sorted:
  assumes "spool_ok vs"
  shows "sort_key sp_Sequence (filter (pending_in t d) vs) = filter (pending_in t d) vs"
proof -
  have "subseq (map sp_Sequence (filter (pending_in t d) vs)) (seq_of t d vs)"
    unfolding seq_of_def pending_in_def
    by (intro subseq_map) (metis filter_filter subseq_filter_left)
  with assms have "sorted_wrt (<) (map sp_Sequence (filter (pending_in t d) vs))"
    by (auto simp: spool_ok_def intro: sorted_wrt_subseq)
  then have "sorted (map sp_Sequence (filter (pending_in t d) vs))"
    by (rule strict_sorted_imp_sorted)
  then show ?thesis by (rule sort_key_id_if_sorted)
qed

section \<open>The queue contract\<close>

definition pending_ids :: "string \<Rightarrow> string \<Rightarrow> Store \<Rightarrow> string list" where
  "pending_ids t d s = map sp_ID (filter (pending_in t d) (st_cdcSpool s))"

definition fresh_record :: "string \<Rightarrow> string \<Rightarrow> Store \<Rightarrow> CDCSpoolRecord \<Rightarrow> bool" where
  "fresh_record t d s v \<longleftrightarrow> pending_in t d v \<and> sp_ID v \<notin> set (map sp_ID (st_cdcSpool s))"

lemma pending_after_create:
  "fresh_record t d s v \<Longrightarrow>
   filter (pending_in t d) (st_cdcSpool (fst (CreateCDCSpool jl f v s)))
     = filter (pending_in t d) (st_cdcSpool s) @ [numbered_spool jl (st_cdcSpool s) v]"
  by (simp add: fresh_record_def CreateCDCSpool_new pending_in_def in_stream_def)

lemma pending_after_mark:
  assumes "spool_ok (st_cdcSpool s)"
  shows "filter (pending_in t d) (st_cdcSpool (fst (MarkCDCSpoolApplied f i tm s)))
     = filter (\<lambda>v. pending_in t d v \<and> sp_ID v \<noteq> i) (st_cdcSpool s)"
proof (cases "mark_applied i tm (st_cdcSpool s)")
  case None
  then have "\<forall>v \<in> set (st_cdcSpool s). sp_ID v \<noteq> i" by (auto simp: mark_applied_None)
  with None show ?thesis by (auto simp: MarkCDCSpoolApplied_def intro: filter_cong)
next
  case (Some vs)
  with assms mark_applied_pending [OF Some] show ?thesis
    by (simp add: MarkCDCSpoolApplied_def spool_ok_def)
qed

lemma pending_after_delete:
  "filter (pending_in t d) (st_cdcSpool (fst (DeleteAppliedCDCSpool f t' d' k s)))
     = filter (pending_in t d) (st_cdcSpool s)"
  by (auto simp: DeleteAppliedCDCSpool_def Let_def pending_in_def applied_in_def
      intro!: drop_matching_filter)

interpretation spool: fifo_log "pending_ids t d" "\<lambda>v s. fst (CreateCDCSpool jl f v s)"
  "\<lambda>i s. fst (MarkCDCSpoolApplied f i tm s)" "\<lambda>s. fst (DeleteAppliedCDCSpool f t d k s)" sp_ID
  "fresh_record t d" "\<lambda>s. spool_ok (st_cdcSpool s)" for t d jl f tm k
proof unfold_locales
  fix s v i
  show "spool_ok (st_cdcSpool s) \<Longrightarrow> spool_ok (st_cdcSpool (fst (CreateCDCSpool jl f v s)))"
    by (rule spool_ok_create)
  show "spool_ok (st_cdcSpool s) \<Longrightarrow> spool_ok (st_cdcSpool (fst (MarkCDCSpoolApplied f i tm s)))"
    by (rule spool_ok_mark)
  show "spool_ok (st_cdcSpool s) \<Longrightarrow> spool_ok (st_cdcSpool (fst (DeleteAppliedCDCSpool f t d k s)))"
    by (rule spool_ok_delete)
  show "spool_ok (st_cdcSpool s) \<Longrightarrow> distinct (pending_ids t d s)"
    by (auto simp: pending_ids_def spool_ok_def intro: distinct_map_filter)
  show "fresh_record t d s v \<Longrightarrow>
      pending_ids t d (fst (CreateCDCSpool jl f v s)) = pending_ids t d s @ [sp_ID v]"
    by (simp add: pending_ids_def pending_after_create)
  show "spool_ok (st_cdcSpool s) \<Longrightarrow>
      pending_ids t d (fst (MarkCDCSpoolApplied f i tm s)) = filter (\<lambda>j. j \<noteq> i) (pending_ids t d s)"
    by (simp add: pending_ids_def pending_after_mark filter_map comp_def conj_commute)
  show "pending_ids t d (fst (DeleteAppliedCDCSpool f t d k s)) = pending_ids t d s"
    by (simp add: pending_ids_def pending_after_delete)
qed

section \<open>Numbers are not reused\<close>

lemma max_seq_mark: "max_seq t d (st_cdcSpool (fst (MarkCDCSpoolApplied f i tm s))) = max_seq t d (st_cdcSpool s)"
  by (simp add: MarkCDCSpoolApplied_def max_seq_Max mark_applied_keeps split: option.split)

lemma sorted_last_max: "sorted_wrt (<) (xs @ [x :: int]) \<Longrightarrow> y \<in> set (xs @ [x]) \<Longrightarrow> y \<le> x"
  by (auto simp: sorted_wrt_append)

lemma max_seq_delete:
  assumes "spool_ok (st_cdcSpool s)" "1 \<le> k"
  shows "max_seq t d (st_cdcSpool (fst (DeleteAppliedCDCSpool f t' d' k s))) = max_seq t d (st_cdcSpool s)"
proof -
  let ?vs = "st_cdcSpool s" and ?ws = "st_cdcSpool (fst (DeleteAppliedCDCSpool f t' d' k s))"
  let ?P = "applied_in t' d'" and ?n = "nat (int (count_if (applied_in t' d') ?vs) - k)"
  have all: "subseq ?ws ?vs"
    by (auto simp: DeleteAppliedCDCSpool_def Let_def intro: drop_matching_subseq)
  show ?thesis
  proof (cases "?n = 0 \<or> seq_of t d ?vs = []")
    case True
    then show ?thesis
    proof
      assume "?n = 0"
      then have "?ws = ?vs" using assms(2) by (simp add: DeleteAppliedCDCSpool_def Let_def)
      then show ?thesis by simp
    next
      assume e: "seq_of t d ?vs = []"
      with subseq_set [OF seq_of_subseq [OF all, of t d]] have "seq_of t d ?ws = []" by simp
      with e show ?thesis by (simp add: max_seq_Max)
    qed
  next
    case False
    then have w: "?ws = drop_matching ?P ?n ?vs" using assms(2)
      by (simp add: DeleteAppliedCDCSpool_def Let_def)
    have sub: "subseq (seq_of t d ?ws) (seq_of t d ?vs)"
      unfolding w by (intro seq_of_subseq drop_matching_subseq)
    have "?n < count_if ?P ?vs" using False assms(2) by linarith
    from drop_matching_last [OF this] obtain ys x where
      x: "filter ?P ?vs = ys @ [x]" "x \<in> set ?ws" unfolding w by blast
    obtain l where l: "filter (in_stream t d) ?vs \<noteq> []" "l = last (filter (in_stream t d) ?vs)"
      using False by (auto simp: seq_of_def)
    then have lin: "l \<in> set ?vs" "in_stream t d l"
      using last_in_set [OF l(1)] by auto
    have "l \<in> set ?ws"
    proof (cases "?P l")
      case True
      then have eq: "t' = t" "d' = d" using lin(2) by (auto simp: applied_in_def in_stream_def)
      have "filter ?P ?vs = filter (\<lambda>v. sp_Status v = CDCSpoolApplied) (filter (in_stream t d) ?vs)"
        by (auto simp: eq applied_in_def intro!: filter_cong)
      also have "last \<dots> = l"
      proof -
        have "filter (in_stream t d) ?vs = butlast (filter (in_stream t d) ?vs) @ [l]"
          using l by simp
        moreover have "sp_Status l = CDCSpoolApplied" using True by (simp add: applied_in_def)
        ultimately have "filter (\<lambda>v. sp_Status v = CDCSpoolApplied) (filter (in_stream t d) ?vs)
            = filter (\<lambda>v. sp_Status v = CDCSpoolApplied) (butlast (filter (in_stream t d) ?vs)) @ [l]"
          by (metis (mono_tags) filter.simps filter_append)
        then show ?thesis by simp
      qed
      finally have "x = l" using x(1) by simp
      with x(2) show ?thesis by simp
    next
      case False
      then have "l \<in> set (filter (\<lambda>v. \<not> ?P v) ?ws)"
        unfolding w using lin(1) drop_matching_filter [of "\<lambda>v. \<not> ?P v" ?P ?n ?vs] by simp
      then show ?thesis by simp
    qed
    then have "sp_Sequence l \<in> set (seq_of t d ?ws)" using lin(2) by (simp add: seq_of_def)
    moreover have "y \<le> sp_Sequence l" if "y \<in> set (seq_of t d ?vs)" for y
    proof -
      have "seq_of t d ?vs = map sp_Sequence (butlast (filter (in_stream t d) ?vs)) @ [sp_Sequence l]"
        unfolding seq_of_def using l by (metis append_butlast_last_id list.simps(8,9) map_append)
      with that assms(1) sorted_last_max show ?thesis by (metis spool_ok_def)
    qed
    ultimately have up: "x \<le> max_seq t d ?ws" if "x \<in> insert 0 (set (seq_of t d ?vs))" for x
      using that max_seq_nonneg [of t d ?ws] max_seq_ge [of "sp_Sequence l" t d ?ws]
      by (fastforce intro: order_trans)
    have "max_seq t d ?vs \<le> max_seq t d ?ws"
      unfolding max_seq_Max [of t d ?vs] by (rule Max.boundedI) (use up in auto)
    moreover have "max_seq t d ?ws \<le> max_seq t d ?vs"
      using subseq_set [OF sub] unfolding max_seq_Max by (intro Max_mono) auto
    ultimately show ?thesis by simp
  qed
qed

text \<open>
  With \<open>keep = 0\<close>, which \<open>DTS_CDC_SPOOL_KEEP_APPLIED\<close> allows, a stream whose records are all
  applied is emptied and its next record gets number 1 again.
\<close>

lemma reuse_after_full_purge:
  assumes "\<forall>v \<in> set (st_cdcSpool s). applied_in t d v" and "sp_TaskID v = t" and "sp_Direction v = d"
  shows "sp_Sequence (fst (snd (CreateCDCSpool jl f v (fst (DeleteAppliedCDCSpool f' t d 0 s))))) = 1"
proof -
  have all: "count_if P xs = length xs" if "\<forall>x \<in> set xs. P x" for P and xs :: "CDCSpoolRecord list"
    using that by (simp add: count_if_def)
  have none: "drop_matching P (length xs) xs = []" if "\<forall>x \<in> set xs. P x" for P and xs :: "CDCSpoolRecord list"
    using that by (induction xs) auto
  have "st_cdcSpool (fst (DeleteAppliedCDCSpool f' t d 0 s)) = []"
    using all [OF assms(1)] none [OF assms(1)] by (auto simp: DeleteAppliedCDCSpool_def Let_def)
  then show ?thesis
    by (simp add: CreateCDCSpool_new max_seq_def)
qed

section \<open>Properties\<close>

text \<open>
  C12. Recording a checkpoint never loses the position of a stream: also when the hard limit
  discards old checkpoints, every task and direction keeps one recorded at least as late as
  any it had; the result keeps the order, and its length stays within the limit or the number
  of streams.
\<close>

theorem checkpoint_never_lost:
  assumes "p \<in> set (st_cdcPositions s @ [v])"
  shows "(\<exists>q \<in> set (st_cdcPositions (fst (CreateCDCPosition f v s))).
            stream_key q = stream_key p \<and> pos_RecordedAt p \<le> pos_RecordedAt q)
    \<and> subseq (st_cdcPositions (fst (CreateCDCPosition f v s))) (st_cdcPositions s @ [v])
    \<and> length (st_cdcPositions (fst (CreateCDCPosition f v s)))
        \<le> max 60000 (stream_count (st_cdcPositions s @ [v]))"
proof -
  let ?ps = "st_cdcPositions s @ [v]"
  have r: "st_cdcPositions (fst (CreateCDCPosition f v s))
      = (if length ?ps > 60000 then compactCDCPositionsHardLimit ?ps 50000 else ?ps)"
    by (simp add: CreateCDCPosition_def Let_def)
  have "int (length (compactCDCPositionsHardLimit ?ps 50000)) \<le> max 50000 (int (stream_count ?ps))"
    by (rule compact_length) simp
  then have "length (compactCDCPositionsHardLimit ?ps 50000) \<le> max 60000 (stream_count ?ps)"
    by (simp add: max_def split: if_splits)
  then show ?thesis
    unfolding r using compact_newest [OF assms, of 50000] compact_subseq [of ?ps 50000] assms by auto
qed

theorem checkpoint_never_lost_witness:
  "\<exists>q \<in> set (st_cdcPositions (fst (CreateCDCPosition IOok zero_CDCPosition
      (New \<lparr>dk_main = Missing, dk_tmp = Missing\<rparr>)))). stream_key q = stream_key zero_CDCPosition"
proof -
  have "zero_CDCPosition \<in> set (st_cdcPositions (New \<lparr>dk_main = Missing, dk_tmp = Missing\<rparr>) @ [zero_CDCPosition])"
    by simp
  from checkpoint_never_lost [OF this, of IOok] show ?thesis by blast
qed

text \<open>
  C13. The spool is a first-in first-out queue: on a well-numbered spool, which every operation
  keeps, \<open>ListCDCSpool\<close> returns the oldest pending records of the stream in insertion order, a
  new record is appended, marking removes exactly the record marked, purging touches no
  pending record, and marking the pending records in order drains the queue from the front.
\<close>

theorem spool_is_fifo:
  assumes "spool_ok (st_cdcSpool s)"
  shows "spool_ok (st_cdcSpool (fst (CreateCDCSpool jl f v s)))
    \<and> spool_ok (st_cdcSpool (fst (MarkCDCSpoolApplied f i tm s)))
    \<and> spool_ok (st_cdcSpool (fst (DeleteAppliedCDCSpool f t d k s)))
    \<and> map sp_ID (ListCDCSpool t d limit s) = take (nat (page_limit 10000 200 limit)) (pending_ids t d s)
    \<and> (fresh_record t d s v \<longrightarrow> pending_ids t d (fst (CreateCDCSpool jl f v s)) = pending_ids t d s @ [sp_ID v])
    \<and> pending_ids t d (fst (MarkCDCSpoolApplied f i tm s)) = filter (\<lambda>j. j \<noteq> i) (pending_ids t d s)
    \<and> pending_ids t d (fst (DeleteAppliedCDCSpool f t d k s)) = pending_ids t d s
    \<and> pending_ids t d (fold (\<lambda>i s. fst (MarkCDCSpoolApplied f i tm s)) (take n (pending_ids t d s)) s)
        = drop n (pending_ids t d s)"
  using assms spool.ok_ack [where s = s] spool.ok_purge [where s = s]
    spool.drain_prefix [where s = s and t = t and d = d and f = f and tm = tm and n = n]
    spool.pending_ack [where s = s] spool.pending_purge [where s = s] spool.pending_add [where s = s]
    spool_ok_create [where s = s]
  by (auto simp: ListCDCSpool_def pending_sorted pending_ids_def take_map)

theorem spool_is_fifo_witness:
  "pending_ids ''t'' ''F'' (fst (MarkCDCSpoolApplied IOok ''a'' 5
      ((New \<lparr>dk_main = Missing, dk_tmp = Missing\<rparr>)\<lparr>st_cdcSpool :=
        [zero_CDCSpoolRecord\<lparr>sp_ID := ''a'', sp_TaskID := ''t'', sp_Direction := ''F'', sp_Sequence := 1,
           sp_Status := CDCSpoolPending\<rparr>]\<rparr>))) = []"
proof -
  let ?s = "(New \<lparr>dk_main = Missing, dk_tmp = Missing\<rparr>)\<lparr>st_cdcSpool :=
        [zero_CDCSpoolRecord\<lparr>sp_ID := ''a'', sp_TaskID := ''t'', sp_Direction := ''F'', sp_Sequence := 1,
           sp_Status := CDCSpoolPending\<rparr>]\<rparr>"
  have "spool_ok (st_cdcSpool ?s)" by (simp add: spool_ok_def seq_of_def)
  from spool_is_fifo [OF this, where f = IOok and i = "''a''" and tm = 5 and t = "''t''" and d = "''F''"]
  have "pending_ids ''t'' ''F'' (fst (MarkCDCSpoolApplied IOok ''a'' 5 ?s))
      = filter (\<lambda>j. j \<noteq> ''a'') (pending_ids ''t'' ''F'' ?s)" by blast
  then show ?thesis by (simp add: pending_ids_def)
qed

text \<open>
  Spool numbers are not reused: a new record gets a number above every number its stream
  has in the spool, marking and purging with at least one applied record kept leave that
  highest number in place, and creating a record again changes nothing and returns the number
  it has.
\<close>

theorem spool_numbers_fresh:
  assumes "spool_ok (st_cdcSpool s)"
  shows "(sp_ID v \<notin> set (map sp_ID (st_cdcSpool s)) \<longrightarrow>
            (\<forall>n \<in> set (seq_of (sp_TaskID v) (sp_Direction v) (st_cdcSpool s)).
               n < sp_Sequence (fst (snd (CreateCDCSpool jl f v s)))))
    \<and> (sp_ID v \<in> set (map sp_ID (st_cdcSpool s)) \<longrightarrow>
          fst (CreateCDCSpool jl f v s) = s
          \<and> (\<exists>x \<in> set (st_cdcSpool s). sp_ID x = sp_ID v
               \<and> sp_Sequence (fst (snd (CreateCDCSpool jl f v s))) = sp_Sequence x))
    \<and> max_seq t d (st_cdcSpool (fst (MarkCDCSpoolApplied f i tm s))) = max_seq t d (st_cdcSpool s)
    \<and> (1 \<le> k \<longrightarrow> max_seq t d (st_cdcSpool (fst (DeleteAppliedCDCSpool f t' d' k s)))
          = max_seq t d (st_cdcSpool s))"
proof (intro conjI impI)
  show "\<forall>n \<in> set (seq_of (sp_TaskID v) (sp_Direction v) (st_cdcSpool s)).
      n < sp_Sequence (fst (snd (CreateCDCSpool jl f v s)))"
    if "sp_ID v \<notin> set (map sp_ID (st_cdcSpool s))"
    using max_seq_ge by (fastforce simp: CreateCDCSpool_new [OF that])
  assume "sp_ID v \<in> set (map sp_ID (st_cdcSpool s))"
  then obtain x where x: "x \<in> set (st_cdcSpool s)" "sp_ID x = sp_ID v"
    "CreateCDCSpool jl f v s = (s, v\<lparr>sp_Sequence := sp_Sequence x\<rparr>, None)"
    by (rule CreateCDCSpool_old)
  then show "fst (CreateCDCSpool jl f v s) = s"
    "\<exists>x \<in> set (st_cdcSpool s). sp_ID x = sp_ID v
       \<and> sp_Sequence (fst (snd (CreateCDCSpool jl f v s))) = sp_Sequence x"
    by auto
next
  show "max_seq t d (st_cdcSpool (fst (MarkCDCSpoolApplied f i tm s))) = max_seq t d (st_cdcSpool s)"
    by (rule max_seq_mark)
  show "1 \<le> k \<Longrightarrow> max_seq t d (st_cdcSpool (fst (DeleteAppliedCDCSpool f t' d' k s)))
      = max_seq t d (st_cdcSpool s)" by (rule max_seq_delete [OF assms])
qed

theorem spool_numbers_fresh_witness:
  "fst (CreateCDCSpool (\<lambda>_. 0) IOok (zero_CDCSpoolRecord\<lparr>sp_ID := ''a''\<rparr>)
      ((New \<lparr>dk_main = Missing, dk_tmp = Missing\<rparr>)\<lparr>st_cdcSpool :=
        [zero_CDCSpoolRecord\<lparr>sp_ID := ''a'', sp_Sequence := 7\<rparr>]\<rparr>))
   = (New \<lparr>dk_main = Missing, dk_tmp = Missing\<rparr>)\<lparr>st_cdcSpool :=
        [zero_CDCSpoolRecord\<lparr>sp_ID := ''a'', sp_Sequence := 7\<rparr>]\<rparr>"
proof -
  let ?s = "(New \<lparr>dk_main = Missing, dk_tmp = Missing\<rparr>)\<lparr>st_cdcSpool :=
        [zero_CDCSpoolRecord\<lparr>sp_ID := ''a'', sp_Sequence := 7\<rparr>]\<rparr>"
  have "spool_ok (st_cdcSpool ?s)" by (simp add: spool_ok_def seq_of_def)
  from spool_numbers_fresh [OF this, where v = "zero_CDCSpoolRecord\<lparr>sp_ID := ''a''\<rparr>"
      and jl = "\<lambda>_. 0" and f = IOok] show ?thesis by simp
qed

end
