(* ===== verification/StoreValidation.thy ===== *)
theory StoreValidation
  imports StoreCatalog
begin

text \<open>
  Validation evidence in the repository (\<open>memory.go\<close>): results per chunk, the latest result of
  a chunk, the pages of evidence rows and of chunks, the status counts, the first invalid and
  the repairable chunks, and the immutable archives of results and reports.
\<close>

section \<open>Results\<close>

definition CreateValidationResult :: "io \<Rightarrow> ValidationResult \<Rightarrow> Store \<Rightarrow> Store \<times> go_error option" where
  "CreateValidationResult fault v s =
     persistLocked fault (s\<lparr>st_validations := AList.update (vr_ID v) v (st_validations s)\<rparr>)"

definition ListValidationResults :: "string \<Rightarrow> Store \<Rightarrow> ValidationResult list" where
  "ListValidationResults taskID s =
     sort_key vr_StartedAt
       (filter (\<lambda>v. taskID = [] \<or> vr_TaskID v = taskID) (map snd (st_validations s)))"

definition DeleteValidationResults :: "io \<Rightarrow> string \<Rightarrow> Store \<Rightarrow> Store \<times> go_error option" where
  "DeleteValidationResults fault taskID s =
     persistLocked fault
       (s\<lparr>st_validations := filter (\<lambda>(i, v). \<not> (taskID = [] \<or> vr_TaskID v = taskID)) (st_validations s)\<rparr>)"

definition HasValidationResults :: "string \<Rightarrow> Store \<Rightarrow> bool" where
  "HasValidationResults taskID s = list_ex (\<lambda>(i, v). vr_TaskID v = taskID) (st_validations s)"

section \<open>The latest result per chunk\<close>

text \<open>Two of the loops break ties of the finishing time by the identity, two do not.\<close>

definition newer_or_id :: "ValidationResult \<Rightarrow> ValidationResult \<Rightarrow> bool" where
  "newer_or_id v old \<longleftrightarrow> vr_FinishedAt v > vr_FinishedAt old
     \<or> (vr_FinishedAt v = vr_FinishedAt old \<and> vr_ID v > vr_ID old)"

definition newer :: "ValidationResult \<Rightarrow> ValidationResult \<Rightarrow> bool" where
  "newer v old \<longleftrightarrow> vr_FinishedAt v > vr_FinishedAt old"

definition latest_result_step ::
  "(ValidationResult \<Rightarrow> ValidationResult \<Rightarrow> bool) \<Rightarrow> ValidationResult \<Rightarrow>
   (string, ValidationResult) gomap \<Rightarrow> (string, ValidationResult) gomap" where
  "latest_result_step nw v m =
     (case map_of m (vr_ChunkID v) of
        None \<Rightarrow> AList.update (vr_ChunkID v) v m
      | Some old \<Rightarrow> if nw v old then AList.update (vr_ChunkID v) v m else m)"

definition latest_results ::
  "(ValidationResult \<Rightarrow> ValidationResult \<Rightarrow> bool) \<Rightarrow> ValidationResult list \<Rightarrow>
   (string, ValidationResult) gomap" where
  "latest_results nw vs = fold (latest_result_step nw) vs []"

section \<open>Pages\<close>

record ValidationEvidenceRow =
  er_ChunkID :: string
  er_ChunkNo :: int
  er_SplitType :: string
  er_ValidationID :: string
  er_Status :: ValidationStatus
  er_SourceRows :: int
  er_TargetRows :: int
  er_SourceChecksum :: string
  er_TargetChecksum :: string
  er_LastError :: string
  er_StartedAt :: time
  er_FinishedAt :: time

definition evidence_row :: "MigrationChunk \<Rightarrow> ValidationResult option \<Rightarrow> ValidationEvidenceRow" where
  "evidence_row ch r = (case r of
      None \<Rightarrow> \<lparr>er_ChunkID = ch_ID ch, er_ChunkNo = ch_ChunkNo ch, er_SplitType = ch_SplitType ch,
        er_ValidationID = [], er_Status = ValidationStatusOther [], er_SourceRows = 0,
        er_TargetRows = 0, er_SourceChecksum = [], er_TargetChecksum = [], er_LastError = [],
        er_StartedAt = 0, er_FinishedAt = 0\<rparr>
    | Some v \<Rightarrow> \<lparr>er_ChunkID = ch_ID ch, er_ChunkNo = ch_ChunkNo ch, er_SplitType = ch_SplitType ch,
        er_ValidationID = vr_ID v, er_Status = vr_Status v, er_SourceRows = vr_SourceRows v,
        er_TargetRows = vr_TargetRows v, er_SourceChecksum = vr_SourceChecksum v,
        er_TargetChecksum = vr_TargetChecksum v, er_LastError = vr_LastError v,
        er_StartedAt = vr_StartedAt v, er_FinishedAt = vr_FinishedAt v\<rparr>)"

definition chunk_after :: "int \<Rightarrow> string \<Rightarrow> MigrationChunk \<Rightarrow> bool" where
  "chunk_after afterNo afterID ch \<longleftrightarrow>
     \<not> (ch_ChunkNo ch < afterNo \<or> (ch_ChunkNo ch = afterNo \<and> ch_ID ch \<le> afterID))"

abbreviation page_key :: "MigrationChunk \<Rightarrow> int \<times> string" where
  "page_key ch \<equiv> (ch_ChunkNo ch, ch_ID ch)"

definition evidence_chunks :: "string \<Rightarrow> string \<Rightarrow> Store \<Rightarrow> MigrationChunk list" where
  "evidence_chunks taskID tableID s =
     filter (\<lambda>ch. ch_TaskID ch = taskID \<and> ch_TableID ch = tableID \<and> ch_Status ch = ChunkSuccess)
       (map snd (st_chunks s))"

definition ListValidationEvidencePage ::
  "string \<Rightarrow> string \<Rightarrow> int \<Rightarrow> string \<Rightarrow> int \<Rightarrow> Store \<Rightarrow> ValidationEvidenceRow list" where
  "ListValidationEvidencePage taskID tableID afterNo afterID limit s =
     (let limit = page_limit 5000 512 limit;
          chunks = take (nat limit)
            (sort_key page_key (filter (chunk_after afterNo afterID) (evidence_chunks taskID tableID s)));
          wanted = map ch_ID chunks;
          latest = latest_results newer_or_id
            (filter (\<lambda>v. vr_TaskID v = taskID \<and> vr_ChunkID v \<in> set wanted) (map snd (st_validations s)))
      in map (\<lambda>ch. evidence_row ch (map_of latest (ch_ID ch))) chunks)"

definition ListTableChunksPage ::
  "string \<Rightarrow> string \<Rightarrow> int \<Rightarrow> string \<Rightarrow> int \<Rightarrow> Store \<Rightarrow> MigrationChunk list" where
  "ListTableChunksPage taskID tableID afterNo afterID limit s =
     (let limit = (if limit \<le> 0 then 512 else limit) in
      take (nat limit)
        (sort_key page_key (filter (chunk_after afterNo afterID)
           (filter (\<lambda>ch. ch_TaskID ch = taskID \<and> ch_TableID ch = tableID) (map snd (st_chunks s))))))"

section \<open>Counts and invalid chunks\<close>

definition task_results :: "string \<Rightarrow> Store \<Rightarrow> ValidationResult list" where
  "task_results taskID s = filter (\<lambda>v. vr_TaskID v = taskID) (map snd (st_validations s))"

definition success_chunks :: "string \<Rightarrow> Store \<Rightarrow> MigrationChunk list" where
  "success_chunks taskID s =
     filter (\<lambda>ch. ch_TaskID ch = taskID \<and> ch_Status ch = ChunkSuccess) (map snd (st_chunks s))"

record status_counts =
  vc_success :: int
  vc_mismatch :: int
  vc_error :: int
  vc_missing :: int

definition count_step ::
  "(string, ValidationResult) gomap \<Rightarrow> MigrationChunk \<Rightarrow> status_counts \<Rightarrow> status_counts" where
  "count_step latest ch n =
     (case map_of latest (ch_ID ch) of
        None \<Rightarrow> n\<lparr>vc_missing := vc_missing n + 1\<rparr>
      | Some v \<Rightarrow> (case vr_Status v of
            ValidationSuccess \<Rightarrow> n\<lparr>vc_success := vc_success n + 1\<rparr>
          | ValidationMismatch \<Rightarrow> n\<lparr>vc_mismatch := vc_mismatch n + 1\<rparr>
          | ValidationError \<Rightarrow> n\<lparr>vc_error := vc_error n + 1\<rparr>
          | _ \<Rightarrow> n))"

definition LatestValidationStatusCounts :: "string \<Rightarrow> Store \<Rightarrow> status_counts" where
  "LatestValidationStatusCounts taskID s =
     fold (count_step (latest_results newer_or_id (task_results taskID s))) (success_chunks taskID s)
       \<lparr>vc_success = 0, vc_mismatch = 0, vc_error = 0, vc_missing = 0\<rparr>"

fun first_invalid ::
  "(string, ValidationResult) gomap \<Rightarrow> MigrationChunk list \<Rightarrow> string \<times> ValidationStatus" where
  "first_invalid latest [] = ([], ValidationStatusOther [])"
| "first_invalid latest (ch # chs) =
     (case map_of latest (ch_ID ch) of
        None \<Rightarrow> (ch_ID ch, ValidationStatusOther [])
      | Some v \<Rightarrow> if vr_Status v \<noteq> ValidationSuccess then (ch_ID ch, vr_Status v)
                  else first_invalid latest chs)"

definition FirstInvalidSuccessfulChunk :: "string \<Rightarrow> Store \<Rightarrow> string \<times> ValidationStatus" where
  "FirstInvalidSuccessfulChunk taskID s =
     first_invalid (latest_results newer (task_results taskID s))
       (sort_key (\<lambda>ch. (ch_TableID ch, ch_ChunkNo ch, ch_ID ch)) (success_chunks taskID s))"

definition ListRepairableValidationChunkIDs :: "string \<Rightarrow> int \<Rightarrow> Store \<Rightarrow> string list" where
  "ListRepairableValidationChunkIDs taskID limit s =
     (let out = sort (map fst (filter
             (\<lambda>(i, v). vr_Status v = ValidationMismatch \<or> vr_Status v = ValidationError)
             (latest_results newer (task_results taskID s))))
      in if limit > 0 \<and> int (length out) > limit then take (nat limit) out else out)"

section \<open>Archives\<close>

definition GetValidationArchive :: "string \<Rightarrow> Store \<Rightarrow> ValidationArchive option" where
  "GetValidationArchive taskID s = map_of (st_validationArchives s) taskID"

definition CreateValidationArchive ::
  "io \<Rightarrow> ValidationArchive option \<Rightarrow> Store \<Rightarrow> Store \<times> bool \<times> go_error option" where
  "CreateValidationArchive fault a s =
     (case a of
        None \<Rightarrow> (s, False, Some (ErrText ''nil validation archive''))
      | Some a \<Rightarrow>
          if map_of (st_validationArchives s) (va_TaskID a) \<noteq> None then (s, False, None)
          else let (s', err) = persistLocked fault
                     (s\<lparr>st_validationArchives := AList.update (va_TaskID a) a (st_validationArchives s)\<rparr>)
               in (s', True, err))"

definition ValidationReportArchiveEqual ::
  "ValidationReportArchiveRecord \<Rightarrow> ValidationReportArchiveRecord \<Rightarrow> bool" where
  "ValidationReportArchiveEqual a b \<longleftrightarrow>
     vra_TaskID a = vra_TaskID b \<and>
     equal_fold (vra_EvidenceDigest a) (vra_EvidenceDigest b) \<and>
     vra_URI a = vra_URI b \<and> vra_Bucket a = vra_Bucket b \<and> vra_Prefix a = vra_Prefix b \<and>
     equal_fold (vra_ManifestSHA256 a) (vra_ManifestSHA256 b) \<and>
     vra_PublicSignatureAlgorithm a = vra_PublicSignatureAlgorithm b \<and>
     vra_PublicSignatureKeyID a = vra_PublicSignatureKeyID b \<and>
     vra_PublicKeyEd25519 a = vra_PublicKeyEd25519 b \<and>
     equal_fold (vra_PublicKeyFingerprintSHA256 a) (vra_PublicKeyFingerprintSHA256 b) \<and>
     vra_ObjectLockMode a = vra_ObjectLockMode b \<and> vra_RetainUntil a = vra_RetainUntil b \<and>
     vra_LegalHold a = vra_LegalHold b"

definition validationReportArchiveKey :: "string \<Rightarrow> string \<Rightarrow> string" where
  "validationReportArchiveKey taskID evidenceDigest =
     taskID @ ''|'' @ to_lower (trim_space evidenceDigest)"

definition GetValidationReportArchive ::
  "string \<Rightarrow> string \<Rightarrow> Store \<Rightarrow> ValidationReportArchiveRecord option" where
  "GetValidationReportArchive taskID evidenceDigest s =
     map_of (st_validationReportArchives s) (validationReportArchiveKey taskID evidenceDigest)"

definition CreateValidationReportArchive ::
  "io \<Rightarrow> ValidationReportArchiveRecord option \<Rightarrow> Store \<Rightarrow> Store \<times> bool \<times> go_error option" where
  "CreateValidationReportArchive fault a s =
     (case a of
        None \<Rightarrow> (s, False, Some (ErrText ''nil validation report archive record''))
      | Some a \<Rightarrow>
          if trim_space (vra_TaskID a) = [] \<or> trim_space (vra_EvidenceDigest a) = []
             \<or> trim_space (vra_ManifestSHA256 a) = [] \<or> trim_space (vra_URI a) = []
          then (s, False, Some (ErrText
                 ''validation report archive requires task, evidence digest, URI and manifest SHA-256''))
          else let key = validationReportArchiveKey (vra_TaskID a) (vra_EvidenceDigest a) in
            case map_of (st_validationReportArchives s) key of
              Some existing \<Rightarrow>
                if \<not> ValidationReportArchiveEqual existing a
                then (s, False, Some ErrValidationReportArchiveConflict)
                else (s, False, None)
            | None \<Rightarrow>
                let (s', err) = persistLocked fault
                      (s\<lparr>st_validationReportArchives := AList.update key a (st_validationReportArchives s)\<rparr>)
                in (s', True, err))"

section \<open>The latest result is well defined\<close>

lemma latest_results_spec:
  assumes total: "\<And>v w. vr_ID v \<noteq> vr_ID w \<Longrightarrow> v \<in> set vs \<Longrightarrow> w \<in> set vs \<Longrightarrow> \<not> nw v w \<Longrightarrow> le v w"
    and imp: "\<And>v w. nw v w \<Longrightarrow> le w v"
    and refl: "\<And>v. le v v" and trans: "\<And>u v w. le u v \<Longrightarrow> le v w \<Longrightarrow> le u w"
    and ids: "inj_on vr_ID (set vs)"
  shows "gmap_wf (latest_results nw vs) \<and>
    (\<forall>c. case map_of (latest_results nw vs) c of
       None \<Rightarrow> \<forall>v \<in> set vs. vr_ChunkID v \<noteq> c
     | Some x \<Rightarrow> x \<in> set vs \<and> vr_ChunkID x = c \<and> (\<forall>v \<in> set vs. vr_ChunkID v = c \<longrightarrow> le v x))"
  using total ids
proof (induction vs rule: rev_induct)
  case Nil
  then show ?case by (simp add: latest_results_def)
next
  case (snoc y vs)
  let ?m = "latest_results nw vs"
  have IH: "gmap_wf ?m" "\<And>c. case map_of ?m c of
       None \<Rightarrow> \<forall>v \<in> set vs. vr_ChunkID v \<noteq> c
     | Some x \<Rightarrow> x \<in> set vs \<and> vr_ChunkID x = c \<and> (\<forall>v \<in> set vs. vr_ChunkID v = c \<longrightarrow> le v x)"
    using snoc by (auto intro: inj_on_subset)
  have st: "latest_results nw (vs @ [y]) = latest_result_step nw y ?m"
    by (simp add: latest_results_def)
  show ?case
  proof (intro conjI allI)
    show "gmap_wf (latest_results nw (vs @ [y]))"
      using IH(1) by (simp add: st latest_result_step_def split: option.split)
    fix c
    show "case map_of (latest_results nw (vs @ [y])) c of
       None \<Rightarrow> \<forall>v \<in> set (vs @ [y]). vr_ChunkID v \<noteq> c
     | Some x \<Rightarrow> x \<in> set (vs @ [y]) \<and> vr_ChunkID x = c \<and> (\<forall>v \<in> set (vs @ [y]). vr_ChunkID v = c \<longrightarrow> le v x)"
    proof (cases "vr_ChunkID y = c")
      case False
      then show ?thesis
        using IH(2) [of c] by (auto simp: st latest_result_step_def update_conv split: option.splits)
    next
      case True
      show ?thesis
      proof (cases "map_of ?m c")
        case None
        with True IH(2) [of c] refl show ?thesis
          by (auto simp: st latest_result_step_def update_conv)
      next
        case (Some x)
        with IH(2) [of c] have x: "x \<in> set vs" "vr_ChunkID x = c" "\<forall>v \<in> set vs. vr_ChunkID v = c \<longrightarrow> le v x"
          by simp_all
        show ?thesis
        proof (cases "nw y x")
          case True
          have "le v y" if "v \<in> set vs" "vr_ChunkID v = c" for v
            using trans [OF _ imp [OF True]] x(3) that by blast
          moreover have "map_of (latest_results nw (vs @ [y])) c = Some y"
            using Some True \<open>vr_ChunkID y = c\<close> by (simp add: st latest_result_step_def update_conv)
          ultimately show ?thesis using refl \<open>vr_ChunkID y = c\<close> by simp
        next
          case False
          have "le y x"
          proof (cases "vr_ID y = vr_ID x")
            case True
            with snoc.prems(2) x(1) have "y = x" by (auto dest: inj_onD)
            then show ?thesis by (simp add: refl)
          next
            case F: False
            from snoc.prems(1) [OF F _ _ False] x(1) show ?thesis by simp
          qed
          with Some x False \<open>vr_ChunkID y = c\<close> show ?thesis
            by (auto simp: st latest_result_step_def)
        qed
      qed
    qed
  qed
qed

abbreviation result_rank :: "ValidationResult \<Rightarrow> time \<times> string" where
  "result_rank v \<equiv> (vr_FinishedAt v, vr_ID v)"

lemma latest_by_id:
  assumes "inj_on vr_ID (set vs)"
  shows "case map_of (latest_results newer_or_id vs) c of
       None \<Rightarrow> \<forall>v \<in> set vs. vr_ChunkID v \<noteq> c
     | Some x \<Rightarrow> x \<in> set vs \<and> vr_ChunkID x = c \<and>
         (\<forall>v \<in> set vs. vr_ChunkID v = c \<longrightarrow> result_rank v \<le> result_rank x)"
proof -
  let ?le = "\<lambda>v w. result_rank v \<le> result_rank w"
  have a: "?le v w" if "\<not> newer_or_id v w" for v w
    using that by (auto simp: newer_or_id_def)
  have b: "?le w v" if "newer_or_id v w" for v w
    using that by (auto simp: newer_or_id_def)
  have "gmap_wf (latest_results newer_or_id vs) \<and>
    (\<forall>c. case map_of (latest_results newer_or_id vs) c of
       None \<Rightarrow> \<forall>v \<in> set vs. vr_ChunkID v \<noteq> c
     | Some x \<Rightarrow> x \<in> set vs \<and> vr_ChunkID x = c \<and> (\<forall>v \<in> set vs. vr_ChunkID v = c \<longrightarrow> ?le v x))"
    using assms a b by (intro latest_results_spec) (blast intro: order_trans)+
  then show ?thesis by (simp del: less_eq_prod_simp)
qed

lemma validations_inj: "store_wf s \<Longrightarrow> inj_on vr_ID (snd ` set (st_validations s))"
proof (rule inj_onI)
  assume s: "store_wf s"
  then have k: "keyed vr_ID (st_validations s)" by (simp add: store_wf_def)
  fix v w assume v: "v \<in> snd ` set (st_validations s)" "w \<in> snd ` set (st_validations s)" "vr_ID v = vr_ID w"
  then obtain i j where "(i, v) \<in> set (st_validations s)" "(j, w) \<in> set (st_validations s)" by auto
  moreover from this have "i = vr_ID v" "j = vr_ID w" using keyedD [OF k] by blast+
  ultimately show "v = w" using v(3) k by (metis eq_key_imp_eq_value keyed_wf)
qed

text \<open>The latest result of a chunk of a task: newest finish, then greatest identity.\<close>

definition latest_of :: "string \<Rightarrow> string \<Rightarrow> Store \<Rightarrow> ValidationResult option" where
  "latest_of taskID chunkID s = map_of (latest_results newer_or_id (task_results taskID s)) chunkID"

lemma latest_of_spec:
  assumes "store_wf s"
  shows "case latest_of t c s of
       None \<Rightarrow> \<forall>v \<in> snd ` set (st_validations s). vr_TaskID v = t \<longrightarrow> vr_ChunkID v \<noteq> c
     | Some x \<Rightarrow> x \<in> snd ` set (st_validations s) \<and> vr_TaskID x = t \<and> vr_ChunkID x = c \<and>
         (\<forall>v \<in> snd ` set (st_validations s). vr_TaskID v = t \<and> vr_ChunkID v = c \<longrightarrow> result_rank v \<le> result_rank x)"
proof -
  have "inj_on vr_ID (set (task_results t s))"
    using validations_inj [OF assms] by (auto simp: task_results_def intro: inj_on_subset)
  from latest_by_id [OF this, of c] show ?thesis
    by (cases "latest_of t c s") (simp_all add: latest_of_def task_results_def del: less_eq_prod_simp)
qed

text \<open>Restricting the loop to the chunks of a page gives the same latest results.\<close>

lemma latest_restrict:
  assumes "c \<in> W"
  shows "map_of (latest_results nw (filter (\<lambda>v. vr_ChunkID v \<in> W) vs)) c = map_of (latest_results nw vs) c"
proof -
  have "map_of (fold (latest_result_step nw) (filter (\<lambda>v. vr_ChunkID v \<in> W) vs) m) c
      = map_of (fold (latest_result_step nw) vs m') c" if "\<forall>c \<in> W. map_of m c = map_of m' c" for m m'
    using that
  proof (induction vs arbitrary: m m')
    case Nil
    then show ?case using assms by simp
  next
    case (Cons v vs)
    show ?case
    proof (cases "vr_ChunkID v \<in> W")
      case True
      with Cons.prems have "\<forall>c \<in> W. map_of (latest_result_step nw v m) c = map_of (latest_result_step nw v m') c"
        by (auto simp: latest_result_step_def update_conv split: option.split)
      from Cons.IH [OF this] True show ?thesis by simp
    next
      case False
      with Cons.prems have "\<forall>c \<in> W. map_of m c = map_of (latest_result_step nw v m') c"
        by (auto simp: latest_result_step_def update_conv split: option.split)
      from Cons.IH [OF this] False show ?thesis by simp
    qed
  qed
  then show ?thesis by (simp add: latest_results_def)
qed

lemma evidence_page_rows:
  "ListValidationEvidencePage t tb no i limit s =
     map (\<lambda>ch. evidence_row ch (latest_of t (ch_ID ch) s))
       (take (nat (page_limit 5000 512 limit))
         (sort_key page_key (filter (chunk_after no i) (evidence_chunks t tb s))))"
proof -
  let ?chunks = "take (nat (page_limit 5000 512 limit))
         (sort_key page_key (filter (chunk_after no i) (evidence_chunks t tb s)))"
  have "filter (\<lambda>v. vr_TaskID v = t \<and> vr_ChunkID v \<in> W) xs
      = filter (\<lambda>v. vr_ChunkID v \<in> W) (filter (\<lambda>v. vr_TaskID v = t) xs)" for W xs
    by (simp add: conj_commute)
  then have "map_of (latest_results newer_or_id (filter (\<lambda>v. vr_TaskID v = t \<and> vr_ChunkID v \<in> set (map ch_ID ?chunks))
      (map snd (st_validations s)))) (ch_ID ch) = latest_of t (ch_ID ch) s" if "ch \<in> set ?chunks" for ch
    using that latest_restrict [of "ch_ID ch" "set (map ch_ID ?chunks)" newer_or_id "task_results t s"]
    by (simp add: latest_of_def task_results_def)
  then show ?thesis
    unfolding ListValidationEvidencePage_def Let_def by (intro map_cong refl) simp
qed

section \<open>Preservation\<close>

lemma validation_wf:
  assumes "store_wf s"
  shows "store_wf (fst (CreateValidationResult f v s))" "store_wf (fst (DeleteValidationResults f t s))"
    "store_wf (fst (CreateValidationArchive f a s))" "store_wf (fst (CreateValidationReportArchive f r s))"
  using assms
  by (auto simp: CreateValidationResult_def DeleteValidationResults_def CreateValidationArchive_def
      CreateValidationReportArchive_def validationReportArchiveKey_def reportArchiveKey_def
      store_wf_def Let_def split_def intro: wf_intro split: option.split)

interpretation validation_results: keyed_repo
  "\<lambda>s k. map_of (st_validations s) k" "\<lambda>v s. fst (CreateValidationResult fault v s)" vr_ID for fault
  by unfold_locales (simp add: CreateValidationResult_def update_conv)

section \<open>Paging\<close>

text \<open>The page that starts after an element of a strictly sorted list is the rest of the list.\<close>

lemma rest_after:
  assumes "sorted (map f xs)" and "inj_on f (set xs)" and "distinct xs" and "i < length xs"
  shows "filter (\<lambda>y. \<not> f y \<le> (f (xs ! i) :: 'b :: linorder)) xs = drop (Suc i) xs"
proof -
  have le: "f (xs ! j) \<le> f (xs ! i)" if "j \<le> i" for j
    using sorted_nth_mono [OF assms(1), of j i] that assms(4) by simp
  have gt: "\<not> f (xs ! j) \<le> f (xs ! i)" if "i < j" "j < length xs" for j
  proof
    assume "f (xs ! j) \<le> f (xs ! i)"
    moreover have "f (xs ! i) \<le> f (xs ! j)" using sorted_nth_mono [OF assms(1), of i j] that by simp
    ultimately have "f (xs ! i) = f (xs ! j)" by simp
    with assms(2,4) that have "xs ! i = xs ! j" by (auto dest: inj_onD)
    with assms(3) that show False by (simp add: nth_eq_iff_index_eq)
  qed
  have "filter (\<lambda>y. \<not> f y \<le> f (xs ! i)) (take (Suc i) xs) = []"
    using le assms(4) by (auto simp: filter_empty_conv in_set_conv_nth)
  moreover have "filter (\<lambda>y. \<not> f y \<le> f (xs ! i)) (drop (Suc i) xs) = drop (Suc i) xs"
    using gt by (auto simp: filter_id_conv in_set_conv_nth)
  ultimately show ?thesis
    using filter_append [of "\<lambda>y. \<not> f y \<le> f (xs ! i)" "take (Suc i) xs" "drop (Suc i) xs"] by simp
qed

lemma chunk_after_iff: "chunk_after no i ch \<longleftrightarrow> \<not> page_key ch \<le> (no, i)"
  by (auto simp: chunk_after_def)

text \<open>All successful chunks of a table in the order of the pages.\<close>

definition evidence_order :: "string \<Rightarrow> string \<Rightarrow> Store \<Rightarrow> MigrationChunk list" where
  "evidence_order taskID tableID s = sort_key page_key (evidence_chunks taskID tableID s)"

lemma chunks_keyed_inj:
  assumes "store_wf s"
  shows "inj_on ch_ID (snd ` set (st_chunks s))" "distinct (map snd (st_chunks s))"
proof -
  from assms have k: "keyed ch_ID (st_chunks s)" by (simp add: store_wf_def)
  show 1: "inj_on ch_ID (snd ` set (st_chunks s))"
  proof (rule inj_onI)
    fix v w assume v: "v \<in> snd ` set (st_chunks s)" "w \<in> snd ` set (st_chunks s)" "ch_ID v = ch_ID w"
    then obtain i j where "(i, v) \<in> set (st_chunks s)" "(j, w) \<in> set (st_chunks s)" by auto
    moreover from this have "i = ch_ID v" "j = ch_ID w" using keyedD [OF k] by blast+
    ultimately show "v = w" using v(3) k by (metis eq_key_imp_eq_value keyed_wf)
  qed
  have "map ch_ID (map snd (st_chunks s)) = map fst (st_chunks s)"
    using k by (auto simp: keyed_def list_all_iff)
  moreover have "distinct (map fst (st_chunks s))" using k by auto
  ultimately show "distinct (map snd (st_chunks s))" by (metis distinct_map)
qed

lemma evidence_order_facts:
  assumes "store_wf s"
  shows "sorted (map page_key (evidence_order t tb s))" "inj_on page_key (set (evidence_order t tb s))"
    "distinct (evidence_order t tb s)"
proof -
  have "set (evidence_order t tb s) \<subseteq> snd ` set (st_chunks s)"
    by (auto simp: evidence_order_def evidence_chunks_def)
  then show "inj_on page_key (set (evidence_order t tb s))"
    using inj_on_subset [OF chunks_keyed_inj(1) [OF assms]] by (auto simp: inj_on_def)
  show "sorted (map page_key (evidence_order t tb s))" by (simp add: evidence_order_def)
  show "distinct (evidence_order t tb s)"
    using chunks_keyed_inj(2) [OF assms] by (simp add: evidence_order_def evidence_chunks_def)
qed

abbreviation evidence_of :: "string \<Rightarrow> Store \<Rightarrow> MigrationChunk \<Rightarrow> ValidationEvidenceRow" where
  "evidence_of t s ch \<equiv> evidence_row ch (latest_of t (ch_ID ch) s)"

lemma page_in_order:
  "ListValidationEvidencePage t tb no i limit s =
     map (evidence_of t s)
       (take (nat (page_limit 5000 512 limit))
         (filter (\<lambda>ch. \<not> page_key ch \<le> (no, i)) (evidence_order t tb s)))"
  unfolding evidence_page_rows evidence_order_def
  by (simp add: filter_sort chunk_after_iff [abs_def] del: less_eq_prod_simp)

lemma page_first:
  assumes "\<And>ch. ch \<in> set (evidence_order t tb s) \<Longrightarrow> \<not> page_key ch \<le> (no, i)" and "0 < n" "n \<le> 5000"
  shows "ListValidationEvidencePage t tb no i n s = map (evidence_of t s) (take (nat n) (evidence_order t tb s))"
proof -
  have "filter (\<lambda>ch. \<not> page_key ch \<le> (no, i)) (evidence_order t tb s) = evidence_order t tb s"
    using assms(1) by (simp add: filter_id_conv del: less_eq_prod_simp)
  then show ?thesis using assms(2,3) by (simp add: page_in_order page_limit_def del: less_eq_prod_simp)
qed

lemma page_next:
  assumes "store_wf s" and "k < length (evidence_order t tb s)" and "0 < n" "n \<le> 5000"
    and "ch = evidence_order t tb s ! k"
  shows "ListValidationEvidencePage t tb (ch_ChunkNo ch) (ch_ID ch) n s =
    map (evidence_of t s) (take (nat n) (drop (Suc k) (evidence_order t tb s)))"
  using rest_after [OF evidence_order_facts [OF assms(1)] assms(2)] assms(3-)
  by (simp add: page_in_order page_limit_def del: less_eq_prod_simp)

section \<open>Properties\<close>

text \<open>
  The evidence page of a table holds, in the order of chunk number and identity, the
  successful chunks after the given one, up to the limit; the row of a chunk carries its
  validation attempt with the latest finish, ties broken by the greatest identity, whatever
  the order in which the map of results is iterated, and no attempt exactly when the chunk
  has none.
\<close>

theorem evidence_page_latest:
  assumes "store_wf s" and "r \<in> set (ListValidationEvidencePage t tb no i limit s)"
  shows "(\<exists>ch. (ch_ID ch, ch) \<in> set (st_chunks s) \<and> ch_TaskID ch = t \<and> ch_TableID ch = tb
            \<and> ch_Status ch = ChunkSuccess \<and> (no, i) < page_key ch
            \<and> er_ChunkID r = ch_ID ch \<and> er_ChunkNo r = ch_ChunkNo ch)
      \<and> (if \<exists>v \<in> snd ` set (st_validations s). vr_TaskID v = t \<and> vr_ChunkID v = er_ChunkID r
         then \<exists>v \<in> snd ` set (st_validations s). vr_TaskID v = t \<and> vr_ChunkID v = er_ChunkID r
            \<and> er_ValidationID r = vr_ID v \<and> er_Status r = vr_Status v
            \<and> (\<forall>w \<in> snd ` set (st_validations s). vr_TaskID w = t \<and> vr_ChunkID w = er_ChunkID r
                 \<longrightarrow> result_rank w \<le> result_rank v)
         else er_ValidationID r = [] \<and> er_Status r = ValidationStatusOther [])
      \<and> sorted (map (\<lambda>r. (er_ChunkNo r, er_ChunkID r)) (ListValidationEvidencePage t tb no i limit s))
      \<and> int (length (ListValidationEvidencePage t tb no i limit s)) \<le> page_limit 5000 512 limit"
proof -
  let ?chs = "take (nat (page_limit 5000 512 limit))
     (filter (\<lambda>ch. \<not> page_key ch \<le> (no, i)) (evidence_order t tb s))"
  have key: "(er_ChunkNo (evidence_of t s ch), er_ChunkID (evidence_of t s ch)) = page_key ch" for ch
    by (simp add: evidence_row_def split: option.split)
  from assms(2) obtain ch where ch: "ch \<in> set ?chs" "r = evidence_of t s ch"
    unfolding page_in_order by (auto simp del: less_eq_prod_simp)
  then have mem: "ch \<in> set (evidence_chunks t tb s)" "\<not> page_key ch \<le> (no, i)"
    by (auto dest!: in_set_takeD simp: evidence_order_def simp del: less_eq_prod_simp)
  have k: "keyed ch_ID (st_chunks s)" using assms(1) by (simp add: store_wf_def)
  have c1: "(ch_ID ch, ch) \<in> set (st_chunks s)"
    using mem(1) keyedD [OF k] by (auto simp: evidence_chunks_def)
  have c2: "ch_TaskID ch = t" "ch_TableID ch = tb" "ch_Status ch = ChunkSuccess"
    using mem(1) by (auto simp: evidence_chunks_def)
  have c3: "(no, i) < page_key ch" using mem(2) by (rule not_le_imp_less)
  have c4: "er_ChunkID r = ch_ID ch" "er_ChunkNo r = ch_ChunkNo ch" using key [of ch] ch(2) by simp_all
  have "sorted (map page_key ?chs)"
    unfolding take_map [symmetric]
    by (intro sorted_wrt_take sorted_filter evidence_order_facts(1) assms(1))
  moreover have "map (\<lambda>r. (er_ChunkNo r, er_ChunkID r)) (map (evidence_of t s) ?chs) = map page_key ?chs"
    unfolding map_map comp_def key ..
  ultimately have c5: "sorted (map (\<lambda>r. (er_ChunkNo r, er_ChunkID r)) (ListValidationEvidencePage t tb no i limit s))"
    unfolding page_in_order by (metis (no_types, lifting))
  have c6: "int (length (ListValidationEvidencePage t tb no i limit s)) \<le> page_limit 5000 512 limit"
    unfolding page_in_order length_map length_take by (simp add: page_limit_def min_le_iff_disj del: less_eq_prod_simp) linarith
  show ?thesis
  proof (cases "latest_of t (ch_ID ch) s")
    case None
    with latest_of_spec [OF assms(1), of t "ch_ID ch"] c1 c2 c3 c4 c5 c6 ch(2) show ?thesis
      by (auto simp: evidence_row_def simp del: less_eq_prod_simp less_prod_simp)
  next
    case (Some v)
    with latest_of_spec [OF assms(1), of t "ch_ID ch"] c4
    have "v \<in> snd ` set (st_validations s)" "vr_TaskID v = t" "vr_ChunkID v = er_ChunkID r"
      "\<forall>w \<in> snd ` set (st_validations s). vr_TaskID w = t \<and> vr_ChunkID w = er_ChunkID r \<longrightarrow> result_rank w \<le> result_rank v"
      by (simp_all del: less_eq_prod_simp)
    moreover have "er_ValidationID r = vr_ID v" "er_Status r = vr_Status v"
      using Some ch(2) by (simp_all add: evidence_row_def)
    ultimately show ?thesis using c1 c2 c3 c4 c5 c6 by (simp del: less_eq_prod_simp less_prod_simp) blast
  qed
qed

definition demo_evidence :: Store where
  "demo_evidence = (New \<lparr>dk_main = Missing, dk_tmp = Missing\<rparr>)\<lparr>
     st_chunks := [(''c2'', zero_MigrationChunk\<lparr>ch_ID := ''c2'', ch_TaskID := ''t'', ch_TableID := ''b'',
                      ch_ChunkNo := 2, ch_SplitType := ''PK_RANGE'', ch_Status := ChunkSuccess\<rparr>),
                   (''c1'', zero_MigrationChunk\<lparr>ch_ID := ''c1'', ch_TaskID := ''t'', ch_TableID := ''b'',
                      ch_ChunkNo := 1, ch_SplitType := ''PK_RANGE'', ch_Status := ChunkSuccess\<rparr>)],
     st_validations := [(''v2'', zero_ValidationResult\<lparr>vr_ID := ''v2'', vr_TaskID := ''t'', vr_TableID := ''b'',
                           vr_ChunkID := ''c1'', vr_Status := ValidationSuccess, vr_FinishedAt := 9\<rparr>),
                        (''v1'', zero_ValidationResult\<lparr>vr_ID := ''v1'', vr_TaskID := ''t'', vr_TableID := ''b'',
                           vr_ChunkID := ''c1'', vr_Status := ValidationMismatch, vr_FinishedAt := 9\<rparr>)],
     st_migrations := [(''t'', zero_MigrationTask\<lparr>mig_ID := ''t'', mig_Status := StatusFinished,
                          mig_UpdatedAt := 1\<rparr>)],
     st_tables := [(''b'', zero_MigrationTable\<lparr>tbl_ID := ''b'', tbl_TaskID := ''t''\<rparr>)]\<rparr>"

lemma demo_evidence_wf: "store_wf demo_evidence"
  by (simp add: demo_evidence_def New_def newStore_def store_wf_def keyed_def
      zero_MigrationChunk_def zero_ValidationResult_def zero_MigrationTask_def zero_MigrationTable_def)

lemma demo_page:
  "ListValidationEvidencePage ''t'' ''b'' (-1) [] 512 demo_evidence =
    [evidence_row (zero_MigrationChunk\<lparr>ch_ID := ''c1'', ch_TaskID := ''t'', ch_TableID := ''b'',
        ch_ChunkNo := 1, ch_SplitType := ''PK_RANGE'', ch_Status := ChunkSuccess\<rparr>)
      (Some (zero_ValidationResult\<lparr>vr_ID := ''v2'', vr_TaskID := ''t'', vr_TableID := ''b'',
        vr_ChunkID := ''c1'', vr_Status := ValidationSuccess, vr_FinishedAt := 9\<rparr>)),
     evidence_row (zero_MigrationChunk\<lparr>ch_ID := ''c2'', ch_TaskID := ''t'', ch_TableID := ''b'',
        ch_ChunkNo := 2, ch_SplitType := ''PK_RANGE'', ch_Status := ChunkSuccess\<rparr>) None]"
  by (simp add: ListValidationEvidencePage_def demo_evidence_def New_def newStore_def page_limit_def
      evidence_chunks_def chunk_after_def latest_results_def latest_result_step_def newer_or_id_def Let_def)

theorem evidence_page_latest_witness:
  "\<exists>r \<in> set (ListValidationEvidencePage ''t'' ''b'' (-1) [] 512 demo_evidence).
     er_ValidationID r = ''v2'' \<and> (\<exists>ch. (ch_ID ch, ch) \<in> set (st_chunks demo_evidence) \<and> er_ChunkID r = ch_ID ch)"
proof -
  let ?p = "ListValidationEvidencePage ''t'' ''b'' (-1) [] 512 demo_evidence"
  have "hd ?p \<in> set ?p" "er_ValidationID (hd ?p) = ''v2''"
    unfolding demo_page by (simp_all add: evidence_row_def)
  with evidence_page_latest [OF demo_evidence_wf, of "hd ?p" "''t''" "''b''" "-1" "[]" 512] show ?thesis
    by blast
qed

datatype archive_op =
    ArchiveResults io "ValidationArchive option"
  | ArchiveReport io "ValidationReportArchiveRecord option"

fun archive_step :: "archive_op \<Rightarrow> Store \<Rightarrow> Store" where
  "archive_step (ArchiveResults f a) s = fst (CreateValidationArchive f a s)"
| "archive_step (ArchiveReport f r) s = fst (CreateValidationReportArchive f r s)"

lemma archive_step_keeps:
  "GetValidationArchive t s = Some a \<Longrightarrow> GetValidationArchive t (archive_step op s) = Some a"
  "GetValidationReportArchive t d s = Some r \<Longrightarrow> GetValidationReportArchive t d (archive_step op s) = Some r"
  by (cases op; force simp: GetValidationArchive_def GetValidationReportArchive_def CreateValidationArchive_def
      CreateValidationReportArchive_def Let_def split_def update_conv split: option.split)+

lemma archive_steps_keep:
  "GetValidationArchive t s = Some a \<Longrightarrow> GetValidationArchive t (fold archive_step ops s) = Some a"
  "GetValidationReportArchive t d s = Some r \<Longrightarrow> GetValidationReportArchive t d (fold archive_step ops s) = Some r"
  by (induction ops arbitrary: s) (simp_all add: archive_step_keeps)

text \<open>
  C14. Archives are immutable: once a task has a result archive and a report archive for a
  digest, no sequence of creations by anyone, successful or not, changes either; a second
  report for the same task and digest is refused as a conflict exactly when it differs from
  the stored one, and never reported as created.
\<close>

theorem archives_immutable:
  assumes "GetValidationArchive t s = Some a" and "GetValidationReportArchive t d s = Some r"
    and "vra_TaskID b = t" and "to_lower (trim_space (vra_EvidenceDigest b)) = to_lower (trim_space d)"
    and "trim_space t \<noteq> []" "trim_space (vra_EvidenceDigest b) \<noteq> []"
      "trim_space (vra_ManifestSHA256 b) \<noteq> []" "trim_space (vra_URI b) \<noteq> []"
  shows "GetValidationArchive t (fold archive_step ops s) = Some a
    \<and> GetValidationReportArchive t d (fold archive_step ops s) = Some r
    \<and> CreateValidationReportArchive f (Some b) (fold archive_step ops s)
      = (fold archive_step ops s, False,
         if ValidationReportArchiveEqual r b then None else Some ErrValidationReportArchiveConflict)"
proof -
  have r: "GetValidationReportArchive t d (fold archive_step ops s) = Some r"
    by (rule archive_steps_keep(2) [OF assms(2)])
  then have "CreateValidationReportArchive f (Some b) (fold archive_step ops s)
      = (fold archive_step ops s, False,
         if ValidationReportArchiveEqual r b then None else Some ErrValidationReportArchiveConflict)"
    using assms(3-) by (simp add: CreateValidationReportArchive_def GetValidationReportArchive_def
        validationReportArchiveKey_def Let_def)
  with r archive_steps_keep(1) [OF assms(1)] show ?thesis by simp
qed

definition demo_report :: ValidationReportArchiveRecord where
  "demo_report = \<lparr>vra_TaskID = ''t'', vra_EvidenceDigest = ''12'', vra_URI = ''u1'', vra_Bucket = [], 
     vra_Prefix = [], vra_ManifestSHA256 = ''m'', vra_PublicSignatureAlgorithm = [], 
     vra_PublicSignatureKeyID = [], vra_PublicKeyEd25519 = [], 
     vra_PublicKeyFingerprintSHA256 = [], vra_ObjectLockMode = [], vra_RetainUntil = [], 
     vra_LegalHold = False, vra_CommittedAt = 0\<rparr>"

theorem archives_immutable_witness:
  "\<exists>s r. GetValidationReportArchive ''t'' '' 12'' s = Some r \<and>
     CreateValidationReportArchive IOok (Some (r\<lparr>vra_URI := ''u2''\<rparr>)) s = (s, False, Some ErrValidationReportArchiveConflict)"
proof -
  let ?s = "demo_evidence\<lparr>st_validationArchives := [(''t'', zero_ValidationArchive\<lparr>va_TaskID := ''t''\<rparr>)],
     st_validationReportArchives := [(''t|12'', demo_report)]\<rparr>"
  have a: "GetValidationArchive ''t'' ?s = Some (zero_ValidationArchive\<lparr>va_TaskID := ''t''\<rparr>)"
    by (simp add: GetValidationArchive_def)
  have r: "GetValidationReportArchive ''t'' '' 12'' ?s = Some demo_report"
    by (simp add: GetValidationReportArchive_def validationReportArchiveKey_def go_str_defs)
  have "\<not> ValidationReportArchiveEqual demo_report (demo_report\<lparr>vra_URI := ''u2''\<rparr>)"
    by (simp add: ValidationReportArchiveEqual_def demo_report_def)
  moreover have "CreateValidationReportArchive IOok (Some (demo_report\<lparr>vra_URI := ''u2''\<rparr>)) (fold archive_step [] ?s)
      = (fold archive_step [] ?s, False,
         if ValidationReportArchiveEqual demo_report (demo_report\<lparr>vra_URI := ''u2''\<rparr>) then None else Some ErrValidationReportArchiveConflict)"
    using archives_immutable [OF a r, of "demo_report\<lparr>vra_URI := ''u2''\<rparr>" "[]" IOok] by (simp add: demo_report_def go_str_defs)
  ultimately show ?thesis using r by auto
qed

end
