(* ===== verification/GoSha256.thy ===== *)
theory GoSha256
  imports GoCodec "HOL-Library.Word"
begin

text \<open>
  The packages \<open>crypto/sha256\<close> and \<open>time\<close> of the standard library, as far as the repository
  uses them: \<open>sha256.New\<close>, \<open>Write\<close> and \<open>Sum\<close> (a hash is the byte string written so far, its sum
  the digest of that string), and \<open>Time.UTC().Format(time.RFC3339Nano)\<close> on times counted in
  nanoseconds from the zero time, 1 January of year 1.
\<close>

section \<open>SHA-256\<close>

type_synonym w32 = "32 word"

text \<open>The constants are the first 32 bits of the fractional parts of the cube roots of the first
  64 primes, and of the square roots of the first eight; the largest of those primes is 311.\<close>

definition sha_primes :: "nat list" where
  "sha_primes = filter (\<lambda>p. list_all (\<lambda>d. p mod d \<noteq> 0) [2..<p]) [2..<312]"

definition floor_root :: "nat \<Rightarrow> nat \<Rightarrow> nat" where
  "floor_root k n = fold (\<lambda>b r. if (r + 2 ^ b) ^ k \<le> n then r + 2 ^ b else r) (rev [0..<36]) 0"

definition root_bits :: "nat \<Rightarrow> nat \<Rightarrow> w32" where
  "root_bits k p = of_nat (floor_root k (p * 2 ^ (32 * k)) mod 2 ^ 32)"

definition sha_k :: "w32 list" where
  "sha_k = map (root_bits 3) sha_primes"

definition sha_init :: "w32 list" where
  "sha_init = map (root_bits 2) [2, 3, 5, 7, 11, 13, 17, 19]"

definition sha_pad :: "string \<Rightarrow> string" where
  "sha_pad m = m @ [char_of (128 :: nat)] @ replicate ((119 - length m mod 64) mod 64) (char_of (0 :: nat))
     @ be_bytes 8 (8 * length m)"

fun sha_words :: "string \<Rightarrow> w32 list" where
  "sha_words (a # b # c # d # rest) = of_nat (be_nat [a, b, c, d]) # sha_words rest"
| "sha_words _ = []"

text \<open>The message schedule is built with the newest word first.\<close>

fun sha_extend :: "nat \<Rightarrow> w32 list \<Rightarrow> w32 list" where
  "sha_extend 0 ws = ws"
| "sha_extend (Suc n) ws =
     (let x = ws ! 14; y = ws ! 1;
          s0 = xor (xor (word_rotr 7 x) (word_rotr 18 x)) (drop_bit 3 x);
          s1 = xor (xor (word_rotr 17 y) (word_rotr 19 y)) (drop_bit 10 y)
      in sha_extend n ((ws ! 15 + s0 + ws ! 6 + s1) # ws))"

fun sha_round :: "w32 \<times> w32 \<Rightarrow> w32 list \<Rightarrow> w32 list" where
  "sha_round (k, w) [a, b, c, d, e, f, g, h] =
     (let s1 = xor (xor (word_rotr 6 e) (word_rotr 11 e)) (word_rotr 25 e);
          ch = xor (and e f) (and (not e) g);
          t1 = h + s1 + ch + k + w;
          s0 = xor (xor (word_rotr 2 a) (word_rotr 13 a)) (word_rotr 22 a);
          maj = xor (xor (and a b) (and a c)) (and b c)
      in [t1 + (s0 + maj), a, b, c, d + t1, e, f, g])"
| "sha_round kw st = st"

definition sha_block :: "w32 list \<Rightarrow> w32 list \<Rightarrow> w32 list" where
  "sha_block ws st = map2 (+) st (fold sha_round (zip sha_k (rev (sha_extend 48 (rev ws)))) st)"

fun sha_blocks :: "nat \<Rightarrow> w32 list \<Rightarrow> w32 list \<Rightarrow> w32 list" where
  "sha_blocks 0 ws st = st"
| "sha_blocks (Suc n) ws st = sha_blocks n (drop 16 ws) (sha_block (take 16 ws) st)"

definition sha256 :: "string \<Rightarrow> string" where
  "sha256 m = (let ws = sha_words (sha_pad m) in
     concat (map (\<lambda>w. be_bytes 4 (unat w)) (sha_blocks (length ws div 16) ws sha_init)))"

lemma length_sha_round [simp]: "length (sha_round kw st) = length st"
  by (induction kw st rule: sha_round.induct) (simp_all add: Let_def)

lemma length_fold_sha_round [simp]: "length (fold sha_round xs st) = length st"
  by (induction xs arbitrary: st) simp_all

lemma length_sha_blocks [simp]: "length (sha_blocks n ws st) = length st"
  by (induction n arbitrary: ws st) (simp_all add: sha_block_def)

lemma length_sha256 [simp]: "length (sha256 m) = 32"
proof -
  have "length (concat (map (\<lambda>w. be_bytes 4 (unat w)) (xs :: w32 list))) = 4 * length xs" for xs
    by (induction xs) simp_all
  then show ?thesis by (simp add: sha256_def Let_def sha_init_def)
qed

section \<open>RFC 3339 in nanoseconds\<close>

text \<open>Year, month and day of a day counted from 1 January of year 1, in the proleptic
  Gregorian calendar; years begin in March, in cycles of 146097 days.\<close>

definition civil :: "int \<Rightarrow> int \<times> int \<times> int" where
  "civil days =
     (let z = days + 306;
          era = z div 146097;
          doe = z mod 146097;
          yoe = (doe - doe div 1460 + doe div 36524 - doe div 146096) div 365;
          doy = doe - (365 * yoe + yoe div 4 - yoe div 100);
          mp = (5 * doy + 2) div 153;
          d = doy - (153 * mp + 2) div 5 + 1;
          m = (if mp < 10 then mp + 3 else mp - 9);
          y = yoe + era * 400
      in (if m \<le> 2 then y + 1 else y, m, d))"

definition pad_int :: "nat \<Rightarrow> int \<Rightarrow> string" where
  "pad_int w n = (let s = nat_str (nat \<bar>n\<bar>) in
     (if n < 0 then ''-'' else []) @ replicate (w - length s) (CHR ''0'') @ s)"

definition frac_nano :: "int \<Rightarrow> string" where
  "frac_nano ns = (if ns = 0 then []
     else CHR ''.'' # rev (dropWhile (\<lambda>c. c = CHR ''0'') (rev (pad_int 9 ns))))"

definition rfc3339_nano :: "time \<Rightarrow> string" where
  "rfc3339_nano t =
     (let day = t div 86400000000000; r = t mod 86400000000000;
          (y, m, d) = civil day
      in pad_int 4 y @ ''-'' @ pad_int 2 m @ ''-'' @ pad_int 2 d @ ''T''
         @ pad_int 2 (r div 3600000000000) @ '':''
         @ pad_int 2 (r div 60000000000 mod 60) @ '':''
         @ pad_int 2 (r div 1000000000 mod 60)
         @ frac_nano (r mod 1000000000) @ ''Z'')"

end
