(* ===== verification/ValidationArchive.thy ===== *)
theory ValidationArchive
  imports StoreValidation GoSha256
begin

text \<open>
  The permanent proof of a finished task, \<open>backend/internal/repository/validation_archive.go\<close>,
  run on the memory store, which provides the optional interface \<open>ValidationArchiveProvider\<close>.
  A hash is the byte string written to it. The clock reading and the outcome of the file
  operations are arguments. Every call of the repository takes its mutex anew: what other
  clients do between the last read and the creation of the archive is the argument \<open>env\<close>.
\<close>

section \<open>Digests\<close>

definition terminalValidationArchiveStatus :: "MigrationStatus \<Rightarrow> bool" where
  "terminalValidationArchiveStatus st = (case st of
      StatusFinished \<Rightarrow> True | StatusFailed \<Rightarrow> True | StatusCancelled \<Rightarrow> True
    | StatusRolledBack \<Rightarrow> True | _ \<Rightarrow> False)"

definition isComplexArchiveSplit :: "string \<Rightarrow> bool" where
  "isComplexArchiveSplit split = (let s = to_upper (trim_space split) in
     s \<noteq> ''PRIMARY_KEY_RANGE'' \<and> s \<noteq> ''PK_RANGE'' \<and> s \<noteq> ''PK_RANGE_ADAPTIVE'')"

definition digestField :: "string \<Rightarrow> string" where
  "digestField v = int_str (int (length v)) @ '':'' @ v @ ''|''"

definition digestInt :: "int \<Rightarrow> string" where
  "digestInt n = digestField (int_str n)"

definition time_field :: "time \<Rightarrow> string" where
  "time_field t = (if t = 0 then [] else rfc3339_nano t)"

definition digestTime :: "time \<Rightarrow> string" where
  "digestTime t = digestField (time_field t)"

definition digestHex :: "string \<Rightarrow> string" where
  "digestHex h = hex_encode (sha256 h)"

section \<open>One table\<close>

definition evidencePage :: "Store \<Rightarrow> string \<Rightarrow> string \<Rightarrow> int \<Rightarrow> string \<Rightarrow> int \<Rightarrow> ValidationEvidenceRow list" where
  "evidencePage s taskID tableID afterNo afterID limit =
     ListValidationEvidencePage taskID tableID afterNo afterID limit s"

text \<open>The state of the loop over the rows: the archive so far, the three hashes and the
  candidate for the evidence of the whole table.\<close>

record table_build =
  tb_out :: ValidationTableArchive
  tb_evidence :: string
  tb_source :: string
  tb_target :: string
  tb_complex :: bool
  tb_unionInitialized :: bool
  tb_unionConsistent :: bool
  tb_unionSourceRows :: int
  tb_unionTargetRows :: int
  tb_unionSourceChecksum :: string
  tb_unionTargetChecksum :: string

definition row_evidence :: "ValidationEvidenceRow \<Rightarrow> string" where
  "row_evidence r = digestField (er_ChunkID r) @ digestInt (er_ChunkNo r) @ digestField (er_SplitType r)
     @ digestField (er_ValidationID r) @ digestField (ValidationStatus_string (er_Status r))
     @ digestInt (er_SourceRows r) @ digestInt (er_TargetRows r)
     @ digestField (er_SourceChecksum r) @ digestField (er_TargetChecksum r)
     @ digestField (er_LastError r) @ digestTime (er_StartedAt r) @ digestTime (er_FinishedAt r)"

definition count_status :: "ValidationStatus \<Rightarrow> ValidationTableArchive \<Rightarrow> ValidationTableArchive" where
  "count_status st out = (case st of
      ValidationSuccess \<Rightarrow> out\<lparr>vta_SuccessChunks := vta_SuccessChunks out + 1\<rparr>
    | ValidationMismatch \<Rightarrow> out\<lparr>vta_MismatchChunks := vta_MismatchChunks out + 1\<rparr>
    | ValidationError \<Rightarrow> out\<lparr>vta_ErrorChunks := vta_ErrorChunks out + 1\<rparr>
    | _ \<Rightarrow> out)"

definition widen_times :: "time \<Rightarrow> time \<Rightarrow> ValidationTableArchive \<Rightarrow> ValidationTableArchive" where
  "widen_times started finished out =
     (let out1 = (if vta_FirstStartedAt out = 0 \<or> (started \<noteq> 0 \<and> started < vta_FirstStartedAt out)
                  then out\<lparr>vta_FirstStartedAt := started\<rparr> else out)
      in if finished > vta_LastFinishedAt out1 then out1\<lparr>vta_LastFinishedAt := finished\<rparr> else out1)"

definition union_row :: "ValidationEvidenceRow \<Rightarrow> table_build \<Rightarrow> table_build" where
  "union_row r b =
     (if tb_complex b then
        if \<not> tb_unionInitialized b then
          b\<lparr>tb_unionInitialized := True, tb_unionSourceRows := er_SourceRows r,
            tb_unionTargetRows := er_TargetRows r, tb_unionSourceChecksum := er_SourceChecksum r,
            tb_unionTargetChecksum := er_TargetChecksum r\<rparr>
        else if tb_unionSourceRows b \<noteq> er_SourceRows r \<or> tb_unionTargetRows b \<noteq> er_TargetRows r
             \<or> tb_unionSourceChecksum b \<noteq> er_SourceChecksum r \<or> tb_unionTargetChecksum b \<noteq> er_TargetChecksum r
        then b\<lparr>tb_unionConsistent := False\<rparr>
        else b
      else b\<lparr>tb_out := (tb_out b)\<lparr>vta_SourceRows := i64 (vta_SourceRows (tb_out b) + er_SourceRows r),
               vta_TargetRows := i64 (vta_TargetRows (tb_out b) + er_TargetRows r)\<rparr>\<rparr>)"

definition table_row :: "ValidationEvidenceRow \<Rightarrow> table_build \<Rightarrow> table_build" where
  "table_row r b0 =
     (let b = b0\<lparr>tb_out := (tb_out b0)\<lparr>vta_TotalChunks := vta_TotalChunks (tb_out b0) + 1\<rparr>,
                 tb_complex := tb_complex b0 \<or> isComplexArchiveSplit (er_SplitType r),
                 tb_evidence := tb_evidence b0 @ row_evidence r\<rparr>
      in if er_ValidationID r = []
         then b\<lparr>tb_out := (tb_out b)\<lparr>vta_MissingChunks := vta_MissingChunks (tb_out b) + 1\<rparr>\<rparr>
         else union_row r
           (b\<lparr>tb_out := widen_times (er_StartedAt r) (er_FinishedAt r)
                (count_status (er_Status r)
                  ((tb_out b)\<lparr>vta_CoveredChunks := vta_CoveredChunks (tb_out b) + 1\<rparr>)),
              tb_source := tb_source b @ digestField (er_ChunkID r) @ digestInt (er_SourceRows r)
                @ digestField (er_SourceChecksum r),
              tb_target := tb_target b @ digestField (er_ChunkID r) @ digestInt (er_TargetRows r)
                @ digestField (er_TargetChecksum r)\<rparr>))"

text \<open>The loop over the pages; \<open>None\<close> when the fuel runs out.\<close>

fun table_pages ::
  "nat \<Rightarrow> Store \<Rightarrow> string \<Rightarrow> string \<Rightarrow> int \<Rightarrow> int \<Rightarrow> string \<Rightarrow> table_build \<Rightarrow> table_build option" where
  "table_pages 0 s taskID tableID pageSize afterNo afterID b = None"
| "table_pages (Suc fuel) s taskID tableID pageSize afterNo afterID b =
     (let page = evidencePage s taskID tableID afterNo afterID pageSize in
      if page = [] then Some b
      else let b' = fold table_row page b in
        if int (length page) < pageSize then Some b'
        else table_pages fuel s taskID tableID pageSize (er_ChunkNo (last page)) (er_ChunkID (last page)) b')"

definition table_start :: "MigrationTable \<Rightarrow> table_build" where
  "table_start t = \<lparr>
     tb_out = zero_ValidationTableArchive\<lparr>vta_TableID := tbl_ID t,
       vta_SourceSchema := tbl_SourceSchema t, vta_SourceTable := tbl_SourceTable t,
       vta_TargetSchema := tbl_TargetSchema t, vta_TargetTable := tbl_TargetTable t,
       vta_EvidenceScope := ''CHUNK_SET'', vta_ChecksumKind := ''CHUNK_SET_SHA256''\<rparr>,
     tb_evidence = [], tb_source = [], tb_target = [], tb_complex = False,
     tb_unionInitialized = False, tb_unionConsistent = True, tb_unionSourceRows = 0,
     tb_unionTargetRows = 0, tb_unionSourceChecksum = [], tb_unionTargetChecksum = []\<rparr>"

definition table_finish :: "table_build \<Rightarrow> ValidationTableArchive" where
  "table_finish b =
     (let out = (tb_out b)\<lparr>vta_EvidenceDigest := digestHex (tb_evidence b),
                  vta_SourceChecksumDigest := digestHex (tb_source b),
                  vta_TargetChecksumDigest := digestHex (tb_target b)\<rparr>
      in if tb_complex b then
           if tb_unionInitialized b \<and> tb_unionConsistent b
           then out\<lparr>vta_EvidenceScope := ''TABLE_UNION'', vta_ChecksumKind := ''TABLE_UNION'',
                   vta_SourceRows := tb_unionSourceRows b, vta_TargetRows := tb_unionTargetRows b,
                   vta_SourceChecksum := tb_unionSourceChecksum b,
                   vta_TargetChecksum := tb_unionTargetChecksum b\<rparr>
           else out\<lparr>vta_EvidenceScope := ''MIXED'', vta_ChecksumKind := ''EVIDENCE_SHA256''\<rparr>
         else out)"

text \<open>One page more than there are chunks is always enough.\<close>

definition buildTableArchive ::
  "Store \<Rightarrow> string \<Rightarrow> MigrationTable \<Rightarrow> int \<Rightarrow> ValidationTableArchive option" where
  "buildTableArchive s taskID t pageSize =
     map_option table_finish
       (table_pages (Suc (length (st_chunks s))) s taskID (tbl_ID t) pageSize (-1) [] (table_start t))"

section \<open>Tasks without successful chunks\<close>

definition legacy_row ::
  "ValidationResult \<Rightarrow> ValidationTableArchive \<times> string \<times> string \<times> string \<Rightarrow>
   ValidationTableArchive \<times> string \<times> string \<times> string" where
  "legacy_row v = (\<lambda>(t, h, sh, th).
     (widen_times (vr_StartedAt v) (vr_FinishedAt v)
        ((count_status (vr_Status v)
           (t\<lparr>vta_TotalChunks := vta_TotalChunks t + 1, vta_CoveredChunks := vta_CoveredChunks t + 1\<rparr>))
         \<lparr>vta_SourceRows := i64 (vta_SourceRows t + vr_SourceRows v),
          vta_TargetRows := i64 (vta_TargetRows t + vr_TargetRows v)\<rparr>),
      h @ digestField (vr_ChunkID v) @ digestField (vr_ID v) @ digestField (ValidationStatus_string (vr_Status v))
        @ digestInt (vr_SourceRows v) @ digestInt (vr_TargetRows v) @ digestField (vr_SourceChecksum v)
        @ digestField (vr_TargetChecksum v) @ digestField (vr_LastError v) @ digestTime (vr_StartedAt v)
        @ digestTime (vr_FinishedAt v),
      sh @ digestField (vr_ChunkID v) @ digestInt (vr_SourceRows v) @ digestField (vr_SourceChecksum v),
      th @ digestField (vr_ChunkID v) @ digestInt (vr_TargetRows v) @ digestField (vr_TargetChecksum v)))"

definition legacy_table :: "MigrationTable \<Rightarrow> string \<Rightarrow> ValidationResult list \<Rightarrow> ValidationTableArchive" where
  "legacy_table m tableID rows =
     (let (t, h, sh, th) = fold legacy_row rows
            (zero_ValidationTableArchive\<lparr>vta_TableID := tableID, vta_SourceSchema := tbl_SourceSchema m,
               vta_SourceTable := tbl_SourceTable m, vta_TargetSchema := tbl_TargetSchema m,
               vta_TargetTable := tbl_TargetTable m, vta_EvidenceScope := ''LEGACY_RESULT_SET'',
               vta_ChecksumKind := ''EVIDENCE_SHA256''\<rparr>, [], [], [])
      in t\<lparr>vta_EvidenceDigest := digestHex h, vta_SourceChecksumDigest := digestHex sh,
           vta_TargetChecksumDigest := digestHex th\<rparr>)"

definition archive_head :: "string \<Rightarrow> MigrationTask \<Rightarrow> time \<Rightarrow> ValidationArchive" where
  "archive_head taskID task now = zero_ValidationArchive\<lparr>va_TaskID := taskID,
     va_TerminalStatus := mig_Status task, va_ValidationMode := mig_ValidationMode task,
     va_ValidationBarrierPositionType := mig_ValidationBarrierPositionType task,
     va_ValidationBarrierPosition := mig_ValidationBarrierPositionValue task,
     va_ValidationBarrierResource := mig_ValidationBarrierResource task, va_ArchivedAt := now\<rparr>"

definition add_table :: "ValidationTableArchive \<Rightarrow> ValidationArchive \<times> string \<Rightarrow> ValidationArchive \<times> string" where
  "add_table t = (\<lambda>(a, h).
     (a\<lparr>va_Tables := va_Tables a @ [t], va_TotalTables := va_TotalTables a + 1,
        va_TotalChunks := va_TotalChunks a + vta_TotalChunks t,
        va_CoveredChunks := va_CoveredChunks a + vta_CoveredChunks t,
        va_SuccessChunks := va_SuccessChunks a + vta_SuccessChunks t,
        va_MismatchChunks := va_MismatchChunks a + vta_MismatchChunks t,
        va_ErrorChunks := va_ErrorChunks a + vta_ErrorChunks t\<rparr>,
      h @ digestField (vta_TableID t) @ digestField (vta_EvidenceDigest t)))"

definition latest_list :: "ValidationResult list \<Rightarrow> ValidationResult list" where
  "latest_list items = map snd (latest_results newer_or_id items)"

definition buildLegacyValidationArchive ::
  "Store \<Rightarrow> string \<Rightarrow> MigrationTask \<Rightarrow> time \<Rightarrow> go_error + ValidationArchive" where
  "buildLegacyValidationArchive s taskID task now =
     (let items = ListValidationResults taskID s in
      if items = [] then Inl ErrNoValidationEvidence
      else
        let vs = latest_list items;
            meta = map (\<lambda>t. (tbl_ID t, t)) (rev (ListMigrationTables taskID s));
            tableIDs = sort (remdups (map vr_TableID vs));
            (a, h) = fold (\<lambda>i. add_table
                (legacy_table (case map_of meta i of None \<Rightarrow> zero_MigrationTable | Some m \<Rightarrow> m) i
                  (sort_key vr_ChunkID (filter (\<lambda>v. vr_TableID v = i) vs))))
              tableIDs
              (archive_head taskID task now,
               digestField taskID @ digestField (MigrationStatus_string (mig_Status task))
                 @ digestField ''LEGACY_RESULT_SET'')
        in Inr (a\<lparr>va_EvidenceDigest := digestHex h\<rparr>))"

section \<open>The archive of a task\<close>

fun archive_tables ::
  "Store \<Rightarrow> string \<Rightarrow> int \<Rightarrow> MigrationTable list \<Rightarrow> ValidationArchive \<times> string \<Rightarrow>
   (ValidationArchive \<times> string) option" where
  "archive_tables s taskID pageSize [] ah = Some ah"
| "archive_tables s taskID pageSize (t # ts) ah =
     (case buildTableArchive s taskID t pageSize of
        None \<Rightarrow> None
      | Some ta \<Rightarrow>
          if vta_TotalChunks ta = 0 then archive_tables s taskID pageSize ts ah
          else let (a, h) = add_table ta ah in
            archive_tables s taskID pageSize ts
              (a\<lparr>va_MissingChunks := va_MissingChunks a + vta_MissingChunks ta\<rparr>, h))"

definition build_archive ::
  "time \<Rightarrow> string \<Rightarrow> int \<Rightarrow> MigrationTask \<Rightarrow> Store \<Rightarrow> (go_error + ValidationArchive) option" where
  "build_archive now taskID pageSize task s =
     (case archive_tables s taskID pageSize (sort_key tbl_ID (ListMigrationTables taskID s))
        (archive_head taskID task now,
         digestField taskID @ digestField (MigrationStatus_string (mig_Status task))
           @ digestField (mig_ValidationMode task) @ digestField (mig_ValidationBarrierPositionType task)
           @ digestField (mig_ValidationBarrierPositionValue task)
           @ digestField (mig_ValidationBarrierResource task)) of
        None \<Rightarrow> None
      | Some (a, h) \<Rightarrow>
          if va_CoveredChunks a = 0 then Some (buildLegacyValidationArchive s taskID task now)
          else Some (Inr (a\<lparr>va_EvidenceDigest := digestHex h\<rparr>)))"

definition EnsureValidationArchive ::
  "io \<Rightarrow> time \<Rightarrow> (Store \<Rightarrow> Store) \<Rightarrow> string \<Rightarrow> int \<Rightarrow> Store \<Rightarrow>
   (Store \<times> (go_error + ValidationArchive option \<times> bool)) option" where
  "EnsureValidationArchive fault now env taskID pageSize s =
     (case GetValidationArchive taskID s of
        Some a \<Rightarrow> Some (s, Inr (Some a, False))
      | None \<Rightarrow>
          (case GetMigration taskID s of
             Inl e \<Rightarrow> Some (s, Inl e)
           | Inr task \<Rightarrow>
               if \<not> terminalValidationArchiveStatus (mig_Status task)
               then Some (s, Inl ErrValidationArchiveNotTerminal)
               else
                 (case build_archive now taskID (page_limit 5000 512 pageSize) task s of
                    None \<Rightarrow> None
                  | Some (Inl e) \<Rightarrow> Some (s, Inl e)
                  | Some (Inr a) \<Rightarrow>
                      (case CreateValidationArchive fault (Some a) (env s) of
                         (s', created, Some e) \<Rightarrow> Some (s', Inl e)
                       | (s', created, None) \<Rightarrow>
                           if \<not> created then Some (s', Inr (GetValidationArchive taskID s', False))
                           else Some (s', Inr (Some a, True))))))"

definition LatestValidationMismatchCount :: "string \<Rightarrow> Store \<Rightarrow> int" where
  "LatestValidationMismatchCount taskID s =
     (case GetValidationArchive taskID s of
        Some a \<Rightarrow> va_MismatchChunks a + va_ErrorChunks a
      | None \<Rightarrow> let n = LatestValidationStatusCounts taskID s in vc_mismatch n + vc_error n)"

section \<open>Framing\<close>

lemma nat_str_no_sep: "c \<in> set (nat_str n) \<Longrightarrow> c \<noteq> CHR '':'' \<and> c \<noteq> CHR ''-''"
proof (induction n rule: nat_str.induct)
  case (1 n)
  have d: "c \<noteq> CHR '':'' \<and> c \<noteq> CHR ''-''" if "c = char_of (48 + m)" "m < 10" for m :: nat
    using that of_char_digit [of m] by (auto dest!: arg_cong [where f = "of_char :: char \<Rightarrow> nat"])
  show ?case
  proof (cases "n < 10")
    case True
    with 1(2) d show ?thesis by (subst (asm) nat_str.simps) auto
  next
    case False
    with 1 d [of "n mod 10"] show ?thesis by (subst (asm) nat_str.simps) auto
  qed
qed

lemma nat_str_inj: "nat_str m = nat_str n \<longleftrightarrow> m = n"
  by (metis parse_nat_nat_str option.inject of_nat_eq_iff)

lemma int_str_inj: "int_str m = int_str n \<longleftrightarrow> m = n"
proof
  assume e: "int_str m = int_str n"
  have neg: "(\<exists>r. int_str k = CHR ''-'' # r) \<longleftrightarrow> k < 0" for k
    using nat_str_no_sep [of "CHR ''-''" "nat k"] by (auto simp: int_str_def)
  from e neg [of m] neg [of n] have "m < 0 \<longleftrightarrow> n < 0" by simp
  with e show "m = n" by (auto simp: int_str_def nat_str_inj split: if_splits)
qed simp

lemma int_str_nat_no_colon: "c \<in> set (int_str (int n)) \<Longrightarrow> c \<noteq> CHR '':''"
  by (auto simp: int_str_def dest: nat_str_no_sep)

lemma split_at_char:
  assumes "xs @ x # ys = xs' @ x # ys'" and "x \<notin> set xs" and "x \<notin> set xs'"
  shows "xs = xs' \<and> ys = ys'"
  using assms
proof (induction xs arbitrary: xs')
  case Nil
  then show ?case by (cases xs') auto
next
  case (Cons a xs)
  then show ?case by (cases xs') auto
qed

lemma digestField_prefix:
  assumes "digestField v @ r = digestField w @ r'"
  shows "v = w \<and> r = r'"
proof -
  have e: "int_str (int (length v)) @ CHR '':'' # (v @ ''|'' @ r) = int_str (int (length w)) @ CHR '':'' # (w @ ''|'' @ r')"
    using assms by (simp add: digestField_def)
  have "int_str (int (length v)) = int_str (int (length w)) \<and> v @ ''|'' @ r = w @ ''|'' @ r'"
    by (rule split_at_char [OF e]) (use int_str_nat_no_colon in blast)+
  then show ?thesis by (auto simp: int_str_inj)
qed

definition digest_fields :: "string list \<Rightarrow> string" where
  "digest_fields vs = concat (map digestField vs)"

lemma digestField_nonempty [simp]: "digestField v \<noteq> []"
  by (simp add: digestField_def)

lemma digest_fields_inj: "digest_fields vs = digest_fields ws \<longleftrightarrow> vs = ws"
proof (rule iffI)
  show "digest_fields vs = digest_fields ws \<Longrightarrow> vs = ws"
  proof (induction vs arbitrary: ws)
    case Nil
    then show ?case by (cases ws) (simp_all add: digest_fields_def)
  next
    case (Cons v vs)
    then obtain w ws' where ws: "ws = w # ws'" by (cases ws) (simp_all add: digest_fields_def)
    with Cons.prems have "digestField v @ digest_fields vs = digestField w @ digest_fields ws'"
      by (simp add: digest_fields_def)
    from digestField_prefix [OF this] Cons.IH ws show ?case by simp
  qed
qed simp

definition row_fields :: "ValidationEvidenceRow \<Rightarrow> string list" where
  "row_fields r = [er_ChunkID r, int_str (er_ChunkNo r), er_SplitType r, er_ValidationID r,
     ValidationStatus_string (er_Status r), int_str (er_SourceRows r), int_str (er_TargetRows r),
     er_SourceChecksum r, er_TargetChecksum r, er_LastError r, time_field (er_StartedAt r),
     time_field (er_FinishedAt r)]"

lemma row_evidence_fields: "row_evidence r = digest_fields (row_fields r)"
  by (simp add: row_evidence_def digest_fields_def row_fields_def digestInt_def digestTime_def)

lemma concat_fields: "concat (map row_evidence rs) = digest_fields (concat (map row_fields rs))"
  by (induction rs) (simp_all add: row_evidence_fields digest_fields_def)

lemma rows_of_fields: "concat (map row_fields rs) = concat (map row_fields rs') \<Longrightarrow> map row_fields rs = map row_fields rs'"
proof (induction rs arbitrary: rs')
  case Nil
  then show ?case by (cases rs') (simp_all add: row_fields_def)
next
  case (Cons r rs)
  then obtain q rs'' where q: "rs' = q # rs''" by (cases rs') (simp_all add: row_fields_def)
  have "length (row_fields r) = length (row_fields q)" by (simp add: row_fields_def)
  with Cons q show ?case by simp
qed

text \<open>
  The evidence hash of a table frames its fields without ambiguity: when the byte strings
  hashed for two lists of evidence rows are equal, the rows agree one by one in the chunk, its
  number, split type, attempt, status, row counts, checksums, error text and printed times, so
  that moving a byte between neighbouring fields or rows changes what is hashed.
\<close>

theorem evidence_framing_injective:
  assumes "concat (map row_evidence rs) = concat (map row_evidence rs')"
  shows "length rs = length rs' \<and> (\<forall>i < length rs.
     er_ChunkID (rs ! i) = er_ChunkID (rs' ! i) \<and> er_ChunkNo (rs ! i) = er_ChunkNo (rs' ! i) \<and>
     er_SplitType (rs ! i) = er_SplitType (rs' ! i) \<and> er_ValidationID (rs ! i) = er_ValidationID (rs' ! i) \<and>
     ValidationStatus_string (er_Status (rs ! i)) = ValidationStatus_string (er_Status (rs' ! i)) \<and>
     er_SourceRows (rs ! i) = er_SourceRows (rs' ! i) \<and> er_TargetRows (rs ! i) = er_TargetRows (rs' ! i) \<and>
     er_SourceChecksum (rs ! i) = er_SourceChecksum (rs' ! i) \<and>
     er_TargetChecksum (rs ! i) = er_TargetChecksum (rs' ! i) \<and> er_LastError (rs ! i) = er_LastError (rs' ! i) \<and>
     time_field (er_StartedAt (rs ! i)) = time_field (er_StartedAt (rs' ! i)) \<and>
     time_field (er_FinishedAt (rs ! i)) = time_field (er_FinishedAt (rs' ! i)))"
proof -
  from assms have m: "map row_fields rs = map row_fields rs'"
    unfolding concat_fields digest_fields_inj by (rule rows_of_fields)
  then have l: "length rs = length rs'" by (rule map_eq_imp_length_eq)
  moreover have "row_fields (rs ! i) = row_fields (rs' ! i)" if "i < length rs" for i
    using m l that by (metis nth_map)
  ultimately show ?thesis by (simp add: row_fields_def int_str_inj)
qed

theorem evidence_framing_injective_witness:
  "let r = evidence_row (zero_MigrationChunk\<lparr>ch_ID := ''c''\<rparr>) (Some (zero_ValidationResult\<lparr>vr_ID := ''v'', vr_Status := ValidationSuccess\<rparr>));
       r' = r\<lparr>er_Status := ValidationStatusOther ''SUCCESS''\<rparr>
   in row_evidence r = row_evidence r' \<and> er_ChunkID r = er_ChunkID r' \<and> er_FinishedAt r = er_FinishedAt r'"
proof -
  let ?r = "evidence_row (zero_MigrationChunk\<lparr>ch_ID := ''c''\<rparr>) (Some (zero_ValidationResult\<lparr>vr_ID := ''v'', vr_Status := ValidationSuccess\<rparr>))"
  let ?r' = "?r\<lparr>er_Status := ValidationStatusOther ''SUCCESS''\<rparr>"
  have e: "concat (map row_evidence [?r]) = concat (map row_evidence [?r'])"
    by (simp add: row_evidence_def evidence_row_def)
  with evidence_framing_injective [OF e] show ?thesis
    by (simp add: Let_def evidence_row_def)
qed

section \<open>The loop over the pages\<close>

lemma table_pages_rest:
  assumes "store_wf s" and "0 < n" "n \<le> 5000"
    and "ListValidationEvidencePage t tb no i n s = map (evidence_of t s) (take (nat n) (drop k (evidence_order t tb s)))"
    and "length (evidence_order t tb s) - k < fuel"
  shows "table_pages fuel s t tb n no i b
    = Some (fold table_row (map (evidence_of t s) (drop k (evidence_order t tb s))) b)"
  using assms(4,5)
proof (induction fuel arbitrary: k no i b)
  case 0
  then show ?case by simp
next
  case (Suc fuel)
  let ?L = "evidence_order t tb s"
  let ?page = "map (evidence_of t s) (take (nat n) (drop k ?L))"
  have page: "evidencePage s t tb no i n = ?page" by (simp add: evidencePage_def Suc.prems(1))
  show ?case
  proof (cases "k < length ?L")
    case False
    then show ?thesis by (simp add: page)
  next
    case True
    then have ne: "?page \<noteq> []" using assms(2) by simp
    show ?thesis
    proof (cases "int (length ?page) < n")
      case True
      then have "length ?L - k < nat n" using assms(2) by auto
      then have "take (nat n) (drop k ?L) = drop k ?L" by simp
      with True ne show ?thesis by (simp add: page Let_def)
    next
      case False
      then have len: "nat n \<le> length ?L - k" by auto
      let ?k = "k + nat n - 1"
      have k: "?k < length ?L" "Suc ?k = k + nat n" using len assms(2) \<open>k < length ?L\<close> by auto
      have "last (take (nat n) (drop k ?L)) = take (nat n) (drop k ?L) ! (nat n - 1)"
        using len assms(2) by (subst last_conv_nth) auto
      also have "\<dots> = ?L ! ?k" using len assms(2) by simp
      finally have "last ?page = evidence_of t s (?L ! ?k)" using ne by (simp add: last_map)
      then have last: "er_ChunkNo (last ?page) = ch_ChunkNo (?L ! ?k)" "er_ChunkID (last ?page) = ch_ID (?L ! ?k)"
        by (simp_all add: evidence_row_def split: option.split)
      have next_page: "ListValidationEvidencePage t tb (er_ChunkNo (last ?page)) (er_ChunkID (last ?page)) n s
          = map (evidence_of t s) (take (nat n) (drop (k + nat n) ?L))"
        using page_next [OF assms(1) k(1) assms(2,3) refl] unfolding last k(2) .
      have fuel: "length ?L - (k + nat n) < fuel" using Suc.prems(2) True assms(2) by auto
      have dd: "drop (k + nat n) ?L = drop (nat n) (drop k ?L)" by (simp add: add.commute)
      have eq: "drop k ?L = take (nat n) (drop k ?L) @ drop (k + nat n) ?L"
        unfolding dd by (rule append_take_drop_id [symmetric])
      have "fold table_row (map (evidence_of t s) (drop k ?L)) b
          = fold table_row (map (evidence_of t s) (drop (k + nat n) ?L)) (fold table_row ?page b)"
        by (subst eq) (simp only: map_append fold_append comp_apply)
      with Suc.IH [OF next_page fuel, of "fold table_row ?page b"] False ne show ?thesis
        by (simp only: page Let_def table_pages.simps if_False)
    qed
  qed
qed

definition chunk_numbers_ok :: "string \<Rightarrow> Store \<Rightarrow> bool" where
  "chunk_numbers_ok taskID s \<longleftrightarrow> list_all (\<lambda>(i, ch). ch_TaskID ch = taskID \<longrightarrow> 0 \<le> ch_ChunkNo ch) (st_chunks s)"

lemma buildTableArchive_all:
  assumes "store_wf s" and "chunk_numbers_ok t s" and "0 < n" "n \<le> 5000"
  shows "buildTableArchive s t tb n =
    Some (table_finish (fold table_row (map (evidence_of t s) (evidence_order t (tbl_ID tb) s)) (table_start tb)))"
proof -
  let ?L = "evidence_order t (tbl_ID tb) s"
  have "\<not> page_key ch \<le> (- 1, [])" if "ch \<in> set ?L" for ch
    using that assms(2) by (auto simp: evidence_order_def evidence_chunks_def chunk_numbers_ok_def list_all_iff)
  then have p: "ListValidationEvidencePage t (tbl_ID tb) (- 1) [] n s = map (evidence_of t s) (take (nat n) (drop 0 ?L))"
    using page_first [of t "tbl_ID tb" s "- 1" "[]" n] assms(3,4) by simp
  have "length ?L \<le> length (st_chunks s)"
    by (simp add: evidence_order_def evidence_chunks_def le_trans [OF length_filter_le])
  then have "length ?L - 0 < Suc (length (st_chunks s))" by simp
  from table_pages_rest [OF assms(1,3,4) p this] show ?thesis
    by (simp add: buildTableArchive_def)
qed

section \<open>Counts\<close>

lemma widen_times_counts [simp]:
  "vta_TotalChunks (widen_times a z out) = vta_TotalChunks out"
  "vta_CoveredChunks (widen_times a z out) = vta_CoveredChunks out"
  "vta_MissingChunks (widen_times a z out) = vta_MissingChunks out"
  "vta_SuccessChunks (widen_times a z out) = vta_SuccessChunks out"
  "vta_MismatchChunks (widen_times a z out) = vta_MismatchChunks out"
  "vta_ErrorChunks (widen_times a z out) = vta_ErrorChunks out"
  by (simp_all add: widen_times_def Let_def)

lemma count_status_counts [simp]:
  "vta_TotalChunks (count_status st out) = vta_TotalChunks out"
  "vta_CoveredChunks (count_status st out) = vta_CoveredChunks out"
  "vta_MissingChunks (count_status st out) = vta_MissingChunks out"
  "vta_SuccessChunks (count_status st out) = vta_SuccessChunks out + (if st = ValidationSuccess then 1 else 0)"
  "vta_MismatchChunks (count_status st out) = vta_MismatchChunks out + (if st = ValidationMismatch then 1 else 0)"
  "vta_ErrorChunks (count_status st out) = vta_ErrorChunks out + (if st = ValidationError then 1 else 0)"
  by (simp_all add: count_status_def split: ValidationStatus.split)

lemma union_row_keeps [simp]:
  "vta_TotalChunks (tb_out (union_row r b)) = vta_TotalChunks (tb_out b)"
  "vta_CoveredChunks (tb_out (union_row r b)) = vta_CoveredChunks (tb_out b)"
  "vta_MissingChunks (tb_out (union_row r b)) = vta_MissingChunks (tb_out b)"
  "vta_SuccessChunks (tb_out (union_row r b)) = vta_SuccessChunks (tb_out b)"
  "vta_MismatchChunks (tb_out (union_row r b)) = vta_MismatchChunks (tb_out b)"
  "vta_ErrorChunks (tb_out (union_row r b)) = vta_ErrorChunks (tb_out b)"
  "tb_evidence (union_row r b) = tb_evidence b"
  "tb_source (union_row r b) = tb_source b" "tb_target (union_row r b) = tb_target b"
  by (simp_all add: union_row_def)

lemma table_row_counts [simp]:
  "vta_TotalChunks (tb_out (table_row r b)) = vta_TotalChunks (tb_out b) + 1"
  "vta_MissingChunks (tb_out (table_row r b)) = vta_MissingChunks (tb_out b) + (if er_ValidationID r = [] then 1 else 0)"
  "vta_CoveredChunks (tb_out (table_row r b)) = vta_CoveredChunks (tb_out b) + (if er_ValidationID r = [] then 0 else 1)"
  "vta_SuccessChunks (tb_out (table_row r b)) = vta_SuccessChunks (tb_out b)
     + (if er_ValidationID r \<noteq> [] \<and> er_Status r = ValidationSuccess then 1 else 0)"
  "vta_MismatchChunks (tb_out (table_row r b)) = vta_MismatchChunks (tb_out b)
     + (if er_ValidationID r \<noteq> [] \<and> er_Status r = ValidationMismatch then 1 else 0)"
  "vta_ErrorChunks (tb_out (table_row r b)) = vta_ErrorChunks (tb_out b)
     + (if er_ValidationID r \<noteq> [] \<and> er_Status r = ValidationError then 1 else 0)"
  "tb_evidence (table_row r b) = tb_evidence b @ row_evidence r"
  by (simp_all add: table_row_def Let_def)

abbreviation covered :: "ValidationEvidenceRow \<Rightarrow> bool" where
  "covered r \<equiv> er_ValidationID r \<noteq> []"

lemma fold_table_row_counts:
  "vta_TotalChunks (tb_out (fold table_row rs b)) = vta_TotalChunks (tb_out b) + int (length rs)"
  "vta_MissingChunks (tb_out (fold table_row rs b)) = vta_MissingChunks (tb_out b) + int (count_if (\<lambda>r. \<not> covered r) rs)"
  "vta_CoveredChunks (tb_out (fold table_row rs b)) = vta_CoveredChunks (tb_out b) + int (count_if covered rs)"
  "vta_SuccessChunks (tb_out (fold table_row rs b)) = vta_SuccessChunks (tb_out b)
     + int (count_if (\<lambda>r. covered r \<and> er_Status r = ValidationSuccess) rs)"
  "vta_MismatchChunks (tb_out (fold table_row rs b)) = vta_MismatchChunks (tb_out b)
     + int (count_if (\<lambda>r. covered r \<and> er_Status r = ValidationMismatch) rs)"
  "vta_ErrorChunks (tb_out (fold table_row rs b)) = vta_ErrorChunks (tb_out b)
     + int (count_if (\<lambda>r. covered r \<and> er_Status r = ValidationError) rs)"
  "tb_evidence (fold table_row rs b) = tb_evidence b @ concat (map row_evidence rs)"
  by (induction rs arbitrary: b) (simp_all del: count_if_Cons add: count_if_Cons)

lemma table_finish_counts [simp]:
  "vta_TotalChunks (table_finish b) = vta_TotalChunks (tb_out b)"
  "vta_CoveredChunks (table_finish b) = vta_CoveredChunks (tb_out b)"
  "vta_MissingChunks (table_finish b) = vta_MissingChunks (tb_out b)"
  "vta_SuccessChunks (table_finish b) = vta_SuccessChunks (tb_out b)"
  "vta_MismatchChunks (table_finish b) = vta_MismatchChunks (tb_out b)"
  "vta_ErrorChunks (table_finish b) = vta_ErrorChunks (tb_out b)"
  "vta_EvidenceDigest (table_finish b) = digestHex (tb_evidence b)"
  by (simp_all add: table_finish_def Let_def)

lemma table_start_counts [simp]:
  "vta_TotalChunks (tb_out (table_start t)) = 0" "vta_CoveredChunks (tb_out (table_start t)) = 0"
  "vta_MissingChunks (tb_out (table_start t)) = 0" "vta_SuccessChunks (tb_out (table_start t)) = 0"
  "vta_MismatchChunks (tb_out (table_start t)) = 0" "vta_ErrorChunks (tb_out (table_start t)) = 0"
  "tb_evidence (table_start t) = []"
  by (simp_all add: table_start_def zero_ValidationTableArchive_def)

abbreviation evidence_rows :: "string \<Rightarrow> string \<Rightarrow> Store \<Rightarrow> ValidationEvidenceRow list" where
  "evidence_rows t tb s \<equiv> map (evidence_of t s) (evidence_order t tb s)"

lemma buildTableArchive_counts:
  assumes "store_wf s" and "chunk_numbers_ok t s" and "0 < n" "n \<le> 5000"
  shows "\<exists>a. buildTableArchive s t tb n = Some a
    \<and> vta_TotalChunks a = int (length (evidence_chunks t (tbl_ID tb) s))
    \<and> vta_CoveredChunks a = int (count_if covered (evidence_rows t (tbl_ID tb) s))
    \<and> vta_MissingChunks a = int (count_if (\<lambda>r. \<not> covered r) (evidence_rows t (tbl_ID tb) s))
    \<and> vta_SuccessChunks a = int (count_if (\<lambda>r. covered r \<and> er_Status r = ValidationSuccess) (evidence_rows t (tbl_ID tb) s))
    \<and> vta_MismatchChunks a = int (count_if (\<lambda>r. covered r \<and> er_Status r = ValidationMismatch) (evidence_rows t (tbl_ID tb) s))
    \<and> vta_ErrorChunks a = int (count_if (\<lambda>r. covered r \<and> er_Status r = ValidationError) (evidence_rows t (tbl_ID tb) s))
    \<and> vta_EvidenceDigest a = digestHex (concat (map row_evidence (evidence_rows t (tbl_ID tb) s)))"
  by (simp add: buildTableArchive_all [OF assms] fold_table_row_counts evidence_order_def)



section \<open>The archive of a task\<close>

abbreviation table_sum :: "(ValidationEvidenceRow \<Rightarrow> bool) \<Rightarrow> string \<Rightarrow> MigrationTable list \<Rightarrow> Store \<Rightarrow> int" where
  "table_sum P t ts s \<equiv> sum_list (map (\<lambda>tb. int (count_if P (evidence_rows t (tbl_ID tb) s))) ts)"

lemma archive_tables_sums:
  assumes "store_wf s" and "chunk_numbers_ok t s" and "0 < n" "n \<le> 5000"
  shows "\<exists>a' h'. archive_tables s t n ts (a, h) = Some (a', h')
    \<and> va_TaskID a' = va_TaskID a
    \<and> va_CoveredChunks a' = va_CoveredChunks a + table_sum covered t ts s
    \<and> va_MismatchChunks a' = va_MismatchChunks a + table_sum (\<lambda>r. covered r \<and> er_Status r = ValidationMismatch) t ts s
    \<and> va_ErrorChunks a' = va_ErrorChunks a + table_sum (\<lambda>r. covered r \<and> er_Status r = ValidationError) t ts s"
proof (induction ts arbitrary: a h)
  case Nil
  then show ?case by simp
next
  case (Cons tb ts)
  obtain ta where ta: "buildTableArchive s t tb n = Some ta"
    and c: "vta_TotalChunks ta = int (length (evidence_chunks t (tbl_ID tb) s))"
      "vta_CoveredChunks ta = int (count_if covered (evidence_rows t (tbl_ID tb) s))"
      "vta_MismatchChunks ta = int (count_if (\<lambda>r. covered r \<and> er_Status r = ValidationMismatch) (evidence_rows t (tbl_ID tb) s))"
      "vta_ErrorChunks ta = int (count_if (\<lambda>r. covered r \<and> er_Status r = ValidationError) (evidence_rows t (tbl_ID tb) s))"
    using buildTableArchive_counts [OF assms] by blast
  show ?case
  proof (cases "vta_TotalChunks ta = 0")
    case True
    with c(1) have "evidence_order t (tbl_ID tb) s = []" by (simp add: evidence_order_def)
    with Cons.IH [of a h] True ta show ?thesis by simp
  next
    case False
    obtain a1 h1 where ah: "add_table ta (a, h) = (a1, h1)" by (cases "add_table ta (a, h)")
    then have a1: "va_TaskID a1 = va_TaskID a" "va_CoveredChunks a1 = va_CoveredChunks a + vta_CoveredChunks ta"
      "va_MismatchChunks a1 = va_MismatchChunks a + vta_MismatchChunks ta"
      "va_ErrorChunks a1 = va_ErrorChunks a + vta_ErrorChunks ta"
      by (auto simp: add_table_def)
    from Cons.IH [of "a1\<lparr>va_MissingChunks := va_MissingChunks a1 + vta_MissingChunks ta\<rparr>" h1] False ta ah
    show ?thesis by (auto simp: a1 c)
  qed
qed

lemma archive_head_task [simp]: "va_TaskID (archive_head t task now) = t"
  by (simp add: archive_head_def zero_ValidationArchive_def)

lemma archive_head_zero:
  "va_CoveredChunks (archive_head t task now) = 0" "va_MismatchChunks (archive_head t task now) = 0"
  "va_ErrorChunks (archive_head t task now) = 0"
  by (simp_all add: archive_head_def zero_ValidationArchive_def)

lemma fold_add_table_task: "va_TaskID (fst (fold (\<lambda>i. add_table (g i)) is ah)) = va_TaskID (fst ah)"
  by (induction "is" arbitrary: ah) (auto simp: add_table_def split_def)

lemma legacy_task: "buildLegacyValidationArchive s t task now = Inr a \<Longrightarrow> va_TaskID a = t"
  by (auto simp: buildLegacyValidationArchive_def Let_def split_def fold_add_table_task split: if_splits)

lemma build_archive_total:
  assumes "store_wf s" and "chunk_numbers_ok t s" and "0 < n" "n \<le> 5000"
  shows "\<exists>r. build_archive now t n task s = Some r \<and> (\<forall>a. r = Inr a \<longrightarrow> va_TaskID a = t)"
proof -
  obtain a h where "archive_tables s t n (sort_key tbl_ID (ListMigrationTables t s))
      (archive_head t task now, digestField t @ digestField (MigrationStatus_string (mig_Status task))
        @ digestField (mig_ValidationMode task) @ digestField (mig_ValidationBarrierPositionType task)
        @ digestField (mig_ValidationBarrierPositionValue task) @ digestField (mig_ValidationBarrierResource task)) = Some (a, h)"
    and "va_TaskID a = t"
    using archive_tables_sums [OF assms] by (metis archive_head_task)
  then show ?thesis by (auto simp: build_archive_def dest: legacy_task)
qed

lemma page_limit_range: "0 < page_limit 5000 512 n" "page_limit 5000 512 n \<le> 5000"
  by (simp_all add: page_limit_def)

text \<open>
  C16. Ensuring the archive of a task always returns. An archive that exists is returned
  unchanged; a task that is not in a terminal state is refused and nothing changes; when it
  succeeds, the archive it returns is the one stored under the task, also when another client
  created one between the reads and the creation, in which case that one wins; and the call
  reports a creation only when there was none.
\<close>

theorem ensure_archive_once:
  assumes "store_wf s" and "chunk_numbers_ok t s"
  shows "\<exists>s' r. EnsureValidationArchive f now env t n s = Some (s', r)
    \<and> (\<forall>a. GetValidationArchive t s = Some a \<longrightarrow> s' = s \<and> r = Inr (Some a, False))
    \<and> (\<forall>m. GetValidationArchive t s = None \<and> GetMigration t s = Inr m
         \<and> \<not> terminalValidationArchiveStatus (mig_Status m) \<longrightarrow> s' = s \<and> r = Inl ErrValidationArchiveNotTerminal)
    \<and> (\<forall>res created. r = Inr (res, created) \<longrightarrow> res \<noteq> None \<and> GetValidationArchive t s' = res
         \<and> (created \<longrightarrow> GetValidationArchive t s = None \<and> GetValidationArchive t (env s) = None)
         \<and> (\<not> created \<longrightarrow> res = GetValidationArchive t s \<or> res = GetValidationArchive t (env s)))"
proof (cases "GetValidationArchive t s")
  case (Some a)
  then show ?thesis by (simp add: EnsureValidationArchive_def)
next
  case None
  show ?thesis
  proof (cases "GetMigration t s")
    case (Inl e)
    with None show ?thesis by (simp add: EnsureValidationArchive_def)
  next
    case (Inr task)
    show ?thesis
    proof (cases "terminalValidationArchiveStatus (mig_Status task)")
      case False
      with None Inr show ?thesis by (simp add: EnsureValidationArchive_def)
    next
      case True
      obtain r where r: "build_archive now t (page_limit 5000 512 n) task s = Some r"
        "\<And>a. r = Inr a \<Longrightarrow> va_TaskID a = t"
        using build_archive_total [OF assms page_limit_range] by metis
      show ?thesis
      proof (cases r)
        case (Inl e)
        with None Inr True r(1) show ?thesis by (simp add: EnsureValidationArchive_def)
      next
        case (Inr a)
        with r(2) have [simp]: "va_TaskID a = t" by simp
        let ?s1 = "(env s)\<lparr>st_validationArchives := AList.update t a (st_validationArchives (env s))\<rparr>"
        have arch: "st_validationArchives (fst (persistLocked f ?s1)) = st_validationArchives ?s1" by simp
        show ?thesis
        proof (cases "GetValidationArchive t (env s)")
          case E: None
          obtain s' e where "persistLocked f ?s1 = (s', e)" by (cases "persistLocked f ?s1")
          with E None Inr True r(1) \<open>GetMigration t s = Inr task\<close> arch show ?thesis
            by (cases e) (simp_all add: EnsureValidationArchive_def CreateValidationArchive_def
                GetValidationArchive_def update_conv)
        next
          case E: (Some b)
          with None Inr True r(1) \<open>GetMigration t s = Inr task\<close> show ?thesis
            by (simp add: EnsureValidationArchive_def CreateValidationArchive_def GetValidationArchive_def)
        qed
      qed
    qed
  qed
qed

theorem ensure_archive_once_witness:
  "\<exists>s' r. EnsureValidationArchive IOok 7 id ''t'' 0 demo_evidence = Some (s', r)
     \<and> (\<forall>res created. r = Inr (res, created) \<longrightarrow> res \<noteq> None \<and> GetValidationArchive ''t'' s' = res)"
proof -
  have ok: "chunk_numbers_ok ''t'' demo_evidence"
    by (simp add: chunk_numbers_ok_def demo_evidence_def New_def newStore_def)
  show ?thesis
    by (rule exE [OF ensure_archive_once [OF demo_evidence_wf ok, of IOok 7 id 0]], erule exE,
        (erule conjE)+, (rule exI)+, rule conjI, assumption) blast
qed

text \<open>The counts of the archive and the counts over the live results.\<close>

lemma one_of: "distinct js \<Longrightarrow> x \<in> set js \<Longrightarrow> sum_list (map (\<lambda>i. if x = i then c else 0) js) = (c :: int)"
proof (induction js)
  case Nil
  then show ?case by simp
next
  case (Cons a js)
  have "sum_list (map (\<lambda>i. if x = i then c else 0) js) = 0" if "x \<notin> set js"
    using that by (induction js) auto
  with Cons show ?case by (cases "x = a") auto
qed

lemma count_by_key:
  assumes "distinct js" and "\<forall>x \<in> set xs. key x \<in> set js"
  shows "sum_list (map (\<lambda>i. int (count_if P (filter (\<lambda>x. key x = i) xs))) js) = int (count_if P xs)"
  using assms(2)
proof (induction xs)
  case Nil
  then show ?case by simp
next
  case (Cons x xs)
  have "sum_list (map (\<lambda>i. int (count_if P (filter (\<lambda>x. key x = i) (x # xs)))) js)
      = sum_list (map (\<lambda>i. (if key x = i then if P x then 1 else 0 else 0)
          + int (count_if P (filter (\<lambda>x. key x = i) xs))) js)"
    by (intro arg_cong [where f = sum_list] map_cong refl) simp
  also have "\<dots> = (if P x then 1 else 0) + int (count_if P xs)"
    using Cons one_of [OF assms(1), of "key x" "if P x then 1 else 0"] by (simp add: sum_list_addf)
  finally show ?case by simp
qed

lemma count_if_map: "count_if P (map f xs) = count_if (\<lambda>x. P (f x)) xs"
  by (induction xs) auto

lemma evidence_chunks_task: "evidence_chunks t tb s = filter (\<lambda>ch. ch_TableID ch = tb) (success_chunks t s)"
  by (simp add: evidence_chunks_def success_chunks_def conj_commute conj_left_commute)

lemma count_if_order: "count_if P (evidence_rows t tb s) = count_if (\<lambda>ch. P (evidence_of t s ch)) (evidence_chunks t tb s)"
proof -
  have "mset (evidence_order t tb s) = mset (evidence_chunks t tb s)" by (simp add: evidence_order_def)
  then show ?thesis unfolding count_if_map by (rule count_if_mset)
qed

definition task_tables :: "string \<Rightarrow> Store \<Rightarrow> MigrationTable list" where
  "task_tables taskID s = sort_key tbl_ID (ListMigrationTables taskID s)"

lemma task_tables_ids:
  assumes "store_wf s"
  shows "distinct (map tbl_ID (task_tables t s))"
    and "set (map tbl_ID (task_tables t s)) = {i. \<exists>tb. map_of (st_tables s) i = Some tb \<and> tbl_TaskID tb = t}"
proof -
  from assms have k: "keyed tbl_ID (st_tables s)" by (simp add: store_wf_def)
  have "map tbl_ID (map snd (st_tables s)) = map fst (st_tables s)"
    using k by (auto simp: keyed_def list_all_iff)
  then have d: "distinct (map tbl_ID (map snd (st_tables s)))" using k by (metis keyed_wf)
  then show "distinct (map tbl_ID (task_tables t s))"
    unfolding distinct_map
    by (auto simp: task_tables_def ListMigrationTables_def distinct_map simp del: map_map
        intro!: distinct_filter intro: inj_on_subset)
  show "set (map tbl_ID (task_tables t s)) = {i. \<exists>tb. map_of (st_tables s) i = Some tb \<and> tbl_TaskID tb = t}"
    using k by (fastforce simp: task_tables_def ListMigrationTables_def image_iff dest: map_of_SomeD keyedD
        intro: map_of_is_SomeI)
qed

lemma table_sum_total:
  assumes "store_wf s"
    and "\<forall>ch \<in> set (success_chunks t s). \<exists>tb. map_of (st_tables s) (ch_TableID ch) = Some tb \<and> tbl_TaskID tb = t"
  shows "table_sum P t (task_tables t s) s = int (count_if (\<lambda>ch. P (evidence_of t s ch)) (success_chunks t s))"
proof -
  have "sum_list (map (\<lambda>i. int (count_if (\<lambda>ch. P (evidence_of t s ch)) (filter (\<lambda>ch. ch_TableID ch = i) (success_chunks t s))))
      (map tbl_ID (task_tables t s))) = int (count_if (\<lambda>ch. P (evidence_of t s ch)) (success_chunks t s))"
    by (rule count_by_key [OF task_tables_ids(1) [OF assms(1)]]) (use assms(2) task_tables_ids(2) [OF assms(1)] in simp)
  then show ?thesis by (simp add: count_if_order evidence_chunks_task comp_def)
qed

lemma status_counts:
  "vc_success (fold (count_step m) chs n) = vc_success n + int (count_if (\<lambda>ch. \<exists>v. map_of m (ch_ID ch) = Some v \<and> vr_Status v = ValidationSuccess) chs)"
  "vc_mismatch (fold (count_step m) chs n) = vc_mismatch n + int (count_if (\<lambda>ch. \<exists>v. map_of m (ch_ID ch) = Some v \<and> vr_Status v = ValidationMismatch) chs)"
  "vc_error (fold (count_step m) chs n) = vc_error n + int (count_if (\<lambda>ch. \<exists>v. map_of m (ch_ID ch) = Some v \<and> vr_Status v = ValidationError) chs)"
  "vc_missing (fold (count_step m) chs n) = vc_missing n + int (count_if (\<lambda>ch. map_of m (ch_ID ch) = None) chs)"
  by (induction chs arbitrary: n)
    (simp_all add: count_step_def split: option.split ValidationStatus.split)

lemma evidence_status:
  assumes "store_wf s" and "map_of (st_validations s) [] = None"
  shows "covered (evidence_of t s ch) \<and> er_Status (evidence_of t s ch) = st
    \<longleftrightarrow> (\<exists>v. latest_of t (ch_ID ch) s = Some v \<and> vr_Status v = st)"
    "covered (evidence_of t s ch) \<longleftrightarrow> latest_of t (ch_ID ch) s \<noteq> None"
proof -
  have "vr_ID v \<noteq> []" if "latest_of t (ch_ID ch) s = Some v" for v
  proof -
    from that latest_of_spec [OF assms(1), of t "ch_ID ch"] obtain i where "(i, v) \<in> set (st_validations s)" by auto
    moreover have "keyed vr_ID (st_validations s)" using assms(1) by (simp add: store_wf_def)
    ultimately have "map_of (st_validations s) (vr_ID v) = Some v"
      using keyedD keyed_wf map_of_is_SomeI by metis
    with assms(2) show ?thesis by auto
  qed
  then show "covered (evidence_of t s ch) \<and> er_Status (evidence_of t s ch) = st
    \<longleftrightarrow> (\<exists>v. latest_of t (ch_ID ch) s = Some v \<and> vr_Status v = st)"
    "covered (evidence_of t s ch) \<longleftrightarrow> latest_of t (ch_ID ch) s \<noteq> None"
    by (auto simp: evidence_row_def split: option.splits)
qed

text \<open>
  Archiving does not change what is reported about a task: when the archive is created and
  some successful chunk had a result, the number of chunks whose latest attempt is a mismatch
  or an error, read from the archive, is the number computed from the live results before.
\<close>

theorem archive_keeps_mismatch_count:
  assumes "store_wf s" and "chunk_numbers_ok t s" and "map_of (st_validations s) [] = None"
    and "\<forall>ch \<in> set (success_chunks t s). \<exists>tb. map_of (st_tables s) (ch_TableID ch) = Some tb \<and> tbl_TaskID tb = t"
    and "\<exists>ch \<in> set (success_chunks t s). latest_of t (ch_ID ch) s \<noteq> None"
    and "EnsureValidationArchive f now env t n s = Some (s', Inr (res, True))"
  shows "LatestValidationMismatchCount t s' = LatestValidationMismatchCount t s"
proof -
  note sums = archive_tables_sums [OF assms(1,2) page_limit_range, of n "task_tables t s"]
  obtain task where none: "GetValidationArchive t s = None" "GetMigration t s = Inr task"
      "terminalValidationArchiveStatus (mig_Status task)"
    and rest: "\<exists>a. build_archive now t (page_limit 5000 512 n) task s = Some (Inr a) \<and> GetValidationArchive t s' = Some a"
  proof -
    from assms(6) obtain task a where c: "GetValidationArchive t s = None" "GetMigration t s = Inr task"
      "terminalValidationArchiveStatus (mig_Status task)"
      "build_archive now t (page_limit 5000 512 n) task s = Some (Inr a)"
      and cr: "CreateValidationArchive f (Some a) (env s) = (s', True, None)"
      unfolding EnsureValidationArchive_def
      by (auto split: option.splits sum.splits prod.splits if_splits)
    have "va_TaskID a = t"
      using build_archive_total [OF assms(1,2) page_limit_range, of now n task] c(4) by auto
    with cr have "GetValidationArchive t s' = Some a"
      by (auto simp: CreateValidationArchive_def GetValidationArchive_def split: prod.splits if_splits
          dest!: arg_cong [where f = "\<lambda>p. map_of (st_validationArchives (fst p)) t"])
    with c that show thesis by blast
  qed
  from rest obtain a where a: "build_archive now t (page_limit 5000 512 n) task s = Some (Inr a)"
    "GetValidationArchive t s' = Some a" by blast
  obtain a0 h where at: "archive_tables s t (page_limit 5000 512 n) (task_tables t s)
      (archive_head t task now, digestField t @ digestField (MigrationStatus_string (mig_Status task))
        @ digestField (mig_ValidationMode task) @ digestField (mig_ValidationBarrierPositionType task)
        @ digestField (mig_ValidationBarrierPositionValue task) @ digestField (mig_ValidationBarrierResource task)) = Some (a0, h)"
    and c: "va_CoveredChunks a0 = table_sum covered t (task_tables t s) s"
      "va_MismatchChunks a0 = table_sum (\<lambda>r. covered r \<and> er_Status r = ValidationMismatch) t (task_tables t s) s"
      "va_ErrorChunks a0 = table_sum (\<lambda>r. covered r \<and> er_Status r = ValidationError) t (task_tables t s) s"
    using sums [of "archive_head t task now" "digestField t @ digestField (MigrationStatus_string (mig_Status task))
        @ digestField (mig_ValidationMode task) @ digestField (mig_ValidationBarrierPositionType task)
        @ digestField (mig_ValidationBarrierPositionValue task) @ digestField (mig_ValidationBarrierResource task)"]
    unfolding archive_head_zero add_0 by blast
  have "va_CoveredChunks a0 \<noteq> 0"
  proof -
    have "va_CoveredChunks a0 = int (count_if (\<lambda>ch. latest_of t (ch_ID ch) s \<noteq> None) (success_chunks t s))"
      unfolding c table_sum_total [OF assms(1,4)] evidence_status(2) [OF assms(1,3)] ..
    then show ?thesis using assms(5) by (auto simp: count_if_def filter_empty_conv)
  qed
  with a(1) at have "va_MismatchChunks a = va_MismatchChunks a0 \<and> va_ErrorChunks a = va_ErrorChunks a0"
    by (auto simp: build_archive_def task_tables_def)
  moreover have "va_MismatchChunks a0 = vc_mismatch (LatestValidationStatusCounts t s)"
    "va_ErrorChunks a0 = vc_error (LatestValidationStatusCounts t s)"
    unfolding c table_sum_total [OF assms(1,4)] evidence_status(1) [OF assms(1,3)]
      LatestValidationStatusCounts_def status_counts latest_of_def [symmetric] by simp_all
  ultimately show ?thesis
    using a(2) none(1) by (simp add: LatestValidationMismatchCount_def Let_def)
qed

theorem archive_keeps_mismatch_count_witness:
  "\<exists>s' res. EnsureValidationArchive IOok 7 id ''t'' 0 demo_evidence = Some (s', Inr (res, True))
     \<and> LatestValidationMismatchCount ''t'' s' = LatestValidationMismatchCount ''t'' demo_evidence"
proof -
  let ?s = demo_evidence
  have ok: "chunk_numbers_ok ''t'' ?s"
    by (simp add: chunk_numbers_ok_def demo_evidence_def New_def newStore_def)
  have ids: "map_of (st_validations ?s) [] = None"
    by (simp add: demo_evidence_def)
  have tables: "\<forall>ch \<in> set (success_chunks ''t'' ?s). \<exists>tb. map_of (st_tables ?s) (ch_TableID ch) = Some tb \<and> tbl_TaskID tb = ''t''"
    by (simp add: demo_evidence_def success_chunks_def)
  have latest: "\<exists>ch \<in> set (success_chunks ''t'' ?s). latest_of ''t'' (ch_ID ch) ?s \<noteq> None"
    by (simp add: demo_evidence_def success_chunks_def latest_of_def task_results_def latest_results_def
        latest_result_step_def newer_or_id_def)
  have none: "GetValidationArchive ''t'' ?s = None" and task: "GetMigration ''t'' ?s =
     Inr (zero_MigrationTask\<lparr>mig_ID := ''t'', mig_Status := StatusFinished, mig_UpdatedAt := 1\<rparr>)"
    by (simp_all add: GetValidationArchive_def GetMigration_def found_def demo_evidence_def New_def newStore_def)
  let ?m = "zero_MigrationTask\<lparr>mig_ID := ''t'', mig_Status := StatusFinished, mig_UpdatedAt := 1\<rparr>"
  obtain r where r: "build_archive 7 ''t'' (page_limit 5000 512 0) ?m ?s = Some r" "\<And>a. r = Inr a \<Longrightarrow> va_TaskID a = ''t''"
    using build_archive_total [OF demo_evidence_wf ok page_limit_range] by metis
  have "ListValidationResults ''t'' ?s \<noteq> []"
    by (simp add: ListValidationResults_def demo_evidence_def)
  then obtain a where a: "r = Inr a" using r(1)
    by (auto simp: build_archive_def buildLegacyValidationArchive_def Let_def split: option.splits prod.splits if_splits)
  have "terminalValidationArchiveStatus (mig_Status ?m)" by (simp add: terminalValidationArchiveStatus_def)
  then obtain s' where e: "EnsureValidationArchive IOok 7 id ''t'' 0 ?s = Some (s', Inr (Some a, True))"
    using r a none task
    by (auto simp: EnsureValidationArchive_def CreateValidationArchive_def GetValidationArchive_def
        persistLocked_def demo_evidence_def New_def newStore_def)
  show ?thesis
    using e archive_keeps_mismatch_count [OF demo_evidence_wf ok ids tables latest e] by blast
qed

end
