(* ===== verification/StoreQueries.thy ===== *)
theory StoreQueries
  imports StoreChunks StoreValidation
begin

text \<open>
  The aggregating queries of the repository: the methods of \<open>memory.go\<close> that answer them in one
  pass over the maps, and the functions of \<open>chunk_summary.go\<close>, \<open>chunk_hotpath.go\<close> and
  \<open>validation_hotpath.go\<close> that compute the same from \<open>ListChunks\<close> and \<open>ListValidationResults\<close> when
  a repository does not provide them. The lemmas show that both agree.
\<close>

section \<open>Summaries\<close>

record ChunkTableSummary =
  cs_Total :: int
  cs_Success :: int
  cs_Pending :: int
  cs_Running :: int
  cs_Failed :: int
  cs_RowsWritten :: int
  cs_BytesWritten :: int
  cs_ReadMS :: int
  cs_WriteMS :: int
  cs_LatencySamples :: int

text \<open>The struct for a task repeats the fields of the one for a table and adds the tables.\<close>

record TaskChunkSummary =
  ts_all :: ChunkTableSummary
  ts_Tables :: "(string, ChunkTableSummary) gomap"

definition zero_ChunkTableSummary :: ChunkTableSummary where
  "zero_ChunkTableSummary = \<lparr>cs_Total = 0, cs_Success = 0, cs_Pending = 0, cs_Running = 0,
     cs_Failed = 0, cs_RowsWritten = 0, cs_BytesWritten = 0, cs_ReadMS = 0, cs_WriteMS = 0,
     cs_LatencySamples = 0\<rparr>"

definition summary_status :: "MigrationChunk \<Rightarrow> ChunkTableSummary \<Rightarrow> ChunkTableSummary" where
  "summary_status c t = (case ch_Status c of
      ChunkSuccess \<Rightarrow> t\<lparr>cs_Success := cs_Success t + 1,
         cs_RowsWritten := i64 (cs_RowsWritten t + ch_RowsWritten c),
         cs_BytesWritten := i64 (cs_BytesWritten t + ch_BytesWritten c)\<rparr>
    | ChunkPending \<Rightarrow> t\<lparr>cs_Pending := cs_Pending t + 1\<rparr>
    | ChunkRunning \<Rightarrow> t\<lparr>cs_Running := cs_Running t + 1\<rparr>
    | ChunkFailed \<Rightarrow> t\<lparr>cs_Failed := cs_Failed t + 1\<rparr>
    | _ \<Rightarrow> t)"

definition summary_add :: "MigrationChunk \<Rightarrow> ChunkTableSummary \<Rightarrow> ChunkTableSummary" where
  "summary_add c t0 =
     (let t = summary_status c (t0\<lparr>cs_Total := cs_Total t0 + 1\<rparr>)
      in t\<lparr>cs_ReadMS := i64 (cs_ReadMS t + ch_LastReadMS c),
           cs_WriteMS := i64 (cs_WriteMS t + ch_LastWriteMS c),
           cs_LatencySamples := cs_LatencySamples t + (if ch_LastReadMS c > 0 then 1 else 0)\<rparr>)"

definition summary_step :: "MigrationChunk \<Rightarrow> TaskChunkSummary \<Rightarrow> TaskChunkSummary" where
  "summary_step c out =
     (let t = (case map_of (ts_Tables out) (ch_TableID c) of None \<Rightarrow> zero_ChunkTableSummary | Some t \<Rightarrow> t)
      in out\<lparr>ts_all := summary_add c (ts_all out),
             ts_Tables := AList.update (ch_TableID c) (summary_add c t) (ts_Tables out)\<rparr>)"

definition summarize :: "MigrationChunk list \<Rightarrow> TaskChunkSummary" where
  "summarize cs = fold summary_step cs \<lparr>ts_all = zero_ChunkTableSummary, ts_Tables = []\<rparr>"

definition task_chunks :: "string \<Rightarrow> Store \<Rightarrow> MigrationChunk list" where
  "task_chunks taskID s = filter (\<lambda>c. ch_TaskID c = taskID) (map snd (st_chunks s))"

definition SummarizeTaskChunks :: "string \<Rightarrow> Store \<Rightarrow> TaskChunkSummary" where
  "SummarizeTaskChunks taskID s = summarize (task_chunks taskID s)"

text \<open>The function with its fallback; \<open>provides\<close> tells whether the repository has the method.\<close>

definition SummarizeChunks :: "bool \<Rightarrow> string \<Rightarrow> Store \<Rightarrow> TaskChunkSummary" where
  "SummarizeChunks provides taskID s =
     (if provides then SummarizeTaskChunks taskID s else summarize (ListChunks taskID s))"

section \<open>Chunk hot path\<close>

definition max_chunk_no :: "MigrationChunk list \<Rightarrow> int" where
  "max_chunk_no cs = fold (\<lambda>c m. if ch_ChunkNo c > m then ch_ChunkNo c else m) cs 0"

definition MaxTaskChunkNo_store :: "string \<Rightarrow> Store \<Rightarrow> int" where
  "MaxTaskChunkNo_store taskID s = max_chunk_no (task_chunks taskID s)"

definition MaxTaskChunkNo :: "bool \<Rightarrow> string \<Rightarrow> Store \<Rightarrow> int" where
  "MaxTaskChunkNo provides taskID s =
     (if provides then MaxTaskChunkNo_store taskID s else max_chunk_no (ListChunks taskID s))"

record TableRunnableCounts =
  rc_Pending :: int
  rc_Running :: int

definition Runnable :: "TableRunnableCounts \<Rightarrow> int" where
  "Runnable c = rc_Pending c + rc_Running c"

definition runnable_step :: "MigrationChunk \<Rightarrow> TableRunnableCounts \<Rightarrow> TableRunnableCounts" where
  "runnable_step c out = (case ch_Status c of
      ChunkPending \<Rightarrow> out\<lparr>rc_Pending := rc_Pending out + 1\<rparr>
    | ChunkRunning \<Rightarrow> out\<lparr>rc_Running := rc_Running out + 1\<rparr>
    | _ \<Rightarrow> out)"

definition count_runnable :: "string \<Rightarrow> MigrationChunk list \<Rightarrow> TableRunnableCounts" where
  "count_runnable tableID cs =
     fold runnable_step (filter (\<lambda>c. ch_TableID c = tableID) cs) \<lparr>rc_Pending = 0, rc_Running = 0\<rparr>"

definition CountTableRunnable_store :: "string \<Rightarrow> string \<Rightarrow> Store \<Rightarrow> TableRunnableCounts" where
  "CountTableRunnable_store taskID tableID s = count_runnable tableID (task_chunks taskID s)"

definition CountTableRunnable :: "bool \<Rightarrow> string \<Rightarrow> string \<Rightarrow> Store \<Rightarrow> TableRunnableCounts" where
  "CountTableRunnable provides taskID tableID s =
     (if provides then CountTableRunnable_store taskID tableID s
      else count_runnable tableID (ListChunks taskID s))"

definition ListPendingTableChunks_store :: "string \<Rightarrow> string \<Rightarrow> Store \<Rightarrow> MigrationChunk list" where
  "ListPendingTableChunks_store taskID tableID s =
     sort_key ch_ChunkNo
       (filter (\<lambda>c. ch_TaskID c = taskID \<and> ch_TableID c = tableID \<and> ch_Status c = ChunkPending)
         (map snd (st_chunks s)))"

definition ListPendingTableChunks :: "bool \<Rightarrow> string \<Rightarrow> string \<Rightarrow> Store \<Rightarrow> MigrationChunk list" where
  "ListPendingTableChunks provides taskID tableID s =
     (if provides then ListPendingTableChunks_store taskID tableID s
      else filter (\<lambda>c. ch_TableID c = tableID \<and> ch_Status c = ChunkPending) (ListChunks taskID s))"

definition ListRunningTopologyChunks_store :: "string \<Rightarrow> string \<Rightarrow> Store \<Rightarrow> MigrationChunk list" where
  "ListRunningTopologyChunks_store taskID topologyID s =
     filter (\<lambda>c. ch_TaskID c = taskID \<and> ch_Status c = ChunkRunning \<and> ch_TopologyID c = topologyID)
       (map snd (st_chunks s))"

definition ListRunningTopologyChunks :: "bool \<Rightarrow> string \<Rightarrow> string \<Rightarrow> Store \<Rightarrow> MigrationChunk list" where
  "ListRunningTopologyChunks provides taskID topologyID s =
     (if provides then ListRunningTopologyChunks_store taskID topologyID s
      else filter (\<lambda>c. ch_Status c = ChunkRunning \<and> ch_TopologyID c = topologyID) (ListChunks taskID s))"

definition ListRunningFaultDomainChunks_store ::
  "string \<Rightarrow> string \<Rightarrow> string \<Rightarrow> Store \<Rightarrow> MigrationChunk list" where
  "ListRunningFaultDomainChunks_store taskID scope val s =
     filter (\<lambda>c. ch_TaskID c = taskID \<and> ch_Status c = ChunkRunning \<and> sget (ch_FaultDomain c) scope = val)
       (map snd (st_chunks s))"

definition ListRunningFaultDomainChunks ::
  "bool \<Rightarrow> string \<Rightarrow> string \<Rightarrow> string \<Rightarrow> Store \<Rightarrow> MigrationChunk list" where
  "ListRunningFaultDomainChunks provides taskID scope val s =
     (if provides then ListRunningFaultDomainChunks_store taskID scope val s
      else filter (\<lambda>c. ch_Status c = ChunkRunning \<and> sget (ch_FaultDomain c) scope = val)
             (ListChunks taskID s))"

section \<open>Validation hot path\<close>

definition ListTableChunksPage_any ::
  "bool \<Rightarrow> string \<Rightarrow> string \<Rightarrow> int \<Rightarrow> string \<Rightarrow> int \<Rightarrow> Store \<Rightarrow> MigrationChunk list" where
  "ListTableChunksPage_any provides taskID tableID afterNo afterID limit s =
     (if provides then ListTableChunksPage taskID tableID afterNo afterID limit s
      else let limit = (if limit \<le> 0 then 512 else limit) in
        take (nat limit) (sort_key page_key
          (filter (chunk_after afterNo afterID) (filter (\<lambda>ch. ch_TableID ch = tableID) (ListChunks taskID s)))))"

definition HasValidationResults_any :: "bool \<Rightarrow> string \<Rightarrow> Store \<Rightarrow> bool" where
  "HasValidationResults_any provides taskID s =
     (if provides then HasValidationResults taskID s else ListValidationResults taskID s \<noteq> [])"

definition FirstInvalidSuccessfulChunk_any :: "bool \<Rightarrow> string \<Rightarrow> Store \<Rightarrow> string \<times> ValidationStatus" where
  "FirstInvalidSuccessfulChunk_any provides taskID s =
     (if provides then FirstInvalidSuccessfulChunk taskID s
      else first_invalid (latest_results newer (ListValidationResults taskID s))
             (filter (\<lambda>ch. ch_Status ch = ChunkSuccess) (ListChunks taskID s)))"

definition ListRepairableValidationChunkIDs_any :: "bool \<Rightarrow> string \<Rightarrow> int \<Rightarrow> Store \<Rightarrow> string list" where
  "ListRepairableValidationChunkIDs_any provides taskID limit s =
     (if provides then ListRepairableValidationChunkIDs taskID limit s
      else let out = sort (map fst (filter
               (\<lambda>(i, v). vr_Status v = ValidationMismatch \<or> vr_Status v = ValidationError)
               (latest_results newer (ListValidationResults taskID s))))
           in if limit > 0 \<and> int (length out) > limit then take (nat limit) out else out)"

section \<open>Order does not matter\<close>

lemma i64_add_left [simp]: "i64 (i64 a + b) = i64 (a + b)"
proof -
  have "(i64 a + b + 2 ^ 63) mod 2 ^ 64 = (a + b + 2 ^ 63) mod (2 ^ 64 :: int)"
    by (simp add: i64_def mod_simps algebra_simps)
  then show ?thesis by (simp add: i64_def)
qed

lemma i64_add_right [simp]: "i64 (b + i64 a) = i64 (b + a)"
  by (metis i64_add_left add.commute)

lemma summary_add_swap: "summary_add c (summary_add d t) = summary_add d (summary_add c t)"
  by (cases "ch_Status c"; cases "ch_Status d")
    (simp_all add: summary_add_def summary_status_def Let_def ac_simps)

lemma fold_summary_mset: "mset cs = mset ds \<Longrightarrow> fold summary_add cs t = fold summary_add ds t"
  using fold_multiset_equiv [of cs summary_add ds] by (auto simp: fun_eq_iff summary_add_swap)

lemma summary_tables:
  "ts_all (fold summary_step cs out) = fold summary_add cs (ts_all out)"
  "map_of (ts_Tables (fold summary_step cs out)) tb =
     (if filter (\<lambda>c. ch_TableID c = tb) cs = [] then map_of (ts_Tables out) tb
      else Some (fold summary_add (filter (\<lambda>c. ch_TableID c = tb) cs)
             (case map_of (ts_Tables out) tb of None \<Rightarrow> zero_ChunkTableSummary | Some t \<Rightarrow> t)))"
  by (induction cs arbitrary: out)
    (auto simp: summary_step_def Let_def update_conv split: option.split)

lemma ListChunks_mset: "mset (ListChunks t s) = mset (task_chunks t s)"
  by (simp add: ListChunks_def task_chunks_def)

lemma max_chunk_no_mset: "mset cs = mset ds \<Longrightarrow> max_chunk_no cs = max_chunk_no ds"
  unfolding max_chunk_no_def by (subst fold_multiset_equiv [of cs _ ds]) (auto simp: fun_eq_iff)

lemma count_runnable_mset: "mset cs = mset ds \<Longrightarrow> count_runnable tb cs = count_runnable tb ds"
proof -
  assume m: "mset cs = mset ds"
  have "runnable_step c \<circ> runnable_step d = runnable_step d \<circ> runnable_step c" for c d
    by (simp add: fun_eq_iff runnable_step_def split: ChunkStatus.split)
  then have "fold runnable_step (filter (\<lambda>c. ch_TableID c = tb) cs) = fold runnable_step (filter (\<lambda>c. ch_TableID c = tb) ds)"
    using m by (intro fold_multiset_equiv) (auto simp: mset_filter)
  then show ?thesis by (simp add: count_runnable_def)
qed

lemma sorted_second:
  "(\<And>x. x \<in> set xs \<Longrightarrow> k x = a) \<Longrightarrow> sorted (map (\<lambda>x. (k x, f x)) xs) \<Longrightarrow> sorted (map f xs)"
  for a :: "'b :: linorder" and f :: "'a \<Rightarrow> 'c :: linorder"
  by (induction xs) auto

text \<open>
  The chunk queries of a repository that answers them itself and the fallbacks over the list
  of chunks give the same: equal task totals and equal totals per table, the same highest
  chunk number and runnable counts, and the same chunks, pending ones in the order of their
  number either way.
\<close>

theorem chunk_hotpath_agrees:
  "ts_all (SummarizeChunks True t s) = ts_all (SummarizeChunks False t s)
   \<and> map_of (ts_Tables (SummarizeChunks True t s)) = map_of (ts_Tables (SummarizeChunks False t s))
   \<and> MaxTaskChunkNo True t s = MaxTaskChunkNo False t s
   \<and> CountTableRunnable True t tb s = CountTableRunnable False t tb s
   \<and> mset (ListPendingTableChunks True t tb s) = mset (ListPendingTableChunks False t tb s)
   \<and> sorted (map ch_ChunkNo (ListPendingTableChunks p t tb s))
   \<and> mset (ListRunningTopologyChunks True t i s) = mset (ListRunningTopologyChunks False t i s)
   \<and> mset (ListRunningFaultDomainChunks True t i v s) = mset (ListRunningFaultDomainChunks False t i v s)"
proof (intro conjI)
  note m = ListChunks_mset [of t s, symmetric]
  have mf: "mset (filter P (task_chunks t s)) = mset (filter P (ListChunks t s))" for P
    by (simp add: mset_filter m)
  have split_task: "filter (\<lambda>c. ch_TaskID c = t \<and> Q c) xs = filter Q (filter (\<lambda>c. ch_TaskID c = t) xs)" for Q xs
    by (simp add: conj_commute)
  show "ts_all (SummarizeChunks True t s) = ts_all (SummarizeChunks False t s)"
    by (simp add: SummarizeChunks_def SummarizeTaskChunks_def summarize_def summary_tables fold_summary_mset [OF m])
  show "map_of (ts_Tables (SummarizeChunks True t s)) = map_of (ts_Tables (SummarizeChunks False t s))"
  proof
    fix tb
    have "filter (\<lambda>c. ch_TableID c = tb) (task_chunks t s) = [] \<longleftrightarrow> filter (\<lambda>c. ch_TableID c = tb) (ListChunks t s) = []"
      by (metis mf mset_zero_iff)
    with fold_summary_mset [OF mf [of "\<lambda>c. ch_TableID c = tb"]]
    show "map_of (ts_Tables (SummarizeChunks True t s)) tb = map_of (ts_Tables (SummarizeChunks False t s)) tb"
      by (simp add: SummarizeChunks_def SummarizeTaskChunks_def summarize_def summary_tables)
  qed
  show "MaxTaskChunkNo True t s = MaxTaskChunkNo False t s"
    by (simp add: MaxTaskChunkNo_def MaxTaskChunkNo_store_def max_chunk_no_mset [OF m])
  show "CountTableRunnable True t tb s = CountTableRunnable False t tb s"
    by (simp add: CountTableRunnable_def CountTableRunnable_store_def count_runnable_mset [OF m])
  show "mset (ListPendingTableChunks True t tb s) = mset (ListPendingTableChunks False t tb s)"
    unfolding ListPendingTableChunks_def ListPendingTableChunks_store_def if_True if_False
      split_task mset_sort mf [symmetric] task_chunks_def ..
  have "sorted (map (\<lambda>c. (ch_TableID c, ch_ChunkNo c)) (ListPendingTableChunks False t tb s))"
    unfolding ListPendingTableChunks_def ListChunks_def if_False by (intro sorted_filter) simp
  then have "sorted (map ch_ChunkNo (ListPendingTableChunks False t tb s))"
    by (rule sorted_second [rotated]) (simp add: ListPendingTableChunks_def)
  then show "sorted (map ch_ChunkNo (ListPendingTableChunks p t tb s))"
    by (cases p) (simp_all add: ListPendingTableChunks_def ListPendingTableChunks_store_def)
  show "mset (ListRunningTopologyChunks True t i s) = mset (ListRunningTopologyChunks False t i s)"
    unfolding ListRunningTopologyChunks_def ListRunningTopologyChunks_store_def if_True if_False
      split_task mf [symmetric] task_chunks_def ..
  show "mset (ListRunningFaultDomainChunks True t i v s) = mset (ListRunningFaultDomainChunks False t i v s)"
    unfolding ListRunningFaultDomainChunks_def ListRunningFaultDomainChunks_store_def if_True if_False
      split_task mf [symmetric] task_chunks_def ..
qed

section \<open>Validation queries\<close>

definition no_ties :: "string \<Rightarrow> Store \<Rightarrow> bool" where
  "no_ties taskID s \<longleftrightarrow>
     distinct (map (\<lambda>v. (vr_ChunkID v, vr_FinishedAt v)) (task_results taskID s)) \<and>
     distinct (map (\<lambda>c. (ch_TableID c, ch_ChunkNo c)) (success_chunks taskID s))"

lemma latest_newer_cong:
  assumes "set vs = set ws" and "inj_on vr_ID (set vs)" and "inj_on (\<lambda>v. (vr_ChunkID v, vr_FinishedAt v)) (set vs)"
  shows "map_of (latest_results newer vs) c = map_of (latest_results newer ws) c"
proof -
  let ?le = "\<lambda>v w. vr_FinishedAt v \<le> vr_FinishedAt w"
  have spec: "case map_of (latest_results newer us) c of
       None \<Rightarrow> \<forall>v \<in> set us. vr_ChunkID v \<noteq> c
     | Some x \<Rightarrow> x \<in> set us \<and> vr_ChunkID x = c \<and> (\<forall>v \<in> set us. vr_ChunkID v = c \<longrightarrow> ?le v x)"
    if "inj_on vr_ID (set us)" for us
    using latest_results_spec [of us newer ?le] that by (auto simp: newer_def)
  have vs: "inj_on vr_ID (set vs)" and ws: "inj_on vr_ID (set ws)" using assms(1,2) by simp_all
  show ?thesis
  proof (cases "map_of (latest_results newer vs) c")
    case None
    with spec [OF vs] spec [OF ws] assms(1) show ?thesis by (auto split: option.splits)
  next
    case (Some x)
    with spec [OF vs] have x: "x \<in> set vs" "vr_ChunkID x = c" "\<forall>v \<in> set vs. vr_ChunkID v = c \<longrightarrow> ?le v x" by simp_all
    from spec [OF ws] x(1,2) assms(1) obtain y where y: "map_of (latest_results newer ws) c = Some y"
      "y \<in> set vs" "vr_ChunkID y = c" "\<forall>v \<in> set vs. vr_ChunkID v = c \<longrightarrow> ?le v y"
      by (cases "map_of (latest_results newer ws) c") auto
    have "vr_FinishedAt x = vr_FinishedAt y" using x y by (simp add: antisym)
    with x y assms(3) have "x = y" by (auto dest: inj_onD)
    with Some y(1) show ?thesis by simp
  qed
qed

lemma latest_keys:
  "gmap_wf (latest_results nw vs)"
  by (induction vs rule: rev_induct) (auto simp: latest_results_def latest_result_step_def split: option.split)

lemma repairable_cong:
  assumes "\<And>c. map_of (latest_results newer vs) c = map_of (latest_results newer ws) c"
  shows "sort (map fst (filter P (latest_results newer vs))) = sort (map fst (filter P (latest_results newer ws)))"
proof (rule sorted_distinct_set_unique)
  show "distinct (sort (map fst (filter P (latest_results newer vs))))"
    "distinct (sort (map fst (filter P (latest_results newer ws))))"
    using latest_keys [of newer] by (simp_all add: distinct_map_filter)
  have "(c, v) \<in> set (latest_results newer vs) \<longleftrightarrow> (c, v) \<in> set (latest_results newer ws)" for c v
    using assms [of c] latest_keys [of newer vs] latest_keys [of newer ws] by (metis map_of_eq_Some_iff)
  then show "set (sort (map fst (filter P (latest_results newer vs)))) = set (sort (map fst (filter P (latest_results newer ws))))"
    by auto
qed auto

lemma first_invalid_cong:
  "(\<And>c. map_of m c = map_of m' c) \<Longrightarrow> first_invalid m chs = first_invalid m' chs"
  by (induction chs) (simp_all split: option.split)

text \<open>
  The validation queries agree with their fallbacks: pages of chunks and the test for any
  result always, the first invalid chunk and the repairable chunks whenever no two attempts of
  a chunk finished at the same instant and no two successful chunks of a table share a number.
\<close>

theorem validation_hotpath_agrees:
  assumes "store_wf s" and "no_ties t s" and "t \<noteq> []"
  shows "ListTableChunksPage_any True t tb no i limit s = ListTableChunksPage_any False t tb no i limit s
    \<and> HasValidationResults_any True t s = HasValidationResults_any False t s
    \<and> FirstInvalidSuccessfulChunk_any True t s = FirstInvalidSuccessfulChunk_any False t s
    \<and> ListRepairableValidationChunkIDs_any True t limit s = ListRepairableValidationChunkIDs_any False t limit s"
proof (intro conjI)
  have listed: "set (task_results t s) = set (ListValidationResults t s)"
    using assms(3) by (simp add: ListValidationResults_def task_results_def)
  have ids: "inj_on vr_ID (set (task_results t s))"
    using validations_inj [OF assms(1)] by (auto simp: task_results_def intro: inj_on_subset)
  have latest: "map_of (latest_results newer (task_results t s)) c
      = map_of (latest_results newer (ListValidationResults t s)) c" for c
    by (rule latest_newer_cong [OF listed ids]) (use assms(2) in \<open>simp add: no_ties_def distinct_map\<close>)
  show "ListTableChunksPage_any True t tb no i limit s = ListTableChunksPage_any False t tb no i limit s"
  proof -
    let ?a = "filter (chunk_after no i) (filter (\<lambda>ch. ch_TaskID ch = t \<and> ch_TableID ch = tb) (map snd (st_chunks s)))"
    let ?b = "filter (chunk_after no i) (filter (\<lambda>ch. ch_TableID ch = tb) (ListChunks t s))"
    have "mset ?a = mset ?b"
      by (simp add: mset_filter ListChunks_def filter_filter_mset conj_ac)
    moreover have "inj_on page_key (set ?a)"
      using chunks_keyed_inj(1) [OF assms(1)] by (auto simp: inj_on_def)
    ultimately have "sort_key page_key ?a = sort_key page_key ?b" by (rule sort_key_cong_mset)
    then show ?thesis by (simp add: ListTableChunksPage_any_def ListTableChunksPage_def Let_def)
  qed
  show "HasValidationResults_any True t s = HasValidationResults_any False t s"
  proof -
    have "HasValidationResults t s \<longleftrightarrow> set (task_results t s) \<noteq> {}"
      by (force simp: HasValidationResults_def task_results_def list_ex_iff filter_empty_conv)
    then show ?thesis by (simp add: listed HasValidationResults_any_def)
  qed
  show "FirstInvalidSuccessfulChunk_any True t s = FirstInvalidSuccessfulChunk_any False t s"
  proof -
    have "sort_key (\<lambda>ch. (ch_TableID ch, ch_ChunkNo ch, ch_ID ch)) (success_chunks t s)
        = sort_key (\<lambda>c. (ch_TableID c, ch_ChunkNo c)) (success_chunks t s)" (is "?l = _")
    proof (rule sort_key_unique)
      show "sorted (map (\<lambda>c. (ch_TableID c, ch_ChunkNo c)) ?l)"
        using sorted_sort_key [of "\<lambda>ch. (ch_TableID ch, ch_ChunkNo ch, ch_ID ch)" "success_chunks t s"]
        unfolding sorted_map by (rule sorted_wrt_mono_rel [rotated]) auto
      show "inj_on (\<lambda>c. (ch_TableID c, ch_ChunkNo c)) (set (success_chunks t s))"
        using assms(2) by (simp add: no_ties_def distinct_map)
    qed simp
    also have "\<dots> = filter (\<lambda>ch. ch_Status ch = ChunkSuccess) (ListChunks t s)"
      by (simp add: ListChunks_def success_chunks_def filter_sort conj_commute)
    finally show ?thesis
      by (simp add: FirstInvalidSuccessfulChunk_any_def FirstInvalidSuccessfulChunk_def first_invalid_cong [OF latest])
  qed
  show "ListRepairableValidationChunkIDs_any True t limit s = ListRepairableValidationChunkIDs_any False t limit s"
    by (simp add: ListRepairableValidationChunkIDs_any_def ListRepairableValidationChunkIDs_def Let_def
        repairable_cong [OF latest])
qed

theorem validation_hotpath_agrees_witness:
  "let s = demo_evidence\<lparr>st_validations := tl (st_validations demo_evidence)\<rparr>
   in FirstInvalidSuccessfulChunk_any False ''t'' s = (''c1'', ValidationMismatch)"
proof -
  let ?s = "demo_evidence\<lparr>st_validations := tl (st_validations demo_evidence)\<rparr>"
  have wf: "store_wf ?s"
    using demo_evidence_wf by (simp add: store_wf_def keyed_def demo_evidence_def zero_ValidationResult_def)
  have "no_ties ''t'' ?s"
    by (simp add: no_ties_def task_results_def success_chunks_def demo_evidence_def zero_MigrationChunk_def)
  with validation_hotpath_agrees [OF wf] have "FirstInvalidSuccessfulChunk_any False ''t'' ?s = FirstInvalidSuccessfulChunk_any True ''t'' ?s"
    by auto
  also have "\<dots> = (''c1'', ValidationMismatch)"
    by (simp add: FirstInvalidSuccessfulChunk_any_def FirstInvalidSuccessfulChunk_def success_chunks_def
        demo_evidence_def task_results_def latest_results_def latest_result_step_def zero_MigrationChunk_def)
  finally show ?thesis by (simp add: Let_def)
qed

end
