(* ===== verification/StorePrune.thy ===== *)
theory StorePrune
  imports StoreCDC ValidationArchive
begin

text \<open>
  The janitor of the metadata, \<open>PruneMetadata\<close> of \<open>memory.go\<close> with the retention policy of
  \<open>repository/maintenance.go\<close>: it first archives tasks that ended long ago, then, under one
  lock, drops old task logs, audit events, CDC checkpoints and validation attempts. \<open>now\<close> is
  the reading of the clock at its start.
\<close>

section \<open>Policy\<close>

record MetadataRetentionPolicy =
  rp_TaskLogMaxAge :: duration
  rp_TaskLogMaxRowsPerTask :: int
  rp_AuditMaxAge :: duration
  rp_AuditMaxRows :: int
  rp_CDCPositionMaxAge :: duration
  rp_CDCPositionMaxRowsPerStream :: int
  rp_ValidationMaxAttemptsPerChunk :: int
  rp_ValidationAttemptMaxAge :: duration
  rp_ValidationTerminalMaxAge :: duration
  rp_ValidationArchivePageSize :: int
  rp_ValidationArchiveTasksPerRun :: int
  rp_BatchRows :: int
  rp_MaxBatches :: int

record MetadataPruneResult =
  pr_TaskLogsDeleted :: int
  pr_AuditEventsDeleted :: int
  pr_CDCPositionsDeleted :: int
  pr_ValidationDeleted :: int
  pr_ValidationArchivesCreated :: int

definition TotalDeleted :: "MetadataPruneResult \<Rightarrow> int" where
  "TotalDeleted r = pr_TaskLogsDeleted r + pr_AuditEventsDeleted r + pr_CDCPositionsDeleted r
     + pr_ValidationDeleted r"

definition zero_MetadataPruneResult :: MetadataPruneResult where
  "zero_MetadataPruneResult = \<lparr>pr_TaskLogsDeleted = 0, pr_AuditEventsDeleted = 0,
     pr_CDCPositionsDeleted = 0, pr_ValidationDeleted = 0, pr_ValidationArchivesCreated = 0\<rparr>"

text \<open>The test on the age of a record that four loops share.\<close>

definition too_old :: "time \<Rightarrow> duration \<Rightarrow> time \<Rightarrow> bool" where
  "too_old now maxAge t \<longleftrightarrow> maxAge > 0 \<and> t \<noteq> 0 \<and> time_sub now t > maxAge"

definition task_terminal :: "MigrationTask \<Rightarrow> bool" where
  "task_terminal m \<longleftrightarrow> mig_Status m = StatusFinished \<or> mig_Status m = StatusFailed
     \<or> mig_Status m = StatusCancelled \<or> mig_Status m = StatusRolledBack"

definition terminalValidationArchiveCandidates ::
  "time \<Rightarrow> MetadataRetentionPolicy \<Rightarrow> Store \<Rightarrow> string list" where
  "terminalValidationArchiveCandidates now policy s =
     (if rp_ValidationTerminalMaxAge policy \<le> 0 then []
      else let limit = (if rp_ValidationArchiveTasksPerRun policy \<le> 0 then 8
                        else rp_ValidationArchiveTasksPerRun policy);
               ids = sort (filter (\<lambda>i. map_of (st_validationArchives s) i = None
                   \<and> (case map_of (st_migrations s) i of
                        None \<Rightarrow> False
                      | Some m \<Rightarrow> task_terminal m
                          \<and> too_old now (rp_ValidationTerminalMaxAge policy) (mig_UpdatedAt m)))
                 (remdups (map (\<lambda>(i, v). vr_TaskID v) (st_validations s))))
           in if int (length ids) > limit then take (nat limit) ids else ids)"

section \<open>Logs and checkpoints\<close>

text \<open>Each loop runs from the newest element down; the kept elements end up in order.\<close>

definition count_of :: "(string, int) gomap \<Rightarrow> string \<Rightarrow> int" where
  "count_of m k = (case map_of m k of None \<Rightarrow> 0 | Some n \<Rightarrow> n)"

definition log_step ::
  "time \<Rightarrow> MetadataRetentionPolicy \<Rightarrow> TaskLog \<Rightarrow> TaskLog list \<times> (string, int) gomap \<times> int \<Rightarrow>
   TaskLog list \<times> (string, int) gomap \<times> int" where
  "log_step now policy v = (\<lambda>(kept, counts, deleted).
     if too_old now (rp_TaskLogMaxAge policy) (lg_CreatedAt v)
        \<or> (rp_TaskLogMaxRowsPerTask policy > 0
           \<and> count_of counts (lg_TaskID v) \<ge> rp_TaskLogMaxRowsPerTask policy)
     then (kept, counts, deleted + 1)
     else (v # kept, AList.update (lg_TaskID v) (count_of counts (lg_TaskID v) + 1) counts, deleted))"

definition prune_logs :: "time \<Rightarrow> MetadataRetentionPolicy \<Rightarrow> TaskLog list \<Rightarrow> TaskLog list \<times> int" where
  "prune_logs now policy vs =
     (if vs \<noteq> [] \<and> (rp_TaskLogMaxAge policy > 0 \<or> rp_TaskLogMaxRowsPerTask policy > 0)
      then let (kept, counts, deleted) = fold (log_step now policy) (rev (sort_key lg_CreatedAt vs)) ([], [], 0)
           in (kept, deleted)
      else (vs, 0))"

definition audit_step ::
  "time \<Rightarrow> MetadataRetentionPolicy \<Rightarrow> AuditEvent \<Rightarrow> AuditEvent list \<times> int \<times> int \<Rightarrow>
   AuditEvent list \<times> int \<times> int" where
  "audit_step now policy v = (\<lambda>(kept, n, deleted).
     if too_old now (rp_AuditMaxAge policy) (au_CreatedAt v)
        \<or> (rp_AuditMaxRows policy > 0 \<and> n \<ge> rp_AuditMaxRows policy)
     then (kept, n, deleted + 1)
     else (v # kept, n + 1, deleted))"

definition prune_audits :: "time \<Rightarrow> MetadataRetentionPolicy \<Rightarrow> AuditEvent list \<Rightarrow> AuditEvent list \<times> int" where
  "prune_audits now policy vs =
     (if vs \<noteq> [] \<and> (rp_AuditMaxAge policy > 0 \<or> rp_AuditMaxRows policy > 0)
      then let (kept, n, deleted) = fold (audit_step now policy) (rev (sort_key au_CreatedAt vs)) ([], 0, 0)
           in (kept, deleted)
      else (vs, 0))"

definition position_step ::
  "time \<Rightarrow> MetadataRetentionPolicy \<Rightarrow> CDCPosition \<Rightarrow>
   CDCPosition list \<times> string list \<times> (string, int) gomap \<times> int \<Rightarrow>
   CDCPosition list \<times> string list \<times> (string, int) gomap \<times> int" where
  "position_step now policy v = (\<lambda>(kept, seen, counts, deleted).
     (let key = stream_key v; isNewest = (key \<notin> set seen); seen = List.insert key seen in
      if \<not> isNewest
         \<and> (too_old now (rp_CDCPositionMaxAge policy) (pos_RecordedAt v)
            \<or> (rp_CDCPositionMaxRowsPerStream policy > 0
               \<and> count_of counts key \<ge> rp_CDCPositionMaxRowsPerStream policy))
      then (kept, seen, counts, deleted + 1)
      else (v # kept, seen, AList.update key (count_of counts key + 1) counts, deleted)))"

definition prune_positions ::
  "time \<Rightarrow> MetadataRetentionPolicy \<Rightarrow> CDCPosition list \<Rightarrow> CDCPosition list \<times> int" where
  "prune_positions now policy ps =
     (if ps \<noteq> [] \<and> (rp_CDCPositionMaxAge policy > 0 \<or> rp_CDCPositionMaxRowsPerStream policy > 0)
      then let (kept, seen, counts, deleted) =
             fold (position_step now policy) (rev (sort_key pos_RecordedAt ps)) ([], [], [], 0)
           in (kept, deleted)
      else (ps, 0))"

section \<open>Validation attempts\<close>

definition attempt_key :: "ValidationResult \<Rightarrow> string" where
  "attempt_key v = vr_TaskID v @ CHR 0x00 # vr_ChunkID v"

definition group_step ::
  "ValidationResult \<Rightarrow> (string, ValidationResult list) gomap \<Rightarrow> (string, ValidationResult list) gomap" where
  "group_step v m = AList.update (attempt_key v)
     ((case map_of m (attempt_key v) of None \<Rightarrow> [] | Some vs \<Rightarrow> vs) @ [v]) m"

definition delete_attempt :: "time \<Rightarrow> MetadataRetentionPolicy \<Rightarrow> bool \<Rightarrow> nat \<Rightarrow> ValidationResult \<Rightarrow> bool" where
  "delete_attempt now policy terminalExpired i v \<longleftrightarrow>
     terminalExpired
     \<or> (i > 0 \<and> too_old now (rp_ValidationAttemptMaxAge policy) (vr_FinishedAt v))
     \<or> (rp_ValidationMaxAttemptsPerChunk policy > 0 \<and> int i \<ge> rp_ValidationMaxAttemptsPerChunk policy)"

definition terminal_expired :: "time \<Rightarrow> MetadataRetentionPolicy \<Rightarrow> Store \<Rightarrow> string \<Rightarrow> bool" where
  "terminal_expired now policy s taskID =
     (let task = (case map_of (st_migrations s) taskID of None \<Rightarrow> zero_MigrationTask | Some m \<Rightarrow> m)
      in task_terminal task \<and> too_old now (rp_ValidationTerminalMaxAge policy) (mig_UpdatedAt task)
         \<and> map_of (st_validationArchives s) taskID \<noteq> None)"

definition newest_first :: "ValidationResult list \<Rightarrow> ValidationResult list" where
  "newest_first vs = rev (sort_key result_rank vs)"

definition deleted_attempts :: "time \<Rightarrow> MetadataRetentionPolicy \<Rightarrow> Store \<Rightarrow> ValidationResult list \<Rightarrow> string list" where
  "deleted_attempts now policy s attempts =
     (if attempts = [] then []
      else let expired = terminal_expired now policy s (vr_TaskID (hd attempts));
               vs = newest_first attempts
           in map (\<lambda>i. vr_ID (vs ! i)) (filter (\<lambda>i. delete_attempt now policy expired i (vs ! i)) [0..<length vs]))"

definition prune_validations ::
  "time \<Rightarrow> MetadataRetentionPolicy \<Rightarrow> Store \<Rightarrow> (string, ValidationResult) gomap \<times> int" where
  "prune_validations now policy s =
     (if st_validations s \<noteq> [] \<and> (rp_ValidationMaxAttemptsPerChunk policy > 0
         \<or> rp_ValidationAttemptMaxAge policy > 0 \<or> rp_ValidationTerminalMaxAge policy > 0)
      then let groups = fold group_step (map snd (st_validations s)) [];
               ids = concat (map (\<lambda>(k, vs). deleted_attempts now policy s vs) groups)
           in (filter (\<lambda>(i, v). i \<notin> set ids) (st_validations s), int (length ids))
      else (st_validations s, 0))"

section \<open>The janitor\<close>

definition prune_locked ::
  "time \<Rightarrow> MetadataRetentionPolicy \<Rightarrow> int \<Rightarrow> Store \<Rightarrow> Store \<times> MetadataPruneResult" where
  "prune_locked now policy archives s =
     (let (logs, dl) = prune_logs now policy (st_taskLogs s);
          (audits, da) = prune_audits now policy (st_audits s);
          (ps, dp) = prune_positions now policy (st_cdcPositions s);
          (vals, dv) = prune_validations now policy s
      in (s\<lparr>st_taskLogs := logs, st_audits := audits, st_cdcPositions := ps, st_validations := vals\<rparr>,
          \<lparr>pr_TaskLogsDeleted = dl, pr_AuditEventsDeleted = da, pr_CDCPositionsDeleted = dp,
           pr_ValidationDeleted = dv, pr_ValidationArchivesCreated = archives\<rparr>))"

text \<open>The loop over the candidates; the result is the store, the number of archives created and
  the error that stops it. \<open>env\<close> is what other clients do between the calls.\<close>

fun archive_candidates ::
  "(string \<Rightarrow> io) \<Rightarrow> (string \<Rightarrow> time) \<Rightarrow> (Store \<Rightarrow> Store) \<Rightarrow> int \<Rightarrow> string list \<Rightarrow> int \<Rightarrow> Store \<Rightarrow>
   (Store \<times> int \<times> go_error option) option" where
  "archive_candidates fault clock env pageSize [] n s = Some (s, n, None)"
| "archive_candidates fault clock env pageSize (i # is') n s =
     (case EnsureValidationArchive (fault i) (clock i) env i pageSize s of
        None \<Rightarrow> None
      | Some (s', Inl e) \<Rightarrow>
          if e = ErrNoValidationEvidence then archive_candidates fault clock env pageSize is' n (env s')
          else Some (s', n, Some e)
      | Some (s', Inr (a, created)) \<Rightarrow>
          archive_candidates fault clock env pageSize is' (if created then n + 1 else n) (env s'))"

definition PruneMetadata ::
  "io \<Rightarrow> (string \<Rightarrow> io) \<Rightarrow> (string \<Rightarrow> time) \<Rightarrow> (Store \<Rightarrow> Store) \<Rightarrow> time \<Rightarrow> MetadataRetentionPolicy \<Rightarrow> Store \<Rightarrow>
   (Store \<times> MetadataPruneResult \<times> go_error option) option" where
  "PruneMetadata fault faults clock env now policy s =
     (case archive_candidates faults clock env (page_limit 5000 512 (rp_ValidationArchivePageSize policy))
        (terminalValidationArchiveCandidates now policy s) 0 (env s) of
        None \<Rightarrow> None
      | Some (s1, n, Some e) \<Rightarrow> Some (s1, zero_MetadataPruneResult, Some e)
      | Some (s1, n, None) \<Rightarrow>
          let (s2, result) = prune_locked now policy n s1 in
          if TotalDeleted result = 0 then Some (s2, result, None)
          else let (s3, err) = persistLocked fault s2 in Some (s3, result, err))"

section \<open>Checkpoints\<close>

lemma position_step_keeps:
  assumes "sorted_wrt (\<lambda>a b. pos_RecordedAt b \<le> pos_RecordedAt a) ps"
    and "fold (position_step now policy) ps ([], [], [], 0) = (kept, seen, counts, deleted)"
  shows "set kept \<subseteq> set ps \<and> set seen = stream_key ` set ps
    \<and> (\<forall>p \<in> set ps. \<exists>q \<in> set kept. stream_key q = stream_key p \<and> pos_RecordedAt p \<le> pos_RecordedAt q)"
  using assms
proof (induction ps arbitrary: kept seen counts deleted rule: rev_induct)
  case Nil
  then show ?case by simp
next
  case (snoc v ps)
  obtain kept0 seen0 counts0 deleted0 where f: "fold (position_step now policy) ps ([], [], [], 0) = (kept0, seen0, counts0, deleted0)"
    by (metis prod_cases4)
  with snoc.IH snoc.prems(1) have IH: "set kept0 \<subseteq> set ps" "set seen0 = stream_key ` set ps"
    "\<forall>p \<in> set ps. \<exists>q \<in> set kept0. stream_key q = stream_key p \<and> pos_RecordedAt p \<le> pos_RecordedAt q"
    by (auto simp: sorted_wrt_append)
  have st: "position_step now policy v (kept0, seen0, counts0, deleted0) = (kept, seen, counts, deleted)"
    using snoc.prems(2) f by simp
  then have seen: "set seen = stream_key ` set (ps @ [v])"
    using IH(2) by (auto simp: position_step_def Let_def split: if_splits)
  show ?case
  proof (cases "v \<in> set kept")
    case True
    with st have "kept = v # kept0 \<or> kept = kept0" by (auto simp: position_step_def Let_def split: if_splits)
    with IH True seen show ?thesis by force
  next
    case False
    with st have k: "kept = kept0" "stream_key v \<in> set seen0" by (auto simp: position_step_def Let_def split: if_splits)
    then obtain p where p: "p \<in> set ps" "stream_key p = stream_key v" using IH(2) by auto
    with IH(3) obtain q where "q \<in> set kept0" "stream_key q = stream_key v" "pos_RecordedAt p \<le> pos_RecordedAt q" by auto
    moreover have "pos_RecordedAt v \<le> pos_RecordedAt p" using snoc.prems(1) p(1) by (simp add: sorted_wrt_append)
    ultimately show ?thesis using IH k(1) seen by (auto intro: order_trans)
  qed
qed

lemma prune_positions_keep:
  "set (fst (prune_positions now policy ps)) \<subseteq> set ps"
  "p \<in> set ps \<Longrightarrow> \<exists>q \<in> set (fst (prune_positions now policy ps)). stream_key q = stream_key p \<and> pos_RecordedAt p \<le> pos_RecordedAt q"
proof -
  let ?L = "rev (sort_key pos_RecordedAt ps)"
  obtain kept seen counts deleted where f: "fold (position_step now policy) ?L ([], [], [], 0) = (kept, seen, counts, deleted)"
    by (metis prod_cases4)
  have "sorted_wrt (\<lambda>a b. pos_RecordedAt b \<le> pos_RecordedAt a) ?L"
    using sorted_sort_key [of pos_RecordedAt ps] by (simp add: sorted_wrt_rev sorted_map)
  from position_step_keeps [OF this f]
  have k: "set kept \<subseteq> set ps"
    "\<forall>p \<in> set ps. \<exists>q \<in> set kept. stream_key q = stream_key p \<and> pos_RecordedAt p \<le> pos_RecordedAt q" by auto
  show "set (fst (prune_positions now policy ps)) \<subseteq> set ps"
    using k(1) by (simp add: prune_positions_def f)
  show "p \<in> set ps \<Longrightarrow> \<exists>q \<in> set (fst (prune_positions now policy ps)). stream_key q = stream_key p \<and> pos_RecordedAt p \<le> pos_RecordedAt q"
    using k(2) by (auto simp: prune_positions_def f)
qed

section \<open>Attempts\<close>

lemma groups_spec:
  "gmap_wf (fold group_step vs [])"
  "map_of (fold group_step vs []) k =
     (let g = filter (\<lambda>v. attempt_key v = k) vs in if g = [] then None else Some g)"
proof -
  show "gmap_wf (fold group_step vs [])"
    by (induction vs rule: rev_induct) (simp_all add: group_step_def)
  show "map_of (fold group_step vs []) k =
     (let g = filter (\<lambda>v. attempt_key v = k) vs in if g = [] then None else Some g)"
    by (induction vs arbitrary: k rule: rev_induct) (auto simp: group_step_def Let_def update_conv)
qed

definition clean_ids :: "Store \<Rightarrow> bool" where
  "clean_ids s \<longleftrightarrow> list_all (\<lambda>(i, v). CHR 0x00 \<notin> set (vr_TaskID v)) (st_validations s)"

lemma split_nul:
  assumes "xs @ z # ys = xs' @ z # ys'" and "z \<notin> set xs" and "z \<notin> set xs'"
  shows "xs = xs' \<and> ys = ys'"
  using split_at_char [of xs z ys xs' ys'] assms by simp

lemma attempt_key_inj:
  assumes "clean_ids s" and "v \<in> snd ` set (st_validations s)" and "w \<in> snd ` set (st_validations s)"
    and "attempt_key v = attempt_key w"
  shows "vr_TaskID v = vr_TaskID w \<and> vr_ChunkID v = vr_ChunkID w"
  using assms(4) unfolding attempt_key_def
  by (rule split_nul) (use assms(1-3) in \<open>auto simp: clean_ids_def list_all_iff\<close>)

text \<open>The newest attempt of a chunk is deleted only when its task is expired and archived.\<close>

lemma latest_kept:
  assumes s: "store_wf s" and clean: "clean_ids s" and l: "latest_of t c s = Some v"
    and live: "\<not> terminal_expired now policy s t"
  shows "(vr_ID v, v) \<in> set (fst (prune_validations now policy s))"
proof -
  have k: "keyed vr_ID (st_validations s)" using s by (simp add: store_wf_def)
  from latest_of_spec [OF s, of t c] l have v: "v \<in> snd ` set (st_validations s)" "vr_TaskID v = t" "vr_ChunkID v = c"
    and best: "\<And>w. w \<in> snd ` set (st_validations s) \<Longrightarrow> vr_TaskID w = t \<Longrightarrow> vr_ChunkID w = c \<Longrightarrow> result_rank w \<le> result_rank v"
    by (auto simp del: less_eq_prod_simp)
  have v_in: "(vr_ID v, v) \<in> set (st_validations s)" using v(1) keyedD [OF k] by force
  have dist: "distinct (map snd (st_validations s))"
  proof -
    have "map vr_ID (map snd (st_validations s)) = map fst (st_validations s)"
      using k by (auto simp: keyed_def list_all_iff)
    then show ?thesis using keyed_wf [OF k] by (metis distinct_map)
  qed
  have "vr_ID v \<notin> set (deleted_attempts now policy s g)" if g: "(key, g) \<in> set (fold group_step (map snd (st_validations s)) [])" for key g
  proof
    assume del: "vr_ID v \<in> set (deleted_attempts now policy s g)"
    let ?vs = "newest_first g"
    have gg: "g = filter (\<lambda>v. attempt_key v = key) (map snd (st_validations s))" "g \<noteq> []"
      using map_of_is_SomeI [OF groups_spec(1) g] groups_spec(2) [of "map snd (st_validations s)" key]
      by (simp_all add: Let_def split: if_splits)
    have mem: "set ?vs = set g" and d: "distinct ?vs" using dist gg(1) by (simp_all add: newest_first_def)
    from del obtain i where i: "i < length ?vs" "vr_ID (?vs ! i) = vr_ID v"
      "delete_attempt now policy (terminal_expired now policy s (vr_TaskID (hd g))) i (?vs ! i)"
      by (auto simp: deleted_attempts_def Let_def split: if_splits)
    have gs: "w \<in> snd ` set (st_validations s)" "attempt_key w = key" if "w \<in> set ?vs" for w
      using that [unfolded mem] by (auto simp: gg(1))
    have "?vs ! i = v"
      using validations_inj [OF s] gs(1) [of "?vs ! i"] i(1,2) v(1) by (auto dest: inj_onD)
    then have "v \<in> set ?vs" using nth_mem [OF i(1)] by simp
    then have key: "attempt_key v = key" by (rule gs(2))
    have same: "vr_TaskID w = t" "vr_ChunkID w = c" if "w \<in> set ?vs" for w
      using attempt_key_inj [OF clean gs(1) [OF that] v(1)] gs(2) [OF that] key v(2,3) by simp_all
    have "vr_TaskID (hd g) = t" using same(1) [of "hd g"] gg(2) mem by simp
    with i(3) live have pos: "0 < i" by (auto simp: delete_attempt_def)
    have "sorted_wrt (\<lambda>a b. result_rank b \<le> result_rank a) ?vs"
      using sorted_sort_key [of result_rank g] by (simp add: newest_first_def sorted_wrt_rev sorted_map del: less_eq_prod_simp)
    then have "result_rank (?vs ! i) \<le> result_rank (?vs ! 0)"
      using pos i(1) unfolding sorted_wrt_iff_nth_less by blast
    moreover have "?vs ! 0 \<in> set ?vs" using pos i(1) by (intro nth_mem) linarith
    then have "result_rank (?vs ! 0) \<le> result_rank v" using best [OF gs(1) same] by blast
    ultimately have "result_rank (?vs ! 0) = result_rank v"
      unfolding \<open>?vs ! i = v\<close> by (rule antisym [rotated])
    then have "vr_ID (?vs ! 0) = vr_ID v" by simp
    then have "?vs ! 0 = v"
      using validations_inj [OF s] gs(1) [OF \<open>?vs ! 0 \<in> set ?vs\<close>] v(1) by (auto dest: inj_onD)
    then have "?vs ! 0 = ?vs ! i" using \<open>?vs ! i = v\<close> by simp
    moreover have "0 < length ?vs" using pos i(1) by linarith
    ultimately show False using nth_eq_iff_index_eq [OF d _ i(1), of 0] pos by blast
  qed
  then show ?thesis using v_in by (auto simp: prune_validations_def Let_def)
qed

lemma prune_validations_subset: "\<exists>P. fst (prune_validations now policy s) = filter P (st_validations s)"
proof (cases "st_validations s \<noteq> [] \<and> (rp_ValidationMaxAttemptsPerChunk policy > 0
         \<or> rp_ValidationAttemptMaxAge policy > 0 \<or> rp_ValidationTerminalMaxAge policy > 0)")
  case True
  then show ?thesis by (simp add: prune_validations_def Let_def) blast
next
  case False
  then show ?thesis by (intro exI [of _ "\<lambda>_. True"]) (auto simp: prune_validations_def)
qed

section \<open>Properties\<close>

lemma ensure_effect:
  assumes "EnsureValidationArchive f now (\<lambda>s. s) t n s = Some (s', r)"
  shows "\<exists>ar dk. s' = s\<lparr>st_validationArchives := ar, st_disk := dk\<rparr>"
proof -
  have persist: "\<exists>dk. fst (persistLocked f x) = x\<lparr>st_disk := dk\<rparr>" for x
    by (auto simp: persistLocked_def split: io.split intro: exI [of _ "st_disk x"])
  have self: "\<exists>ar dk. s = s\<lparr>st_validationArchives := ar, st_disk := dk\<rparr>"
    by (intro exI [of _ "st_validationArchives s"] exI [of _ "st_disk s"]) simp
  have create: "\<exists>ar dk. fst (CreateValidationArchive f a s) = s\<lparr>st_validationArchives := ar, st_disk := dk\<rparr>" for a
    using self persist [of "s\<lparr>st_validationArchives := x\<rparr>" for x]
    by (fastforce simp: CreateValidationArchive_def Let_def split_def split: option.split)
  show ?thesis
    using assms self create unfolding EnsureValidationArchive_def
    by (auto split: option.splits sum.splits prod.splits if_splits) (metis fst_conv)+
qed

lemma ensure_wf:
  assumes "store_wf s" and "EnsureValidationArchive f now (\<lambda>s. s) t n s = Some (s', r)"
  shows "store_wf s'"
  using assms validation_wf(3) [OF assms(1), of f] unfolding EnsureValidationArchive_def
  by (auto split: option.splits sum.splits prod.splits if_splits) (metis fst_conv)+

lemma archive_candidates_effect:
  "archive_candidates faults clock (\<lambda>s. s) n is' k s = Some (s', m, e) \<Longrightarrow>
   (\<exists>ar dk. s' = s\<lparr>st_validationArchives := ar, st_disk := dk\<rparr>) \<and> (store_wf s \<longrightarrow> store_wf s')"
proof (induction is' arbitrary: k s)
  case Nil
  then have "s' = s\<lparr>st_validationArchives := st_validationArchives s, st_disk := st_disk s\<rparr>" "s' = s" by simp_all
  then show ?case by metis
next
  case (Cons i is')
  from Cons.prems obtain s1 r where e: "EnsureValidationArchive (faults i) (clock i) (\<lambda>s. s) i n s = Some (s1, r)"
    by (auto split: option.splits)
  obtain ar dk where s1: "s1 = s\<lparr>st_validationArchives := ar, st_disk := dk\<rparr>" using ensure_effect [OF e] by blast
  have wf: "store_wf s \<Longrightarrow> store_wf s1" using ensure_wf [OF _ e] .
  show ?case
  proof (cases "\<exists>k'. archive_candidates faults clock (\<lambda>s. s) n is' k' s1 = Some (s', m, e)")
    case True
    then obtain k' where "archive_candidates faults clock (\<lambda>s. s) n is' k' s1 = Some (s', m, e)" ..
    from Cons.IH [OF this] s1 wf show ?thesis by auto
  next
    case False
    with Cons.prems e have "s' = s1" by (cases r) (auto split: if_splits prod.splits)
    with s1 wf show ?thesis by auto
  qed
qed

lemma prune_effect:
  assumes "PruneMetadata fault faults clock (\<lambda>s. s) now policy s = Some (s', res, err)"
  shows "(\<exists>ar dk. s' = s\<lparr>st_validationArchives := ar, st_disk := dk\<rparr>)
    \<or> (\<exists>s1 n dk. (\<exists>ar dk. s1 = s\<lparr>st_validationArchives := ar, st_disk := dk\<rparr>) \<and> (store_wf s \<longrightarrow> store_wf s1)
          \<and> s' = (fst (prune_locked now policy n s1))\<lparr>st_disk := dk\<rparr>)"
proof -
  from assms obtain s1 n e where c: "archive_candidates faults clock (\<lambda>s. s)
      (page_limit 5000 512 (rp_ValidationArchivePageSize policy)) (terminalValidationArchiveCandidates now policy s) 0 s
      = Some (s1, n, e)"
    by (auto simp: PruneMetadata_def split: option.splits)
  note s1 = archive_candidates_effect [OF c]
  show ?thesis
  proof (cases e)
    case (Some x)
    with assms c s1 show ?thesis by (simp add: PruneMetadata_def)
  next
    case None
    obtain s2 r where l: "prune_locked now policy n s1 = (s2, r)" by (cases "prune_locked now policy n s1")
    have "\<exists>dk. fst (persistLocked fault s2) = s2\<lparr>st_disk := dk\<rparr>"
      by (auto simp: persistLocked_def split: io.split intro: exI [of _ "st_disk s2"])
    moreover have "s2 = s2\<lparr>st_disk := st_disk s2\<rparr>" by simp
    moreover have "s' = s2 \<or> s' = fst (persistLocked fault s2)"
      using assms c None l by (auto simp: PruneMetadata_def split: if_splits prod.splits)
    ultimately have "\<exists>dk. s' = s2\<lparr>st_disk := dk\<rparr>" by metis
    with s1 l show ?thesis by (metis fst_conv)
  qed
qed

definition demo_policy :: MetadataRetentionPolicy where
  "demo_policy = \<lparr>rp_TaskLogMaxAge = 0, rp_TaskLogMaxRowsPerTask = 0, rp_AuditMaxAge = 0,
     rp_AuditMaxRows = 0, rp_CDCPositionMaxAge = 10, rp_CDCPositionMaxRowsPerStream = 1,
     rp_ValidationMaxAttemptsPerChunk = 1, rp_ValidationAttemptMaxAge = 10,
     rp_ValidationTerminalMaxAge = 0, rp_ValidationArchivePageSize = 0,
     rp_ValidationArchiveTasksPerRun = 0, rp_BatchRows = 0, rp_MaxBatches = 0\<rparr>"

lemma demo_prune: "\<exists>s' res err. PruneMetadata IOok (\<lambda>_. IOok) (\<lambda>_. 0) (\<lambda>s. s) 1000 demo_policy s = Some (s', res, err)"
  by (simp add: PruneMetadata_def terminalValidationArchiveCandidates_def demo_policy_def Let_def
      split: prod.splits)

text \<open>
  C17. The janitor never drops what a restart depends on: for every stream, a checkpoint at
  least as recent as any it had survives every policy, nothing is invented, and the spool, the
  dead letters, the tasks, the tables and the chunks are untouched.
\<close>

theorem prune_keeps_checkpoints:
  assumes "PruneMetadata fault faults clock (\<lambda>s. s) now policy s = Some (s', res, err)"
  shows "(\<forall>p \<in> set (st_cdcPositions s). \<exists>q \<in> set (st_cdcPositions s').
            stream_key q = stream_key p \<and> pos_RecordedAt p \<le> pos_RecordedAt q)
    \<and> set (st_cdcPositions s') \<subseteq> set (st_cdcPositions s)
    \<and> st_cdcSpool s' = st_cdcSpool s \<and> st_cdcDeadLetters s' = st_cdcDeadLetters s
    \<and> st_migrations s' = st_migrations s \<and> st_tables s' = st_tables s \<and> st_chunks s' = st_chunks s"
  using prune_effect [OF assms]
proof (elim disjE exE conjE)
  fix ar dk assume "s' = s\<lparr>st_validationArchives := ar, st_disk := dk\<rparr>"
  then show ?thesis by auto
next
  fix s1 n dk ar dk' assume s1: "s1 = s\<lparr>st_validationArchives := ar, st_disk := dk'\<rparr>"
    and s': "s' = (fst (prune_locked now policy n s1))\<lparr>st_disk := dk\<rparr>"
  have "st_cdcPositions s' = fst (prune_positions now policy (st_cdcPositions s))"
    "st_cdcSpool s' = st_cdcSpool s" "st_cdcDeadLetters s' = st_cdcDeadLetters s"
    "st_migrations s' = st_migrations s" "st_tables s' = st_tables s" "st_chunks s' = st_chunks s"
    using s' by (simp_all add: s1 prune_locked_def Let_def split_def)
  with prune_positions_keep show ?thesis by simp
qed

theorem prune_keeps_checkpoints_witness:
  "\<exists>s' res err. PruneMetadata IOok (\<lambda>_. IOok) (\<lambda>_. 0) (\<lambda>s. s) 1000 demo_policy
       (demo_evidence\<lparr>st_cdcPositions := [zero_CDCPosition\<lparr>pos_RecordedAt := 5\<rparr>]\<rparr>) = Some (s', res, err)
     \<and> (\<exists>q \<in> set (st_cdcPositions s'). 5 \<le> pos_RecordedAt q)"
proof -
  let ?s = "demo_evidence\<lparr>st_cdcPositions := [zero_CDCPosition\<lparr>pos_RecordedAt := 5\<rparr>]\<rparr>"
  obtain s' res err where p: "PruneMetadata IOok (\<lambda>_. IOok) (\<lambda>_. 0) (\<lambda>s. s) 1000 demo_policy ?s = Some (s', res, err)"
    using demo_prune by blast
  from prune_keeps_checkpoints [OF p] have "\<exists>q \<in> set (st_cdcPositions s'). 5 \<le> pos_RecordedAt q" by force
  with p show ?thesis by blast
qed

text \<open>
  The newest validation attempt of a chunk survives the janitor under every policy, unless
  its task has ended, has been so for longer than the policy's limit, and the permanent archive
  of its evidence exists; then the archive is the proof that remains.
\<close>

theorem prune_keeps_evidence:
  assumes "store_wf s" and "clean_ids s" and "latest_of t c s = Some v"
    and "PruneMetadata fault faults clock (\<lambda>s. s) now policy s = Some (s', res, err)"
  shows "latest_of t c s' = Some v
    \<or> (GetValidationArchive t s' \<noteq> None \<and> (\<exists>m. map_of (st_migrations s) t = Some m \<and> task_terminal m
         \<and> too_old now (rp_ValidationTerminalMaxAge policy) (mig_UpdatedAt m)))"
  using prune_effect [OF assms(4)]
proof (elim disjE exE conjE)
  fix ar dk assume "s' = s\<lparr>st_validationArchives := ar, st_disk := dk\<rparr>"
  then have "latest_of t c s' = latest_of t c s" by (simp add: latest_of_def task_results_def)
  with assms(3) show ?thesis by simp
next
  fix s1 n dk ar dk' assume s1: "s1 = s\<lparr>st_validationArchives := ar, st_disk := dk'\<rparr>"
    and w: "store_wf s \<longrightarrow> store_wf s1"
    and s': "s' = (fst (prune_locked now policy n s1))\<lparr>st_disk := dk\<rparr>"
  have a: "clean_ids s1" "latest_of t c s1 = Some v"
    using assms(2,3) by (simp_all add: s1 clean_ids_def latest_of_def task_results_def)
  have vals: "st_validations s1 = st_validations s" "st_validations s' = fst (prune_validations now policy s1)"
    and arch: "st_validationArchives s' = st_validationArchives s1"
    using s' by (simp_all add: s1 prune_locked_def Let_def split_def)
  show ?thesis
  proof (cases "terminal_expired now policy s1 t")
    case True
    then show ?thesis
      by (auto simp: terminal_expired_def Let_def s1 GetValidationArchive_def arch task_terminal_def zero_MigrationTask_def
          split: option.splits)
  next
    case False
    have wf1: "store_wf s1" using w assms(1) by simp
    obtain P where P: "st_validations s' = filter P (st_validations s)"
      using prune_validations_subset [of now policy s1] vals by auto
    have v: "(vr_ID v, v) \<in> set (st_validations s')" "vr_TaskID v = t" "vr_ChunkID v = c"
      using latest_kept [OF wf1 a False] vals(2) latest_of_spec [OF assms(1), of t c] assms(3)
      by (simp_all del: less_eq_prod_simp)
    have sub: "set (task_results t s') \<subseteq> set (task_results t s)" by (auto simp: task_results_def P)
    have inj: "inj_on vr_ID (set (task_results t s))"
      using validations_inj [OF assms(1)] by (auto simp: task_results_def intro: inj_on_subset)
    have v_in: "v \<in> set (task_results t s')" using v(1,2) by (force simp: task_results_def)
    from latest_by_id [OF inj_on_subset [OF inj sub], of c] v_in v(3) obtain x where
      x: "latest_of t c s' = Some x" "x \<in> set (task_results t s')" "vr_ChunkID x = c" "result_rank v \<le> result_rank x"
      by (cases "latest_of t c s'") (auto simp: latest_of_def simp del: less_eq_prod_simp)
    have "result_rank x \<le> result_rank v"
    proof -
      have "x \<in> set (task_results t s)" using x(2) sub by blast
      then have "x \<in> snd ` set (st_validations s)" "vr_TaskID x = t" by (auto simp: task_results_def)
      with latest_of_spec [OF assms(1), of t c] assms(3) x(3) show ?thesis
        by (simp del: less_eq_prod_simp) blast
    qed
    with x(4) have "result_rank x = result_rank v" by (rule antisym [rotated])
    then have "x = v" using inj x(2) v_in sub by (auto dest: inj_onD)
    with x(1) show ?thesis by simp
  qed
qed

theorem prune_keeps_evidence_witness:
  "\<exists>s' res err. PruneMetadata IOok (\<lambda>_. IOok) (\<lambda>_. 0) (\<lambda>s. s) 1000 demo_policy demo_evidence = Some (s', res, err)
     \<and> latest_of ''t'' ''c1'' s' = latest_of ''t'' ''c1'' demo_evidence"
proof -
  obtain s' res err where p: "PruneMetadata IOok (\<lambda>_. IOok) (\<lambda>_. 0) (\<lambda>s. s) 1000 demo_policy demo_evidence = Some (s', res, err)"
    using demo_prune by blast
  have "clean_ids demo_evidence" by (simp add: clean_ids_def demo_evidence_def)
  moreover obtain v where v: "latest_of ''t'' ''c1'' demo_evidence = Some v"
    by (simp add: latest_of_def task_results_def latest_results_def latest_result_step_def newer_or_id_def demo_evidence_def)
  ultimately have "latest_of ''t'' ''c1'' s' = Some v"
    using prune_keeps_evidence [OF demo_evidence_wf _ v p] by (auto simp: too_old_def demo_policy_def)
  with p v show ?thesis by auto
qed

end
