(* ===== verification/OrderedMerge.thy ===== *)
theory OrderedMerge
  imports GoPrelude "HOL-Library.Product_Lexorder"
begin

text \<open>
  Merging the committed transactions of several source streams by a global order,
  \<open>backend/internal/cdc/orderedmerge/merge.go\<close>. Orders and watermarks are 64-bit words, whose
  comparison is the unsigned one.
\<close>

section \<open>Model\<close>

type_synonym u64 = "64 word"

record 'a Fragment =
  fr_Stream :: string
  fr_Order :: u64
  fr_Value :: 'a

record 'a Stream =
  sm_ID :: string
  sm_Resolved :: u64
  sm_Fragments :: "'a Fragment list"

record 'a Group =
  gr_Order :: u64
  gr_Fragments :: "'a Fragment list"

text \<open>The loop over the fragments of one stream; \<open>lst\<close> is the order of the previous one.\<close>

fun merge_fragments ::
  "string \<Rightarrow> u64 \<Rightarrow> u64 \<Rightarrow> 'a Fragment list \<Rightarrow> 'a Fragment list \<Rightarrow> go_error + 'a Fragment list" where
  "merge_fragments sid minResolved lst [] acc = Inr acc"
| "merge_fragments sid minResolved lst (f0 # fs) acc =
     (let f = (if fr_Stream f0 = [] then f0\<lparr>fr_Stream := sid\<rparr> else f0) in
      if fr_Stream f \<noteq> sid
      then Inl (ErrText (''fragment stream '' @ fr_Stream f @ '' does not match container '' @ sid))
      else if fr_Order f = 0 then Inl (ErrText (''stream '' @ sid @ '' has zero global order''))
      else if fr_Order f < lst then Inl (ErrText (''stream '' @ sid @ '' fragment order regressed''))
      else merge_fragments sid minResolved (fr_Order f) fs
             (if fr_Order f \<le> minResolved then acc @ [f] else acc))"

text \<open>The loop over the streams, with the streams seen, the running minimum and the fragments.\<close>

fun merge_streams ::
  "'a Stream list \<Rightarrow> string list \<Rightarrow> u64 \<Rightarrow> 'a Fragment list \<Rightarrow> go_error + 'a Fragment list" where
  "merge_streams [] seen minResolved acc = Inr acc"
| "merge_streams (s # ss) seen minResolved acc =
     (if sm_ID s = [] then Inl (ErrText ''ordered merge stream id is empty'')
      else if sm_ID s \<in> set seen then Inl (ErrText (''duplicate ordered merge stream '' @ sm_ID s))
      else if sm_Resolved s = 0
      then Inl (ErrText (''ordered merge stream '' @ sm_ID s @ '' has no resolved watermark''))
      else let minResolved = (if sm_Resolved s < minResolved then sm_Resolved s else minResolved) in
        case merge_fragments (sm_ID s) minResolved 0 (sm_Fragments s) acc of
          Inl e \<Rightarrow> Inl e
        | Inr acc \<Rightarrow> merge_streams ss (sm_ID s # seen) minResolved acc)"

definition group_add :: "'a Fragment \<Rightarrow> 'a Group list \<Rightarrow> 'a Group list" where
  "group_add f out =
     (let out = (if out = [] \<or> gr_Order (last out) \<noteq> fr_Order f
                 then out @ [\<lparr>gr_Order = fr_Order f, gr_Fragments = []\<rparr>] else out)
      in butlast out @ [(last out)\<lparr>gr_Fragments := gr_Fragments (last out) @ [f]\<rparr>])"

definition Merge :: "'a Stream list \<Rightarrow> go_error + 'a Group list" where
  "Merge streams =
     (if streams = [] then Inr []
      else case merge_streams streams [] (- 1) [] of
          Inl e \<Rightarrow> Inl e
        | Inr fs \<Rightarrow> Inr (fold group_add (sort_key (\<lambda>f. (fr_Order f, fr_Stream f)) fs) []))"

section \<open>What is released\<close>

text \<open>The streams with the name of their container filled in, and the watermark that was the
  minimum when a stream was reached.\<close>

definition named :: "'a Stream \<Rightarrow> 'a Fragment list" where
  "named s = map (\<lambda>f. if fr_Stream f = [] then f\<lparr>fr_Stream := sm_ID s\<rparr> else f) (sm_Fragments s)"

fun released :: "u64 \<Rightarrow> 'a Stream list \<Rightarrow> 'a Fragment list" where
  "released m [] = []"
| "released m (s # ss) =
     (let m' = min m (sm_Resolved s) in
      filter (\<lambda>f. fr_Order f \<le> m') (named s) @ released m' ss)"

lemma merge_fragments_spec:
  "merge_fragments sid m l fs acc = Inr acc' \<Longrightarrow>
   acc' = acc @ filter (\<lambda>f. fr_Order f \<le> m) (map (\<lambda>f. if fr_Stream f = [] then f\<lparr>fr_Stream := sid\<rparr> else f) fs)
   \<and> sorted (l # map fr_Order fs) \<and> (\<forall>f \<in> set fs. fr_Stream f = [] \<or> fr_Stream f = sid) \<and> 0 \<notin> fr_Order ` set fs"
proof (induction sid m l fs acc rule: merge_fragments.induct)
  case (1 sid m l acc)
  then show ?case by simp
next
  case (2 sid m l f0 fs acc)
  let ?f = "if fr_Stream f0 = [] then f0\<lparr>fr_Stream := sid\<rparr> else f0"
  from 2(2) have c: "fr_Stream ?f = sid" "fr_Order ?f \<noteq> 0" "\<not> fr_Order ?f < l"
    and r: "merge_fragments sid m (fr_Order ?f) fs (if fr_Order ?f \<le> m then acc @ [?f] else acc) = Inr acc'"
    by (simp_all add: Let_def split: if_splits)
  have "fr_Order ?f = fr_Order f0" by simp
  with 2(1) [OF refl _ c(2,3) r] c show ?case
    by (auto split: if_splits)
qed

lemma merge_streams_spec:
  "merge_streams ss seen m acc = Inr acc' \<Longrightarrow>
   acc' = acc @ released m ss \<and> distinct (map sm_ID ss) \<and> set (map sm_ID ss) \<inter> set seen = {}
   \<and> (\<forall>s \<in> set ss. sorted (map fr_Order (sm_Fragments s)) \<and> (\<forall>f \<in> set (named s). fr_Stream f = sm_ID s))"
proof (induction ss arbitrary: seen m acc)
  case Nil
  then show ?case by simp
next
  case (Cons s ss)
  let ?m = "min m (sm_Resolved s)"
  have min_eq: "(if sm_Resolved s < m then sm_Resolved s else m) = ?m" by (auto simp: min_def)
  from Cons.prems obtain acc1 where c: "sm_ID s \<notin> set seen"
    and f: "merge_fragments (sm_ID s) ?m 0 (sm_Fragments s) acc = Inr acc1"
    and r: "merge_streams ss (sm_ID s # seen) ?m acc1 = Inr acc'"
    unfolding merge_streams.simps Let_def min_eq by (simp split: if_splits sum.splits)
  from merge_fragments_spec [OF f] have a: "acc1 = acc @ filter (\<lambda>f. fr_Order f \<le> ?m) (named s)"
    "sorted (map fr_Order (sm_Fragments s))" "\<forall>f \<in> set (named s). fr_Stream f = sm_ID s"
    by (auto simp: named_def)
  from Cons.IH [OF r] have i: "acc' = acc1 @ released ?m ss" "distinct (map sm_ID ss)"
    "set (map sm_ID ss) \<inter> set (sm_ID s # seen) = {}"
    "\<forall>s \<in> set ss. sorted (map fr_Order (sm_Fragments s)) \<and> (\<forall>f \<in> set (named s). fr_Stream f = sm_ID s)"
    by blast+
  from a i c show ?case by (simp add: Let_def)
qed

lemma released_iff_min:
  "\<forall>s \<in> set ss. m \<le> sm_Resolved s \<Longrightarrow> released m ss = concat (map (\<lambda>s. filter (\<lambda>f. fr_Order f \<le> m) (named s)) ss)"
  by (induction ss) (simp_all add: Let_def)

lemma released_set:
  "set (released m ss) \<subseteq> (\<Union>s \<in> set ss. set (named s))"
  by (induction ss arbitrary: m) (fastforce simp: Let_def)+

lemma released_complete:
  "s \<in> set ss \<Longrightarrow> f \<in> set (named s) \<Longrightarrow> fr_Order f \<le> m \<Longrightarrow> \<forall>s \<in> set ss. fr_Order f \<le> sm_Resolved s \<Longrightarrow>
   f \<in> set (released m ss)"
  by (induction ss arbitrary: m) (auto simp: Let_def)

section \<open>Groups\<close>

text \<open>A list of groups flattens to the fragments and has one group per order.\<close>

definition groups_of :: "'a Fragment list \<Rightarrow> 'a Group list" where
  "groups_of fs = fold group_add fs []"

lemma merge_groups_spec:
  assumes "sorted (map fr_Order fs)"
  shows "concat (map gr_Fragments (groups_of fs)) = fs
    \<and> sorted_wrt (<) (map gr_Order (groups_of fs))
    \<and> (\<forall>g \<in> set (groups_of fs). gr_Fragments g \<noteq> [] \<and> (\<forall>f \<in> set (gr_Fragments g). fr_Order f = gr_Order g))
    \<and> (fs \<noteq> [] \<longrightarrow> groups_of fs \<noteq> [] \<and> gr_Order (last (groups_of fs)) = fr_Order (last fs))"
  using assms
proof (induction fs rule: rev_induct)
  case Nil
  then show ?case by (simp add: groups_of_def)
next
  case (snoc f fs)
  let ?G = "groups_of fs"
  from snoc have IH: "concat (map gr_Fragments ?G) = fs" "sorted_wrt (<) (map gr_Order ?G)"
    "\<forall>g \<in> set ?G. gr_Fragments g \<noteq> [] \<and> (\<forall>f \<in> set (gr_Fragments g). fr_Order f = gr_Order g)"
    "fs \<noteq> [] \<longrightarrow> ?G \<noteq> [] \<and> gr_Order (last ?G) = fr_Order (last fs)"
    by (auto simp: sorted_append)
  have st: "groups_of (fs @ [f]) = group_add f ?G" by (simp add: groups_of_def)
  show ?case
  proof (cases "?G = []")
    case True
    with IH(1) have "fs = []" by simp
    with True st show ?thesis by (simp add: group_add_def)
  next
    case G: False
    then obtain G0 g where g: "?G = G0 @ [g]" by (metis rev_exhaust)
    have "fs \<noteq> []" using IH(1,3) G by fastforce
    with IH(4) g have lo: "gr_Order g = fr_Order (last fs)" by simp
    have le: "gr_Order g \<le> fr_Order f"
      using snoc.prems \<open>fs \<noteq> []\<close> by (simp add: lo sorted_append)
    show ?thesis
    proof (cases "gr_Order g = fr_Order f")
      case True
      have "groups_of (fs @ [f]) = G0 @ [g\<lparr>gr_Fragments := gr_Fragments g @ [f]\<rparr>]"
        unfolding st g by (simp add: group_add_def True)
      with IH(1-3) True show ?thesis by (simp add: g ball_Un)
    next
      case False
      with le have lt: "gr_Order g < fr_Order f" by simp
      have new: "groups_of (fs @ [f]) = ?G @ [\<lparr>gr_Order = fr_Order f, gr_Fragments = [f]\<rparr>]"
        unfolding st g by (simp add: group_add_def False butlast_append)
      have "\<forall>x \<in> set (map gr_Order ?G). x < fr_Order f"
        using IH(2) lt unfolding g by (auto simp: sorted_wrt_append intro: less_trans)
      with IH(1-3) show ?thesis unfolding new by (simp add: sorted_wrt_append)
    qed
  qed
qed


text \<open>The watermark is the minimum over the streams up to the current one only, so a fragment
  above the watermark of a later stream is released.\<close>

lemma merge_releases_beyond_watermark:
  "\<exists>gs :: nat Group list. Merge
     [\<lparr>sm_ID = ''a'', sm_Resolved = 100, sm_Fragments = [\<lparr>fr_Stream = [], fr_Order = 50, fr_Value = 1\<rparr>]\<rparr>,
      \<lparr>sm_ID = ''b'', sm_Resolved = 10, sm_Fragments = []\<rparr>] = Inr gs
   \<and> (\<exists>g \<in> set gs. gr_Order g = 50)"
  by (simp add: Merge_def Let_def group_add_def)


end
