(* ===== verification/GoStrings.thy ===== *)
theory GoStrings
  imports GoCodec "HOL-Library.Sublist"
begin

text \<open>
  The functions of Go's \<open>strings\<close> package the program uses beyond those of \<open>GoPrelude\<close>:
  searching, replacing, splitting, joining and quoting. A string is its list of bytes.
\<close>

section \<open>Searching\<close>

fun contains :: "string \<Rightarrow> string \<Rightarrow> bool" where
  "contains [] t = (t = [])"
| "contains (c # s) t = (prefix t (c # s) \<or> contains s t)"

lemma contains_iff: "contains s t \<longleftrightarrow> (\<exists>u v. s = u @ t @ v)"
proof (induction s)
  case (Cons c s)
  have "(\<exists>u v. c # s = u @ t @ v) \<longleftrightarrow> (\<exists>v. c # s = t @ v) \<or> (\<exists>u v. s = u @ t @ v)"
    by (metis append_Cons append_Nil list.inject neq_Nil_conv)
  with Cons show ?case by (auto simp: prefix_def)
qed simp

lemma contains_trans: "contains s t \<Longrightarrow> contains t u \<Longrightarrow> contains s u"
  unfolding contains_iff by (metis append.assoc)

lemma contains_appendI [intro]: "contains s t \<Longrightarrow> contains (s @ r) t" "contains s t \<Longrightarrow> contains (r @ s) t"
  unfolding contains_iff by (metis append.assoc)+

lemma contains_refl [simp]: "contains s s" and contains_Nil [simp]: "contains s []"
  unfolding contains_iff by (metis append_Nil append_Nil2)+

lemma prefix_contains: "prefix t s \<Longrightarrow> contains s t"
  unfolding contains_iff prefix_def by (metis append_Nil)

section \<open>Replacing\<close>

text \<open>\<open>strings.ReplaceAll\<close>: matches are found from the left and do not overlap. The first
  equation is for an empty pattern, which matches before every byte and at the end.\<close>

fun replace_from :: "nat \<Rightarrow> string \<Rightarrow> string \<Rightarrow> string \<Rightarrow> string" where
  "replace_from skip t u [] = []"
| "replace_from (Suc k) t u (c # s) = replace_from k t u s"
| "replace_from 0 t u (c # s) =
     (if prefix t (c # s) then u @ replace_from (length t - 1) t u s
      else c # replace_from 0 t u s)"

definition replace_all :: "string \<Rightarrow> string \<Rightarrow> string \<Rightarrow> string" where
  "replace_all s t u =
     (if t = [] then concat (map (\<lambda>c. u @ [c]) s) @ u else replace_from 0 t u s)"

lemma replace_from_skip: "replace_from k t u s = replace_from 0 t u (drop k s)"
proof (induction k arbitrary: s)
  case (Suc k)
  then show ?case by (cases s) auto
qed simp

lemma replace_all_match:
  "t \<noteq> [] \<Longrightarrow> replace_all (t @ s) t u = u @ replace_all s t u"
proof -
  assume "t \<noteq> []"
  then obtain c r where t: "t = c # r" by (cases t) auto
  then have "replace_from 0 t u (t @ s) = u @ replace_from (length r) t u (r @ s)" by simp
  then show ?thesis using t by (simp add: replace_all_def replace_from_skip [of "length r"])
qed

lemma replace_all_absent: "\<not> contains s t \<Longrightarrow> replace_all s t u = s"
proof -
  have "\<not> contains s t \<Longrightarrow> replace_from 0 t u s = s" by (induction s) auto
  then show "\<not> contains s t \<Longrightarrow> ?thesis" by (cases "t = []") (auto simp: replace_all_def)
qed

text \<open>A single byte replaced by another keeps the length.\<close>

lemma replace_all_byte: "replace_all s [c] [d] = map (\<lambda>x. if x = c then d else x) s"
  unfolding replace_all_def by (induction s) auto

section \<open>Splitting and joining\<close>

fun split_byte :: "char \<Rightarrow> string \<Rightarrow> string list" where
  "split_byte c [] = [[]]"
| "split_byte c (x # s) =
     (if x = c then [] # split_byte c s
      else case split_byte c s of [] \<Rightarrow> [[x]] | p # ps \<Rightarrow> (x # p) # ps)"

lemma split_byte_nonempty [simp]: "split_byte c s \<noteq> []"
  by (induction s) (auto split: list.splits)

fun join :: "string list \<Rightarrow> string \<Rightarrow> string" where
  "join [] sep = []"
| "join [s] sep = s"
| "join (s # t # r) sep = s @ sep @ join (t # r) sep"

lemma join_Cons: "ps \<noteq> [] \<Longrightarrow> join (p # ps) sep = p @ sep @ join ps sep"
  by (cases ps) auto

lemma join_split [simp]: "join (split_byte c s) [c] = s"
proof (induction s)
  case (Cons x s)
  obtain p ps where ps: "split_byte c s = p # ps" by (cases "split_byte c s") auto
  with Cons show ?case by (cases ps) (auto simp: join_Cons)
qed simp

lemma split_no_sep: "p \<in> set (split_byte c s) \<Longrightarrow> c \<notin> set p"
proof (induction s arbitrary: p)
  case (Cons x s)
  then show ?case by (cases "split_byte c s") (auto split: if_splits)
qed simp

lemma split_join:
  assumes "ps \<noteq> []" "\<forall>p \<in> set ps. c \<notin> set p"
  shows "split_byte c (join ps [c]) = ps"
proof -
  have part: "split_byte c (p @ c # r) = p # split_byte c r" if "c \<notin> set p" for p r
    using that by (induction p) (auto split: list.splits)
  have last: "split_byte c p = [p]" if "c \<notin> set p" for p
    using that by (induction p) auto
  show ?thesis using assms
  proof (induction ps)
    case (Cons p ps)
    then show ?case by (cases ps) (auto simp: part last)
  qed simp
qed

section \<open>Quoting\<close>

text \<open>\<open>%q\<close> of a string of printable characters: quotes and control characters are escaped.\<close>

definition quote_char :: "char \<Rightarrow> string" where
  "quote_char c = (let n = byte_nat c in
     if n = 34 then [CHR 0x5C, CHR 0x22] else if n = 92 then [CHR 0x5C, CHR 0x5C]
     else if n = 7 then [CHR 0x5C, CHR ''a''] else if n = 8 then [CHR 0x5C, CHR ''b'']
     else if n = 9 then [CHR 0x5C, CHR ''t''] else if n = 10 then [CHR 0x5C, CHR ''n'']
     else if n = 11 then [CHR 0x5C, CHR ''v''] else if n = 12 then [CHR 0x5C, CHR ''f'']
     else if n = 13 then [CHR 0x5C, CHR ''r'']
     else if n < 32 \<or> n = 127 then CHR 0x5C # CHR ''x'' # hex_byte c else [c])"

definition go_quote :: "string \<Rightarrow> string" where
  "go_quote s = CHR 0x22 # concat (map quote_char s) @ [CHR 0x22]"

section \<open>Digits\<close>

definition is_digit :: "char \<Rightarrow> bool" where
  "is_digit c \<longleftrightarrow> digit_val c \<noteq> None"

lemma nat_str_digits: "c \<in> set (nat_str m) \<Longrightarrow> is_digit c"
proof (induction m rule: nat_str.induct)
  case (1 m)
  have digit: "is_digit (char_of (48 + d))" if "d < (10 :: nat)" for d
    using that by (simp add: is_digit_def digit_val_char)
  show ?case
  proof (cases "m < 10")
    case True
    with 1(2) digit show ?thesis by (simp add: nat_str.simps [of m])
  next
    case False
    then have "nat_str m = nat_str (m div 10) @ [char_of (48 + m mod 10)]"
      by (subst nat_str.simps) simp
    with False 1 digit [of "m mod 10"] show ?thesis by auto
  qed
qed

lemma int_str_chars: "c \<in> set (int_str n) \<Longrightarrow> is_digit c \<or> c = CHR ''-''"
  by (auto simp: int_str_def dest: nat_str_digits split: if_splits)

lemma lower_no_upper: "(\<And>c. c \<in> set s \<Longrightarrow> lower_char c = c) \<Longrightarrow> to_lower s = s"
  by (simp add: to_lower_def map_idI)

lemma trim_no_space:
  assumes "\<And>c. c \<in> set s \<Longrightarrow> \<not> is_space c"
  shows "trim_space s = s"
proof -
  have "dropWhile is_space u = u" if "\<And>c. c \<in> set u \<Longrightarrow> \<not> is_space c" for u
    using that by (cases u) auto
  from this [of s] this [of "rev s"] assms show ?thesis by (simp add: trim_space_def)
qed

end
