(* ===== verification/GoResult.thy ===== *)
theory GoResult
  imports GoStrings
begin

text \<open>
  Go results in sequence, as the decoders use them: the first error ends a function, a slice
  outside its bounds is a run-time panic, a value of the error type like any other. The lemmas
  on \<open>no_panic\<close> let a decoder be shown free of panics one step at a time.
\<close>

definition bind_r :: "(go_error + 'a) \<Rightarrow> ('a \<Rightarrow> go_error + 'b) \<Rightarrow> go_error + 'b" where
  "bind_r r f = (case r of Inl e \<Rightarrow> Inl e | Inr x \<Rightarrow> f x)"

lemma bind_r_simps [simp]: "bind_r (Inl e) f = Inl e" "bind_r (Inr x) f = f x"
  by (simp_all add: bind_r_def)

lemma bind_r_Inr [simp]: "bind_r r f = Inr y \<longleftrightarrow> (\<exists>x. r = Inr x \<and> f x = Inr y)"
  by (cases r) simp_all

lemma bind_r_cong [fundef_cong]:
  "r = r' \<Longrightarrow> (\<And>x. r' = Inr x \<Longrightarrow> f x = f' x) \<Longrightarrow> bind_r r f = bind_r r' f'"
  by (cases r') simp_all

definition no_panic :: "(go_error + 'a) \<Rightarrow> bool" where
  "no_panic r = (case r of Inl (GoPanic m) \<Rightarrow> False | _ \<Rightarrow> True)"

named_theorems np \<open>freedom from panics\<close>

lemma no_panic_simps [simp]:
  "no_panic (Inr x)" "no_panic (Inl (ErrText m))" "\<not> no_panic (Inl (GoPanic m))"
  by (simp_all add: no_panic_def)

lemma no_panic_bind [np]:
  "no_panic r \<Longrightarrow> (\<And>x. r = Inr x \<Longrightarrow> no_panic (f x)) \<Longrightarrow> no_panic (bind_r r f)"
  by (cases r) (simp_all add: no_panic_def)

lemma no_panic_prod [np]:
  "(\<And>a b. x = (a, b) \<Longrightarrow> no_panic (f a b)) \<Longrightarrow> no_panic (case x of (a, b) \<Rightarrow> f a b)"
  by (cases x) simp

lemma no_panic_if [np]:
  "(c \<Longrightarrow> no_panic a) \<Longrightarrow> (\<not> c \<Longrightarrow> no_panic b) \<Longrightarrow> no_panic (if c then a else b)"
  by simp

text \<open>\<open>p[i:j]\<close>; an offset is a Go \<open>int\<close>.\<close>

definition slice :: "string \<Rightarrow> int \<Rightarrow> int \<Rightarrow> go_error + string" where
  "slice p i j =
     (if 0 \<le> i \<and> i \<le> j \<and> j \<le> int (length p) then Inr (take (nat (j - i)) (drop (nat i) p))
      else Inl (GoPanic ''slice bounds out of range''))"

lemma slice_Inr [simp]: "slice p i j = Inr s \<longleftrightarrow>
    0 \<le> i \<and> i \<le> j \<and> j \<le> int (length p) \<and> s = take (nat (j - i)) (drop (nat i) p)"
  by (auto simp: slice_def)

lemma slice_np [np]: "0 \<le> i \<Longrightarrow> i \<le> j \<Longrightarrow> j \<le> int (length p) \<Longrightarrow> no_panic (slice p i j)"
  by (simp add: slice_def)

lemma length_slice: "slice p i j = Inr s \<Longrightarrow> int (length s) = j - i"
  by auto

section \<open>Numbers\<close>

text \<open>\<open>strconv.ParseUint\<close> in base 10 with 64 bits.\<close>

definition parse_uint :: "string \<Rightarrow> nat option" where
  "parse_uint s = (case parse_nat s of None \<Rightarrow> None
     | Some n \<Rightarrow> if n < 2 ^ 64 then Some (nat n) else None)"

lemma parse_uint_nat_str: "n < 2 ^ 64 \<Longrightarrow> parse_uint (nat_str n) = Some n"
  by (simp add: parse_uint_def)

end
