(* ===== verification/BinlogEvents.thy ===== *)
theory BinlogEvents
  imports GoResult
begin

text \<open>
  Framing of MySQL binlog events, \<open>backend/internal/cdc/mysqlbinlog/parser.go\<close>. Bytes are
  characters, unsigned fields are natural numbers. The lemmas show that a parser never
  panics on any payload, or which payloads make it.
\<close>

section \<open>Slices and integers\<close>

definition byte_at :: "string \<Rightarrow> int \<Rightarrow> nat" where
  "byte_at p i = byte_nat (p ! nat i)"

definition u16le :: "string \<Rightarrow> int \<Rightarrow> nat" where
  "u16le p i = le_nat (take 2 (drop (nat i) p))"

definition u32le :: "string \<Rightarrow> int \<Rightarrow> nat" where
  "u32le p i = le_nat (take 4 (drop (nat i) p))"

definition u64le :: "string \<Rightarrow> int \<Rightarrow> nat" where
  "u64le p i = le_nat (take 8 (drop (nat i) p))"

section \<open>Events\<close>

definition HeaderSize :: int where "HeaderSize = 19"

definition QueryEvent :: nat where "QueryEvent = 2"
definition RotateEvent :: nat where "RotateEvent = 4"
definition XIDEvent :: nat where "XIDEvent = 16"
definition TableMapEvent :: nat where "TableMapEvent = 19"
definition WriteRowsEventV1 :: nat where "WriteRowsEventV1 = 23"
definition UpdateRowsEventV1 :: nat where "UpdateRowsEventV1 = 24"
definition DeleteRowsEventV1 :: nat where "DeleteRowsEventV1 = 25"
definition WriteRowsEventV2 :: nat where "WriteRowsEventV2 = 30"
definition UpdateRowsEventV2 :: nat where "UpdateRowsEventV2 = 31"
definition DeleteRowsEventV2 :: nat where "DeleteRowsEventV2 = 32"
definition GTIDEvent :: nat where "GTIDEvent = 33"
definition AnonymousGTIDEvent :: nat where "AnonymousGTIDEvent = 34"
definition PartialUpdateRowsEvent :: nat where "PartialUpdateRowsEvent = 39"

lemmas event_types = QueryEvent_def RotateEvent_def XIDEvent_def TableMapEvent_def WriteRowsEventV1_def
  UpdateRowsEventV1_def DeleteRowsEventV1_def WriteRowsEventV2_def UpdateRowsEventV2_def
  DeleteRowsEventV2_def GTIDEvent_def AnonymousGTIDEvent_def PartialUpdateRowsEvent_def

record Header =
  hd_Timestamp :: nat
  hd_Type :: nat
  hd_ServerID :: nat
  hd_EventSize :: nat
  hd_LogPos :: nat
  hd_Flags :: nat

record Event =
  ev_Header :: Header
  ev_Payload :: string

abbreviation ev_type :: "Event \<Rightarrow> nat" where
  "ev_type e \<equiv> hd_Type (ev_Header e)"

text \<open>The parser with its number of checksum bytes.\<close>

definition Parse :: "int \<Rightarrow> string \<Rightarrow> go_error + Event" where
  "Parse checksumBytes raw =
     (if int (length raw) < HeaderSize then Inl (ErrText ''binlog event too short'')
      else let h = \<lparr>hd_Timestamp = u32le raw 0, hd_Type = byte_at raw 4, hd_ServerID = u32le raw 5,
                    hd_EventSize = u32le raw 9, hd_LogPos = u32le raw 13, hd_Flags = u16le raw 17\<rparr> in
        if int (hd_EventSize h) < HeaderSize then Inl (ErrText ''invalid binlog event size'')
        else if int (hd_EventSize h) \<noteq> int (length raw) then Inl (ErrText ''binlog event size mismatch'')
        else let stop = int (length raw) - checksumBytes in
          if checksumBytes < 0 \<or> stop < HeaderSize then Inl (ErrText ''invalid binlog checksum length'')
          else case slice raw HeaderSize stop of
              Inl e \<Rightarrow> Inl e
            | Inr payload \<Rightarrow> Inr \<lparr>ev_Header = h, ev_Payload = payload\<rparr>)"

section \<open>Rotate, query, XID\<close>

record Rotate =
  rt_Position :: nat
  rt_File :: string

definition ParseRotate :: "Event \<Rightarrow> go_error + Rotate" where
  "ParseRotate e =
     (if ev_type e \<noteq> RotateEvent then Inl (ErrText ''not a ROTATE_EVENT'')
      else if length (ev_Payload e) < 8 then Inl (ErrText ''ROTATE_EVENT payload too short'')
      else Inr \<lparr>rt_Position = u64le (ev_Payload e) 0, rt_File = drop 8 (ev_Payload e)\<rparr>)"

record Query =
  qy_ThreadID :: nat
  qy_Schema :: string
  qy_SQL :: string

definition ParseQuery :: "Event \<Rightarrow> go_error + Query" where
  "ParseQuery e =
     (if ev_type e \<noteq> QueryEvent then Inl (ErrText ''not a QUERY_EVENT'')
      else let p = ev_Payload e in
        if length p < 13 then Inl (ErrText ''QUERY_EVENT payload too short'')
        else let schemaLen = int (byte_at p 8); statusLen = int (u16le p 11); off = 13 + statusLen in
          if off + schemaLen + 1 > int (length p)
          then Inl (ErrText ''QUERY_EVENT schema/status length exceeds payload'')
          else bind_r (slice p off (off + schemaLen)) (\<lambda>schema.
               bind_r (slice p (off + schemaLen + 1) (int (length p))) (\<lambda>sql.
               Inr \<lparr>qy_ThreadID = u32le p 0, qy_Schema = schema, qy_SQL = sql\<rparr>)))"

definition IsBeginQuery :: "Query \<Rightarrow> bool" where
  "IsBeginQuery q \<longleftrightarrow> equal_fold (trim_space (qy_SQL q)) ''BEGIN''"

definition IsCommitQuery :: "Query \<Rightarrow> bool" where
  "IsCommitQuery q \<longleftrightarrow> equal_fold (trim_space (qy_SQL q)) ''COMMIT''
     \<or> equal_fold (trim_space (qy_SQL q)) ''ROLLBACK''"

definition ParseXID :: "Event \<Rightarrow> go_error + nat" where
  "ParseXID e =
     (if ev_type e \<noteq> XIDEvent then Inl (ErrText ''not an XID_EVENT'')
      else if length (ev_Payload e) < 8 then Inl (ErrText ''XID_EVENT payload too short'')
      else Inr (u64le (ev_Payload e) 0))"

section \<open>Length-encoded integers\<close>

definition readLenEnc :: "string \<Rightarrow> go_error + nat \<times> int" where
  "readLenEnc b =
     (if b = [] then Inl (ErrText ''missing length-encoded integer'')
      else let c = byte_at b 0 in
        if c = 0xfc then
          (if length b < 3 then Inl (ErrText ''short lenenc16'') else Inr (u16le b 1, 3))
        else if c = 0xfd then
          (if length b < 4 then Inl (ErrText ''short lenenc24'') else Inr (le_nat (take 3 (drop 1 b)), 4))
        else if c = 0xfe then
          (if length b < 9 then Inl (ErrText ''short lenenc64'') else Inr (u64le b 1, 9))
        else if c = 0xfb then Inl (ErrText ''NULL lenenc is invalid in binlog metadata'')
        else Inr (c, 1))"

definition readUint48LE :: "string \<Rightarrow> nat" where
  "readUint48LE b = le_nat (take 6 b)"

text \<open>The inverse, as the protocol lays it out.\<close>

definition write_lenenc :: "nat \<Rightarrow> string" where
  "write_lenenc n =
     (if n < 0xfb then [char_of n]
      else if n < 2 ^ 16 then char_of (0xfc :: nat) # le_bytes 2 n
      else if n < 2 ^ 24 then char_of (0xfd :: nat) # le_bytes 3 n
      else char_of (0xfe :: nat) # le_bytes 8 n)"

section \<open>Table maps and rows\<close>

record TableMap =
  tm_TableID :: nat
  tm_Flags :: nat
  tm_Schema :: string
  tm_Table :: string
  tm_ColumnTypes :: string
  tm_ColumnMeta :: string
  tm_NullBitmap :: string

text \<open>A name with its length byte before and a NUL after it, and a counted run of bytes.\<close>

definition counted_name :: "string \<Rightarrow> int \<Rightarrow> string \<Rightarrow> go_error + string \<times> int" where
  "counted_name p off msg =
     (let n = int (byte_at p off); off = off + 1 in
      if off + n + 1 > int (length p) then Inl (ErrText msg)
      else bind_r (slice p off (off + n)) (\<lambda>s. Inr (s, off + n + 1)))"

definition counted_bytes :: "string \<Rightarrow> int \<Rightarrow> string \<Rightarrow> go_error + string \<times> nat \<times> int" where
  "counted_bytes p off msg =
     bind_r (slice p off (int (length p))) (\<lambda>rest.
     bind_r (readLenEnc rest) (\<lambda>(cnt, n).
     let off = off + n in
     if int cnt > int (length p) - off then Inl (ErrText msg)
     else bind_r (slice p off (off + int cnt)) (\<lambda>s. Inr (s, cnt, off + int cnt))))"

definition ParseTableMap :: "Event \<Rightarrow> go_error + TableMap" where
  "ParseTableMap e =
     (if ev_type e \<noteq> TableMapEvent then Inl (ErrText ''not a TABLE_MAP_EVENT'')
      else let p = ev_Payload e in
        if length p < 10 then Inl (ErrText ''TABLE_MAP_EVENT payload too short'')
        else
          bind_r (counted_name p 8 ''invalid table-map schema length'') (\<lambda>(schema, off).
          if off \<ge> int (length p) then Inl (ErrText ''missing table-map table length'')
          else
          bind_r (counted_name p off ''invalid table-map table length'') (\<lambda>(table, off).
          bind_r (counted_bytes p off ''table-map column count exceeds payload'') (\<lambda>(types, cnt, off).
          bind_r (counted_bytes p off ''table-map metadata exceeds payload'') (\<lambda>(meta, metaLen, off).
          let nullLen = (int cnt + 7) div 8 in
          if off + nullLen > int (length p) then Inl (ErrText ''table-map null bitmap exceeds payload'')
          else
          bind_r (slice p off (off + nullLen)) (\<lambda>nulls.
          Inr \<lparr>tm_TableID = readUint48LE p, tm_Flags = u16le p 6, tm_Schema = schema, tm_Table = table,
               tm_ColumnTypes = types, tm_ColumnMeta = meta, tm_NullBitmap = nulls\<rparr>))))))"

record Rows =
  rw_EventType :: nat
  rw_TableID :: nat
  rw_Flags :: nat
  rw_ColumnCount :: nat
  rw_BeforeBitmap :: string
  rw_AfterBitmap :: string
  rw_RowData :: string
  rw_Update :: bool

definition isRows :: "nat \<Rightarrow> bool" where
  "isRows t \<longleftrightarrow> t \<in> set [WriteRowsEventV1, UpdateRowsEventV1, DeleteRowsEventV1, WriteRowsEventV2,
     UpdateRowsEventV2, DeleteRowsEventV2, PartialUpdateRowsEvent]"

definition rows_v2 :: "nat \<Rightarrow> bool" where
  "rows_v2 t \<longleftrightarrow> t = WriteRowsEventV2 \<or> t = UpdateRowsEventV2 \<or> t = DeleteRowsEventV2 \<or> t = PartialUpdateRowsEvent"

text \<open>Where the column count starts; version 2 has a block of extra data before it.\<close>

definition rows_offset :: "nat \<Rightarrow> string \<Rightarrow> go_error + int" where
  "rows_offset t p =
     (if rows_v2 t then
        if length p < 10 then Inl (ErrText ''ROWS_EVENT_V2 payload too short'')
        else let extraLen = int (u16le p 8) in
          if extraLen < 2 \<or> 8 + extraLen > int (length p) then Inl (ErrText ''invalid rows extra-data length'')
          else Inr (8 + extraLen)
      else Inr 8)"

definition ParseRows :: "Event \<Rightarrow> go_error + Rows" where
  "ParseRows e =
     (if \<not> isRows (ev_type e) then Inl (ErrText ''not a ROWS_EVENT'')
      else let p = ev_Payload e; t = ev_type e in
        if length p < 8 then Inl (ErrText ''ROWS_EVENT payload too short'')
        else let update = (t = UpdateRowsEventV1 \<or> t = UpdateRowsEventV2 \<or> t = PartialUpdateRowsEvent) in
          bind_r (rows_offset t p) (\<lambda>off.
          bind_r (readLenEnc (drop (nat off) p)) (\<lambda>(cnt, n).
          let off = off + n; bitmapLen = go_div (i64 (i64 (int cnt) + 7)) 8 in
          if off + bitmapLen > int (length p) then Inl (ErrText ''rows before bitmap exceeds payload'')
          else
          bind_r (slice p off (off + bitmapLen)) (\<lambda>before.
          let off = off + bitmapLen in
          if update \<and> off + bitmapLen > int (length p) then Inl (ErrText ''rows after bitmap exceeds payload'')
          else
          bind_r (if update then slice p off (off + bitmapLen) else Inr []) (\<lambda>after.
          let off = (if update then off + bitmapLen else off) in
          bind_r (slice p off (int (length p))) (\<lambda>row.
          Inr \<lparr>rw_EventType = t, rw_TableID = readUint48LE p, rw_Flags = u16le p 6,
               rw_ColumnCount = cnt, rw_BeforeBitmap = before, rw_AfterBitmap = after,
               rw_RowData = row, rw_Update = update\<rparr>))))))"

definition ParseRowsV2 :: "Event \<Rightarrow> go_error + Rows" where
  "ParseRowsV2 e =
     (if \<not> rows_v2 (ev_type e) then Inl (ErrText ''not a ROWS_EVENT_V2'') else ParseRows e)"

section \<open>Lemmas\<close>

lemma le_nat_take_bytes [simp]:
  "n < 256 ^ k \<Longrightarrow> le_nat (take k (le_bytes k n @ rest)) = n"
  by (simp add: le_nat_le_bytes)

lemma readLenEnc_write:
  assumes "n < 2 ^ 64"
  shows "readLenEnc (write_lenenc n @ rest) = Inr (n, int (length (write_lenenc n)))"
proof -
  consider "n < 0xfb" | "0xfb \<le> n" "n < 2 ^ 16" | "2 ^ 16 \<le> n" "n < 2 ^ 24" | "2 ^ 24 \<le> n" by linarith
  then show ?thesis
    by cases (use assms in \<open>simp_all add: readLenEnc_def write_lenenc_def byte_at_def u16le_def u64le_def Let_def
        le_nat_le_bytes\<close>)
qed

lemma readLenEnc_bounds:
  assumes "readLenEnc b = Inr (cnt, n)"
  shows "0 < n \<and> n \<le> int (length b) \<and> cnt < 2 ^ 64"
proof -
  have le: "le_nat (take k (drop i b)) < 256 ^ k" for k i
    using le_nat_bound [of "take k (drop i b)"] power_increasing [of "length (take k (drop i b))" k "256 :: nat"]
    by (simp add: less_le_trans)
  have "byte_at b 0 < 256" by (simp add: byte_at_def)
  with assms le [of 2 1] le [of 3 1] le [of 8 1] show ?thesis
    by (cases b) (auto simp: readLenEnc_def Let_def u16le_def u64le_def split: if_splits)
qed

lemma readLenEnc_np [np]: "no_panic (readLenEnc b)"
  by (simp add: readLenEnc_def Let_def)

lemma counted_name_np [np]: "0 \<le> off \<Longrightarrow> no_panic (counted_name p off msg)"
  unfolding counted_name_def Let_def by (intro np) auto

lemma counted_name_off:
  "counted_name p off msg = Inr (s, off') \<Longrightarrow> 0 < off' \<and> off' \<le> int (length p)"
  by (auto simp: counted_name_def Let_def split: if_splits)

lemma counted_bytes_np [np]:
  assumes "0 \<le> off" and "off \<le> int (length p)"
  shows "no_panic (counted_bytes p off msg)"
  unfolding counted_bytes_def Let_def
  by (intro np) (use assms in \<open>auto dest: readLenEnc_bounds\<close>)

lemma counted_bytes_off:
  assumes "counted_bytes p off msg = Inr (s, cnt, off')"
  shows "0 < off' \<and> off' \<le> int (length p) \<and> cnt = length s"
  using assms by (auto simp: counted_bytes_def Let_def split: if_splits dest!: readLenEnc_bounds)

lemma Parse_np [np]: "no_panic (Parse c raw)"
  by (auto simp: Parse_def Let_def slice_def HeaderSize_def)

lemma ParseRotate_np [np]: "no_panic (ParseRotate e)" and ParseXID_np [np]: "no_panic (ParseXID e)"
  by (simp_all add: ParseRotate_def ParseXID_def)

lemma ParseQuery_np [np]: "no_panic (ParseQuery e)"
  unfolding ParseQuery_def Let_def by (intro np) auto

lemma ParseTableMap_np [np]: "no_panic (ParseTableMap e)"
  unfolding ParseTableMap_def Let_def
  by (intro np) (auto dest!: counted_name_off counted_bytes_off)

lemma rows_offset_ok:
  assumes "\<not> length p < 8"
  shows "no_panic (rows_offset t p)" and "rows_offset t p = Inr off \<Longrightarrow> 8 \<le> off \<and> off \<le> int (length p)"
  using assms by (auto simp: rows_offset_def Let_def split: if_splits)

lemma bitmap_len:
  assumes "int cnt < 2 ^ 63 - 7"
  shows "go_div (i64 (i64 (int cnt) + 7)) 8 = (int cnt + 7) div 8"
proof -
  have "i64 (int cnt) = int cnt" using assms by (intro i64_id in_i64I) auto
  moreover have "i64 (int cnt + 7) = int cnt + 7" using assms by (intro i64_id in_i64I) auto
  ultimately show ?thesis by simp
qed

definition columns_fit :: "Event \<Rightarrow> bool" where
  "columns_fit e = (case rows_offset (ev_type e) (ev_Payload e) of
      Inl x \<Rightarrow> True
    | Inr off \<Rightarrow> (case readLenEnc (drop (nat off) (ev_Payload e)) of
          Inl x \<Rightarrow> True | Inr (cnt, n) \<Rightarrow> int cnt < 2 ^ 63 - 7))"

lemma rows_count_off:
  assumes "rows_offset t p = Inr off" and "\<not> length p < 8" and "readLenEnc (drop (nat off) p) = Inr (cnt, n)"
  shows "0 < off + n \<and> off + n \<le> int (length p)"
  using rows_offset_ok(2) [OF assms(2,1)] readLenEnc_bounds [OF assms(3)] by auto

lemma ParseRows_np:
  assumes "columns_fit e"
  shows "no_panic (ParseRows e)"
  unfolding ParseRows_def Let_def
  by (intro np rows_offset_ok(1)) (use assms in \<open>auto simp: columns_fit_def bitmap_len dest!: rows_count_off\<close>)

lemma ParseRows_sizes:
  assumes "columns_fit e" and "ParseRows e = Inr r"
  shows "length (rw_BeforeBitmap r) = (rw_ColumnCount r + 7) div 8
    \<and> length (rw_AfterBitmap r) = (if rw_Update r then (rw_ColumnCount r + 7) div 8 else 0)"
proof -
  let ?p = "ev_Payload e"
  from assms(2) obtain off cnt n where o: "rows_offset (ev_type e) ?p = Inr off" "readLenEnc (drop (nat off) ?p) = Inr (cnt, n)"
    and len: "\<not> length ?p < 8"
    by (auto simp: ParseRows_def Let_def simp del: slice_Inr split: if_splits)
  then have fit: "int cnt < 2 ^ 63 - 7" using assms(1) by (simp add: columns_fit_def)
  let ?b = "(int cnt + 7) div 8"
  from assms(2) o len obtain before after where
    "slice ?p (off + n) (off + n + ?b) = Inr before"
    "(if rw_Update r then slice ?p (off + n + ?b) (off + n + ?b + ?b) else Inr []) = Inr after"
    "rw_ColumnCount r = cnt" "rw_BeforeBitmap r = before" "rw_AfterBitmap r = after"
    by (auto simp: ParseRows_def Let_def bitmap_len [OF fit] simp del: slice_Inr split: if_splits)
  moreover have "?b = int ((cnt + 7) div 8)" by simp
  ultimately show ?thesis using length_slice by (fastforce simp del: slice_Inr split: if_splits)
qed

lemma ParseTableMap_sizes:
  "ParseTableMap e = Inr m \<Longrightarrow> length (tm_NullBitmap m) = (length (tm_ColumnTypes m) + 7) div 8"
  by (auto simp: ParseTableMap_def Let_def split: if_splits dest!: counted_bytes_off)


definition demo_rows :: "string \<Rightarrow> Event" where
  "demo_rows p = \<lparr>ev_Header = \<lparr>hd_Timestamp = 0, hd_Type = 23, hd_ServerID = 1, hd_EventSize = 0,
     hd_LogPos = 9, hd_Flags = 0\<rparr>, ev_Payload = p\<rparr>"


text \<open>A column count of \<open>2 ^ 63\<close> makes the bitmap length negative and the slice panic.\<close>

lemma rows_panic:
  "\<not> no_panic (ParseRows (demo_rows (replicate 8 CHR 0x00 @ write_lenenc (2 ^ 63))))"
proof -
  have r: "readLenEnc (write_lenenc (2 ^ 63)) = Inr (2 ^ 63, int (length (write_lenenc (2 ^ 63))))"
    using readLenEnc_write [of "2 ^ 63" "[]"] by simp
  have "i64 (int (2 ^ 63)) = - (2 ^ 63)" by (simp add: i64_def)
  moreover have "i64 (- (2 ^ 63) + 7) = - (2 ^ 63) + 7" by (simp add: i64_def)
  ultimately have "go_div (i64 (i64 (int (2 ^ 63)) + 7)) 8 = - ((2 ^ 63 - 7) div 8)" by (simp add: go_div_def)
  with r show ?thesis
    by (simp add: ParseRows_def demo_rows_def isRows_def event_types rows_offset_def rows_v2_def Let_def
        slice_def write_lenenc_def)
qed

end
