(* ===== verification/Gtid.thy ===== *)
theory Gtid
  imports BinlogEvents "HOL-Library.Product_Lexorder" "HOL-Library.AList"
begin

text \<open>
  MySQL transaction identifiers, \<open>backend/internal/cdc/mysqlbinlog/gtid.go\<close>: the identifier of a
  GTID event, and the set of executed identifiers as sorted intervals of transaction numbers per
  source. \<open>uint64\<close> values are natural numbers below \<open>2 ^ 64\<close> with the wrap-around written out;
  a set denotes, per source, a set of numbers, and the lemmas show what its operations denote.
\<close>

section \<open>Identifiers\<close>

record GTID =
  gt_SID :: string
  gt_GNO :: nat

definition sid_string :: "string \<Rightarrow> string" where
  "sid_string b = hex_encode (take 4 b) @ ''-'' @ hex_encode (take 2 (drop 4 b)) @ ''-''
     @ hex_encode (take 2 (drop 6 b)) @ ''-'' @ hex_encode (take 2 (drop 8 b)) @ ''-''
     @ hex_encode (take 6 (drop 10 b))"

definition normalizeSID :: "string \<Rightarrow> go_error + string \<times> string" where
  "normalizeSID v =
     (let raw = to_lower (filter (\<lambda>c. c \<noteq> CHR ''-'') (trim_space v)) in
      if length raw \<noteq> 32 then Inl (ErrText (''invalid MySQL GTID SID '' @ v))
      else case hex_decode raw of
          None \<Rightarrow> Inl (ErrText (''invalid MySQL GTID SID '' @ v))
        | Some b \<Rightarrow> if length b \<noteq> 16 then Inl (ErrText (''invalid MySQL GTID SID '' @ v))
                    else Inr (sid_string b, b))"

definition ParseGTIDEvent :: "Event \<Rightarrow> go_error + GTID" where
  "ParseGTIDEvent e =
     (if ev_type e \<noteq> GTIDEvent \<and> ev_type e \<noteq> AnonymousGTIDEvent then Inl (ErrText ''not a GTID_EVENT'')
      else if length (ev_Payload e) < 25 then Inl (ErrText ''GTID_EVENT payload too short'')
      else bind_r (slice (ev_Payload e) 1 17) (\<lambda>sid.
           Inr \<lparr>gt_SID = sid_string sid, gt_GNO = u64le (ev_Payload e) 17\<rparr>))"

definition gtid_string :: "GTID \<Rightarrow> string" where
  "gtid_string g = (if gt_SID g = [] \<or> gt_GNO g = 0 then []
     else to_lower (gt_SID g) @ '':'' @ nat_str (gt_GNO g))"

section \<open>Sets\<close>

text \<open>An interval is a pair of its first and last number, both inclusive.\<close>

type_synonym GTIDInterval = "nat \<times> nat"
type_synonym GTIDSet = "(string, GTIDInterval list) gomap"

definition NewGTIDSet :: GTIDSet where
  "NewGTIDSet = []"

definition intervals_of :: "GTIDSet \<Rightarrow> string \<Rightarrow> GTIDInterval list" where
  "intervals_of s sid = (case map_of s sid of None \<Rightarrow> [] | Some ivs \<Rightarrow> ivs)"

definition add_interval :: "string \<Rightarrow> GTIDInterval \<Rightarrow> GTIDSet \<Rightarrow> GTIDSet" where
  "add_interval sid iv s = AList.update sid (intervals_of s sid @ [iv]) s"

definition merge_interval :: "GTIDInterval \<Rightarrow> GTIDInterval list \<Rightarrow> GTIDInterval list" where
  "merge_interval cur merged =
     (if merged = [] \<or> fst cur > (snd (last merged) + 1) mod 2 ^ 64 then merged @ [cur]
      else if snd cur > snd (last merged) then butlast merged @ [(fst (last merged), snd cur)]
      else merged)"

definition normalize_intervals :: "GTIDInterval list \<Rightarrow> GTIDInterval list" where
  "normalize_intervals ivs = fold merge_interval (sort ivs) []"

definition normalize_sid :: "string \<Rightarrow> GTIDSet \<Rightarrow> GTIDSet" where
  "normalize_sid sid s = AList.update sid (normalize_intervals (intervals_of s sid)) s"

definition normalize :: "GTIDSet \<Rightarrow> GTIDSet" where
  "normalize s = map (\<lambda>(sid, ivs). (sid, normalize_intervals ivs)) s"

definition Clone :: "GTIDSet option \<Rightarrow> GTIDSet" where
  "Clone s = (case s of None \<Rightarrow> NewGTIDSet | Some s \<Rightarrow> s)"

definition parse_interval :: "string \<Rightarrow> go_error + GTIDInterval" where
  "parse_interval token =
     (let r = (if CHR ''-'' \<in> set token
               then (case (parse_uint (takeWhile (\<lambda>c. c \<noteq> CHR ''-'') token),
                           parse_uint (tl (dropWhile (\<lambda>c. c \<noteq> CHR ''-'') token))) of
                       (Some a, Some b) \<Rightarrow> Some (a, b)
                     | _ \<Rightarrow> None)
               else map_option (\<lambda>a. (a, a)) (parse_uint token))
      in case r of
           None \<Rightarrow> Inl (ErrText (''invalid MySQL GTID interval '' @ token))
         | Some (a, b) \<Rightarrow> if a = 0 \<or> b < a then Inl (ErrText (''invalid MySQL GTID interval '' @ token))
                          else Inr (a, b))"

fun parse_tokens :: "string \<Rightarrow> string list \<Rightarrow> GTIDSet \<Rightarrow> go_error + GTIDSet" where
  "parse_tokens sid [] s = Inr s"
| "parse_tokens sid (t # ts) s =
     (let token = trim_space t in
      if token = [] then parse_tokens sid ts s
      else bind_r (parse_interval token) (\<lambda>iv. parse_tokens sid ts (add_interval sid iv s)))"

fun parse_parts :: "string list \<Rightarrow> GTIDSet \<Rightarrow> go_error + GTIDSet" where
  "parse_parts [] s = Inr s"
| "parse_parts (p # ps) s =
     (let part = trim_space p in
      if part = [] then parse_parts ps s
      else let fields = split_byte CHR '':'' part in
        if length fields < 2 then Inl (ErrText (''invalid MySQL GTID set component '' @ part))
        else bind_r (normalizeSID (hd fields)) (\<lambda>(sid, b).
             bind_r (parse_tokens sid (tl fields) s) (\<lambda>s. parse_parts ps s)))"

definition ParseGTIDSet :: "string \<Rightarrow> go_error + GTIDSet" where
  "ParseGTIDSet raw0 =
     (let raw = trim_space raw0 in
      if raw = [] then Inr NewGTIDSet
      else bind_r (parse_parts (split_byte CHR '','' raw) NewGTIDSet) (\<lambda>s. Inr (normalize s)))"

definition AddGTID :: "string \<Rightarrow> GTIDSet \<Rightarrow> GTIDSet \<times> go_error option" where
  "AddGTID gtid s =
     (let parts = split_byte CHR '':'' (trim_space gtid) in
      if length parts \<noteq> 2 then (s, Some (ErrText (''invalid MySQL GTID '' @ gtid)))
      else case normalizeSID (parts ! 0) of
          Inl e \<Rightarrow> (s, Some e)
        | Inr (sid, b) \<Rightarrow>
            (case parse_uint (parts ! 1) of
               None \<Rightarrow> (s, Some (ErrText (''invalid MySQL GTID GNO '' @ parts ! 1)))
             | Some gno \<Rightarrow>
                 if gno = 0 then (s, Some (ErrText (''invalid MySQL GTID GNO '' @ parts ! 1)))
                 else (normalize_sid sid (add_interval sid (gno, gno) s), None)))"

definition interval_string :: "GTIDInterval \<Rightarrow> string" where
  "interval_string iv = CHR '':'' # nat_str (fst iv) @ (if snd iv \<noteq> fst iv then CHR ''-'' # nat_str (snd iv) else [])"

definition gtidset_string :: "GTIDSet \<Rightarrow> string" where
  "gtidset_string s =
     join (map (\<lambda>sid. sid @ concat (map interval_string (intervals_of s sid))) (sort (map fst s))) '',''"

section \<open>The binary block\<close>

definition encode_interval :: "GTIDInterval \<Rightarrow> string" where
  "encode_interval iv = le_bytes 8 (fst iv) @ le_bytes 8 ((snd iv + 1) mod 2 ^ 64)"

fun encode_sids :: "GTIDSet \<Rightarrow> string list \<Rightarrow> go_error + string" where
  "encode_sids s [] = Inr []"
| "encode_sids s (sid # sids) =
     bind_r (normalizeSID sid) (\<lambda>(n, b).
     bind_r (encode_sids s sids) (\<lambda>rest.
     Inr (b @ le_bytes 8 (length (intervals_of s sid)) @ concat (map encode_interval (intervals_of s sid)) @ rest)))"

definition EncodeSIDBlock :: "GTIDSet option \<Rightarrow> go_error + string" where
  "EncodeSIDBlock s0 =
     (let s = normalize (case s0 of None \<Rightarrow> NewGTIDSet | Some s \<Rightarrow> s);
          sids = sort (map fst s)
      in bind_r (encode_sids s sids) (\<lambda>body. Inr (le_bytes 8 (length sids) @ body)))"

section \<open>What a set denotes\<close>

definition gnos :: "GTIDInterval list \<Rightarrow> nat set" where
  "gnos ivs = (\<Union>(a, b) \<in> set ivs. {a..b})"

definition executed :: "GTIDSet \<Rightarrow> string \<Rightarrow> nat set" where
  "executed s sid = gnos (intervals_of s sid)"

text \<open>Every interval is non-empty and ends below the largest 64-bit number.\<close>

definition intervals_ok :: "GTIDInterval list \<Rightarrow> bool" where
  "intervals_ok ivs \<longleftrightarrow> list_all (\<lambda>(a, b). 0 < a \<and> a \<le> b \<and> b < 2 ^ 64 - 1) ivs"

definition canonical :: "GTIDInterval list \<Rightarrow> bool" where
  "canonical ivs \<longleftrightarrow> sorted_wrt (\<lambda>x y. snd x + 1 < fst y) ivs \<and> intervals_ok ivs"

lemma gnos_append [simp]: "gnos (xs @ ys) = gnos xs \<union> gnos ys"
  and gnos_Cons [simp]: "gnos ((a, b) # xs) = {a..b} \<union> gnos xs"
  and gnos_Nil [simp]: "gnos [] = {}"
  by (auto simp: gnos_def)

lemma gnos_sort [simp]: "gnos (sort xs) = gnos xs"
  by (simp add: gnos_def)

lemma merge_interval_spec:
  assumes "sorted ivs" and "intervals_ok ivs"
  shows "gnos (fold merge_interval ivs []) = gnos ivs \<and> canonical (fold merge_interval ivs [])
    \<and> (ivs \<noteq> [] \<longrightarrow> fold merge_interval ivs [] \<noteq> [] \<and> fst (last (fold merge_interval ivs [])) \<le> fst (last ivs))"
  using assms
proof (induction ivs rule: rev_induct)
  case Nil
  then show ?case by (simp add: canonical_def intervals_ok_def)
next
  case (snoc c ivs)
  obtain a b where c: "c = (a, b)" by (cases c)
  let ?M = "fold merge_interval ivs []"
  from snoc have IH: "gnos ?M = gnos ivs" "canonical ?M" "ivs \<noteq> [] \<longrightarrow> ?M \<noteq> [] \<and> fst (last ?M) \<le> fst (last ivs)"
    and ok: "0 < a" "a \<le> b" "b < 2 ^ 64 - 1"
    by (auto simp: sorted_append intervals_ok_def c)
  show ?case
  proof (cases "ivs = []")
    case True
    then show ?thesis using ok c by (simp add: merge_interval_def canonical_def intervals_ok_def)
  next
    case False
    with IH(3) obtain M l u where M: "?M = M @ [(l, u)]" by (metis rev_exhaust surj_pair)
    have lu: "l \<le> u" "u < 2 ^ 64 - 1" "0 < l" using IH(2) M by (auto simp: canonical_def intervals_ok_def)
    have wrap: "(u + 1) mod 2 ^ 64 = u + 1" using lu by simp
    have "last ivs \<le> (a, b)" using snoc.prems(1) False c by (simp add: sorted_append)
    then have la: "l \<le> a" using IH(3) False M by (cases "last ivs") auto
    show ?thesis
    proof (cases "a > u + 1")
      case True
      then have "merge_interval c ?M = ?M @ [c]" by (simp add: merge_interval_def M c lu)
      moreover have "\<forall>x \<in> set ?M. snd x + 1 < a"
        using IH(2) M True lu by (auto simp: canonical_def sorted_wrt_append)
      ultimately show ?thesis using IH(1,2) ok c
        by (auto simp: canonical_def sorted_wrt_append intervals_ok_def)
    next
      case F: False
      show ?thesis
      proof (cases "b > u")
        case True
        with F have m: "merge_interval c ?M = M @ [(l, b)]" using wrap by (simp add: merge_interval_def M c lu)
        have "{l..u} \<union> {a..b} = {l..b}" using la F True lu by auto
        with IH(1) M have "gnos (M @ [(l, b)]) = gnos (ivs @ [c])" by (auto simp: c)
        with m IH(2) M ok la lu show ?thesis
          by (auto simp: canonical_def sorted_wrt_append intervals_ok_def c)
      next
        case G: False
        with F have m: "merge_interval c ?M = ?M" using wrap by (simp add: merge_interval_def M c lu)
        have "{a..b} \<subseteq> {l..u}" using la G by auto
        then have "{a..b} \<subseteq> gnos ?M" unfolding M by auto
        then have "gnos ?M = gnos (ivs @ [c])" unfolding c using IH(1) by (simp add: Un_absorb2)
        with m IH(2) M la show ?thesis by (simp add: c)
      qed
    qed
  qed
qed

lemma normalize_intervals_spec:
  assumes "intervals_ok ivs"
  shows "gnos (normalize_intervals ivs) = gnos ivs" "canonical (normalize_intervals ivs)"
proof -
  have "intervals_ok (sort ivs)" using assms by (simp add: intervals_ok_def list_all_iff)
  from merge_interval_spec [OF sorted_sort this]
  show "gnos (normalize_intervals ivs) = gnos ivs" "canonical (normalize_intervals ivs)"
    by (simp_all add: normalize_intervals_def)
qed

definition set_ok :: "GTIDSet \<Rightarrow> bool" where
  "set_ok s \<longleftrightarrow> gmap_wf s \<and> list_all (\<lambda>(sid, ivs). canonical ivs) s"

lemma intervals_of_ok: "set_ok s \<Longrightarrow> canonical (intervals_of s sid)"
  by (auto simp: set_ok_def intervals_of_def list_all_iff canonical_def intervals_ok_def split: option.split dest: map_of_SomeD)

lemma intervals_of_update [simp]:
  "intervals_of (AList.update sid ivs s) sid' = (if sid' = sid then ivs else intervals_of s sid')"
  by (simp add: intervals_of_def update_conv)

lemma list_all_update: "list_all P m \<Longrightarrow> P (k, v) \<Longrightarrow> list_all P (AList.update k v m)"
  by (induction m) auto

lemma update_twice: "AList.update k v (AList.update k w m) = AList.update k v m"
  by (induction m) auto

lemma add_executed:
  assumes "set_ok s" and "0 < gno" and "gno < 2 ^ 64 - 1"
  shows "executed (normalize_sid sid (add_interval sid (gno, gno) s)) = (executed s)(sid := insert gno (executed s sid))"
    and "set_ok (normalize_sid sid (add_interval sid (gno, gno) s))"
proof -
  have ok: "intervals_ok (intervals_of s sid @ [(gno, gno)])"
    using intervals_of_ok [OF assms(1), of sid] assms(2,3) by (simp add: canonical_def intervals_ok_def)
  note n = normalize_intervals_spec [OF ok]
  show "executed (normalize_sid sid (add_interval sid (gno, gno) s)) = (executed s)(sid := insert gno (executed s sid))"
    using n(1) by (auto simp: fun_eq_iff executed_def normalize_sid_def add_interval_def)
  show "set_ok (normalize_sid sid (add_interval sid (gno, gno) s))"
    using assms(1) n(2)
    by (simp add: set_ok_def normalize_sid_def add_interval_def update_twice list_all_update)
qed

section \<open>Printing and parsing\<close>

definition token_char :: "char \<Rightarrow> bool" where
  "token_char c \<longleftrightarrow> \<not> is_space c \<and> c \<noteq> CHR '':'' \<and> c \<noteq> CHR '',''"

lemma hex_digit_char:
  assumes "n < 16"
  shows "token_char (hex_digit n) \<and> hex_digit n \<noteq> CHR ''-'' \<and> lower_char (hex_digit n) = hex_digit n"
proof -
  have "n \<in> {0, 1, 2, 3, 4, 5, 6, 7, 8, 9, 10, 11, 12, 13, 14, 15}" using assms by (simp only: insert_iff empty_iff) presburger
  then show ?thesis
    by (elim insertE) (auto simp: hex_digit_def token_char_def is_space_def lower_char_def of_char_of char_of_def)
qed

lemma nat_str_chars: "c \<in> set (nat_str n) \<Longrightarrow> \<exists>d :: nat. d < 10 \<and> c = char_of (48 + d)"
proof (induction n rule: nat_str.induct)
  case (1 n)
  show ?case
  proof (cases "n < 10")
    case True
    with 1(2) show ?thesis by (subst (asm) nat_str.simps) auto
  next
    case False
    with 1 show ?thesis by (subst (asm) nat_str.simps) (auto intro: exI [of _ "n mod 10"])
  qed
qed

lemma nat_str_token: "c \<in> set (nat_str n) \<Longrightarrow> token_char c \<and> c \<noteq> CHR ''-''"
proof -
  assume "c \<in> set (nat_str n)"
  then obtain d :: nat where d: "d < 10" "c = char_of (48 + d)" using nat_str_chars by blast
  then have "c = hex_digit d" by (simp add: hex_digit_def)
  with d(1) hex_digit_char [of d] show ?thesis by simp
qed

lemma hex_encode_char:
  "c \<in> set (hex_encode b) \<Longrightarrow> token_char c \<and> c \<noteq> CHR ''-'' \<and> lower_char c = c"
proof -
  assume "c \<in> set (hex_encode b)"
  then obtain x where "c = hex_digit (byte_nat x div 16) \<or> c = hex_digit (byte_nat x mod 16)"
    by (auto simp: hex_encode_def hex_byte_def)
  moreover have "byte_nat x div 16 < 16" "byte_nat x mod 16 < 16"
    using byte_nat_less [of x] by linarith+
  ultimately show ?thesis using hex_digit_char by auto
qed

lemma hex_encode_append: "hex_encode (xs @ ys) = hex_encode xs @ hex_encode ys"
  by (simp add: hex_encode_def)

lemma sid_string_token: "c \<in> set (sid_string b) \<Longrightarrow> token_char c"
  by (auto simp: sid_string_def dest!: hex_encode_char) (auto simp: token_char_def is_space_def)

lemma normalizeSID_string:
  assumes "length b = 16"
  shows "normalizeSID (sid_string b) = Inr (sid_string b, b)"
proof -
  have trim: "trim_space (sid_string b) = sid_string b"
    using sid_string_token by (intro trim_no_space) (auto simp: token_char_def)
  have keep: "filter (\<lambda>c. c \<noteq> CHR ''-'') (hex_encode x) = hex_encode x" for x
    using hex_encode_char by (simp add: filter_id_conv)
  have "filter (\<lambda>c. c \<noteq> CHR ''-'') (sid_string b)
      = hex_encode (take 4 b @ take 2 (drop 4 b) @ take 2 (drop 6 b) @ take 2 (drop 8 b) @ take 6 (drop 10 b))"
    by (simp add: sid_string_def keep hex_encode_append)
  also have "take 4 b @ take 2 (drop 4 b) @ take 2 (drop 6 b) @ take 2 (drop 8 b) @ take 6 (drop 10 b) = b"
  proof -
    have "drop n b = take k (drop n b) @ drop (n + k) b" for n k
      by (metis append_take_drop_id add.commute drop_drop)
    from this [of 0 4] this [of 4 2] this [of 6 2] this [of 8 2] assms show ?thesis by simp
  qed
  finally have raw: "to_lower (filter (\<lambda>c. c \<noteq> CHR ''-'') (sid_string b)) = hex_encode b"
    using hex_encode_char by (simp add: to_lower_def map_idI)
  show ?thesis by (simp add: normalizeSID_def trim raw assms)
qed

definition token_of :: "GTIDInterval \<Rightarrow> string" where
  "token_of iv = nat_str (fst iv) @ (if snd iv \<noteq> fst iv then CHR ''-'' # nat_str (snd iv) else [])"

lemma token_of_char: "c \<in> set (token_of iv) \<Longrightarrow> token_char c"
  by (auto simp: token_of_def split: if_splits dest!: nat_str_token) (simp add: token_char_def is_space_def)

lemma split_first:
  "c \<notin> set xs \<Longrightarrow> takeWhile (\<lambda>x. x \<noteq> c) (xs @ c # ys) = xs \<and> dropWhile (\<lambda>x. x \<noteq> c) (xs @ c # ys) = c # ys"
  by (induction xs) auto

lemma parse_interval_token:
  assumes "0 < a" "a \<le> b" "b < 2 ^ 64"
  shows "parse_interval (token_of (a, b)) = Inr (a, b)"
proof -
  have no: "CHR ''-'' \<notin> set (nat_str n)" for n using nat_str_token by blast
  have tw: "takeWhile (\<lambda>c. c \<noteq> CHR ''-'') (nat_str a @ CHR ''-'' # nat_str b) = nat_str a"
    "dropWhile (\<lambda>c. c \<noteq> CHR ''-'') (nat_str a @ CHR ''-'' # nat_str b) = CHR ''-'' # nat_str b"
    using split_first [OF no] by simp_all
  show ?thesis
    using assms no tw by (cases "a = b") (simp_all add: parse_interval_def token_of_def parse_uint_nat_str)
qed

lemma canonical_normal:
  assumes "canonical ivs"
  shows "normalize_intervals ivs = ivs"
proof -
  have lt: "sorted_wrt (\<lambda>x y. snd x + 1 < fst y) ivs" and ok: "intervals_ok ivs"
    using assms by (simp_all add: canonical_def)
  have "sorted ivs"
    using lt by (rule sorted_wrt_mono_rel [rotated]) (use ok in \<open>auto simp: intervals_ok_def list_all_iff less_eq_prod_def\<close>)
  then have "sort ivs = ivs" by (rule sorted_sort_id)
  moreover have "fold merge_interval ivs [] = ivs"
    using lt ok
  proof (induction ivs rule: rev_induct)
    case (snoc c ivs)
    then have f: "fold merge_interval ivs [] = ivs" by (simp add: sorted_wrt_append intervals_ok_def)
    show ?case
    proof (cases "ivs = []")
      case False
      then have "last ivs \<in> set ivs" by simp
      with snoc.prems have "snd (last ivs) + 1 < fst c" "snd (last ivs) < 2 ^ 64 - 1"
        by (auto simp: sorted_wrt_append intervals_ok_def list_all_iff)
      then have "merge_interval c ivs = ivs @ [c]" by (simp add: merge_interval_def)
      with f show ?thesis by simp
    qed (simp add: merge_interval_def)
  qed simp
  ultimately show ?thesis by (simp add: normalize_intervals_def)
qed

lemma parse_tokens_list:
  assumes "\<forall>iv \<in> set ivs. 0 < fst iv \<and> fst iv \<le> snd iv \<and> snd iv < 2 ^ 64"
  shows "parse_tokens sid (map token_of ivs) s =
    Inr (if ivs = [] then s else AList.update sid (intervals_of s sid @ ivs) s)"
  using assms
proof (induction ivs arbitrary: s)
  case Nil
  then show ?case by simp
next
  case (Cons iv ivs)
  obtain a b where iv: "iv = (a, b)" by (cases iv)
  have "trim_space (token_of iv) = token_of iv"
    using token_of_char by (intro trim_no_space) (auto simp: token_char_def)
  moreover have "token_of iv \<noteq> []" by (simp add: token_of_def)
  moreover have "parse_interval (token_of iv) = Inr iv" using Cons.prems iv parse_interval_token by simp
  ultimately show ?case using Cons by (simp add: add_interval_def update_twice)
qed

text \<open>A set as the code builds it: every source is a printed 16-byte identifier with at least
  one interval, and the intervals are canonical.\<close>

definition printable :: "GTIDSet \<Rightarrow> bool" where
  "printable s \<longleftrightarrow> set_ok s \<and> (\<forall>(sid, ivs) \<in> set s. ivs \<noteq> [] \<and> (\<exists>b. length b = 16 \<and> sid = sid_string b))"

definition part_of :: "GTIDSet \<Rightarrow> string \<Rightarrow> string" where
  "part_of s sid = sid @ concat (map interval_string (intervals_of s sid))"

lemma join_concat: "join (w # ws) [c] = w @ concat (map ((#) c) ws)"
  by (induction ws arbitrary: w) (simp_all add: join_Cons)

lemma interval_string_token: "interval_string iv = CHR '':'' # token_of iv"
  by (simp add: interval_string_def token_of_def)

lemma part_join: "part_of s sid = join (sid # map token_of (intervals_of s sid)) '':''"
  by (simp add: part_of_def join_concat interval_string_token [abs_def] comp_def)

lemma part_chars: "c \<in> set (part_of s (sid_string b)) \<Longrightarrow> token_char c \<or> c = CHR '':''"
  by (auto simp: part_of_def interval_string_token dest: sid_string_token token_of_char split: if_splits)

lemma part_no_space:
  assumes "c \<in> set (part_of s (sid_string b))"
  shows "\<not> is_space c" and "c \<noteq> CHR '',''"
  using part_chars [OF assms] by (auto simp: token_char_def) (auto simp: is_space_def)

lemma part_facts:
  assumes "length b = 16"
  shows "trim_space (part_of s (sid_string b)) = part_of s (sid_string b)"
    "part_of s (sid_string b) \<noteq> []" "CHR '','' \<notin> set (part_of s (sid_string b))"
    "split_byte CHR '':'' (part_of s (sid_string b)) = sid_string b # map token_of (intervals_of s (sid_string b))"
proof -
  show "trim_space (part_of s (sid_string b)) = part_of s (sid_string b)"
    using part_no_space(1) by (intro trim_no_space) blast
  show "part_of s (sid_string b) \<noteq> []" by (simp add: part_of_def sid_string_def)
  show "CHR '','' \<notin> set (part_of s (sid_string b))" using part_no_space(2) by blast
  show "split_byte CHR '':'' (part_of s (sid_string b)) = sid_string b # map token_of (intervals_of s (sid_string b))"
  proof -
    have "CHR '':'' \<notin> set (sid_string b)" "CHR '':'' \<notin> set (token_of iv)" for iv
      using sid_string_token [of "CHR '':''" b] token_of_char [of "CHR '':''" iv] by (auto simp: token_char_def)
    then show ?thesis unfolding part_join by (intro split_join) auto
  qed
qed

lemma parse_parts_list:
  assumes "printable s" and "distinct sids" and "set sids \<subseteq> fst ` set s" and "set sids \<inter> fst ` set acc = {}"
  shows "parse_parts (map (part_of s) sids) acc = Inr (acc @ map (\<lambda>sid. (sid, intervals_of s sid)) sids)"
  using assms(2-)
proof (induction sids arbitrary: acc)
  case Nil
  then show ?case by simp
next
  case (Cons sid sids)
  from Cons.prems(2) obtain ivs where m: "(sid, ivs) \<in> set s" by auto
  with assms(1) have iv: "intervals_of s sid = ivs" "ivs \<noteq> []" "canonical ivs"
    by (auto simp: printable_def set_ok_def intervals_of_def list_all_iff)
  from m assms(1) obtain b where b: "length b = 16" "sid = sid_string b" by (auto simp: printable_def)
  have ok: "\<forall>iv \<in> set ivs. 0 < fst iv \<and> fst iv \<le> snd iv \<and> snd iv < 2 ^ 64"
    using iv(3) by (auto simp: canonical_def intervals_ok_def list_all_iff)
  have fresh: "sid \<notin> fst ` set acc" using Cons.prems(3) by auto
  then have "map_of acc sid = None" by (simp add: map_of_eq_None_iff)
  then have e: "intervals_of acc sid = []" by (simp add: intervals_of_def)
  have "AList.update sid ivs acc = acc @ [(sid, ivs)]" using fresh by (induction acc) auto
  with e parse_tokens_list [OF ok, of sid acc] iv(2)
  have tok: "parse_tokens sid (map token_of ivs) acc = Inr (acc @ [(sid, ivs)])" by simp
  have "parse_parts (map (part_of s) sids) (acc @ [(sid, ivs)])
      = Inr ((acc @ [(sid, ivs)]) @ map (\<lambda>sid. (sid, intervals_of s sid)) sids)"
    by (rule Cons.IH) (use Cons.prems in auto)
  with tok iv b part_facts [OF b(1), of s] normalizeSID_string [OF b(1)] show ?case
    by (cases ivs) (simp_all add: Let_def)
qed


definition demo_gtids :: GTIDSet where
  "demo_gtids = [(sid_string (replicate 16 CHR 0xAB), [(1, 3), (5, 5)])]"


end
