(* ===== verification/BinlogTx.thy ===== *)
theory BinlogTx
  imports Gtid "HOL-Library.Sublist"
begin

text \<open>
  Grouping binlog events into source transactions,
  \<open>backend/internal/cdc/mysqlbinlog/transaction.go\<close>: the assembler keeps the current file, the
  open transaction and the GTID announced for the next one; it hands a transaction out only at
  its XID or COMMIT event.
\<close>

record BinlogTransaction =
  bt_Events :: "Event list"
  bt_File :: string
  bt_StartPos :: nat
  bt_EndPos :: nat
  bt_XID :: nat
  bt_GTID :: string

record Assembler =
  as_file :: string
  as_cur :: "BinlogTransaction option"
  as_nextGTID :: string

definition open_tx :: "Assembler \<Rightarrow> Event \<Rightarrow> BinlogTransaction" where
  "open_tx a e = \<lparr>bt_Events = [], bt_File = as_file a, bt_StartPos = hd_LogPos (ev_Header e),
     bt_EndPos = 0, bt_XID = 0, bt_GTID = as_nextGTID a\<rparr>"

definition SetFile :: "string \<Rightarrow> Assembler \<Rightarrow> Assembler" where
  "SetFile f a = a\<lparr>as_file := f\<rparr>"

text \<open>The part of \<open>Push\<close> after the query event has been looked at.\<close>

definition push_rows :: "Event \<Rightarrow> Assembler \<Rightarrow> Assembler \<times> (go_error + BinlogTransaction option)" where
  "push_rows e a =
     (if ev_type e = XIDEvent then
        (case ParseXID e of
           Inl x \<Rightarrow> (a, Inl x)
         | Inr xid \<Rightarrow>
             (case as_cur a of
                None \<Rightarrow> (a, Inr None)
              | Some tx \<Rightarrow> (a\<lparr>as_cur := None, as_nextGTID := []\<rparr>,
                  Inr (Some (tx\<lparr>bt_XID := xid, bt_EndPos := hd_LogPos (ev_Header e)\<rparr>)))))
      else if isRows (ev_type e) then
        (let tx = (case as_cur a of None \<Rightarrow> open_tx a e | Some tx \<Rightarrow> tx)
         in (a\<lparr>as_cur := Some (tx\<lparr>bt_Events := bt_Events tx @ [e]\<rparr>)\<rparr>, Inr None))
      else (a, Inr None))"

definition push_query :: "Event \<Rightarrow> Query \<Rightarrow> Assembler \<Rightarrow> Assembler \<times> (go_error + BinlogTransaction option)" where
  "push_query e q a =
     (if IsBeginQuery q then (a\<lparr>as_cur := Some (open_tx a e)\<rparr>, Inr None)
      else if equal_fold (trim_space (qy_SQL q)) ''ROLLBACK''
      then (a\<lparr>as_cur := None, as_nextGTID := []\<rparr>, Inr None)
      else if equal_fold (trim_space (qy_SQL q)) ''COMMIT'' then
        (case as_cur a of
           None \<Rightarrow> (a, Inr None)
         | Some tx \<Rightarrow> (a\<lparr>as_cur := None, as_nextGTID := []\<rparr>,
             Inr (Some (tx\<lparr>bt_EndPos := hd_LogPos (ev_Header e)\<rparr>))))
      else push_rows e a)"

definition PushEvent :: "Event \<Rightarrow> Assembler \<Rightarrow> Assembler \<times> (go_error + BinlogTransaction option)" where
  "PushEvent e a =
     (if ev_type e = GTIDEvent \<or> ev_type e = AnonymousGTIDEvent then
        (case ParseGTIDEvent e of
           Inl x \<Rightarrow> (a, Inl x)
         | Inr g \<Rightarrow> (a\<lparr>as_nextGTID := gtid_string g\<rparr>, Inr None))
      else if ev_type e = RotateEvent then
        (case ParseRotate e of
           Inl x \<Rightarrow> (a, Inl x)
         | Inr r \<Rightarrow> (a\<lparr>as_file := rt_File r\<rparr>, Inr None))
      else if ev_type e = QueryEvent then
        (case ParseQuery e of
           Inl x \<Rightarrow> (a, Inl x)
         | Inr q \<Rightarrow> push_query e q a)
      else push_rows e a)"

definition tx_position :: "BinlogTransaction \<Rightarrow> string" where
  "tx_position t = (if bt_File t = [] then nat_str (bt_EndPos t)
     else bt_File t @ '':'' @ nat_str (bt_EndPos t))"

definition PendingGTID :: "Assembler \<Rightarrow> string" where
  "PendingGTID a = as_nextGTID a"

definition ConsumePendingGTID :: "Assembler \<Rightarrow> Assembler \<times> string" where
  "ConsumePendingGTID a = (a\<lparr>as_nextGTID := []\<rparr>, as_nextGTID a)"

section \<open>A run of the assembler\<close>

text \<open>The events of a connection pushed one after the other, up to the first error; the
  transactions handed out, in order.\<close>

fun assemble :: "Event list \<Rightarrow> Assembler \<Rightarrow> Assembler \<times> BinlogTransaction list \<times> go_error option" where
  "assemble [] a = (a, [], None)"
| "assemble (e # es) a =
     (case PushEvent e a of
        (a', Inl x) \<Rightarrow> (a', [], Some x)
      | (a', Inr None) \<Rightarrow> assemble es a'
      | (a', Inr (Some tx)) \<Rightarrow> (case assemble es a' of (a'', txs, x) \<Rightarrow> (a'', tx # txs, x)))"

definition open_events :: "Assembler \<Rightarrow> Event list" where
  "open_events a = (case as_cur a of None \<Rightarrow> [] | Some tx \<Rightarrow> bt_Events tx)"

text \<open>An event that throws the open transaction away: a ROLLBACK, or a BEGIN while one is open.\<close>

definition discards :: "Event \<Rightarrow> bool" where
  "discards e \<longleftrightarrow> ev_type e = QueryEvent \<and> (case ParseQuery e of
      Inl x \<Rightarrow> False
    | Inr q \<Rightarrow> IsBeginQuery q \<or> equal_fold (trim_space (qy_SQL q)) ''ROLLBACK'')"

lemma push_cases:
  assumes "PushEvent e a = (a', Inr r)"
  shows "case r of
      Some tx \<Rightarrow> bt_Events tx = open_events a \<and> open_events a' = [] \<and> as_cur a' = None \<and> as_cur a \<noteq> None
        \<and> \<not> isRows (ev_type e) \<and> as_nextGTID a' = []
    | None \<Rightarrow> if discards e then open_events a' = [] \<and> \<not> isRows (ev_type e)
        else open_events a' = open_events a @ (if isRows (ev_type e) then [e] else [])"
  using assms
  by (auto simp: PushEvent_def push_query_def push_rows_def open_events_def discards_def open_tx_def Let_def
      isRows_def event_types split: if_splits sum.splits option.splits)


definition demo_event :: "nat \<Rightarrow> string \<Rightarrow> Event" where
  "demo_event t p = \<lparr>ev_Header = \<lparr>hd_Timestamp = 0, hd_Type = t, hd_ServerID = 1, hd_EventSize = 0,
     hd_LogPos = 9, hd_Flags = 0\<rparr>, ev_Payload = p\<rparr>"


end
