(* ===== verification/PgOutput.thy ===== *)
theory PgOutput
  imports GoResult Domain
begin

text \<open>
  The PostgreSQL logical replication decoder, \<open>backend/internal/cdc/pgoutput/parser.go\<close>: the
  copy-data framing, the pgoutput messages byte by byte, and the decoder that collects the row
  changes of a transaction and hands them out at COMMIT. The cursor of the code is the rest of
  the message here. The last sections encode messages as the protocol lays them out and show
  that the decoder reads back what was written.
\<close>

section \<open>Data\<close>

record Column =
  co_Flags :: nat
  co_Name :: string
  co_TypeOID :: nat
  co_TypeModifier :: int

record PgRelation =
  rl_ID :: nat
  rl_Namespace :: string
  rl_Name :: string
  rl_ReplicaIdentity :: char
  rl_Columns :: "Column list"

record TupleValue =
  tv_Kind :: char
  tv_Data :: string

record XLogData =
  xl_WALStart :: nat
  xl_WALEnd :: nat
  xl_ServerTime :: time
  xl_Plugin :: string

record PgTransaction =
  pt_XID :: nat
  pt_Events :: "CDCEvent list"
  pt_CommitLSN :: nat
  pt_EndLSN :: nat
  pt_CommitTime :: time

record Decoder =
  dc_relations :: "(nat, PgRelation) gomap"
  dc_current :: "PgTransaction option"
  dc_positionType :: string
  dc_idPrefix :: string

definition NewDecoderWithDialect :: "string \<Rightarrow> string \<Rightarrow> Decoder" where
  "NewDecoderWithDialect positionType idPrefix =
     \<lparr>dc_relations = [], dc_current = None,
      dc_positionType = (if positionType = [] then ''LSN'' else positionType),
      dc_idPrefix = (if idPrefix = [] then ''pg'' else idPrefix)\<rparr>"

definition NewDecoder :: Decoder where
  "NewDecoder = NewDecoderWithDialect ''LSN'' ''pg''"

definition DecoderRelation :: "nat \<Rightarrow> Decoder \<Rightarrow> PgRelation option" where
  "DecoderRelation i d = map_of (dc_relations d) i"

section \<open>Log sequence numbers and times\<close>

text \<open>\<open>%X\<close> of an unsigned integer.\<close>

definition hex_upper :: "nat \<Rightarrow> char" where
  "hex_upper n = (if n < 10 then char_of (48 + n) else char_of (55 + n))"

fun hex_str :: "nat \<Rightarrow> string" where
  "hex_str n = (if n < 16 then [hex_upper n] else hex_str (n div 16) @ [hex_upper (n mod 16)])"

declare hex_str.simps [simp del]

definition FormatLSN :: "nat \<Rightarrow> string" where
  "FormatLSN v = hex_str (v div 2 ^ 32 mod 2 ^ 32) @ ''/'' @ hex_str (v mod 2 ^ 32)"

text \<open>\<open>%X\<close> of \<open>fmt.Sscanf\<close> into a \<open>uint64\<close>: blanks, then hexadecimal digits, as many as there are.
  A newline among the blanks is an error.\<close>

fun scan_space :: "string \<Rightarrow> string option" where
  "scan_space [] = Some []"
| "scan_space (c # cs) =
     (if c = CHR 0x0D \<and> cs \<noteq> [] \<and> hd cs = CHR 0x0A then scan_space (tl cs)
      else if c = CHR 0x0A then None
      else if is_space c then scan_space cs
      else Some (c # cs))"

fun hex_value :: "nat \<Rightarrow> string \<Rightarrow> nat" where
  "hex_value acc [] = acc"
| "hex_value acc (c # cs) = hex_value (acc * 16 + (case hex_val c of None \<Rightarrow> 0 | Some d \<Rightarrow> d)) cs"

definition is_hex :: "char \<Rightarrow> bool" where
  "is_hex c \<longleftrightarrow> hex_val c \<noteq> None"

definition scan_hex :: "string \<Rightarrow> go_error + nat \<times> string" where
  "scan_hex s = (case scan_space s of
     None \<Rightarrow> Inl (ErrText ''unexpected newline'')
   | Some s \<Rightarrow>
       if takeWhile is_hex s = [] then Inl (ErrText ''expected integer'')
       else if hex_value 0 (takeWhile is_hex s) \<ge> 2 ^ 64
       then Inl (ErrText ''unsigned integer overflow on token'')
       else Inr (hex_value 0 (takeWhile is_hex s), dropWhile is_hex s))"

definition ParseLSN :: "string \<Rightarrow> go_error + nat" where
  "ParseLSN s =
     bind_r (scan_hex s) (\<lambda>(hi, rest).
     if rest = [] then Inl (ErrText ''unexpected EOF'')
     else if hd rest \<noteq> CHR ''/'' then Inl (ErrText ''input does not match format'')
     else bind_r (scan_hex (tl rest)) (\<lambda>(lo, rest).
       if hi > 0xffffffff \<or> lo > 0xffffffff then Inl (ErrText ''LSN component overflow'')
       else Inr (hi * 2 ^ 32 + lo)))"

text \<open>2000-01-01 and 1970-01-01, in nanoseconds since Go's zero time.\<close>

definition pg_epoch :: time where
  "pg_epoch = 63082281600 * 10 ^ 9"

definition unix_epoch :: time where
  "unix_epoch = 62135596800 * 10 ^ 9"

definition postgresTime :: "int \<Rightarrow> time" where
  "postgresTime micros = pg_epoch + i64 (micros * 1000)"

definition unix_milli :: "time \<Rightarrow> int" where
  "unix_milli t = (t - unix_epoch) div 10 ^ 6"

section \<open>Framing\<close>

definition ube :: "nat \<Rightarrow> nat \<Rightarrow> string \<Rightarrow> nat" where
  "ube i n p = be_nat (take n (drop i p))"

text \<open>\<open>None\<close> is a keepalive.\<close>

definition ParseCopyData :: "string \<Rightarrow> go_error + XLogData option" where
  "ParseCopyData p =
     (if p = [] then Inl (ErrText ''empty replication CopyData'')
      else if hd p = CHR ''k'' then
        (if length p < 18 then Inl (ErrText ''short primary keepalive'') else Inr None)
      else if hd p \<noteq> CHR ''w'' then Inl (ErrText ''unsupported replication CopyData type'')
      else if length p < 25 then Inl (ErrText ''short XLogData'')
      else Inr (Some \<lparr>xl_WALStart = ube 1 8 p, xl_WALEnd = ube 9 8 p,
        xl_ServerTime = postgresTime (i64 (int (ube 17 8 p))), xl_Plugin = drop 25 p\<rparr>))"

section \<open>The cursor\<close>

definition short_message :: go_error where
  "short_message = ErrText ''short pgoutput message''"

definition need :: "int \<Rightarrow> string \<Rightarrow> bool" where
  "need n b \<longleftrightarrow> 0 \<le> n \<and> n \<le> int (length b)"

definition cur_u8 :: "string \<Rightarrow> go_error + char \<times> string" where
  "cur_u8 b = (if need 1 b then Inr (hd b, drop 1 b) else Inl short_message)"

definition cur_u16 :: "string \<Rightarrow> go_error + nat \<times> string" where
  "cur_u16 b = (if need 2 b then Inr (be_nat (take 2 b), drop 2 b) else Inl short_message)"

definition cur_u32 :: "string \<Rightarrow> go_error + nat \<times> string" where
  "cur_u32 b = (if need 4 b then Inr (be_nat (take 4 b), drop 4 b) else Inl short_message)"

definition to_i32 :: "nat \<Rightarrow> int" where
  "to_i32 n = (if n < 2 ^ 31 then int n else int n - 2 ^ 32)"

definition cur_i32 :: "string \<Rightarrow> go_error + int \<times> string" where
  "cur_i32 b = bind_r (cur_u32 b) (\<lambda>(v, b). Inr (to_i32 v, b))"

definition cur_u64 :: "string \<Rightarrow> go_error + nat \<times> string" where
  "cur_u64 b = (if need 8 b then Inr (be_nat (take 8 b), drop 8 b) else Inl short_message)"

definition cur_cstr :: "string \<Rightarrow> go_error + string \<times> string" where
  "cur_cstr b =
     (if CHR 0x00 \<in> set b
      then Inr (takeWhile (\<lambda>c. c \<noteq> CHR 0x00) b, tl (dropWhile (\<lambda>c. c \<noteq> CHR 0x00) b))
      else Inl (ErrText ''unterminated pgoutput cstring''))"

definition cur_bytes :: "int \<Rightarrow> string \<Rightarrow> go_error + string \<times> string" where
  "cur_bytes n b = (if need n b then Inr (take (nat n) b, drop (nat n) b) else Inl short_message)"

section \<open>Tuples and relations\<close>

definition parse_value :: "string \<Rightarrow> go_error + TupleValue \<times> string" where
  "parse_value b =
     bind_r (cur_u8 b) (\<lambda>(k, b).
     if k = CHR ''n'' \<or> k = CHR ''u'' then Inr (\<lparr>tv_Kind = k, tv_Data = []\<rparr>, b)
     else if k = CHR ''t'' \<or> k = CHR ''b'' then
       bind_r (cur_u32 b) (\<lambda>(l, b).
       if l > 128 * 2 ^ 20 then Inl (ErrText ''pgoutput tuple field too large'')
       else bind_r (cur_bytes (int l) b) (\<lambda>(v, b). Inr (\<lparr>tv_Kind = k, tv_Data = v\<rparr>, b)))
     else Inl (ErrText ''unsupported tuple kind''))"

fun parse_values :: "nat \<Rightarrow> string \<Rightarrow> go_error + TupleValue list \<times> string" where
  "parse_values 0 b = Inr ([], b)"
| "parse_values (Suc n) b =
     bind_r (parse_value b) (\<lambda>(v, b). bind_r (parse_values n b) (\<lambda>(vs, b). Inr (v # vs, b)))"

definition parseTuple :: "string \<Rightarrow> go_error + TupleValue list \<times> string" where
  "parseTuple b = bind_r (cur_u16 b) (\<lambda>(n, b). parse_values n b)"

definition tuple_columns :: "PgRelation \<Rightarrow> TupleValue list \<Rightarrow> bool \<Rightarrow> Column list" where
  "tuple_columns rel values keyOnly =
     (if keyOnly \<and> length values \<noteq> length (rl_Columns rel)
      then let keys = filter (\<lambda>col. co_Flags col mod 2 = 1) (rl_Columns rel)
           in if length keys = length values then keys else rl_Columns rel
      else rl_Columns rel)"

definition tuple_field :: "Column \<Rightarrow> TupleValue \<Rightarrow> CDCField" where
  "tuple_field col v =
     \<lparr>cf_Column = co_Name col, cf_Null = (tv_Kind v = CHR ''n''),
      cf_Value = (if tv_Kind v = CHR ''t'' then tv_Data v
                  else if tv_Kind v = CHR ''b'' then base64_encode (tv_Data v) else []),
      cf_Encoding = (if tv_Kind v = CHR ''b'' then ''base64'' else [])\<rparr>"

definition tupleFields :: "PgRelation \<Rightarrow> TupleValue list \<Rightarrow> bool \<Rightarrow> CDCField list" where
  "tupleFields rel values keyOnly =
     map (\<lambda>(col, v). tuple_field col v)
       (filter (\<lambda>(col, v). tv_Kind v \<noteq> CHR ''u'') (zip (tuple_columns rel values keyOnly) values))"

definition parse_column :: "string \<Rightarrow> go_error + Column \<times> string" where
  "parse_column b =
     bind_r (cur_u8 b) (\<lambda>(flags, b).
     bind_r (cur_cstr b) (\<lambda>(cn, b).
     bind_r (cur_u32 b) (\<lambda>(oid, b).
     bind_r (cur_i32 b) (\<lambda>(modifier, b).
     Inr (\<lparr>co_Flags = byte_nat flags, co_Name = cn, co_TypeOID = oid, co_TypeModifier = modifier\<rparr>, b)))))"

fun parse_columns :: "nat \<Rightarrow> string \<Rightarrow> go_error + Column list \<times> string" where
  "parse_columns 0 b = Inr ([], b)"
| "parse_columns (Suc n) b =
     bind_r (parse_column b) (\<lambda>(v, b). bind_r (parse_columns n b) (\<lambda>(vs, b). Inr (v # vs, b)))"

definition decodeRelation :: "string \<Rightarrow> Decoder \<Rightarrow> go_error + Decoder" where
  "decodeRelation b d =
     bind_r (cur_u32 b) (\<lambda>(i, b).
     bind_r (cur_cstr b) (\<lambda>(ns, b).
     bind_r (cur_cstr b) (\<lambda>(name, b).
     bind_r (cur_u8 b) (\<lambda>(repl, b).
     bind_r (cur_u16 b) (\<lambda>(n, b).
     bind_r (parse_columns n b) (\<lambda>(cols, b).
     Inr (d\<lparr>dc_relations := AList.update i
       \<lparr>rl_ID = i, rl_Namespace = ns, rl_Name = name, rl_ReplicaIdentity = repl, rl_Columns = cols\<rparr>
       (dc_relations d)\<rparr>)))))))"

definition known_relation :: "string \<Rightarrow> Decoder \<Rightarrow> go_error + PgRelation \<times> string" where
  "known_relation b d =
     bind_r (cur_u32 b) (\<lambda>(i, b). case map_of (dc_relations d) i of
         None \<Rightarrow> Inl (ErrText ''unknown pgoutput relation'')
       | Some r \<Rightarrow> Inr (r, b))"

definition relationAndTuple :: "string \<Rightarrow> Decoder \<Rightarrow> go_error + PgRelation \<times> TupleValue list" where
  "relationAndTuple b d =
     bind_r (known_relation b d) (\<lambda>(r, b).
     bind_r (cur_u8 b) (\<lambda>(tag, b).
     bind_r (parseTuple b) (\<lambda>(t, b). Inr (r, t))))"

section \<open>The decoder\<close>

text \<open>What a message does to the decoder, and the transaction it hands out; a message that is
  refused changes nothing.\<close>

definition row_event ::
  "Decoder \<Rightarrow> nat \<Rightarrow> CDCOperation \<Rightarrow> PgRelation \<Rightarrow> CDCField list \<Rightarrow> CDCField list \<Rightarrow> CDCEvent" where
  "row_event d wal op r before after =
     \<lparr>ev_ID = dc_idPrefix d @ '':'' @ nat_str wal, ev_Operation = op, ev_SourceSchema = rl_Namespace r,
      ev_SourceTable = rl_Name r, ev_SQL = [], ev_Before = before, ev_After = after,
      ev_PositionType = [], ev_PositionValue = [], ev_Resource = [], ev_SourceTimestampMS = 0\<rparr>"

definition append_event :: "string \<Rightarrow> CDCEvent \<Rightarrow> Decoder \<Rightarrow> go_error + Decoder \<times> PgTransaction option" where
  "append_event msg e d = (case dc_current d of
     None \<Rightarrow> Inl (ErrText msg)
   | Some tx \<Rightarrow> Inr (d\<lparr>dc_current := Some (tx\<lparr>pt_Events := pt_Events tx @ [e]\<rparr>)\<rparr>, None))"

definition push_begin :: "string \<Rightarrow> Decoder \<Rightarrow> go_error + Decoder \<times> PgTransaction option" where
  "push_begin b d =
     bind_r (cur_u64 b) (\<lambda>(final, b).
     bind_r (cur_u64 b) (\<lambda>(commit, b).
     bind_r (cur_u32 b) (\<lambda>(xid, b).
     Inr (d\<lparr>dc_current := Some \<lparr>pt_XID = xid, pt_Events = [], pt_CommitLSN = 0, pt_EndLSN = 0,
            pt_CommitTime = postgresTime (i64 (int commit))\<rparr>\<rparr>, None))))"

definition stamp :: "string \<Rightarrow> string \<Rightarrow> int \<Rightarrow> CDCEvent \<Rightarrow> CDCEvent" where
  "stamp positionType pos ts e =
     e\<lparr>ev_PositionType := positionType, ev_PositionValue := pos, ev_SourceTimestampMS := ts\<rparr>"

definition push_commit :: "string \<Rightarrow> Decoder \<Rightarrow> go_error + Decoder \<times> PgTransaction option" where
  "push_commit b d =
     bind_r (cur_u8 b) (\<lambda>(flags, b).
     bind_r (cur_u64 b) (\<lambda>(commit, b).
     bind_r (cur_u64 b) (\<lambda>(lsn, b).
     bind_r (cur_u64 b) (\<lambda>(tm, b).
     case dc_current d of
       None \<Rightarrow> Inl (ErrText ''pgoutput COMMIT without BEGIN'')
     | Some tx \<Rightarrow>
         let t = postgresTime (i64 (int tm)) in
         Inr (d\<lparr>dc_current := None\<rparr>,
           Some (tx\<lparr>pt_CommitLSN := commit, pt_EndLSN := lsn, pt_CommitTime := t,
             pt_Events := map (stamp (dc_positionType d) (FormatLSN lsn) (unix_milli t)) (pt_Events tx)\<rparr>))))))"

definition push_insert :: "nat \<Rightarrow> string \<Rightarrow> Decoder \<Rightarrow> go_error + Decoder \<times> PgTransaction option" where
  "push_insert wal b d =
     bind_r (relationAndTuple b d) (\<lambda>(r, t).
     append_event ''pgoutput INSERT outside transaction''
       (row_event d wal CDCInsert r [] (tupleFields r t False)) d)"

definition update_before :: "char \<Rightarrow> string \<Rightarrow> go_error + TupleValue list \<times> char \<times> string" where
  "update_before tag b =
     (if tag = CHR ''K'' \<or> tag = CHR ''O''
      then bind_r (parseTuple b) (\<lambda>(before, b). bind_r (cur_u8 b) (\<lambda>(tag, b). Inr (before, tag, b)))
      else Inr ([], tag, b))"

definition push_update :: "nat \<Rightarrow> string \<Rightarrow> Decoder \<Rightarrow> go_error + Decoder \<times> PgTransaction option" where
  "push_update wal b d =
     bind_r (known_relation b d) (\<lambda>(r, b).
     bind_r (cur_u8 b) (\<lambda>(tag, b).
     let keyOnly = (tag = CHR ''K'') in
     bind_r (update_before tag b) (\<lambda>(before, tag, b).
     if tag \<noteq> CHR ''N'' then Inl (ErrText ''pgoutput UPDATE expected new tuple'')
     else bind_r (parseTuple b) (\<lambda>(after, b).
       append_event ''pgoutput UPDATE outside transaction''
         (row_event d wal CDCUpdate r (tupleFields r before keyOnly) (tupleFields r after False)) d))))"

definition push_delete :: "nat \<Rightarrow> string \<Rightarrow> Decoder \<Rightarrow> go_error + Decoder \<times> PgTransaction option" where
  "push_delete wal b d =
     bind_r (known_relation b d) (\<lambda>(r, b).
     bind_r (cur_u8 b) (\<lambda>(tag, b).
     if tag \<noteq> CHR ''K'' \<and> tag \<noteq> CHR ''O'' then Inl (ErrText ''pgoutput DELETE tuple tag'')
     else bind_r (parseTuple b) (\<lambda>(before, b).
       append_event ''pgoutput DELETE outside transaction''
         (row_event d wal CDCDelete r (tupleFields r before (tag = CHR ''K'')) []) d)))"

definition push_message :: "nat \<Rightarrow> string \<Rightarrow> Decoder \<Rightarrow> go_error + Decoder \<times> PgTransaction option" where
  "push_message wal m d =
     (let typ = hd m; b = drop 1 m in
      if typ = CHR ''B'' then push_begin b d
      else if typ = CHR ''C'' then push_commit b d
      else if typ = CHR ''R'' then bind_r (decodeRelation b d) (\<lambda>d'. Inr (d', None))
      else if typ = CHR ''I'' then push_insert wal b d
      else if typ = CHR ''U'' then push_update wal b d
      else if typ = CHR ''D'' then push_delete wal b d
      else if typ = CHR ''Y'' \<or> typ = CHR ''O'' \<or> typ = CHR ''M'' \<or> typ = CHR ''T'' then Inr (d, None)
      else Inl (ErrText ''unsupported pgoutput message type''))"

definition PushCopyData :: "string \<Rightarrow> Decoder \<Rightarrow> Decoder \<times> (go_error + PgTransaction option)" where
  "PushCopyData copyData d =
     (case bind_r (ParseCopyData copyData) (\<lambda>x. case x of
             None \<Rightarrow> Inr (d, None)
           | Some x \<Rightarrow> if xl_Plugin x = [] then Inl (ErrText ''empty pgoutput plugin message'')
                       else push_message (xl_WALStart x) (xl_Plugin x) d) of
        Inl e \<Rightarrow> (d, Inl e)
      | Inr (d', r) \<Rightarrow> (d', Inr r))"

section \<open>Log sequence numbers\<close>

lemma hex_val_upper [simp]: "n < 16 \<Longrightarrow> hex_val (hex_upper n) = Some n"
  unfolding hex_val_def hex_upper_def Let_def byte_nat_def
  by (simp add: of_char_of) (linarith?)

lemma hex_str_nonempty [simp]: "hex_str n \<noteq> []"
  by (subst hex_str.simps) simp

lemma hex_str_chars: "c \<in> set (hex_str n) \<Longrightarrow> is_hex c"
proof (induction n rule: hex_str.induct)
  case (1 n)
  then show ?case
    by (subst (asm) (2) hex_str.simps) (auto simp: is_hex_def split: if_splits)
qed

lemma hex_value_append: "hex_value a (s @ t) = hex_value (hex_value a s) t"
  by (induction s arbitrary: a) simp_all

lemma hex_value_str: "hex_value 0 (hex_str n) = n"
proof (induction n rule: hex_str.induct)
  case (1 n)
  then show ?case
    by (subst hex_str.simps) (simp add: hex_value_append)
qed

lemma hex_not_space:
  assumes "is_hex c"
  shows "\<not> is_space c \<and> c \<noteq> CHR 0x0A \<and> c \<noteq> CHR 0x0D \<and> c \<noteq> CHR ''/''"
proof -
  have "48 \<le> byte_nat c" using assms by (auto simp: is_hex_def hex_val_def Let_def split: if_splits)
  then show ?thesis by (auto simp: is_space_def byte_nat_def)
qed

lemma takeWhile_hex: "\<forall>c \<in> set s. is_hex c \<Longrightarrow> t = [] \<or> \<not> is_hex (hd t) \<Longrightarrow>
    takeWhile is_hex (s @ t) = s \<and> dropWhile is_hex (s @ t) = t"
  by (cases t) (auto simp: takeWhile_append)

lemma scan_hex_str:
  assumes "n < 2 ^ 64" and "t = [] \<or> \<not> is_hex (hd t)"
  shows "scan_hex (hex_str n @ t) = Inr (n, t)"
proof -
  obtain c cs where s: "hex_str n = c # cs" by (cases "hex_str n") auto
  then have "is_hex c" using hex_str_chars [of c n] by simp
  then have "scan_space (hex_str n @ t) = Some (hex_str n @ t)"
    using hex_not_space [of c] by (simp add: s)
  moreover have "takeWhile is_hex (hex_str n @ t) = hex_str n" "dropWhile is_hex (hex_str n @ t) = t"
    using takeWhile_hex [OF _ assms(2)] hex_str_chars by auto
  ultimately show ?thesis using assms(1) by (simp add: scan_hex_def hex_value_str)
qed

lemma not_hex_slash: "\<not> is_hex CHR ''/''"
  by (simp add: is_hex_def hex_val_def byte_nat_def)

lemma ParseLSN_FormatLSN:
  assumes "v < 2 ^ 64"
  shows "ParseLSN (FormatLSN v) = Inr v"
proof -
  have hi: "v div 2 ^ 32 mod 2 ^ 32 = v div 2 ^ 32" using assms by simp
  have "scan_hex (FormatLSN v) = Inr (v div 2 ^ 32, CHR ''/'' # hex_str (v mod 2 ^ 32))"
    unfolding FormatLSN_def hi using assms not_hex_slash by (subst scan_hex_str) simp_all
  moreover have "scan_hex (hex_str (v mod 2 ^ 32)) = Inr (v mod 2 ^ 32, [])"
    using scan_hex_str [of "v mod 2 ^ 32" "[]"] by (simp add: mod_less_divisor [THEN order.strict_trans])
  moreover have "v div 2 ^ 32 \<le> 0xffffffff" "v mod 2 ^ 32 \<le> 0xffffffff"
    using assms mod_less_divisor [of "2 ^ 32" v] by simp_all
  ultimately show ?thesis by (simp add: ParseLSN_def)
qed

section \<open>Messages as the protocol lays them out\<close>

definition field_ok :: "TupleValue \<Rightarrow> bool" where
  "field_ok v \<longleftrightarrow> (if tv_Kind v = CHR ''t'' \<or> tv_Kind v = CHR ''b'' then length (tv_Data v) \<le> 128 * 2 ^ 20
     else (tv_Kind v = CHR ''n'' \<or> tv_Kind v = CHR ''u'') \<and> tv_Data v = [])"

definition tuple_ok :: "TupleValue list \<Rightarrow> bool" where
  "tuple_ok vs \<longleftrightarrow> length vs < 2 ^ 16 \<and> list_all field_ok vs"

definition enc_value :: "TupleValue \<Rightarrow> string" where
  "enc_value v = tv_Kind v # (if tv_Kind v = CHR ''t'' \<or> tv_Kind v = CHR ''b''
     then be_bytes 4 (length (tv_Data v)) @ tv_Data v else [])"

definition enc_tuple :: "TupleValue list \<Rightarrow> string" where
  "enc_tuple vs = be_bytes 2 (length vs) @ concat (map enc_value vs)"

definition column_ok :: "Column \<Rightarrow> bool" where
  "column_ok c \<longleftrightarrow> co_Flags c < 256 \<and> CHR 0x00 \<notin> set (co_Name c) \<and> co_TypeOID c < 2 ^ 32
     \<and> - (2 ^ 31) \<le> co_TypeModifier c \<and> co_TypeModifier c < 2 ^ 31"

definition relation_ok :: "PgRelation \<Rightarrow> bool" where
  "relation_ok r \<longleftrightarrow> rl_ID r < 2 ^ 32 \<and> CHR 0x00 \<notin> set (rl_Namespace r) \<and> CHR 0x00 \<notin> set (rl_Name r)
     \<and> length (rl_Columns r) < 2 ^ 16 \<and> list_all column_ok (rl_Columns r)"

definition enc_column :: "Column \<Rightarrow> string" where
  "enc_column c = char_of (co_Flags c) # co_Name c @ CHR 0x00 # be_bytes 4 (co_TypeOID c)
     @ be_bytes 4 (nat (co_TypeModifier c mod 2 ^ 32))"

definition enc_relation :: "PgRelation \<Rightarrow> string" where
  "enc_relation r = CHR ''R'' # be_bytes 4 (rl_ID r) @ rl_Namespace r @ CHR 0x00 # rl_Name r @ CHR 0x00
     # rl_ReplicaIdentity r # be_bytes 2 (length (rl_Columns r)) @ concat (map enc_column (rl_Columns r))"

text \<open>What may stand between a BEGIN and its COMMIT: row changes, relation messages, and the
  messages the decoder skips.\<close>

datatype pg_item =
    Inserted nat "TupleValue list"
  | Updated nat "(bool \<times> TupleValue list) option" "TupleValue list"
  | Deleted nat bool "TupleValue list"
  | Described PgRelation
  | Skipped char string

fun enc_item :: "pg_item \<Rightarrow> string" where
  "enc_item (Inserted i t) = CHR ''I'' # be_bytes 4 i @ CHR ''N'' # enc_tuple t"
| "enc_item (Updated i None t) = CHR ''U'' # be_bytes 4 i @ CHR ''N'' # enc_tuple t"
| "enc_item (Updated i (Some (k, u)) t) =
     CHR ''U'' # be_bytes 4 i @ (if k then CHR ''K'' else CHR ''O'') # enc_tuple u @ CHR ''N'' # enc_tuple t"
| "enc_item (Deleted i k t) = CHR ''D'' # be_bytes 4 i @ (if k then CHR ''K'' else CHR ''O'') # enc_tuple t"
| "enc_item (Described r) = enc_relation r"
| "enc_item (Skipped c s) = c # s"

fun item_ok :: "Decoder \<Rightarrow> pg_item \<Rightarrow> bool" where
  "item_ok d (Inserted i t) \<longleftrightarrow> i < 2 ^ 32 \<and> map_of (dc_relations d) i \<noteq> None \<and> tuple_ok t"
| "item_ok d (Updated i before t) \<longleftrightarrow> i < 2 ^ 32 \<and> map_of (dc_relations d) i \<noteq> None \<and> tuple_ok t
     \<and> (case before of None \<Rightarrow> True | Some (k, u) \<Rightarrow> tuple_ok u)"
| "item_ok d (Deleted i k t) \<longleftrightarrow> i < 2 ^ 32 \<and> map_of (dc_relations d) i \<noteq> None \<and> tuple_ok t"
| "item_ok d (Described r) \<longleftrightarrow> relation_ok r"
| "item_ok d (Skipped c s) \<longleftrightarrow> c \<in> set ''YOMT''"

definition copy_data :: "nat \<Rightarrow> nat \<Rightarrow> nat \<Rightarrow> string \<Rightarrow> string" where
  "copy_data wal wend tm m = CHR ''w'' # be_bytes 8 wal @ be_bytes 8 wend @ be_bytes 8 tm @ m"

definition enc_begin :: "nat \<Rightarrow> nat \<Rightarrow> nat \<Rightarrow> string" where
  "enc_begin final tm xid = CHR ''B'' # be_bytes 8 final @ be_bytes 8 tm @ be_bytes 4 xid"

definition enc_commit :: "char \<Rightarrow> nat \<Rightarrow> nat \<Rightarrow> nat \<Rightarrow> string" where
  "enc_commit flags commit lsn tm = CHR ''C'' # flags # be_bytes 8 commit @ be_bytes 8 lsn @ be_bytes 8 tm"

text \<open>What an item means: the relations after it and the event of a row change.\<close>

fun describe :: "pg_item \<Rightarrow> Decoder \<Rightarrow> Decoder" where
  "describe (Described r) d = d\<lparr>dc_relations := AList.update (rl_ID r) r (dc_relations d)\<rparr>"
| "describe x d = d"

fun item_events :: "Decoder \<Rightarrow> nat \<Rightarrow> pg_item \<Rightarrow> CDCEvent list" where
  "item_events d wal (Inserted i t) =
     (let r = the (map_of (dc_relations d) i) in [row_event d wal CDCInsert r [] (tupleFields r t False)])"
| "item_events d wal (Updated i before t) =
     (let r = the (map_of (dc_relations d) i) in [row_event d wal CDCUpdate r
        (case before of None \<Rightarrow> tupleFields r [] False | Some (k, u) \<Rightarrow> tupleFields r u k) (tupleFields r t False)])"
| "item_events d wal (Deleted i k t) =
     (let r = the (map_of (dc_relations d) i) in [row_event d wal CDCDelete r (tupleFields r t k) []])"
| "item_events d wal _ = []"

text \<open>A body is read with the relations as they are when each item comes.\<close>

fun body_ok :: "Decoder \<Rightarrow> (nat \<times> nat \<times> nat \<times> pg_item) list \<Rightarrow> bool" where
  "body_ok d [] \<longleftrightarrow> True"
| "body_ok d ((w, e, tm, x) # xs) \<longleftrightarrow> w < 2 ^ 64 \<and> item_ok d x \<and> body_ok (describe x d) xs"

fun body_events :: "Decoder \<Rightarrow> (nat \<times> nat \<times> nat \<times> pg_item) list \<Rightarrow> CDCEvent list" where
  "body_events d [] = []"
| "body_events d ((w, e, tm, x) # xs) = item_events d w x @ body_events (describe x d) xs"

definition enc_body :: "(nat \<times> nat \<times> nat \<times> pg_item) list \<Rightarrow> string list" where
  "enc_body xs = map (\<lambda>(w, e, tm, x). copy_data w e tm (enc_item x)) xs"

fun push_all :: "string list \<Rightarrow> Decoder \<Rightarrow> Decoder \<times> PgTransaction list \<times> go_error option" where
  "push_all [] d = (d, [], None)"
| "push_all (p # ps) d =
     (case PushCopyData p d of
        (d', Inl x) \<Rightarrow> (d', [], Some x)
      | (d', Inr None) \<Rightarrow> push_all ps d'
      | (d', Inr (Some tx)) \<Rightarrow> (case push_all ps d' of (d'', txs, x) \<Rightarrow> (d'', tx # txs, x)))"

section \<open>Reading back\<close>

named_theorems pg_read \<open>what the cursor reads from an encoding\<close>

lemma take_drop_bytes [simp]:
  "take n (be_bytes n v @ s) = be_bytes n v" "drop n (be_bytes n v @ s) = s"
  by simp_all

lemma cur_u8_Cons [pg_read]: "cur_u8 (c # b) = Inr (c, b)"
  by (simp add: cur_u8_def need_def)

lemma cur_u16_bytes [pg_read]: "n < 2 ^ 16 \<Longrightarrow> cur_u16 (be_bytes 2 n @ b) = Inr (n, b)"
  by (simp add: cur_u16_def need_def be_nat_be_bytes del: be_bytes.simps)

lemma cur_u32_bytes [pg_read]: "n < 2 ^ 32 \<Longrightarrow> cur_u32 (be_bytes 4 n @ b) = Inr (n, b)"
  by (simp add: cur_u32_def need_def be_nat_be_bytes)

lemma cur_u32_last [pg_read]: "n < 2 ^ 32 \<Longrightarrow> cur_u32 (be_bytes 4 n) = Inr (n, [])"
  using cur_u32_bytes [of n "[]"] by simp

lemma cur_u64_bytes [pg_read]: "n < 2 ^ 64 \<Longrightarrow> cur_u64 (be_bytes 8 n @ b) = Inr (n, b)"
  by (simp add: cur_u64_def need_def be_nat_be_bytes)

lemma cur_u64_last [pg_read]: "n < 2 ^ 64 \<Longrightarrow> cur_u64 (be_bytes 8 n) = Inr (n, [])"
  using cur_u64_bytes [of n "[]"] by simp

lemma cur_i32_bytes [pg_read]:
  assumes "- 2147483648 \<le> n" and "n < 2147483648"
  shows "cur_i32 (be_bytes 4 (nat (n mod 4294967296)) @ b) = Inr (n, b)"
proof -
  have "n mod 4294967296 = (if n < 0 then n + 4294967296 else n)"
  proof (cases "n < 0")
    case True
    have "n mod 4294967296 = (n + 4294967296) mod 4294967296" by simp
    also have "\<dots> = n + 4294967296" by (rule mod_pos_pos_trivial) (use True assms in simp_all)
    finally show ?thesis using True by simp
  next
    case False
    then show ?thesis using assms(2) by (simp add: mod_pos_pos_trivial)
  qed
  then show ?thesis using assms by (simp add: cur_i32_def to_i32_def pg_read) arith
qed

lemma cur_cstr_bytes [pg_read]:
  assumes "CHR 0x00 \<notin> set s"
  shows "cur_cstr (s @ CHR 0x00 # b) = Inr (s, b)"
proof -
  have "takeWhile (\<lambda>c. c \<noteq> CHR 0x00) (s @ CHR 0x00 # b) = s"
    "dropWhile (\<lambda>c. c \<noteq> CHR 0x00) (s @ CHR 0x00 # b) = CHR 0x00 # b"
    using assms by (auto simp: takeWhile_append dropWhile_append)
  then show ?thesis by (simp add: cur_cstr_def)
qed

lemma cur_bytes_append [pg_read]: "cur_bytes (int (length s)) (s @ b) = Inr (s, b)"
  by (simp add: cur_bytes_def need_def)

lemma parse_value_enc [pg_read]:
  assumes "field_ok v"
  shows "parse_value (enc_value v @ b) = Inr (v, b)"
  using assms by (auto simp: parse_value_def enc_value_def field_ok_def cur_u8_Cons cur_u32_bytes
      cur_bytes_append bind_r_def split: if_splits)

lemma parse_values_enc [pg_read]:
  "list_all field_ok vs \<Longrightarrow> parse_values (length vs) (concat (map enc_value vs) @ b) = Inr (vs, b)"
  by (induction vs) (simp_all add: pg_read)

lemma parseTuple_enc [pg_read]: "tuple_ok vs \<Longrightarrow> parseTuple (enc_tuple vs @ b) = Inr (vs, b)"
  by (simp add: parseTuple_def enc_tuple_def tuple_ok_def pg_read)

lemma parseTuple_last [pg_read]: "tuple_ok vs \<Longrightarrow> parseTuple (enc_tuple vs) = Inr (vs, [])"
  using parseTuple_enc [of vs "[]"] by simp

lemma parse_column_enc [pg_read]: "column_ok c \<Longrightarrow> parse_column (enc_column c @ b) = Inr (c, b)"
  by (simp add: parse_column_def enc_column_def column_ok_def pg_read)

lemma parse_columns_enc [pg_read]:
  "list_all column_ok cs \<Longrightarrow> parse_columns (length cs) (concat (map enc_column cs) @ b) = Inr (cs, b)"
  by (induction cs) (simp_all add: pg_read)


lemma push_copy_data:
  assumes "w < 2 ^ 64" and "m \<noteq> []"
  shows "PushCopyData (copy_data w e tm m) d =
    (case push_message w m d of Inl x \<Rightarrow> (d, Inl x) | Inr (d', r) \<Rightarrow> (d', Inr r))"
proof -
  have "ParseCopyData (copy_data w e tm m) = Inr (Some \<lparr>xl_WALStart = w,
      xl_WALEnd = be_nat (be_bytes 8 e), xl_ServerTime = postgresTime (i64 (int (be_nat (be_bytes 8 tm)))),
      xl_Plugin = m\<rparr>)"
    using assms(1) by (simp add: ParseCopyData_def copy_data_def ube_def be_nat_be_bytes)
  then show ?thesis using assms(2) by (simp add: PushCopyData_def)
qed

lemmas push_defs = push_message_def push_insert_def push_update_def push_delete_def decodeRelation_def
  relationAndTuple_def known_relation_def update_before_def append_event_def

lemma push_item:
  assumes "item_ok d x" and "dc_current d = Some tx"
  shows "push_message w (enc_item x) d =
    Inr (describe x (d\<lparr>dc_current := Some (tx\<lparr>pt_Events := pt_Events tx @ item_events d w x\<rparr>)\<rparr>), None)"
proof (cases x)
  case (Inserted i t)
  then show ?thesis using assms by (auto simp: push_defs pg_read)
next
  case (Updated i before t)
  show ?thesis
  proof (cases before)
    case None
    then show ?thesis using Updated assms by (auto simp: push_defs pg_read)
  next
    case (Some p)
    then obtain k u where "before = Some (k, u)" by (cases p) auto
    then show ?thesis using Updated assms by (cases k) (auto simp: push_defs pg_read)
  qed
next
  case (Deleted i k t)
  then show ?thesis using assms by (cases k) (auto simp: push_defs pg_read)
next
  case (Described r)
  then show ?thesis using assms
    by (cases d; cases r) (auto simp: push_defs pg_read enc_relation_def relation_ok_def
        parse_columns_enc [of _ "[]", simplified])
next
  case (Skipped c s)
  then show ?thesis using assms by (auto simp: push_defs)
qed


lemma enc_item_nonempty: "enc_item x \<noteq> []"
  by (cases x rule: enc_item.cases) (simp_all add: enc_relation_def)

lemma describe_fields [simp]:
  "dc_current (describe x d) = dc_current d" "dc_positionType (describe x d) = dc_positionType d"
  "dc_idPrefix (describe x d) = dc_idPrefix d"
  by (cases x; simp)+

lemma describe_current: "describe x (d\<lparr>dc_current := c\<rparr>) = (describe x d)\<lparr>dc_current := c\<rparr>"
  by (cases x) simp_all

lemma item_ok_current [simp]: "item_ok (d\<lparr>dc_current := c\<rparr>) x = item_ok d x"
  by (cases x) simp_all

lemma item_events_current [simp]: "item_events (d\<lparr>dc_current := c\<rparr>) w x = item_events d w x"
  by (cases x) (simp_all add: row_event_def)

definition described :: "(nat \<times> nat \<times> nat \<times> pg_item) list \<Rightarrow> Decoder \<Rightarrow> Decoder" where
  "described xs d = fold (\<lambda>(w, e, tm, x). describe x) xs d"

lemma push_all_append:
  "push_all xs d = (d', [], None) \<Longrightarrow> push_all (xs @ ys) d = push_all ys d'"
  by (induction xs arbitrary: d) (auto split: prod.splits sum.splits option.splits)

lemma push_body:
  assumes "body_ok d xs"
  shows "push_all (enc_body xs) (d\<lparr>dc_current := Some tx\<rparr>) =
    ((described xs d)\<lparr>dc_current := Some (tx\<lparr>pt_Events := pt_Events tx @ body_events d xs\<rparr>)\<rparr>, [], None)"
  using assms
proof (induction xs arbitrary: d tx)
  case Nil
  then show ?case by (simp add: enc_body_def described_def)
next
  case (Cons y xs)
  obtain w e tm x where y: "y = (w, e, tm, x)" by (cases y) auto
  have ok: "item_ok d x" "w < 2 ^ 64" "body_ok (describe x d) xs" using Cons.prems y by auto
  have "PushCopyData (copy_data w e tm (enc_item x)) (d\<lparr>dc_current := Some tx\<rparr>) =
      ((describe x d)\<lparr>dc_current := Some (tx\<lparr>pt_Events := pt_Events tx @ item_events d w x\<rparr>)\<rparr>, Inr None)"
    using ok by (simp add: push_copy_data enc_item_nonempty push_item describe_current)
  then show ?case
    using Cons.IH [OF ok(3)] by (simp add: y enc_body_def described_def)
qed

section \<open>Transactions on the wire\<close>

text \<open>A transaction with the numbers its BEGIN and COMMIT carry and the frames of the two.\<close>

record pg_wire =
  wi_begin_frame :: "nat \<times> nat \<times> nat"
  wi_final :: nat
  wi_begin_time :: nat
  wi_xid :: nat
  wi_body :: "(nat \<times> nat \<times> nat \<times> pg_item) list"
  wi_commit_frame :: "nat \<times> nat \<times> nat"
  wi_flags :: char
  wi_commit :: nat
  wi_lsn :: nat
  wi_time :: nat

definition wire_head :: "pg_wire \<Rightarrow> string list" where
  "wire_head x = (case wi_begin_frame x of (w, e, tm) \<Rightarrow>
     copy_data w e tm (enc_begin (wi_final x) (wi_begin_time x) (wi_xid x))) # enc_body (wi_body x)"

definition wire_commit :: "pg_wire \<Rightarrow> string" where
  "wire_commit x = (case wi_commit_frame x of (w, e, tm) \<Rightarrow>
     copy_data w e tm (enc_commit (wi_flags x) (wi_commit x) (wi_lsn x) (wi_time x)))"

definition wire_ok :: "Decoder \<Rightarrow> pg_wire \<Rightarrow> bool" where
  "wire_ok d x \<longleftrightarrow> body_ok d (wi_body x) \<and> fst (wi_begin_frame x) < 2 ^ 64 \<and> fst (wi_commit_frame x) < 2 ^ 64
     \<and> wi_final x < 2 ^ 64 \<and> wi_begin_time x < 2 ^ 64 \<and> wi_xid x < 2 ^ 32 \<and> wi_commit x < 2 ^ 64
     \<and> wi_lsn x < 2 ^ 64 \<and> wi_time x < 2 ^ 64"

definition wire_clock :: "pg_wire \<Rightarrow> time" where
  "wire_clock x = postgresTime (i64 (int (wi_time x)))"

definition wire_tx :: "Decoder \<Rightarrow> pg_wire \<Rightarrow> PgTransaction" where
  "wire_tx d x = \<lparr>pt_XID = wi_xid x,
     pt_Events = map (stamp (dc_positionType d) (FormatLSN (wi_lsn x)) (unix_milli (wire_clock x)))
       (body_events d (wi_body x)),
     pt_CommitLSN = wi_commit x, pt_EndLSN = wi_lsn x, pt_CommitTime = wire_clock x\<rparr>"

definition after_wire :: "pg_wire \<Rightarrow> Decoder \<Rightarrow> Decoder" where
  "after_wire x d = (described (wi_body x) d)\<lparr>dc_current := None\<rparr>"

lemma described_positionType: "dc_positionType (described xs d) = dc_positionType d"
  unfolding described_def by (induction xs arbitrary: d) auto

lemma push_wire:
  assumes "wire_ok d x"
  obtains d' where "push_all (wire_head x) d = (d', [], None)"
    "PushCopyData (wire_commit x) d' = (after_wire x d, Inr (Some (wire_tx d x)))"
proof
  let ?t0 = "\<lparr>pt_XID = wi_xid x, pt_Events = [], pt_CommitLSN = 0, pt_EndLSN = 0,
    pt_CommitTime = postgresTime (i64 (int (wi_begin_time x)))\<rparr>"
  let ?d = "(described (wi_body x) d)\<lparr>dc_current := Some (?t0\<lparr>pt_Events := body_events d (wi_body x)\<rparr>)\<rparr>"
  show "push_all (wire_head x) d = (?d, [], None)"
    using assms push_body [of d "wi_body x" ?t0]
    by (cases "wi_begin_frame x")
      (simp add: wire_head_def wire_ok_def push_copy_data enc_begin_def push_message_def push_begin_def pg_read)
  show "PushCopyData (wire_commit x) ?d = (after_wire x d, Inr (Some (wire_tx d x)))"
    using assms
    by (cases "wi_commit_frame x")
      (simp add: wire_commit_def wire_ok_def push_copy_data enc_commit_def push_message_def push_commit_def pg_read
        Let_def after_wire_def wire_tx_def wire_clock_def described_positionType)
qed

text \<open>
  C22. A source transaction written as the protocol lays it out, a BEGIN, any row changes,
  relation messages and skipped messages, and a COMMIT, is read back exactly once and exactly:
  nothing is handed out before the COMMIT, the COMMIT hands out one transaction holding the
  event of every row change in order, each stamped with the end of the transaction, whose
  position parses back to that log sequence number, and the decoder is between transactions
  again, with the relations described on the way.
\<close>

theorem pg_transaction_roundtrip:
  assumes "wire_ok d x"
  shows "push_all (wire_head x) d = (fst (push_all (wire_head x) d), [], None)
    \<and> push_all (wire_head x @ [wire_commit x]) d = (after_wire x d, [wire_tx d x], None)
    \<and> map ev_PositionValue (pt_Events (wire_tx d x)) = map (\<lambda>e. FormatLSN (wi_lsn x)) (body_events d (wi_body x))
    \<and> ParseLSN (FormatLSN (wi_lsn x)) = Inr (wi_lsn x)"
proof -
  obtain d' where d': "push_all (wire_head x) d = (d', [], None)"
    "PushCopyData (wire_commit x) d' = (after_wire x d, Inr (Some (wire_tx d x)))"
    using assms by (rule push_wire)
  then have "push_all (wire_head x @ [wire_commit x]) d = (after_wire x d, [wire_tx d x], None)"
    by (simp add: push_all_append)
  with d'(1) assms show ?thesis
    by (simp add: wire_ok_def ParseLSN_FormatLSN wire_tx_def stamp_def)
qed

definition demo_relation :: PgRelation where
  "demo_relation = \<lparr>rl_ID = 7, rl_Namespace = ''public'', rl_Name = ''t'', rl_ReplicaIdentity = CHR ''d'',
     rl_Columns = [\<lparr>co_Flags = 1, co_Name = ''id'', co_TypeOID = 23, co_TypeModifier = - 1\<rparr>]\<rparr>"

definition demo_wire :: pg_wire where
  "demo_wire = \<lparr>wi_begin_frame = (1, 1, 0), wi_final = 0, wi_begin_time = 0, wi_xid = 9,
     wi_body = [(2, 2, 0, Described demo_relation), (3, 3, 0, Inserted 7 [\<lparr>tv_Kind = CHR ''t'', tv_Data = ''42''\<rparr>])],
     wi_commit_frame = (4, 4, 0), wi_flags = CHR 0x00, wi_commit = 4, wi_lsn = 5, wi_time = 0\<rparr>"

lemma demo_wire_ok: "wire_ok NewDecoder demo_wire"
  by (simp add: demo_wire_def wire_ok_def demo_relation_def relation_ok_def column_ok_def tuple_ok_def field_ok_def
      NewDecoder_def NewDecoderWithDialect_def)

theorem pg_transaction_roundtrip_witness:
  "\<exists>d' tx. push_all (wire_head demo_wire @ [wire_commit demo_wire]) NewDecoder = (d', [tx], None)
     \<and> map ev_After (pt_Events tx) = [[\<lparr>cf_Column = ''id'', cf_Null = False, cf_Value = ''42'', cf_Encoding = []\<rparr>]]"
proof -
  have "map ev_After (pt_Events (wire_tx NewDecoder demo_wire)) =
      [[\<lparr>cf_Column = ''id'', cf_Null = False, cf_Value = ''42'', cf_Encoding = []\<rparr>]]"
    by (simp add: wire_tx_def demo_wire_def stamp_def demo_relation_def NewDecoder_def NewDecoderWithDialect_def
        row_event_def tupleFields_def tuple_columns_def tuple_field_def)
  with pg_transaction_roundtrip [OF demo_wire_ok] show ?thesis
    by (intro exI [of _ "after_wire demo_wire NewDecoder"] exI [of _ "wire_tx NewDecoder demo_wire"]) simp
qed

end
