(* ===== verification/CdcRuntime.thy ===== *)
theory CdcRuntime
  imports PgOutput
begin

text \<open>
  The change-capture runner, \<open>backend/internal/cdc/runtime/runtime.go\<close>, over any reader, and the
  PostgreSQL reader, \<open>backend/internal/cdc/pgoutput/reader.go\<close>, as one. The hooks of the runner are
  functions on the state of the world they share; the runner also keeps the trace of their calls,
  which the code does not have and no hook sees. A run that never returns is the value \<open>None\<close>.
\<close>

section \<open>The runner\<close>

record RtTransaction =
  rx_Events :: "CDCEvent list"
  rx_Checkpoint :: CDCPosition
  rx_Label :: string

text \<open>The hooks: the reader's \<open>Next\<close> (\<open>None\<close> at the end of the stream), \<open>Acknowledge\<close> and \<open>Close\<close>,
  and the runner's own.\<close>

record ('w, 'r) CdcRunner =
  rn_Next :: "'w \<Rightarrow> 'w \<times> (go_error + RtTransaction option)"
  rn_Acknowledge :: "RtTransaction \<Rightarrow> 'w \<Rightarrow> 'w \<times> go_error option"
  rn_Close :: "'w \<Rightarrow> 'w"
  rn_Gate :: "('w \<Rightarrow> 'w \<times> go_error option) option"
  rn_Apply :: "CDCEvent list \<Rightarrow> 'w \<Rightarrow> 'w \<times> (go_error + 'r)"
  rn_Observe :: "(RtTransaction \<Rightarrow> 'r \<Rightarrow> 'w \<Rightarrow> 'w) option"

datatype rt_call =
    Got RtTransaction
  | Applied RtTransaction bool
  | Acked RtTransaction bool
  | Observed RtTransaction
  | Closed

definition empty_transaction :: "RtTransaction \<Rightarrow> go_error" where
  "empty_transaction tx = ErrText (''native CDC reader emitted empty transaction at ''
     @ pos_PositionValue (rx_Checkpoint tx))"

definition ack_error :: "RtTransaction \<Rightarrow> go_error \<Rightarrow> go_error" where
  "ack_error tx e = ErrText (''acknowledge source checkpoint '' @ pos_PositionValue (rx_Checkpoint tx))"

definition observe :: "('w, 'r) CdcRunner \<Rightarrow> RtTransaction \<Rightarrow> 'r \<Rightarrow> 'w \<Rightarrow> 'w" where
  "observe r tx res w = (case rn_Observe r of None \<Rightarrow> w | Some f \<Rightarrow> f tx res w)"

definition observed :: "('w, 'r) CdcRunner \<Rightarrow> RtTransaction \<Rightarrow> rt_call list" where
  "observed r tx = (case rn_Observe r of None \<Rightarrow> [] | Some f \<Rightarrow> [Observed tx])"

partial_function (option) run_loop ::
  "('w, 'r) CdcRunner \<Rightarrow> 'w \<Rightarrow> rt_call list \<Rightarrow> ('w \<times> rt_call list \<times> go_error option) option" where
  "run_loop r w tr =
     (case rn_Next r w of
        (w, Inl e) \<Rightarrow> Some (w, tr, Some e)
      | (w, Inr None) \<Rightarrow> Some (w, tr, None)
      | (w, Inr (Some tx)) \<Rightarrow>
          if rx_Events tx = [] then Some (w, tr @ [Got tx], Some (empty_transaction tx))
          else (case rn_Apply r (rx_Events tx) w of
              (w, Inl e) \<Rightarrow> Some (w, tr @ [Got tx, Applied tx False], Some e)
            | (w, Inr res) \<Rightarrow>
                (case rn_Acknowledge r tx w of
                   (w, Some e) \<Rightarrow> Some (w, tr @ [Got tx, Applied tx True, Acked tx False], Some (ack_error tx e))
                 | (w, None) \<Rightarrow>
                     run_loop r (observe r tx res w) (tr @ [Got tx, Applied tx True, Acked tx True] @ observed r tx))))"

text \<open>The reader is closed however the loop ends.\<close>

definition CdcRun :: "('w, 'r) CdcRunner \<Rightarrow> 'w \<Rightarrow> ('w \<times> rt_call list \<times> go_error option) option" where
  "CdcRun r w =
     (case (case rn_Gate r of None \<Rightarrow> (w, None) | Some g \<Rightarrow> g w) of
        (w, Some e) \<Rightarrow> Some (rn_Close r w, [Closed], Some e)
      | (w, None) \<Rightarrow>
          (case run_loop r w [] of
             None \<Rightarrow> None
           | Some (w, tr, err) \<Rightarrow> Some (rn_Close r w, tr @ [Closed], err)))"

section \<open>The PostgreSQL reader\<close>

text \<open>The replication stream is what its calls of \<open>Next\<close> return; after the list the connection
  ends with the given error. \<open>now\<close> is the clock of the checkpoint events of empty transactions.\<close>

record PgReader =
  pr_stream :: "string list"
  pr_end :: go_error
  pr_decoder :: Decoder
  pr_positionType :: string
  pr_acked :: "string list"

definition NewReaderWithDialect :: "string list \<Rightarrow> go_error \<Rightarrow> string \<Rightarrow> string \<Rightarrow> PgReader" where
  "NewReaderWithDialect stream e positionType idPrefix =
     (let positionType = (if positionType = [] then ''LSN'' else positionType) in
      \<lparr>pr_stream = stream, pr_end = e, pr_decoder = NewDecoderWithDialect positionType idPrefix,
       pr_positionType = positionType, pr_acked = []\<rparr>)"

definition checkpoint_event :: "string \<Rightarrow> string \<Rightarrow> int \<Rightarrow> CDCEvent" where
  "checkpoint_event positionType pos ts =
     \<lparr>ev_ID = [], ev_Operation = CDCCheckpoint, ev_SourceSchema = [], ev_SourceTable = [], ev_SQL = [],
      ev_Before = [], ev_After = [], ev_PositionType = positionType, ev_PositionValue = pos,
      ev_Resource = [], ev_SourceTimestampMS = ts\<rparr>"

definition reader_transaction :: "time \<Rightarrow> string \<Rightarrow> PgTransaction \<Rightarrow> RtTransaction" where
  "reader_transaction now positionType tx =
     (let pos = FormatLSN (pt_EndLSN tx) in
      \<lparr>rx_Events = (if pt_Events tx = [] then [checkpoint_event positionType pos (unix_milli now)]
                    else pt_Events tx),
       rx_Checkpoint = \<lparr>pos_ID = [], pos_TaskID = [], pos_Direction = [], pos_DatabaseType = [],
         pos_PositionType = positionType, pos_PositionValue = pos, pos_Resource = [],
         pos_SourceTimestampMS = unix_milli (pt_CommitTime tx), pos_ApplyTimestampMS = 0, pos_LagMS = 0,
         pos_EventsTotal = 0, pos_EventsPending = 0, pos_RecordedAt = 0\<rparr>,
       rx_Label = ''xid='' @ nat_str (pt_XID tx)\<rparr>)"

fun read_next ::
  "time \<Rightarrow> string \<Rightarrow> go_error \<Rightarrow> string list \<Rightarrow> Decoder \<Rightarrow> (string list \<times> Decoder) \<times> (go_error + RtTransaction)" where
  "read_next now positionType stop [] d = (([], d), Inl stop)"
| "read_next now positionType stop (p # ps) d =
     (case PushCopyData p d of
        (d, Inl e) \<Rightarrow> ((ps, d), Inl e)
      | (d, Inr None) \<Rightarrow> read_next now positionType stop ps d
      | (d, Inr (Some tx)) \<Rightarrow> ((ps, d), Inr (reader_transaction now positionType tx)))"

definition PgNext :: "time \<Rightarrow> PgReader \<Rightarrow> PgReader \<times> (go_error + RtTransaction option)" where
  "PgNext now r =
     (case read_next now (pr_positionType r) (pr_end r) (pr_stream r) (pr_decoder r) of
        ((ps, d), Inl e) \<Rightarrow> (r\<lparr>pr_stream := ps, pr_decoder := d\<rparr>, Inl e)
      | ((ps, d), Inr tx) \<Rightarrow> (r\<lparr>pr_stream := ps, pr_decoder := d\<rparr>, Inr (Some tx)))"

text \<open>\<open>send\<close> is the connection's answer to a position; the accepted ones are kept.\<close>

definition PgAcknowledge :: "(string \<Rightarrow> go_error option) \<Rightarrow> RtTransaction \<Rightarrow> PgReader \<Rightarrow> PgReader \<times> go_error option" where
  "PgAcknowledge send tx r =
     (let pos = pos_PositionValue (rx_Checkpoint tx) in
      if pos = [] then (r, Some (ErrText ''missing PostgreSQL CDC checkpoint''))
      else (case send pos of
          Some e \<Rightarrow> (r, Some e)
        | None \<Rightarrow> (r\<lparr>pr_acked := pr_acked r @ [pos]\<rparr>, None)))"

section \<open>The order of the calls\<close>

text \<open>A round that went through, and the ways the last one ends.\<close>

definition rounds :: "('w, 'r) CdcRunner \<Rightarrow> RtTransaction list \<Rightarrow> rt_call list" where
  "rounds r txs = concat (map (\<lambda>tx. [Got tx, Applied tx True, Acked tx True] @ observed r tx) txs)"

inductive last_round :: "rt_call list \<Rightarrow> go_error option \<Rightarrow> bool" where
  stream_ended: "last_round [] err"
| empty_tx: "rx_Events tx = [] \<Longrightarrow> last_round [Got tx] (Some (empty_transaction tx))"
| apply_failed: "last_round [Got tx, Applied tx False] (Some e)"
| ack_failed: "last_round [Got tx, Applied tx True, Acked tx False] (Some (ack_error tx e))"

lemma run_loop_rounds:
  "run_loop r w tr = Some y \<Longrightarrow>
   \<exists>txs lst. fst (snd y) = tr @ rounds r txs @ lst \<and> last_round lst (snd (snd y))
     \<and> list_all (\<lambda>tx. rx_Events tx \<noteq> []) txs"
proof (induction rule: run_loop.raw_induct [rotated, consumes 1, case_names step])
  case (step loop r w tr y)
  obtain w1 n where n: "rn_Next r w = (w1, n)" by (cases "rn_Next r w")
  consider (err) e where "n = Inl e" | (ended) "n = Inr None" | (got) tx where "n = Inr (Some tx)"
    by (metis sum.exhaust option.exhaust)
  then show ?case
  proof cases
    case err
    then show ?thesis using step.hyps n by (auto intro!: exI [of _ "[]"] simp: rounds_def last_round.simps)
  next
    case ended
    then show ?thesis using step.hyps n by (auto intro!: exI [of _ "[]"] simp: rounds_def last_round.simps)
  next
    case (got tx)
    show ?thesis
    proof (cases "rx_Events tx = []")
      case True
      then show ?thesis using step.hyps n got
        by (intro exI [of _ "[] :: RtTransaction list"] exI) (auto simp: rounds_def last_round.simps)
    next
      case ne: False
      obtain w2 a where a: "rn_Apply r (rx_Events tx) w1 = (w2, a)" by (cases "rn_Apply r (rx_Events tx) w1")
      show ?thesis
      proof (cases a)
        case (Inl e)
        then show ?thesis using step.hyps n got ne a
          by (intro exI [of _ "[] :: RtTransaction list"] exI) (auto simp: rounds_def last_round.simps)
      next
        case (Inr res)
        obtain w3 k where k: "rn_Acknowledge r tx w2 = (w3, k)" by (cases "rn_Acknowledge r tx w2")
        show ?thesis
        proof (cases k)
          case (Some e)
          then show ?thesis using step.hyps n got ne a Inr k
            by (intro exI [of _ "[] :: RtTransaction list"] exI) (auto simp: rounds_def last_round.simps)
        next
          case None
          then have "loop r (observe r tx res w3) (tr @ [Got tx, Applied tx True, Acked tx True] @ observed r tx) = Some y"
            using step.hyps n got ne a Inr k by simp
          from step.IH [OF this] obtain txs lst where
            "fst (snd y) = (tr @ [Got tx, Applied tx True, Acked tx True] @ observed r tx) @ rounds r txs @ lst"
            "last_round lst (snd (snd y))" "list_all (\<lambda>tx. rx_Events tx \<noteq> []) txs" by blast
          with ne show ?thesis by (intro exI [of _ "tx # txs"] exI [of _ lst]) (simp add: rounds_def)
        qed
      qed
    qed
  qed
qed


definition demo_rt :: RtTransaction where
  "demo_rt = reader_transaction 0 ''LSN'' (wire_tx NewDecoder demo_wire)"

lemma demo_rt_events: "rx_Events demo_rt \<noteq> []"
  by (simp add: demo_rt_def reader_transaction_def Let_def)

text \<open>A reader with one transaction, counting its calls.\<close>

definition demo_hooks :: "(nat, unit) CdcRunner" where
  "demo_hooks = \<lparr>rn_Next = (\<lambda>n. (n + 1, if n = 0 then Inr (Some demo_rt) else Inr None)),
     rn_Acknowledge = (\<lambda>tx n. (n, None)), rn_Close = (\<lambda>n. n), rn_Gate = None,
     rn_Apply = (\<lambda>es n. (n, Inr ())), rn_Observe = None\<rparr>"


section \<open>Capture from PostgreSQL\<close>

definition pg_runner ::
  "time \<Rightarrow> (string \<Rightarrow> go_error option) \<Rightarrow> (CDCEvent list \<Rightarrow> 's \<Rightarrow> 's \<times> (go_error + 'r)) \<Rightarrow>
   (PgReader \<times> 's, 'r) CdcRunner" where
  "pg_runner now send apply_hook =
     \<lparr>rn_Next = (\<lambda>(r, s). case PgNext now r of (r', x) \<Rightarrow> ((r', s), x)),
      rn_Acknowledge = (\<lambda>tx (r, s). case PgAcknowledge send tx r of (r', x) \<Rightarrow> ((r', s), x)),
      rn_Close = (\<lambda>w. w), rn_Gate = None,
      rn_Apply = (\<lambda>es (r, s). case apply_hook es s of (s', x) \<Rightarrow> ((r, s'), x)), rn_Observe = None\<rparr>"

lemma pg_runner_hooks [simp]:
  "rn_Next (pg_runner now send f) (r, s) = (case PgNext now r of (r', x) \<Rightarrow> ((r', s), x))"
  "rn_Acknowledge (pg_runner now send f) tx (r, s) = (case PgAcknowledge send tx r of (r', x) \<Rightarrow> ((r', s), x))"
  "rn_Close (pg_runner now send f) w = w" "rn_Gate (pg_runner now send f) = None"
  "rn_Apply (pg_runner now send f) es (r, s) = (case f es s of (s', x) \<Rightarrow> ((r, s'), x))"
  "observe (pg_runner now send f) tx res w = w" "observed (pg_runner now send f) tx = []"
  by (simp_all add: pg_runner_def observe_def observed_def)

text \<open>Transactions one after the other on the wire, and what the reader makes of them.\<close>

definition enc_wires :: "pg_wire list \<Rightarrow> string list" where
  "enc_wires xs = concat (map (\<lambda>x. wire_head x @ [wire_commit x]) xs)"

fun wires_ok :: "Decoder \<Rightarrow> pg_wire list \<Rightarrow> bool" where
  "wires_ok d [] \<longleftrightarrow> True"
| "wires_ok d (x # xs) \<longleftrightarrow> wire_ok d x \<and> wires_ok (after_wire x d) xs"

fun wire_txs :: "time \<Rightarrow> string \<Rightarrow> Decoder \<Rightarrow> pg_wire list \<Rightarrow> RtTransaction list" where
  "wire_txs now pt d [] = []"
| "wire_txs now pt d (x # xs) = reader_transaction now pt (wire_tx d x) # wire_txs now pt (after_wire x d) xs"

text \<open>What should happen: apply them in order up to the first that fails.\<close>

fun apply_all :: "(CDCEvent list \<Rightarrow> 's \<Rightarrow> 's \<times> (go_error + 'r)) \<Rightarrow> RtTransaction list \<Rightarrow> 's \<Rightarrow> 's \<times> nat \<times> go_error option" where
  "apply_all f [] s = (s, 0, None)"
| "apply_all f (tx # txs) s =
     (case f (rx_Events tx) s of
        (s', Inl e) \<Rightarrow> (s', 0, Some e)
      | (s', Inr res) \<Rightarrow> (case apply_all f txs s' of (s'', n, e) \<Rightarrow> (s'', Suc n, e)))"

lemma apply_all_complete: "apply_all f txs s = (s', n, None) \<Longrightarrow> n = length txs"
  by (induction txs arbitrary: s n) (auto split: prod.splits sum.splits)

lemma length_wire_txs [simp]: "length (wire_txs now pt d xs) = length xs"
  by (induction xs arbitrary: d) simp_all

lemma read_next_skip:
  "push_all xs d = (d', [], None) \<Longrightarrow> read_next now pt stop (xs @ ys) d = read_next now pt stop ys d'"
  by (induction xs arbitrary: d) (auto split: prod.splits sum.splits option.splits)

lemma read_next_wire:
  assumes "wire_ok d x"
  shows "read_next now pt stop (wire_head x @ wire_commit x # ys) d =
    ((ys, after_wire x d), Inr (reader_transaction now pt (wire_tx d x)))"
proof -
  obtain d' where "push_all (wire_head x) d = (d', [], None)"
    "PushCopyData (wire_commit x) d' = (after_wire x d, Inr (Some (wire_tx d x)))"
    using assms by (rule push_wire)
  then show ?thesis by (simp add: read_next_skip)
qed

lemma reader_transaction_facts [simp]:
  "rx_Events (reader_transaction now pt tx) \<noteq> []"
  "pos_PositionValue (rx_Checkpoint (reader_transaction now pt tx)) = FormatLSN (pt_EndLSN tx)"
  by (simp_all add: reader_transaction_def Let_def)

lemma FormatLSN_nonempty [simp]: "FormatLSN v \<noteq> []"
  by (simp add: FormatLSN_def)

lemma pg_loop:
  assumes "\<And>p. send p = None"
  shows "wires_ok (pr_decoder r) xs \<Longrightarrow> pr_stream r = enc_wires xs \<Longrightarrow>
    apply_all f (wire_txs now (pr_positionType r) (pr_decoder r) xs) s = (s', n, e) \<Longrightarrow>
    \<exists>r' tr'. run_loop (pg_runner now send f) (r, s) tr =
        Some ((r', s'), tr', Some (case e of None \<Rightarrow> pr_end r | Some e \<Rightarrow> e))
      \<and> pr_acked r' = pr_acked r @ map (FormatLSN \<circ> wi_lsn) (take n xs)"
proof (induction xs arbitrary: r s tr n)
  case Nil
  then show ?case
    by (subst run_loop.simps) (simp add: PgNext_def enc_wires_def)
next
  case (Cons x xs)
  let ?tx = "reader_transaction now (pr_positionType r) (wire_tx (pr_decoder r) x)"
  let ?r1 = "r\<lparr>pr_stream := enc_wires xs, pr_decoder := after_wire x (pr_decoder r)\<rparr>"
  have nx: "PgNext now r = (?r1, Inr (Some ?tx))"
    using Cons.prems by (simp add: PgNext_def enc_wires_def read_next_wire)
  show ?case
  proof (cases "f (rx_Events ?tx) s")
    case (Pair s1 a)
    show ?thesis
    proof (cases a)
      case (Inl err)
      then show ?thesis
        using Cons.prems nx Pair by (subst run_loop.simps) auto
    next
      case (Inr res)
      let ?r2 = "?r1\<lparr>pr_acked := pr_acked r @ [FormatLSN (wi_lsn x)]\<rparr>"
      obtain m where m: "apply_all f (wire_txs now (pr_positionType ?r2) (pr_decoder ?r2) xs) s1 = (s', m, e)" "n = Suc m"
        using Cons.prems Pair Inr by (auto split: prod.splits)
      have ack: "PgAcknowledge send ?tx ?r1 = (?r2, None)"
        by (simp add: PgAcknowledge_def assms wire_tx_def)
      have "wires_ok (pr_decoder ?r2) xs" "pr_stream ?r2 = enc_wires xs" using Cons.prems by simp_all
      from Cons.IH [OF this m(1), where tr = "tr @ [Got ?tx, Applied ?tx True, Acked ?tx True]"]
      obtain r' tr' where
        "run_loop (pg_runner now send f) (?r2, s1) (tr @ [Got ?tx, Applied ?tx True, Acked ?tx True]) =
          Some ((r', s'), tr', Some (case e of None \<Rightarrow> pr_end ?r2 | Some e \<Rightarrow> e))"
        "pr_acked r' = pr_acked ?r2 @ map (FormatLSN \<circ> wi_lsn) (take m xs)" by blast
      moreover have "run_loop (pg_runner now send f) (r, s) tr =
          run_loop (pg_runner now send f) (?r2, s1) (tr @ [Got ?tx, Applied ?tx True, Acked ?tx True])"
        using nx Pair Inr ack by (subst run_loop.simps) simp
      ultimately show ?thesis using m(2) by (cases e) simp_all
    qed
  qed
qed


definition demo_reader :: PgReader where
  "demo_reader = NewReaderWithDialect (enc_wires [demo_wire]) ErrNotFound ''LSN'' ''pg''"


end
