(* ===== verification/Pipeline.thy ===== *)
theory Pipeline
  imports GoFloat
begin

text \<open>
  The data plane of one migration chunk, \<open>backend/internal/pipeline/full.go\<close>: a reader that
  prefetches batches into a bounded channel and a consumer that transforms, writes and commits
  them. The two run at the same time; the model is a step relation whose steps are the calls of
  the hooks and the channel operations of either side, in any interleaving. The hooks are
  functions on the state of the world they share; they see whether the context is cancelled.
\<close>

section \<open>Data\<close>

record 'p Batch =
  ba_Rows :: int
  ba_Bytes :: int
  ba_RequestedRows :: int
  ba_Cursor :: string
  ba_ReadMS :: int
  ba_Payload :: 'p

record Stats =
  sa_RowsRead :: int
  sa_RowsWritten :: int
  sa_BytesRead :: int
  sa_BytesWritten :: int
  sa_LastReadMS :: int
  sa_LastWriteMS :: int
  sa_LastBatchRows :: int

record Control =
  ct_Level :: string
  ct_MaxBatchRows :: int
  ct_TargetBatchRows :: int
  ct_TargetBytesPerSec :: int
  ct_Pause :: duration
  ct_StopAfterCommit :: bool

record Config =
  cg_InitialBatchRows :: int
  cg_MinBatchRows :: int
  cg_MaxBatchRows :: int
  cg_BufferBatches :: int
  cg_Adaptive :: bool
  cg_InitialStats :: Stats
  cg_InitialTargetBytesPerSec :: int

text \<open>The hooks; a result of \<open>Read\<close> or \<open>Transform\<close> may be a nil batch, \<open>Write\<close> returns the rows
  and bytes written and its time.\<close>

record ('w, 'p) PipeRunner =
  ru_Read :: "bool \<Rightarrow> int \<Rightarrow> 'w \<Rightarrow> 'w \<times> (go_error + 'p Batch option)"
  ru_Transform :: "(bool \<Rightarrow> 'p Batch \<Rightarrow> 'w \<Rightarrow> 'w \<times> (go_error + 'p Batch option)) option"
  ru_Write :: "bool \<Rightarrow> 'p Batch \<Rightarrow> 'w \<Rightarrow> 'w \<times> (go_error + int \<times> int \<times> int)"
  ru_Commit :: "bool \<Rightarrow> 'p Batch \<Rightarrow> Stats \<Rightarrow> 'w \<Rightarrow> 'w \<times> (go_error + Control)"

definition or_default :: "int \<Rightarrow> int \<Rightarrow> int" where
  "or_default d v = (if v \<le> 0 then d else v)"

definition normalizeConfig :: "Config \<Rightarrow> Config" where
  "normalizeConfig c =
     (let hi = or_default 5000 (cg_MaxBatchRows c);
          lo0 = or_default 50 (cg_MinBatchRows c);
          lo = (if lo0 > hi then hi else lo0);
          i0 = or_default 500 (cg_InitialBatchRows c);
          i1 = (if i0 < lo then lo else i0);
          i2 = (if i1 > hi then hi else i1);
          b0 = or_default 2 (cg_BufferBatches c)
      in c\<lparr>cg_InitialBatchRows := i2, cg_MinBatchRows := lo, cg_MaxBatchRows := hi,
           cg_BufferBatches := (if b0 > 32 then 32 else b0)\<rparr>)"

definition clamp :: "int \<Rightarrow> int \<Rightarrow> int \<Rightarrow> int" where
  "clamp v lo hi = (if v < lo then lo else if v > hi then hi else v)"

definition targetRatePause :: "int \<Rightarrow> int \<Rightarrow> duration \<Rightarrow> duration" where
  "targetRatePause bytesWritten targetBytesPerSec elapsed =
     (if bytesWritten \<le> 0 \<or> targetBytesPerSec \<le> 0 then 0
      else let target = f64_to_i64 (f64 (f64 (f64 (of_int bytesWritten) / f64 (of_int targetBytesPerSec)) * 1000000000))
           in if target \<le> elapsed then 0 else i64 (target - elapsed))"

definition add_stats :: "'p Batch \<Rightarrow> int \<times> int \<times> int \<Rightarrow> Stats \<Rightarrow> Stats" where
  "add_stats b = (\<lambda>(rows, bytes, writeMS) st.
     \<lparr>sa_RowsRead = i64 (sa_RowsRead st + ba_Rows b), sa_RowsWritten = i64 (sa_RowsWritten st + rows),
      sa_BytesRead = i64 (sa_BytesRead st + ba_Bytes b), sa_BytesWritten = i64 (sa_BytesWritten st + bytes),
      sa_LastReadMS = ba_ReadMS b, sa_LastWriteMS = writeMS, sa_LastBatchRows = ba_Rows b\<rparr>)"

text \<open>The batch size after a commit.\<close>

definition next_rows :: "Config \<Rightarrow> Control \<Rightarrow> 'p Batch \<Rightarrow> int \<Rightarrow> int \<Rightarrow> int" where
  "next_rows cfg control b writeMS batchRows =
     (let lo = cg_MinBatchRows cfg; hi = cg_MaxBatchRows cfg;
          c0 = (if ct_TargetBatchRows control > 0 then clamp (ct_TargetBatchRows control) lo hi else clamp batchRows lo hi);
          c1 = (if ct_MaxBatchRows control > 0 \<and> c0 > ct_MaxBatchRows control then ct_MaxBatchRows control else c0);
          backpressured = (ct_Level control = ''WARN'' \<or> ct_Level control = ''CRITICAL'');
          totalMS = i64 (ba_ReadMS b + writeMS);
          c2 = (if cg_Adaptive cfg \<and> ct_TargetBatchRows control \<le> 0 \<and> \<not> backpressured then
                  (if ba_Rows b \<ge> ba_RequestedRows b \<and> totalMS > 0 \<and> totalMS < 1500 \<and> c1 < hi then i64 (c1 * 2)
                   else if totalMS > 8000 \<and> c1 > lo then go_div c1 2
                   else c1)
                else c1)
      in clamp c2 lo hi)"

section \<open>The two sides and their steps\<close>

text \<open>Where the reader is: about to read, about to send what it has (and whether it stops after
  that), or gone with the channel closed.\<close>

datatype 'p reader_pc =
    RdReady
  | RdSend "go_error + 'p Batch" bool
  | RdClosed

text \<open>Where the consumer is: at the channel; with a batch received, transformed or written, the
  one received kept beside it; in the pause after a commit; returned, with its error and
  whether the control plane stopped it.\<close>

datatype 'p consumer_pc =
    CoIdle
  | CoGot "'p Batch"
  | CoReady "'p Batch" "'p Batch"
  | CoWritten "'p Batch" "'p Batch" "int \<times> int \<times> int"
  | CoPause
  | CoDone "go_error option" bool

datatype 'p pipe_call =
    Wrote "'p Batch" "int \<times> int \<times> int"
  | Committed "'p Batch" Stats

text \<open>The last five fields only record what happened: the batches read, those of them whose
  commit succeeded, the calls of \<open>Write\<close> and \<open>Commit\<close> that succeeded, whether a read reached the
  end of the chunk, and whether the caller's context was cancelled.\<close>

record ('w, 'p) Pipe =
  pi_batchRows :: int
  pi_target :: int
  pi_chan :: "(go_error + 'p Batch) list"
  pi_reader :: "'p reader_pc"
  pi_consumer :: "'p consumer_pc"
  pi_stats :: Stats
  pi_cancelled :: bool
  pi_world :: 'w
  pi_read :: "'p Batch list"
  pi_done :: "'p Batch list"
  pi_log :: "'p pipe_call list"
  pi_eof :: bool
  pi_parent :: bool

definition start_pipe :: "Config \<Rightarrow> 'w \<Rightarrow> ('w, 'p) Pipe" where
  "start_pipe cfg w =
     \<lparr>pi_batchRows = cg_InitialBatchRows cfg, pi_target = cg_InitialTargetBytesPerSec cfg, pi_chan = [],
      pi_reader = RdReady, pi_consumer = CoIdle, pi_stats = cg_InitialStats cfg, pi_cancelled = False,
      pi_world = w, pi_read = [], pi_done = [], pi_log = [], pi_eof = False, pi_parent = False\<rparr>"

definition reader_step :: "('w, 'p) PipeRunner \<Rightarrow> Config \<Rightarrow> ('w, 'p) Pipe \<Rightarrow> ('w, 'p) Pipe option" where
  "reader_step h cfg s = (case pi_reader s of
     RdReady \<Rightarrow>
       (let limit = clamp (pi_batchRows s) (cg_MinBatchRows cfg) (cg_MaxBatchRows cfg) in
        case ru_Read h (pi_cancelled s) limit (pi_world s) of
          (w, Inl e) \<Rightarrow> Some (s\<lparr>pi_world := w, pi_reader := RdSend (Inl e) True\<rparr>)
        | (w, Inr None) \<Rightarrow> Some (s\<lparr>pi_world := w, pi_reader := RdClosed, pi_eof := True\<rparr>)
        | (w, Inr (Some b)) \<Rightarrow>
            if ba_Rows b = 0 then Some (s\<lparr>pi_world := w, pi_reader := RdClosed, pi_eof := True\<rparr>)
            else let b = b\<lparr>ba_RequestedRows := limit\<rparr> in
              Some (s\<lparr>pi_world := w, pi_reader := RdSend (Inr b) (ba_Rows b < limit), pi_read := pi_read s @ [b],
                        pi_eof := (ba_Rows b < limit)\<rparr>))
   | RdSend x stop \<Rightarrow>
       if int (length (pi_chan s)) < cg_BufferBatches cfg
       then Some (s\<lparr>pi_chan := pi_chan s @ [x], pi_reader := (if stop then RdClosed else RdReady)\<rparr>)
       else None
   | RdClosed \<Rightarrow> None)"

text \<open>The other branch of the reader's \<open>select\<close>.\<close>

definition reader_quit :: "('w, 'p) Pipe \<Rightarrow> ('w, 'p) Pipe option" where
  "reader_quit s = (case pi_reader s of
     RdSend x stop \<Rightarrow> if pi_cancelled s then Some (s\<lparr>pi_reader := RdClosed\<rparr>) else None
   | _ \<Rightarrow> None)"

text \<open>Every return of \<open>Run\<close> cancels the context.\<close>

definition return_pipe :: "go_error option \<Rightarrow> bool \<Rightarrow> ('w, 'p) Pipe \<Rightarrow> ('w, 'p) Pipe" where
  "return_pipe err stopped s = s\<lparr>pi_consumer := CoDone err stopped, pi_cancelled := True\<rparr>"

definition receive_step :: "('w, 'p) Pipe \<Rightarrow> ('w, 'p) Pipe option" where
  "receive_step s = (case pi_chan s of
     [] \<Rightarrow> if pi_reader s = RdClosed then Some (return_pipe None False s) else None
   | Inl e # xs \<Rightarrow> Some (return_pipe (Some e) False (s\<lparr>pi_chan := xs\<rparr>))
   | Inr b # xs \<Rightarrow> Some (s\<lparr>pi_chan := xs, pi_consumer := CoGot b\<rparr>))"

definition transform_step :: "('w, 'p) PipeRunner \<Rightarrow> 'p Batch \<Rightarrow> ('w, 'p) Pipe \<Rightarrow> ('w, 'p) Pipe" where
  "transform_step h b s = (case ru_Transform h of
     None \<Rightarrow> s\<lparr>pi_consumer := CoReady b b\<rparr>
   | Some f \<Rightarrow>
       (case f (pi_cancelled s) b (pi_world s) of
          (w, Inl e) \<Rightarrow> return_pipe (Some e) False (s\<lparr>pi_world := w\<rparr>)
        | (w, Inr None) \<Rightarrow> return_pipe (Some (ErrText ''transform returned nil batch'')) False (s\<lparr>pi_world := w\<rparr>)
        | (w, Inr (Some b')) \<Rightarrow> s\<lparr>pi_world := w, pi_consumer := CoReady b b'\<rparr>))"

definition write_step :: "('w, 'p) PipeRunner \<Rightarrow> 'p Batch \<Rightarrow> 'p Batch \<Rightarrow> ('w, 'p) Pipe \<Rightarrow> ('w, 'p) Pipe" where
  "write_step h b0 b s =
     (case ru_Write h (pi_cancelled s) b (pi_world s) of
        (w, Inl e) \<Rightarrow> return_pipe (Some e) False (s\<lparr>pi_world := w\<rparr>)
      | (w, Inr x) \<Rightarrow> s\<lparr>pi_world := w, pi_consumer := CoWritten b0 b x, pi_log := pi_log s @ [Wrote b x]\<rparr>)"

definition commit_step ::
  "('w, 'p) PipeRunner \<Rightarrow> Config \<Rightarrow> duration \<Rightarrow> 'p Batch \<Rightarrow> 'p Batch \<Rightarrow> int \<times> int \<times> int \<Rightarrow> ('w, 'p) Pipe \<Rightarrow> ('w, 'p) Pipe" where
  "commit_step h cfg elapsed b0 b x s =
     (let stats = add_stats b x (pi_stats s) in
      case ru_Commit h (pi_cancelled s) b stats (pi_world s) of
        (w, Inl e) \<Rightarrow> return_pipe (Some e) False (s\<lparr>pi_world := w, pi_stats := stats\<rparr>)
      | (w, Inr control) \<Rightarrow>
          (let s = s\<lparr>pi_world := w, pi_stats := stats, pi_target := ct_TargetBytesPerSec control,
                   pi_done := pi_done s @ [b0], pi_log := pi_log s @ [Committed b stats]\<rparr> in
           if ct_StopAfterCommit control then return_pipe None True s
           else let s = s\<lparr>pi_batchRows := next_rows cfg control b (snd (snd x)) (pi_batchRows s)\<rparr>;
                    pause = i64 (ct_Pause control + targetRatePause (fst (snd x)) (pi_target s) elapsed)
                in s\<lparr>pi_consumer := (if pause > 0 then CoPause else CoIdle)\<rparr>))"

text \<open>\<open>ctx.Err()\<close> after a cancellation.\<close>

definition context_canceled :: go_error where
  "context_canceled = ErrText ''context canceled''"

inductive pipe_step :: "('w, 'p) PipeRunner \<Rightarrow> Config \<Rightarrow> ('w, 'p) Pipe \<Rightarrow> ('w, 'p) Pipe \<Rightarrow> bool"
  for h :: "('w, 'p) PipeRunner" and cfg :: Config where
  pipe_read: "reader_step h cfg s = Some s' \<Longrightarrow> pipe_step h cfg s s'"
| pipe_quit: "reader_quit s = Some s' \<Longrightarrow> pipe_step h cfg s s'"
| pipe_receive: "pi_consumer s = CoIdle \<Longrightarrow> receive_step s = Some s' \<Longrightarrow> pipe_step h cfg s s'"
| pipe_transform: "pi_consumer s = CoGot b \<Longrightarrow> pipe_step h cfg s (transform_step h b s)"
| pipe_write: "pi_consumer s = CoReady b0 b \<Longrightarrow> pipe_step h cfg s (write_step h b0 b s)"
| pipe_commit: "pi_consumer s = CoWritten b0 b x \<Longrightarrow> pipe_step h cfg s (commit_step h cfg elapsed b0 b x s)"
| pipe_resume: "pi_consumer s = CoPause \<Longrightarrow> pipe_step h cfg s (s\<lparr>pi_consumer := CoIdle\<rparr>)"
| pipe_interrupted: "pi_consumer s = CoPause \<Longrightarrow> pi_cancelled s \<Longrightarrow>
    pipe_step h cfg s (return_pipe (Some context_canceled) False s)"
| pipe_cancel: "pipe_step h cfg s (s\<lparr>pi_cancelled := True, pi_parent := True\<rparr>)"

inductive pipe_reachable :: "('w, 'p) PipeRunner \<Rightarrow> Config \<Rightarrow> 'w \<Rightarrow> ('w, 'p) Pipe \<Rightarrow> bool"
  for h :: "('w, 'p) PipeRunner" and cfg :: Config and w :: 'w where
  reach_start: "pipe_reachable h cfg w (start_pipe (normalizeConfig cfg) w)"
| reach_step: "pipe_reachable h cfg w s \<Longrightarrow> pipe_step h (normalizeConfig cfg) s s' \<Longrightarrow> pipe_reachable h cfg w s'"

section \<open>Invariants\<close>

fun returned :: "'p consumer_pc \<Rightarrow> bool" where
  "returned (CoDone e k) = True"
| "returned _ = False"

fun current :: "'p consumer_pc \<Rightarrow> 'p Batch list" where
  "current (CoGot b) = [b]"
| "current (CoReady b0 b) = [b0]"
| "current (CoWritten b0 b x) = [b0]"
| "current _ = []"

definition batch_of :: "go_error + 'p Batch \<Rightarrow> 'p Batch list" where
  "batch_of x = (case x of Inl e \<Rightarrow> [] | Inr b \<Rightarrow> [b])"

fun pending :: "'p reader_pc \<Rightarrow> 'p Batch list" where
  "pending (RdSend x k) = batch_of x"
| "pending _ = []"

text \<open>No batch is lost or reordered between the reader and the commit, except after the end.\<close>

definition flow_ok :: "('w, 'p) Pipe \<Rightarrow> bool" where
  "flow_ok s \<longleftrightarrow> (pi_cancelled s \<longleftrightarrow> pi_parent s \<or> returned (pi_consumer s))
     \<and> (\<exists>rest. pi_read s = pi_done s @ rest
        \<and> (\<not> returned (pi_consumer s) \<longrightarrow> (\<exists>lost. rest = current (pi_consumer s) @ concat (map batch_of (pi_chan s)) @ lost
             \<and> (lost = pending (pi_reader s) \<or> (pi_parent s \<and> pi_reader s = RdClosed))))
        \<and> (pi_consumer s = CoDone None False \<longrightarrow> pi_reader s = RdClosed \<and> (rest = [] \<or> pi_parent s)))"

text \<open>An error is the last thing sent; without one the reader ends only at the end of the chunk.\<close>

definition end_ok :: "('w, 'p) Pipe \<Rightarrow> bool" where
  "end_ok s \<longleftrightarrow> (case pi_reader s of
       RdReady \<Rightarrow> \<not> pi_eof s \<and> list_all (\<lambda>x. \<exists>b. x = Inr b) (pi_chan s)
     | RdSend x stop \<Rightarrow> list_all (\<lambda>x. \<exists>b. x = Inr b) (pi_chan s) \<and>
         (case x of Inl e \<Rightarrow> stop | Inr b \<Rightarrow> stop = pi_eof s)
     | RdClosed \<Rightarrow> returned (pi_consumer s) \<or> pi_parent s \<or> pi_eof s
         \<or> (\<exists>xs e. pi_chan s = xs @ [Inl e]))
   \<and> (pi_consumer s = CoDone None False \<longrightarrow> pi_parent s \<or> pi_eof s)"

text \<open>The calls in their order: each batch written, then committed with the running totals.\<close>

fun commits :: "Stats \<Rightarrow> ('p Batch \<times> int \<times> int \<times> int) list \<Rightarrow> 'p pipe_call list" where
  "commits st [] = []"
| "commits st ((b, x) # ws) = Wrote b x # Committed b (add_stats b x st) # commits (add_stats b x st) ws"

fun tally :: "Stats \<Rightarrow> ('p Batch \<times> int \<times> int \<times> int) list \<Rightarrow> Stats" where
  "tally st [] = st"
| "tally st ((b, x) # ws) = tally (add_stats b x st) ws"

fun tail_ok :: "'p consumer_pc \<Rightarrow> bool \<Rightarrow> 'p pipe_call list \<Rightarrow> bool" where
  "tail_ok (CoWritten b0 b x) eq tail \<longleftrightarrow> tail = [Wrote b x] \<and> eq"
| "tail_ok (CoDone e k) eq tail \<longleftrightarrow> tail = [] \<or> (\<exists>b x. tail = [Wrote b x])"
| "tail_ok _ eq tail \<longleftrightarrow> tail = [] \<and> eq"

text \<open>Without a transformer the batch written is the batch read.\<close>

fun same_batch :: "'p consumer_pc \<Rightarrow> bool" where
  "same_batch (CoReady b0 b) \<longleftrightarrow> b = b0"
| "same_batch (CoWritten b0 b x) \<longleftrightarrow> b = b0"
| "same_batch _ \<longleftrightarrow> True"

definition log_ok :: "('w, 'p) PipeRunner \<Rightarrow> Config \<Rightarrow> ('w, 'p) Pipe \<Rightarrow> bool" where
  "log_ok h cfg s \<longleftrightarrow> (\<exists>ws tail. pi_log s = commits (cg_InitialStats cfg) ws @ tail \<and> length ws = length (pi_done s)
     \<and> (ru_Transform h = None \<longrightarrow> map fst ws = pi_done s \<and> same_batch (pi_consumer s))
     \<and> tail_ok (pi_consumer s) (pi_stats s = tally (cg_InitialStats cfg) ws) tail)"

definition size_ok :: "Config \<Rightarrow> int \<Rightarrow> bool" where
  "size_ok cfg n \<longleftrightarrow> 1 \<le> n \<and> cg_MinBatchRows cfg \<le> n \<and> n \<le> cg_MaxBatchRows cfg"

definition bounds_ok :: "Config \<Rightarrow> ('w, 'p) Pipe \<Rightarrow> bool" where
  "bounds_ok cfg s \<longleftrightarrow> size_ok cfg (pi_batchRows s) \<and> list_all (\<lambda>b. size_ok cfg (ba_RequestedRows b)) (pi_read s)
     \<and> int (length (pi_chan s)) \<le> cg_BufferBatches cfg"

inductive_cases pipe_stepE: "pipe_step h cfg s s'"

lemmas step_defs = reader_step_def reader_quit_def receive_step_def transform_step_def write_step_def
  commit_step_def return_pipe_def Let_def

lemma batch_of_simps [simp]: "batch_of (Inl e) = []" "batch_of (Inr b) = [b]"
  by (simp_all add: batch_of_def)

lemma config_ok:
  "1 \<le> cg_MinBatchRows (normalizeConfig c)" "cg_MinBatchRows (normalizeConfig c) \<le> cg_MaxBatchRows (normalizeConfig c)"
  "1 \<le> cg_BufferBatches (normalizeConfig c)" "cg_BufferBatches (normalizeConfig c) \<le> 32"
  "size_ok (normalizeConfig c) (cg_InitialBatchRows (normalizeConfig c))"
  "cg_InitialStats (normalizeConfig c) = cg_InitialStats c"
  by (auto simp: normalizeConfig_def or_default_def size_ok_def Let_def)

lemma clamp_size: "1 \<le> cg_MinBatchRows cfg \<Longrightarrow> cg_MinBatchRows cfg \<le> cg_MaxBatchRows cfg \<Longrightarrow>
    size_ok cfg (clamp v (cg_MinBatchRows cfg) (cg_MaxBatchRows cfg))"
  by (auto simp: clamp_def size_ok_def)

lemma flow_step: "pipe_step h cfg s s' \<Longrightarrow> flow_ok s \<Longrightarrow> flow_ok s'"
  by (erule pipe_stepE)
    (auto simp: flow_ok_def step_defs split: prod.splits sum.splits option.splits reader_pc.splits list.splits if_splits)

lemma end_step:
  assumes "pipe_step h cfg s s'" and "flow_ok s" and "end_ok s"
  shows "end_ok s'"
  using assms(1)
proof (cases rule: pipe_step.cases)
  case pipe_read
  then show ?thesis using assms(3)
    by (auto simp: end_ok_def step_defs split: reader_pc.splits prod.splits sum.splits option.splits if_splits)
next
  case pipe_quit
  then show ?thesis using assms(2,3)
    by (auto simp: flow_ok_def end_ok_def step_defs split: reader_pc.splits if_splits)
next
  case pipe_receive
  then show ?thesis using assms(3)
    by (cases "pi_reader s") (auto simp: end_ok_def step_defs Cons_eq_append_conv split: list.splits sum.splits if_splits)
next
  case pipe_transform
  then show ?thesis using assms(3)
    by (auto simp: end_ok_def step_defs split: reader_pc.splits prod.splits sum.splits option.splits)
next
  case pipe_write
  then show ?thesis using assms(3)
    by (auto simp: end_ok_def step_defs split: reader_pc.splits prod.splits sum.splits)
next
  case pipe_commit
  then show ?thesis using assms(3)
    by (auto simp: end_ok_def step_defs split: reader_pc.splits prod.splits sum.splits if_splits)
qed (use assms(3) in \<open>auto simp: end_ok_def step_defs split: reader_pc.splits sum.splits\<close>)

lemma commits_snoc: "commits st (ws @ [(b, x)]) = commits st ws @ [Wrote b x, Committed b (add_stats b x (tally st ws))]"
  by (induction ws arbitrary: st) auto

lemma tally_snoc: "tally st (ws @ [(b, x)]) = add_stats b x (tally st ws)"
  by (induction ws arbitrary: st) auto

lemma log_step:
  assumes "pipe_step h cfg s s'" and "log_ok h cfg s"
  shows "log_ok h cfg s'"
proof -
  obtain ws tail where L: "pi_log s = commits (cg_InitialStats cfg) ws @ tail" "length ws = length (pi_done s)"
    "ru_Transform h = None \<longrightarrow> map fst ws = pi_done s \<and> same_batch (pi_consumer s)"
    "tail_ok (pi_consumer s) (pi_stats s = tally (cg_InitialStats cfg) ws) tail"
    using assms(2) unfolding log_ok_def by (elim exE conjE) (rule that)
  have same: "log_ok h cfg s'" if "pi_log s' = pi_log s" "pi_done s' = pi_done s"
    "ru_Transform h = None \<longrightarrow> same_batch (pi_consumer s')"
    "tail_ok (pi_consumer s') (pi_stats s' = tally (cg_InitialStats cfg) ws) tail" for s'
    unfolding log_ok_def by (intro exI [of _ ws] exI [of _ tail]) (use L that in auto)
  show ?thesis
    using assms(1)
  proof (cases rule: pipe_step.cases)
    case pipe_read
    then show ?thesis using L
      by (intro same) (auto simp: step_defs split: reader_pc.splits prod.splits sum.splits option.splits if_splits)
  next
    case pipe_quit
    then show ?thesis using L by (intro same) (auto simp: step_defs split: reader_pc.splits if_splits)
  next
    case pipe_receive
    then show ?thesis using L by (intro same) (auto simp: step_defs split: list.splits sum.splits if_splits)
  next
    case pipe_transform
    then show ?thesis using L by (intro same) (auto simp: step_defs split: prod.splits sum.splits option.splits)
  next
    case (pipe_write b0 b)
    obtain w r where "ru_Write h (pi_cancelled s) b (pi_world s) = (w, r)" by (metis surj_pair)
    then show ?thesis using pipe_write L unfolding log_ok_def
      by (cases r) (auto simp: step_defs intro!: exI [of _ ws])
  next
    case (pipe_commit b0 b x elapsed)
    obtain w r where c: "ru_Commit h (pi_cancelled s) b (add_stats b x (pi_stats s)) (pi_world s) = (w, r)"
      by (metis surj_pair)
    show ?thesis
    proof (cases r)
      case (Inl e)
      then show ?thesis using pipe_commit L c by (cases x, intro same) (auto simp: step_defs)
    next
      case (Inr control)
      have "pi_log s' = commits (cg_InitialStats cfg) (ws @ [(b, x)]) @ []" "pi_done s' = pi_done s @ [b0]"
        "pi_stats s' = tally (cg_InitialStats cfg) (ws @ [(b, x)])"
        "pi_consumer s' \<in> {CoDone None True, CoPause, CoIdle}"
        "ru_Transform h = None \<longrightarrow> map fst (ws @ [(b, x)]) = pi_done s'"
        using pipe_commit L c Inr by (auto simp: step_defs commits_snoc tally_snoc)
      then show ?thesis using L(2) unfolding log_ok_def
        by (intro exI [of _ "ws @ [(b, x)]"] exI [of _ "[]"]) auto
    qed
  next
    case pipe_resume
    then show ?thesis using L by (intro same) auto
  next
    case pipe_interrupted
    then show ?thesis using L by (intro same) (auto simp: step_defs)
  next
    case pipe_cancel
    then show ?thesis using L by (intro same) auto
  qed
qed

lemma next_rows_size: "1 \<le> cg_MinBatchRows cfg \<Longrightarrow> cg_MinBatchRows cfg \<le> cg_MaxBatchRows cfg \<Longrightarrow>
    size_ok cfg (next_rows cfg control b ms n)"
  unfolding next_rows_def Let_def by (rule clamp_size)

lemma bounds_step:
  assumes "pipe_step h cfg s s'" and "bounds_ok cfg s"
    and "1 \<le> cg_MinBatchRows cfg" and "cg_MinBatchRows cfg \<le> cg_MaxBatchRows cfg"
  shows "bounds_ok cfg s'"
  using assms(1)
proof (cases rule: pipe_step.cases)
  case pipe_read
  then show ?thesis using assms(2) clamp_size [OF assms(3,4), of "pi_batchRows s"]
    by (auto simp: bounds_ok_def step_defs split: reader_pc.splits prod.splits sum.splits option.splits if_splits)
qed (use assms(2) next_rows_size [OF assms(3,4)] in
    \<open>auto simp: bounds_ok_def step_defs split: reader_pc.splits prod.splits sum.splits option.splits list.splits if_splits\<close>)

lemma pipe_invariant:
  assumes "pipe_reachable h cfg w s"
  shows "flow_ok s \<and> end_ok s \<and> log_ok h (normalizeConfig cfg) s \<and> bounds_ok (normalizeConfig cfg) s"
  using assms
proof induction
  case reach_start
  then show ?case
    using config_ok [of cfg] by (simp add: start_pipe_def flow_ok_def end_ok_def log_ok_def bounds_ok_def)
next
  case (reach_step s s')
  then show ?case
    using flow_step end_step log_step bounds_step config_ok(1,2) [of cfg] by metis
qed

lemma length_batches: "length (concat (map batch_of xs)) \<le> length xs"
proof (induction xs)
  case (Cons x xs)
  then show ?case by (cases x) simp_all
qed simp

lemma length_current: "length (current c) \<le> 1" and length_pending: "length (pending r) \<le> 1"
  by (cases c; simp) (cases r; simp add: batch_of_def split: sum.split)

lemma tail_ok_short: "tail_ok c eq tail \<Longrightarrow> tail = [] \<or> (\<exists>b x. tail = [Wrote b x])"
  by (cases c) auto

section \<open>Runs to evaluate\<close>

text \<open>One schedule, the consumer first and the reader when the consumer waits.\<close>

definition consumer_move :: "('w, 'p) PipeRunner \<Rightarrow> Config \<Rightarrow> ('w, 'p) Pipe \<Rightarrow> ('w, 'p) Pipe option" where
  "consumer_move h cfg s = (case pi_consumer s of
     CoIdle \<Rightarrow> receive_step s
   | CoGot b \<Rightarrow> Some (transform_step h b s)
   | CoReady b0 b \<Rightarrow> Some (write_step h b0 b s)
   | CoWritten b0 b x \<Rightarrow> Some (commit_step h cfg 0 b0 b x s)
   | CoPause \<Rightarrow> Some (s\<lparr>pi_consumer := CoIdle\<rparr>)
   | CoDone e k \<Rightarrow> None)"

fun schedule :: "('w, 'p) PipeRunner \<Rightarrow> Config \<Rightarrow> nat \<Rightarrow> ('w, 'p) Pipe \<Rightarrow> ('w, 'p) Pipe" where
  "schedule h cfg 0 s = s"
| "schedule h cfg (Suc n) s = (case consumer_move h cfg s of
     Some s' \<Rightarrow> schedule h cfg n s'
   | None \<Rightarrow> (case reader_step h cfg s of Some s' \<Rightarrow> schedule h cfg n s' | None \<Rightarrow> s))"

lemma consumer_move_step: "consumer_move h cfg s = Some s' \<Longrightarrow> pipe_step h cfg s s'"
  by (auto simp: consumer_move_def intro: pipe_step.intros split: consumer_pc.splits)

lemma schedule_reachable:
  "pipe_reachable h cfg w s \<Longrightarrow> pipe_reachable h cfg w (schedule h (normalizeConfig cfg) n s)"
  by (induction n arbitrary: s)
    (auto intro: reach_step consumer_move_step pipe_read split: option.split)

definition demo_config :: Config where
  "demo_config = \<lparr>cg_InitialBatchRows = 0, cg_MinBatchRows = 0, cg_MaxBatchRows = 0, cg_BufferBatches = 0,
     cg_Adaptive = True, cg_InitialStats = \<lparr>sa_RowsRead = 0, sa_RowsWritten = 0, sa_BytesRead = 0,
       sa_BytesWritten = 0, sa_LastReadMS = 0, sa_LastWriteMS = 0, sa_LastBatchRows = 0\<rparr>,
     cg_InitialTargetBytesPerSec = 0\<rparr>"

text \<open>A source with one batch of three rows and hooks that fail once the context is cancelled.\<close>

definition demo_batch :: "unit Batch" where
  "demo_batch = \<lparr>ba_Rows = 3, ba_Bytes = 30, ba_RequestedRows = 0, ba_Cursor = ''c'', ba_ReadMS = 1, ba_Payload = ()\<rparr>"

definition demo_pipe :: "(nat, unit) PipeRunner" where
  "demo_pipe = \<lparr>ru_Read = (\<lambda>cancelled limit w. if cancelled then (w, Inl context_canceled)
       else if w = 0 then (1, Inr (Some demo_batch)) else (w, Inr None)),
     ru_Transform = None,
     ru_Write = (\<lambda>cancelled b w. if cancelled then (w, Inl context_canceled) else (w, Inr (3, 30, 1))),
     ru_Commit = (\<lambda>cancelled b st w. if cancelled then (w, Inl context_canceled)
       else (w, Inr \<lparr>ct_Level = [], ct_MaxBatchRows = 0, ct_TargetBatchRows = 0, ct_TargetBytesPerSec = 0,
               ct_Pause = 0, ct_StopAfterCommit = False\<rparr>))\<rparr>"

definition demo_end :: "(nat, unit) Pipe" where
  "demo_end = schedule demo_pipe (normalizeConfig demo_config) 20 (start_pipe (normalizeConfig demo_config) 0)"

lemma demo_reachable: "pipe_reachable demo_pipe demo_config 0 demo_end"
  unfolding demo_end_def by (intro schedule_reachable reach_start)

lemma demo_end_state: "pi_consumer demo_end = CoDone None False" "pi_parent demo_end = False"
  "pi_done demo_end = [demo_batch\<lparr>ba_RequestedRows := 500\<rparr>]"
  by (code_simp; simp)+

section \<open>What a run guarantees\<close>

text \<open>
  C25. In every state the pipeline can reach, under every interleaving of the prefetching reader,
  the consumer and the caller's cancellation: the batches committed are a prefix of the batches
  read, in order, so a crash can replay but never skip; every commit comes right after the
  write of its batch (the batch read, when there is no transformer) and reports the totals of exactly the batches written so far; at most the
  buffer and two batches are read ahead of the commits; and every read asks for a size within
  the configured bounds.
\<close>

theorem pipeline_never_skips:
  assumes "pipe_reachable h cfg w s"
  shows "(\<exists>rest. pi_read s = pi_done s @ rest)
    \<and> (\<exists>ws tail. pi_log s = commits (cg_InitialStats cfg) ws @ tail \<and> length ws = length (pi_done s)
         \<and> (ru_Transform h = None \<longrightarrow> map fst ws = pi_done s)
         \<and> (tail = [] \<or> (\<exists>b x. tail = [Wrote b x])))
    \<and> (\<not> returned (pi_consumer s) \<and> \<not> pi_parent s \<longrightarrow>
         int (length (pi_read s)) \<le> int (length (pi_done s)) + cg_BufferBatches (normalizeConfig cfg) + 2)
    \<and> list_all (\<lambda>b. cg_MinBatchRows (normalizeConfig cfg) \<le> ba_RequestedRows b
         \<and> ba_RequestedRows b \<le> cg_MaxBatchRows (normalizeConfig cfg)) (pi_read s)"
proof (intro conjI)
  have inv: "flow_ok s" "log_ok h (normalizeConfig cfg) s" "bounds_ok (normalizeConfig cfg) s"
    using pipe_invariant [OF assms] by simp_all
  show "\<exists>rest. pi_read s = pi_done s @ rest" using inv(1) by (auto simp: flow_ok_def)
  from inv(2) obtain ws tail where "pi_log s = commits (cg_InitialStats cfg) ws @ tail" "length ws = length (pi_done s)"
    "ru_Transform h = None \<longrightarrow> map fst ws = pi_done s"
    "tail_ok (pi_consumer s) (pi_stats s = tally (cg_InitialStats cfg) ws) tail"
    by (auto simp: log_ok_def config_ok)
  then show "\<exists>ws tail. pi_log s = commits (cg_InitialStats cfg) ws @ tail \<and> length ws = length (pi_done s)
      \<and> (ru_Transform h = None \<longrightarrow> map fst ws = pi_done s) \<and> (tail = [] \<or> (\<exists>b x. tail = [Wrote b x]))"
    by (intro exI [of _ ws] exI [of _ tail]) (auto dest!: tail_ok_short)
  show "\<not> returned (pi_consumer s) \<and> \<not> pi_parent s \<longrightarrow>
      int (length (pi_read s)) \<le> int (length (pi_done s)) + cg_BufferBatches (normalizeConfig cfg) + 2"
  proof
    assume "\<not> returned (pi_consumer s) \<and> \<not> pi_parent s"
    with inv(1) have "pi_read s = pi_done s @ current (pi_consumer s) @ concat (map batch_of (pi_chan s)) @ pending (pi_reader s)"
      by (auto simp: flow_ok_def)
    moreover have "int (length (pi_chan s)) \<le> cg_BufferBatches (normalizeConfig cfg)" using inv(3) by (simp add: bounds_ok_def)
    ultimately show "int (length (pi_read s)) \<le> int (length (pi_done s)) + cg_BufferBatches (normalizeConfig cfg) + 2"
      using length_batches [of "pi_chan s"] length_current [of "pi_consumer s"] length_pending [of "pi_reader s"] by simp
  qed
  show "list_all (\<lambda>b. cg_MinBatchRows (normalizeConfig cfg) \<le> ba_RequestedRows b
      \<and> ba_RequestedRows b \<le> cg_MaxBatchRows (normalizeConfig cfg)) (pi_read s)"
    using inv(3) by (auto simp: bounds_ok_def size_ok_def list_all_iff)
qed

theorem pipeline_never_skips_witness:
  "\<exists>rest. pi_read demo_end = [demo_batch\<lparr>ba_RequestedRows := 500\<rparr>] @ rest"
  using pipeline_never_skips [OF demo_reachable] by (simp add: demo_end_state)

text \<open>
  C26. Unless the caller cancels it, a run that returns without an error, and was not told to stop,
  has committed every batch of the chunk: the reader came to the end of the source and
  everything it read was written and committed. And no run gets stuck: until it returns, the
  consumer or the reader has a step; after it, a reader still holding a batch can always end.
\<close>

theorem pipeline_completes:
  assumes "pipe_reachable h cfg w s"
  shows "(pi_consumer s = CoDone None False \<and> \<not> pi_parent s \<longrightarrow> pi_done s = pi_read s \<and> pi_eof s \<and> pi_reader s = RdClosed)
    \<and> (\<not> returned (pi_consumer s) \<longrightarrow>
         consumer_move h (normalizeConfig cfg) s \<noteq> None \<or> reader_step h (normalizeConfig cfg) s \<noteq> None)
    \<and> (returned (pi_consumer s) \<and> (\<exists>x k. pi_reader s = RdSend x k) \<longrightarrow> reader_quit s \<noteq> None)"
proof (intro conjI impI)
  have inv: "flow_ok s" "end_ok s" "bounds_ok (normalizeConfig cfg) s"
    using pipe_invariant [OF assms] by simp_all
  show "pi_done s = pi_read s" "pi_eof s" "pi_reader s = RdClosed" if "pi_consumer s = CoDone None False \<and> \<not> pi_parent s"
    using inv(1,2) that by (auto simp: flow_ok_def end_ok_def)
  show "reader_quit s \<noteq> None" if "returned (pi_consumer s) \<and> (\<exists>x k. pi_reader s = RdSend x k)"
    using inv(1) that by (auto simp: flow_ok_def reader_quit_def)
  show "consumer_move h (normalizeConfig cfg) s \<noteq> None \<or> reader_step h (normalizeConfig cfg) s \<noteq> None"
    if "\<not> returned (pi_consumer s)"
  proof (cases "pi_consumer s = CoIdle \<and> pi_chan s = []")
    case True
    then show ?thesis using config_ok(3) [of cfg]
      by (cases "pi_reader s") (auto simp: consumer_move_def step_defs split: prod.splits sum.splits option.splits)
  next
    case False
    then show ?thesis using that
      by (cases "pi_consumer s") (auto simp: consumer_move_def receive_step_def neq_Nil_conv split: sum.splits)
  qed
qed

theorem pipeline_completes_witness:
  "pi_done demo_end = pi_read demo_end \<and> pi_eof demo_end"
  using pipeline_completes [OF demo_reachable] by (simp add: demo_end_state)

text \<open>The caller's cancellation is the exception: the reader may drop the error of its last
  read, or a batch, and close the channel, and the run returns without an error although the chunk
  is not complete. The worker, the only caller, looks at its own context first.\<close>

lemma cancelled_run_returns_nil:
  "\<exists>s. pipe_reachable demo_pipe demo_config 0 s \<and> pi_consumer s = CoDone None False
     \<and> pi_done s = [] \<and> \<not> pi_eof s"
proof -
  let ?c = "normalizeConfig demo_config"
  let ?s0 = "start_pipe ?c (0 :: nat) :: (nat, unit) Pipe"
  let ?s1 = "?s0\<lparr>pi_cancelled := True, pi_parent := True\<rparr>"
  let ?s2 = "?s1\<lparr>pi_reader := RdSend (Inl context_canceled) True\<rparr>"
  let ?s3 = "?s2\<lparr>pi_reader := RdClosed\<rparr>"
  have "pipe_reachable demo_pipe demo_config 0 ?s1" by (intro reach_step [OF reach_start] pipe_cancel)
  moreover have "pipe_step demo_pipe ?c ?s1 ?s2"
    by (rule pipe_read) (simp add: reader_step_def demo_pipe_def start_pipe_def Let_def)
  moreover have "pipe_step demo_pipe ?c ?s2 ?s3" by (rule pipe_quit) (simp add: reader_quit_def)
  moreover have "pipe_step demo_pipe ?c ?s3 (return_pipe None False ?s3)"
    by (rule pipe_receive) (simp_all add: receive_step_def start_pipe_def)
  ultimately have "pipe_reachable demo_pipe demo_config 0 (return_pipe None False ?s3)" by (meson reach_step)
  then show ?thesis
    by (intro exI [of _ "return_pipe None False ?s3"] conjI) (simp_all add: return_pipe_def start_pipe_def)
qed

end
