(* ===== verification/ServiceTypes.thy ===== *)
theory ServiceTypes
  imports Domain
begin

text \<open>
  The structs that pass between the migration service, its workers and the connectors:
  further types of \<open>backend/internal/domain/models.go\<close> and \<open>backend/internal/connector/connector.go\<close>.
\<close>

section \<open>Values and rows\<close>

record Value =
  v_Null :: bool
  v_Raw :: string

record WriteBatchRequest =
  wb_Schema :: string
  wb_Table :: string
  wb_Columns :: "ColumnInfo list"
  wb_Rows :: "Value list list"
  wb_PrimaryKey :: string
  wb_PrimaryKeys :: "string list"

record ReadByKeyRequest =
  rk_Schema :: string
  rk_Table :: string
  rk_PrimaryKeys :: "string list"
  rk_KeyColumns :: "ColumnInfo list"
  rk_KeyValues :: "Value list"
  rk_Columns :: "ColumnInfo list"

record DeleteByKeyRequest =
  db_Schema :: string
  db_Table :: string
  db_PrimaryKey :: string
  db_Column :: ColumnInfo
  db_Value :: Value
  db_PrimaryKeys :: "string list"
  db_Columns :: "ColumnInfo list"
  db_Values :: "Value list"

record KeysetBoundaryRequest =
  kb_Schema :: string
  kb_Table :: string
  kb_Keys :: "string list"
  kb_Columns :: "ColumnInfo list"
  kb_Partitions :: int
  kb_LowerBound :: "Value list"
  kb_UpperBound :: "Value list"

record ChunkRelocationRequest =
  cr_Schema :: string
  cr_Table :: string
  cr_FromTopologyID :: string
  cr_ToTopologyID :: string
  cr_SplitType :: string
  cr_CursorJSON :: string

record ChunkRelocationProof =
  rp_Safe :: bool
  rp_RoutingTransparent :: bool
  rp_ShardID :: string
  rp_Epoch :: string
  rp_Position :: string
  rp_Reason :: string

section \<open>Metadata and load\<close>

record TableMetadata =
  tm_Schema :: string
  tm_Name :: string
  tm_Columns :: "ColumnInfo list"
  tm_Indexes :: "IndexInfo list"
  tm_ForeignKeys :: "ForeignKeyInfo list"
  tm_PrimaryKeys :: "string list"
  tm_PrimaryKey :: string
  tm_PrimaryKeyType :: string
  tm_PrimaryKeyNumeric :: bool
  tm_MinPK :: int
  tm_MaxPK :: int
  tm_EstimatedRows :: int
  tm_DataLength :: int
  tm_HasRows :: bool

record DatabaseRuntimeLoad =
  rl_Connections :: int
  rl_RunningQueries :: int
  rl_MaxConnections :: int
  rl_ConnectionUsagePct :: rat

definition zero_TableMetadata :: TableMetadata where
  "zero_TableMetadata = \<lparr>tm_Schema = [], tm_Name = [], tm_Columns = [], tm_Indexes = [], tm_ForeignKeys = [],
     tm_PrimaryKeys = [], tm_PrimaryKey = [], tm_PrimaryKeyType = [], tm_PrimaryKeyNumeric = False,
     tm_MinPK = 0, tm_MaxPK = 0, tm_EstimatedRows = 0, tm_DataLength = 0, tm_HasRows = False\<rparr>"

definition zero_RuntimeLoad :: DatabaseRuntimeLoad where
  "zero_RuntimeLoad = \<lparr>rl_Connections = 0, rl_RunningQueries = 0, rl_MaxConnections = 0,
     rl_ConnectionUsagePct = 0\<rparr>"

definition zero_RelocationProof :: ChunkRelocationProof where
  "zero_RelocationProof = \<lparr>rp_Safe = False, rp_RoutingTransparent = False, rp_ShardID = [], rp_Epoch = [],
     rp_Position = [], rp_Reason = []\<rparr>"

section \<open>Chunk execution\<close>

record ChunkResult =
  cres_RowsRead :: int
  cres_RowsWritten :: int
  cres_BytesRead :: int
  cres_BytesWritten :: int
  cres_DurationMS :: int
  cres_CursorJSON :: string
  cres_Yielded :: bool
  cres_YieldReason :: string
  cres_Error :: string

record ChunkControl =
  cc_PauseMS :: int
  cc_MaxBatchRows :: int
  cc_TargetBatchRows :: int
  cc_ReadBytesPerSec :: int
  cc_WriteBytesPerSec :: int
  cc_TargetBytesPerSec :: int
  cc_YieldAfterBatch :: bool
  cc_YieldReason :: string
  cc_Level :: string
  cc_Reason :: string

record ChunkJob =
  cj_Chunk :: MigrationChunk
  cj_Table :: MigrationTable
  cj_Engine :: string
  cj_Source :: DataSourceCredential
  cj_Target :: DataSourceCredential
  cj_BatchRows :: int
  cj_ReadLimitMBps :: int
  cj_WriteLimitMBps :: int
  cj_ReadBytesPerSec :: int
  cj_WriteBytesPerSec :: int
  cj_TargetBytesPerSec :: int
  cj_RowsPerSecond :: int
  cj_QPS :: int
  cj_TransformRules :: "TransformRule list"
  cj_WorkSteal :: bool
  cj_WorkStealReason :: string

record EngineJobResult =
  er_Error :: string
  er_OutputTail :: string

section \<open>Reading a table\<close>

record ReadBatchRequest =
  rb_Schema :: string
  rb_Table :: string
  rb_PrimaryKey :: string
  rb_PrimaryKeys :: "string list"
  rb_Columns :: "ColumnInfo list"
  rb_Cursor :: "Value list"
  rb_LowerBound :: "Value list"
  rb_UpperBound :: "Value list"
  rb_UseKeyset :: bool
  rb_StartPK :: int
  rb_EndPK :: int
  rb_AfterPK :: int
  rb_HasAfter :: bool
  rb_Limit :: int
  rb_Partition :: string
  rb_HashBucket :: int
  rb_HashBuckets :: int
  rb_CustomWhere :: string

record RowBatch =
  bt_Rows :: "Value list list"
  bt_LastPK :: int
  bt_LastKey :: "Value list"

definition zero_ReadBatchRequest :: ReadBatchRequest where
  "zero_ReadBatchRequest = \<lparr>rb_Schema = [], rb_Table = [], rb_PrimaryKey = [], rb_PrimaryKeys = [], rb_Columns = [],
     rb_Cursor = [], rb_LowerBound = [], rb_UpperBound = [], rb_UseKeyset = False, rb_StartPK = 0, rb_EndPK = 0,
     rb_AfterPK = 0, rb_HasAfter = False, rb_Limit = 0, rb_Partition = [], rb_HashBucket = 0, rb_HashBuckets = 0,
     rb_CustomWhere = []\<rparr>"

definition zero_RowBatch :: RowBatch where
  "zero_RowBatch = \<lparr>bt_Rows = [], bt_LastPK = 0, bt_LastKey = []\<rparr>"

section \<open>Checks and schema objects\<close>

datatype PrecheckLevel = PrecheckPass | PrecheckWarning | PrecheckFailed | PrecheckLevelOther string

record PrecheckItem =
  pc_Name :: string
  pc_Level :: PrecheckLevel
  pc_Message :: string

record TableInfo =
  ti_Schema :: string
  ti_Name :: string
  ti_Rows :: int
  ti_DataLength :: int

datatype SchemaObjectType = SchemaObjectView | SchemaObjectSequence | SchemaObjectTrigger
  | SchemaObjectFunction | SchemaObjectProcedure | SchemaObjectTypeOther string

record SchemaObject =
  so_Schema :: string
  so_Name :: string
  so_Type :: SchemaObjectType
  so_RelatedTo :: string
  so_DDL :: string
  so_Definition :: string
  so_Dependencies :: "string list"
  so_DependenciesKnown :: bool
  so_BindingKnown :: bool

record TranslationRequest =
  tq_SourceFamily :: string
  tq_TargetFamily :: string
  tq_ObjectType :: string
  tq_SourceSchema :: string
  tq_TargetSchema :: string
  tq_Name :: string
  tq_SourceDDL :: string

record TranslationResponse =
  tr_TargetDDL :: string
  tr_TargetName :: string
  tr_SemanticReview :: bool
  tr_SideEffectReview :: bool
  tr_SafeAutoApply :: bool
  tr_TargetDDLSHA256 :: string
  tr_Notes :: string

record RuntimeSpec =
  rs_Engine :: string
  rs_Format :: string
  rs_Filename :: string
  rs_Content :: string
  rs_Command :: "string list"
  rs_Env :: "(string, string) gomap"

end
