(* ===== verification/ServiceCore.thy ===== *)
theory ServiceCore
  imports StoreJobs StoreCDC GoSha256 GoStrings ServiceTypes
begin

text \<open>
  How the operations of the migration service (\<open>backend/internal/migration/service.go\<close>) run: the
  state they share, their errors, and the calls they make.

  An operation is a function of the environment \<open>Env\<close> and of the world. The world holds the
  repository and the calls the target database has seen, and a counter of the calls made so far.
  The environment decides for each call by that counter: the outcome of the file operations of
  a write, the clock, the random identities, an injected fault, and whether the process dies
  before the call. A target answers each call as a function of all calls it has seen, so nothing
  is assumed of it. What a connector supports, Go's interface assertions, are the optional fields of
  \<open>Target\<close>.
\<close>

section \<open>Errors\<close>

text \<open>\<open>Wrapped p e\<close> is \<open>fmt.Errorf\<close> with a text \<open>p\<close> before \<open>%w\<close>.\<close>

datatype svc_error =
    Plain go_error
  | Wrapped string svc_error
  | CommitUnknown svc_error
  | BlockedBy string string string CDCDeadLetterStatus

fun go_error_text :: "go_error \<Rightarrow> string" where
  "go_error_text ErrNotFound = ''not found''"
| "go_error_text ErrLeaseOwner = ''chunk lease owner mismatch''"
| "go_error_text ErrNoChunk = ''no chunk available''"
| "go_error_text ErrNoValidationEvidence = ''no validation evidence available to archive''"
| "go_error_text ErrValidationArchiveNotTerminal =
     ''validation archive requires terminal migration state''"
| "go_error_text ErrValidationReportArchiveConflict =
     ''validation report archive record conflicts with immutable existing record''"
| "go_error_text (ErrText m) = m"
| "go_error_text (ErrIO m) = m"
| "go_error_text (GoPanic m) = m"

fun error_text :: "svc_error \<Rightarrow> string" where
  "error_text (Plain e) = go_error_text e"
| "error_text (Wrapped p e) = p @ error_text e"
| "error_text (CommitUnknown e) =
     ''target CDC COMMIT outcome is unknown; automatic replay is blocked: '' @ error_text e"
| "error_text (BlockedBy dlq ptype pvalue CDCDeadLetterReplayRequired) =
     ''CDC is blocked by retained target COMMIT recovery at '' @ pvalue @ '' ('' @ ptype
     @ ''); explicit replay of DLQ '' @ dlq @ '' is required before later source events''"
| "error_text (BlockedBy dlq ptype pvalue _) =
     ''CDC is blocked by unresolved target COMMIT outcome at '' @ pvalue @ '' ('' @ ptype
     @ ''); resolve DLQ '' @ dlq @ '' as COMMITTED or NOT_COMMITTED before applying more source events''"

abbreviation text_error :: "string \<Rightarrow> svc_error" where
  "text_error m \<equiv> Plain (ErrText m)"

text \<open>\<open>errors.As\<close> for the two error types the service looks for.\<close>

fun is_commit_unknown :: "svc_error \<Rightarrow> bool" where
  "is_commit_unknown (CommitUnknown e) = True"
| "is_commit_unknown (Wrapped p e) = is_commit_unknown e"
| "is_commit_unknown _ = False"

fun is_blocked :: "svc_error \<Rightarrow> bool" where
  "is_blocked (BlockedBy i t v st) = True"
| "is_blocked (Wrapped p e) = is_blocked e"
| "is_blocked (CommitUnknown e) = is_blocked e"
| "is_blocked (Plain e) = False"

section \<open>The target database\<close>

datatype target_call =
    BeginCDCTransaction
  | CommitCDCTransaction
  | RollbackCDCTransaction
  | WriteBatch WriteBatchRequest
  | DeleteByKey DeleteByKeyRequest
  | ReadByKey ReadByKeyRequest
  | TruncateTable string string
  | ExecDDL string string
  | SyncGeneratedValueState string string "ColumnInfo list"
  | FinalizeGeneratedValueModes string string "ColumnInfo list"
  | CurrentCDCPosition
  | CurrentCDCPositionForSelection "TableMapping list"
  | CreateCDCCheckpoint string
  | DropCDCCheckpoint string
  | GetTableMetadata string string
  | CreateIndex string string IndexInfo
  | CreateForeignKey string string ForeignKeyInfo
  | PlanKeysetBoundaries KeysetBoundaryRequest
  | ProveChunkRelocation ChunkRelocationRequest
  | SampleRuntimeLoad
  | TestConnection
  | GetVersion
  | ListSchemas
  | ListTables string
  | MigrationPrechecks bool
  | ValidateCDCSelection "TableMapping list"
  | EnsureSchema string
  | CreateTable string string "ColumnInfo list" string
  | CreateTableWithPrimaryKeys string string "ColumnInfo list" "string list"
  | DiscoverTableTopology string string
  | ListTablePartitions string string
  | ListSchemaObjects string
  | GetSequenceState string string
  | SetSequenceState string string string bool
  | BindSequence string string string string
  | OpenValidationSnapshot CDCPosition
  | ReadBatch bool ReadBatchRequest
  | CloseSnapshot
  | CloseTarget

text \<open>An answer is the error of the call, given every call so far with the current one last;
  a look-up answers with a row, or none, and the other questions with a log position, a table's
  metadata, keys that divide a range, a relocation proof or the server's load. \<open>tg_apply\<close> to
  \<open>tg_runtime_load\<close> say which interfaces the connector implements. The calls are
  those of any connector the service opens, the source's too.\<close>

record Target =
  tg_answer :: "target_call list \<Rightarrow> string option"
  tg_row :: "target_call list \<Rightarrow> Value list option"
  tg_position :: "target_call list \<Rightarrow> CDCPosition"
  tg_metadata :: "target_call list \<Rightarrow> TableMetadata"
  tg_boundaries :: "target_call list \<Rightarrow> Value list list"
  tg_proof :: "target_call list \<Rightarrow> ChunkRelocationProof"
  tg_load :: "target_call list \<Rightarrow> DatabaseRuntimeLoad"
  tg_version :: "target_call list \<Rightarrow> string"
  tg_schemas :: "target_call list \<Rightarrow> string list"
  tg_tables :: "target_call list \<Rightarrow> TableInfo list"
  tg_no_metadata :: "target_call list \<Rightarrow> bool"
  tg_prechecks :: "target_call list \<Rightarrow> PrecheckItem list"
  tg_partitions :: "target_call list \<Rightarrow> string list"
  tg_placements :: "target_call list \<Rightarrow> TopologyPlacement list"
  tg_objects :: "target_call list \<Rightarrow> SchemaObject list"
  tg_sequence :: "target_call list \<Rightarrow> string \<times> bool"
  tg_batch :: "target_call list \<Rightarrow> RowBatch"
  tg_apply :: bool
  tg_transactional :: bool
  tg_lookup :: bool
  tg_truncate :: bool
  tg_ddl :: bool
  tg_sync_generated :: bool
  tg_finalize_generated :: bool
  tg_selection_position :: bool
  tg_mysql_binlog :: bool
  tg_checkpoint :: bool
  tg_cdc_source :: bool
  tg_post_load_schema :: bool
  tg_keyset_boundary :: bool
  tg_relocation :: bool
  tg_runtime_load :: bool
  tg_data :: bool
  tg_precheck :: bool
  tg_selection_validator :: bool
  tg_schema :: bool
  tg_composite_schema :: bool
  tg_partition :: bool
  tg_topology :: bool
  tg_schema_objects :: bool
  tg_sequence_state :: bool
  tg_sequence_binding :: bool
  tg_snapshot :: bool

section \<open>World and environment\<close>

text \<open>The goroutines the service starts; what they do is a later operation of the world.\<close>

datatype spawned = SpawnPrepare string | SpawnValidation string | SpawnDrain string string

record taskPressureSample =
  ps_At :: time
  ps_Level :: string
  ps_Reason :: string
  ps_SpoolPendingBytes :: int
  ps_SpoolGrowthBPS :: int

record World =
  w_store :: Store
  w_calls :: "target_call list"
  w_tick :: nat
  w_spawned :: "spawned list"
  w_pressure :: "(string, taskPressureSample) gomap"

text \<open>\<open>sv_instance\<close> is the identity of this server process. \<open>sv_require\<close> and \<open>sv_connect\<close>
  are the connector registry: the error of \<open>Require\<close> for a capability and a type, and the
  connector of a data source. \<open>sv_others\<close> is what other processes do to the repository while an
  operation waits. \<open>sv_zone\<close> is the time zone database: the minute of the day in a named zone, or
  the error of \<open>time.LoadLocation\<close>; \<open>sv_cancelled\<close> tells whether the context of a background
  operation has been cancelled; \<open>sv_local\<close> is the server's own zone. \<open>sv_translation\<close> is
  the translation service: the error of the request, or its answer; \<open>sv_tls\<close> the error of setting
  up its client. \<open>sv_render\<close> is the configuration a capture reader renders, or its error.
  \<open>sv_supports\<close> is \<open>Supports\<close> of the registry. \<open>sv_json\<close> is the text \<open>json.Marshal\<close> gives for what
  \<open>json.Unmarshal\<close> reads into an \<open>any\<close>, none when one of them fails.\<close>

record Env =
  sv_instance :: string
  sv_env :: "string \<Rightarrow> string"
  sv_io :: "nat \<Rightarrow> io"
  sv_now :: "nat \<Rightarrow> time"
  sv_rand :: "nat \<Rightarrow> string"
  sv_fault :: "nat \<Rightarrow> string \<Rightarrow> string option"
  sv_crash :: "nat \<Rightarrow> bool"
  sv_cancelled :: "nat \<Rightarrow> bool"
  sv_others :: "nat \<Rightarrow> Store \<Rightarrow> Store"
  sv_require :: "string \<Rightarrow> DataSourceType \<Rightarrow> string option"
  sv_connect :: "DataSource \<Rightarrow> string + Target"
  sv_json_len :: "CDCEvent list \<Rightarrow> int"
  sv_parse_time :: "string \<Rightarrow> string \<Rightarrow> time option"
  sv_parse_rat :: "string \<Rightarrow> rat option"
  sv_parse_float :: "string \<Rightarrow> rat option"
  sv_zone :: "string \<Rightarrow> string + (time \<Rightarrow> int)"
  sv_local :: "time \<Rightarrow> int"
  sv_tls :: "string option"
  sv_translation :: "nat \<Rightarrow> TranslationRequest \<Rightarrow> string + TranslationResponse"
  sv_render :: "MigrationTask \<Rightarrow> DataSource \<Rightarrow> DataSource \<Rightarrow> MigrationTable list \<Rightarrow> string + RuntimeSpec"
  sv_supports :: "string \<Rightarrow> DataSourceType \<Rightarrow> bool"
  sv_json :: "string \<Rightarrow> string option"

record CDCApplyRequest =
  ar_Direction :: string
  ar_Events :: "CDCEvent list"

record CDCApplyResult =
  res_Applied :: int
  res_LastEventID :: string
  res_PositionType :: string
  res_PositionValue :: string
  res_Duplicate :: bool
  res_Staged :: bool
  res_SpoolSequence :: int
  res_SkippedConflicts :: int

definition zero_CDCApplyResult :: CDCApplyResult where
  "zero_CDCApplyResult = \<lparr>res_Applied = 0, res_LastEventID = [], res_PositionType = [],
     res_PositionValue = [], res_Duplicate = False, res_Staged = False, res_SpoolSequence = 0,
     res_SkippedConflicts = 0\<rparr>"

section \<open>Operations\<close>

text \<open>An operation ends with a value, with an error (and the partial result Go returns beside
  it), or with the death of the process.\<close>

datatype 'a outcome = Done 'a | Failed "CDCApplyResult option" svc_error | Crashed

type_synonym 'a svc = "Env \<Rightarrow> World \<Rightarrow> World \<times> 'a outcome"

definition ret :: "'a \<Rightarrow> 'a svc" where
  "ret x E w = (w, Done x)"

definition fail_with :: "CDCApplyResult option \<Rightarrow> svc_error \<Rightarrow> 'a svc" where
  "fail_with r e E w = (w, Failed r e)"

abbreviation fail :: "svc_error \<Rightarrow> 'a svc" where
  "fail \<equiv> fail_with None"

definition bnd :: "'a svc \<Rightarrow> ('a \<Rightarrow> 'b svc) \<Rightarrow> 'b svc" where
  "bnd m f E w =
     (case m E w of
        (w', Done x) \<Rightarrow> f x E w'
      | (w', Failed r e) \<Rightarrow> (w', Failed r e)
      | (w', Crashed) \<Rightarrow> (w', Crashed))"

text \<open>The error as a value, for a caller that does not return it.\<close>

definition attempt :: "'a svc \<Rightarrow> ((CDCApplyResult option \<times> svc_error) + 'a) svc" where
  "attempt m E w =
     (case m E w of
        (w', Done x) \<Rightarrow> (w', Done (Inr x))
      | (w', Failed r e) \<Rightarrow> (w', Done (Inl (r, e)))
      | (w', Crashed) \<Rightarrow> (w', Crashed))"

text \<open>\<open>defer\<close>: the clean-up runs whatever the body returns, unless the process died.\<close>

definition deferred :: "'a svc \<Rightarrow> unit svc \<Rightarrow> 'a svc" where
  "deferred m c E w =
     (case m E w of
        (w', Crashed) \<Rightarrow> (w', Crashed)
      | (w', r) \<Rightarrow> (case c E w' of (w'', Crashed) \<Rightarrow> (w'', Crashed) | (w'', _) \<Rightarrow> (w'', r)))"

definition env :: "(Env \<Rightarrow> 'a) \<Rightarrow> 'a svc" where
  "env f E w = (w, Done (f E))"

definition getenv :: "string \<Rightarrow> string svc" where
  "getenv k = env (\<lambda>E. sv_env E k)"

definition tick :: "(nat \<Rightarrow> Env \<Rightarrow> World \<Rightarrow> World \<times> 'a outcome) \<Rightarrow> 'a svc" where
  "tick f E w = f (w_tick w) E (w\<lparr>w_tick := Suc (w_tick w)\<rparr>)"

definition clock :: "time svc" where
  "clock = tick (\<lambda>n E w. (w, Done (sv_now E n)))"

definition newID :: "string \<Rightarrow> string svc" where
  "newID pfx = tick (\<lambda>n E w. (w, Done (pfx @ ''_'' @ hex_encode (sv_rand E n))))"

definition query :: "(Store \<Rightarrow> 'a) \<Rightarrow> 'a svc" where
  "query f E w = (w, Done (f (w_store w)))"

definition fetch :: "(Store \<Rightarrow> go_error + 'a) \<Rightarrow> 'a svc" where
  "fetch f E w =
     (w, case f (w_store w) of Inl e \<Rightarrow> Failed None (Plain e) | Inr x \<Rightarrow> Done x)"

text \<open>A write to the repository, with its error as a value.\<close>

definition write_repo :: "(io \<Rightarrow> Store \<Rightarrow> Store \<times> go_error option) \<Rightarrow> go_error option svc" where
  "write_repo f = tick (\<lambda>n E w.
     if sv_crash E n then (w, Crashed)
     else let (s, r) = f (sv_io E n) (w_store w) in (w\<lparr>w_store := s\<rparr>, Done r))"

definition ok_or :: "CDCApplyResult option \<Rightarrow> (svc_error \<Rightarrow> svc_error) \<Rightarrow> go_error option svc \<Rightarrow> unit svc" where
  "ok_or r f m = bnd m (\<lambda>x. case x of None \<Rightarrow> ret () | Some e \<Rightarrow> fail_with r (f (Plain e)))"

abbreviation must :: "go_error option svc \<Rightarrow> unit svc" where
  "must \<equiv> ok_or None id"

definition ignore :: "'a svc \<Rightarrow> unit svc" where
  "ignore m = bnd (attempt m) (\<lambda>r. ret ())"

definition checkpoint_fault :: "string \<Rightarrow> string option svc" where
  "checkpoint_fault name = tick (\<lambda>n E w.
     if sv_crash E n then (w, Crashed) else (w, Done (sv_fault E n name)))"

definition call_target :: "Target \<Rightarrow> target_call \<Rightarrow> string option svc" where
  "call_target T c = tick (\<lambda>n E w.
     if sv_crash E n then (w, Crashed)
     else let cs = w_calls w @ [c] in (w\<lparr>w_calls := cs\<rparr>, Done (tg_answer T cs)))"

definition look_up :: "Target \<Rightarrow> ReadByKeyRequest \<Rightarrow> (string + Value list option) svc" where
  "look_up T q = tick (\<lambda>n E w.
     if sv_crash E n then (w, Crashed)
     else let cs = w_calls w @ [ReadByKey q]
          in (w\<lparr>w_calls := cs\<rparr>,
              Done (case tg_answer T cs of Some e \<Rightarrow> Inl e | None \<Rightarrow> Inr (tg_row T cs))))"

definition spawn :: "spawned \<Rightarrow> unit svc" where
  "spawn g E w = (w\<lparr>w_spawned := w_spawned w @ [g]\<rparr>, Done ())"

text \<open>A call that answers with more than an error; \<open>f\<close> picks the answer.\<close>

definition ask :: "Target \<Rightarrow> (Target \<Rightarrow> target_call list \<Rightarrow> 'a) \<Rightarrow> target_call \<Rightarrow> (string + 'a) svc" where
  "ask T f c = tick (\<lambda>n E w.
     if sv_crash E n then (w, Crashed)
     else let cs = w_calls w @ [c]
          in (w\<lparr>w_calls := cs\<rparr>,
              Done (case tg_answer T cs of Some e \<Rightarrow> Inl e | None \<Rightarrow> Inr (f T cs))))"

text \<open>Time passes, and others may change the repository.\<close>

definition wait_for_others :: "unit svc" where
  "wait_for_others = tick (\<lambda>n E w. (w\<lparr>w_store := sv_others E n (w_store w)\<rparr>, Done ()))"

definition ok_call :: "CDCApplyResult option \<Rightarrow> string \<Rightarrow> Target \<Rightarrow> target_call \<Rightarrow> unit svc" where
  "ok_call r msg T c =
     bnd (call_target T c) (\<lambda>x. case x of
       None \<Rightarrow> ret () | Some e \<Rightarrow> fail_with r (Wrapped msg (text_error e)))"

section \<open>Helpers of the service\<close>

fun DataSourceType_string :: "DataSourceType \<Rightarrow> string" where
  "DataSourceType_string DataSourceMySQL = ''mysql''"
| "DataSourceType_string DataSourceMariaDB = ''mariadb''"
| "DataSourceType_string DataSourcePolarDBX = ''polardbx''"
| "DataSourceType_string DataSourceTiDB = ''tidb''"
| "DataSourceType_string DataSourceOceanBase = ''oceanbase_mysql''"
| "DataSourceType_string DataSourcePolarDBMySQL = ''polardb_mysql''"
| "DataSourceType_string DataSourcePostgreSQL = ''postgresql''"
| "DataSourceType_string DataSourcePolarDBPostgreSQL = ''polardb_postgresql''"
| "DataSourceType_string DataSourceOracle = ''oracle''"
| "DataSourceType_string DataSourceSQLServer = ''sqlserver''"
| "DataSourceType_string DataSourceDB2 = ''db2''"
| "DataSourceType_string DataSourceOpenGauss = ''opengauss''"
| "DataSourceType_string DataSourceKingbase = ''kingbase''"
| "DataSourceType_string DataSourceDameng = ''dameng''"
| "DataSourceType_string DataSourceGaussDB = ''gaussdb''"
| "DataSourceType_string DataSourceGBase = ''gbase''"
| "DataSourceType_string DataSourceGBase8s = ''gbase8s''"
| "DataSourceType_string (DataSourceTypeOther s) = s"

fun CDCOperation_string :: "CDCOperation \<Rightarrow> string" where
  "CDCOperation_string CDCInsert = ''INSERT''"
| "CDCOperation_string CDCUpdate = ''UPDATE''"
| "CDCOperation_string CDCDelete = ''DELETE''"
| "CDCOperation_string CDCTruncate = ''TRUNCATE''"
| "CDCOperation_string CDCDDL = ''DDL''"
| "CDCOperation_string CDCCheckpoint = ''CHECKPOINT''"
| "CDCOperation_string (CDCOperationOther s) = s"

fun DeadLetterStatus_string :: "CDCDeadLetterStatus \<Rightarrow> string" where
  "DeadLetterStatus_string CDCDeadLetterOpen = ''OPEN''"
| "DeadLetterStatus_string CDCDeadLetterCommitUncertain = ''COMMIT_UNCERTAIN''"
| "DeadLetterStatus_string CDCDeadLetterReplayRequired = ''REPLAY_REQUIRED''"
| "DeadLetterStatus_string CDCDeadLetterResolved = ''RESOLVED''"
| "DeadLetterStatus_string (CDCDeadLetterStatusOther s) = s"

fun ConflictDecision_string :: "CDCConflictDecision \<Rightarrow> string" where
  "ConflictDecision_string CDCConflictTargetKept = ''TARGET_KEPT''"
| "ConflictDecision_string CDCConflictSourceApplied = ''SOURCE_APPLIED''"
| "ConflictDecision_string (CDCConflictDecisionOther s) = s"

text \<open>\<open>envInt64\<close> takes any number from 0, \<open>intEnv\<close> from 1.\<close>

definition envInt64 :: "string \<Rightarrow> int \<Rightarrow> int svc" where
  "envInt64 name fallback = bnd (getenv name) (\<lambda>raw.
     let v = trim_space raw in
     ret (if v = [] then fallback
          else case atoi v of None \<Rightarrow> fallback | Some n \<Rightarrow> if n < 0 then fallback else n))"

definition intEnv :: "string \<Rightarrow> int \<Rightarrow> int svc" where
  "intEnv name fallback = bnd (getenv name) (\<lambda>raw.
     let v = trim_space raw in
     ret (if v = [] then fallback
          else case atoi v of None \<Rightarrow> fallback | Some n \<Rightarrow> if n \<le> 0 then fallback else n))"

text \<open>\<open>Time.UnixMilli\<close>; the count starts at Go's zero time.\<close>

definition UnixMilli :: "time \<Rightarrow> int" where
  "UnixMilli t = (t - 62135596800 * 10 ^ 9) div 10 ^ 6"

definition objectName :: "string \<Rightarrow> string \<Rightarrow> string" where
  "objectName schema table = (if schema = [] then table else schema @ ''.'' @ table)"

definition defaultSchema :: "DataSource \<Rightarrow> string" where
  "defaultSchema ds =
     (if ds_Schema ds \<noteq> [] then ds_Schema ds
      else if IsPostgreSQLFamily (ds_Type ds) then ''public'' else ds_Database ds)"

definition logTask :: "string \<Rightarrow> string \<Rightarrow> string \<Rightarrow> string \<Rightarrow> string \<Rightarrow> string \<Rightarrow> unit svc" where
  "logTask taskID workerID tableID chunkID level message =
     (if taskID = [] \<or> trim_space message = [] then ret ()
      else bnd (newID ''log'') (\<lambda>i. bnd clock (\<lambda>now.
        ignore (write_repo (\<lambda>io. CreateTaskLog io \<lparr>lg_ID = i, lg_TaskID = taskID,
          lg_WorkerID = workerID, lg_TableID = tableID, lg_ChunkID = chunkID,
          lg_Level = to_upper level, lg_Message = message, lg_CreatedAt = now\<rparr>)))))"

text \<open>An alert of the service, whose creation error is ignored everywhere.\<close>

definition alert :: "string \<Rightarrow> string \<Rightarrow> string \<Rightarrow> string \<Rightarrow> time \<Rightarrow> unit svc" where
  "alert severity title message taskID now =
     bnd (newID ''alt'') (\<lambda>i. ignore (write_repo (\<lambda>io. CreateAlert io
       \<lparr>al_ID = i, al_Severity = severity, al_Title = title, al_Message = message,
        al_TaskID = taskID, al_Acknowledged = False, al_CreatedAt = now\<rparr>)))"

end
