(* ===== verification/CdcApply.thy ===== *)
theory CdcApply
  imports ServiceCore
begin

text \<open>
  Applying captured transactions to the target, the part of
  \<open>backend/internal/migration/service.go\<close> around \<open>ApplyCDCEvents\<close>: value decoding, key mapping,
  conflict detection, the durable fence that is written before a target COMMIT is sent, the
  checkpoint after it, the dead letters of failed transactions, and the operator's decisions.
\<close>

section \<open>Values, columns and keys\<close>

definition decodeCDCValue :: "CDCField \<Rightarrow> svc_error + Value" where
  "decodeCDCValue f =
     (if cf_Null f then Inr \<lparr>v_Null = True, v_Raw = []\<rparr>
      else let enc = to_lower (trim_space (cf_Encoding f)) in
        if enc \<in> {'''', ''text'', ''utf8'', ''json''}
        then Inr \<lparr>v_Null = False, v_Raw = cf_Value f\<rparr>
        else if enc = ''base64'' then
          (case base64_decode (cf_Value f) of
             None \<Rightarrow> Inl (Wrapped (''decode base64 field '' @ cf_Column f @ '': '')
                            (text_error ''illegal base64 data''))
           | Some v \<Rightarrow> Inr \<lparr>v_Null = False, v_Raw = v\<rparr>)
        else Inl (text_error (''unsupported CDC field encoding '' @ go_quote (cf_Encoding f)
                              @ '' for '' @ cf_Column f)))"

definition cdcFieldMap :: "CDCField list \<Rightarrow> (string, CDCField) gomap" where
  "cdcFieldMap fs = fold (\<lambda>f. AList.update (cf_Column f) f) fs []"

definition reverseMigrationTable :: "MigrationTable \<Rightarrow> MigrationTable" where
  "reverseMigrationTable t = t\<lparr>
     tbl_SourceSchema := tbl_TargetSchema t, tbl_TargetSchema := tbl_SourceSchema t,
     tbl_SourceTable := tbl_TargetTable t, tbl_TargetTable := tbl_SourceTable t,
     tbl_PrimaryKey := (if tbl_TargetPrimaryKey t = [] then tbl_PrimaryKey t
                        else tbl_TargetPrimaryKey t),
     tbl_TargetPrimaryKey := (if tbl_PrimaryKey t = [] then tbl_TargetPrimaryKey t
                              else tbl_PrimaryKey t),
     tbl_PrimaryKeys := tbl_TargetPrimaryKeys t, tbl_TargetPrimaryKeys := tbl_PrimaryKeys t,
     tbl_Columns := tbl_TargetColumns t, tbl_TargetColumns := tbl_Columns t\<rparr>"

text \<open>The keys of source and target; the caller has checked that there are equally many.\<close>

fun cdcKeyValues ::
  "(string, CDCField) gomap \<Rightarrow> string list \<Rightarrow> string list \<Rightarrow> ColumnInfo list \<Rightarrow>
   svc_error + (Value list \<times> ColumnInfo list)" where
  "cdcKeyValues fm (s # ss) (t # ts) targetCols =
     (case map_of fm s of
        None \<Rightarrow> Inl (text_error (''missing primary key field '' @ s))
      | Some field \<Rightarrow>
          (case decodeCDCValue field of
             Inl e \<Rightarrow> Inl e
           | Inr v \<Rightarrow>
               if v_Null v then Inl (text_error (''primary key '' @ s @ '' cannot be null''))
               else (case find (\<lambda>c. equal_fold (col_Name c) t) targetCols of
                   None \<Rightarrow> Inl (text_error (''target primary key '' @ t
                                            @ '' is not present in mapped columns''))
                 | Some c \<Rightarrow>
                     (case cdcKeyValues fm ss ts targetCols of
                        Inl e \<Rightarrow> Inl e
                      | Inr (vs, cs) \<Rightarrow> Inr (v # vs, c # cs)))))"
| "cdcKeyValues fm _ _ targetCols = Inr ([], [])"

definition keyFingerprint :: "Value list \<Rightarrow> string" where
  "keyFingerprint vs = hex_encode (take 12 (sha256 (concat (map (\<lambda>v.
     (if v_Null v then [CHR 0x00] else CHR 0x01 # v_Raw v) @ [CHR 0xFF]) vs))))"

definition valuesEqual :: "Value list \<Rightarrow> Value list \<Rightarrow> bool" where
  "valuesEqual a b \<longleftrightarrow> length a = length b \<and>
     list_all2 (\<lambda>x y. v_Null x = v_Null y \<and> v_Raw x = v_Raw y) a b"

section \<open>Last write wins\<close>

text \<open>The first column of one list whose name matches, with its partner in the other.\<close>

fun find_pair :: "string \<Rightarrow> ColumnInfo list \<Rightarrow> ColumnInfo list \<Rightarrow> (ColumnInfo \<times> ColumnInfo) option" where
  "find_pair name (c # cs) (d # ds) =
     (if equal_fold (col_Name c) name then Some (c, d) else find_pair name cs ds)"
| "find_pair name _ _ = None"

definition conflictColumns ::
  "MigrationTask \<Rightarrow> string \<Rightarrow> ColumnInfo list \<Rightarrow> ColumnInfo list \<Rightarrow>
   svc_error + (ColumnInfo \<times> ColumnInfo)" where
  "conflictColumns task direction sourceCols targetCols =
     (let name = trim_space (mig_CDCConflictColumn task) in
      if name = [] then Inl (text_error ''LAST_WRITE_WINS requires cdc_conflict_column'')
      else if length sourceCols \<noteq> length targetCols
      then Inl (text_error ''source/target column mapping length mismatch'')
      else case (if direction = ''forward'' then find_pair name sourceCols targetCols
                 else map_option prod.swap (find_pair name targetCols sourceCols)) of
          Some cs \<Rightarrow> Inr cs
        | None \<Rightarrow> Inl (text_error (''conflict column '' @ name @ '' is not present in table mapping'')))"

definition version_layouts :: "string list" where
  "version_layouts = [''2006-01-02T15:04:05.999999999Z07:00'',
     ''2006-01-02 15:04:05.999999999Z07:00'', ''2006-01-02 15:04:05.999999999'',
     ''2006-01-02 15:04:05'']"

definition go_compare :: "'a::linorder \<Rightarrow> 'a \<Rightarrow> int" where
  "go_compare x y = (if x < y then -1 else if y < x then 1 else 0)"

text \<open>The parsers \<open>time.Parse\<close> and \<open>big.Rat.SetString\<close> are arguments.\<close>

fun compare_times :: "(string \<Rightarrow> string \<Rightarrow> time option) \<Rightarrow> string list \<Rightarrow> string \<Rightarrow> string \<Rightarrow> int option" where
  "compare_times parse [] s t = None"
| "compare_times parse (l # ls) s t =
     (case (parse l s, parse l t) of
        (Some x, Some y) \<Rightarrow> Some (go_compare x y)
      | _ \<Rightarrow> compare_times parse ls s t)"

definition compareConflictVersions ::
  "(string \<Rightarrow> string \<Rightarrow> time option) \<Rightarrow> (string \<Rightarrow> rat option) \<Rightarrow> string \<Rightarrow> string \<Rightarrow> int" where
  "compareConflictVersions parseTime parseRat source target =
     (let s = trim_space source; t = trim_space target in
      case compare_times parseTime version_layouts s t of
        Some c \<Rightarrow> c
      | None \<Rightarrow> (case (parseRat s, parseRat t) of
            (Some x, Some y) \<Rightarrow> go_compare x y
          | _ \<Rightarrow> go_compare s t))"

definition makeConflictRecord ::
  "string \<Rightarrow> string \<Rightarrow> CDCEvent \<Rightarrow> Value list \<Rightarrow> string \<Rightarrow> CDCConflictDecision \<Rightarrow> string \<Rightarrow> string \<Rightarrow>
   time \<Rightarrow> CDCConflictRecord" where
  "makeConflictRecord taskID direction ev keys policy decision sourceVersion targetVersion now =
     (let fp = keyFingerprint keys;
          raw = taskID @ CHR 0x00 # direction @ CHR 0x00 # ev_PositionType ev @ CHR 0x00 #
            ev_PositionValue ev @ CHR 0x00 # ev_ID ev @ CHR 0x00 # fp @ CHR 0x00 #
            ConflictDecision_string decision
      in \<lparr>cc_ID = ''cfl_'' @ hex_encode (take 12 (sha256 raw)), cc_TaskID = taskID,
          cc_Direction = direction, cc_SourceSchema = ev_SourceSchema ev,
          cc_SourceTable = ev_SourceTable ev, cc_KeyFingerprint = fp, cc_Policy = policy,
          cc_Decision = decision, cc_SourceVersion = sourceVersion,
          cc_TargetVersion = targetVersion, cc_PositionType = ev_PositionType ev,
          cc_PositionValue = ev_PositionValue ev, cc_CreatedAt = now\<rparr>)"

section \<open>The fence before COMMIT\<close>

definition cdcDeadLetterID :: "string \<Rightarrow> string \<Rightarrow> CDCEvent \<Rightarrow> string" where
  "cdcDeadLetterID taskID direction ev =
     ''dlq_'' @ hex_encode (take 8 (sha256 (taskID @ CHR 0x00 # direction @ CHR 0x00 #
       ev_PositionType ev @ CHR 0x00 # ev_PositionValue ev @ CHR 0x00 # ev_Resource ev)))"

definition cdcPreCommitFenceMessage :: string where
  "cdcPreCommitFenceMessage =
     ''pre-COMMIT durable ambiguity fence; target outcome must never be inferred without checkpoint''"

record cdcCommitFence =
  fence_ID :: string
  fence_Existed :: bool

definition new_fence :: "string \<Rightarrow> string \<Rightarrow> string \<Rightarrow> CDCEvent list \<Rightarrow> time \<Rightarrow> CDCDeadLetter" where
  "new_fence i taskID direction evs now = (let ev = last evs in
     \<lparr>dl_ID = i, dl_TaskID = taskID, dl_Direction = direction,
      dl_PositionType = ev_PositionType ev, dl_PositionValue = ev_PositionValue ev,
      dl_Resource = ev_Resource ev, dl_Events = evs, dl_EventsCiphertext = [],
      dl_LastError = cdcPreCommitFenceMessage, dl_RetryCount = 0,
      dl_Status = CDCDeadLetterCommitUncertain, dl_CreatedAt = now, dl_UpdatedAt = now,
      dl_ResolvedAt = 0\<rparr>)"

definition reused_fence :: "string \<Rightarrow> CDCEvent list \<Rightarrow> time \<Rightarrow> CDCDeadLetter \<Rightarrow> CDCDeadLetter" where
  "reused_fence direction evs now v = (let ev = last evs in
     v\<lparr>dl_Direction := direction, dl_PositionType := ev_PositionType ev,
       dl_PositionValue := ev_PositionValue ev, dl_Resource := ev_Resource ev, dl_Events := evs,
       dl_Status := CDCDeadLetterCommitUncertain, dl_LastError := cdcPreCommitFenceMessage,
       dl_UpdatedAt := now, dl_ResolvedAt := 0\<rparr>)"

definition beginCDCCommitFence :: "string \<Rightarrow> string \<Rightarrow> CDCEvent list \<Rightarrow> cdcCommitFence svc" where
  "beginCDCCommitFence taskID direction evs =
     (if evs = [] then fail (text_error ''cannot persist CDC commit fence without events'')
      else if trim_space (ev_PositionValue (last evs)) = []
      then fail (text_error ''cannot persist CDC commit fence without durable source position'')
      else let i = cdcDeadLetterID taskID direction (last evs) in
        bnd clock (\<lambda>now.
        bnd (query (ListCDCDeadLetters taskID)) (\<lambda>items.
        case find (\<lambda>v. dl_ID v = i) items of
          Some v \<Rightarrow>
            bnd (must (write_repo (\<lambda>io. UpdateCDCDeadLetter io (reused_fence direction evs now v)))) (\<lambda>_.
            ret \<lparr>fence_ID = i, fence_Existed = True\<rparr>)
        | None \<Rightarrow>
            bnd (must (write_repo (\<lambda>io. CreateCDCDeadLetter io (new_fence i taskID direction evs now)))) (\<lambda>_.
            ret \<lparr>fence_ID = i, fence_Existed = False\<rparr>))))"

definition completeCDCCommitFence :: "cdcCommitFence option \<Rightarrow> unit svc" where
  "completeCDCCommitFence fence =
     (case fence of
        None \<Rightarrow> ret ()
      | Some f \<Rightarrow>
          if fence_ID f = [] then ret ()
          else if \<not> fence_Existed f
          then must (write_repo (\<lambda>io. DeleteCDCDeadLetter io (fence_ID f)))
          else bnd (fetch (GetCDCDeadLetter (fence_ID f))) (\<lambda>v. bnd clock (\<lambda>now.
            must (write_repo (\<lambda>io. UpdateCDCDeadLetter io
              (v\<lparr>dl_Status := CDCDeadLetterResolved, dl_LastError := [],
                 dl_ResolvedAt := now, dl_UpdatedAt := now\<rparr>))))))"

definition is_transient_fence :: "CDCDeadLetter \<Rightarrow> bool" where
  "is_transient_fence v \<longleftrightarrow> dl_Status v = CDCDeadLetterCommitUncertain \<and> dl_RetryCount v = 0
     \<and> dl_LastError v = cdcPreCommitFenceMessage"

definition cleanupTransientCDCCommitFence :: "string \<Rightarrow> string \<Rightarrow> CDCEvent \<Rightarrow> unit svc" where
  "cleanupTransientCDCCommitFence taskID direction ev =
     (let i = cdcDeadLetterID taskID direction ev in
      bnd (query (GetCDCDeadLetter i)) (\<lambda>r. case r of
        Inl e \<Rightarrow> ret ()
      | Inr v \<Rightarrow> if is_transient_fence v
                then must (write_repo (\<lambda>io. DeleteCDCDeadLetter io i)) else ret ()))"

definition unresolvedCommitRecovery :: "string \<Rightarrow> string \<Rightarrow> Store \<Rightarrow> CDCDeadLetter option" where
  "unresolvedCommitRecovery taskID direction s =
     find (\<lambda>v. equal_fold (dl_Direction v) direction \<and>
        (dl_Status v = CDCDeadLetterCommitUncertain \<or> dl_Status v = CDCDeadLetterReplayRequired))
       (ListCDCDeadLetters taskID s)"

section \<open>Dead letters\<close>

definition dlq_max_bytes :: "string \<Rightarrow> int" where
  "dlq_max_bytes raw =
     (if raw = [] then 4194304
      else case atoi raw of Some n \<Rightarrow> if 0 \<le> n then n else 4194304 | None \<Rightarrow> 4194304)"

definition failed_again ::
  "CDCEvent list \<Rightarrow> svc_error \<Rightarrow> CDCDeadLetterStatus \<Rightarrow> time \<Rightarrow> CDCDeadLetter \<Rightarrow> CDCDeadLetter" where
  "failed_again evs cause status now v =
     v\<lparr>dl_Events := evs, dl_LastError := error_text cause, dl_RetryCount := dl_RetryCount v + 1,
       dl_Status := (if dl_Status v = CDCDeadLetterCommitUncertain
                        \<and> status \<noteq> CDCDeadLetterCommitUncertain
                     then CDCDeadLetterCommitUncertain else status),
       dl_UpdatedAt := now, dl_ResolvedAt := 0\<rparr>"

definition recordCDCDeadLetter :: "string \<Rightarrow> string \<Rightarrow> CDCApplyRequest \<Rightarrow> svc_error \<Rightarrow> unit svc" where
  "recordCDCDeadLetter taskID direction req cause =
     (let evs = ar_Events req in
      if is_blocked cause \<or> evs = [] \<or> ev_PositionValue (last evs) = [] then ret ()
      else
      bnd (getenv ''DTS_CDC_DLQ_MAX_BYTES'') (\<lambda>raw.
      bnd (env (\<lambda>E. sv_json_len E evs)) (\<lambda>len.
      let maxBytes = dlq_max_bytes raw; ev = last evs in
      if maxBytes = 0 \<or> len > maxBytes then
        bnd clock (\<lambda>now. alert ''error'' ''CDC DLQ payload not persisted''
          (''failed CDC transaction at '' @ ev_PositionValue ev @ '' is '' @ int_str len
           @ '' bytes (limit '' @ int_str maxBytes @ ''): '' @ error_text cause) taskID now)
      else
      bnd clock (\<lambda>now.
      let i = cdcDeadLetterID taskID direction ev;
          unknown = is_commit_unknown cause;
          status = (if unknown then CDCDeadLetterCommitUncertain else CDCDeadLetterOpen) in
      bnd (query (GetCDCDeadLetter i)) (\<lambda>r.
      bnd (case r of
          Inr v \<Rightarrow> ignore (write_repo (\<lambda>io. UpdateCDCDeadLetter io (failed_again evs cause status now v)))
        | Inl _ \<Rightarrow> ignore (write_repo (\<lambda>io. CreateCDCDeadLetter io
            \<lparr>dl_ID = i, dl_TaskID = taskID, dl_Direction = direction,
             dl_PositionType = ev_PositionType ev, dl_PositionValue = ev_PositionValue ev,
             dl_Resource = ev_Resource ev, dl_Events = evs, dl_EventsCiphertext = [],
             dl_LastError = error_text cause, dl_RetryCount = 1, dl_Status = status,
             dl_CreatedAt = now, dl_UpdatedAt = now, dl_ResolvedAt = 0\<rparr>))) (\<lambda>_.
      alert ''error'' (if unknown then ''CDC target commit outcome unknown''
                       else ''CDC transaction dead-lettered'')
        (direction @ '' CDC transaction at '' @ ev_PositionValue ev @ '' failed: ''
         @ error_text cause) taskID now))))))"

section \<open>The checkpoint\<close>

definition lag_threshold :: "string \<Rightarrow> int" where
  "lag_threshold raw =
     (if raw = [] then 60000 else case atoi raw of Some n \<Rightarrow> n | None \<Rightarrow> 60000)"

definition maybeAlertCDCLag :: "string \<Rightarrow> string \<Rightarrow> int \<Rightarrow> unit svc" where
  "maybeAlertCDCLag taskID direction lagMS =
     bnd (getenv ''DTS_CDC_LAG_ALERT_MS'') (\<lambda>raw.
     let threshold = lag_threshold raw in
     if threshold \<le> 0 \<or> lagMS \<le> threshold then ret ()
     else
     let title = (if direction = ''reverse'' then ''Reverse CDC lag high'' else ''CDC lag high'') in
     bnd (query ListAlerts) (\<lambda>alerts.
     bnd clock (\<lambda>now.
     if list_ex (\<lambda>a. al_TaskID a = taskID \<and> al_Title a = title \<and> \<not> al_Acknowledged a
          \<and> al_CreatedAt a > now - 900 * 10 ^ 9) alerts
     then ret ()
     else bnd clock (\<lambda>now'. alert ''warning'' title
       (direction @ '' CDC lag is '' @ int_str lagMS @ ''ms (threshold '' @ int_str threshold @ ''ms)'')
       taskID now'))))"

text \<open>\<open>recordCDCProgress\<close> with \<open>triggerValidation\<close> false.\<close>

definition recordCDCProgress :: "string \<Rightarrow> CDCPosition \<Rightarrow> unit svc" where
  "recordCDCProgress tid p =
     bnd (fetch (GetMigration tid)) (\<lambda>task.
     if mig_Status task \<noteq> StatusCDCCatchingUp \<and> mig_Status task \<noteq> StatusReadyCutover
     then fail (text_error (''task cannot accept CDC progress from '' @ MigrationStatus_string (mig_Status task)))
     else
     bnd (newID ''cdc'') (\<lambda>i. bnd clock (\<lambda>recorded. bnd clock (\<lambda>updated.
     let p = p\<lparr>pos_ID := i, pos_TaskID := tid, pos_Direction := ''forward'', pos_RecordedAt := recorded\<rparr>;
         previousLag = mig_CDCLagMS task;
         task = task\<lparr>mig_CDCLagMS := pos_LagMS p, mig_UpdatedAt := updated\<rparr> in
     bnd (intEnv ''DTS_CDC_LAG_WARN_MS'' 30000) (\<lambda>warnLag.
     bnd (if pos_LagMS p \<ge> warnLag \<and> previousLag < warnLag then
            bnd clock (\<lambda>now. bnd (alert ''warning'' ''CDC lag high''
              (''CDC lag '' @ int_str (pos_LagMS p) @ ''ms exceeds warning threshold ''
               @ int_str warnLag @ ''ms'') tid now) (\<lambda>_.
            logTask tid [] [] [] ''WARN'' (''CDC lag high: '' @ int_str (pos_LagMS p) @ ''ms'')))
          else ret ()) (\<lambda>_.
     bnd (must (write_repo (\<lambda>io. CreateCDCPosition io p))) (\<lambda>_.
     bnd (maybeAlertCDCLag tid ''forward'' (pos_LagMS p)) (\<lambda>_.
     must (write_repo (\<lambda>io. UpdateMigration io task))))))))))"

definition RecordRollbackCDCProgress :: "string \<Rightarrow> CDCPosition \<Rightarrow> unit svc" where
  "RecordRollbackCDCProgress tid p =
     bnd (fetch (GetMigration tid)) (\<lambda>task.
     if mig_Status task \<noteq> StatusRollbackSyncing \<and> mig_Status task \<noteq> StatusRollbackReady
     then fail (text_error (''task cannot accept reverse CDC progress from ''
                            @ MigrationStatus_string (mig_Status task)))
     else
     bnd (newID ''cdc'') (\<lambda>i. bnd clock (\<lambda>recorded. bnd clock (\<lambda>updated.
     let p = p\<lparr>pos_ID := i, pos_TaskID := tid, pos_Direction := ''reverse'', pos_RecordedAt := recorded\<rparr>;
         task = task\<lparr>mig_CDCLagMS := pos_LagMS p, mig_UpdatedAt := updated\<rparr> in
     bnd (must (write_repo (\<lambda>io. CreateCDCPosition io p))) (\<lambda>_.
     bnd (maybeAlertCDCLag tid ''reverse'' (pos_LagMS p)) (\<lambda>_.
     must (write_repo (\<lambda>io. UpdateMigration io task))))))))"

definition injected :: "CDCApplyResult option \<Rightarrow> string \<Rightarrow> unit svc" where
  "injected r name = bnd (checkpoint_fault name) (\<lambda>x. case x of
     None \<Rightarrow> ret () | Some e \<Rightarrow> fail_with r (text_error e))"

definition apply_position :: "DataSource \<Rightarrow> CDCApplyResult \<Rightarrow> CDCEvent \<Rightarrow> string \<Rightarrow> int \<Rightarrow> CDCPosition" where
  "apply_position sourceDS result ev positionType nowMS =
     (let ts = ev_SourceTimestampMS ev in
      \<lparr>pos_ID = [], pos_TaskID = [], pos_Direction = [],
       pos_DatabaseType = DataSourceType_string (ds_Type sourceDS), pos_PositionType = positionType,
       pos_PositionValue = ev_PositionValue ev, pos_Resource = ev_Resource ev,
       pos_SourceTimestampMS = ts, pos_ApplyTimestampMS = nowMS,
       pos_LagMS = (if ts > 0 \<and> nowMS > ts then nowMS - ts else 0),
       pos_EventsTotal = res_Applied result + res_SkippedConflicts result, pos_EventsPending = 0,
       pos_RecordedAt = 0\<rparr>)"

definition persistCDCApplyResult ::
  "string \<Rightarrow> string \<Rightarrow> DataSource \<Rightarrow> CDCApplyResult \<Rightarrow> CDCEvent \<Rightarrow> CDCApplyResult svc" where
  "persistCDCApplyResult tid direction sourceDS result ev =
     (let positionType = (if ev_PositionType ev = [] then ''EVENT_BRIDGE'' else ev_PositionType ev) in
      bnd clock (\<lambda>now.
      let p = apply_position sourceDS result ev positionType (UnixMilli now) in
      bnd (injected (Some result) ''cdc.apply.after_target_before_checkpoint'') (\<lambda>_.
      bnd (attempt (if direction = ''reverse'' then RecordRollbackCDCProgress tid p
                    else recordCDCProgress tid p)) (\<lambda>r.
      case r of
        Inl (_, e) \<Rightarrow> fail_with (Some result) (Wrapped ''persist CDC checkpoint after apply: '' e)
      | Inr _ \<Rightarrow>
          let result = result\<lparr>res_PositionType := positionType,
                              res_PositionValue := ev_PositionValue ev\<rparr> in
          bnd (injected (Some result) ''cdc.apply.after_checkpoint_before_source_ack'') (\<lambda>_.
          ret result)))))"

section \<open>Applying the events of a transaction\<close>

definition lift :: "CDCApplyResult \<Rightarrow> (svc_error \<Rightarrow> svc_error) \<Rightarrow> (svc_error + 'a) \<Rightarrow> 'a svc" where
  "lift res f r = (case r of Inl e \<Rightarrow> fail_with (Some res) (f e) | Inr x \<Rightarrow> ret x)"

definition reject :: "CDCApplyResult \<Rightarrow> string \<Rightarrow> 'a svc" where
  "reject res m = fail_with (Some res) (text_error m)"

text \<open>What the handlers of one event share: the task, the direction, the conflict mode, the
  connector and the mapped table with its keys.\<close>

record Mapped =
  mp_Name :: string
  mp_Table :: MigrationTable
  mp_SourceCols :: "ColumnInfo list"
  mp_TargetCols :: "ColumnInfo list"
  mp_SourcePKs :: "string list"
  mp_TargetPKs :: "string list"

definition keys_or :: "string list \<Rightarrow> string \<Rightarrow> string list" where
  "keys_or pks pk = (if pks = [] \<and> pk \<noteq> [] then [pk] else pks)"

definition map_event ::
  "CDCApplyResult \<Rightarrow> (string, MigrationTable) gomap \<Rightarrow> string \<Rightarrow> nat \<Rightarrow> CDCEvent \<Rightarrow> Mapped svc" where
  "map_event res byName dfltSchema index ev =
     (let schema = (if ev_SourceSchema ev = [] then dfltSchema else ev_SourceSchema ev);
          name = objectName schema (ev_SourceTable ev) in
      case map_of byName name of
        None \<Rightarrow> reject res (''CDC event '' @ nat_str index @ '' references unmapped table '' @ name)
      | Some table \<Rightarrow>
          let sourceCols = tbl_Columns table;
              targetCols = (if tbl_TargetColumns table = [] then sourceCols else tbl_TargetColumns table);
              sourcePKs = keys_or (tbl_PrimaryKeys table) (tbl_PrimaryKey table);
              targetPKs = keys_or (tbl_TargetPrimaryKeys table) (tbl_TargetPrimaryKey table);
              targetPKs = (if targetPKs = [] then sourcePKs else targetPKs) in
          if length sourceCols \<noteq> length targetCols
          then reject res (''CDC table mapping '' @ name @ '' has '' @ nat_str (length sourceCols)
                 @ '' source columns but '' @ nat_str (length targetCols) @ '' target columns'')
          else if length sourcePKs \<noteq> length targetPKs
          then reject res (''CDC primary-key mapping '' @ name @ '' has '' @ nat_str (length sourcePKs)
                 @ '' source keys but '' @ nat_str (length targetPKs) @ '' target keys'')
          else ret \<lparr>mp_Name = name, mp_Table = table, mp_SourceCols = sourceCols,
                    mp_TargetCols = targetCols, mp_SourcePKs = sourcePKs, mp_TargetPKs = targetPKs\<rparr>)"

definition target_name :: "Mapped \<Rightarrow> string" where
  "target_name M = objectName (tbl_TargetSchema (mp_Table M)) (tbl_TargetTable (mp_Table M))"

fun after_row ::
  "CDCOperation \<Rightarrow> string \<Rightarrow> (string, CDCField) gomap \<Rightarrow> ColumnInfo list \<Rightarrow> svc_error + Value list" where
  "after_row op name after [] = Inr []"
| "after_row op name after (c # cs) =
     (case map_of after (col_Name c) of
        None \<Rightarrow> Inl (text_error (''CDC '' @ CDCOperation_string op @ '' event for '' @ name
                  @ '' is missing after-image column '' @ col_Name c
                  @ ''; DTS native apply requires full row images''))
      | Some f \<Rightarrow>
          (case decodeCDCValue f of
             Inl e \<Rightarrow> Inl e
           | Inr v \<Rightarrow> (case after_row op name after cs of Inl e \<Rightarrow> Inl e | Inr vs \<Rightarrow> Inr (v # vs))))"

text \<open>The decision of LAST_WRITE_WINS: whether the source's row is applied, and the record.\<close>

definition resolve_conflict ::
  "string \<Rightarrow> string \<Rightarrow> MigrationTask \<Rightarrow> string \<Rightarrow> Target \<Rightarrow> Mapped \<Rightarrow> CDCEvent \<Rightarrow>
   Value list \<Rightarrow> ColumnInfo list \<Rightarrow> CDCApplyResult \<Rightarrow> (bool \<times> CDCConflictRecord list) svc" where
  "resolve_conflict tid direction task mode T M ev newKeys keyCols res =
     (if mode \<noteq> ''LAST_WRITE_WINS'' then ret (True, [])
      else if mp_SourcePKs M = []
      then reject res (''LAST_WRITE_WINS for '' @ mp_Name M @ '' requires a primary key'')
      else
      bnd (lift res (Wrapped (''LAST_WRITE_WINS for '' @ mp_Name M @ '': ''))
             (conflictColumns task direction (mp_SourceCols M) (mp_TargetCols M))) (\<lambda>(sourceCol, targetCol).
      case map_of (cdcFieldMap (ev_After ev)) (col_Name sourceCol) of
        None \<Rightarrow> reject res (''LAST_WRITE_WINS event for '' @ mp_Name M @ '' is missing conflict column ''
                  @ col_Name sourceCol @ '' in after image'')
      | Some f \<Rightarrow>
      bnd (lift res (\<lambda>e. e) (decodeCDCValue f)) (\<lambda>v.
      if v_Null v
      then reject res (''LAST_WRITE_WINS conflict column '' @ col_Name sourceCol @ '' cannot be NULL'')
      else
      bnd (look_up T \<lparr>rk_Schema = tbl_TargetSchema (mp_Table M), rk_Table = tbl_TargetTable (mp_Table M),
            rk_PrimaryKeys = mp_TargetPKs M, rk_KeyColumns = keyCols, rk_KeyValues = newKeys,
            rk_Columns = [targetCol]\<rparr>) (\<lambda>r.
      case r of
        Inl e \<Rightarrow> fail_with (Some res)
          (Wrapped (''LAST_WRITE_WINS lookup '' @ target_name M @ '': '') (text_error e))
      | Inr (Some [cur]) \<Rightarrow>
          if v_Null cur then ret (True, [])
          else bnd clock (\<lambda>now. bnd (env (\<lambda>E. compareConflictVersions (sv_parse_time E)
                 (sv_parse_rat E) (v_Raw v) (v_Raw cur))) (\<lambda>c.
            let applied = (c > 0) in
            ret (applied, [makeConflictRecord tid direction ev newKeys mode
              (if applied then CDCConflictSourceApplied else CDCConflictTargetKept)
              (v_Raw v) (v_Raw cur) now])))
      | Inr _ \<Rightarrow> ret (True, [])))))"

definition delete_request :: "Mapped \<Rightarrow> ColumnInfo list \<Rightarrow> Value list \<Rightarrow> DeleteByKeyRequest" where
  "delete_request M cols vals =
     (let one = (length (mp_TargetPKs M) = 1) in
      \<lparr>db_Schema = tbl_TargetSchema (mp_Table M), db_Table = tbl_TargetTable (mp_Table M),
       db_PrimaryKey = (if one then hd (mp_TargetPKs M) else []),
       db_Column = (if one then hd cols else \<lparr>col_Name = [], col_DataType = [], col_ColumnType = [],
         col_Nullable = False, col_Extra = [], col_Ordinal = 0, col_PrimaryKey = False\<rparr>),
       db_Value = (if one then hd vals else \<lparr>v_Null = False, v_Raw = []\<rparr>),
       db_PrimaryKeys = mp_TargetPKs M, db_Columns = cols, db_Values = vals\<rparr>)"

text \<open>An update that moves a row deletes the row under its old key first.\<close>

definition delete_old_key ::
  "Target \<Rightarrow> Mapped \<Rightarrow> CDCEvent \<Rightarrow> Value list \<Rightarrow> CDCApplyResult \<Rightarrow> unit svc" where
  "delete_old_key T M ev newKeys res =
     (let before = cdcFieldMap (ev_Before ev) in
      if ev_Operation ev = CDCUpdate \<and> mp_SourcePKs M \<noteq> []
         \<and> list_all (\<lambda>k. map_of before k \<noteq> None) (mp_SourcePKs M) then
        bnd (lift res (Wrapped (''CDC UPDATE old primary key for '' @ mp_Name M @ '': ''))
               (cdcKeyValues before (mp_SourcePKs M) (mp_TargetPKs M) (mp_TargetCols M))) (\<lambda>(oldKeys, oldCols).
        if valuesEqual oldKeys newKeys then ret ()
        else ok_call (Some res) (''delete old primary key before CDC UPDATE on '' @ target_name M @ '': '')
               T (DeleteByKey (delete_request M oldCols oldKeys)))
      else ret ())"

text \<open>The result says whether the event was applied, and the conflict decisions.\<close>

definition apply_upsert ::
  "string \<Rightarrow> string \<Rightarrow> MigrationTask \<Rightarrow> string \<Rightarrow> Target \<Rightarrow> Mapped \<Rightarrow> CDCEvent \<Rightarrow> CDCApplyResult \<Rightarrow>
   (bool \<times> CDCConflictRecord list) svc" where
  "apply_upsert tid direction task mode T M ev res =
     (let after = cdcFieldMap (ev_After ev); op = ev_Operation ev in
      bnd (lift res (\<lambda>e. e) (after_row op (mp_Name M) after (mp_SourceCols M))) (\<lambda>row.
      bnd (if mp_SourcePKs M = [] then ret ([], [])
           else lift res (Wrapped (''CDC '' @ CDCOperation_string op @ '' primary key for '' @ mp_Name M @ '': ''))
             (cdcKeyValues after (mp_SourcePKs M) (mp_TargetPKs M) (mp_TargetCols M))) (\<lambda>(newKeys, keyCols).
      bnd (resolve_conflict tid direction task mode T M ev newKeys keyCols res) (\<lambda>(applied, conflicts).
      if \<not> applied then ret (False, conflicts)
      else
      bnd (delete_old_key T M ev newKeys res) (\<lambda>_.
      bnd (ok_call (Some res) (''apply CDC '' @ CDCOperation_string op @ '' to '' @ target_name M @ '': '') T
        (WriteBatch \<lparr>wb_Schema = tbl_TargetSchema (mp_Table M), wb_Table = tbl_TargetTable (mp_Table M),
           wb_Columns = mp_TargetCols M, wb_Rows = [row],
           wb_PrimaryKey = (case mp_TargetPKs M of [] \<Rightarrow> [] | k # _ \<Rightarrow> k),
           wb_PrimaryKeys = mp_TargetPKs M\<rparr>)) (\<lambda>_.
      ret (True, conflicts)))))))"

fun delete_keys ::
  "string \<Rightarrow> (string, CDCField) gomap \<Rightarrow> (string, CDCField) gomap \<Rightarrow> ColumnInfo list \<Rightarrow>
   string list \<Rightarrow> string list \<Rightarrow> svc_error + (Value list \<times> ColumnInfo list)" where
  "delete_keys name before after targetCols (s # ss) (t # ts) =
     (case (case map_of before s of Some f \<Rightarrow> Some f | None \<Rightarrow> map_of after s) of
        None \<Rightarrow> Inl (text_error (''CDC DELETE for '' @ name @ '' is missing primary key field '' @ s))
      | Some f \<Rightarrow>
          (case decodeCDCValue f of
             Inl e \<Rightarrow> Inl e
           | Inr v \<Rightarrow>
               (case find (\<lambda>c. equal_fold (col_Name c) t) targetCols of
                  None \<Rightarrow> Inl (text_error (''target primary key '' @ t @ '' is not present in mapped columns''))
                | Some c \<Rightarrow>
                    (case delete_keys name before after targetCols ss ts of
                       Inl e \<Rightarrow> Inl e
                     | Inr (vs, cs) \<Rightarrow> Inr (v # vs, c # cs)))))"
| "delete_keys name before after targetCols _ _ = Inr ([], [])"

definition apply_delete :: "Target \<Rightarrow> Mapped \<Rightarrow> CDCEvent \<Rightarrow> CDCApplyResult \<Rightarrow> unit svc" where
  "apply_delete T M ev res =
     (if mp_SourcePKs M = []
      then reject res (''CDC DELETE for '' @ mp_Name M @ '' requires a mapped primary key'')
      else bnd (lift res (\<lambda>e. e) (delete_keys (mp_Name M) (cdcFieldMap (ev_Before ev))
             (cdcFieldMap (ev_After ev)) (mp_TargetCols M) (mp_SourcePKs M) (mp_TargetPKs M))) (\<lambda>(vals, cols).
        ok_call (Some res) (''apply CDC DELETE to '' @ target_name M @ '': '') T
          (DeleteByKey (delete_request M cols vals))))"

definition apply_truncate ::
  "DataSource \<Rightarrow> Target \<Rightarrow> Mapped \<Rightarrow> bool \<Rightarrow> CDCApplyResult \<Rightarrow> unit svc" where
  "apply_truncate targetDS T M final res =
     (if \<not> tg_transactional T
      then reject res (''CDC TRUNCATE for '' @ target_name M @ '' requires transactional target apply'')
      else if \<not> tg_truncate T
      then reject res (''target connector '' @ DataSourceType_string (ds_Type targetDS)
             @ '' does not support transactional CDC TRUNCATE'')
      else bnd (ok_call (Some res) (''apply CDC TRUNCATE to '' @ target_name M @ '': '') T
             (TruncateTable (tbl_TargetSchema (mp_Table M)) (tbl_TargetTable (mp_Table M)))) (\<lambda>_.
        if final then ret ()
        else reject res (''CDC TRUNCATE for '' @ mp_Name M
               @ '' must be the final event in its source transaction'')))"

text \<open>The loop over the events, with the result and the pending conflicts so far.\<close>

type_synonym apply_ctx = "string \<times> string \<times> MigrationTask \<times> string \<times> DataSource \<times> Target"

definition apply_event ::
  "apply_ctx \<Rightarrow> (string, MigrationTable) gomap \<Rightarrow> string \<Rightarrow> nat \<Rightarrow> bool \<Rightarrow> CDCEvent \<Rightarrow>
   CDCApplyResult \<times> CDCConflictRecord list \<Rightarrow> (CDCApplyResult \<times> CDCConflictRecord list) svc" where
  "apply_event = (\<lambda>(tid, direction, task, mode, targetDS, T) byName dfltSchema index final ev (res, pend).
     bnd (map_event res byName dfltSchema index ev) (\<lambda>M.
     let counted = (\<lambda>_. ret (res\<lparr>res_Applied := res_Applied res + 1, res_LastEventID := ev_ID ev\<rparr>, pend)) in
     case ev_Operation ev of
       CDCDelete \<Rightarrow> bnd (apply_delete T M ev res) counted
     | CDCTruncate \<Rightarrow> bnd (apply_truncate targetDS T M final res) counted
     | op \<Rightarrow>
         if op \<noteq> CDCInsert \<and> op \<noteq> CDCUpdate
         then reject res (''unsupported CDC operation '' @ go_quote (CDCOperation_string op))
         else bnd (apply_upsert tid direction task mode T M ev res) (\<lambda>(applied, conflicts).
           ret (if applied
                then res\<lparr>res_Applied := res_Applied res + 1, res_LastEventID := ev_ID ev\<rparr>
                else res\<lparr>res_SkippedConflicts := res_SkippedConflicts res + 1, res_LastEventID := ev_ID ev\<rparr>,
                pend @ conflicts))))"

fun apply_events ::
  "apply_ctx \<Rightarrow> (string, MigrationTable) gomap \<Rightarrow> string \<Rightarrow> nat \<Rightarrow> CDCEvent list \<Rightarrow>
   CDCApplyResult \<times> CDCConflictRecord list \<Rightarrow> (CDCApplyResult \<times> CDCConflictRecord list) svc" where
  "apply_events c byName dfltSchema index [] st = ret st"
| "apply_events c byName dfltSchema index (ev # evs) st =
     bnd (apply_event c byName dfltSchema index (evs = []) ev st)
       (apply_events c byName dfltSchema (Suc index) evs)"

section \<open>Schema changes\<close>

fun renamed_column :: "ColumnInfo list \<Rightarrow> ColumnInfo list \<Rightarrow> (string \<times> string) option" where
  "renamed_column (c # cs) (d # ds) =
     (if equal_fold (col_Name c) (col_Name d) then renamed_column cs ds
      else Some (col_Name c, col_Name d))"
| "renamed_column _ _ = None"

definition ddl_unsafe :: "string \<Rightarrow> MigrationTable \<Rightarrow> svc_error option" where
  "ddl_unsafe direction table0 =
     (let table = (if direction = ''reverse'' then reverseMigrationTable table0 else table0);
          source = objectName (tbl_SourceSchema table) (tbl_SourceTable table);
          targetCols = (if tbl_TargetColumns table = [] then tbl_Columns table else tbl_TargetColumns table) in
      if \<not> equal_fold (tbl_SourceSchema table) (tbl_TargetSchema table)
         \<or> \<not> equal_fold (tbl_SourceTable table) (tbl_TargetTable table)
      then Some (text_error (''CDC DDL same-family replay requires identity schema/table mapping; ''
             @ source @ '' maps to '' @ objectName (tbl_TargetSchema table) (tbl_TargetTable table)))
      else if length (tbl_Columns table) \<noteq> length targetCols
      then Some (text_error (''CDC DDL replay requires identity columns for '' @ source))
      else case renamed_column (tbl_Columns table) targetCols of
          None \<Rightarrow> None
        | Some (a, b) \<Rightarrow> Some (text_error (''CDC DDL replay does not support column rename ''
             @ source @ ''.'' @ a @ '' -> '' @ b)))"

fun first_some :: "('a \<Rightarrow> 'b option) \<Rightarrow> 'a list \<Rightarrow> 'b option" where
  "first_some f [] = None"
| "first_some f (x # xs) = (case f x of Some y \<Rightarrow> Some y | None \<Rightarrow> first_some f xs)"

definition cdcDDLIdentitySafe :: "MigrationTable list \<Rightarrow> string \<Rightarrow> svc_error option" where
  "cdcDDLIdentitySafe tables direction =
     (if tables = [] then Some (text_error ''CDC DDL replay requires planned migration tables'')
      else first_some (ddl_unsafe direction) tables)"

definition same_family :: "DataSourceType \<Rightarrow> DataSourceType \<Rightarrow> bool" where
  "same_family s t \<longleftrightarrow> IsMySQLFamily s \<and> IsMySQLFamily t
     \<or> IsPostgreSQLFamily s \<and> IsPostgreSQLFamily t
     \<or> s = DataSourceOracle \<and> t = DataSourceOracle \<or> s = DataSourceGaussDB \<and> t = DataSourceGaussDB"

fun apply_ddls :: "Target \<Rightarrow> string \<Rightarrow> nat \<Rightarrow> CDCEvent list \<Rightarrow> CDCApplyResult \<Rightarrow> CDCApplyResult svc" where
  "apply_ddls T dfltSchema index [] res = ret res"
| "apply_ddls T dfltSchema index (ev # evs) res =
     (if trim_space (ev_SQL ev) = []
      then reject res (''CDC DDL event '' @ nat_str index @ '' has empty SQL'')
      else let schema = (if ev_SourceSchema ev = [] then dfltSchema else ev_SourceSchema ev) in
        bnd (ok_call (Some res) (''apply CDC DDL in schema '' @ schema @ '': '') T
               (ExecDDL schema (ev_SQL ev))) (\<lambda>_.
        apply_ddls T dfltSchema (Suc index) evs
          (res\<lparr>res_Applied := res_Applied res + 1, res_LastEventID := ev_ID ev\<rparr>)))"

text \<open>A request that contains schema changes.\<close>

definition apply_ddl_request ::
  "string \<Rightarrow> string \<Rightarrow> MigrationTask \<Rightarrow> DataSource \<Rightarrow> DataSource \<Rightarrow> Target \<Rightarrow> CDCEvent list \<Rightarrow>
   CDCApplyResult svc" where
  "apply_ddl_request tid direction task sourceDS targetDS T evs =
     (if \<not> list_all (\<lambda>e. ev_Operation e = CDCDDL) evs
      then fail (text_error ''CDC DDL and row events cannot be applied in the same target transaction'')
      else if to_upper (trim_space (mig_CDCDDLMode task)) \<noteq> ''SAME_FAMILY''
      then fail (text_error ''CDC DDL replay is disabled; set cdc_ddl_mode=SAME_FAMILY only after validating same-family identity mappings'')
      else if \<not> same_family (ds_Type sourceDS) (ds_Type targetDS)
      then fail (text_error (''CDC DDL SAME_FAMILY cannot replay '' @ DataSourceType_string (ds_Type sourceDS)
             @ '' DDL on '' @ DataSourceType_string (ds_Type targetDS)))
      else
      bnd (query (ListMigrationTables tid)) (\<lambda>tables.
      case cdcDDLIdentitySafe tables direction of
        Some e \<Rightarrow> fail e
      | None \<Rightarrow>
          if \<not> tg_ddl T
          then fail (text_error (''target connector '' @ DataSourceType_string (ds_Type targetDS)
                 @ '' does not support CDC DDL apply''))
          else bnd (apply_ddls T (defaultSchema sourceDS) 0 evs zero_CDCApplyResult) (\<lambda>res.
            persistCDCApplyResult tid direction sourceDS res (last evs))))"

section \<open>Applying a transaction\<close>

text \<open>The deferred rollback of an open target transaction.\<close>

definition rollback_on_error :: "Target \<Rightarrow> 'a svc \<Rightarrow> 'a svc" where
  "rollback_on_error T m =
     bnd (attempt m) (\<lambda>r. case r of
       Inr x \<Rightarrow> ret x
     | Inl (res, e) \<Rightarrow>
         if tg_transactional T
         then bnd (call_target T RollbackCDCTransaction) (\<lambda>_. fail_with res e)
         else fail_with res e)"

definition mapping_by_name :: "string \<Rightarrow> MigrationTable list \<Rightarrow> (string, MigrationTable) gomap" where
  "mapping_by_name direction tables =
     fold (\<lambda>t. let t = (if direction = ''reverse'' then reverseMigrationTable t else t)
               in AList.update (objectName (tbl_SourceSchema t) (tbl_SourceTable t)) t) tables []"

fun create_conflicts :: "CDCApplyResult \<Rightarrow> CDCConflictRecord list \<Rightarrow> unit svc" where
  "create_conflicts res [] = ret ()"
| "create_conflicts res (c # cs) =
     bnd (ok_or (Some res) (Wrapped ''persist CDC conflict decision after target commit: '')
            (write_repo (\<lambda>io. CreateCDCConflict io c))) (\<lambda>_.
     create_conflicts res cs)"

text \<open>The events and the fence, under the deferred rollback.\<close>

definition apply_and_fence ::
  "apply_ctx \<Rightarrow> DataSource \<Rightarrow> CDCEvent list \<Rightarrow>
   ((CDCApplyResult \<times> CDCConflictRecord list) \<times> cdcCommitFence option) svc" where
  "apply_and_fence = (\<lambda>(tid, direction, task, mode, targetDS, T) sourceDS evs.
     bnd (query (ListMigrationTables tid)) (\<lambda>tables.
     bnd (apply_events (tid, direction, task, mode, targetDS, T) (mapping_by_name direction tables)
            (defaultSchema sourceDS) 0 evs (zero_CDCApplyResult, [])) (\<lambda>(res, pend).
     if \<not> tg_transactional T then ret ((res, pend), None)
     else bnd (attempt (beginCDCCommitFence tid direction evs)) (\<lambda>r. case r of
         Inl (_, e) \<Rightarrow> fail_with (Some res) (Wrapped ''persist pre-COMMIT CDC ambiguity fence: '' e)
       | Inr f \<Rightarrow> ret ((res, pend), Some f)))))"

text \<open>After the commit: conflict decisions, checkpoint, end of the fence.\<close>

definition finish_apply ::
  "string \<Rightarrow> string \<Rightarrow> DataSource \<Rightarrow> CDCEvent \<Rightarrow> CDCApplyResult \<Rightarrow> CDCConflictRecord list \<Rightarrow>
   cdcCommitFence option \<Rightarrow> CDCApplyResult svc" where
  "finish_apply tid direction sourceDS ev res pend fence =
     bnd (create_conflicts res pend) (\<lambda>_.
     bnd (attempt (persistCDCApplyResult tid direction sourceDS res ev)) (\<lambda>r.
     case r of
       Inl (res', e) \<Rightarrow>
         if fence \<noteq> None \<and> ev_PositionValue ev \<noteq> []
            \<and> map_option res_PositionValue res' = Some (ev_PositionValue ev)
         then bnd (attempt (completeCDCCommitFence fence)) (\<lambda>c. case c of
             Inr _ \<Rightarrow> fail_with res' e
           | Inl (_, e') \<Rightarrow> fail_with res' (Wrapped (error_text e
               @ ''; additionally complete durable CDC commit fence: '') e'))
         else fail_with res' e
     | Inr res' \<Rightarrow>
         bnd (attempt (completeCDCCommitFence fence)) (\<lambda>c. case c of
             Inr _ \<Rightarrow> ret res'
           | Inl (_, e') \<Rightarrow> fail_with (Some res')
               (Wrapped ''complete durable CDC commit fence: '' e'))))"

definition apply_row_request ::
  "string \<Rightarrow> string \<Rightarrow> MigrationTask \<Rightarrow> DataSource \<Rightarrow> DataSource \<Rightarrow> Target \<Rightarrow> CDCEvent list \<Rightarrow>
   CDCApplyResult svc" where
  "apply_row_request tid direction task sourceDS targetDS T evs =
     (let m = to_upper (trim_space (mig_CDCConflictMode task));
          mode = (if m = [] then ''SOURCE_WINS'' else m) in
      if \<not> tg_apply T
      then fail (text_error (''target connector '' @ DataSourceType_string (ds_Type targetDS)
             @ '' does not support native CDC apply''))
      else if mode = ''LAST_WRITE_WINS'' \<and> \<not> tg_lookup T
      then fail (text_error (''target connector '' @ DataSourceType_string (ds_Type targetDS)
             @ '' does not support LAST_WRITE_WINS point lookup''))
      else
      bnd (if tg_transactional T
           then ok_call None ''begin target CDC transaction: '' T BeginCDCTransaction else ret ()) (\<lambda>_.
      bnd (rollback_on_error T
             (apply_and_fence (tid, direction, task, mode, targetDS, T) sourceDS evs)) (\<lambda>((res, pend), fence).
      bnd (if tg_transactional T
           then bnd (call_target T CommitCDCTransaction) (\<lambda>x. case x of
               None \<Rightarrow> ret ()
             | Some e \<Rightarrow> fail_with (Some res)
                 (CommitUnknown (Wrapped ''commit target CDC transaction: '' (text_error e))))
           else ret ()) (\<lambda>_.
      finish_apply tid direction sourceDS (last evs) res pend fence))))"

text \<open>The newest checkpoint of the direction is the position of the last event.\<close>

definition checkpointed :: "string \<Rightarrow> string \<Rightarrow> CDCEvent \<Rightarrow> Store \<Rightarrow> bool" where
  "checkpointed tid direction ev s =
     (case find (\<lambda>p. pos_Direction p = direction) (ListCDCPositions tid 50 s) of
        None \<Rightarrow> False
      | Some p \<Rightarrow> equal_fold (pos_PositionType p) (ev_PositionType ev)
                  \<and> pos_PositionValue p = ev_PositionValue ev)"

definition duplicate_result :: "string \<Rightarrow> string \<Rightarrow> CDCEvent \<Rightarrow> Store \<Rightarrow> CDCApplyResult" where
  "duplicate_result tid direction ev s =
     zero_CDCApplyResult\<lparr>res_LastEventID := ev_ID ev,
       res_PositionType := (case find (\<lambda>p. pos_Direction p = direction) (ListCDCPositions tid 50 s) of
          None \<Rightarrow> [] | Some p \<Rightarrow> pos_PositionType p),
       res_PositionValue := ev_PositionValue ev, res_Duplicate := True\<rparr>"

text \<open>\<open>bypass\<close> is the dead letter an operator replays, empty otherwise.\<close>

definition ApplyCDCEvents :: "string \<Rightarrow> string \<Rightarrow> CDCApplyRequest \<Rightarrow> CDCApplyResult svc" where
  "ApplyCDCEvents bypass tid req =
     bnd (fetch (GetMigration tid)) (\<lambda>task.
     let d = to_lower (trim_space (ar_Direction req));
         direction = (if d = [] then ''forward'' else d);
         evs = ar_Events req; status = mig_Status task in
     if direction \<noteq> ''forward'' \<and> direction \<noteq> ''reverse''
     then fail (text_error (''invalid CDC direction '' @ go_quote direction))
     else if evs = [] then fail (text_error ''CDC event batch is empty'')
     else if ev_PositionValue (last evs) = []
     then fail (text_error ''final CDC event must include a durable source position before any rows can be applied'')
     else if direction = ''forward'' \<and> status \<noteq> StatusCDCCatchingUp \<and> status \<noteq> StatusReadyCutover
     then fail (text_error (''forward CDC apply is unsafe from '' @ MigrationStatus_string status
            @ ''; events must be buffered until full load is complete''))
     else if direction = ''reverse'' \<and> status \<noteq> StatusRollbackSyncing \<and> status \<noteq> StatusRollbackReady
     then fail (text_error (''reverse CDC apply is unsafe from '' @ MigrationStatus_string status))
     else
     bnd (query (checkpointed tid direction (last evs))) (\<lambda>dup.
     if dup then
       bnd (query (duplicate_result tid direction (last evs))) (\<lambda>res.
       bnd (attempt (cleanupTransientCDCCommitFence tid direction (last evs))) (\<lambda>r. case r of
           Inl (_, e) \<Rightarrow> fail (Wrapped ''cleanup checkpointed CDC commit fence: '' e)
         | Inr _ \<Rightarrow> ret res))
     else
     bnd (query (unresolvedCommitRecovery tid direction)) (\<lambda>rec.
     case (case rec of
             Some v \<Rightarrow> if dl_Status v = CDCDeadLetterReplayRequired \<and> bypass = dl_ID v then None else Some v
           | None \<Rightarrow> None) of
       Some v \<Rightarrow> fail (BlockedBy (dl_ID v) (dl_PositionType v) (dl_PositionValue v) (dl_Status v))
     | None \<Rightarrow>
     bnd (fetch (GetDataSource (mig_SourceID task))) (\<lambda>sds.
     bnd (fetch (GetDataSource (mig_TargetID task))) (\<lambda>tds.
     let sourceDS = (if direction = ''reverse'' then tds else sds);
         targetDS = (if direction = ''reverse'' then sds else tds) in
     if list_all (\<lambda>e. ev_Operation e = CDCCheckpoint) evs
     then persistCDCApplyResult tid direction sourceDS
            (zero_CDCApplyResult\<lparr>res_LastEventID := ev_ID (last evs)\<rparr>) (last evs)
     else
     bnd (env (\<lambda>E. sv_require E ''cdc-apply'' (ds_Type targetDS))) (\<lambda>missing.
     case missing of
       Some e \<Rightarrow> fail (Wrapped (''CDC target '' @ DataSourceType_string (ds_Type targetDS) @ '': '') (text_error e))
     | None \<Rightarrow>
     bnd (env (\<lambda>E. sv_connect E targetDS)) (\<lambda>conn.
     case conn of
       Inl e \<Rightarrow> fail (text_error e)
     | Inr T \<Rightarrow>
         deferred
           (if list_ex (\<lambda>e. ev_Operation e = CDCDDL) evs
            then apply_ddl_request tid direction task sourceDS targetDS T evs
            else apply_row_request tid direction task sourceDS targetDS T evs)
           (ignore (call_target T CloseTarget)))))))))"

end
