(* ===== verification/ServiceLogic.thy ===== *)
theory ServiceLogic
  imports ServiceCore
begin

text \<open>
  Reasoning about the operations of the service. \<open>spec P m Q F C\<close>: started in a world with \<open>P\<close>,
  the operation \<open>m\<close> ends with \<open>Q\<close> of its value, with \<open>F\<close> of its error, or dies in a world
  with \<open>C\<close>, for every environment. The rules follow the structure of operations.

  \<open>kept B n\<close> is the shape of the invariants: \<open>B\<close> holds of the checkpoints and dead letters in
  memory, it would hold after a restart from the state file as it is now (the store has one), and
  the target has seen exactly \<open>n\<close> COMMITs.
\<close>

section \<open>Triples\<close>

definition spec ::
  "(World \<Rightarrow> bool) \<Rightarrow> 'a svc \<Rightarrow> ('a \<Rightarrow> World \<Rightarrow> bool) \<Rightarrow>
   (CDCApplyResult option \<Rightarrow> svc_error \<Rightarrow> World \<Rightarrow> bool) \<Rightarrow> (World \<Rightarrow> bool) \<Rightarrow> bool" where
  "spec P m Q F C \<longleftrightarrow> (\<forall>E w. P w \<longrightarrow>
     (case m E w of (w', Done x) \<Rightarrow> Q x w' | (w', Failed r e) \<Rightarrow> F r e w' | (w', Crashed) \<Rightarrow> C w'))"

text \<open>An operation that keeps \<open>I\<close> whatever happens.\<close>

abbreviation keeps :: "(World \<Rightarrow> bool) \<Rightarrow> 'a svc \<Rightarrow> bool" where
  "keeps I m \<equiv> spec I m (\<lambda>_. I) (\<lambda>_ _. I) I"

named_theorems svc_rule \<open>rules for operations of the service\<close>

lemma specI:
  "(\<And>E w w' x. P w \<Longrightarrow> m E w = (w', Done x) \<Longrightarrow> Q x w') \<Longrightarrow>
   (\<And>E w w' r e. P w \<Longrightarrow> m E w = (w', Failed r e) \<Longrightarrow> F r e w') \<Longrightarrow>
   (\<And>E w w'. P w \<Longrightarrow> m E w = (w', Crashed) \<Longrightarrow> C w') \<Longrightarrow> spec P m Q F C"
  unfolding spec_def by (auto split: prod.splits outcome.splits)

lemma spec_Done: "spec P m Q F C \<Longrightarrow> P w \<Longrightarrow> m E w = (w', Done x) \<Longrightarrow> Q x w'"
  unfolding spec_def by (drule spec [of _ E], drule spec [of _ w]) simp

lemma spec_Failed: "spec P m Q F C \<Longrightarrow> P w \<Longrightarrow> m E w = (w', Failed r e) \<Longrightarrow> F r e w'"
  unfolding spec_def by (drule spec [of _ E], drule spec [of _ w]) simp

lemma spec_Crashed: "spec P m Q F C \<Longrightarrow> P w \<Longrightarrow> m E w = (w', Crashed) \<Longrightarrow> C w'"
  unfolding spec_def by (drule spec [of _ E], drule spec [of _ w]) simp

lemma spec_weaken:
  assumes s: "spec P' m Q' F' C'" and P: "\<And>w. P w \<Longrightarrow> P' w" and "\<And>x w. Q' x w \<Longrightarrow> Q x w"
    "\<And>r e w. F' r e w \<Longrightarrow> F r e w" "\<And>w. C' w \<Longrightarrow> C w"
  shows "spec P m Q F C"
  by (rule specI) (erule assms(3) [OF spec_Done [OF s P]] assms(4) [OF spec_Failed [OF s P]]
    assms(5) [OF spec_Crashed [OF s P]], assumption)+

lemma spec_pre: "spec P' m Q F C \<Longrightarrow> (\<And>w. P w \<Longrightarrow> P' w) \<Longrightarrow> spec P m Q F C"
  by (rule spec_weaken)

lemma spec_bnd:
  assumes m: "spec P m R F C" and f: "\<And>x. spec (R x) (f x) Q F C"
  shows "spec P (bnd m f) Q F C"
proof (rule specI)
  fix E w w' x
  assume P: "P w" and b: "bnd m f E w = (w', Done x)"
  from b obtain v y where "m E w = (v, Done y)" "f y E v = (w', Done x)"
    by (auto simp: bnd_def split: prod.splits outcome.splits)
  then show "Q x w'" using spec_Done [OF f spec_Done [OF m P]] by blast
next
  fix E w w' r e
  assume P: "P w" and b: "bnd m f E w = (w', Failed r e)"
  from b consider "m E w = (w', Failed r e)" | v y where "m E w = (v, Done y)" "f y E v = (w', Failed r e)"
    by (auto simp: bnd_def split: prod.splits outcome.splits)
  then show "F r e w'"
    using spec_Failed [OF m P] spec_Failed [OF f spec_Done [OF m P]] by cases blast+
next
  fix E w w'
  assume P: "P w" and b: "bnd m f E w = (w', Crashed)"
  from b consider "m E w = (w', Crashed)" | v y where "m E w = (v, Done y)" "f y E v = (w', Crashed)"
    by (auto simp: bnd_def split: prod.splits outcome.splits)
  then show "C w'"
    using spec_Crashed [OF m P] spec_Crashed [OF f spec_Done [OF m P]] by cases blast+
qed

lemma keeps_bnd [svc_rule]: "keeps I m \<Longrightarrow> (\<And>x. keeps I (f x)) \<Longrightarrow> keeps I (bnd m f)"
  by (rule spec_bnd)

lemma spec_ret: "(\<And>w. P w \<Longrightarrow> Q x w) \<Longrightarrow> spec P (ret x) Q F C"
  by (simp add: spec_def ret_def)

lemma spec_fail: "(\<And>w. P w \<Longrightarrow> F r e w) \<Longrightarrow> spec P (fail_with r e) Q F C"
  by (simp add: spec_def fail_with_def)

lemma keeps_ret [svc_rule]: "keeps I (ret x)" and keeps_fail [svc_rule]: "keeps I (fail_with r e)"
  by (simp_all add: spec_ret spec_fail)

lemma spec_attempt:
  "spec P m (\<lambda>x. Q (Inr x)) (\<lambda>r e. Q (Inl (r, e))) C \<Longrightarrow> spec P (attempt m) Q F C"
  by (rule specI) (auto simp: attempt_def split: prod.splits outcome.splits
    dest: spec_Done spec_Failed spec_Crashed)

lemma keeps_attempt [svc_rule]: "keeps I m \<Longrightarrow> keeps I (attempt m)"
  by (rule spec_attempt)

lemma keeps_ignore [svc_rule]: "keeps I m \<Longrightarrow> keeps I (ignore m)"
  unfolding ignore_def by (intro svc_rule)

lemma keeps_ok_or [svc_rule]: "keeps I m \<Longrightarrow> keeps I (ok_or r f m)"
  unfolding ok_or_def by (intro keeps_bnd) (auto intro: svc_rule split: option.splits)

lemma keeps_deferred [svc_rule]: "keeps I m \<Longrightarrow> keeps I c \<Longrightarrow> keeps I (deferred m c)"
  by (rule specI) (auto simp: deferred_def split: prod.splits outcome.splits
    dest: spec_Done spec_Failed spec_Crashed)

lemma keeps_env [svc_rule]: "keeps I (env f)" and keeps_getenv [svc_rule]: "keeps I (getenv k)"
  and keeps_query [svc_rule]: "keeps I (query g)" and keeps_fetch [svc_rule]: "keeps I (fetch h)"
  by (auto simp: spec_def env_def getenv_def query_def fetch_def split: sum.splits)

lemma keeps_if [svc_rule]: "keeps I a \<Longrightarrow> keeps I b \<Longrightarrow> keeps I (if c then a else b)"
  by simp

lemma keeps_option [svc_rule]:
  "keeps I a \<Longrightarrow> (\<And>x. keeps I (f x)) \<Longrightarrow> keeps I (case v of None \<Rightarrow> a | Some x \<Rightarrow> f x)"
  by (cases v) simp_all

lemma keeps_sum [svc_rule]:
  "(\<And>x. keeps I (f x)) \<Longrightarrow> (\<And>x. keeps I (g x)) \<Longrightarrow> keeps I (case v of Inl x \<Rightarrow> f x | Inr x \<Rightarrow> g x)"
  by (cases v) simp_all

lemma keeps_prod [svc_rule]: "(\<And>a b. keeps I (f a b)) \<Longrightarrow> keeps I (case v of (a, b) \<Rightarrow> f a b)"
  by (cases v) simp

lemma keeps_let [svc_rule]: "(\<And>x. keeps I (f x)) \<Longrightarrow> keeps I (Let v f)"
  by simp

text \<open>Reading the store gives a fact about the store in memory.\<close>

lemma spec_query: "spec P (query f) (\<lambda>x w. P w \<and> x = f (w_store w)) F C"
  by (simp add: spec_def query_def)

section \<open>Stores in memory and on disk\<close>

text \<open>A write changes the store by \<open>upd\<close> and then writes the state file, or does nothing.\<close>

definition writes :: "(io \<Rightarrow> Store \<Rightarrow> Store \<times> go_error option) \<Rightarrow> (Store \<Rightarrow> Store) \<Rightarrow> bool" where
  "writes f upd \<longleftrightarrow> (\<forall>io s. (f io s = persistLocked io (upd s) \<or> fst (f io s) = s) \<and>
     st_disk (upd s) = st_disk s \<and> st_path (upd s) = st_path s)"

type_synonym about = "CDCPosition list \<Rightarrow> (string, CDCDeadLetter) gomap \<Rightarrow> bool"

abbreviation in_memory :: "about \<Rightarrow> Store \<Rightarrow> bool" where
  "in_memory B s \<equiv> B (st_cdcPositions s) (st_cdcDeadLetters s)"

fun in_file :: "about \<Rightarrow> file_content \<Rightarrow> bool" where
  "in_file B Missing = B [] []"
| "in_file B (Garbled e) = False"
| "in_file B (Snapshot sn) =
     B (sn_CDCPositions sn) (map (\<lambda>(i, p). (i, load_dead_letter p)) (sn_CDCDeadLetters sn))"

definition safe_store :: "about \<Rightarrow> Store \<Rightarrow> bool" where
  "safe_store B s \<longleftrightarrow> st_path s \<noteq> [] \<and> in_memory B s \<and> in_file B (dk_main (st_disk s))"

lemma snapshot_fields [simp]:
  "sn_CDCPositions (take_snapshot s) = st_cdcPositions s"
  "map (\<lambda>(i, p). (i, load_dead_letter p)) (sn_CDCDeadLetters (take_snapshot s)) = st_cdcDeadLetters s"
  by (simp_all add: take_snapshot_def)

lemma safe_store_persist:
  assumes "st_path s \<noteq> []" "in_memory B s" "in_file B (dk_main (st_disk s))"
  shows "safe_store B (fst (persistLocked io s))"
  using assms by (cases io) (auto simp: safe_store_def persistLocked_def)

lemma safe_store_persisted:
  assumes "persistLocked io s = (s', None)" "st_path s \<noteq> []" "in_memory B s"
  shows "safe_store B s'"
  using assms by (cases io) (auto simp: safe_store_def persistLocked_def split: if_splits)

text \<open>A restart reads the state file back.\<close>

lemma in_memory_restore:
  "in_memory B (restore sn (newStore p dk)) = in_file B (Snapshot sn)"
  by (simp add: restore_def or_keep_def newStore_def)

lemma restore_files:
  "st_disk (restore sn s) = st_disk s" "st_path (restore sn s) = st_path s"
  by (simp_all add: restore_def)

lemma safe_store_reload:
  assumes s: "safe_store B s" and l: "NewPersistent None (st_path s) (st_disk s) = Inr s'"
  shows "safe_store B s'"
proof -
  have onDisk: "in_file B (dk_main (st_disk s))" and path: "st_path s \<noteq> []"
    using s by (simp_all add: safe_store_def)
  show "safe_store B s'"
  proof (cases "dk_main (st_disk s)")
    case Missing
    with l path have "s' = newStore (st_path s) (st_disk s)" by (simp add: NewPersistent_def load_def)
    with onDisk Missing path show ?thesis by (simp add: safe_store_def newStore_def)
  next
    case (Snapshot sn)
    with l path have "s' = restore sn (newStore (st_path s) (st_disk s))"
      by (simp add: NewPersistent_def load_def)
    with onDisk Snapshot path show ?thesis
      by (simp add: safe_store_def in_memory_restore restore_files del: in_file.simps)
  next
    case (Garbled e)
    with onDisk show ?thesis by simp
  qed
qed

section \<open>Invariants about checkpoints, dead letters and COMMITs\<close>

definition commits :: "World \<Rightarrow> nat" where
  "commits w = count_list (w_calls w) CommitCDCTransaction"

definition kept :: "about \<Rightarrow> nat \<Rightarrow> World \<Rightarrow> bool" where
  "kept B n w \<longleftrightarrow> safe_store B (w_store w) \<and> commits w = n"

lemma keptD [dest]: "kept B n w \<Longrightarrow> safe_store B (w_store w)" "kept B n w \<Longrightarrow> commits w = n"
  by (simp_all add: kept_def)

lemma kept_tick [simp]: "kept B n (w\<lparr>w_tick := t\<rparr>) = kept B n w"
  by (simp add: kept_def commits_def)

lemma commits_tick [simp]: "commits (w\<lparr>w_tick := t\<rparr>) = commits w"
  and commits_store [simp]: "commits (w\<lparr>w_store := s\<rparr>) = commits w"
  and commits_pressure [simp]: "commits (w\<lparr>w_pressure := q\<rparr>) = commits w"
  by (simp_all add: commits_def)

lemma spec_clock: "(\<And>w t. P (w\<lparr>w_tick := t\<rparr>) = P w) \<Longrightarrow> spec P clock (\<lambda>_. P) F C"
  and spec_newID: "(\<And>w t. P (w\<lparr>w_tick := t\<rparr>) = P w) \<Longrightarrow> spec P (newID k) (\<lambda>_. P) F C"
  by (simp_all add: spec_def clock_def newID_def tick_def)

lemma keeps_clock [svc_rule]: "keeps (kept B n) clock"
  and keeps_newID [svc_rule]: "keeps (kept B n) (newID k)"
  and keeps_fault [svc_rule]: "keeps (kept B n) (checkpoint_fault name)"
  by (simp_all add: spec_clock spec_newID) (simp add: spec_def checkpoint_fault_def tick_def)

lemma keeps_look_up [svc_rule]: "keeps (kept B n) (look_up T q)"
  by (auto simp: spec_def look_up_def tick_def kept_def commits_def Let_def split: option.splits)

lemma keeps_call: "c \<noteq> CommitCDCTransaction \<Longrightarrow> keeps (kept B n) (call_target T c)"
  by (auto simp: spec_def call_target_def tick_def kept_def commits_def Let_def)

lemma keeps_calls [svc_rule]:
  "keeps (kept B n) (call_target T BeginCDCTransaction)"
  "keeps (kept B n) (call_target T RollbackCDCTransaction)"
  "keeps (kept B n) (call_target T (WriteBatch x))" "keeps (kept B n) (call_target T (DeleteByKey y))"
  "keeps (kept B n) (call_target T (TruncateTable a b))" "keeps (kept B n) (call_target T (ExecDDL a b))"
  "keeps (kept B n) (call_target T CloseTarget)"
  by (simp_all add: keeps_call)

lemma keeps_ok_call [svc_rule]:
  "keeps (kept B n) (call_target T c) \<Longrightarrow> keeps (kept B n) (ok_call r m T c)"
  unfolding ok_call_def by (intro svc_rule)

text \<open>One COMMIT is sent, whatever the target answers, unless the process died before.\<close>

lemma spec_commit:
  "spec (kept B n) (call_target T CommitCDCTransaction) (\<lambda>_. kept B (Suc n)) F (kept B n)"
  by (auto simp: spec_def call_target_def tick_def kept_def commits_def Let_def)

section \<open>Writes\<close>

text \<open>A write that keeps \<open>B\<close> in memory, where \<open>G\<close> is known of the store, keeps \<open>kept B\<close>.\<close>

lemma spec_write:
  assumes f: "writes f upd" and B: "\<And>s. G s \<Longrightarrow> in_memory B s \<Longrightarrow> in_memory B (upd s)"
  shows "spec (\<lambda>w. kept B n w \<and> G (w_store w)) (write_repo f) (\<lambda>_. kept B n) F (kept B n)"
proof -
  have "safe_store B (fst (f io s))" if "safe_store B s" "G s" for io s
  proof -
    from f have "st_disk (upd s) = st_disk s" "st_path (upd s) = st_path s" by (auto simp: writes_def)
    with that B have "safe_store B (fst (persistLocked io (upd s)))"
      by (intro safe_store_persist) (auto simp: safe_store_def)
    with f that(1) show ?thesis unfolding writes_def by metis
  qed
  then show ?thesis
    by (auto simp: spec_def write_repo_def tick_def kept_def case_prod_unfold Let_def)
qed

lemma keeps_write:
  "writes f upd \<Longrightarrow> (\<And>s. in_memory B s \<Longrightarrow> in_memory B (upd s)) \<Longrightarrow> keeps (kept B n) (write_repo f)"
  using spec_write [of f upd "\<lambda>_. True" B n "\<lambda>_ _. kept B n"] by simp

text \<open>A write that reports success has put the new store on disk.\<close>

lemma spec_write_done:
  assumes f: "\<And>io s s'. f io s = (s', None) \<Longrightarrow> f io s = persistLocked io (upd s)"
    and w: "writes f upd" and B: "\<And>s. in_memory B s \<Longrightarrow> in_memory B (upd s)"
    and B': "\<And>s. in_memory B s \<Longrightarrow> in_memory B' (upd s)"
  shows "spec (kept B n) (write_repo f) (\<lambda>r w. kept B n w \<and> (r = None \<longrightarrow> kept B' n w)) F (kept B n)"
proof (rule specI)
  have keep: "keeps (kept B n) (write_repo f)" using w B by (rule keeps_write)
  {
    fix E w w' r
    assume P: "kept B n w" and m: "write_repo f E w = (w', Done r)"
    have k: "kept B n w'" using spec_Done [OF keep P m] .
    moreover have "kept B' n w'" if "r = None"
    proof -
      from m that obtain s' where s': "f (sv_io E (w_tick w)) (w_store w) = (s', None)"
        "w' = w\<lparr>w_tick := Suc (w_tick w), w_store := s'\<rparr>"
        by (cases "f (sv_io E (w_tick w)) (w_store w)") (auto simp: write_repo_def tick_def split: if_splits)
      with f have "persistLocked (sv_io E (w_tick w)) (upd (w_store w)) = (s', None)" by metis
      then have "safe_store B' s'"
        using B' P w by (intro safe_store_persisted) (auto simp: kept_def safe_store_def writes_def)
      with k s' show ?thesis by (simp add: kept_def commits_def)
    qed
    ultimately show "kept B n w' \<and> (r = None \<longrightarrow> kept B' n w')" by blast
  next
    fix E w w' r e
    assume "write_repo f E w = (w', Failed r e)"
    then show "F r e w'" by (auto simp: write_repo_def tick_def case_prod_unfold Let_def split: if_splits)
  next
    fix E w w'
    assume "kept B n w" "write_repo f E w = (w', Crashed)"
    then show "kept B n w'" using keep spec_Crashed by metis
  }
qed

text \<open>Writes that touch neither checkpoints nor dead letters.\<close>

lemma writes_neutral:
  "writes (\<lambda>io. CreateTaskLog io l) (\<lambda>s. s\<lparr>st_taskLogs := keep_last 20000 (st_taskLogs s @ [l])\<rparr>)"
  "writes (\<lambda>io. CreateAlert io a) (\<lambda>s. s\<lparr>st_alerts := AList.update (al_ID a) a (st_alerts s)\<rparr>)"
  "writes (\<lambda>io. UpdateMigration io m) (\<lambda>s. s\<lparr>st_migrations := AList.update (mig_ID m) m (st_migrations s)\<rparr>)"
  "writes (\<lambda>io. CreateCDCConflict io c) (\<lambda>s. s\<lparr>st_cdcConflicts := keep_last 100000 (st_cdcConflicts s @ [c])\<rparr>)"
  by (auto simp: writes_def CreateTaskLog_def CreateAlert_def UpdateMigration_def CreateCDCConflict_def)

lemma keeps_neutral [svc_rule]:
  "keeps (kept B n) (write_repo (\<lambda>io. CreateTaskLog io l))"
  "keeps (kept B n) (write_repo (\<lambda>io. CreateAlert io a))"
  "keeps (kept B n) (write_repo (\<lambda>io. UpdateMigration io m))"
  "keeps (kept B n) (write_repo (\<lambda>io. CreateCDCConflict io c))"
  by (rule writes_neutral [THEN keeps_write]; simp)+

lemma keeps_envInt64 [svc_rule]: "keeps I (envInt64 k d)" and keeps_intEnv [svc_rule]: "keeps I (intEnv k d)"
  unfolding envInt64_def intEnv_def by (intro svc_rule)+

lemma keeps_logTask [svc_rule]: "keeps (kept B n) (logTask a b c d e f)"
  and keeps_alert [svc_rule]: "keeps (kept B n) (alert u v x y z)"
  unfolding logTask_def alert_def by (intro svc_rule)+

end
