(* ===== verification/CdcSafety.thy ===== *)
theory CdcSafety
  imports CdcApply ServiceLogic
begin

text \<open>
  A transactional target commits a source transaction at most once, whatever fails: the target
  may answer anything, any file operation may fail, the process may die before any call and
  restart from its state file, and the source may deliver the transaction again. The argument
  is an invariant: once COMMIT was sent, the newest checkpoint is the transaction's position or
  its fence is in the repository, in memory and on disk.
\<close>

section \<open>Predicates\<close>

definition few_streams :: "string \<Rightarrow> string \<Rightarrow> CDCPosition list \<Rightarrow> bool" where
  "few_streams tid direction ps \<longleftrightarrow>
     card (insert (tid @ CHR 0x00 # direction) (stream_key ` set ps)) < 50000"

definition named_letters :: "(string, CDCDeadLetter) gomap \<Rightarrow> bool" where
  "named_letters ds \<longleftrightarrow> list_all (\<lambda>(k, v). dl_ID v = k \<and> k \<noteq> []) ds"

definition newest_is :: "string \<Rightarrow> string \<Rightarrow> CDCEvent \<Rightarrow> CDCPosition list \<Rightarrow> bool" where
  "newest_is tid direction ev ps =
     (case find (\<lambda>p. pos_Direction p = direction) (newest_matching 50 (\<lambda>p. pos_TaskID p = tid) ps) of
        None \<Rightarrow> False
      | Some p \<Rightarrow> equal_fold (pos_PositionType p) (ev_PositionType ev)
                  \<and> pos_PositionValue p = ev_PositionValue ev)"

definition fenced :: "string \<Rightarrow> string \<Rightarrow> CDCEvent \<Rightarrow> (string, CDCDeadLetter) gomap \<Rightarrow> bool" where
  "fenced tid direction ev ds \<longleftrightarrow>
     (case map_of ds (cdcDeadLetterID tid direction ev) of
        None \<Rightarrow> False
      | Some v \<Rightarrow> dl_Status v = CDCDeadLetterCommitUncertain \<and> (tid = [] \<or> dl_TaskID v = tid)
                  \<and> equal_fold (dl_Direction v) direction)"

definition base :: "string \<Rightarrow> string \<Rightarrow> about" where
  "base tid direction ps ds \<longleftrightarrow> few_streams tid direction ps \<and> named_letters ds"

definition fence_up :: "string \<Rightarrow> string \<Rightarrow> CDCEvent \<Rightarrow> about" where
  "fence_up tid direction ev ps ds \<longleftrightarrow> base tid direction ps ds \<and> fenced tid direction ev ds"

definition both_up :: "string \<Rightarrow> string \<Rightarrow> CDCEvent \<Rightarrow> about" where
  "both_up tid direction ev ps ds \<longleftrightarrow>
     base tid direction ps ds \<and> fenced tid direction ev ds \<and> newest_is tid direction ev ps"

definition covered :: "string \<Rightarrow> string \<Rightarrow> CDCEvent \<Rightarrow> about" where
  "covered tid direction ev ps ds \<longleftrightarrow>
     base tid direction ps ds \<and> (newest_is tid direction ev ps \<or> fenced tid direction ev ds)"

lemmas about_defs = base_def fence_up_def both_up_def covered_def

lemma checkpointed_iff: "checkpointed tid direction ev s = newest_is tid direction ev (st_cdcPositions s)"
  by (simp add: checkpointed_def newest_is_def ListCDCPositions_def page_limit_def)

lemma safe_store_mono:
  "(\<And>ps ds. B ps ds \<Longrightarrow> B' ps ds) \<Longrightarrow> safe_store B s \<Longrightarrow> safe_store B' s"
  unfolding safe_store_def by (cases "dk_main (st_disk s)") auto

lemma kept_mono: "kept B n w \<Longrightarrow> (\<And>ps ds. B ps ds \<Longrightarrow> B' ps ds) \<Longrightarrow> kept B' n w"
  unfolding kept_def using safe_store_mono by blast

section \<open>The checkpoint becomes the newest\<close>

lemma fill_newest_has_last:
  assumes "length keep < limit" "0 < n"
  shows "n - 1 \<in> set (fill_newest limit n keep)"
  using assms fill_newest_keeps [of "List.insert (n - 1) keep" limit "n - 1"] by (cases n) auto

lemma compact_keeps_last:
  assumes "stream_count (ps @ [p]) < nat limit" and "0 < limit"
  shows "\<exists>qs. compactCDCPositionsHardLimit (ps @ [p]) limit = qs @ [p] \<and> set qs \<subseteq> set ps"
proof (cases "int (length (ps @ [p])) \<le> limit")
  case True
  then show ?thesis by (auto simp: compactCDCPositionsHardLimit_def)
next
  case False
  let ?all = "ps @ [p]"
  let ?keep = "fill_newest (nat limit) (length ?all) (map snd (fold (latest_step ?all) [0..<length ?all] []))"
  have "length (map snd (fold (latest_step ?all) [0..<length ?all] [])) < nat limit"
    using latest_length [of ?all] assms by simp
  then have "length ps \<in> set ?keep"
    using fill_newest_has_last [of _ "nat limit" "length ?all"] by simp
  then have "filter (\<lambda>i. i \<in> set ?keep) [0..<length ?all]
      = filter (\<lambda>i. i \<in> set ?keep) [0..<length ps] @ [length ps]" by simp
  then have "compactCDCPositionsHardLimit ?all limit
      = map ((!) ?all) (filter (\<lambda>i. i \<in> set ?keep) [0..<length ps]) @ [p]"
    using False assms by (simp add: compactCDCPositionsHardLimit_def Let_def)
  moreover have "set (map ((!) ?all) (filter (\<lambda>i. i \<in> set ?keep) [0..<length ps])) \<subseteq> set ps"
    by (auto simp: nth_append)
  ultimately show ?thesis by blast
qed

definition with_position :: "CDCPosition \<Rightarrow> Store \<Rightarrow> Store" where
  "with_position p s = s\<lparr>st_cdcPositions :=
     (let ps = st_cdcPositions s @ [p]
      in if length ps > 60000 then compactCDCPositionsHardLimit ps 50000 else ps)\<rparr>"

lemma create_position_writes: "CreateCDCPosition io p s = persistLocked io (with_position p s)"
  by (simp add: CreateCDCPosition_def with_position_def Let_def)

lemma stream_key_eq: "stream_key p = pos_TaskID p @ CHR 0x00 # pos_Direction p"
  by (simp add: stream_key_def)

lemma with_position_last:
  assumes few: "few_streams tid direction (st_cdcPositions s)"
    and p: "pos_TaskID p = tid" "pos_Direction p = direction"
  shows "\<exists>qs. st_cdcPositions (with_position p s) = qs @ [p] \<and> set qs \<subseteq> set (st_cdcPositions s)"
proof -
  have "stream_count (st_cdcPositions s @ [p]) < nat 50000"
    using few p by (simp add: few_streams_def stream_count_def stream_key_eq)
  then show ?thesis
    using compact_keeps_last [of "st_cdcPositions s" p 50000] by (auto simp: with_position_def Let_def)
qed

lemma few_streams_position:
  assumes "few_streams tid direction (st_cdcPositions s)" "pos_TaskID p = tid" "pos_Direction p = direction"
  shows "few_streams tid direction (st_cdcPositions (with_position p s))"
proof -
  obtain qs where q: "st_cdcPositions (with_position p s) = qs @ [p]" "set qs \<subseteq> set (st_cdcPositions s)"
    using with_position_last [OF assms] by blast
  then have "insert (tid @ CHR 0x00 # direction) (stream_key ` set (qs @ [p]))
      \<subseteq> insert (tid @ CHR 0x00 # direction) (stream_key ` set (st_cdcPositions s))"
    using assms(2, 3) by (auto simp: stream_key_eq)
  then have "card (insert (tid @ CHR 0x00 # direction) (stream_key ` set (qs @ [p])))
      \<le> card (insert (tid @ CHR 0x00 # direction) (stream_key ` set (st_cdcPositions s)))"
    by (intro card_mono) auto
  then show ?thesis using assms(1) unfolding few_streams_def q(1) by (rule le_less_trans)
qed

lemma newest_is_position:
  assumes "few_streams tid direction (st_cdcPositions s)" "pos_TaskID p = tid" "pos_Direction p = direction"
    and "equal_fold (pos_PositionType p) (ev_PositionType ev)" "pos_PositionValue p = ev_PositionValue ev"
  shows "newest_is tid direction ev (st_cdcPositions (with_position p s))"
proof -
  obtain qs where "st_cdcPositions (with_position p s) = qs @ [p]"
    using with_position_last [OF assms(1-3)] by blast
  then have "newest_matching 50 (\<lambda>p. pos_TaskID p = tid) (st_cdcPositions (with_position p s))
      = p # take 49 (filter (\<lambda>p. pos_TaskID p = tid) (rev qs))"
    using assms(2) by (simp add: newest_matching_def)
  then show ?thesis using assms(3-5) by (simp add: newest_is_def)
qed

lemma with_position_letters [simp]: "st_cdcDeadLetters (with_position p s) = st_cdcDeadLetters s"
  "st_disk (with_position p s) = st_disk s" "st_path (with_position p s) = st_path s"
  by (simp_all add: with_position_def)

lemma writes_position: "writes (\<lambda>io. CreateCDCPosition io p) (with_position p)"
  by (simp add: writes_def create_position_writes)

section \<open>Applying events sends no COMMIT and writes nothing\<close>

lemma keeps_lift [svc_rule]: "keeps I (lift res f r)" and keeps_reject [svc_rule]: "keeps I (reject res m)"
  by (simp_all add: lift_def reject_def svc_rule split: sum.split)

lemma keeps_map_event [svc_rule]: "keeps I (map_event res byName dflt index ev)"
  unfolding map_event_def Let_def by (intro svc_rule)

lemma keeps_single [svc_rule]:
  "keeps I a \<Longrightarrow> (\<And>x. keeps I (f x)) \<Longrightarrow> (\<And>x y zs. keeps I (g x y zs)) \<Longrightarrow>
   keeps I (case v of [] \<Rightarrow> a | x # xs \<Rightarrow> (case xs of [] \<Rightarrow> f x | y # zs \<Rightarrow> g x y zs))"
  by (simp split: list.split)

lemma keeps_resolve [svc_rule]:
  "keeps (kept B n) (resolve_conflict tid direction task mode T M ev newKeys keyCols res)"
  unfolding resolve_conflict_def by (intro svc_rule)

lemma keeps_delete_old [svc_rule]: "keeps (kept B n) (delete_old_key T M ev newKeys res)"
  unfolding delete_old_key_def Let_def by (intro svc_rule)

lemma keeps_upsert [svc_rule]: "keeps (kept B n) (apply_upsert tid direction task mode T M ev res)"
  unfolding apply_upsert_def Let_def by (intro svc_rule)

lemma keeps_delete [svc_rule]: "keeps (kept B n) (apply_delete T M ev res)"
  unfolding apply_delete_def by (intro svc_rule)

lemma keeps_truncate [svc_rule]: "keeps (kept B n) (apply_truncate targetDS T M final res)"
  unfolding apply_truncate_def by (intro svc_rule)

text \<open>The result of the events carries no position.\<close>

definition no_position :: "CDCApplyResult \<times> CDCConflictRecord list \<Rightarrow> bool" where
  "no_position st \<longleftrightarrow> res_PositionValue (fst st) = []"

lemma apply_event_spec:
  assumes "no_position st"
  shows "spec (kept B n) (apply_event c byName dflt index final ev st)
    (\<lambda>st' w. kept B n w \<and> no_position st') (\<lambda>_ _. kept B n) (kept B n)"
proof -
  obtain tid direction task mode targetDS T where c: "c = (tid, direction, task, mode, targetDS, T)"
    by (cases c) auto
  obtain res pend where st: "st = (res, pend)" by (cases st)
  have upsert: "spec (kept B n) (bnd (apply_upsert tid direction task mode T M ev res) (\<lambda>(applied, conflicts).
           ret (if applied
                then res\<lparr>res_Applied := res_Applied res + 1, res_LastEventID := ev_ID ev\<rparr>
                else res\<lparr>res_SkippedConflicts := res_SkippedConflicts res + 1, res_LastEventID := ev_ID ev\<rparr>,
                pend @ conflicts)))
     (\<lambda>st' w. kept B n w \<and> no_position st') (\<lambda>_ _. kept B n) (kept B n)" for M
    using assms by (intro spec_bnd [OF keeps_upsert])
      (auto simp: st no_position_def intro!: spec_ret split: prod.split)
  show ?thesis
    unfolding apply_event_def c st prod.case Let_def
  proof (rule spec_bnd [OF keeps_map_event])
    fix M
    show "spec (kept B n) (case ev_Operation ev of
        CDCDelete \<Rightarrow> bnd (apply_delete T M ev res)
          (\<lambda>_. ret (res\<lparr>res_Applied := res_Applied res + 1, res_LastEventID := ev_ID ev\<rparr>, pend))
      | CDCTruncate \<Rightarrow> bnd (apply_truncate targetDS T M final res)
          (\<lambda>_. ret (res\<lparr>res_Applied := res_Applied res + 1, res_LastEventID := ev_ID ev\<rparr>, pend))
      | op \<Rightarrow>
         if op \<noteq> CDCInsert \<and> op \<noteq> CDCUpdate
         then reject res (''unsupported CDC operation '' @ go_quote (CDCOperation_string op))
         else bnd (apply_upsert tid direction task mode T M ev res) (\<lambda>(applied, conflicts).
           ret (if applied
                then res\<lparr>res_Applied := res_Applied res + 1, res_LastEventID := ev_ID ev\<rparr>
                else res\<lparr>res_SkippedConflicts := res_SkippedConflicts res + 1, res_LastEventID := ev_ID ev\<rparr>,
                pend @ conflicts)))
     (\<lambda>st' w. kept B n w \<and> no_position st') (\<lambda>_ _. kept B n) (kept B n)"
      using assms upsert [of M]
      by (cases "ev_Operation ev")
        (auto simp: st no_position_def reject_def
          intro!: spec_fail spec_ret spec_bnd [OF keeps_delete] spec_bnd [OF keeps_truncate])
  qed
qed

lemma apply_events_spec:
  "no_position st \<Longrightarrow> spec (kept B n) (apply_events c byName dflt index evs st)
    (\<lambda>st' w. kept B n w \<and> no_position st') (\<lambda>_ _. kept B n) (kept B n)"
proof (induction evs arbitrary: index st)
  case Nil
  then show ?case by (auto intro: spec_ret)
next
  case (Cons ev evs)
  show ?case unfolding apply_events.simps
  proof (rule spec_bnd [OF apply_event_spec [OF Cons.prems]])
    fix st'
    show "spec (\<lambda>w. kept B n w \<and> no_position st') (apply_events c byName dflt (Suc index) evs st')
      (\<lambda>st'' w. kept B n w \<and> no_position st'') (\<lambda>_ _. kept B n) (kept B n)"
      using Cons.IH [of st' "Suc index"] by (cases "no_position st'") (auto simp: spec_def)
  qed
qed

section \<open>The fence\<close>

definition with_letter :: "CDCDeadLetter \<Rightarrow> Store \<Rightarrow> Store" where
  "with_letter v s = s\<lparr>st_cdcDeadLetters := AList.update (dl_ID v) v (st_cdcDeadLetters s)\<rparr>"

definition without_letter :: "string \<Rightarrow> Store \<Rightarrow> Store" where
  "without_letter i s = s\<lparr>st_cdcDeadLetters := AList.delete i (st_cdcDeadLetters s)\<rparr>"

lemma letter_fields [simp]:
  "st_cdcPositions (with_letter v s) = st_cdcPositions s" "st_cdcPositions (without_letter i s) = st_cdcPositions s"
  "st_cdcDeadLetters (with_letter v s) = AList.update (dl_ID v) v (st_cdcDeadLetters s)"
  "st_cdcDeadLetters (without_letter i s) = AList.delete i (st_cdcDeadLetters s)"
  by (simp_all add: with_letter_def without_letter_def)

lemma writes_letter:
  "writes (\<lambda>io. CreateCDCDeadLetter io v) (with_letter v)"
  "writes (\<lambda>io. UpdateCDCDeadLetter io v) (with_letter v)"
  "writes (\<lambda>io. DeleteCDCDeadLetter io i) (without_letter i)"
  by (auto simp: writes_def CreateCDCDeadLetter_def UpdateCDCDeadLetter_def DeleteCDCDeadLetter_def
      with_letter_def without_letter_def)

lemma named_update [intro]:
  "named_letters ds \<Longrightarrow> dl_ID v \<noteq> [] \<Longrightarrow> k = dl_ID v \<Longrightarrow> named_letters (AList.update k v ds)"
  by (auto simp: named_letters_def list_all_iff dest: set_updateD)

lemma named_delete [intro]: "named_letters ds \<Longrightarrow> named_letters (AList.delete k ds)"
  by (auto simp: named_letters_def list_all_iff AList.delete_eq)

lemma find_member: "find P xs = Some v \<Longrightarrow> v \<in> set xs \<and> P v"
  by (auto simp: find_Some_iff)

lemma listed_letters:
  "v \<in> set (ListCDCDeadLetters tid s) \<longleftrightarrow>
   (\<exists>k. (k, v) \<in> set (st_cdcDeadLetters s)) \<and> (tid = [] \<or> dl_TaskID v = tid)"
  by (force simp: ListCDCDeadLetters_def newest_first_def)

lemma named_listed:
  "named_letters (st_cdcDeadLetters s) \<Longrightarrow> v \<in> set (ListCDCDeadLetters tid s) \<Longrightarrow> dl_ID v \<noteq> []"
  by (auto simp: listed_letters named_letters_def list_all_iff)

lemma letter_id_nonempty [simp]: "cdcDeadLetterID tid direction ev \<noteq> []"
  by (simp add: cdcDeadLetterID_def)

lemma spec_ok_or:
  "spec P m (\<lambda>r w. I w \<and> (r = None \<longrightarrow> J w)) (\<lambda>_ _. I) C \<Longrightarrow>
   spec P (ok_or res f m) (\<lambda>_. J) (\<lambda>_ _. I) C"
  unfolding ok_or_def by (erule spec_bnd) (auto intro: spec_ret spec_fail split: option.split)

lemma fence_written:
  assumes v: "dl_ID v = cdcDeadLetterID tid direction ev" "dl_Status v = CDCDeadLetterCommitUncertain"
    "tid = [] \<or> dl_TaskID v = tid" "equal_fold (dl_Direction v) direction"
    and f: "f = (\<lambda>io. CreateCDCDeadLetter io v) \<or> f = (\<lambda>io. UpdateCDCDeadLetter io v)"
  shows "spec (kept (base tid direction) n) (must (write_repo f)) (\<lambda>_. kept (fence_up tid direction ev) n)
     (\<lambda>_ _. kept (base tid direction) n) (kept (base tid direction) n)"
proof (rule spec_ok_or)
  have id: "dl_ID v \<noteq> []" using v(1) by simp
  have w: "writes f (with_letter v)" using f by (auto simp: writes_letter)
  show "spec (kept (base tid direction) n) (write_repo f)
      (\<lambda>r x. kept (base tid direction) n x \<and> (r = None \<longrightarrow> kept (fence_up tid direction ev) n x))
      (\<lambda>_ _. kept (base tid direction) n) (kept (base tid direction) n)"
  proof (rule spec_write_done [OF _ w])
    show "f io s = persistLocked io (with_letter v s)" if "f io s = (s', None)" for io s s'
      using f that by (auto simp: CreateCDCDeadLetter_def UpdateCDCDeadLetter_def with_letter_def split: if_splits)
    show "in_memory (base tid direction) s \<Longrightarrow> in_memory (base tid direction) (with_letter v s)" for s
      by (auto simp: base_def intro: named_update [OF _ id])
    show "in_memory (base tid direction) s \<Longrightarrow> in_memory (fence_up tid direction ev) (with_letter v s)" for s
      using v by (auto simp: fence_up_def base_def fenced_def update_conv intro: named_update [OF _ id])
  qed
qed

lemma begin_fence_spec:
  "spec (kept (base tid direction) n) (beginCDCCommitFence tid direction evs)
     (\<lambda>_. kept (fence_up tid direction (last evs)) n)
     (\<lambda>_ _. kept (base tid direction) n) (kept (base tid direction) n)"
proof -
  let ?B = "kept (base tid direction) n" and ?i = "cdcDeadLetterID tid direction (last evs)"
  have fin: "spec (kept (fence_up tid direction (last evs)) n) (ret f)
      (\<lambda>_. kept (fence_up tid direction (last evs)) n) (\<lambda>_ _. ?B) ?B" for f :: cdcCommitFence
    by (rule spec_ret)
  have items: "spec (\<lambda>w. ?B w \<and> items = ListCDCDeadLetters tid (w_store w))
     (case find (\<lambda>v. dl_ID v = ?i) items of
          Some v \<Rightarrow>
            bnd (must (write_repo (\<lambda>io. UpdateCDCDeadLetter io (reused_fence direction evs now v)))) (\<lambda>_.
            ret \<lparr>fence_ID = ?i, fence_Existed = True\<rparr>)
        | None \<Rightarrow>
            bnd (must (write_repo (\<lambda>io. CreateCDCDeadLetter io (new_fence ?i tid direction evs now)))) (\<lambda>_.
            ret \<lparr>fence_ID = ?i, fence_Existed = False\<rparr>))
     (\<lambda>_. kept (fence_up tid direction (last evs)) n) (\<lambda>_ _. ?B) ?B" for items now
  proof (cases "find (\<lambda>v. dl_ID v = ?i) items")
    case None
    have "spec ?B (must (write_repo (\<lambda>io. CreateCDCDeadLetter io (new_fence ?i tid direction evs now))))
        (\<lambda>_. kept (fence_up tid direction (last evs)) n) (\<lambda>_ _. ?B) ?B"
      by (rule fence_written [OF _ _ _ _ disjI1 [OF refl]]) (simp_all add: new_fence_def Let_def)
    then show ?thesis using None by (auto intro!: spec_bnd [OF _ fin] elim: spec_pre)
  next
    case (Some v)
    show ?thesis
    proof (cases "tid = [] \<or> dl_TaskID v = tid")
      case True
      have "spec ?B (must (write_repo (\<lambda>io. UpdateCDCDeadLetter io (reused_fence direction evs now v))))
          (\<lambda>_. kept (fence_up tid direction (last evs)) n) (\<lambda>_ _. ?B) ?B"
        using True find_member [OF Some]
        by (intro fence_written [OF _ _ _ _ disjI2 [OF refl]]) (simp_all add: reused_fence_def Let_def)
      then show ?thesis using Some by (auto intro!: spec_bnd [OF _ fin] elim: spec_pre)
    next
      case False
      then have "items \<noteq> ListCDCDeadLetters tid s" for s
        using find_member [OF Some] by (auto simp: listed_letters)
      then show ?thesis by (simp add: spec_def)
    qed
  qed
  show ?thesis unfolding beginCDCCommitFence_def Let_def
    by (auto intro!: spec_fail spec_bnd [OF keeps_clock] spec_bnd [OF spec_query items])
qed

section \<open>The checkpoint\<close>

lemma position_checkpoint:
  assumes "pos_TaskID p = tid" "pos_Direction p = direction"
    "equal_fold (pos_PositionType p) (ev_PositionType ev)" "pos_PositionValue p = ev_PositionValue ev"
  shows "spec (kept (fence_up tid direction ev) n) (must (write_repo (\<lambda>io. CreateCDCPosition io p)))
     (\<lambda>_. kept (both_up tid direction ev) n)
     (\<lambda>_ _. kept (fence_up tid direction ev) n) (kept (fence_up tid direction ev) n)"
proof (rule spec_ok_or)
  show "spec (kept (fence_up tid direction ev) n) (write_repo (\<lambda>io. CreateCDCPosition io p))
      (\<lambda>r x. kept (fence_up tid direction ev) n x \<and> (r = None \<longrightarrow> kept (both_up tid direction ev) n x))
      (\<lambda>_ _. kept (fence_up tid direction ev) n) (kept (fence_up tid direction ev) n)"
    using assms by (intro spec_write_done [OF _ writes_position])
      (auto simp: create_position_writes about_defs few_streams_position newest_is_position)
qed

lemma keeps_position:
  assumes "pos_TaskID p = tid" "pos_Direction p = direction"
  shows "keeps (kept (base tid direction) n) (write_repo (\<lambda>io. CreateCDCPosition io p))"
  using assms by (intro keeps_write [OF writes_position]) (auto simp: base_def few_streams_position)

lemma keeps_lag [svc_rule]: "keeps (kept B n) (maybeAlertCDCLag tid direction lag)"
  unfolding maybeAlertCDCLag_def Let_def by (intro svc_rule)

lemma both_fence: "kept (both_up tid direction ev) n w \<Longrightarrow> kept (fence_up tid direction ev) n w"
  by (erule kept_mono) (simp add: about_defs)

lemma after_position:
  "spec (kept (both_up tid direction ev) n)
     (bnd (maybeAlertCDCLag tid d lag) (\<lambda>_. must (write_repo (\<lambda>io. UpdateMigration io task))))
     (\<lambda>_. kept (both_up tid direction ev) n)
     (\<lambda>_ _. kept (fence_up tid direction ev) n) (kept (fence_up tid direction ev) n)"
proof -
  have "keeps (kept (both_up tid direction ev) n)
      (bnd (maybeAlertCDCLag tid d lag) (\<lambda>_. must (write_repo (\<lambda>io. UpdateMigration io task))))"
    by (intro svc_rule)
  then show ?thesis by (rule spec_weaken) (auto intro: both_fence)
qed

lemma spec_if: "spec P a Q F C \<Longrightarrow> spec P b Q F C \<Longrightarrow> spec P (if c then a else b) Q F C"
  by simp

text \<open>Recording and what follows, for either direction.\<close>

lemma record_position:
  assumes "pos_TaskID p = tid" "pos_Direction p = direction"
    "equal_fold (pos_PositionType p) (ev_PositionType ev)" "pos_PositionValue p = ev_PositionValue ev"
  shows "spec (kept (fence_up tid direction ev) n)
     (bnd (must (write_repo (\<lambda>io. CreateCDCPosition io p))) (\<lambda>_.
      bnd (maybeAlertCDCLag tid d lag) (\<lambda>_. must (write_repo (\<lambda>io. UpdateMigration io task)))))
     (\<lambda>_. kept (both_up tid direction ev) n)
     (\<lambda>_ _. kept (fence_up tid direction ev) n) (kept (fence_up tid direction ev) n)"
  using position_checkpoint [OF assms] after_position by (rule spec_bnd)

lemmas before_position = spec_bnd [OF keeps_fetch] spec_bnd [OF keeps_newID] spec_bnd [OF keeps_clock]
  spec_bnd [OF keeps_intEnv]

lemma reverse_progress:
  assumes "equal_fold (pos_PositionType p) (ev_PositionType ev)" "pos_PositionValue p = ev_PositionValue ev"
  shows "spec (kept (fence_up tid ''reverse'' ev) n) (RecordRollbackCDCProgress tid p)
     (\<lambda>_. kept (both_up tid ''reverse'' ev) n)
     (\<lambda>_ _. kept (fence_up tid ''reverse'' ev) n) (kept (fence_up tid ''reverse'' ev) n)"
  unfolding RecordRollbackCDCProgress_def Let_def
  by (intro before_position spec_if spec_fail record_position) (simp_all add: assms)

lemma keeps_warning:
  "keeps (kept B n) (if c then bnd clock (\<lambda>now. bnd (alert a1 a2 a3 a4 now)
      (\<lambda>_. logTask l0 l1 l2 l3 l4 l5)) else ret ())"
  by (intro svc_rule)

lemma forward_progress:
  assumes "equal_fold (pos_PositionType p) (ev_PositionType ev)" "pos_PositionValue p = ev_PositionValue ev"
  shows "spec (kept (fence_up tid ''forward'' ev) n) (recordCDCProgress tid p)
     (\<lambda>_. kept (both_up tid ''forward'' ev) n)
     (\<lambda>_ _. kept (fence_up tid ''forward'' ev) n) (kept (fence_up tid ''forward'' ev) n)"
  unfolding recordCDCProgress_def Let_def
  by (intro before_position spec_bnd [OF keeps_warning] spec_if spec_fail record_position)
    (simp_all add: assms)

lemma progress_spec:
  assumes "direction \<in> {''forward'', ''reverse''}"
    and "equal_fold (pos_PositionType p) (ev_PositionType ev)" "pos_PositionValue p = ev_PositionValue ev"
  shows "spec (kept (fence_up tid direction ev) n)
     (if direction = ''reverse'' then RecordRollbackCDCProgress tid p else recordCDCProgress tid p)
     (\<lambda>_. kept (both_up tid direction ev) n)
     (\<lambda>_ _. kept (fence_up tid direction ev) n) (kept (fence_up tid direction ev) n)"
  using assms forward_progress reverse_progress by auto

lemma keeps_forward: "keeps (kept (base tid ''forward'') n) (recordCDCProgress tid p)"
  and keeps_reverse: "keeps (kept (base tid ''reverse'') n) (RecordRollbackCDCProgress tid p)"
  unfolding recordCDCProgress_def RecordRollbackCDCProgress_def Let_def
  by (intro svc_rule keeps_position; simp)+

lemma keeps_progress:
  "direction \<in> {''forward'', ''reverse''} \<Longrightarrow> keeps (kept (base tid direction) n)
     (if direction = ''reverse'' then RecordRollbackCDCProgress tid p else recordCDCProgress tid p)"
  using keeps_forward keeps_reverse by auto

section \<open>Persisting the result\<close>

text \<open>An error leaves the checkpoint's position in the partial result only once it is recorded.\<close>

definition position_told ::
  "string \<Rightarrow> string \<Rightarrow> CDCEvent \<Rightarrow> nat \<Rightarrow> CDCApplyResult option \<Rightarrow> svc_error \<Rightarrow> World \<Rightarrow> bool" where
  "position_told tid direction ev n r e w \<longleftrightarrow> kept (fence_up tid direction ev) n w \<and>
     (map_option res_PositionValue r = Some (ev_PositionValue ev) \<longrightarrow> kept (both_up tid direction ev) n w)"

lemma keeps_injected [svc_rule]: "keeps (kept B n) (injected r name)"
  unfolding injected_def by (intro svc_rule)

lemma spec_injected: "spec (kept B n) (injected r name) (\<lambda>_. kept B n) (\<lambda>r' _ w. r' = r \<and> kept B n w) (kept B n)"
  unfolding injected_def
  by (rule spec_bnd [where R = "\<lambda>_. kept B n"])
    (auto simp: spec_def checkpoint_fault_def tick_def ret_def fail_with_def split: option.split)

lemma persist_spec:
  assumes d: "direction \<in> {''forward'', ''reverse''}"
    and ev: "ev_PositionType ev \<noteq> []" "ev_PositionValue ev \<noteq> []" and res: "res_PositionValue res = []"
  shows "spec (kept (fence_up tid direction ev) n) (persistCDCApplyResult tid direction sourceDS res ev)
     (\<lambda>_. kept (both_up tid direction ev) n) (position_told tid direction ev n)
     (kept (fence_up tid direction ev) n)"
proof -
  let ?F = "kept (fence_up tid direction ev) n" and ?G = "kept (both_up tid direction ev) n"
  let ?t = "ev_PositionType ev"
  have 1: "spec ?F (injected (Some res) k) (\<lambda>_. ?F) (position_told tid direction ev n) ?F" for k
    using res ev by (intro spec_weaken [OF spec_injected [where B = "fence_up tid direction ev" and n = n]])
      (auto simp: position_told_def)
  have 2: "spec ?F (attempt (if direction = ''reverse''
        then RecordRollbackCDCProgress tid (apply_position sourceDS res ev ?t now)
        else recordCDCProgress tid (apply_position sourceDS res ev ?t now)))
      (\<lambda>r w. case r of Inl _ \<Rightarrow> ?F w | Inr _ \<Rightarrow> ?G w) (position_told tid direction ev n) ?F" for now
    by (rule spec_attempt, rule spec_weaken [OF progress_spec [OF d]])
      (simp_all add: apply_position_def Let_def)
  have 3: "spec ?G (injected (Some r) k) (\<lambda>_. ?G) (position_told tid direction ev n) ?F" for r k
    by (intro spec_weaken [OF spec_injected [where B = "both_up tid direction ev" and n = n]])
      (auto simp: position_told_def both_fence)
  show ?thesis
    unfolding persistCDCApplyResult_def Let_def if_not_P [OF ev(1)]
  proof (rule spec_bnd [OF spec_clock [OF kept_tick]], rule spec_bnd [OF 1], rule spec_bnd [OF 2])
    fix r :: "(CDCApplyResult option \<times> svc_error) + unit"
    show "spec (\<lambda>w. case r of Inl _ \<Rightarrow> ?F w | Inr _ \<Rightarrow> ?G w)
      (case r of Inl (_, e) \<Rightarrow> fail_with (Some res) (Wrapped ''persist CDC checkpoint after apply: '' e)
       | Inr _ \<Rightarrow> bnd (injected (Some (res\<lparr>res_PositionType := ?t, res_PositionValue := ev_PositionValue ev\<rparr>))
            ''cdc.apply.after_checkpoint_before_source_ack'')
          (\<lambda>_. ret (res\<lparr>res_PositionType := ?t, res_PositionValue := ev_PositionValue ev\<rparr>)))
      (\<lambda>_. ?G) (position_told tid direction ev n) ?F"
      using res ev by (cases r) (auto intro!: spec_fail spec_bnd [OF 3] spec_ret simp: position_told_def)
  qed
qed

lemma keeps_persist:
  "direction \<in> {''forward'', ''reverse''} \<Longrightarrow>
   keeps (kept (base tid direction) n) (persistCDCApplyResult tid direction sourceDS res ev)"
  unfolding persistCDCApplyResult_def Let_def by (intro svc_rule keeps_progress)

section \<open>Ending the fence\<close>

text \<open>The checkpoint is the newest in memory, and the store is covered on disk as well.\<close>

definition settled :: "string \<Rightarrow> string \<Rightarrow> CDCEvent \<Rightarrow> nat \<Rightarrow> World \<Rightarrow> bool" where
  "settled tid direction ev n w \<longleftrightarrow> kept (covered tid direction ev) n w \<and>
     newest_is tid direction ev (st_cdcPositions (w_store w))"

lemma settled_tick [simp]: "settled tid direction ev n (w\<lparr>w_tick := t\<rparr>) = settled tid direction ev n w"
  by (simp add: settled_def)

lemma settled_covered: "settled tid direction ev n w \<Longrightarrow> kept (covered tid direction ev) n w"
  by (simp add: settled_def)

lemma both_settled: "kept (both_up tid direction ev) n w \<Longrightarrow> settled tid direction ev n w"
  unfolding settled_def
proof
  assume k: "kept (both_up tid direction ev) n w"
  then show "kept (covered tid direction ev) n w" by (rule kept_mono) (simp add: about_defs)
  from k show "newest_is tid direction ev (st_cdcPositions (w_store w))"
    by (simp add: kept_def safe_store_def both_up_def)
qed

lemma base_of_covered:
  "kept (covered tid direction ev) n w \<Longrightarrow> named_letters (st_cdcDeadLetters (w_store w))"
  by (simp add: kept_def safe_store_def about_defs)

lemma settled_delete:
  "spec (settled tid direction ev n) (must (write_repo (\<lambda>io. DeleteCDCDeadLetter io i)))
     (\<lambda>_. kept (covered tid direction ev) n) (\<lambda>_ _. kept (covered tid direction ev) n)
     (kept (covered tid direction ev) n)"
  unfolding settled_def
  by (intro spec_ok_or spec_weaken [OF spec_write [OF writes_letter(3),
        where G = "\<lambda>s. newest_is tid direction ev (st_cdcPositions s)"]])
    (auto simp: about_defs)

lemma settled_update:
  assumes "dl_ID v \<noteq> []"
  shows "spec (settled tid direction ev n) (must (write_repo (\<lambda>io. UpdateCDCDeadLetter io v)))
     (\<lambda>_. kept (covered tid direction ev) n) (\<lambda>_ _. kept (covered tid direction ev) n)
     (kept (covered tid direction ev) n)"
  unfolding settled_def using assms
  by (intro spec_ok_or spec_weaken [OF spec_write [OF writes_letter(2),
        where G = "\<lambda>s. newest_is tid direction ev (st_cdcPositions s)"]])
    (auto simp: about_defs)

lemma spec_False: "(\<And>w. \<not> P w) \<Longrightarrow> spec P m Q F C"
  by (simp add: spec_def)

lemma spec_fetch:
  "(\<And>w. P w \<Longrightarrow> F None (Plain (ErrNotFound)) w) \<Longrightarrow> (\<And>w e. P w \<Longrightarrow> F None (Plain e) w) \<Longrightarrow>
   spec P (fetch f) (\<lambda>x w. P w \<and> f (w_store w) = Inr x) F C"
  by (auto simp: spec_def fetch_def split: sum.split)

lemma got_letter_named:
  "GetCDCDeadLetter i s = Inr v \<Longrightarrow> named_letters (st_cdcDeadLetters s) \<Longrightarrow> dl_ID v \<noteq> []"
  by (auto simp: GetCDCDeadLetter_def found_def named_letters_def list_all_iff
      split: option.splits dest!: map_of_SomeD)

lemma complete_fence_spec:
  "spec (settled tid direction ev n) (completeCDCCommitFence fence)
     (\<lambda>_. kept (covered tid direction ev) n) (\<lambda>_ _. kept (covered tid direction ev) n)
     (kept (covered tid direction ev) n)"
proof (cases fence)
  case None
  then show ?thesis by (auto simp: completeCDCCommitFence_def intro: spec_ret settled_covered)
next
  case (Some f)
  have "spec (settled tid direction ev n)
      (bnd (fetch (GetCDCDeadLetter (fence_ID f))) (\<lambda>v. bnd clock (\<lambda>now.
            must (write_repo (\<lambda>io. UpdateCDCDeadLetter io
              (v\<lparr>dl_Status := CDCDeadLetterResolved, dl_LastError := [],
                 dl_ResolvedAt := now, dl_UpdatedAt := now\<rparr>))))))
     (\<lambda>_. kept (covered tid direction ev) n) (\<lambda>_ _. kept (covered tid direction ev) n)
     (kept (covered tid direction ev) n)"
  proof (rule spec_bnd [OF spec_fetch])
    fix v
    show "spec (\<lambda>w. settled tid direction ev n w \<and> GetCDCDeadLetter (fence_ID f) (w_store w) = Inr v)
      (bnd clock (\<lambda>now. must (write_repo (\<lambda>io. UpdateCDCDeadLetter io
              (v\<lparr>dl_Status := CDCDeadLetterResolved, dl_LastError := [],
                 dl_ResolvedAt := now, dl_UpdatedAt := now\<rparr>)))))
      (\<lambda>_. kept (covered tid direction ev) n) (\<lambda>_ _. kept (covered tid direction ev) n)
      (kept (covered tid direction ev) n)"
    proof (cases "dl_ID v = []")
      case True
      then have "\<not> (settled tid direction ev n w \<and> GetCDCDeadLetter (fence_ID f) (w_store w) = Inr v)" for w
        using got_letter_named base_of_covered settled_covered by blast
      then show ?thesis by (rule spec_False)
    next
      case False
      then have "spec (settled tid direction ev n) (bnd clock (\<lambda>now. must (write_repo (\<lambda>io. UpdateCDCDeadLetter io
              (v\<lparr>dl_Status := CDCDeadLetterResolved, dl_LastError := [],
                 dl_ResolvedAt := now, dl_UpdatedAt := now\<rparr>)))))
          (\<lambda>_. kept (covered tid direction ev) n) (\<lambda>_ _. kept (covered tid direction ev) n)
          (kept (covered tid direction ev) n)"
        by (intro spec_bnd [OF spec_clock] settled_update) simp_all
      then show ?thesis by (rule spec_pre) simp
    qed
  qed (auto intro: settled_covered)
  then show ?thesis using Some
    by (auto simp: completeCDCCommitFence_def intro: spec_ret settled_covered settled_delete)
qed

section \<open>After the commit\<close>

lemma keeps_conflicts [svc_rule]: "keeps (kept B n) (create_conflicts res cs)"
  by (induction cs) (auto intro!: svc_rule)

lemma fence_covered: "kept (fence_up tid direction ev) n w \<Longrightarrow> kept (covered tid direction ev) n w"
  and both_covered: "kept (both_up tid direction ev) n w \<Longrightarrow> kept (covered tid direction ev) n w"
  by (erule kept_mono; simp add: about_defs)+

lemma complete_from_both:
  "spec (kept (both_up tid direction ev) n) (attempt (completeCDCCommitFence fence))
     (\<lambda>_. kept (covered tid direction ev) n) (\<lambda>_ _. kept (covered tid direction ev) n)
     (kept (covered tid direction ev) n)"
  by (rule spec_attempt) (rule spec_pre [OF complete_fence_spec both_settled])

lemma finish_apply_spec:
  assumes d: "direction \<in> {''forward'', ''reverse''}"
    and ev: "ev_PositionType ev \<noteq> []" "ev_PositionValue ev \<noteq> []" and res: "res_PositionValue res = []"
  shows "spec (kept (fence_up tid direction ev) n) (finish_apply tid direction sourceDS ev res pend fence)
     (\<lambda>_. kept (covered tid direction ev) n) (\<lambda>_ _. kept (covered tid direction ev) n)
     (kept (covered tid direction ev) n)"
proof -
  let ?C = "kept (covered tid direction ev) n" and ?F = "kept (fence_up tid direction ev) n"
    and ?G = "kept (both_up tid direction ev) n"
  have 1: "spec ?F (create_conflicts res pend) (\<lambda>_. ?F) (\<lambda>_ _. ?C) ?C"
    by (rule spec_weaken [OF keeps_conflicts [of "fence_up tid direction ev" n res pend]])
      (auto intro: fence_covered)
  have 2: "spec ?F (attempt (persistCDCApplyResult tid direction sourceDS res ev))
      (\<lambda>r w. case r of Inl (r, e) \<Rightarrow> position_told tid direction ev n r e w | Inr _ \<Rightarrow> ?G w) (\<lambda>_ _. ?C) ?C"
    by (rule spec_attempt, rule spec_weaken [OF persist_spec [OF d ev res]])
      (auto intro: fence_covered)
  show ?thesis
    unfolding finish_apply_def
  proof (rule spec_bnd [OF 1], rule spec_bnd [OF 2])
    fix r :: "(CDCApplyResult option \<times> svc_error) + CDCApplyResult"
    have stop: "spec ?C (fail_with r' e') (\<lambda>_. ?C) (\<lambda>_ _. ?C) ?C" for r' e' and Q :: "CDCApplyResult \<Rightarrow> World \<Rightarrow> bool"
      by (rule spec_fail)
    show "spec (\<lambda>w. case r of Inl (r, e) \<Rightarrow> position_told tid direction ev n r e w | Inr _ \<Rightarrow> ?G w)
      (case r of
         Inl (res', e) \<Rightarrow>
           if fence \<noteq> None \<and> ev_PositionValue ev \<noteq> []
              \<and> map_option res_PositionValue res' = Some (ev_PositionValue ev)
           then bnd (attempt (completeCDCCommitFence fence)) (\<lambda>c. case c of
               Inr _ \<Rightarrow> fail_with res' e
             | Inl (_, e') \<Rightarrow> fail_with res' (Wrapped (error_text e
                 @ ''; additionally complete durable CDC commit fence: '') e'))
           else fail_with res' e
       | Inr res' \<Rightarrow>
           bnd (attempt (completeCDCCommitFence fence)) (\<lambda>c. case c of
               Inr _ \<Rightarrow> ret res'
             | Inl (_, e') \<Rightarrow> fail_with (Some res')
                 (Wrapped ''complete durable CDC commit fence: '' e')))
      (\<lambda>_. ?C) (\<lambda>_ _. ?C) ?C"
    proof (cases r)
      case (Inl a)
      obtain res' e where a: "a = (res', e)" by (cases a)
      have told: "spec (position_told tid direction ev n res' e) (fail_with res' e) (\<lambda>_. ?C) (\<lambda>_ _. ?C) ?C"
        by (rule spec_fail) (auto simp: position_told_def intro: fence_covered)
      have complete: "spec (position_told tid direction ev n res' e)
          (bnd (attempt (completeCDCCommitFence fence)) (\<lambda>c. case c of
               Inr _ \<Rightarrow> fail_with res' e
             | Inl (_, e') \<Rightarrow> fail_with res' (Wrapped (error_text e
                 @ ''; additionally complete durable CDC commit fence: '') e')))
          (\<lambda>_. ?C) (\<lambda>_ _. ?C) ?C" if "map_option res_PositionValue res' = Some (ev_PositionValue ev)"
        by (rule spec_bnd [OF spec_pre [OF complete_from_both]])
          (use that in \<open>auto simp: position_told_def intro!: spec_fail split: sum.split\<close>)
      show ?thesis using told complete unfolding Inl a
        by (simp only: sum.case prod.case split: if_split) blast
    next
      case (Inr res')
      then show ?thesis
        by (auto intro!: spec_bnd [OF complete_from_both] spec_ret spec_fail split: sum.split)
    qed
  qed
qed

lemma keeps_finish:
  "direction \<in> {''forward'', ''reverse''} \<Longrightarrow>
   keeps (kept (base tid direction) n) (finish_apply tid direction sourceDS ev res pend None)"
  unfolding finish_apply_def completeCDCCommitFence_def option.case
  by (intro svc_rule keeps_persist)

section \<open>One request\<close>

text \<open>Before COMMIT nothing is known; after it the transaction is covered.\<close>

definition at_most_one :: "string \<Rightarrow> string \<Rightarrow> CDCEvent \<Rightarrow> nat \<Rightarrow> World \<Rightarrow> bool" where
  "at_most_one tid direction ev n w \<longleftrightarrow>
     kept (base tid direction) n w \<or> kept (covered tid direction ev) (Suc n) w"

lemma keeps_rollback [svc_rule]: "keeps (kept B n) m \<Longrightarrow> keeps (kept B n) (rollback_on_error T m)"
  unfolding rollback_on_error_def by (intro svc_rule)

lemma fence_base: "kept (fence_up tid direction ev) n w \<Longrightarrow> kept (base tid direction) n w"
  and covered_base: "kept (covered tid direction ev) n w \<Longrightarrow> kept (base tid direction) n w"
  by (erule kept_mono; simp add: about_defs)+

lemma spec_rollback:
  assumes "spec P m Q (\<lambda>_ _. kept B n) (kept B n)"
  shows "spec P (rollback_on_error T m) Q (\<lambda>_ _. kept B n) (kept B n)"
  unfolding rollback_on_error_def
proof (rule spec_bnd [OF spec_attempt])
  show "spec P m (\<lambda>x. (\<lambda>r. case r of Inl _ \<Rightarrow> kept B n | Inr x \<Rightarrow> Q x) (Inr x))
      (\<lambda>r e. (\<lambda>r. case r of Inl _ \<Rightarrow> kept B n | Inr x \<Rightarrow> Q x) (Inl (r, e))) (kept B n)"
    using assms by simp
  fix r
  show "spec (case r of Inl _ \<Rightarrow> kept B n | Inr x \<Rightarrow> Q x)
      (case r of Inr x \<Rightarrow> ret x
       | Inl (res, e) \<Rightarrow> if tg_transactional T
           then bnd (call_target T RollbackCDCTransaction) (\<lambda>_. fail_with res e) else fail_with res e)
      Q (\<lambda>_ _. kept B n) (kept B n)"
    by (cases r) (auto intro!: spec_ret spec_fail spec_bnd [OF keeps_calls(2)])
qed

lemma spec_conj_pure: "(p \<Longrightarrow> spec P m Q F C) \<Longrightarrow> spec (\<lambda>w. P w \<and> p) m Q F C"
  by (cases p) (simp_all add: spec_def)

lemma spec_query_any: "spec P (query f) (\<lambda>_. P) F C"
  by (simp add: spec_def query_def)

lemma apply_and_fence_spec:
  assumes "tg_transactional T"
  shows "spec (kept (base tid direction) n)
     (apply_and_fence (tid, direction, task, mode, targetDS, T) sourceDS evs)
     (\<lambda>(st, fence) w. kept (fence_up tid direction (last evs)) n w \<and> no_position st)
     (\<lambda>_ _. kept (base tid direction) n) (kept (base tid direction) n)"
  unfolding apply_and_fence_def prod.case
proof (rule spec_bnd [OF spec_query_any], rule spec_bnd [OF apply_events_spec])
  show "no_position (zero_CDCApplyResult, [])"
    by (simp add: no_position_def zero_CDCApplyResult_def)
  fix st :: "CDCApplyResult \<times> CDCConflictRecord list"
  have "spec (kept (base tid direction) n)
      (bnd (attempt (beginCDCCommitFence tid direction evs)) (\<lambda>r. case r of
         Inl (_, e) \<Rightarrow> fail_with (Some res) (Wrapped ''persist pre-COMMIT CDC ambiguity fence: '' e)
       | Inr f \<Rightarrow> ret ((res, pend), Some f)))
      (\<lambda>(st, fence) w. kept (fence_up tid direction (last evs)) n w \<and> no_position st)
      (\<lambda>_ _. kept (base tid direction) n) (kept (base tid direction) n)"
    if "no_position (res, pend)" for res pend
  proof (rule spec_bnd [OF spec_attempt])
    show "spec (kept (base tid direction) n) (beginCDCCommitFence tid direction evs)
        (\<lambda>x. (\<lambda>r w. case r of Inl _ \<Rightarrow> kept (base tid direction) n w
                        | Inr _ \<Rightarrow> kept (fence_up tid direction (last evs)) n w) (Inr x))
        (\<lambda>r e. (\<lambda>r w. case r of Inl _ \<Rightarrow> kept (base tid direction) n w
                        | Inr _ \<Rightarrow> kept (fence_up tid direction (last evs)) n w) (Inl (r, e)))
        (kept (base tid direction) n)"
      using begin_fence_spec by simp
    fix r :: "(CDCApplyResult option \<times> svc_error) + cdcCommitFence"
    show "spec (\<lambda>w. case r of Inl _ \<Rightarrow> kept (base tid direction) n w
                        | Inr _ \<Rightarrow> kept (fence_up tid direction (last evs)) n w)
        (case r of Inl (_, e) \<Rightarrow> fail_with (Some res) (Wrapped ''persist pre-COMMIT CDC ambiguity fence: '' e)
         | Inr f \<Rightarrow> ret ((res, pend), Some f))
        (\<lambda>(st, fence) w. kept (fence_up tid direction (last evs)) n w \<and> no_position st)
        (\<lambda>_ _. kept (base tid direction) n) (kept (base tid direction) n)"
      using that by (cases r) (auto intro!: spec_fail spec_ret)
  qed
  then show "spec (\<lambda>w. kept (base tid direction) n w \<and> no_position st)
      (case st of (res, pend) \<Rightarrow>
        if \<not> tg_transactional T then ret ((res, pend), None)
        else bnd (attempt (beginCDCCommitFence tid direction evs)) (\<lambda>r. case r of
         Inl (_, e) \<Rightarrow> fail_with (Some res) (Wrapped ''persist pre-COMMIT CDC ambiguity fence: '' e)
       | Inr f \<Rightarrow> ret ((res, pend), Some f)))
      (\<lambda>(st, fence) w. kept (fence_up tid direction (last evs)) n w \<and> no_position st)
      (\<lambda>_ _. kept (base tid direction) n) (kept (base tid direction) n)"
    using assms by (cases st) (auto intro!: spec_conj_pure)
qed

lemma apply_without_fence:
  assumes "\<not> tg_transactional T"
  shows "spec (kept (base tid direction) n)
     (apply_and_fence (tid, direction, task, mode, targetDS, T) sourceDS evs)
     (\<lambda>(st, fence) w. kept (base tid direction) n w \<and> fence = None)
     (\<lambda>_ _. kept (base tid direction) n) (kept (base tid direction) n)"
  unfolding apply_and_fence_def prod.case
  using assms by (intro spec_bnd [OF spec_query_any] spec_bnd [OF apply_events_spec])
    (auto simp: no_position_def zero_CDCApplyResult_def intro!: spec_ret split: prod.split)

lemma spec_out:
  assumes "spec P m (\<lambda>_. A) (\<lambda>_ _. A) A" and "\<And>w. A w \<Longrightarrow> J w"
  shows "spec P m (\<lambda>_. J) (\<lambda>_ _. J) J"
  using assms by (auto intro: spec_weaken)

lemma base_one: "kept (base tid direction) n w \<Longrightarrow> at_most_one tid direction ev n w"
  and covered_one: "kept (covered tid direction ev) (Suc n) w \<Longrightarrow> at_most_one tid direction ev n w"
  and fence_one: "kept (fence_up tid direction ev) (Suc n) w \<Longrightarrow> at_most_one tid direction ev n w"
  by (auto simp: at_most_one_def intro: fence_covered)

text \<open>Sending COMMIT with the fence up, and what follows.\<close>

lemma commit_and_finish:
  assumes d: "direction \<in> {''forward'', ''reverse''}"
    and ev: "ev_PositionType ev \<noteq> []" "ev_PositionValue ev \<noteq> []" and st: "no_position (res, pend)"
  shows "spec (kept (fence_up tid direction ev) n)
     (bnd (bnd (call_target T CommitCDCTransaction) (\<lambda>x. case x of
               None \<Rightarrow> ret ()
             | Some e \<Rightarrow> fail_with (Some res)
                 (CommitUnknown (Wrapped ''commit target CDC transaction: '' (text_error e)))))
        (\<lambda>_. finish_apply tid direction sourceDS ev res pend fence))
     (\<lambda>_. at_most_one tid direction ev n) (\<lambda>_ _. at_most_one tid direction ev n)
     (at_most_one tid direction ev n)"
proof (rule spec_bnd)
  let ?J = "at_most_one tid direction ev n"
  have "spec (kept (fence_up tid direction ev) n) (call_target T CommitCDCTransaction)
      (\<lambda>_. kept (fence_up tid direction ev) (Suc n)) (\<lambda>_ _. ?J) ?J"
    by (rule spec_weaken [OF spec_commit]) (auto intro: base_one fence_base)
  then show "spec (kept (fence_up tid direction ev) n)
     (bnd (call_target T CommitCDCTransaction) (\<lambda>x. case x of
               None \<Rightarrow> ret ()
             | Some e \<Rightarrow> fail_with (Some res)
                 (CommitUnknown (Wrapped ''commit target CDC transaction: '' (text_error e)))))
     (\<lambda>_. kept (fence_up tid direction ev) (Suc n)) (\<lambda>_ _. ?J) ?J"
    by (rule spec_bnd) (auto intro!: spec_ret spec_fail intro: fence_one split: option.split)
  fix x
  show "spec (kept (fence_up tid direction ev) (Suc n)) (finish_apply tid direction sourceDS ev res pend fence)
      (\<lambda>_. ?J) (\<lambda>_ _. ?J) ?J"
    using st by (intro spec_out [OF finish_apply_spec [OF d ev]]) (auto simp: no_position_def intro: covered_one)
qed

lemma row_request_spec:
  assumes d: "direction \<in> {''forward'', ''reverse''}"
    and ev: "ev_PositionType (last evs) \<noteq> []" "ev_PositionValue (last evs) \<noteq> []"
  shows "spec (kept (base tid direction) n) (apply_row_request tid direction task sourceDS targetDS T evs)
     (\<lambda>_. at_most_one tid direction (last evs) n) (\<lambda>_ _. at_most_one tid direction (last evs) n)
     (at_most_one tid direction (last evs) n)"
proof (cases "tg_transactional T")
  case True
  let ?J = "at_most_one tid direction (last evs) n" and ?B = "kept (base tid direction) n"
  have opened: "spec ?B (ok_call None m T BeginCDCTransaction) (\<lambda>_. ?B) (\<lambda>_ _. ?J) ?J" for m
    by (rule spec_weaken [OF keeps_ok_call [OF keeps_calls(1)]]) (auto intro: base_one)
  have applied: "spec ?B (rollback_on_error T
        (apply_and_fence (tid, direction, task, mode, targetDS, T) sourceDS evs))
      (\<lambda>(st, fence) w. kept (fence_up tid direction (last evs)) n w \<and> no_position st) (\<lambda>_ _. ?J) ?J" for mode
    by (rule spec_weaken [OF spec_rollback [OF apply_and_fence_spec [OF True]]]) (auto intro: base_one)
  show ?thesis
    unfolding apply_row_request_def Let_def if_P [OF True]
    by (intro spec_if spec_fail base_one spec_bnd [OF opened] spec_bnd [OF applied])
      (auto split: prod.split intro!: spec_conj_pure commit_and_finish [OF d ev])
next
  case False
  have "keeps (kept (base tid direction) n) (apply_row_request tid direction task sourceDS targetDS T evs)"
    unfolding apply_row_request_def Let_def if_not_P [OF False]
    by (intro svc_rule spec_bnd [OF spec_rollback [OF apply_without_fence [OF False]]])
      (auto split: prod.split intro!: spec_conj_pure svc_rule keeps_finish [OF d])
  then show ?thesis by (rule spec_out) (rule base_one)
qed

lemma spec_or:
  "spec P m Q F C \<Longrightarrow> spec P' m Q F C \<Longrightarrow> spec (\<lambda>w. P w \<or> P' w) m Q F C"
  by (auto simp: spec_def)

lemma keeps_at_most_one:
  assumes "keeps (kept (base tid direction) n) m" "keeps (kept (covered tid direction ev) (Suc n)) m"
  shows "keeps (at_most_one tid direction ev n) m"
  unfolding at_most_one_def using assms by (auto intro!: spec_or elim: spec_weaken)

lemma spec_deferred:
  assumes "spec P m (\<lambda>_. J) (\<lambda>_ _. J) J" "keeps J c"
  shows "spec P (deferred m c) (\<lambda>_. J) (\<lambda>_ _. J) J"
  using assms by (intro specI) (auto simp: deferred_def split: prod.splits outcome.splits
      dest: spec_Done spec_Failed spec_Crashed)

definition request_direction :: "CDCApplyRequest \<Rightarrow> string" where
  "request_direction req = (let d = to_lower (trim_space (ar_Direction req)) in
     if d = [] then ''forward'' else d)"

lemma keeps_base_delete [svc_rule]:
  "keeps (kept (base tid direction) n) (write_repo (\<lambda>io. DeleteCDCDeadLetter io i))"
  by (rule keeps_write [OF writes_letter(3)]) (auto simp: base_def)

lemma keeps_cleanup: "keeps (kept (base tid direction) n) (cleanupTransientCDCCommitFence tid direction ev)"
  unfolding cleanupTransientCDCCommitFence_def Let_def by (intro svc_rule)

lemma keeps_ddls [svc_rule]: "keeps (kept B n) (apply_ddls T dflt index evs res)"
  by (induction T dflt index evs res rule: apply_ddls.induct) (auto simp: Let_def intro!: svc_rule)

lemma keeps_ddl_request:
  "direction \<in> {''forward'', ''reverse''} \<Longrightarrow>
   keeps (kept (base tid direction) n) (apply_ddl_request tid direction task sourceDS targetDS T evs)"
  unfolding apply_ddl_request_def by (intro svc_rule keeps_persist)

lemma keeps_close: "keeps (at_most_one tid direction ev n) (ignore (call_target T CloseTarget))"
  by (intro keeps_at_most_one svc_rule)

lemma spec_env: "spec P (env f) (\<lambda>_. P) F C"
  by (simp add: spec_def env_def)

lemma spec_fetch_any: "(\<And>w e. P w \<Longrightarrow> F None (Plain e) w) \<Longrightarrow> spec P (fetch f) (\<lambda>_. P) F C"
  by (auto simp: spec_def fetch_def split: sum.split)

lemma spec_option:
  "(v = None \<Longrightarrow> spec P a Q F C) \<Longrightarrow> (\<And>x. v = Some x \<Longrightarrow> spec P (f x) Q F C) \<Longrightarrow>
   spec P (case v of None \<Rightarrow> a | Some x \<Rightarrow> f x) Q F C"
  by (cases v) simp_all

lemma spec_sum:
  "(\<And>x. v = Inl x \<Longrightarrow> spec P (f x) Q F C) \<Longrightarrow> (\<And>x. v = Inr x \<Longrightarrow> spec P (g x) Q F C) \<Longrightarrow>
   spec P (case v of Inl x \<Rightarrow> f x | Inr x \<Rightarrow> g x) Q F C"
  by (cases v) simp_all

text \<open>From a world in which nothing is known of the transaction.\<close>

lemma apply_from_base:
  assumes ev: "ev_PositionType (last (ar_Events req)) \<noteq> []"
  defines "direction \<equiv> request_direction req"
  shows "spec (kept (base tid direction) n) (ApplyCDCEvents bypass tid req)
     (\<lambda>_. at_most_one tid direction (last (ar_Events req)) n)
     (\<lambda>_ _. at_most_one tid direction (last (ar_Events req)) n)
     (at_most_one tid direction (last (ar_Events req)) n)"
proof -
  let ?ev = "last (ar_Events req)" and ?B = "kept (base tid direction) n"
  let ?J = "at_most_one tid direction ?ev n"
  have dir: "(if to_lower (trim_space (ar_Direction req)) = [] then ''forward''
      else to_lower (trim_space (ar_Direction req))) = direction"
    by (simp add: direction_def request_direction_def Let_def)
  have out: "spec ?B m (\<lambda>_. ?J) (\<lambda>_ _. ?J) ?J" if "keeps ?B m" for m :: "CDCApplyResult svc"
    using that by (rule spec_out) (rule base_one)
  have dup: "keeps ?B (bnd (query (duplicate_result tid direction ?ev)) (\<lambda>res.
       bnd (attempt (cleanupTransientCDCCommitFence tid direction ?ev)) (\<lambda>r. case r of
           Inl (_, e) \<Rightarrow> fail (Wrapped ''cleanup checkpointed CDC commit fence: '' e)
         | Inr _ \<Rightarrow> ret res)))"
    by (intro svc_rule keeps_cleanup)
  show ?thesis
  proof (cases "direction \<in> {''forward'', ''reverse''} \<and> ev_PositionValue ?ev \<noteq> []")
    case False
    then show ?thesis
      unfolding ApplyCDCEvents_def Let_def dir
      by (intro spec_bnd [OF spec_fetch_any] base_one) (auto intro!: spec_fail base_one)
  next
    case True
    then have d: "direction \<in> {''forward'', ''reverse''}" and v: "ev_PositionValue ?ev \<noteq> []" by auto
    show ?thesis
      unfolding ApplyCDCEvents_def Let_def dir
      by (intro spec_bnd [OF spec_fetch_any] spec_bnd [OF spec_query_any] spec_bnd [OF spec_env]
          spec_if spec_option spec_sum spec_fail base_one out [OF dup] out [OF keeps_persist [OF d]]
          spec_deferred keeps_close out [OF keeps_ddl_request [OF d]] row_request_spec [OF d ev v])
  qed
qed

text \<open>From a world in which the transaction is covered: nothing is sent.\<close>

lemma fenced_blocks:
  assumes "fenced tid direction ev (st_cdcDeadLetters s)"
  shows "unresolvedCommitRecovery tid direction s \<noteq> None"
proof -
  from assms obtain v where v: "map_of (st_cdcDeadLetters s) (cdcDeadLetterID tid direction ev) = Some v"
    "dl_Status v = CDCDeadLetterCommitUncertain" "tid = [] \<or> dl_TaskID v = tid"
    "equal_fold (dl_Direction v) direction"
    by (auto simp: fenced_def split: option.splits)
  from v(1) have "v \<in> set (ListCDCDeadLetters tid s)"
    using v(3) by (auto simp: listed_letters dest: map_of_SomeD)
  with v show ?thesis by (auto simp: unresolvedCommitRecovery_def find_None_iff)
qed

lemma unresolved_named:
  "unresolvedCommitRecovery tid direction s = Some v \<Longrightarrow> named_letters (st_cdcDeadLetters s) \<Longrightarrow> dl_ID v \<noteq> []"
  unfolding unresolvedCommitRecovery_def using find_member named_listed by metis

lemma cleanup_covered:
  "spec (settled tid direction ev n) (cleanupTransientCDCCommitFence tid direction ev)
     (\<lambda>_. kept (covered tid direction ev) n) (\<lambda>_ _. kept (covered tid direction ev) n)
     (kept (covered tid direction ev) n)"
  unfolding cleanupTransientCDCCommitFence_def Let_def
  by (intro spec_bnd [OF spec_query_any] spec_sum spec_if settled_delete spec_ret settled_covered)

lemma spec_query_if:
  "spec (\<lambda>w. P w \<and> f (w_store w)) a Q F C \<Longrightarrow> spec (\<lambda>w. P w \<and> \<not> f (w_store w)) b Q F C \<Longrightarrow>
   spec P (bnd (query f) (\<lambda>x. if x then a else b)) Q F C"
  by (auto simp: spec_def bnd_def query_def)

lemma spec_query_bnd:
  "(\<And>x. spec (\<lambda>w. P w \<and> x = f (w_store w)) (g x) Q F C) \<Longrightarrow> spec P (bnd (query f) g) Q F C"
  by (rule spec_bnd [OF spec_query])

lemma apply_from_covered:
  fixes req :: CDCApplyRequest
  defines "direction \<equiv> request_direction req"
  shows "keeps (kept (covered tid direction (last (ar_Events req))) n) (ApplyCDCEvents [] tid req)"
proof -
  let ?ev = "last (ar_Events req)"
  let ?C = "kept (covered tid direction ?ev) n"
  have dir: "(if to_lower (trim_space (ar_Direction req)) = [] then ''forward''
      else to_lower (trim_space (ar_Direction req))) = direction"
    by (simp add: direction_def request_direction_def Let_def)
  have dup: "spec (settled tid direction ?ev n) (bnd (query (duplicate_result tid direction ?ev)) (\<lambda>res.
       bnd (attempt (cleanupTransientCDCCommitFence tid direction ?ev)) (\<lambda>r. case r of
           Inl (_, e) \<Rightarrow> fail (Wrapped ''cleanup checkpointed CDC commit fence: '' e)
         | Inr _ \<Rightarrow> ret res))) (\<lambda>_. ?C) (\<lambda>_ _. ?C) ?C"
    by (intro spec_bnd [OF spec_query_any] spec_bnd [OF spec_attempt [OF cleanup_covered]])
      (auto intro!: spec_fail spec_ret split: sum.split)
  have blocked: "spec (\<lambda>w. ?C w \<and> rec = unresolvedCommitRecovery tid direction (w_store w)
         \<and> fenced tid direction ?ev (st_cdcDeadLetters (w_store w)))
      (case (case rec of
             Some v \<Rightarrow> if dl_Status v = CDCDeadLetterReplayRequired \<and> [] = dl_ID v then None else Some v
           | None \<Rightarrow> None) of
       Some v \<Rightarrow> fail (BlockedBy (dl_ID v) (dl_PositionType v) (dl_PositionValue v) (dl_Status v))
     | None \<Rightarrow> m) (\<lambda>_. ?C) (\<lambda>_ _. ?C) ?C" for rec and m :: "CDCApplyResult svc"
  proof (cases "\<exists>v. rec = Some v \<and> dl_ID v \<noteq> []")
    case True
    then show ?thesis by (auto intro!: spec_fail)
  next
    case False
    then have "\<not> (?C w \<and> rec = unresolvedCommitRecovery tid direction (w_store w)
        \<and> fenced tid direction ?ev (st_cdcDeadLetters (w_store w)))" for w
      using fenced_blocks unresolved_named base_of_covered by (metis not_Some_eq)
    then show ?thesis by (rule spec_False)
  qed
  have known: "spec (\<lambda>w. ?C w \<and> rec = unresolvedCommitRecovery tid direction (w_store w)
         \<and> \<not> newest_is tid direction ?ev (st_cdcPositions (w_store w)))
      (case (case rec of
             Some v \<Rightarrow> if dl_Status v = CDCDeadLetterReplayRequired \<and> [] = dl_ID v then None else Some v
           | None \<Rightarrow> None) of
       Some v \<Rightarrow> fail (BlockedBy (dl_ID v) (dl_PositionType v) (dl_PositionValue v) (dl_Status v))
     | None \<Rightarrow> m) (\<lambda>_. ?C) (\<lambda>_ _. ?C) ?C" for rec and m :: "CDCApplyResult svc"
    by (rule spec_pre [OF blocked]) (auto simp: kept_def safe_store_def covered_def)
  show ?thesis
    unfolding ApplyCDCEvents_def Let_def dir
    by (intro spec_bnd [OF spec_fetch_any] spec_if spec_fail spec_query_if spec_pre [OF dup]
        spec_query_bnd spec_pre [OF known]) (auto simp: checkpointed_iff settled_def)
qed

section \<open>Recording a failure\<close>

lemma failed_again_fields [simp]:
  "dl_ID (failed_again evs cause status now v) = dl_ID v"
  "dl_TaskID (failed_again evs cause status now v) = dl_TaskID v"
  "dl_Direction (failed_again evs cause status now v) = dl_Direction v"
  "dl_Status v = CDCDeadLetterCommitUncertain \<Longrightarrow>
   dl_Status (failed_again evs cause status now v) = CDCDeadLetterCommitUncertain"
  by (simp_all add: failed_again_def)

lemma named_lookup: "named_letters ds \<Longrightarrow> map_of ds k = Some v \<Longrightarrow> dl_ID v = k \<and> k \<noteq> []"
  by (auto simp: named_letters_def list_all_iff dest!: map_of_SomeD)

text \<open>Both shapes of invariants survive the update and the creation of a dead letter.\<close>

lemma record_update:
  assumes "B = base tid direction \<or> B = covered tid direction ev"
  shows "spec (\<lambda>w. kept B n w \<and> GetCDCDeadLetter i (w_store w) = Inr v)
     (write_repo (\<lambda>io. UpdateCDCDeadLetter io (failed_again evs cause status now v)))
     (\<lambda>_. kept B n) (\<lambda>_ _. kept B n) (kept B n)"
proof (rule spec_write [OF writes_letter(2)])
  fix s assume g: "GetCDCDeadLetter i s = Inr v" and b: "in_memory B s"
  from g have m: "map_of (st_cdcDeadLetters s) i = Some v"
    by (auto simp: GetCDCDeadLetter_def found_def split: option.splits)
  from b assms have named: "named_letters (st_cdcDeadLetters s)" by (auto simp: about_defs)
  from named_lookup [OF named m] have id: "dl_ID v = i" "i \<noteq> []" by simp_all
  have "named_letters (AList.update i (failed_again evs cause status now v) (st_cdcDeadLetters s))"
    using named id by (intro named_update) simp_all
  moreover have "fenced tid direction ev (AList.update i (failed_again evs cause status now v) (st_cdcDeadLetters s))"
    if "fenced tid direction ev (st_cdcDeadLetters s)"
    using that m by (auto simp: fenced_def update_conv split: option.splits)
  ultimately show "in_memory B (with_letter (failed_again evs cause status now v) s)"
    using b assms id by (auto simp: about_defs)
qed

lemma record_create:
  assumes "B = base tid direction \<or> B = covered tid direction ev" "dl_ID v \<noteq> []"
  shows "spec (\<lambda>w. kept B n w \<and> isl (GetCDCDeadLetter (dl_ID v) (w_store w)))
     (write_repo (\<lambda>io. CreateCDCDeadLetter io v)) (\<lambda>_. kept B n) (\<lambda>_ _. kept B n) (kept B n)"
proof (rule spec_write [OF writes_letter(1)])
  fix s assume g: "isl (GetCDCDeadLetter (dl_ID v) s)" and b: "in_memory B s"
  from g have m: "map_of (st_cdcDeadLetters s) (dl_ID v) = None"
    by (auto simp: GetCDCDeadLetter_def found_def split: option.splits)
  have "fenced tid direction ev (AList.update (dl_ID v) v (st_cdcDeadLetters s))"
    if "fenced tid direction ev (st_cdcDeadLetters s)"
    using that m by (auto simp: fenced_def update_conv split: option.splits)
  then show "in_memory B (with_letter v s)"
    using b assms by (auto simp: about_defs)
qed

lemma spec_ignore: "spec P m (\<lambda>_. J) (\<lambda>_ _. J) C \<Longrightarrow> spec P (ignore m) (\<lambda>_. J) F C"
  unfolding ignore_def by (rule spec_bnd [OF spec_attempt]) (auto intro: spec_ret)

lemma isl_sym: "Inl x = y \<Longrightarrow> isl y"
  by auto

lemma keeps_record:
  assumes B: "B = base tid direction \<or> B = covered tid direction ev"
  shows "keeps (kept B n) (recordCDCDeadLetter t d req cause)"
  unfolding recordCDCDeadLetter_def Let_def
  by (intro keeps_if keeps_bnd [OF keeps_getenv] keeps_bnd [OF keeps_env] keeps_bnd [OF keeps_clock]
      keeps_alert keeps_ret spec_query_bnd spec_bnd [where R = "\<lambda>_. kept B n"] spec_sum spec_ignore)
    (auto intro!: spec_pre [OF record_update [OF B]] spec_pre [OF record_create [OF B]]
      intro: sym isl_sym)

section \<open>At most one COMMIT\<close>

text \<open>One delivery of a transaction, as \<open>ApplyEngineJobCDCEvents\<close> and the spool drain make it: a
  failure is recorded as a dead letter. Between deliveries the process may start again.\<close>

definition deliver :: "string \<Rightarrow> CDCApplyRequest \<Rightarrow> CDCApplyResult svc" where
  "deliver tid req =
     bnd (attempt (ApplyCDCEvents [] tid req)) (\<lambda>r. case r of
       Inr x \<Rightarrow> ret x
     | Inl (res, e) \<Rightarrow>
         bnd (recordCDCDeadLetter tid (request_direction req) req e) (\<lambda>_. fail_with res e))"

datatype cdc_life = Deliver Env | Restart

definition restarted :: "World \<Rightarrow> World" where
  "restarted w = (let s = w_store w in
     case NewPersistent None (st_path s) (st_disk s) of
       Inr s' \<Rightarrow> w\<lparr>w_store := s', w_pressure := []\<rparr> | Inl _ \<Rightarrow> w)"

fun live :: "string \<Rightarrow> CDCApplyRequest \<Rightarrow> cdc_life \<Rightarrow> World \<Rightarrow> World" where
  "live tid req (Deliver E) w = fst (deliver tid req E w)"
| "live tid req Restart w = restarted w"

lemma keeps_deliver:
  assumes "ev_PositionType (last (ar_Events req)) \<noteq> []"
  shows "keeps (at_most_one tid (request_direction req) (last (ar_Events req)) n) (deliver tid req)"
proof -
  let ?J = "at_most_one tid (request_direction req) (last (ar_Events req)) n"
  have "keeps ?J (ApplyCDCEvents [] tid req)"
    unfolding at_most_one_def
  proof (rule spec_or)
    show "spec (kept (base tid (request_direction req)) n) (ApplyCDCEvents [] tid req)
       (\<lambda>_ w. kept (base tid (request_direction req)) n w \<or>
          kept (covered tid (request_direction req) (last (ar_Events req))) (Suc n) w)
       (\<lambda>_ _ w. kept (base tid (request_direction req)) n w \<or>
          kept (covered tid (request_direction req) (last (ar_Events req))) (Suc n) w)
       (\<lambda>w. kept (base tid (request_direction req)) n w \<or>
          kept (covered tid (request_direction req) (last (ar_Events req))) (Suc n) w)"
      using apply_from_base [OF assms] unfolding at_most_one_def .
  qed (rule spec_out [OF apply_from_covered], simp)
  moreover have "keeps ?J (recordCDCDeadLetter tid d req e)" for d e
    by (intro keeps_at_most_one keeps_record) blast+
  ultimately show ?thesis
    unfolding deliver_def by (intro keeps_bnd keeps_attempt) (auto intro!: svc_rule)
qed

lemma spec_fst:
  assumes "spec P m (\<lambda>_. J) (\<lambda>_ _. J) J" "P w"
  shows "J (fst (m E w))"
proof -
  obtain w' r where m: "m E w = (w', r)" by (cases "m E w")
  then show ?thesis
    using assms spec_Done [OF assms(1,2)] spec_Failed [OF assms(1,2)] spec_Crashed [OF assms(1,2)]
    by (cases r) auto
qed

lemma restarted_kept:
  assumes "kept B n w"
  shows "kept B n (restarted w)"
proof (cases "NewPersistent None (st_path (w_store w)) (st_disk (w_store w))")
  case (Inl e)
  then show ?thesis using assms by (simp add: restarted_def Let_def)
next
  case (Inr s')
  then show ?thesis using assms safe_store_reload [OF _ Inr] by (simp add: restarted_def Let_def kept_def)
qed

lemma live_one:
  assumes "ev_PositionType (last (ar_Events req)) \<noteq> []"
    and "at_most_one tid (request_direction req) (last (ar_Events req)) n w"
  shows "at_most_one tid (request_direction req) (last (ar_Events req)) n (live tid req step w)"
proof (cases step)
  case (Deliver E)
  then show ?thesis using spec_fst [OF keeps_deliver [OF assms(1)] assms(2)] by simp
next
  case Restart
  then show ?thesis using assms(2) by (auto simp: at_most_one_def intro: restarted_kept)
qed


definition demo_target :: Target where
  "demo_target = \<lparr>tg_answer = \<lambda>cs. if last cs = CommitCDCTransaction then Some ''connection reset'' else None,
     tg_row = \<lambda>cs. None, tg_position = \<lambda>cs. zero_CDCPosition, tg_metadata = \<lambda>cs. zero_TableMetadata,
     tg_boundaries = \<lambda>cs. [], tg_proof = \<lambda>cs. zero_RelocationProof, tg_load = \<lambda>cs. zero_RuntimeLoad,
     tg_version = \<lambda>cs. [], tg_schemas = \<lambda>cs. [], tg_tables = \<lambda>cs. [], tg_no_metadata = \<lambda>cs. False,
     tg_prechecks = \<lambda>cs. [], tg_partitions = \<lambda>cs. [], tg_placements = \<lambda>cs. [], tg_objects = \<lambda>cs. [],
     tg_sequence = \<lambda>cs. ([], False), tg_batch = \<lambda>cs. zero_RowBatch, tg_apply = True, tg_transactional = True, tg_lookup = True,
     tg_truncate = True, tg_ddl = True, tg_sync_generated = True, tg_finalize_generated = True,
     tg_selection_position = False, tg_mysql_binlog = False, tg_checkpoint = True, tg_cdc_source = True,
     tg_post_load_schema = False, tg_keyset_boundary = False, tg_relocation = False, tg_runtime_load = False,
     tg_data = True, tg_precheck = False, tg_selection_validator = False, tg_schema = False,
     tg_composite_schema = False, tg_partition = False, tg_topology = False, tg_schema_objects = False,
     tg_sequence_state = False, tg_sequence_binding = False, tg_snapshot = False\<rparr>"

definition demo_env :: "(nat \<Rightarrow> bool) \<Rightarrow> Env" where
  "demo_env crash = \<lparr>sv_instance = ''srv_1'', sv_env = \<lambda>k. [], sv_io = \<lambda>n. IOok, sv_now = int, sv_rand = nat_str,
     sv_fault = \<lambda>n k. None, sv_crash = crash, sv_cancelled = \<lambda>n. False, sv_others = \<lambda>n s. s, sv_require = \<lambda>c t. None,
     sv_connect = \<lambda>d. Inr demo_target, sv_json_len = \<lambda>evs. 1, sv_parse_time = \<lambda>l s. None,
     sv_parse_rat = \<lambda>s. None,
     sv_parse_float = \<lambda>s. None, sv_zone = \<lambda>z. Inl ''unknown time zone'', sv_local = \<lambda>t. 0,
     sv_tls = None, sv_translation = \<lambda>n q. Inl ''no translator'', sv_render = \<lambda>m s d ts. Inl ''no reader'',
     sv_supports = \<lambda>c ty. False, sv_json = \<lambda>t. None\<rparr>"

definition demo_request :: CDCApplyRequest where
  "demo_request = \<lparr>ar_Direction = '''',
     ar_Events = [zero_CDCEvent\<lparr>ev_PositionType := ''LSN'', ev_PositionValue := ''0/1''\<rparr>]\<rparr>"

definition demo_world :: World where
  "demo_world = \<lparr>w_store = newStore ''dts.json'' \<lparr>dk_main = Missing, dk_tmp = Missing\<rparr>,
     w_calls = [], w_tick = 0, w_spawned = [], w_pressure = []\<rparr>"


section \<open>No checkpoint without a commit\<close>

text \<open>The COMMIT after the first \<open>n\<close> ones was answered without an error.\<close>

definition commit_answered :: "Target \<Rightarrow> nat \<Rightarrow> target_call list \<Rightarrow> bool" where
  "commit_answered T n calls \<longleftrightarrow> (\<exists>cs. prefix cs calls \<and> cs \<noteq> [] \<and>
     last cs = CommitCDCTransaction \<and> count_list cs CommitCDCTransaction = Suc n \<and> tg_answer T cs = None)"

definition not_newest :: "string \<Rightarrow> string \<Rightarrow> CDCEvent \<Rightarrow> about" where
  "not_newest tid direction ev ps ds \<longleftrightarrow> \<not> newest_is tid direction ev ps"

text \<open>What the service does in the repository leaves the calls alone.\<close>

lemma keeps_calls_only [svc_rule]:
  "keeps (\<lambda>w. R (w_calls w)) (write_repo f)" "keeps (\<lambda>w. R (w_calls w)) clock"
  "keeps (\<lambda>w. R (w_calls w)) (newID k)" "keeps (\<lambda>w. R (w_calls w)) (checkpoint_fault name)"
  by (auto simp: spec_def write_repo_def clock_def newID_def checkpoint_fault_def tick_def
      case_prod_unfold Let_def)

lemma finish_calls:
  "keeps (\<lambda>w. R (w_calls w)) (finish_apply tid direction sourceDS ev res pend fence)"
proof -
  have conflicts: "keeps (\<lambda>w. R (w_calls w)) (create_conflicts res pend)"
    by (induction pend) (auto intro!: svc_rule)
  show ?thesis
    unfolding finish_apply_def persistCDCApplyResult_def recordCDCProgress_def
      RecordRollbackCDCProgress_def injected_def maybeAlertCDCLag_def alert_def logTask_def
      completeCDCCommitFence_def Let_def
    by (intro svc_rule conflicts)
qed

lemma keeps_letters:
  assumes "\<And>ps ds ds'. B ps ds = B ps ds'"
  shows "keeps (kept B n) (write_repo (\<lambda>io. CreateCDCDeadLetter io v))"
    "keeps (kept B n) (write_repo (\<lambda>io. UpdateCDCDeadLetter io v))"
  by (rule keeps_write [OF writes_letter(1)] keeps_write [OF writes_letter(2)]; simp; metis assms)+

lemma keeps_begin_fence:
  assumes "\<And>ps ds ds'. B ps ds = B ps ds'"
  shows "keeps (kept B n) (beginCDCCommitFence tid direction evs)"
  unfolding beginCDCCommitFence_def Let_def by (intro svc_rule keeps_letters assms)

lemma keeps_apply_and_fence:
  assumes "\<And>ps ds ds'. B ps ds = B ps ds'"
  shows "keeps (kept B n) (apply_and_fence (tid, direction, task, mode, targetDS, T) sourceDS evs)"
proof -
  have "keeps (kept B n) (apply_events c m d k evs (zero_CDCApplyResult, []))" for c m d k
    by (rule spec_weaken [OF apply_events_spec]) (auto simp: no_position_def zero_CDCApplyResult_def)
  then show ?thesis
    unfolding apply_and_fence_def prod.case by (intro svc_rule keeps_begin_fence assms)
qed

lemma commit_sent:
  assumes "kept B n w" "call_target T CommitCDCTransaction E w = (w', Done None)"
  shows "commit_answered T n (w_calls w')"
proof -
  from assms have "w_calls w' = w_calls w @ [CommitCDCTransaction]" "tg_answer T (w_calls w') = None"
    "count_list (w_calls w') CommitCDCTransaction = Suc n"
    by (auto simp: call_target_def tick_def Let_def kept_def commits_def split: if_splits)
  then show ?thesis unfolding commit_answered_def by (intro exI [of _ "w_calls w'"]) simp
qed

text \<open>
  C28. On a transactional target no checkpoint is recorded for a transaction whose COMMIT the
  target has not confirmed: whatever fails, if the transaction is the newest checkpoint after a
  request and was not before, a COMMIT sent by this request was answered without an error.
\<close>

theorem no_checkpoint_without_commit:
  assumes T: "tg_transactional T" and s: "safe_store (not_newest tid direction (last evs)) (w_store w)"
    and ended: "fst (apply_row_request tid direction task sourceDS targetDS T evs E w) = w'"
    and "checkpointed tid direction (last evs) (w_store w')"
  shows "commit_answered T (commits w) (w_calls w')"
proof -
  let ?B = "not_newest tid direction (last evs)"
  let ?J = "\<lambda>w'. safe_store ?B (w_store w') \<or> commit_answered T (commits w) (w_calls w')"
  have indep: "?B ps ds = ?B ps ds'" for ps ds ds' by (simp add: not_newest_def)
  have out: "spec (kept ?B n) m (\<lambda>_. kept ?B n) (\<lambda>_ _. ?J) ?J"
    if "keeps (kept ?B n) m" for n and m :: "'x svc"
    using that by (rule spec_weaken) auto
  have "spec (kept ?B (commits w)) (call_target T CommitCDCTransaction) (\<lambda>_. kept ?B (Suc (commits w)))
      (\<lambda>_ _. ?J) ?J"
    by (rule spec_weaken [OF spec_commit]) auto
  then have commit: "spec (kept ?B (commits w)) (call_target T CommitCDCTransaction)
      (\<lambda>r w'. ?J w' \<and> (r = None \<longrightarrow> commit_answered T (commits w) (w_calls w'))) (\<lambda>_ _. ?J) ?J"
    by (intro specI) (auto dest: spec_Done spec_Failed spec_Crashed commit_sent)
  have rest: "spec (kept ?B (commits w))
     (bnd (bnd (call_target T CommitCDCTransaction) (\<lambda>x. case x of
               None \<Rightarrow> ret ()
             | Some e \<Rightarrow> fail_with (Some res)
                 (CommitUnknown (Wrapped ''commit target CDC transaction: '' (text_error e)))))
        (\<lambda>_. finish_apply tid direction sourceDS (last evs) res pend fence))
     (\<lambda>_. ?J) (\<lambda>_ _. ?J) ?J" for res pend fence
  proof (rule spec_bnd)
    show "spec (kept ?B (commits w))
       (bnd (call_target T CommitCDCTransaction) (\<lambda>x. case x of
               None \<Rightarrow> ret ()
             | Some e \<Rightarrow> fail_with (Some res)
                 (CommitUnknown (Wrapped ''commit target CDC transaction: '' (text_error e)))))
       (\<lambda>_ w'. commit_answered T (commits w) (w_calls w')) (\<lambda>_ _. ?J) ?J"
      by (rule spec_bnd [OF commit]) (auto intro!: spec_ret spec_fail split: option.split)
    fix x
    show "spec (\<lambda>w'. commit_answered T (commits w) (w_calls w'))
        (finish_apply tid direction sourceDS (last evs) res pend fence) (\<lambda>_. ?J) (\<lambda>_ _. ?J) ?J"
      by (rule spec_out [OF finish_calls]) simp
  qed
  have "spec (kept ?B (commits w)) (apply_row_request tid direction task sourceDS targetDS T evs)
      (\<lambda>_. ?J) (\<lambda>_ _. ?J) ?J"
    unfolding apply_row_request_def Let_def if_P [OF T]
    by (intro spec_if spec_fail spec_bnd [OF out [OF keeps_ok_call [OF keeps_calls(1)]]]
        spec_bnd [OF out [OF keeps_rollback [OF keeps_apply_and_fence [OF indep]]]])
      (auto split: prod.split intro: rest)
  then have "?J (fst (apply_row_request tid direction task sourceDS targetDS T evs E w))"
    by (rule spec_fst) (use s in \<open>simp add: kept_def\<close>)
  then show ?thesis
    using ended assms(4) by (auto simp: safe_store_def not_newest_def checkpointed_iff)
qed

text \<open>A complete run: one TRUNCATE on a target that confirms everything.\<close>

definition demo_store :: Store where
  "demo_store = (newStore ''dts.json'' \<lparr>dk_main = Missing, dk_tmp = Missing\<rparr>)\<lparr>
     st_migrations := [(''mig'', zero_MigrationTask\<lparr>mig_ID := ''mig'', mig_Status := StatusCDCCatchingUp\<rparr>)],
     st_tables := [(''tab'', zero_MigrationTable\<lparr>tbl_ID := ''tab'', tbl_TaskID := ''mig'',
       tbl_SourceTable := ''t'', tbl_TargetTable := ''t''\<rparr>)]\<rparr>"

definition demo_truncate :: CDCEvent where
  "demo_truncate = zero_CDCEvent\<lparr>ev_Operation := CDCTruncate, ev_SourceTable := ''t'',
     ev_PositionType := ''LSN'', ev_PositionValue := ''0/1''\<rparr>"

definition demo_run :: "World \<times> CDCApplyResult outcome" where
  "demo_run = apply_row_request ''mig'' ''forward'' zero_MigrationTask zero_DataSource zero_DataSource
     (demo_target\<lparr>tg_answer := \<lambda>cs. None\<rparr>) [demo_truncate] (demo_env (\<lambda>n. False))
     (demo_world\<lparr>w_store := demo_store\<rparr>)"

lemmas svc_eval = bnd_def attempt_def tick_def ret_def fail_with_def query_def fetch_def env_def
  getenv_def write_repo_def ok_or_def ignore_def checkpoint_fault_def call_target_def ok_call_def
  clock_def newID_def envInt64_def intEnv_def alert_def logTask_def deferred_def

lemmas demo_defs = demo_run_def svc_eval apply_row_request_def apply_and_fence_def demo_target_def demo_env_def
    demo_world_def demo_store_def demo_truncate_def zero_MigrationTask_def zero_MigrationTable_def zero_DataSource_def
    zero_CDCEvent_def newStore_def rollback_on_error_def ListMigrationTables_def mapping_by_name_def objectName_def
    apply_event_def map_event_def defaultSchema_def apply_truncate_def keys_or_def beginCDCCommitFence_def
    ListCDCDeadLetters_def newest_first_def finish_apply_def persistCDCApplyResult_def injected_def IsPostgreSQLFamily_def
    CreateCDCDeadLetter_def persistLocked_def trim_space_def is_space_def to_upper_def zero_CDCApplyResult_def
    recordCDCProgress_def apply_position_def GetMigration_def found_def CreateCDCPosition_def maybeAlertCDCLag_def
    lag_threshold_def UpdateMigration_def completeCDCCommitFence_def DeleteCDCDeadLetter_def UnixMilli_def
lemma demo_run_eval:
  "w_calls (fst demo_run) = [BeginCDCTransaction, TruncateTable [] ''t'', CommitCDCTransaction] \<and>
   checkpointed ''mig'' ''forward'' demo_truncate (w_store (fst demo_run))"
  by (simp add: demo_defs Let_def checkpointed_def ListCDCPositions_def newest_matching_def page_limit_def)

theorem no_checkpoint_without_commit_witness:
  "commit_answered (demo_target\<lparr>tg_answer := \<lambda>cs. None\<rparr>) 0
     [BeginCDCTransaction, TruncateTable [] ''t'', CommitCDCTransaction]"
proof -
  let ?T = "demo_target\<lparr>tg_answer := \<lambda>cs. None\<rparr>" and ?w = "demo_world\<lparr>w_store := demo_store\<rparr>"
  have "commit_answered ?T (commits ?w) (w_calls (fst demo_run))"
  proof (rule no_checkpoint_without_commit [where tid = "''mig''" and direction = "''forward''"])
    show "tg_transactional ?T" by (simp add: demo_target_def)
    show "safe_store (not_newest ''mig'' ''forward'' (last [demo_truncate])) (w_store ?w)"
      by (simp add: safe_store_def not_newest_def newest_is_def newest_matching_def demo_store_def newStore_def)
    show "fst (apply_row_request ''mig'' ''forward'' zero_MigrationTask zero_DataSource zero_DataSource
        ?T [demo_truncate] (demo_env (\<lambda>n. False)) ?w) = fst demo_run"
      by (simp add: demo_run_def)
    show "checkpointed ''mig'' ''forward'' (last [demo_truncate]) (w_store (fst demo_run))"
      using demo_run_eval by simp
  qed
  then show ?thesis by (simp add: demo_run_eval commits_def demo_world_def)
qed

section \<open>Positions without a type\<close>

text \<open>The checkpoint of an event without a position type is stored with the type
  \<open>EVENT_BRIDGE\<close>, which the duplicate check does not find again: such a transaction is applied
  once more when it is delivered again.\<close>

lemma untyped_never_duplicate:
  assumes "ev_PositionType ev = []" "few_streams tid direction (st_cdcPositions s)"
    and "p = (apply_position ds res ev ''EVENT_BRIDGE'' now)\<lparr>pos_ID := i, pos_TaskID := tid,
       pos_Direction := direction, pos_RecordedAt := t\<rparr>"
  shows "\<not> checkpointed tid direction ev (with_position p s)"
proof -
  obtain qs where "st_cdcPositions (with_position p s) = qs @ [p]"
    using with_position_last [OF assms(2)] assms(3) by force
  then have "find (\<lambda>p. pos_Direction p = direction)
      (newest_matching 50 (\<lambda>p. pos_TaskID p = tid) (st_cdcPositions (with_position p s))) = Some p"
    using assms(3) by (simp add: newest_matching_def)
  then show ?thesis
    using assms(1,3) by (simp add: checkpointed_iff newest_is_def apply_position_def Let_def equal_fold_def to_lower_def)
qed

end
