(* ===== verification/ServiceOps.thy ===== *)
theory ServiceOps
  imports ServiceCore StoreQueries
begin

text \<open>
  What the operations of the migration service share beyond \<open>ServiceCore\<close>: printing of
  durations, writes that return a value, the control-operation leases of
  \<open>backend/internal/migration/service.go\<close> and the newest checkpoint of a direction.
\<close>

section \<open>Durations\<close>

text \<open>The fraction \<open>v / 10 ^ prec\<close> without trailing zeros, empty when it is zero, as \<open>fmtFrac\<close>.\<close>

definition zero_padded :: "nat \<Rightarrow> nat \<Rightarrow> string" where
  "zero_padded w n = (let s = nat_str n in replicate (w - length s) CHR ''0'' @ s)"

definition frac_text :: "nat \<Rightarrow> nat \<Rightarrow> string" where
  "frac_text prec v =
     (let digits = rev (dropWhile (\<lambda>c. c = CHR ''0'') (rev (zero_padded prec (v mod 10 ^ prec))))
      in if v mod 10 ^ prec = 0 then [] else CHR ''.'' # digits)"

definition with_unit :: "nat \<Rightarrow> nat \<Rightarrow> string \<Rightarrow> string" where
  "with_unit prec u unit = nat_str (u div 10 ^ prec) @ frac_text prec u @ unit"

definition duration_str :: "duration \<Rightarrow> string" where
  "duration_str d =
     (let u = nat \<bar>d\<bar>; secs = u div 10 ^ 9; mins = secs div 60; hours = mins div 60;
          body =
            (if u = 0 then ''0s''
             else if u < 10 ^ 3 then with_unit 0 u ''ns''
             else if u < 10 ^ 6 then with_unit 3 u [CHR 0xC2, CHR 0xB5, CHR ''s'']
             else if u < 10 ^ 9 then with_unit 6 u ''ms''
             else (if hours > 0 then nat_str hours @ ''h'' else [])
               @ (if mins > 0 then nat_str (mins mod 60) @ ''m'' else [])
               @ nat_str (secs mod 60) @ frac_text 9 u @ ''s'')
      in if d < 0 then CHR ''-'' # body else body)"

text \<open>\<open>Duration.Round\<close> to a positive unit, half away from zero; \<open>r\<close> is the remainder's size.\<close>

definition round_duration :: "duration \<Rightarrow> duration \<Rightarrow> duration" where
  "round_duration d m =
     (if m \<le> 0 then d
      else let r = \<bar>go_mod d m\<bar> in
        if d < 0 then
          (if 2 * r < m then d + r else if in_i64 (d - m + r) then d - m + r else - (2 ^ 63))
        else
          (if 2 * r < m then d - r else if in_i64 (d + m - r) then d + m - r else 2 ^ 63 - 1))"

text \<open>A number of seconds as a \<open>Duration\<close>; the product wraps around.\<close>

definition seconds :: "int \<Rightarrow> duration" where
  "seconds n = i64 (n * 10 ^ 9)"

text \<open>\<open>%.1f\<close> of a float that is not negative.\<close>

definition one_decimal :: "rat \<Rightarrow> string" where
  "one_decimal r = (let n = round_half_even (r * 10) in
     int_str (n div 10) @ CHR ''.'' # int_str (n mod 10))"

section \<open>Writes with a result\<close>

definition write_result :: "(Env \<Rightarrow> io \<Rightarrow> Store \<Rightarrow> Store \<times> 'a) \<Rightarrow> 'a svc" where
  "write_result f = tick (\<lambda>n E w.
     if sv_crash E n then (w, Crashed)
     else let (s, r) = f E (sv_io E n) (w_store w) in (w\<lparr>w_store := s\<rparr>, Done r))"

definition ok_result :: "(svc_error \<Rightarrow> svc_error) \<Rightarrow> (go_error + 'a) svc \<Rightarrow> 'a svc" where
  "ok_result f m = bnd m (\<lambda>r. case r of Inl e \<Rightarrow> fail (f (Plain e)) | Inr x \<Rightarrow> ret x)"

section \<open>Statuses as text\<close>

fun EngineJobStatus_string :: "EngineJobStatus \<Rightarrow> string" where
  "EngineJobStatus_string EngineJobPending = ''PENDING''"
| "EngineJobStatus_string EngineJobRunning = ''RUNNING''"
| "EngineJobStatus_string EngineJobStopRequested = ''STOP_REQUESTED''"
| "EngineJobStatus_string EngineJobStopped = ''STOPPED''"
| "EngineJobStatus_string EngineJobFailed = ''FAILED''"
| "EngineJobStatus_string (EngineJobStatusOther s) = s"

section \<open>Control operations\<close>

definition controlOperationPrepare :: string where
  "controlOperationPrepare = ''prepare''"

definition controlOperationValidation :: string where
  "controlOperationValidation = ''validation''"

definition controlOperationLeaseTTL :: "duration svc" where
  "controlOperationLeaseTTL = bnd (envInt64 ''DTS_CONTROL_OPERATION_LEASE_SECONDS'' 120) (\<lambda>n.
     ret (if seconds n < seconds 30 then seconds 30 else seconds n))"

definition acquireControlOperation :: "string \<Rightarrow> string \<Rightarrow> bool svc" where
  "acquireControlOperation taskID operation =
     bnd controlOperationLeaseTTL (\<lambda>ttl. bnd (env sv_instance) (\<lambda>owner. bnd clock (\<lambda>now.
     ok_result id (write_result (\<lambda>E io. AcquireControlOperation io now taskID operation owner ttl)))))"

definition releaseControlOperation :: "string \<Rightarrow> string \<Rightarrow> unit svc" where
  "releaseControlOperation taskID operation =
     bnd (env sv_instance) (\<lambda>owner.
     ignore (write_repo (\<lambda>io. ReleaseControlOperation io taskID operation owner)))"

definition launchPrepareWithLease :: "string \<Rightarrow> unit svc" where
  "launchPrepareWithLease taskID = spawn (SpawnPrepare taskID)"

definition startValidation :: "string \<Rightarrow> unit svc" where
  "startValidation taskID =
     bnd (acquireControlOperation taskID controlOperationValidation) (\<lambda>acquired.
     if \<not> acquired
     then fail (text_error ''another server is already running validation for this task'')
     else spawn (SpawnValidation taskID))"

section \<open>The newest checkpoint\<close>

definition latestCDC :: "string \<Rightarrow> string \<Rightarrow> Store \<Rightarrow> CDCPosition option" where
  "latestCDC taskID direction s =
     find (\<lambda>p. pos_Direction p = direction \<or> direction = ''forward'' \<and> pos_Direction p = [])
       (ListCDCPositions taskID 200 s)"

end
