(* ===== verification/CdcDelivery.thy ===== *)
theory CdcDelivery
  imports StateMachine CdcApply ServiceOps
begin

text \<open>
  Delivery of captured transactions, the part of \<open>backend/internal/migration/service.go\<close> between
  the capture readers and \<open>ApplyCDCEvents\<close>: staging in the durable spool while the target may
  not be written, draining the spool in order, the barrier that freezes the target for
  validation, and the operator's replay and resolution of dead letters.

  The mutexes \<open>cdcSpoolLock\<close> and \<open>validationMu\<close> make these operations atomic towards each
  other, so an operation is one step of the world. The in-memory repository offers no lease for
  draining, so \<open>acquireCDCSpoolDrainLease\<close> always succeeds on it. A context that ends while the
  service waits is an injected fault named \<open>context\<close>.
\<close>

section \<open>Which status accepts events\<close>

definition cdcApplyReady :: "MigrationTask \<Rightarrow> string \<Rightarrow> bool" where
  "cdcApplyReady task direction =
     (if direction = ''reverse''
      then mig_Status task = StatusRollbackSyncing \<or> mig_Status task = StatusRollbackReady
      else mig_Status task = StatusCDCCatchingUp \<or> mig_Status task = StatusReadyCutover)"

definition cdcCaptureReady :: "MigrationTask \<Rightarrow> string \<Rightarrow> bool" where
  "cdcCaptureReady task direction =
     (if direction = ''reverse''
      then mig_Status task \<in> {StatusRollbackSyncing, StatusRollbackReady, StatusRollbackPreparing}
      else mig_Status task \<in> {StatusFullMigrating, StatusFullFinished, StatusValidating,
             StatusCDCCatchingUp, StatusReadyCutover})"

section \<open>Staging\<close>

definition cdcSpoolID :: "string \<Rightarrow> string \<Rightarrow> CDCEvent \<Rightarrow> string" where
  "cdcSpoolID taskID direction ev =
     ''spool_'' @ hex_encode (take 12 (sha256 (taskID @ CHR 0x00 # direction @ CHR 0x00 #
       ev_PositionType ev @ CHR 0x00 # ev_PositionValue ev @ CHR 0x00 # ev_Resource ev)))"

definition staged_record :: "string \<Rightarrow> string \<Rightarrow> CDCEvent list \<Rightarrow> int \<Rightarrow> time \<Rightarrow> CDCSpoolRecord" where
  "staged_record taskID direction evs len now = (let ev = last evs in
     \<lparr>sp_ID = cdcSpoolID taskID direction ev, sp_TaskID = taskID, sp_Direction = direction,
      sp_Sequence = 0, sp_PositionType = ev_PositionType ev,
      sp_PositionValue = ev_PositionValue ev, sp_Resource = ev_Resource ev,
      sp_SourceTimestampMS = ev_SourceTimestampMS ev, sp_Events = evs,
      sp_EventCount = int (length evs), sp_PayloadBytes = len, sp_EventsCiphertext = [],
      sp_Status = CDCSpoolPending, sp_CreatedAt = now, sp_AppliedAt = 0\<rparr>)"

text \<open>The checks before a transaction is accepted, in their order.\<close>

definition spool_pressure :: "CDCSpoolStats \<Rightarrow> unit svc" where
  "spool_pressure stats =
     (let level = to_upper (trim_space (ss_StorageLevel stats)) in
      if level = ''CRITICAL''
      then fail (text_error (''CDC spool storage is CRITICAL at '' @ one_decimal (ss_StorageUsedPct stats)
             @ ''% used; source position is not acknowledged''))
      else if level = ''WARN''
      then bnd (envInt64 ''DTS_CDC_SPOOL_WARN_BACKPRESSURE_MS'' 250) (\<lambda>ms.
             if i64 (ms * 10 ^ 6) > 0 then injected None ''context'' else ret ())
      else ret ())"

definition stageCDCEvents :: "string \<Rightarrow> string \<Rightarrow> CDCEvent list \<Rightarrow> CDCApplyResult svc" where
  "stageCDCEvents taskID direction evs =
     (if evs = [] then fail (text_error ''CDC spool transaction is empty'')
      else let ev = last evs in
      if trim_space (ev_PositionValue ev) = []
      then fail (text_error ''CDC spool requires a durable source position'')
      else
      bnd (env (\<lambda>E. sv_json_len E evs)) (\<lambda>len.
      bnd (envInt64 ''DTS_CDC_SPOOL_MAX_TRANSACTION_BYTES'' 16777216) (\<lambda>maxTx.
      if maxTx > 0 \<and> len > maxTx
      then fail (text_error (''CDC transaction is '' @ int_str len
             @ '' bytes and exceeds DTS_CDC_SPOOL_MAX_TRANSACTION_BYTES='' @ int_str maxTx
             @ ''; source position is not acknowledged''))
      else
      bnd (query (CDCSpoolStats_of taskID direction)) (\<lambda>stats.
      bnd (spool_pressure stats) (\<lambda>_.
      bnd (envInt64 ''DTS_CDC_SPOOL_MAX_PENDING_BYTES'' 68719476736) (\<lambda>maxPending.
      if maxPending > 0 \<and> i64 (ss_PendingBytes stats + len) > maxPending
      then fail (text_error (''CDC spool capacity would exceed '' @ int_str maxPending
             @ '' bytes (pending='' @ int_str (ss_PendingBytes stats) @ '' incoming='' @ int_str len
             @ ''); source position is not acknowledged''))
      else
      bnd clock (\<lambda>now.
      bnd (injected None ''cdc.spool.before_persist'') (\<lambda>_.
      bnd (write_result (\<lambda>E io s. case CreateCDCSpool (sv_json_len E) io
             (staged_record taskID direction evs len now) s of
               (s', r, None) \<Rightarrow> (s', Inr r) | (s', r, Some e) \<Rightarrow> (s', Inl e))) (\<lambda>w. case w of
        Inl e \<Rightarrow> fail (Wrapped ''persist CDC spool: '' (Plain e))
      | Inr r \<Rightarrow>
          bnd (injected None ''cdc.spool.after_persist_before_ack'') (\<lambda>_.
          ret \<lparr>res_Applied = 0, res_LastEventID = ev_ID ev, res_PositionType = ev_PositionType ev,
               res_PositionValue = ev_PositionValue ev, res_Duplicate = False, res_Staged = True,
               res_SpoolSequence = sp_Sequence r, res_SkippedConflicts = 0\<rparr>))))))))))"

section \<open>Draining\<close>

text \<open>One record: apply, mark as applied. A failure is recorded as a dead letter of exactly this
  transaction.\<close>

definition drain_item :: "string \<Rightarrow> string \<Rightarrow> CDCSpoolRecord \<Rightarrow> unit svc" where
  "drain_item taskID direction v =
     (let req = \<lparr>ar_Direction = direction, ar_Events = sp_Events v\<rparr> in
      bnd (injected None ''cdc.spool.before_target_apply'') (\<lambda>_.
      bnd (attempt (ApplyCDCEvents [] taskID req)) (\<lambda>r. case r of
        Inl (_, e) \<Rightarrow> bnd (recordCDCDeadLetter taskID direction req e) (\<lambda>_.
          fail (Wrapped (''drain CDC spool sequence '' @ int_str (sp_Sequence v) @ '' position ''
            @ sp_PositionValue v @ '': '') e))
      | Inr _ \<Rightarrow>
          bnd (injected None ''cdc.spool.after_target_apply_before_mark'') (\<lambda>_.
          bnd clock (\<lambda>now.
          bnd (must (write_repo (\<lambda>io. MarkCDCSpoolApplied io (sp_ID v) now))) (\<lambda>_.
          injected None ''cdc.spool.after_mark_applied''))))))"

text \<open>The inner loop leaves when no transactions remain to be drained.\<close>

fun drain_items :: "string \<Rightarrow> string \<Rightarrow> nat \<Rightarrow> CDCSpoolRecord list \<Rightarrow> unit svc" where
  "drain_items taskID direction remaining [] = ret ()"
| "drain_items taskID direction remaining (v # vs) =
     bnd (drain_item taskID direction v) (\<lambda>_.
     if remaining \<le> 1 then ret () else drain_items taskID direction (remaining - 1) vs)"

function drain_loop :: "string \<Rightarrow> string \<Rightarrow> nat \<Rightarrow> unit svc" where
  "drain_loop taskID direction remaining =
     (if remaining = 0 then ret ()
      else bnd (query (ListCDCSpool taskID direction (int (min remaining 100)))) (\<lambda>items.
        if items = [] then ret ()
        else bnd (drain_items taskID direction remaining items) (\<lambda>_.
          drain_loop taskID direction (remaining - length items))))"
  by pat_completeness auto
termination
  by (relation "measure (\<lambda>(_, _, n). n)") auto

declare drain_loop.simps [simp del]

definition spool_keep :: "string \<Rightarrow> int" where
  "spool_keep raw = (let v = trim_space raw in
     if v = [] then 1000
     else case atoi v of Some n \<Rightarrow> if 0 \<le> n then n else 1000 | None \<Rightarrow> 1000)"

definition drainCDCSpoolLocked :: "string \<Rightarrow> string \<Rightarrow> int \<Rightarrow> CDCSpoolStats svc" where
  "drainCDCSpoolLocked taskID direction maxTransactions =
     (let limit = (if maxTransactions \<le> 0 then 1000 else maxTransactions) in
      bnd (fetch (GetMigration taskID)) (\<lambda>task.
      if \<not> cdcApplyReady task direction then query (CDCSpoolStats_of taskID direction)
      else
      bnd (drain_loop taskID direction (nat limit)) (\<lambda>_.
      bnd (getenv ''DTS_CDC_SPOOL_KEEP_APPLIED'') (\<lambda>raw.
      bnd (ignore (write_repo (\<lambda>io. DeleteAppliedCDCSpool io taskID direction (spool_keep raw)))) (\<lambda>_.
      query (CDCSpoolStats_of taskID direction))))))"

section \<open>The validation barrier\<close>

definition validationCatchupMaxLagMS :: "int svc" where
  "validationCatchupMaxLagMS = envInt64 ''DTS_VALIDATION_MAX_CDC_LAG_MS'' 5000"

definition validationStableWindow :: "duration svc" where
  "validationStableWindow = bnd (envInt64 ''DTS_VALIDATION_STABLE_WINDOW_SECONDS'' 2) (\<lambda>n. ret (seconds n))"

definition validationRequireExactWatermark :: "bool svc" where
  "validationRequireExactWatermark = bnd (getenv ''DTS_VALIDATION_REQUIRE_EXACT_WATERMARK'') (\<lambda>raw.
     ret (to_lower (trim_space raw) \<in> {''1'', ''true'', ''yes'', ''on''}))"

definition at_barrier :: "MigrationTask \<Rightarrow> string \<Rightarrow> string \<Rightarrow> string \<Rightarrow> MigrationTask" where
  "at_barrier task ptype pvalue resource =
     task\<lparr>mig_ValidationBarrierPositionType := ptype, mig_ValidationBarrierPositionValue := pvalue,
          mig_ValidationBarrierResource := resource\<rparr>"

definition captureValidationBarrier :: "MigrationTask \<Rightarrow> MigrationTask svc" where
  "captureValidationBarrier task =
     (if mig_Mode task = ModeFull then ret task
      else
      bnd (query (latestCDC (mig_ID task) ''forward'')) (\<lambda>latest.
      bnd (case latest of
          Some p \<Rightarrow>
            bnd validationStableWindow (\<lambda>window.
            bnd clock (\<lambda>now.
            if window > 0 \<and> pos_RecordedAt p \<noteq> 0 \<and> time_sub now (pos_RecordedAt p) < window
            then bnd clock (\<lambda>now'. fail (text_error
              (''CDC validation barrier is not stable yet; latest checkpoint is only ''
               @ duration_str (round_duration (time_sub now' (pos_RecordedAt p)) (10 ^ 6))
               @ '' old (required quiet window '' @ duration_str window @ '')'')))
            else ret (at_barrier task (pos_PositionType p) (pos_PositionValue p) (pos_Resource p))))
        | None \<Rightarrow>
            if trim_space (mig_CDCStartPositionValue task) \<noteq> []
            then ret (at_barrier task (mig_CDCStartPositionType task) (mig_CDCStartPositionValue task)
                   (mig_CDCStartResource task))
            else fail (text_error ''cannot capture validation barrier before a durable CDC position exists'')) (\<lambda>task.
      bnd clock (\<lambda>now. ret (task\<lparr>mig_ValidationBarrierCapturedAt := now\<rparr>)))))"

definition validationBarrierMatches :: "MigrationTask \<Rightarrow> CDCPosition option \<Rightarrow> bool" where
  "validationBarrierMatches task latest \<longleftrightarrow>
     (if mig_Mode task = ModeFull then True
      else case latest of
          None \<Rightarrow> trim_space (mig_ValidationBarrierPositionValue task)
                  = trim_space (mig_CDCStartPositionValue task)
        | Some p \<Rightarrow>
            equal_fold (trim_space (mig_ValidationBarrierPositionType task)) (trim_space (pos_PositionType p))
            \<and> trim_space (mig_ValidationBarrierPositionValue task) = trim_space (pos_PositionValue p)
            \<and> trim_space (mig_ValidationBarrierResource task) = trim_space (pos_Resource p))"

text \<open>Any error on the way ends the attempt with \<open>False\<close>.\<close>

definition start_validation_at_barrier :: "MigrationTask \<Rightarrow> MigrationTask svc" where
  "start_validation_at_barrier task =
     bnd (captureValidationBarrier task) (\<lambda>task.
     case Transition task StatusValidating of
       Inl e \<Rightarrow> fail (Plain e)
     | Inr task \<Rightarrow>
         bnd clock (\<lambda>now.
         bnd (must (write_repo (\<lambda>io. UpdateMigration io (task\<lparr>mig_UpdatedAt := now\<rparr>)))) (\<lambda>_.
         ret (task\<lparr>mig_UpdatedAt := now\<rparr>))))"

definition validation_due :: "string \<Rightarrow> MigrationTask \<Rightarrow> Store \<Rightarrow> bool" where
  "validation_due taskID task s \<longleftrightarrow>
     mig_Status task = StatusCDCCatchingUp \<and> mig_Mode task = ModeFullAndIncremental
     \<and> mig_ValidationEnabled task \<and> \<not> HasValidationResults taskID s
     \<and> \<not> ss_PendingTransactions (CDCSpoolStats_of taskID ''forward'' s) > 0"

definition maybeStartValidationAfterCatchup :: "string \<Rightarrow> bool svc" where
  "maybeStartValidationAfterCatchup taskID =
     bnd (query (GetMigration taskID)) (\<lambda>r. case r of
       Inl _ \<Rightarrow> ret False
     | Inr task \<Rightarrow>
         bnd (query (validation_due taskID task)) (\<lambda>due.
         if \<not> due then ret False
         else
         bnd validationCatchupMaxLagMS (\<lambda>maxLag.
         if maxLag > 0 \<and> mig_CDCLagMS task > maxLag then ret False
         else
         bnd (attempt (start_validation_at_barrier task)) (\<lambda>r. case r of
             Inl _ \<Rightarrow> ret False
           | Inr t \<Rightarrow>
               bnd (logTask taskID [] [] [] ''INFO''
                     (''CDC spool caught up; target apply frozen at validation barrier ''
                      @ mig_ValidationBarrierPositionType t @ ''='' @ mig_ValidationBarrierPositionValue t
                      @ ''; new source transactions will spool; lag='' @ int_str (mig_CDCLagMS t) @ ''ms'')) (\<lambda>_.
               bnd (ignore (startValidation taskID)) (\<lambda>_. ret True))))))"

definition DrainCDCSpool :: "string \<Rightarrow> string \<Rightarrow> int \<Rightarrow> CDCSpoolStats svc" where
  "DrainCDCSpool taskID direction0 maxTransactions =
     (let direction = (if direction0 = [] then ''forward'' else direction0) in
      bnd (drainCDCSpoolLocked taskID direction maxTransactions) (\<lambda>stats.
      bnd (if direction = ''forward'' then ignore (maybeStartValidationAfterCatchup taskID) else ret ()) (\<lambda>_.
      ret stats)))"

text \<open>One round of the goroutine of \<open>scheduleCDCSpoolDrain\<close>: whether it is finished.\<close>

definition scheduled_drain_round :: "string \<Rightarrow> string \<Rightarrow> bool svc" where
  "scheduled_drain_round taskID direction =
     bnd (attempt (DrainCDCSpool taskID direction 10000)) (\<lambda>r. case r of
       Inl (_, e) \<Rightarrow> bnd (logTask taskID [] [] [] ''ERROR'' (''CDC spool drain failed: '' @ error_text e)) (\<lambda>_.
         ret True)
     | Inr stats \<Rightarrow>
         if ss_PendingTransactions stats = 0
         then bnd (maybeStartValidationAfterCatchup taskID) (\<lambda>_. ret True) else ret False)"

section \<open>A request of a capture worker\<close>

definition drain_per_request :: "string \<Rightarrow> int" where
  "drain_per_request raw = (let v = trim_space raw in
     if v = [] then 1000 else case atoi v of Some n \<Rightarrow> if n > 0 then n else 1000 | None \<Rightarrow> 1000)"

definition apply_or_stage :: "string \<Rightarrow> string \<Rightarrow> CDCApplyRequest \<Rightarrow> CDCApplyResult svc" where
  "apply_or_stage taskID direction req =
     bnd (fetch (GetMigration taskID)) (\<lambda>task.
     if \<not> cdcApplyReady task direction then stageCDCEvents taskID direction (ar_Events req)
     else
     bnd (query (CDCSpoolStats_of taskID direction)) (\<lambda>stats.
     if ss_PendingTransactions stats > 0
     then bnd (stageCDCEvents taskID direction (ar_Events req)) (\<lambda>staged.
          bnd (getenv ''DTS_CDC_SPOOL_DRAIN_PER_REQUEST'') (\<lambda>raw.
          bnd (drainCDCSpoolLocked taskID direction (drain_per_request raw)) (\<lambda>_. ret staged)))
     else bnd (attempt (ApplyCDCEvents [] taskID req)) (\<lambda>r. case r of
         Inr x \<Rightarrow> ret x
       | Inl (res, e) \<Rightarrow> bnd (recordCDCDeadLetter taskID direction req e) (\<lambda>_. fail_with res e))))"

definition ApplyEngineJobCDCEvents :: "string \<Rightarrow> string \<Rightarrow> CDCApplyRequest \<Rightarrow> CDCApplyResult svc" where
  "ApplyEngineJobCDCEvents workerID jobID req =
     bnd (fetch (GetEngineJob jobID)) (\<lambda>job.
     if ej_WorkerID job \<noteq> workerID then fail (Plain ErrLeaseOwner)
     else if ej_Status job \<noteq> EngineJobRunning \<and> ej_Status job \<noteq> EngineJobStopRequested
     then fail (text_error (''engine job '' @ jobID @ '' cannot apply CDC from ''
            @ EngineJobStatus_string (ej_Status job)))
     else
     bnd (apply_or_stage (ej_TaskID job) (ej_Direction job) (req\<lparr>ar_Direction := ej_Direction job\<rparr>)) (\<lambda>res.
     bnd (if ej_Direction job = ''forward'' then ignore (maybeStartValidationAfterCatchup (ej_TaskID job))
          else ret ()) (\<lambda>_.
     ret res)))"

section \<open>The operator's decisions\<close>

text \<open>The dead letter is read before the replay and written back after it.\<close>

definition replayed_failed :: "svc_error \<Rightarrow> time \<Rightarrow> CDCDeadLetter \<Rightarrow> CDCDeadLetter" where
  "replayed_failed e now v =
     v\<lparr>dl_UpdatedAt := now, dl_RetryCount := dl_RetryCount v + 1, dl_LastError := error_text e,
       dl_Status := (if is_commit_unknown e then CDCDeadLetterCommitUncertain else dl_Status v)\<rparr>"

definition ReplayCDCDeadLetter :: "string \<Rightarrow> string \<Rightarrow> CDCApplyResult svc" where
  "ReplayCDCDeadLetter taskID i =
     bnd (fetch (GetCDCDeadLetter i)) (\<lambda>dlq.
     if dl_TaskID dlq \<noteq> taskID
     then fail (text_error ''CDC dead letter does not belong to migration'')
     else if dl_Status dlq = CDCDeadLetterCommitUncertain
     then fail (text_error ''CDC dead letter has COMMIT_UNCERTAIN status; automatic replay is forbidden until the target commit outcome is resolved'')
     else
     bnd (attempt (ApplyCDCEvents i taskID \<lparr>ar_Direction = dl_Direction dlq, ar_Events = dl_Events dlq\<rparr>)) (\<lambda>r.
     bnd clock (\<lambda>now.
     case r of
       Inl (res, e) \<Rightarrow>
         bnd (ignore (write_repo (\<lambda>io. UpdateCDCDeadLetter io (replayed_failed e now dlq)))) (\<lambda>_.
         fail_with res e)
     | Inr res \<Rightarrow>
         bnd (ok_or (Some res) id (write_repo (\<lambda>io. UpdateCDCDeadLetter io
            (dlq\<lparr>dl_UpdatedAt := now, dl_Status := CDCDeadLetterResolved, dl_LastError := [],
                 dl_ResolvedAt := now\<rparr>)))) (\<lambda>_.
         ret res))))"

definition committed_decision :: "string \<Rightarrow> CDCDeadLetter \<Rightarrow> time \<Rightarrow> CDCApplyResult svc" where
  "committed_decision taskID dlq now =
     (if dl_Events dlq = []
      then fail (text_error ''COMMIT_UNCERTAIN dead letter has no retained events'')
      else
      bnd (fetch (GetMigration taskID)) (\<lambda>task.
      bnd (fetch (GetDataSource (mig_SourceID task))) (\<lambda>sds.
      bnd (if equal_fold (dl_Direction dlq) ''reverse''
           then fetch (GetDataSource (mig_TargetID task)) else ret sds) (\<lambda>sourceDS.
      let ev = last (dl_Events dlq);
          res = zero_CDCApplyResult\<lparr>res_Applied := int (length (dl_Events dlq)), res_LastEventID := ev_ID ev\<rparr> in
      bnd (attempt (persistCDCApplyResult taskID (dl_Direction dlq) sourceDS res ev)) (\<lambda>r. case r of
          Inl (res, e) \<Rightarrow> fail_with res (Wrapped ''persist operator-confirmed committed CDC checkpoint: '' e)
        | Inr res \<Rightarrow>
            bnd (ok_or (Some res) id (write_repo (\<lambda>io. UpdateCDCDeadLetter io
              (dlq\<lparr>dl_Status := CDCDeadLetterResolved,
                   dl_LastError := ''operator confirmed target transaction COMMITTED; durable source checkpoint advanced without replay'',
                   dl_ResolvedAt := now, dl_UpdatedAt := now\<rparr>)))) (\<lambda>_.
            ret res))))))"

definition ResolveCDCCommitUncertain :: "string \<Rightarrow> string \<Rightarrow> string \<Rightarrow> CDCApplyResult svc" where
  "ResolveCDCCommitUncertain taskID i decision0 =
     bnd (fetch (GetCDCDeadLetter i)) (\<lambda>dlq.
     if dl_TaskID dlq \<noteq> taskID
     then fail (text_error ''CDC dead letter does not belong to migration'')
     else if dl_Status dlq \<noteq> CDCDeadLetterCommitUncertain
     then fail (text_error (''CDC dead letter '' @ i @ '' is '' @ DeadLetterStatus_string (dl_Status dlq)
            @ '', not COMMIT_UNCERTAIN''))
     else
     bnd clock (\<lambda>now.
     let decision = to_upper (trim_space decision0) in
     if decision = ''COMMITTED'' then committed_decision taskID dlq now
     else if decision = ''NOT_COMMITTED''
     then bnd (must (write_repo (\<lambda>io. UpdateCDCDeadLetter io
            (dlq\<lparr>dl_Status := CDCDeadLetterReplayRequired,
                 dl_LastError := ''operator confirmed target transaction NOT_COMMITTED; explicit retained-event replay required'',
                 dl_UpdatedAt := now\<rparr>)))) (\<lambda>_.
          ReplayCDCDeadLetter taskID i)
     else fail (text_error ''decision must be COMMITTED or NOT_COMMITTED'')))"

end
