(* ===== verification/DurableLogic.thy ===== *)
theory DurableLogic
  imports CdcSafety CdcDelivery
begin

text \<open>
  Invariants about the checkpoints and the spool. \<open>held M R w\<close>: \<open>M\<close> holds of them in memory,
  and \<open>R\<close> would hold of them after a restart from the state file as it is now. What the service
  writes elsewhere keeps this; a write to the two lists moves \<open>M\<close>, and \<open>R\<close> with it when \<open>M\<close>
  implies \<open>R\<close>.
\<close>

type_synonym flow = "CDCPosition list \<Rightarrow> CDCSpoolRecord list \<Rightarrow> bool"

definition heldS :: "flow \<Rightarrow> flow \<Rightarrow> Store \<Rightarrow> bool" where
  "heldS M R s \<longleftrightarrow> st_path s \<noteq> [] \<and> M (st_cdcPositions s) (st_cdcSpool s) \<and>
     (\<forall>s'. NewPersistent None (st_path s) (st_disk s) = Inr s' \<longrightarrow> R (st_cdcPositions s') (st_cdcSpool s'))"

text \<open>A predicate on the store of a world, in a form the rules can match.\<close>

definition on_store :: "(Store \<Rightarrow> bool) \<Rightarrow> World \<Rightarrow> bool" where
  "on_store P w \<longleftrightarrow> P (w_store w)"

abbreviation held :: "flow \<Rightarrow> flow \<Rightarrow> World \<Rightarrow> bool" where
  "held M R \<equiv> on_store (heldS M R)"

lemma held_mono: "held M R w \<Longrightarrow> (\<And>ps sp. M ps sp \<Longrightarrow> M' ps sp) \<Longrightarrow> held M' R w"
  by (auto simp: on_store_def heldS_def)

lemma held_both: "held M R w \<Longrightarrow> M (st_cdcPositions (w_store w)) (st_cdcSpool (w_store w))"
  by (simp add: on_store_def heldS_def)

section \<open>The file after a write\<close>

lemma reload_lists:
  assumes "NewPersistent None p \<lparr>dk_main = Snapshot (take_snapshot s), dk_tmp = t\<rparr> = Inr s'" "p \<noteq> []"
  shows "st_cdcPositions s' = st_cdcPositions s" "st_cdcSpool s' = st_cdcSpool s"
  using assms by (auto simp: NewPersistent_def load_def restore_def newStore_def take_snapshot_def)

lemma load_main_only: "dk_main d = dk_main d' \<Longrightarrow> NewPersistent None p d = Inr s' \<Longrightarrow>
    \<exists>s''. NewPersistent None p d' = Inr s'' \<and> st_cdcPositions s'' = st_cdcPositions s' \<and> st_cdcSpool s'' = st_cdcSpool s'"
  by (auto simp: NewPersistent_def load_def newStore_def restore_def split: file_content.splits if_splits)

lemma heldS_persist:
  assumes "st_path s \<noteq> []" "M (st_cdcPositions s) (st_cdcSpool s)"
    and old: "\<And>s'. NewPersistent None (st_path s) (st_disk s) = Inr s' \<Longrightarrow> R (st_cdcPositions s') (st_cdcSpool s')"
    and imp: "\<And>ps sp. M ps sp \<Longrightarrow> R ps sp"
  shows "heldS M R (fst (persistLocked io s))"
proof -
  have "R (st_cdcPositions s') (st_cdcSpool s')"
    if l: "NewPersistent None (st_path s) (st_disk (fst (persistLocked io s))) = Inr s'" for s'
  proof (cases "io = IOok")
    case True
    with l assms(1) have "st_cdcPositions s' = st_cdcPositions s" "st_cdcSpool s' = st_cdcSpool s"
      by (auto simp: persistLocked_def dest: reload_lists)
    with assms(2) imp show ?thesis by simp
  next
    case False
    then have "dk_main (st_disk (fst (persistLocked io s))) = dk_main (st_disk s)"
      by (cases io) (auto simp: persistLocked_def)
    from load_main_only [OF this l] old show ?thesis by metis
  qed
  with assms(1,2) show ?thesis by (simp add: heldS_def)
qed

lemma heldS_persisted:
  assumes "persistLocked io s = (s', None)" "st_path s \<noteq> []" "M (st_cdcPositions s) (st_cdcSpool s)"
  shows "heldS M M s'"
proof -
  from assms(1,2) have s': "s' = s\<lparr>st_disk := \<lparr>dk_main = Snapshot (take_snapshot s), dk_tmp = Missing\<rparr>\<rparr>"
    by (cases io) (auto simp: persistLocked_def)
  show ?thesis using assms(2,3) by (auto simp: heldS_def s' reload_lists)
qed

lemma heldS_reload:
  assumes h: "heldS M R s" and l: "NewPersistent None (st_path s) (st_disk s) = Inr s'"
  shows "heldS R R s'"
proof -
  have p: "st_path s \<noteq> []" and R: "R (st_cdcPositions s') (st_cdcSpool s')"
    using assms by (auto simp: heldS_def)
  moreover from l p have "st_path s' = st_path s" "st_disk s' = st_disk s"
    by (auto simp: NewPersistent_def load_def newStore_def restore_def split: file_content.splits)
  moreover note l
  ultimately show ?thesis by (simp add: heldS_def)
qed

section \<open>Operations that do not write\<close>

named_theorems held_rule \<open>operations that keep a predicate on the store\<close>

lemmas [held_rule] = keeps_bnd keeps_ret keeps_fail keeps_attempt keeps_ignore keeps_ok_or
  keeps_deferred keeps_env keeps_getenv keeps_query keeps_fetch keeps_if keeps_option keeps_sum
  keeps_prod keeps_let keeps_envInt64 keeps_intEnv keeps_lift keeps_reject keeps_single

lemma held_clock [held_rule]: "keeps (on_store P) clock"
  and held_newID [held_rule]: "keeps (on_store P) (newID k)"
  and held_spawn [held_rule]: "keeps (on_store P) (spawn g)"
  by (simp_all add: spec_def clock_def newID_def tick_def on_store_def spawn_def)

lemma held_fault [held_rule]: "keeps (on_store P) (checkpoint_fault name)"
  and held_look_up [held_rule]: "keeps (on_store P) (look_up T q)"
  and held_call [held_rule]: "keeps (on_store P) (call_target T c)"
  by (auto simp: spec_def checkpoint_fault_def look_up_def call_target_def tick_def on_store_def Let_def
      split: option.split)

lemma held_ok_call [held_rule]: "keeps (on_store P) (ok_call r m T c)"
  and held_injected [held_rule]: "keeps (on_store P) (injected r name)"
  unfolding ok_call_def injected_def by (intro held_rule)+

lemma held_map_event [held_rule]: "keeps (on_store P) (map_event res byName dflt index ev)"
  unfolding map_event_def Let_def by (intro held_rule)

lemma held_upsert [held_rule]: "keeps (on_store P) (apply_upsert tid direction task mode T M ev res)"
  unfolding apply_upsert_def resolve_conflict_def delete_old_key_def Let_def by (intro held_rule)

lemma held_delete [held_rule]: "keeps (on_store P) (apply_delete T M ev res)"
  and held_truncate [held_rule]: "keeps (on_store P) (apply_truncate targetDS T M final res)"
  unfolding apply_delete_def apply_truncate_def by (intro held_rule)+

lemma held_event [held_rule]: "keeps (on_store P) (apply_event c byName dflt index final ev st)"
proof -
  have "keeps (on_store P) (case op of CDCDelete \<Rightarrow> a | CDCTruncate \<Rightarrow> b | _ \<Rightarrow> d)"
    if "keeps (on_store P) a" "keeps (on_store P) b" "keeps (on_store P) d" for op a b and d :: "'z svc"
    using that by (cases op) simp_all
  then show ?thesis
    unfolding apply_event_def Let_def
    by (cases c, cases st) (auto split: CDCOperation.split intro!: held_rule)
qed

lemma held_events [held_rule]: "keeps (on_store P) (apply_events c byName dflt index evs st)"
  by (induction evs arbitrary: index st) (auto intro!: held_rule)

lemma held_ddls [held_rule]: "keeps (on_store P) (apply_ddls T dflt index evs res)"
  by (induction T dflt index evs res rule: apply_ddls.induct) (auto simp: Let_def intro!: held_rule)

section \<open>Writes\<close>

text \<open>A write that moves the invariant of the memory from \<open>M\<close> to \<open>M'\<close>.\<close>

lemma held_write:
  assumes w: "writes f upd" and imp: "\<And>ps sp. M' ps sp \<Longrightarrow> R ps sp"
    and step: "\<And>s. G s \<Longrightarrow> M (st_cdcPositions s) (st_cdcSpool s) \<Longrightarrow> M' (st_cdcPositions (upd s)) (st_cdcSpool (upd s))"
    and weak: "\<And>ps sp. M ps sp \<Longrightarrow> M'' ps sp" "\<And>ps sp. M' ps sp \<Longrightarrow> M'' ps sp"
    and done': "\<And>io s s'. G s \<Longrightarrow> f io s = (s', None) \<Longrightarrow> f io s = persistLocked io (upd s)"
  shows "spec (\<lambda>w. held M R w \<and> G (w_store w)) (write_repo f)
     (\<lambda>r w. held M'' R w \<and> (r = None \<longrightarrow> held M' R w)) F (held M'' R)"
proof -
  have up: "heldS M' R (fst (persistLocked io (upd s)))" if "heldS M R s" "G s" for io s
    using that w imp step by (intro heldS_persist) (auto simp: heldS_def writes_def)
  have mem: "heldS M'' R (fst (f io s))" if "heldS M R s" "G s" for io s
  proof -
    from w consider "f io s = persistLocked io (upd s)" | "fst (f io s) = s" by (auto simp: writes_def)
    then show ?thesis
    proof cases
      case 1
      then show ?thesis using up [OF that] weak(2) by (auto simp: heldS_def)
    next
      case 2
      then show ?thesis using that weak(1) by (auto simp: heldS_def)
    qed
  qed
  have ok: "heldS M' R (fst (f io s))" if "heldS M R s" "G s" "snd (f io s) = None" for io s
  proof -
    have "f io s = persistLocked io (upd s)" using done' [of s io "fst (f io s)"] that by (simp add: prod_eq_iff)
    then show ?thesis using up [OF that(1,2)] by simp
  qed
  show ?thesis
    using mem ok by (auto simp: spec_def write_repo_def tick_def on_store_def case_prod_unfold Let_def)
      (auto simp: heldS_def dest: weak)
qed

text \<open>A write elsewhere.\<close>

lemma held_elsewhere:
  assumes w: "writes f upd" and imp: "\<And>ps sp. M ps sp \<Longrightarrow> R ps sp"
    and same: "\<And>s. st_cdcPositions (upd s) = st_cdcPositions s" "\<And>s. st_cdcSpool (upd s) = st_cdcSpool s"
  shows "keeps (held M R) (write_repo f)"
proof -
  have "heldS M R (fst (f io s))" if "heldS M R s" for io s
  proof -
    from w consider "f io s = persistLocked io (upd s)" | "fst (f io s) = s" by (auto simp: writes_def)
    then show ?thesis
    proof cases
      case 1
      have "heldS M R (fst (persistLocked io (upd s)))"
        using that w same by (intro heldS_persist [OF _ _ _ imp]) (auto simp: writes_def heldS_def)
      with 1 show ?thesis by simp
    next
      case 2
      with that show ?thesis by simp
    qed
  qed
  then show ?thesis
    by (auto simp: spec_def write_repo_def tick_def on_store_def case_prod_unfold Let_def)
qed

end
