(* ===== verification/DeliverySafety.thy ===== *)
theory DeliverySafety
  imports DurableLogic
begin

text \<open>
  What the delivery of captured transactions promises. A staged transaction is on disk when it is
  acknowledged; draining takes transactions from the front of the spool, one after the other,
  and none leaves the spool before the checkpoint has reached it.
\<close>

section \<open>Writes of the service that leave checkpoints and spool alone\<close>

lemma held_writes:
  assumes "\<And>ps sp. M ps sp \<Longrightarrow> R ps sp"
  shows "keeps (held M R) (write_repo (\<lambda>io. CreateTaskLog io l))"
    "keeps (held M R) (write_repo (\<lambda>io. CreateAlert io a))"
    "keeps (held M R) (write_repo (\<lambda>io. UpdateMigration io m))"
    "keeps (held M R) (write_repo (\<lambda>io. CreateCDCConflict io c))"
    "keeps (held M R) (write_repo (\<lambda>io. CreateCDCDeadLetter io v))"
    "keeps (held M R) (write_repo (\<lambda>io. UpdateCDCDeadLetter io v))"
    "keeps (held M R) (write_repo (\<lambda>io. DeleteCDCDeadLetter io i))"
  by (rule held_elsewhere [OF writes_neutral(1)] held_elsewhere [OF writes_neutral(2)]
      held_elsewhere [OF writes_neutral(3)] held_elsewhere [OF writes_neutral(4)]
      held_elsewhere [OF writes_letter(1)] held_elsewhere [OF writes_letter(2)]
      held_elsewhere [OF writes_letter(3)]; simp add: assms with_letter_def without_letter_def)+

lemma held_helpers:
  assumes imp: "\<And>ps sp. M ps sp \<Longrightarrow> R ps sp"
  shows "keeps (held M R) (logTask l0 l1 l2 l3 l4 l5)" "keeps (held M R) (alert a0 a1 a2 a3 a4)"
    "keeps (held M R) (maybeAlertCDCLag t d lag)"
    "keeps (held M R) (beginCDCCommitFence t d evs)" "keeps (held M R) (completeCDCCommitFence fence)"
    "keeps (held M R) (cleanupTransientCDCCommitFence t d ev)"
    "keeps (held M R) (recordCDCDeadLetter t d req cause)"
  unfolding logTask_def alert_def maybeAlertCDCLag_def beginCDCCommitFence_def completeCDCCommitFence_def
    cleanupTransientCDCCommitFence_def recordCDCDeadLetter_def Let_def
  by (intro held_rule held_writes imp; assumption)+

lemma held_conflicts: "(\<And>ps sp. M ps sp \<Longrightarrow> R ps sp) \<Longrightarrow> keeps (held M R) (create_conflicts res pend)"
  by (induction pend) (auto intro!: held_rule held_writes)

section \<open>A request moves the checkpoint\<close>

text \<open>\<open>M\<close> holds before, \<open>M1\<close> once the transaction that ends with \<open>ev\<close> is the newest checkpoint.\<close>

definition flow_step :: "string \<Rightarrow> string \<Rightarrow> CDCEvent \<Rightarrow> flow \<Rightarrow> flow \<Rightarrow> flow \<Rightarrow> bool" where
  "flow_step tid direction ev M M1 R \<longleftrightarrow>
     (\<forall>ps sp. M1 ps sp \<longrightarrow> M ps sp) \<and> (\<forall>ps sp. M ps sp \<longrightarrow> R ps sp) \<and>
     (\<forall>ps sp. M ps sp \<and> newest_is tid direction ev ps \<longrightarrow> M1 ps sp) \<and>
     (\<forall>s sp p. M (st_cdcPositions s) sp \<and> pos_TaskID p = tid \<and> pos_Direction p = direction
        \<and> equal_fold (pos_PositionType p) (ev_PositionType ev) \<and> pos_PositionValue p = ev_PositionValue ev
        \<longrightarrow> M1 (st_cdcPositions (with_position p s)) sp)"

lemma flow_stepD:
  assumes "flow_step tid direction ev M M1 R"
  shows "\<And>ps sp. M1 ps sp \<Longrightarrow> M ps sp" "\<And>ps sp. M ps sp \<Longrightarrow> R ps sp" "\<And>ps sp. M1 ps sp \<Longrightarrow> R ps sp"
    "\<And>ps sp. M ps sp \<Longrightarrow> newest_is tid direction ev ps \<Longrightarrow> M1 ps sp"
    "\<And>s sp p. M (st_cdcPositions s) sp \<Longrightarrow> pos_TaskID p = tid \<Longrightarrow> pos_Direction p = direction
        \<Longrightarrow> equal_fold (pos_PositionType p) (ev_PositionType ev) \<Longrightarrow> pos_PositionValue p = ev_PositionValue ev
        \<Longrightarrow> M1 (st_cdcPositions (with_position p s)) sp"
  using assms unfolding flow_step_def by blast+

abbreviation moves :: "flow \<Rightarrow> flow \<Rightarrow> flow \<Rightarrow> 'a svc \<Rightarrow> bool" where
  "moves M M1 R m \<equiv> spec (held M R) m (\<lambda>_. held M1 R) (\<lambda>_ _. held M R) (held M R)"

lemma moves_before: "keeps (held M R) m \<Longrightarrow> (\<And>x. moves M M1 R (f x)) \<Longrightarrow> moves M M1 R (bnd m f)"
  by (rule spec_bnd)

lemma keeps_weaker:
  assumes "\<And>ps sp. M1 ps sp \<Longrightarrow> M ps sp" "keeps (held M1 R) m"
  shows "spec (held M1 R) m (\<lambda>_. held M1 R) (\<lambda>_ _. held M R) (held M R)"
  by (rule spec_weaken [OF assms(2)]) (auto elim: held_mono simp: assms(1))

lemma moves_after:
  assumes "\<And>ps sp. M1 ps sp \<Longrightarrow> M ps sp" "moves M M1 R m" "\<And>x. keeps (held M1 R) (f x)"
  shows "moves M M1 R (bnd m f)"
  using assms(2) keeps_weaker [OF assms(1,3)] by (rule spec_bnd)

lemma moves_fail: "moves M M1 R (fail_with r e)"
  by (rule spec_fail)

lemma moves_attempt:
  assumes "moves M M1 R m"
    and "\<And>r. spec (held M R) (f (Inl r)) (\<lambda>_. held M1 R) (\<lambda>_ _. held M R) (held M R)"
    and "\<And>x. spec (held M1 R) (f (Inr x)) (\<lambda>_. held M1 R) (\<lambda>_ _. held M R) (held M R)"
  shows "moves M M1 R (bnd (attempt m) f)"
proof (rule spec_bnd [where R = "\<lambda>r. case r of Inl _ \<Rightarrow> held M R | Inr _ \<Rightarrow> held M1 R"])
  show "spec (held M R) (attempt m) (\<lambda>r. case r of Inl _ \<Rightarrow> held M R | Inr _ \<Rightarrow> held M1 R)
      (\<lambda>_ _. held M R) (held M R)"
    by (rule spec_attempt) (simp add: assms(1))
  fix r :: "CDCApplyResult option \<times> svc_error + 'a"
  show "spec (case r of Inl _ \<Rightarrow> held M R | Inr _ \<Rightarrow> held M1 R) (f r) (\<lambda>_. held M1 R) (\<lambda>_ _. held M R) (held M R)"
    using assms(2,3) by (cases r) auto
qed

lemma with_position_spool [simp]: "st_cdcSpool (with_position p s) = st_cdcSpool s"
  by (simp add: with_position_def)

lemma moves_position:
  assumes st: "flow_step tid direction ev M M1 R"
    and "pos_TaskID p = tid" "pos_Direction p = direction"
      "equal_fold (pos_PositionType p) (ev_PositionType ev)" "pos_PositionValue p = ev_PositionValue ev"
  shows "moves M M1 R (must (write_repo (\<lambda>io. CreateCDCPosition io p)))"
proof (rule spec_ok_or)
  have "spec (\<lambda>w. held M R w \<and> True) (write_repo (\<lambda>io. CreateCDCPosition io p))
      (\<lambda>r w. held M R w \<and> (r = None \<longrightarrow> held M1 R w)) (\<lambda>_ _. held M R) (held M R)"
    by (rule held_write [OF writes_position])
      (use flow_stepD [OF st] assms(2-5) in \<open>auto simp: create_position_writes\<close>)
  then show "spec (held M R) (write_repo (\<lambda>io. CreateCDCPosition io p))
      (\<lambda>r w. held M R w \<and> (r = None \<longrightarrow> held M1 R w)) (\<lambda>_ _. held M R) (held M R)" by simp
qed


lemma moves_reverse:
  assumes "flow_step tid ''reverse'' ev M M1 R"
    and "equal_fold (pos_PositionType p) (ev_PositionType ev)" "pos_PositionValue p = ev_PositionValue ev"
  shows "moves M M1 R (RecordRollbackCDCProgress tid p)"
  unfolding RecordRollbackCDCProgress_def Let_def
  by (intro moves_before held_rule spec_if moves_fail moves_after [OF flow_stepD(1) [OF assms(1)]]
      moves_position [OF assms(1)] held_helpers held_writes flow_stepD(3) [OF assms(1)])
    (use assms(2,3) in \<open>simp_all\<close>)

lemma moves_forward:
  assumes "flow_step tid ''forward'' ev M M1 R"
    and "equal_fold (pos_PositionType p) (ev_PositionType ev)" "pos_PositionValue p = ev_PositionValue ev"
  shows "moves M M1 R (recordCDCProgress tid p)"
  unfolding recordCDCProgress_def Let_def
  by (intro moves_before spec_if moves_fail
      moves_after [OF flow_stepD(1) [OF assms(1)] moves_position [OF assms(1)]]
      held_rule held_helpers held_writes flow_stepD(2,3) [OF assms(1)])
    (use assms(2,3) in \<open>simp_all\<close>)

lemma moves_persist:
  assumes st: "flow_step tid direction ev M M1 R" and d: "direction \<in> {''forward'', ''reverse''}"
    and ev: "ev_PositionType ev \<noteq> []"
  shows "moves M M1 R (persistCDCApplyResult tid direction sourceDS result ev)"
proof -
  have "moves M M1 R (if direction = ''reverse'' then RecordRollbackCDCProgress tid p else recordCDCProgress tid p)"
    if "pos_PositionType p = ev_PositionType ev" "pos_PositionValue p = ev_PositionValue ev" for p
    using d st that by (auto intro!: moves_forward moves_reverse)
  then show ?thesis
    unfolding persistCDCApplyResult_def Let_def if_not_P [OF ev]
    by (intro moves_before [OF held_clock] moves_before [OF held_injected] moves_attempt
        moves_fail)
      (auto simp: apply_position_def Let_def split: prod.split
        intro!: moves_fail keeps_weaker [OF flow_stepD(1) [OF st] keeps_bnd [OF held_injected keeps_ret]])
qed

lemma moves_finish:
  assumes st: "flow_step tid direction ev M M1 R" and d: "direction \<in> {''forward'', ''reverse''}"
    and ev: "ev_PositionType ev \<noteq> []"
  shows "moves M M1 R (finish_apply tid direction sourceDS ev res pend fence)"
proof -
  note D = flow_stepD [OF st]
  have "spec (held M R) (case r of (res', e) \<Rightarrow>
         if fence \<noteq> None \<and> ev_PositionValue ev \<noteq> []
            \<and> map_option res_PositionValue res' = Some (ev_PositionValue ev)
         then bnd (attempt (completeCDCCommitFence fence)) (\<lambda>c. case c of
             Inr _ \<Rightarrow> fail_with res' e
           | Inl (_, e') \<Rightarrow> fail_with res' (Wrapped (error_text e
               @ ''; additionally complete durable CDC commit fence: '') e'))
         else fail_with res' e) (\<lambda>_. held M1 R) (\<lambda>_ _. held M R) (held M R)"
    for r :: "CDCApplyResult option \<times> svc_error"
    by (cases r) (auto intro!: spec_fail moves_before [OF keeps_attempt [OF held_helpers(5) [OF D(2)]]]
        split: sum.split prod.split)
  moreover have "spec (held M1 R) (bnd (attempt (completeCDCCommitFence fence)) (\<lambda>c. case c of
             Inr _ \<Rightarrow> ret res'
           | Inl (_, e') \<Rightarrow> fail_with (Some res') (Wrapped ''complete durable CDC commit fence: '' e')))
      (\<lambda>_. held M1 R) (\<lambda>_ _. held M R) (held M R)" for res'
    by (rule keeps_weaker) (erule D(1), intro held_rule held_helpers, erule D(3))
  ultimately show ?thesis
    unfolding finish_apply_def
    by (intro moves_before [OF held_conflicts [OF D(2)]] moves_attempt moves_persist [OF st d ev])
      (simp_all only: sum.case)
qed

lemma held_apply_and_fence:
  assumes "\<And>ps sp. M ps sp \<Longrightarrow> R ps sp"
  shows "keeps (held M R) (apply_and_fence (tid, direction, task, mode, targetDS, T) sourceDS evs)"
  unfolding apply_and_fence_def prod.case by (intro held_rule held_helpers assms)

lemma moves_row_request:
  assumes st: "flow_step tid direction (last evs) M M1 R" and d: "direction \<in> {''forward'', ''reverse''}"
    and ev: "ev_PositionType (last evs) \<noteq> []"
  shows "moves M M1 R (apply_row_request tid direction task sourceDS targetDS T evs)"
  unfolding apply_row_request_def Let_def rollback_on_error_def
  by (intro spec_if moves_fail moves_before held_rule held_apply_and_fence [OF flow_stepD(2) [OF st]])
    (auto split: prod.split option.split intro!: moves_before held_rule moves_finish [OF st d ev])

lemma moves_ddl_request:
  assumes st: "flow_step tid direction (last evs) M M1 R" and d: "direction \<in> {''forward'', ''reverse''}"
    and ev: "ev_PositionType (last evs) \<noteq> []"
  shows "moves M M1 R (apply_ddl_request tid direction task sourceDS targetDS T evs)"
  unfolding apply_ddl_request_def
  by (intro spec_if moves_fail moves_before held_rule spec_option moves_persist [OF st d ev])

lemma spec_deferred3:
  assumes "spec P m Q F C" "\<And>x. spec (Q x) c (\<lambda>_. Q x) (\<lambda>_ _. Q x) C" "\<And>r e. spec (F r e) c (\<lambda>_. F r e) (\<lambda>_ _. F r e) C"
  shows "spec P (deferred m c) Q F C"
proof (rule specI)
  fix E w w' x
  assume P: "P w" and m: "deferred m c E w = (w', Done x)"
  then obtain v where "m E w = (v, Done x)" "(\<exists>y. c E v = (w', Done y)) \<or> (\<exists>r e. c E v = (w', Failed r e))"
    by (auto simp: deferred_def split: prod.splits outcome.splits)
  then show "Q x w'" using spec_Done [OF assms(1) P] spec_Done [OF assms(2)] spec_Failed [OF assms(2)] by blast
next
  fix E w w' r e
  assume P: "P w" and m: "deferred m c E w = (w', Failed r e)"
  then obtain v where "m E w = (v, Failed r e)" "(\<exists>y. c E v = (w', Done y)) \<or> (\<exists>r e. c E v = (w', Failed r e))"
    by (auto simp: deferred_def split: prod.splits outcome.splits)
  then show "F r e w'" using spec_Failed [OF assms(1) P] spec_Done [OF assms(3)] spec_Failed [OF assms(3)] by blast
next
  fix E w w'
  assume P: "P w" and m: "deferred m c E w = (w', Crashed)"
  then consider "m E w = (w', Crashed)" | v x where "m E w = (v, Done x)" "c E v = (w', Crashed)"
    | v r e where "m E w = (v, Failed r e)" "c E v = (w', Crashed)"
    by (auto simp: deferred_def split: prod.splits outcome.splits)
  then show "C w'"
    using spec_Crashed [OF assms(1) P] spec_Crashed [OF assms(2) spec_Done [OF assms(1) P]]
      spec_Crashed [OF assms(3) spec_Failed [OF assms(1) P]] by cases blast+
qed

lemma moves_deferred:
  assumes "\<And>ps sp. M1 ps sp \<Longrightarrow> M ps sp" "moves M M1 R m" "keeps (held M1 R) c" "keeps (held M R) c"
  shows "moves M M1 R (deferred m c)"
proof (rule spec_deferred3 [OF assms(2)])
  show "spec (held M1 R) c (\<lambda>_. held M1 R) (\<lambda>_ _. held M1 R) (held M R)"
    by (rule spec_weaken [OF assms(3)]) (auto elim: held_mono [OF _ assms(1)])
qed (rule assms(4))

text \<open>A request that returns a result has its transaction as the newest checkpoint.\<close>

lemma moves_apply:
  assumes st: "flow_step tid (request_direction req) (last (ar_Events req)) M M1 R"
    and ev: "ev_PositionType (last (ar_Events req)) \<noteq> []"
  shows "moves M M1 R (ApplyCDCEvents bypass tid req)"
proof -
  let ?d = "request_direction req" and ?ev = "last (ar_Events req)"
  note D = flow_stepD [OF st]
  have dir: "(if to_lower (trim_space (ar_Direction req)) = [] then ''forward''
      else to_lower (trim_space (ar_Direction req))) = ?d"
    by (simp add: request_direction_def Let_def)
  have dup: "spec (\<lambda>w. held M R w \<and> checkpointed tid ?d ?ev (w_store w))
     (bnd (query (duplicate_result tid ?d ?ev)) (\<lambda>res.
       bnd (attempt (cleanupTransientCDCCommitFence tid ?d ?ev)) (\<lambda>r. case r of
           Inl (_, e) \<Rightarrow> fail (Wrapped ''cleanup checkpointed CDC commit fence: '' e)
         | Inr _ \<Rightarrow> ret res))) (\<lambda>_. held M1 R) (\<lambda>_ _. held M R) (held M R)"
  proof (rule spec_pre [where P' = "held M1 R"], rule keeps_weaker)
    show "M ps sp" if "M1 ps sp" for ps sp using that by (rule D(1))
    show "held M1 R w" if "held M R w \<and> checkpointed tid ?d ?ev (w_store w)" for w
      using that by (auto simp: on_store_def heldS_def checkpointed_iff intro: D(4))
  qed (auto split: prod.split intro!: held_rule held_helpers D(3))
  show ?thesis
  proof (cases "?d \<in> {''forward'', ''reverse''}")
    case False
    then show ?thesis
      unfolding ApplyCDCEvents_def Let_def dir by (intro moves_before held_rule) (auto intro: moves_fail)
  next
    case d: True
    have rest: "spec (\<lambda>w. held M R w \<and> \<not> checkpointed tid ?d ?ev (w_store w)) m
        (\<lambda>_. held M1 R) (\<lambda>_ _. held M R) (held M R)" if "moves M M1 R m" for m :: "CDCApplyResult svc"
      using that by (rule spec_pre) simp
    show ?thesis
      unfolding ApplyCDCEvents_def Let_def dir
      by (intro moves_before [OF keeps_fetch] spec_if moves_fail spec_query_if dup rest)
        (intro moves_before held_rule spec_if spec_option spec_sum moves_fail moves_deferred
          moves_persist [OF st d ev] moves_ddl_request [OF st d ev] moves_row_request [OF st d ev],
          erule D(1))
  qed
qed

section \<open>Draining in order\<close>

definition pending :: "string \<Rightarrow> string \<Rightarrow> CDCSpoolRecord list \<Rightarrow> CDCSpoolRecord list" where
  "pending tid direction sp = filter (pending_in tid direction) sp"

definition newest :: "string \<Rightarrow> string \<Rightarrow> CDCPosition list \<Rightarrow> CDCPosition option" where
  "newest tid direction ps =
     find (\<lambda>p. pos_Direction p = direction) (newest_matching 50 (\<lambda>p. pos_TaskID p = tid) ps)"

text \<open>The checkpoint stands after the first \<open>k\<close> transactions of the queue \<open>Q\<close>.\<close>

fun stands :: "string \<Rightarrow> string \<Rightarrow> CDCSpoolRecord list \<Rightarrow> CDCPosition list \<Rightarrow> nat \<Rightarrow> CDCPosition list \<Rightarrow> bool" where
  "stands tid direction Q ps0 0 ps \<longleftrightarrow> newest tid direction ps = newest tid direction ps0"
| "stands tid direction Q ps0 (Suc k) ps \<longleftrightarrow> newest_is tid direction (last (sp_Events (Q ! k))) ps"

definition sound :: "string \<Rightarrow> string \<Rightarrow> flow" where
  "sound tid direction ps sp \<longleftrightarrow> spool_ok sp \<and> few_streams tid direction ps"

definition drained :: "string \<Rightarrow> string \<Rightarrow> CDCSpoolRecord list \<Rightarrow> CDCPosition list \<Rightarrow> nat \<Rightarrow> flow" where
  "drained tid direction Q ps0 k ps sp \<longleftrightarrow> sound tid direction ps sp \<and>
     pending tid direction sp = drop k Q \<and> stands tid direction Q ps0 k ps"

definition applied_next :: "string \<Rightarrow> string \<Rightarrow> CDCSpoolRecord list \<Rightarrow> CDCPosition list \<Rightarrow> nat \<Rightarrow> flow" where
  "applied_next tid direction Q ps0 k ps sp \<longleftrightarrow> sound tid direction ps sp \<and>
     pending tid direction sp = drop k Q \<and> stands tid direction Q ps0 (Suc k) ps"

definition underway :: "string \<Rightarrow> string \<Rightarrow> CDCSpoolRecord list \<Rightarrow> CDCPosition list \<Rightarrow> nat \<Rightarrow> flow" where
  "underway tid direction Q ps0 k ps sp \<longleftrightarrow>
     drained tid direction Q ps0 k ps sp \<or> applied_next tid direction Q ps0 k ps sp"

definition in_order :: "string \<Rightarrow> string \<Rightarrow> CDCSpoolRecord list \<Rightarrow> CDCPosition list \<Rightarrow> flow" where
  "in_order tid direction Q ps0 ps sp \<longleftrightarrow> (\<exists>k \<le> length Q.
     drained tid direction Q ps0 k ps sp \<or> k < length Q \<and> applied_next tid direction Q ps0 k ps sp)"

lemma drained_order: "drained t d Q ps0 k ps sp \<Longrightarrow> k \<le> length Q \<Longrightarrow> in_order t d Q ps0 ps sp"
  and underway_order: "underway t d Q ps0 k ps sp \<Longrightarrow> k < length Q \<Longrightarrow> in_order t d Q ps0 ps sp"
  unfolding in_order_def underway_def using less_imp_le by blast+

text \<open>One transaction of the queue as a step of the checkpoint.\<close>

lemma item_step:
  assumes "k < length Q" and ev: "ev = last (sp_Events (Q ! k))"
  shows "flow_step t d ev (underway t d Q ps0 k) (applied_next t d Q ps0 k) (in_order t d Q ps0)"
  unfolding flow_step_def
proof (intro conjI allI impI)
  fix ps sp
  show "applied_next t d Q ps0 k ps sp \<Longrightarrow> underway t d Q ps0 k ps sp" by (simp add: underway_def)
  show "underway t d Q ps0 k ps sp \<Longrightarrow> in_order t d Q ps0 ps sp" using assms(1) by (rule underway_order [rotated])
  show "underway t d Q ps0 k ps sp \<and> newest_is t d ev ps \<Longrightarrow> applied_next t d Q ps0 k ps sp"
    by (auto simp: underway_def drained_def applied_next_def ev)
next
  fix s :: Store and sp and p :: CDCPosition
  assume a: "underway t d Q ps0 k (st_cdcPositions s) sp \<and> pos_TaskID p = t \<and> pos_Direction p = d
      \<and> equal_fold (pos_PositionType p) (ev_PositionType ev) \<and> pos_PositionValue p = ev_PositionValue ev"
  then have few: "few_streams t d (st_cdcPositions s)"
    by (auto simp: underway_def drained_def applied_next_def sound_def)
  with a few_streams_position newest_is_position
  have "few_streams t d (st_cdcPositions (with_position p s))" "newest_is t d ev (st_cdcPositions (with_position p s))"
    by blast+
  with a show "applied_next t d Q ps0 k (st_cdcPositions (with_position p s)) sp"
    by (auto simp: underway_def drained_def applied_next_def sound_def ev)
qed

text \<open>Marking the applied transaction takes it off the queue.\<close>

definition with_mark :: "string \<Rightarrow> time \<Rightarrow> Store \<Rightarrow> Store" where
  "with_mark i tm s = (case mark_applied i tm (st_cdcSpool s) of
     None \<Rightarrow> s | Some vs \<Rightarrow> s\<lparr>st_cdcSpool := vs\<rparr>)"

lemma writes_mark: "writes (\<lambda>io. MarkCDCSpoolApplied io i tm) (with_mark i tm)"
  by (auto simp: writes_def MarkCDCSpoolApplied_def with_mark_def split: option.split)

lemma pending_ids_distinct: "spool_ok sp \<Longrightarrow> distinct (map sp_ID (pending t d sp))"
  by (auto simp: spool_ok_def pending_def intro: distinct_map_filter)

lemma mark_next:
  assumes k: "k < length Q" and a: "applied_next t d Q ps0 k (st_cdcPositions s) (st_cdcSpool s)"
  shows "drained t d Q ps0 (Suc k) (st_cdcPositions (with_mark (sp_ID (Q ! k)) tm s))
     (st_cdcSpool (with_mark (sp_ID (Q ! k)) tm s))"
proof -
  let ?s = "with_mark (sp_ID (Q ! k)) tm s" and ?i = "sp_ID (Q ! k)"
  have ok: "spool_ok (st_cdcSpool s)" and p: "pending t d (st_cdcSpool s) = drop k Q"
    using a by (auto simp: applied_next_def sound_def)
  have pos: "st_cdcPositions ?s = st_cdcPositions s" by (simp add: with_mark_def split: option.split)
  have spool: "st_cdcSpool ?s = st_cdcSpool (fst (MarkCDCSpoolApplied IOok ?i tm s))"
    by (simp add: with_mark_def MarkCDCSpoolApplied_def split: option.split)
  have dq: "drop k Q = Q ! k # drop (Suc k) Q" using k by (simp add: Cons_nth_drop_Suc)
  have "distinct (map sp_ID (drop k Q))" using pending_ids_distinct [OF ok] p by metis
  then have others: "\<forall>v \<in> set (drop (Suc k) Q). sp_ID v \<noteq> ?i" by (metis (mono_tags) dq distinct.simps(2) image_eqI list.simps(9) list.set_map)
  have "pending t d (st_cdcSpool ?s) = filter (\<lambda>v. sp_ID v \<noteq> ?i) (pending t d (st_cdcSpool s))"
    using pending_after_mark [OF ok] by (simp add: spool pending_def conj_commute)
  also have "\<dots> = drop (Suc k) Q" using others by (simp add: p dq filter_id_conv)
  finally show ?thesis
    using a spool_ok_mark [OF ok] by (simp add: drained_def applied_next_def sound_def pos spool)
qed

abbreviation drains :: "flow \<Rightarrow> flow \<Rightarrow> flow \<Rightarrow> 'a svc \<Rightarrow> bool" where
  "drains A B R m \<equiv> spec (held A R) m (\<lambda>_. held B R) (\<lambda>_ _. held R R) (held R R)"

lemma drains_keeps:
  assumes "keeps (held A R) m" "\<And>ps sp. A ps sp \<Longrightarrow> R ps sp"
  shows "drains A A R m"
  by (rule spec_weaken [OF assms(1)]) (auto elim: held_mono [OF _ assms(2)])

lemma drains_bnd: "drains A B R m \<Longrightarrow> (\<And>x. drains B C R (f x)) \<Longrightarrow> drains A C R (bnd m f)"
  by (rule spec_bnd)

lemma drains_fail:
  assumes "\<And>ps sp. A ps sp \<Longrightarrow> R ps sp" shows "drains A B R (fail_with r e)"
  by (rule spec_fail) (erule held_mono, erule assms)

lemma mark_drains:
  assumes k: "k < length Q"
  shows "drains (applied_next t d Q ps0 k) (drained t d Q ps0 (Suc k)) (in_order t d Q ps0)
     (must (write_repo (\<lambda>io. MarkCDCSpoolApplied io (sp_ID (Q ! k)) now)))"
proof (rule spec_ok_or)
  let ?R = "in_order t d Q ps0" and ?f = "\<lambda>io. MarkCDCSpoolApplied io (sp_ID (Q ! k)) now"
  have "spec (\<lambda>w. held (applied_next t d Q ps0 k) ?R w \<and> True) (write_repo ?f)
      (\<lambda>r w. held ?R ?R w \<and> (r = None \<longrightarrow> held (drained t d Q ps0 (Suc k)) ?R w)) (\<lambda>_ _. held ?R ?R) (held ?R ?R)"
  proof (rule held_write [OF writes_mark])
    show "drained t d Q ps0 (Suc k) ps sp \<Longrightarrow> ?R ps sp" for ps sp using k by (simp add: drained_order)
    then show "drained t d Q ps0 (Suc k) ps sp \<Longrightarrow> ?R ps sp" for ps sp .
    show "applied_next t d Q ps0 k ps sp \<Longrightarrow> ?R ps sp" for ps sp
      using k by (auto intro: underway_order simp: underway_def)
    show "drained t d Q ps0 (Suc k) (st_cdcPositions (with_mark (sp_ID (Q ! k)) now s))
        (st_cdcSpool (with_mark (sp_ID (Q ! k)) now s))"
      if "applied_next t d Q ps0 k (st_cdcPositions s) (st_cdcSpool s)" for s
      using k that by (rule mark_next)
    show "?f io s = persistLocked io (with_mark (sp_ID (Q ! k)) now s)" if "?f io s = (s', None)" for io s s'
      using that by (auto simp: MarkCDCSpoolApplied_def with_mark_def split: option.splits)
  qed
  then show "spec (held (applied_next t d Q ps0 k) ?R) (write_repo ?f)
      (\<lambda>r w. held ?R ?R w \<and> (r = None \<longrightarrow> held (drained t d Q ps0 (Suc k)) ?R w)) (\<lambda>_ _. held ?R ?R) (held ?R ?R)"
    by simp
qed

lemma direction_word: "d \<in> {''forward'', ''reverse''} \<Longrightarrow> request_direction \<lparr>ar_Direction = d, ar_Events = evs\<rparr> = d"
  by (auto simp: request_direction_def to_lower_def trim_space_def is_space_def lower_char_def Let_def)

definition typed :: "CDCSpoolRecord \<Rightarrow> bool" where
  "typed v \<longleftrightarrow> ev_PositionType (last (sp_Events v)) \<noteq> []"

lemma item_drains:
  assumes k: "k < length Q" and d: "d \<in> {''forward'', ''reverse''}" and ev: "typed (Q ! k)"
  shows "drains (drained t d Q ps0 k) (drained t d Q ps0 (Suc k)) (in_order t d Q ps0) (drain_item t d (Q ! k))"
proof -
  let ?R = "in_order t d Q ps0" and ?A = "drained t d Q ps0 k" and ?N = "applied_next t d Q ps0 k"
    and ?U = "underway t d Q ps0 k"
  have U: "?U ps sp \<Longrightarrow> ?R ps sp" and A: "?A ps sp \<Longrightarrow> ?R ps sp" and N: "?N ps sp \<Longrightarrow> ?R ps sp"
    and AU: "?A ps sp \<Longrightarrow> ?U ps sp" and B: "drained t d Q ps0 (Suc k) ps sp \<Longrightarrow> ?R ps sp" for ps sp
    using k by (auto simp: underway_def intro: underway_order drained_order)
  let ?req = "\<lparr>ar_Direction = d, ar_Events = sp_Events (Q ! k)\<rparr>"
  have "moves ?U ?N ?R (ApplyCDCEvents [] t ?req)"
    using item_step [OF k refl] ev by (intro moves_apply) (simp_all add: direction_word [OF d] typed_def)
  then have applied: "spec (held ?A ?R) (ApplyCDCEvents [] t ?req) (\<lambda>_. held ?N ?R) (\<lambda>_ _. held ?U ?R) (held ?R ?R)"
    by (rule spec_weaken) (auto elim: held_mono [OF _ AU] held_mono [OF _ U])
  have failed: "drains ?U (drained t d Q ps0 (Suc k)) ?R
      (bnd (recordCDCDeadLetter t d ?req e) (\<lambda>_. fail (f e)))" for e f
    by (intro drains_bnd [OF drains_keeps [OF held_helpers(7) [OF U] U] drains_fail [OF U]])
  have done': "drains ?N (drained t d Q ps0 (Suc k)) ?R
     (bnd (injected None ''cdc.spool.after_target_apply_before_mark'') (\<lambda>_.
      bnd clock (\<lambda>now.
      bnd (must (write_repo (\<lambda>io. MarkCDCSpoolApplied io (sp_ID (Q ! k)) now))) (\<lambda>_.
      injected None ''cdc.spool.after_mark_applied''))))"
    by (intro drains_bnd [OF drains_keeps [OF held_injected N]] drains_bnd [OF drains_keeps [OF held_clock N]]
        drains_bnd [OF mark_drains [OF k]] drains_keeps [OF held_injected B])
  have "drains ?A (drained t d Q ps0 (Suc k)) ?R (bnd (attempt (ApplyCDCEvents [] t ?req)) (\<lambda>r. case r of
        Inl (_, e) \<Rightarrow> bnd (recordCDCDeadLetter t d ?req e) (\<lambda>_. fail (f e))
      | Inr _ \<Rightarrow> bnd (injected None ''cdc.spool.after_target_apply_before_mark'') (\<lambda>_.
          bnd clock (\<lambda>now.
          bnd (must (write_repo (\<lambda>io. MarkCDCSpoolApplied io (sp_ID (Q ! k)) now))) (\<lambda>_.
          injected None ''cdc.spool.after_mark_applied'')))))" for f
  proof (rule spec_bnd [where R = "\<lambda>r. case r of Inl _ \<Rightarrow> held ?U ?R | Inr _ \<Rightarrow> held ?N ?R"])
    show "spec (held ?A ?R) (attempt (ApplyCDCEvents [] t ?req))
        (\<lambda>r. case r of Inl _ \<Rightarrow> held ?U ?R | Inr _ \<Rightarrow> held ?N ?R) (\<lambda>_ _. held ?R ?R) (held ?R ?R)"
      by (rule spec_attempt) (simp add: applied)
  qed (auto split: sum.split prod.split intro: failed done')
  then show ?thesis
    unfolding drain_item_def Let_def by (intro drains_bnd [OF drains_keeps [OF held_injected A]])
qed

lemma items_drain:
  assumes "d \<in> {''forward'', ''reverse''}" "list_all typed Q"
    and "k \<le> length Q" "vs = take n (drop k Q)" "length vs \<le> remaining"
  shows "drains (drained t d Q ps0 k) (drained t d Q ps0 (k + length vs)) (in_order t d Q ps0)
     (drain_items t d remaining vs)"
  using assms(3-)
proof (induction vs arbitrary: k n remaining)
  case Nil
  then show ?case by (auto intro: spec_ret)
next
  case (Cons v vs)
  then have k: "k < length Q" by (cases "k < length Q") auto
  then have dq: "drop k Q = Q ! k # drop (Suc k) Q" by (simp add: Cons_nth_drop_Suc)
  from Cons.prems(2) dq obtain m where m: "n = Suc m" "v = Q ! k" "vs = take m (drop (Suc k) Q)"
    by (cases n) auto
  have ty: "typed (Q ! k)" using assms(2) k by (simp add: list_all_length)
  have one: "drains (drained t d Q ps0 k) (drained t d Q ps0 (Suc k)) (in_order t d Q ps0) (drain_item t d v)"
    using item_drains [OF k assms(1) ty] m(2) by simp
  show ?case
  proof (cases "remaining \<le> 1")
    case True
    with Cons.prems(3) have "vs = []" by (cases vs) auto
    then show ?thesis using True one by (auto intro!: drains_bnd spec_ret)
  next
    case False
    then have "drains (drained t d Q ps0 (Suc k)) (drained t d Q ps0 (Suc k + length vs)) (in_order t d Q ps0)
        (drain_items t d (remaining - 1) vs)"
      using k m(3) Cons.prems(3) by (intro Cons.IH) auto
    then show ?thesis using False one by (auto intro: drains_bnd)
  qed
qed

text \<open>The listing is the front of the queue.\<close>

lemma listed_front:
  assumes "drained t d Q ps0 k ps sp" "0 < n" "n \<le> 100" "st_cdcSpool s = sp"
  shows "ListCDCSpool t d (int n) s = take n (drop k Q)"
proof -
  have "sort_key sp_Sequence (filter (pending_in t d) sp) = drop k Q"
    using assms(1) pending_sorted [of sp t d] by (simp add: drained_def sound_def pending_def)
  then show ?thesis using assms(2-) by (simp add: ListCDCSpool_def page_limit_def)
qed

lemma loop_drains:
  assumes d: "d \<in> {''forward'', ''reverse''}" and ty: "list_all typed Q"
  shows "k \<le> length Q \<Longrightarrow> drains (drained t d Q ps0 k) (drained t d Q ps0 (min (k + remaining) (length Q)))
     (in_order t d Q ps0) (drain_loop t d remaining)"
proof (induction remaining arbitrary: k rule: less_induct)
  case (less remaining)
  let ?A = "drained t d Q ps0 k" and ?R = "in_order t d Q ps0" and ?n = "min remaining 100"
  show ?case
  proof (cases "remaining = 0")
    case True
    with less.prems show ?thesis by (auto simp: drain_loop.simps min_def intro: spec_ret)
  next
    case False
    let ?B = "drained t d Q ps0 (min (k + remaining) (length Q))"
    have round: "drains ?A ?B ?R (if items = [] then ret () else bnd (drain_items t d remaining items)
        (\<lambda>_. drain_loop t d (remaining - length items)))" if items: "items = take ?n (drop k Q)" for items
    proof (cases "items = []")
      case True
      with items False less.prems have "k = length Q" by auto
      with True show ?thesis by (auto intro: spec_ret)
    next
      case ne: False
      have "drains (drained t d Q ps0 (k + length items)) (drained t d Q ps0 (min (k + length items + (remaining - length items)) (length Q)))
          ?R (drain_loop t d (remaining - length items))"
        using ne False items less.prems by (intro less.IH) auto
      moreover have "k + length items + (remaining - length items) = k + remaining" using items by auto
      moreover have "drains ?A (drained t d Q ps0 (k + length items)) ?R (drain_items t d remaining items)"
        using items less.prems by (intro items_drain [OF d ty]) auto
      ultimately show ?thesis using ne by (auto intro: drains_bnd)
    qed
    have "drains ?A ?B ?R (bnd (query (ListCDCSpool t d (int ?n))) (\<lambda>items.
        if items = [] then ret () else bnd (drain_items t d remaining items)
        (\<lambda>_. drain_loop t d (remaining - length items))))"
    proof (rule spec_query_bnd)
      fix items
      show "spec (\<lambda>w. held ?A ?R w \<and> items = ListCDCSpool t d (int ?n) (w_store w))
         (if items = [] then ret () else bnd (drain_items t d remaining items)
            (\<lambda>_. drain_loop t d (remaining - length items)))
         (\<lambda>_. held ?B ?R) (\<lambda>_ _. held ?R ?R) (held ?R ?R)"
      proof (cases "items = take ?n (drop k Q)")
        case True
        then show ?thesis by (rule spec_pre [OF round]) simp
      next
        case differs: False
        have "\<not> (held ?A ?R w \<and> items = ListCDCSpool t d (int ?n) (w_store w))" for w
          using differs False listed_front [of t d Q ps0 k _ _ ?n "w_store w"] held_both [of ?A ?R w] by auto
        then show ?thesis unfolding spec_def by blast
      qed
    qed
    then show ?thesis using False by (subst drain_loop.simps) simp
  qed
qed

definition with_purge :: "string \<Rightarrow> string \<Rightarrow> int \<Rightarrow> Store \<Rightarrow> Store" where
  "with_purge t d keep s = s\<lparr>st_cdcSpool := st_cdcSpool (fst (DeleteAppliedCDCSpool IOok t d keep s))\<rparr>"

lemma writes_purge: "writes (\<lambda>io. DeleteAppliedCDCSpool io t d keep) (with_purge t d keep)"
  by (auto simp: writes_def with_purge_def DeleteAppliedCDCSpool_def Let_def)

lemma purge_drains:
  assumes "k \<le> length Q"
  shows "drains (drained t d Q ps0 k) (drained t d Q ps0 k) (in_order t d Q ps0)
     (ignore (write_repo (\<lambda>io. DeleteAppliedCDCSpool io t d keep)))"
proof -
  let ?A = "drained t d Q ps0 k" and ?R = "in_order t d Q ps0" and ?f = "\<lambda>io. DeleteAppliedCDCSpool io t d keep"
  have R: "?A ps sp \<Longrightarrow> ?R ps sp" for ps sp using assms by (simp add: drained_order)
  have "keeps (held ?A ?R) (write_repo ?f)"
  proof -
    have "heldS ?A ?R (fst (?f io s))" if h: "heldS ?A ?R s" for io s
    proof -
      have m: "?A (st_cdcPositions (with_purge t d keep s)) (st_cdcSpool (with_purge t d keep s))"
        using h by (auto simp: heldS_def drained_def sound_def pending_def with_purge_def
            pending_after_delete spool_ok_delete)
      have "heldS ?A ?R (fst (persistLocked io (with_purge t d keep s)))"
        using h m by (intro heldS_persist [OF _ _ _ R]) (auto simp: heldS_def with_purge_def)
      with h writes_purge [of t d keep] show ?thesis unfolding writes_def by metis
    qed
    then show ?thesis
      by (auto simp: spec_def write_repo_def tick_def on_store_def case_prod_unfold Let_def)
  qed
  then show ?thesis by (intro drains_keeps [OF keeps_ignore R])
qed

definition drain_limit :: "int \<Rightarrow> nat" where
  "drain_limit n = nat (if n \<le> 0 then 1000 else n)"

lemma locked_drains:
  assumes d: "d \<in> {''forward'', ''reverse''}" and ty: "list_all typed Q" and k: "k \<le> length Q"
  shows "spec (held (drained t d Q ps0 k) (in_order t d Q ps0)) (drainCDCSpoolLocked t d n)
    (\<lambda>_ w. held (drained t d Q ps0 k) (in_order t d Q ps0) w
       \<or> held (drained t d Q ps0 (min (k + drain_limit n) (length Q))) (in_order t d Q ps0) w)
    (\<lambda>_ _. held (in_order t d Q ps0) (in_order t d Q ps0)) (held (in_order t d Q ps0) (in_order t d Q ps0))"
proof -
  let ?A = "drained t d Q ps0 k" and ?B = "drained t d Q ps0 (min (k + drain_limit n) (length Q))"
    and ?R = "in_order t d Q ps0"
  have A: "?A ps sp \<Longrightarrow> ?R ps sp" and B: "?B ps sp \<Longrightarrow> ?R ps sp" for ps sp
    using k by (auto intro: drained_order)
  have loop: "drains ?A ?B ?R (bnd (drain_loop t d (drain_limit n)) (\<lambda>_.
      bnd (getenv ''DTS_CDC_SPOOL_KEEP_APPLIED'') (\<lambda>raw.
      bnd (ignore (write_repo (\<lambda>io. DeleteAppliedCDCSpool io t d (spool_keep raw)))) (\<lambda>_.
      query (CDCSpoolStats_of t d)))))"
    using k by (intro drains_bnd [OF loop_drains [OF d ty]] drains_bnd [OF drains_keeps [OF keeps_getenv B]]
        drains_bnd [OF purge_drains] drains_keeps [OF keeps_query B]) auto
  have frozen: "drains ?A ?A ?R (query (CDCSpoolStats_of t d))"
    by (rule drains_keeps [OF keeps_query A])
  show ?thesis
    unfolding drainCDCSpoolLocked_def Let_def drain_limit_def [symmetric]
    by (intro spec_bnd [OF drains_keeps [OF keeps_fetch A]] spec_if spec_weaken [OF frozen] spec_weaken [OF loop])
      auto
qed

text \<open>
  C29. Draining the spool takes the captured transactions of a direction in order and skips none.
  Whatever the target answers, whatever file operation or injected fault fails and wherever the
  process dies, the pending queue afterwards is the queue before without its first \<open>k\<close>
  transactions, and the newest checkpoint of the direction stands after exactly these \<open>k\<close> or one
  more (the one that was applied but not yet taken off); the same holds after a restart from the
  state file. A drain that returns without an error has stopped at the start or drained as many
  transactions as it was allowed to. The queue's transactions carry a position type, and before
  the drain the state file is up to date.
\<close>

theorem drain_in_order:
  assumes d: "d \<in> {''forward'', ''reverse''}"
    and Q: "Q = pending t d (st_cdcSpool (w_store w))" "list_all typed Q" and ps: "ps0 = st_cdcPositions (w_store w)"
    and ok: "sound t d ps0 (st_cdcSpool (w_store w))" and path: "st_path (w_store w) \<noteq> []"
    and synced: "\<forall>s. NewPersistent None (st_path (w_store w)) (st_disk (w_store w)) = Inr s \<longrightarrow>
       st_cdcPositions s = ps0 \<and> st_cdcSpool s = st_cdcSpool (w_store w)"
    and run: "drainCDCSpoolLocked t d n E w = (w', r)"
  shows "(\<forall>s. s = w_store w' \<or> NewPersistent None (st_path (w_store w')) (st_disk (w_store w')) = Inr s \<longrightarrow>
      in_order t d Q ps0 (st_cdcPositions s) (st_cdcSpool s)) \<and>
    (\<forall>stats. r = Done stats \<longrightarrow> (\<exists>k \<in> {0, min (drain_limit n) (length Q)}.
      drained t d Q ps0 k (st_cdcPositions (w_store w')) (st_cdcSpool (w_store w'))))"
proof -
  let ?R = "in_order t d Q ps0" and ?A = "drained t d Q ps0 0"
  have start: "?A ps0 (st_cdcSpool (w_store w))" using ok by (simp add: drained_def Q(1))
  then have "?R ps0 (st_cdcSpool (w_store w))" by (simp add: drained_order)
  with start path synced have "held ?A ?R w" by (auto simp: on_store_def heldS_def ps)
  note s = locked_drains [OF d Q(2), of 0 t ps0 n, simplified]
  have keep: "held ?R ?R v" if "held (drained t d Q ps0 j) ?R v" "j \<le> length Q" for j v
    using that by (auto elim: held_mono intro: drained_order)
  show ?thesis
  proof (cases r)
    case (Done stats)
    with spec_Done [OF s \<open>held ?A ?R w\<close>] run obtain j where
      j: "j \<in> {0, min (drain_limit n) (length Q)}" "held (drained t d Q ps0 j) ?R w'" by blast
    then have "held ?R ?R w'" using keep by auto
    with j Done show ?thesis by (auto simp: on_store_def heldS_def)
  next
    case (Failed x e)
    with spec_Failed [OF s \<open>held ?A ?R w\<close>] run have "held ?R ?R w'" by blast
    with Failed show ?thesis by (auto simp: on_store_def heldS_def)
  next
    case Crashed
    with spec_Crashed [OF s \<open>held ?A ?R w\<close>] run have "held ?R ?R w'" by blast
    with Crashed show ?thesis by (auto simp: on_store_def heldS_def)
  qed
qed

text \<open>A store with one captured TRUNCATE in its spool, saved.\<close>

definition demo_record :: CDCSpoolRecord where
  "demo_record = (staged_record ''mig'' ''forward'' [demo_truncate] 10 5)\<lparr>sp_Sequence := 1\<rparr>"

definition demo_spool_world :: World where
  "demo_spool_world = demo_world\<lparr>w_store :=
     fst (persistLocked IOok (CdcSafety.demo_store\<lparr>st_cdcSpool := [demo_record]\<rparr>))\<rparr>"

lemma demo_record_simps [simp]:
  "sp_TaskID demo_record = ''mig''" "sp_Direction demo_record = ''forward''" "sp_Sequence demo_record = 1"
  "sp_Status demo_record = CDCSpoolPending" "sp_Events demo_record = [demo_truncate]"
  by (simp_all add: demo_record_def staged_record_def)

lemma demo_spool_facts:
  "st_cdcSpool (w_store demo_spool_world) = [demo_record]" "st_cdcPositions (w_store demo_spool_world) = []"
  "st_path (w_store demo_spool_world) = ''dts.json''"
  "pending ''mig'' ''forward'' [demo_record] = [demo_record]" "typed demo_record"
  "sound ''mig'' ''forward'' [] [demo_record]"
  by (auto simp: demo_spool_world_def CdcSafety.demo_store_def newStore_def pending_def pending_in_def in_stream_def
      typed_def demo_truncate_def sound_def few_streams_def spool_ok_def seq_of_def)

theorem drain_in_order_witness:
  "let w' = fst (drainCDCSpoolLocked ''mig'' ''forward'' 10 (demo_env (\<lambda>n. n = 7)) demo_spool_world) in
     in_order ''mig'' ''forward'' [demo_record] [] (st_cdcPositions (w_store w')) (st_cdcSpool (w_store w'))"
proof -
  let ?w = demo_spool_world and ?run = "drainCDCSpoolLocked ''mig'' ''forward'' 10 (demo_env (\<lambda>n. n = 7)) demo_spool_world"
  have "\<forall>s. NewPersistent None (st_path (w_store ?w)) (st_disk (w_store ?w)) = Inr s \<longrightarrow>
      st_cdcPositions s = [] \<and> st_cdcSpool s = st_cdcSpool (w_store ?w)"
    by (auto simp: demo_spool_world_def persistLocked_def CdcSafety.demo_store_def newStore_def reload_lists)
  note synced = this
  let ?v = "fst ?run"
  have "(\<forall>s. s = w_store ?v \<or> NewPersistent None (st_path (w_store ?v)) (st_disk (w_store ?v)) = Inr s \<longrightarrow>
      in_order ''mig'' ''forward'' [demo_record] [] (st_cdcPositions s) (st_cdcSpool s)) \<and>
    (\<forall>stats. snd ?run = Done stats \<longrightarrow> (\<exists>k \<in> {0, min (drain_limit 10) (length [demo_record])}.
      drained ''mig'' ''forward'' [demo_record] [] k (st_cdcPositions (w_store ?v)) (st_cdcSpool (w_store ?v))))"
    by (rule drain_in_order [where w = ?w and n = 10 and E = "demo_env (\<lambda>n. n = 7)"])
      (use synced in \<open>simp_all add: demo_spool_facts\<close>)
  then show ?thesis by (simp add: Let_def)
qed

section \<open>Staging\<close>

definition stage_write :: "string \<Rightarrow> string \<Rightarrow> CDCEvent list \<Rightarrow> int \<Rightarrow> time \<Rightarrow> Env \<Rightarrow> io \<Rightarrow> Store \<Rightarrow>
    Store \<times> (go_error + CDCSpoolRecord)" where
  "stage_write tid direction evs len now = (\<lambda>E io s.
      case CreateCDCSpool (sv_json_len E) io (staged_record tid direction evs len now) s of
        (s', r, None) \<Rightarrow> (s', Inr r) | (s', r, Some e) \<Rightarrow> (s', Inl e))"

definition staged :: "string \<Rightarrow> string \<Rightarrow> CDCEvent list \<Rightarrow> Store \<Rightarrow> int \<Rightarrow> Store \<Rightarrow> bool" where
  "staged tid direction evs s0 n s \<longleftrightarrow>
     (\<exists>v. pending tid direction (st_cdcSpool s) = pending tid direction (st_cdcSpool s0) @ [v]
       \<and> sp_Events v = evs \<and> sp_ID v = cdcSpoolID tid direction (last evs) \<and> sp_Sequence v = n
       \<and> (\<forall>u \<in> set (st_cdcSpool s0). in_stream tid direction u \<longrightarrow> sp_Sequence u < n))
     \<and> (\<forall>s'. NewPersistent None (st_path s) (st_disk s) = Inr s' \<longrightarrow> st_cdcSpool s' = st_cdcSpool s)"

lemma stage_write_done:
  assumes fresh: "cdcSpoolID tid direction (last evs) \<notin> set (map sp_ID (st_cdcSpool s))" and path: "st_path s \<noteq> []"
    and w: "stage_write tid direction evs len now E io s = (s', Inr r)"
  shows "staged tid direction evs s (sp_Sequence r) s'"
proof -
  let ?v = "staged_record tid direction evs len now" and ?jl = "sv_json_len E"
  let ?n = "numbered_spool ?jl (st_cdcSpool s) ?v"
  have v: "sp_ID ?v = cdcSpoolID tid direction (last evs)" "sp_TaskID ?v = tid" "sp_Direction ?v = direction"
    "sp_Status ?v = CDCSpoolPending" "sp_Events ?v = evs" by (simp_all add: staged_record_def Let_def)
  have new: "sp_ID ?v \<notin> set (map sp_ID (st_cdcSpool s))" using fresh v(1) by simp
  from w have c: "CreateCDCSpool ?jl io ?v s = (s', r, None)"
    by (auto simp: stage_write_def split: prod.splits option.splits)
  have s': "st_cdcSpool s' = st_cdcSpool s @ [?n]" "r = ?n"
    using CreateCDCSpool_new [OF new, of ?jl io] c by simp_all
  have "find (\<lambda>x. sp_ID x = sp_ID ?v) (st_cdcSpool s) = None" using new by (subst find_id_None)
  with c have p: "persistLocked io (s\<lparr>st_cdcSpool := st_cdcSpool s @ [?n]\<rparr>) = (s', None)"
    by (simp add: CreateCDCSpool_def Let_def split: prod.splits)
  have "pending tid direction (st_cdcSpool s') = pending tid direction (st_cdcSpool s) @ [?n]"
    using s'(1) v by (simp add: pending_def pending_in_def in_stream_def)
  moreover have "sp_Sequence u < sp_Sequence r" if "u \<in> set (st_cdcSpool s)" "in_stream tid direction u" for u
    using that max_seq_ge [of "sp_Sequence u" tid direction "st_cdcSpool s"] s'(2) v
    by (force simp: seq_of_def)
  moreover have "st_cdcSpool s'' = st_cdcSpool s'" if "NewPersistent None (st_path s') (st_disk s') = Inr s''" for s''
    using that p path by (cases io) (auto simp: persistLocked_def reload_lists)
  ultimately show ?thesis using s'(2) v unfolding staged_def by fastforce
qed

lemma on_store_frame:
  assumes "keeps (on_store P) m" shows "spec (on_store P) m (\<lambda>_. on_store P) (\<lambda>_ _ _. True) (\<lambda>_. True)"
  by (rule spec_weaken [OF assms]) auto

lemma held_pressure [held_rule]: "keeps (on_store P) (spool_pressure stats)"
  unfolding spool_pressure_def Let_def by (intro held_rule)

lemma stage_spec:
  assumes fresh: "cdcSpoolID tid direction (last evs) \<notin> set (map sp_ID (st_cdcSpool s))" and path: "st_path s \<noteq> []"
  shows "spec (on_store (\<lambda>t. t = s)) (stageCDCEvents tid direction evs)
    (\<lambda>r. on_store (staged tid direction evs s (res_SpoolSequence r))) (\<lambda>_ _ _. True) (\<lambda>_. True)"
proof -
  have "spec (on_store (\<lambda>t. t = s)) (write_result (stage_write tid direction evs len now))
     (\<lambda>x. case x of Inl _ \<Rightarrow> (\<lambda>_. True) | Inr r \<Rightarrow> on_store (staged tid direction evs s (sp_Sequence r)))
     (\<lambda>_ _ _. True) (\<lambda>_. True)" for len now
    using stage_write_done [OF fresh path, of len now]
    by (auto simp: spec_def write_result_def tick_def on_store_def case_prod_unfold Let_def split: sum.split)
      (metis prod.collapse)
  note written = this [unfolded stage_write_def]
  show ?thesis
    unfolding stageCDCEvents_def Let_def
    by (intro spec_if spec_fail spec_bnd [OF on_store_frame] spec_bnd [OF written] held_rule TrueI)
      (auto split: sum.split intro!: spec_fail spec_bnd [OF on_store_frame] spec_ret held_rule)
qed


lemma demo_stage_eval:
  "stageCDCEvents ''mig'' ''forward'' [demo_truncate] (demo_env (\<lambda>n. False)) demo_world =
    (fst (stageCDCEvents ''mig'' ''forward'' [demo_truncate] (demo_env (\<lambda>n. False)) demo_world),
     Done (zero_CDCApplyResult\<lparr>res_PositionType := ''LSN'', res_PositionValue := ''0/1'',
       res_Staged := True, res_SpoolSequence := 1\<rparr>))"
  by (simp add: stageCDCEvents_def demo_truncate_def zero_CDCEvent_def svc_eval demo_env_def demo_world_def newStore_def
      trim_space_def is_space_def spool_pressure_def CDCSpoolStats_of_def zero_CDCSpoolStats_def to_upper_def
      i64_def injected_def write_result_def staged_record_def CreateCDCSpool_def numbered_spool_def max_seq_def
      persistLocked_def zero_CDCApplyResult_def Let_def)


text \<open>
  The premise that the transaction is new to the spool cannot be dropped. When the state file
  cannot be written, staging fails but the record stays in memory; the retry finds it there and
  is acknowledged without a write, and a restart finds no such transaction.
\<close>

lemma retry_acknowledges_unsaved:
  defines "full \<equiv> (demo_env (\<lambda>n. False))\<lparr>sv_io := \<lambda>n. IOwrite ''disk full''\<rparr>"
  defines "w1 \<equiv> fst (stageCDCEvents ''mig'' ''forward'' [demo_truncate] full demo_world)"
  defines "retry \<equiv> stageCDCEvents ''mig'' ''forward'' [demo_truncate] (demo_env (\<lambda>n. False)) w1"
  shows "(\<exists>res. snd retry = Done res \<and> res_Staged res) \<and> st_cdcSpool (w_store (restarted (fst retry))) = []"
  by (simp add: retry_def w1_def full_def stageCDCEvents_def demo_truncate_def zero_CDCEvent_def svc_eval demo_env_def
      demo_world_def newStore_def trim_space_def is_space_def spool_pressure_def CDCSpoolStats_of_def
      zero_CDCSpoolStats_def to_upper_def stats_step_def pending_in_def in_stream_def
      i64_def injected_def write_result_def staged_record_def CreateCDCSpool_def numbered_spool_def max_seq_def
      persistLocked_def restarted_def NewPersistent_def load_def Let_def)

section \<open>Replaying a dead letter\<close>

text \<open>
  A replay writes its copy of the dead letter back over the fence the same transaction has put
  up. When the target has confirmed the COMMIT and the checkpoint then fails, the letter is an
  ordinary one again, and the next delivery of the transaction commits it a second time.
\<close>

definition demo_letter :: CDCDeadLetter where
  "demo_letter = (new_fence (cdcDeadLetterID ''mig'' ''forward'' demo_truncate) ''mig'' ''forward''
     [demo_truncate] 5)\<lparr>dl_Status := CDCDeadLetterOpen, dl_RetryCount := 1\<rparr>"

definition replay_world :: World where
  "replay_world = demo_world\<lparr>w_store := CdcSafety.demo_store\<lparr>
     st_cdcDeadLetters := [(cdcDeadLetterID ''mig'' ''forward'' demo_truncate, demo_letter)],
     st_datasources := [(''ds'', zero_DataSource\<lparr>ds_ID := ''ds''\<rparr>)],
     st_migrations := [(''mig'', zero_MigrationTask\<lparr>mig_ID := ''mig'', mig_Status := StatusCDCCatchingUp,
       mig_SourceID := ''ds'', mig_TargetID := ''ds''\<rparr>)]\<rparr>\<rparr>"

definition confirming :: "(nat \<Rightarrow> string \<Rightarrow> string option) \<Rightarrow> Env" where
  "confirming fault = (demo_env (\<lambda>n. False))\<lparr>sv_fault := fault,
     sv_connect := \<lambda>d. Inr (demo_target\<lparr>tg_answer := \<lambda>cs. None\<rparr>)\<rparr>"

definition replay_run :: "World \<times> CDCApplyResult outcome" where
  "replay_run = ReplayCDCDeadLetter ''mig'' (cdcDeadLetterID ''mig'' ''forward'' demo_truncate)
     (confirming (\<lambda>n k. if k = ''cdc.apply.after_target_before_checkpoint'' then Some ''lost'' else None))
     replay_world"

lemmas replay_defs = replay_run_def ReplayCDCDeadLetter_def replay_world_def confirming_def demo_letter_def
  new_fence_def GetCDCDeadLetter_def ApplyCDCEvents_def checkpointed_def ListCDCPositions_def newest_matching_def
  unresolvedCommitRecovery_def GetDataSource_def to_lower_def lower_char_def reused_fence_def UpdateCDCDeadLetter_def
  replayed_failed_def

text \<open>One COMMIT was confirmed, and neither the fence nor a checkpoint stops the next one.\<close>

lemma replay_forgets_commit:
  "commits (fst replay_run) = 1 \<and>
   unresolvedCommitRecovery ''mig'' ''forward'' (w_store (fst replay_run)) = None \<and>
   \<not> checkpointed ''mig'' ''forward'' demo_truncate (w_store (fst replay_run))"
  by (simp add: replay_defs demo_defs CdcSafety.demo_store_def Let_def page_limit_def commits_def)

end
