(* ===== verification/SchemaTypes.thy ===== *)
theory SchemaTypes
  imports GoStrings ServiceTypes
begin

text \<open>
  The universal schema model of \<open>backend/internal/schema\<close>: the classification of a vendor's
  column type (\<open>universal.go\<close>) and its rendering for a target database (\<open>converter.go\<close>). The
  lemmas say that a rendered decimal fits the target's limits and keeps the source's where it
  can, and that a rendered column is classified as the column it came from.
\<close>

section \<open>The model's types\<close>

datatype UniversalDataType =
    UniversalString | UniversalInteger | UniversalBigInt | UniversalDecimal | UniversalFloat
  | UniversalDouble | UniversalDate | UniversalTime | UniversalTimestamp | UniversalBoolean
  | UniversalBinary | UniversalText | UniversalJSON | UniversalUUID | UniversalUnknown
  | UniversalDataTypeOther string

record UniversalColumn =
  uc_Name :: string
  uc_Type :: UniversalDataType
  uc_SourceType :: string
  uc_Length :: int
  uc_Precision :: int
  uc_Scale :: int
  uc_Nullable :: bool
  uc_PrimaryKey :: bool

record UniversalTable =
  ut_Database :: string
  ut_Schema :: string
  ut_Name :: string
  ut_Columns :: "UniversalColumn list"
  ut_Indexes :: "IndexInfo list"
  ut_Constraints :: "ForeignKeyInfo list"

section \<open>Classification\<close>

text \<open>The first match of \<open>\((\d+)(?:\s*,\s*(\d+))?\)\<close>, as the texts of its two groups; the second is
  empty when it did not take part.\<close>

definition regex_space :: "char \<Rightarrow> bool" where
  "regex_space c \<longleftrightarrow> (of_char c :: nat) \<in> {9, 10, 12, 13, 32}"

definition args_here :: "string \<Rightarrow> (string \<times> string) option" where
  "args_here s = (case s of
       [] \<Rightarrow> None
     | c # r \<Rightarrow>
         let d1 = takeWhile is_digit r; r1 = dropWhile is_digit r in
         if c \<noteq> CHR ''('' \<or> d1 = [] then None
         else if prefix '')'' r1 then Some (d1, [])
         else
           let r2 = dropWhile regex_space r1; r3 = dropWhile regex_space (drop 1 r2);
               d2 = takeWhile is_digit r3; r4 = dropWhile is_digit r3 in
           if prefix '','' r2 \<and> d2 \<noteq> [] \<and> prefix '')'' r4 then Some (d1, d2) else None)"

fun typeArgs :: "string \<Rightarrow> (string \<times> string) option" where
  "typeArgs [] = None"
| "typeArgs (c # s) = (case args_here (c # s) of Some m \<Rightarrow> Some m | None \<Rightarrow> typeArgs s)"

text \<open>\<open>strconv.ParseInt\<close> and \<open>Atoi\<close> of a run of digits when the error is ignored: a number out
  of range becomes the largest one.\<close>

definition parse_clamped :: "string \<Rightarrow> int" where
  "parse_clamped d = (case parse_digits 0 d of Some n \<Rightarrow> min n (2 ^ 63 - 1) | None \<Rightarrow> 0)"

definition with_args :: "string \<Rightarrow> UniversalColumn \<Rightarrow> UniversalColumn" where
  "with_args ct u = (case typeArgs ct of
       None \<Rightarrow> u
     | Some (m1, m2) \<Rightarrow>
         u\<lparr>uc_Length := parse_clamped m1, uc_Precision := parse_clamped m1,
           uc_Scale := (if m2 \<noteq> [] then parse_clamped m2 else uc_Scale u)\<rparr>)"

text \<open>The \<open>switch\<close> on the catalogue's type name, and the search for parts of it.\<close>

definition by_part :: "string \<Rightarrow> UniversalDataType" where
  "by_part dt =
     (if contains dt ''char'' \<or> contains dt ''string'' then UniversalString
      else if contains dt ''int'' then UniversalBigInt
      else if contains dt ''decimal'' \<or> contains dt ''numeric'' \<or> contains dt ''number'' then UniversalDecimal
      else if contains dt ''timestamp'' \<or> contains dt ''datetime'' then UniversalTimestamp
      else if contains dt ''binary'' \<or> contains dt ''blob'' then UniversalBinary
      else if contains dt ''text'' \<or> contains dt ''clob'' then UniversalText
      else UniversalUnknown)"

definition by_name :: "string \<Rightarrow> string \<Rightarrow> int \<Rightarrow> UniversalDataType" where
  "by_name dt ct scale =
     (if dt \<in> {''char'', ''character'', ''varchar'', ''character varying'', ''nvarchar'', 
          ''nvarchar2'', ''nchar'', ''bpchar'', ''citext''}
      then UniversalString
      else if dt \<in> {''tinyint'', ''smallint'', ''mediumint'', ''int'', ''integer'', ''int2'', 
          ''int4'', ''serial'', ''smallserial''}
      then UniversalInteger
      else if dt \<in> {''bigint'', ''int8'', ''bigserial'', ''number''}
      then (if prefix ''number('' ct \<and> scale > 0 then UniversalDecimal else UniversalBigInt)
      else if dt \<in> {''decimal'', ''numeric'', ''dec''}
      then UniversalDecimal
      else if dt \<in> {''float'', ''real'', ''float4'', ''binary_float''}
      then UniversalFloat
      else if dt \<in> {''double'', ''double precision'', ''float8'', ''binary_double''}
      then UniversalDouble
      else if dt \<in> {''date''}
      then UniversalDate
      else if dt \<in> {''time'', ''time without time zone'', ''time with time zone''}
      then UniversalTime
      else if dt \<in> {''datetime'', ''timestamp'', ''timestamp without time zone'', 
          ''timestamp with time zone'', ''timestamptz''}
      then UniversalTimestamp
      else if dt \<in> {''bool'', ''boolean'', ''bit''}
      then UniversalBoolean
      else if dt \<in> {''binary'', ''varbinary'', ''bytea'', ''blob'', ''tinyblob'', ''mediumblob'', 
          ''longblob'', ''raw'', ''long raw''}
      then UniversalBinary
      else if dt \<in> {''text'', ''tinytext'', ''mediumtext'', ''longtext'', ''clob'', ''nclob'', 
          ''xml'', ''xmltype''}
      then UniversalText
      else if dt \<in> {''json'', ''jsonb''}
      then UniversalJSON
      else if dt \<in> {''uuid'', ''uniqueidentifier''}
      then UniversalUUID
      else by_part dt)"

definition NormalizeType :: "ColumnInfo \<Rightarrow> UniversalColumn" where
  "NormalizeType col =
     (let dt = to_lower (trim_space (col_DataType col));
          ct = to_lower (trim_space (col_ColumnType col));
          u = with_args ct
            \<lparr>uc_Name = col_Name col, uc_Type = UniversalUnknown,
             uc_SourceType = (if col_ColumnType col = [] then col_DataType col else col_ColumnType col),
             uc_Length = 0, uc_Precision = 0, uc_Scale = 0, uc_Nullable = col_Nullable col,
             uc_PrimaryKey = col_PrimaryKey col\<rparr>
      in u\<lparr>uc_Type := by_name dt ct (uc_Scale u)\<rparr>)"

definition FromMetadata :: "string \<Rightarrow> TableMetadata option \<Rightarrow> UniversalTable" where
  "FromMetadata database meta = (case meta of
       None \<Rightarrow> \<lparr>ut_Database = [], ut_Schema = [], ut_Name = [], ut_Columns = [], ut_Indexes = [],
               ut_Constraints = []\<rparr>
     | Some m \<Rightarrow> \<lparr>ut_Database = database, ut_Schema = tm_Schema m, ut_Name = tm_Name m,
               ut_Columns = map NormalizeType (tm_Columns m), ut_Indexes = tm_Indexes m,
               ut_Constraints = tm_ForeignKeys m\<rparr>)"

section \<open>Rendering\<close>

definition sized :: "string \<Rightarrow> int \<Rightarrow> string" where
  "sized kw n = kw @ ''('' @ int_str n @ '')''"

definition sized2 :: "string \<Rightarrow> int \<Rightarrow> int \<Rightarrow> string" where
  "sized2 kw p s = kw @ ''('' @ int_str p @ '','' @ int_str s @ '')''"

text \<open>A character type up to a longest length, and a decimal clamped to a largest precision and
  a largest scale.\<close>

definition string_type :: "string \<Rightarrow> int \<Rightarrow> string \<Rightarrow> UniversalColumn \<Rightarrow> string" where
  "string_type kw longest fallback c =
     (if uc_Length c > 0 \<and> uc_Length c \<le> longest then sized kw (uc_Length c) else fallback)"

definition clamped_decimal :: "string \<Rightarrow> int \<Rightarrow> int \<Rightarrow> UniversalColumn \<Rightarrow> string" where
  "clamped_decimal kw maxP maxS c =
     (let p = (if uc_Precision c \<le> 0 \<or> uc_Precision c > maxP then maxP else uc_Precision c);
          s = (if uc_Scale c < 0 then 0 else uc_Scale c);
          s = (if s > maxS then maxS else s)
      in sized2 kw p (if s > p then p else s))"

definition postgres_type :: "UniversalColumn \<Rightarrow> string" where
  "postgres_type c = (case uc_Type c of
       UniversalString \<Rightarrow> string_type ''varchar'' 10485760 ''text'' c
     | UniversalInteger \<Rightarrow> ''integer''
     | UniversalBigInt \<Rightarrow> ''bigint''
     | UniversalDecimal \<Rightarrow> (if uc_Precision c > 0 \<and> uc_Precision c \<le> 1000
          then (if uc_Scale c > 0 then sized2 ''numeric'' (uc_Precision c) (uc_Scale c)
                else sized ''numeric'' (uc_Precision c))
          else ''numeric'')
     | UniversalFloat \<Rightarrow> ''real''
     | UniversalDouble \<Rightarrow> ''double precision''
     | UniversalDate \<Rightarrow> ''date''
     | UniversalTime \<Rightarrow> ''time''
     | UniversalTimestamp \<Rightarrow> ''timestamp''
     | UniversalBoolean \<Rightarrow> ''boolean''
     | UniversalBinary \<Rightarrow> ''bytea''
     | UniversalJSON \<Rightarrow> ''jsonb''
     | UniversalUUID \<Rightarrow> ''uuid''
     | _ \<Rightarrow> ''text'')"

definition oracle_type :: "UniversalColumn \<Rightarrow> string" where
  "oracle_type c = (case uc_Type c of
       UniversalString \<Rightarrow> string_type ''varchar2'' 4000 ''clob'' c
     | UniversalInteger \<Rightarrow> ''number(10)''
     | UniversalBigInt \<Rightarrow> ''number(19)''
     | UniversalDecimal \<Rightarrow> clamped_decimal ''number'' 38 38 c
     | UniversalFloat \<Rightarrow> ''binary_float''
     | UniversalDouble \<Rightarrow> ''binary_double''
     | UniversalDate \<Rightarrow> ''date''
     | UniversalTime \<Rightarrow> ''timestamp(6)''
     | UniversalTimestamp \<Rightarrow> ''timestamp(6)''
     | UniversalBoolean \<Rightarrow> ''number(1)''
     | UniversalBinary \<Rightarrow> ''blob''
     | UniversalUUID \<Rightarrow> ''varchar2(36)''
     | _ \<Rightarrow> ''clob'')"

definition sqlserver_type :: "UniversalColumn \<Rightarrow> string" where
  "sqlserver_type c = (case uc_Type c of
       UniversalString \<Rightarrow> string_type ''nvarchar'' 4000 ''nvarchar(max)'' c
     | UniversalInteger \<Rightarrow> ''int''
     | UniversalBigInt \<Rightarrow> ''bigint''
     | UniversalDecimal \<Rightarrow> clamped_decimal ''decimal'' 38 38 c
     | UniversalFloat \<Rightarrow> ''real''
     | UniversalDouble \<Rightarrow> ''float(53)''
     | UniversalDate \<Rightarrow> ''date''
     | UniversalTime \<Rightarrow> ''time(7)''
     | UniversalTimestamp \<Rightarrow> ''datetime2(7)''
     | UniversalBoolean \<Rightarrow> ''bit''
     | UniversalBinary \<Rightarrow> ''varbinary(max)''
     | UniversalUUID \<Rightarrow> ''uniqueidentifier''
     | _ \<Rightarrow> ''nvarchar(max)'')"

definition gbase8s_type :: "UniversalColumn \<Rightarrow> string" where
  "gbase8s_type c = (case uc_Type c of
       UniversalString \<Rightarrow> string_type ''varchar'' 32739 ''lvarchar(32739)'' c
     | UniversalInteger \<Rightarrow> ''integer''
     | UniversalBigInt \<Rightarrow> ''bigint''
     | UniversalDecimal \<Rightarrow> clamped_decimal ''decimal'' 32 32 c
     | UniversalFloat \<Rightarrow> ''smallfloat''
     | UniversalDouble \<Rightarrow> ''float''
     | UniversalDate \<Rightarrow> ''date''
     | UniversalTime \<Rightarrow> ''datetime hour to fraction(5)''
     | UniversalTimestamp \<Rightarrow> ''datetime year to fraction(5)''
     | UniversalBoolean \<Rightarrow> ''boolean''
     | UniversalBinary \<Rightarrow> ''blob''
     | UniversalUUID \<Rightarrow> ''varchar(36)''
     | _ \<Rightarrow> ''clob'')"

definition gbase_type :: "UniversalColumn \<Rightarrow> string" where
  "gbase_type c = (case uc_Type c of
       UniversalString \<Rightarrow> string_type ''varchar'' 8191 ''longtext'' c
     | UniversalInteger \<Rightarrow> ''int''
     | UniversalBigInt \<Rightarrow> ''bigint''
     | UniversalDecimal \<Rightarrow> clamped_decimal ''decimal'' 65 30 c
     | UniversalFloat \<Rightarrow> ''float''
     | UniversalDouble \<Rightarrow> ''double''
     | UniversalDate \<Rightarrow> ''date''
     | UniversalTime \<Rightarrow> ''time''
     | UniversalTimestamp \<Rightarrow> ''datetime''
     | UniversalBoolean \<Rightarrow> ''tinyint''
     | UniversalBinary \<Rightarrow> ''longblob''
     | UniversalUUID \<Rightarrow> ''varchar(36)''
     | _ \<Rightarrow> ''longtext'')"

definition mysql_type :: "UniversalColumn \<Rightarrow> string" where
  "mysql_type c = (case uc_Type c of
       UniversalString \<Rightarrow> string_type ''varchar'' 16383 ''longtext'' c
     | UniversalInteger \<Rightarrow> ''int''
     | UniversalBigInt \<Rightarrow> ''bigint''
     | UniversalDecimal \<Rightarrow> clamped_decimal ''decimal'' 65 30 c
     | UniversalFloat \<Rightarrow> ''float''
     | UniversalDouble \<Rightarrow> ''double''
     | UniversalDate \<Rightarrow> ''date''
     | UniversalTime \<Rightarrow> ''time''
     | UniversalTimestamp \<Rightarrow> ''datetime(6)''
     | UniversalBoolean \<Rightarrow> ''tinyint(1)''
     | UniversalBinary \<Rightarrow> ''longblob''
     | UniversalJSON \<Rightarrow> ''json''
     | UniversalUUID \<Rightarrow> ''char(36)''
     | _ \<Rightarrow> ''longtext'')"

definition targetType :: "UniversalColumn \<Rightarrow> DataSourceType \<Rightarrow> string" where
  "targetType c target =
     (if IsPostgreSQLFamily target \<or> target = DataSourceOpenGauss \<or> target = DataSourceKingbase
      then postgres_type c
      else if target = DataSourceOracle then oracle_type c
      else if target = DataSourceSQLServer then sqlserver_type c
      else if target = DataSourceGBase8s then gbase8s_type c
      else if target = DataSourceGBase then gbase_type c
      else if IsMySQLFamily target \<or> target = DataSourceOceanBase then mysql_type c
      else uc_SourceType c)"

definition converted :: "DataSourceType \<Rightarrow> ColumnInfo \<Rightarrow> ColumnInfo" where
  "converted target source = (let t = targetType (NormalizeType source) target in
     source\<lparr>col_DataType := t, col_ColumnType := t, col_Extra := []\<rparr>)"

definition column_warnings :: "ColumnInfo \<Rightarrow> string list" where
  "column_warnings c = (let u = NormalizeType c in
     (if trim_space (col_Extra c) \<noteq> []
      then [''column '' @ col_Name c @ '' vendor-specific attribute '' @ go_quote (col_Extra c) @ '' was not copied'']
      else [])
     @ (if uc_Type u = UniversalUnknown
        then [''column '' @ col_Name c @ '' source type '' @ go_quote (uc_SourceType u)
              @ '' mapped to a conservative text type'']
        else []))"

definition ConvertColumns :: "ColumnInfo list \<Rightarrow> DataSourceType \<Rightarrow> ColumnInfo list \<times> string list" where
  "ConvertColumns columns target =
     (map (converted target) columns, concat (map column_warnings columns))"

section \<open>Decimals fit the target\<close>

text \<open>The keyword, largest precision and largest scale of a target's decimal type.\<close>

definition decimal_limits :: "DataSourceType \<Rightarrow> (string \<times> int \<times> int) option" where
  "decimal_limits t =
     (if IsPostgreSQLFamily t \<or> t = DataSourceOpenGauss \<or> t = DataSourceKingbase then None
      else if t = DataSourceOracle then Some (''number'', 38, 38)
      else if t = DataSourceSQLServer then Some (''decimal'', 38, 38)
      else if t = DataSourceGBase8s then Some (''decimal'', 32, 32)
      else if t = DataSourceGBase \<or> IsMySQLFamily t then Some (''decimal'', 65, 30)
      else None)"

lemma targetType_decimal:
  "decimal_limits t = Some (kw, maxP, maxS) \<Longrightarrow> uc_Type c = UniversalDecimal \<Longrightarrow>
     targetType c t = clamped_decimal kw maxP maxS c"
  by (auto simp: decimal_limits_def targetType_def oracle_type_def sqlserver_type_def gbase8s_type_def
      gbase_type_def mysql_type_def split: if_splits)

lemma decimal_limits_range:
  "decimal_limits t = Some (kw, maxP, maxS) \<Longrightarrow> 1 \<le> maxP \<and> 0 \<le> maxS \<and> maxS \<le> maxP"
  by (auto simp: decimal_limits_def split: if_splits)

text \<open>
  C31. A decimal column rendered for a target with a bounded decimal type has a precision and a
  scale the target accepts, whatever the source declared; a source precision and scale within the
  target's limits are kept as they are.
\<close>

theorem decimal_fits_target:
  assumes t: "decimal_limits t = Some (kw, maxP, maxS)" and d: "uc_Type c = UniversalDecimal"
  shows "\<exists>p s. targetType c t = sized2 kw p s \<and> 1 \<le> p \<and> p \<le> maxP \<and> 0 \<le> s \<and> s \<le> p \<and> s \<le> maxS \<and>
    (1 \<le> uc_Precision c \<and> uc_Precision c \<le> maxP \<longrightarrow> p = uc_Precision c) \<and>
    (0 \<le> uc_Scale c \<and> uc_Scale c \<le> uc_Precision c \<and> uc_Precision c \<le> maxP \<and> uc_Scale c \<le> maxS
       \<longrightarrow> s = uc_Scale c)"
proof -
  let ?p = "if uc_Precision c \<le> 0 \<or> uc_Precision c > maxP then maxP else uc_Precision c"
  let ?s = "min ?p (min maxS (max 0 (uc_Scale c)))"
  have "targetType c t = sized2 kw ?p ?s"
    by (simp add: targetType_decimal [OF t d] clamped_decimal_def Let_def min_def max_def)
  with decimal_limits_range [OF t] show ?thesis
    by (intro exI [of _ ?p] exI [of _ ?s]) auto
qed

definition demo_decimal :: UniversalColumn where
  "demo_decimal = \<lparr>uc_Name = ''amount'', uc_Type = UniversalDecimal, uc_SourceType = ''numeric(50,40)'',
     uc_Length = 50, uc_Precision = 50, uc_Scale = 40, uc_Nullable = True, uc_PrimaryKey = False\<rparr>"

theorem decimal_fits_target_witness:
  "targetType demo_decimal DataSourceMySQL = ''decimal(50,30)''"
proof -
  have "\<exists>p s. targetType demo_decimal DataSourceMySQL = sized2 ''decimal'' p s \<and> p = 50 \<and> s \<le> 30"
    using decimal_fits_target [of DataSourceMySQL "''decimal''" 65 30 demo_decimal]
    by (auto simp: decimal_limits_def demo_decimal_def IsPostgreSQLFamily_def)
  moreover have "targetType demo_decimal DataSourceMySQL = ''decimal(50,30)''" by code_simp
  ultimately show ?thesis by blast
qed

section \<open>A rendered column is classified as its source\<close>

lemma contains_set: "contains s t \<Longrightarrow> set t \<subseteq> set s"
  by (auto simp: contains_iff)

text \<open>What the keywords and the sizes after them are made of.\<close>

definition plain :: "char \<Rightarrow> bool" where
  "plain c \<longleftrightarrow> lower_char c = c \<and> \<not> is_space c"

lemma plain_digit: "is_digit c \<Longrightarrow> plain c"
  by (auto simp: plain_def is_digit_def digit_val_def lower_char_def is_space_def Let_def split: if_splits)

lemma plain_int_str: "list_all plain (int_str n)"
proof -
  have "plain CHR ''-''" by code_simp
  then show ?thesis by (auto simp: list_all_iff dest: int_str_chars plain_digit)
qed

lemma plain_sized:
  "list_all plain kw \<Longrightarrow> list_all plain (sized kw n)" "list_all plain kw \<Longrightarrow> list_all plain (sized2 kw p s)"
proof -
  have "plain CHR ''(''" "plain CHR '')''" "plain CHR '',''" by code_simp+
  then show "list_all plain kw \<Longrightarrow> list_all plain (sized kw n)"
    "list_all plain kw \<Longrightarrow> list_all plain (sized2 kw p s)"
    by (simp_all add: sized_def sized2_def plain_int_str)
qed

lemma plain_lower_trim: "list_all plain s \<Longrightarrow> to_lower (trim_space s) = s"
  by (simp add: list_all_iff plain_def trim_no_space lower_no_upper)

text \<open>The letters of a sized keyword are those of the keyword.\<close>

lemma sized_letters:
  "contains (sized kw n) t \<Longrightarrow> c \<in> set t \<Longrightarrow> c \<in> set kw \<or> is_digit c \<or> c \<in> set ''(),-''"
  "contains (sized2 kw p s) t \<Longrightarrow> c \<in> set t \<Longrightarrow> c \<in> set kw \<or> is_digit c \<or> c \<in> set ''(),-''"
  by (auto simp: sized_def sized2_def dest!: contains_set subsetD int_str_chars)

subsection \<open>Reading the sizes back\<close>

lemma takeWhile_digits:
  "\<not> is_digit c \<Longrightarrow> takeWhile is_digit (nat_str n @ c # r) = nat_str n"
  "\<not> is_digit c \<Longrightarrow> dropWhile is_digit (nat_str n @ c # r) = c # r"
  by (simp_all add: takeWhile_append2 dropWhile_append2 nat_str_digits)

lemma delimiters [simp]:
  "\<not> is_digit CHR '')''" "\<not> is_digit CHR '',''" "\<not> regex_space CHR '',''" "\<not> regex_space CHR '')''"
  by code_simp+

lemma digit_no_space: "is_digit c \<Longrightarrow> \<not> regex_space c"
  by (auto simp: is_digit_def digit_val_def regex_space_def Let_def split: if_splits)

lemma dropWhile_space_nat_str [simp]: "dropWhile regex_space (nat_str n @ r) = nat_str n @ r"
proof -
  obtain c s where "nat_str n = c # s" by (cases "nat_str n") auto
  moreover from this have "is_digit c" using nat_str_digits [of c n] by simp
  ultimately show ?thesis by (simp add: digit_no_space)
qed

lemma args_here_sized:
  "args_here (''('' @ nat_str n @ '')'') = Some (nat_str n, [])"
  "args_here (''('' @ nat_str n @ '','' @ nat_str k @ '')'') = Some (nat_str n, nat_str k)"
  by (simp_all add: args_here_def takeWhile_digits Let_def)

lemma typeArgs_skip: "c \<noteq> CHR ''('' \<Longrightarrow> typeArgs (c # s) = typeArgs s"
  by (simp add: args_here_def)

lemma typeArgs_word: "CHR ''('' \<notin> set w \<Longrightarrow> typeArgs (w @ s) = typeArgs s"
  by (induction w) (auto simp: typeArgs_skip simp del: typeArgs.simps)

lemma typeArgs_here: "args_here (c # s) = Some m \<Longrightarrow> typeArgs (c # s) = Some m"
  by simp

lemma typeArgs_sized:
  assumes "CHR ''('' \<notin> set kw" "0 \<le> n"
  shows "typeArgs (sized kw n) = Some (nat_str (nat n), [])"
    and "0 \<le> k \<Longrightarrow> typeArgs (sized2 kw n k) = Some (nat_str (nat n), nat_str (nat k))"
proof -
  have "typeArgs (''('' @ nat_str m @ '')'') = Some (nat_str m, [])"
    "typeArgs (''('' @ nat_str m @ '','' @ nat_str l @ '')'') = Some (nat_str m, nat_str l)" for m l
    using args_here_sized typeArgs_here by (metis append_Cons append_Nil)+
  then show "typeArgs (sized kw n) = Some (nat_str (nat n), [])"
    "0 \<le> k \<Longrightarrow> typeArgs (sized2 kw n k) = Some (nat_str (nat n), nat_str (nat k))"
    using assms by (simp_all add: sized_def sized2_def typeArgs_word int_str_def del: typeArgs.simps)
qed

lemma parse_clamped_nat_str: "parse_clamped (nat_str n) = min (int n) (2 ^ 63 - 1)"
  by (simp add: parse_clamped_def parse_digits_nat_str)

lemma parse_digits_nonneg: "0 \<le> a \<Longrightarrow> parse_digits a s = Some n \<Longrightarrow> 0 \<le> n"
proof (induction s arbitrary: a)
  case (Cons c s)
  then obtain d where "digit_val c = Some d" "parse_digits (10 * a + d) s = Some n"
    by (auto split: option.splits)
  moreover from this have "0 \<le> d" by (auto simp: digit_val_def Let_def split: if_splits)
  ultimately show ?case using Cons.prems(1) Cons.IH [of "10 * a + d"] by simp
qed simp

lemma parse_clamped_range: "0 \<le> parse_clamped s \<and> parse_clamped s < 2 ^ 63"
proof (cases "parse_digits 0 s")
  case (Some n)
  with parse_digits_nonneg [of 0 s n] show ?thesis by (simp add: parse_clamped_def)
qed (simp add: parse_clamped_def)

subsection \<open>Classifying a rendered type\<close>

lemma by_name_sized:
  assumes "CHR ''('' \<in> set dt"
  shows "by_name dt ct k = by_part dt"
proof -
  have "dt \<noteq> x" if "CHR ''('' \<notin> set x" for x using assms that by auto
  then show ?thesis by (simp add: by_name_def)
qed

lemma sized_paren [simp]: "CHR ''('' \<in> set (sized kw n)" "CHR ''('' \<in> set (sized2 kw p s)"
  by (simp_all add: sized_def sized2_def)

lemma contains_sized:
  "contains kw t \<Longrightarrow> contains (sized kw n) t" "contains kw t \<Longrightarrow> contains (sized2 kw p s) t"
  by (auto simp: sized_def sized2_def)

lemma class_varchar: "by_part (sized ''varchar'' n) = UniversalString"
  using contains_sized [of "''varchar''" "''char''" n] by (simp add: by_part_def)

lemma letter_neq [simp]:
  "\<not> is_digit CHR ''h''" "\<not> is_digit CHR ''s''" "\<not> is_digit CHR ''t''"
  by code_simp+

lemma class_numeric:
  "by_part (sized ''numeric'' n) = UniversalDecimal" "by_part (sized2 ''numeric'' p s) = UniversalDecimal"
  using sized_letters(1) [of "''numeric''" n "''char''" "CHR ''h''"]
    sized_letters(1) [of "''numeric''" n "''string''" "CHR ''s''"]
    sized_letters(1) [of "''numeric''" n "''int''" "CHR ''t''"]
    sized_letters(2) [of "''numeric''" p s "''char''" "CHR ''h''"]
    sized_letters(2) [of "''numeric''" p s "''string''" "CHR ''s''"]
    sized_letters(2) [of "''numeric''" p s "''int''" "CHR ''t''"]
    contains_sized [of "''numeric''" "''numeric''"]
  by (auto simp: by_part_def)

text \<open>A column whose type name and type text are both the rendered \<open>dt\<close>.\<close>

lemma NormalizeType_rendered:
  assumes "list_all plain dt" "col_DataType c = dt" "col_ColumnType c = dt"
  shows "uc_Type (NormalizeType c) = by_name dt dt (uc_Scale (NormalizeType c))"
    and "typeArgs dt = Some (m, l) \<Longrightarrow> uc_Length (NormalizeType c) = parse_clamped m
           \<and> uc_Precision (NormalizeType c) = parse_clamped m
           \<and> uc_Scale (NormalizeType c) = (if l \<noteq> [] then parse_clamped l else 0)"
  using assms by (simp_all add: NormalizeType_def with_args_def plain_lower_trim Let_def)

lemma NormalizeType_range:
  "0 \<le> uc_Length (NormalizeType c) \<and> uc_Length (NormalizeType c) < 2 ^ 63"
  "0 \<le> uc_Precision (NormalizeType c) \<and> uc_Precision (NormalizeType c) < 2 ^ 63"
  "0 \<le> uc_Scale (NormalizeType c) \<and> uc_Scale (NormalizeType c) < 2 ^ 63"
  using parse_clamped_range
  by (auto simp: NormalizeType_def with_args_def Let_def split: option.splits prod.splits)

lemma plain_keywords: "list_all plain ''varchar''" "list_all plain ''numeric''"
  by code_simp+

lemma converted_fields [simp]:
  "col_DataType (converted t c) = targetType (NormalizeType c) t"
  "col_ColumnType (converted t c) = targetType (NormalizeType c) t"
  by (simp_all add: converted_def Let_def)

lemma rendered_word:
  assumes "targetType (NormalizeType c) t = w" "list_all plain w"
  shows "uc_Type (NormalizeType (converted t c)) = by_name w w (uc_Scale (NormalizeType (converted t c)))"
  using NormalizeType_rendered(1) [of w "converted t c"] assms by simp

lemma rendered_sized:
  assumes "targetType (NormalizeType c) t = sized kw n" "list_all plain kw" "CHR ''('' \<notin> set kw" "0 \<le> n" "n < 2 ^ 63"
  shows "uc_Type (NormalizeType (converted t c)) = by_part (sized kw n)"
    "uc_Length (NormalizeType (converted t c)) = n" "uc_Precision (NormalizeType (converted t c)) = n"
    "uc_Scale (NormalizeType (converted t c)) = 0"
  using NormalizeType_rendered [of "sized kw n" "converted t c"] assms plain_sized(1) [of kw n]
    typeArgs_sized(1) [of kw n] by (simp_all add: by_name_sized parse_clamped_nat_str)

lemma rendered_sized2:
  assumes "targetType (NormalizeType c) t = sized2 kw n k" "list_all plain kw" "CHR ''('' \<notin> set kw" "0 \<le> n" "n < 2 ^ 63" "0 \<le> k" "k < 2 ^ 63"
  shows "uc_Type (NormalizeType (converted t c)) = by_part (sized2 kw n k)"
    "uc_Precision (NormalizeType (converted t c)) = n" "uc_Scale (NormalizeType (converted t c)) = k"
  using NormalizeType_rendered [of "sized2 kw n k" "converted t c"] assms plain_sized(2) [of kw n k]
    typeArgs_sized(2) [of kw n k] by (simp_all add: by_name_sized parse_clamped_nat_str)

lemma NormalizeType_no_other: "uc_Type (NormalizeType c) \<noteq> UniversalDataTypeOther x"
proof -
  have "by_part dt \<noteq> UniversalDataTypeOther x" for dt by (simp add: by_part_def)
  then show ?thesis by (simp add: NormalizeType_def Let_def by_name_def)
qed

lemma postgres_words:
  "list_all (list_all plain) [''integer'', ''bigint'', ''real'', ''date'', ''time'', ''timestamp'', ''boolean'',
     ''bytea'', ''jsonb'', ''uuid'', ''text'']"
  by code_simp

text \<open>\<open>double precision\<close> has a blank inside, which trimming leaves.\<close>

lemma rendered_double:
  assumes "targetType (NormalizeType c) t = ''double precision''"
  shows "uc_Type (NormalizeType (converted t c)) = UniversalDouble"
proof -
  have "to_lower (trim_space ''double precision'') = ''double precision''" by code_simp
  with assms show ?thesis by (simp add: NormalizeType_def Let_def by_name_def)
qed

text \<open>
  Rendering a column for PostgreSQL and classifying the result again gives the same universal
  type, the same length of a bounded character type and the same precision and scale of a bounded
  decimal: the row pipeline, which classifies both sides of a column, sees no conversion. Only an
  unknown type and a character type without a usable length become text.
\<close>

theorem postgres_rendering_reads_back:
  assumes t: "IsPostgreSQLFamily t" and known: "uc_Type (NormalizeType c) \<noteq> UniversalUnknown"
    and len: "uc_Type (NormalizeType c) = UniversalString \<Longrightarrow>
      0 < uc_Length (NormalizeType c) \<and> uc_Length (NormalizeType c) \<le> 10485760"
  shows "uc_Type (NormalizeType (converted t c)) = uc_Type (NormalizeType c) \<and>
    (uc_Type (NormalizeType c) = UniversalString
       \<longrightarrow> uc_Length (NormalizeType (converted t c)) = uc_Length (NormalizeType c)) \<and>
    (uc_Type (NormalizeType c) = UniversalDecimal \<and> 0 < uc_Precision (NormalizeType c)
       \<and> uc_Precision (NormalizeType c) \<le> 1000
       \<longrightarrow> uc_Precision (NormalizeType (converted t c)) = uc_Precision (NormalizeType c)
         \<and> uc_Scale (NormalizeType (converted t c)) = uc_Scale (NormalizeType c))"
proof -
  have pg: "targetType (NormalizeType c) t = postgres_type (NormalizeType c)"
    using t by (simp add: targetType_def)
  have word: "uc_Type (NormalizeType (converted t c)) = u"
    if "postgres_type (NormalizeType c) = w" "list_all plain w" "\<And>k. by_name w w k = u" for w u
    using rendered_word [of c t w] pg that by simp
  show ?thesis
  proof (cases "uc_Type (NormalizeType c)")
    case UniversalString
    with len rendered_sized [of c t "''varchar''" "uc_Length (NormalizeType c)"] pg plain_keywords show ?thesis
      by (simp add: postgres_type_def string_type_def class_varchar)
  next
    case UniversalDecimal
    then consider (unbounded) "postgres_type (NormalizeType c) = ''numeric''"
          "\<not> (0 < uc_Precision (NormalizeType c) \<and> uc_Precision (NormalizeType c) \<le> 1000)"
      | (whole) "postgres_type (NormalizeType c) = sized ''numeric'' (uc_Precision (NormalizeType c))"
          "uc_Scale (NormalizeType c) = 0"
      | (scaled) "postgres_type (NormalizeType c) = sized2 ''numeric'' (uc_Precision (NormalizeType c)) (uc_Scale (NormalizeType c))"
      using NormalizeType_range(3) [of c]
      by (cases "0 < uc_Precision (NormalizeType c) \<and> uc_Precision (NormalizeType c) \<le> 1000";
          cases "uc_Scale (NormalizeType c) > 0") (simp_all add: postgres_type_def)
    then show ?thesis
    proof cases
      case unbounded
      have "uc_Type (NormalizeType (converted t c)) = UniversalDecimal"
        by (rule word [OF unbounded(1)]) (use plain_keywords in \<open>simp_all add: by_name_def\<close>)
      with UniversalDecimal unbounded(2) show ?thesis by auto
    next
      case whole
      with rendered_sized [of c t "''numeric''" "uc_Precision (NormalizeType c)"] pg plain_keywords
        NormalizeType_range(2) [of c] UniversalDecimal show ?thesis
        by (simp add: class_numeric)
    next
      case scaled
      with rendered_sized2 [of c t "''numeric''" "uc_Precision (NormalizeType c)" "uc_Scale (NormalizeType c)"] pg
        plain_keywords NormalizeType_range(2,3) [of c] UniversalDecimal show ?thesis
        by (simp add: class_numeric)
    qed
  next
    case UniversalDouble
    then show ?thesis using rendered_double [of c t] pg by (simp add: postgres_type_def)
  qed (use known NormalizeType_no_other [of c] postgres_words in
      \<open>auto simp: postgres_type_def by_name_def intro!: word\<close>)
qed

definition demo_column :: ColumnInfo where
  "demo_column = \<lparr>col_Name = ''price'', col_DataType = ''DECIMAL'', col_ColumnType = ''decimal(12, 3)'',
     col_Nullable = False, col_Extra = [], col_Ordinal = 2, col_PrimaryKey = False\<rparr>"

theorem postgres_rendering_reads_back_witness:
  "uc_Precision (NormalizeType (converted DataSourcePostgreSQL demo_column)) = 12"
proof -
  have c: "uc_Type (NormalizeType demo_column) = UniversalDecimal" "uc_Precision (NormalizeType demo_column) = 12"
    by code_simp+
  with postgres_rendering_reads_back [of DataSourcePostgreSQL demo_column] show ?thesis
    by (simp add: IsPostgreSQLFamily_def)
qed

text \<open>A PostgreSQL type whose name merely has \<open>int\<close> inside is taken for an integer.\<close>

lemma interval_becomes_bigint:
  "col_DataType c = ''interval'' \<Longrightarrow> targetType (NormalizeType c) DataSourceMySQL = ''bigint''"
proof -
  have "by_name (to_lower (trim_space ''interval'')) ct k = UniversalBigInt" for ct k by code_simp
  then show "col_DataType c = ''interval'' \<Longrightarrow> ?thesis"
    by (simp add: NormalizeType_def Let_def targetType_def mysql_type_def IsPostgreSQLFamily_def)
qed

end
