(* ===== verification/GoJson.thy ===== *)
theory GoJson
  imports GoStrings
begin

text \<open>
  The byte scanner of Go's \<open>encoding/json\<close>, behind \<open>json.Valid\<close> and \<open>json.Compact\<close>: one step per
  byte over a stack of the open objects and arrays. A step is refused (\<open>None\<close>), or gives the
  next state and whether the byte was white space between tokens.
\<close>

section \<open>The scanner\<close>

datatype json_state =
    BeginValue | BeginValueOrEmpty | BeginString | BeginStringOrEmpty | EndValue | EndTop
  | InString | InStringEsc | InStringEscU nat
  | Neg | Digit0 | Digit1 | Dot | Dot0 | NumE | NumESign | NumE0
  | Literal string

datatype json_open = ObjectKey | ObjectValue | ArrayValue

type_synonym json_scan = "json_state \<times> json_open list"

definition json_space :: "char \<Rightarrow> bool" where
  "json_space c \<longleftrightarrow> c \<in> {CHR '' '', CHR 0x09, CHR 0x0A, CHR 0x0D}"

abbreviation go_on :: "json_state \<Rightarrow> json_open list \<Rightarrow> (json_scan \<times> bool) option" where
  "go_on st ps \<equiv> Some ((st, ps), False)"

abbreviation skip_space :: "json_state \<Rightarrow> json_open list \<Rightarrow> (json_scan \<times> bool) option" where
  "skip_space st ps \<equiv> Some ((st, ps), True)"

text \<open>\<open>maxNestingDepth\<close> bounds the stack.\<close>

definition push_open :: "json_open \<Rightarrow> json_state \<Rightarrow> json_open list \<Rightarrow> (json_scan \<times> bool) option" where
  "push_open p st ps = (if Suc (length ps) \<le> 10000 then go_on st (p # ps) else None)"

definition pop_open :: "json_open list \<Rightarrow> (json_scan \<times> bool) option" where
  "pop_open ps = go_on (if ps = [] then EndTop else EndValue) ps"

definition end_value :: "char \<Rightarrow> json_open list \<Rightarrow> (json_scan \<times> bool) option" where
  "end_value c ps = (case ps of
       [] \<Rightarrow> if json_space c then skip_space EndTop [] else None
     | p # r \<Rightarrow>
         if json_space c then skip_space EndValue ps
         else case p of
           ObjectKey \<Rightarrow> if c = CHR '':'' then go_on BeginValue (ObjectValue # r) else None
         | ObjectValue \<Rightarrow>
             if c = CHR '','' then go_on BeginString (ObjectKey # r)
             else if c = CHR ''}'' then pop_open r else None
         | ArrayValue \<Rightarrow>
             if c = CHR '','' then go_on BeginValue ps
             else if c = CHR '']'' then pop_open r else None)"

definition begin_value :: "char \<Rightarrow> json_state \<Rightarrow> json_open list \<Rightarrow> (json_scan \<times> bool) option" where
  "begin_value c here ps =
     (if json_space c then skip_space here ps
      else if c = CHR ''{'' then push_open ObjectKey BeginStringOrEmpty ps
      else if c = CHR ''['' then push_open ArrayValue BeginValueOrEmpty ps
      else if c = CHR 0x22 then go_on InString ps
      else if c = CHR ''-'' then go_on Neg ps
      else if c = CHR ''0'' then go_on Digit0 ps
      else if c = CHR ''t'' then go_on (Literal ''rue'') ps
      else if c = CHR ''f'' then go_on (Literal ''alse'') ps
      else if c = CHR ''n'' then go_on (Literal ''ull'') ps
      else if is_digit c then go_on Digit1 ps else None)"

definition begin_string :: "char \<Rightarrow> json_state \<Rightarrow> json_open list \<Rightarrow> (json_scan \<times> bool) option" where
  "begin_string c here ps =
     (if json_space c then skip_space here ps
      else if c = CHR 0x22 then go_on InString ps else None)"

text \<open>After an object's opening brace the key may be missing: the top entry becomes a value's, as
  if one had just ended.\<close>

fun json_step :: "char \<Rightarrow> json_scan \<Rightarrow> (json_scan \<times> bool) option" where
  "json_step c (BeginValue, ps) = begin_value c BeginValue ps"
| "json_step c (BeginValueOrEmpty, ps) =
     (if c = CHR '']'' then end_value c ps else begin_value c BeginValueOrEmpty ps)"
| "json_step c (BeginString, ps) = begin_string c BeginString ps"
| "json_step c (BeginStringOrEmpty, ps) =
     (if c = CHR ''}'' then end_value c (ObjectValue # tl ps) else begin_string c BeginStringOrEmpty ps)"
| "json_step c (EndValue, ps) = end_value c ps"
| "json_step c (EndTop, ps) = (if json_space c then skip_space EndTop ps else None)"
| "json_step c (InString, ps) =
     (if c = CHR 0x22 then go_on EndValue ps
      else if c = CHR 0x5C then go_on InStringEsc ps
      else if byte_nat c < 32 then None else go_on InString ps)"
| "json_step c (InStringEsc, ps) =
     (if c \<in> set ''bfnrt/'' \<or> c = CHR 0x5C \<or> c = CHR 0x22 then go_on InString ps
      else if c = CHR ''u'' then go_on (InStringEscU 3) ps else None)"
| "json_step c (InStringEscU k, ps) =
     (if hex_val c = None then None
      else go_on (if k = 0 then InString else InStringEscU (k - 1)) ps)"
| "json_step c (Neg, ps) =
     (if c = CHR ''0'' then go_on Digit0 ps else if is_digit c then go_on Digit1 ps else None)"
| "json_step c (Digit0, ps) =
     (if c = CHR ''.'' then go_on Dot ps else if c = CHR ''e'' \<or> c = CHR ''E'' then go_on NumE ps
      else end_value c ps)"
| "json_step c (Digit1, ps) =
     (if is_digit c then go_on Digit1 ps
      else if c = CHR ''.'' then go_on Dot ps else if c = CHR ''e'' \<or> c = CHR ''E'' then go_on NumE ps
      else end_value c ps)"
| "json_step c (Dot, ps) = (if is_digit c then go_on Dot0 ps else None)"
| "json_step c (Dot0, ps) =
     (if is_digit c then go_on Dot0 ps
      else if c = CHR ''e'' \<or> c = CHR ''E'' then go_on NumE ps else end_value c ps)"
| "json_step c (NumE, ps) =
     (if c = CHR ''+'' \<or> c = CHR ''-'' then go_on NumESign ps
      else if is_digit c then go_on NumE0 ps else None)"
| "json_step c (NumESign, ps) = (if is_digit c then go_on NumE0 ps else None)"
| "json_step c (NumE0, ps) = (if is_digit c then go_on NumE0 ps else end_value c ps)"
| "json_step c (Literal [], ps) = end_value c ps"
| "json_step c (Literal (x # r), ps) =
     (if c = x then go_on (if r = [] then EndValue else Literal r) ps else None)"

text \<open>The bytes of the input that are not white space between tokens, or \<open>None\<close> when a byte is
  refused, with the last state.\<close>

fun json_run :: "json_scan \<Rightarrow> string \<Rightarrow> (json_scan \<times> string) option" where
  "json_run q [] = Some (q, [])"
| "json_run q (c # s) = (case json_step c q of
       None \<Rightarrow> None
     | Some (q', skipped) \<Rightarrow>
         (case json_run q' s of
            None \<Rightarrow> None
          | Some (q'', out) \<Rightarrow> Some (q'', if skipped then out else c # out)))"

text \<open>At the end of the input the value must be complete, which one more space reveals.\<close>

definition json_complete :: "json_scan \<Rightarrow> bool" where
  "json_complete q \<longleftrightarrow> (case json_step CHR '' '' q of Some ((EndTop, _), _) \<Rightarrow> True | _ \<Rightarrow> False)"

abbreviation json_start :: json_scan where
  "json_start \<equiv> (BeginValue, [])"

definition json_compact :: "string \<Rightarrow> string option" where
  "json_compact s = (case json_run json_start s of
       None \<Rightarrow> None
     | Some (q, out) \<Rightarrow> if json_complete q then Some out else None)"

definition json_valid :: "string \<Rightarrow> bool" where
  "json_valid s \<longleftrightarrow> json_compact s \<noteq> None"

section \<open>Compaction\<close>

lemma json_compact_examples:
  "json_compact ''[1 2]'' = None" "json_valid '' [1, 2.5e-3 ,true,{}] ''"
  by code_simp+

text \<open>The white space after a number is what ends it; without it the next byte does. So the run over
  the compacted text may still be in the number where the other run has left it.\<close>

definition after_number :: "json_state \<Rightarrow> bool" where
  "after_number st \<longleftrightarrow> st = Digit0 \<or> st = Digit1 \<or> st = Dot0 \<or> st = NumE0 \<or> st = Literal []"

fun lags :: "json_scan \<Rightarrow> json_scan \<Rightarrow> bool" where
  "lags (a, ps) (b, qs) \<longleftrightarrow> ps = qs \<and>
     (a = b \<or> b = EndValue \<and> after_number a \<or>
      b = EndTop \<and> qs = [] \<and> (a = EndValue \<or> after_number a))"

lemma end_value_space:
  "json_space c \<Longrightarrow> end_value c ps = skip_space (if ps = [] then EndTop else EndValue) ps"
  by (cases ps) (auto simp: end_value_def)

lemma end_value_skipped:
  "end_value c ps = Some (q, True) \<Longrightarrow> json_space c \<and> q = (if ps = [] then EndTop else EndValue, ps)"
  by (auto simp: end_value_def pop_open_def split: list.splits if_splits json_open.splits)

lemma space_not_number [simp]:
  "json_space c \<Longrightarrow> \<not> is_digit c" "json_space c \<Longrightarrow> c \<noteq> CHR ''.'' \<and> c \<noteq> CHR ''e'' \<and> c \<noteq> CHR ''E''"
  by (auto simp: json_space_def is_digit_def digit_val_def)

lemma brackets_not_space [simp]: "\<not> json_space CHR '']''" "\<not> json_space CHR ''}''"
  by code_simp+

text \<open>Skipping changes only the state of a value that was complete.\<close>

lemma step_skipped:
  assumes "json_step c (b, ps) = Some (q, True)"
  shows "lags (b, ps) q"
  using assms
  by (cases "(c, (b, ps))" rule: json_step.cases)
    (auto simp: begin_value_def begin_string_def push_open_def after_number_def
      dest!: end_value_skipped split: if_splits)

lemma lags_skipped:
  assumes "lags q r" "json_step c r = Some (r', True)"
  shows "lags q r'"
proof -
  obtain a ps b where q: "q = (a, ps)" "r = (b, ps)" using assms(1) by (cases q; cases r) auto
  show ?thesis
  proof (cases "a = b")
    case True
    with step_skipped [of c b ps r'] assms(2) q show ?thesis by simp
  next
    case False
    with assms q show ?thesis by (auto dest!: end_value_skipped split: if_splits)
  qed
qed

text \<open>A byte between tokens that is not white space ends a value the same way everywhere.\<close>

lemma end_value_kept:
  assumes "end_value c ps = Some (q, False)"
  shows "c = CHR '':'' \<or> c = CHR '','' \<or> c = CHR '']'' \<or> c = CHR ''}''"
  using assms by (auto simp: end_value_def split: list.splits if_splits json_open.splits)

lemma delimiters_not_digits [simp]:
  "\<not> is_digit CHR '':''" "\<not> is_digit CHR '',''" "\<not> is_digit CHR '']''" "\<not> is_digit CHR ''}''"
  by code_simp+

lemma lags_kept:
  assumes "lags q r" "json_step c r = Some (r', False)"
  shows "json_step c q = Some (r', False)"
proof -
  obtain a ps b where q: "q = (a, ps)" "r = (b, ps)" using assms(1) by (cases q; cases r) auto
  show ?thesis
  proof (cases "a = b")
    case False
    with assms q have e: "after_number a" "end_value c ps = Some (r', False)"
      by (auto split: if_splits)
    then show ?thesis using q(1) end_value_kept [OF e(2)] by (auto simp: after_number_def)
  qed (use assms q in simp)
qed

lemma run_compacted:
  "lags q r \<Longrightarrow> json_run r s = Some (r', out) \<Longrightarrow> \<exists>q'. json_run q out = Some (q', out) \<and> lags q' r'"
proof (induction s arbitrary: q r out)
  case (Cons c s)
  from Cons.prems(2) obtain r1 k out' where 1: "json_step c r = Some (r1, k)"
    "json_run r1 s = Some (r', out')" "out = (if k then out' else c # out')"
    by (auto split: option.splits prod.splits)
  show ?case
  proof (cases k)
    case True
    with 1 lags_skipped [OF Cons.prems(1)] have "lags q r1" by simp
    from Cons.IH [OF this 1(2)] True 1(3) show ?thesis by simp
  next
    case False
    with 1 lags_kept [OF Cons.prems(1)] have "json_step c q = Some (r1, False)" by simp
    moreover have "lags r1 r1" by (cases r1) simp
    ultimately show ?thesis using Cons.IH [of r1 r1 out'] 1 False by fastforce
  qed
qed auto

lemma lags_complete: "lags q r \<Longrightarrow> json_complete r \<Longrightarrow> json_complete q"
proof -
  assume l: "lags q r" and c: "json_complete r"
  have sp: "json_space CHR '' ''" by (simp add: json_space_def)
  obtain a ps b where q: "q = (a, ps)" "r = (b, ps)" using l by (cases q; cases r) auto
  show ?thesis
  proof (cases "a = b")
    case False
    with l q c have "after_number a \<or> a = EndValue" "ps = []"
      by (auto simp: json_complete_def end_value_space [OF sp] split: if_splits)
    then show ?thesis using sp q(1) by (auto simp: json_complete_def after_number_def end_value_space)
  qed (use q c in simp)
qed

lemma json_compact_idem: "json_compact s = Some t \<Longrightarrow> json_compact t = Some t"
proof -
  assume "json_compact s = Some t"
  then obtain r where r: "json_run json_start s = Some (r, t)" "json_complete r"
    by (auto simp: json_compact_def split: option.splits prod.splits if_splits)
  from run_compacted [OF _ r(1), of json_start] obtain q where
    "json_run json_start t = Some (q, t)" "lags q r" by auto
  with lags_complete r(2) show ?thesis by (simp add: json_compact_def)
qed

lemma json_compact_valid: "json_compact s = Some t \<Longrightarrow> json_valid t"
  by (auto simp: json_valid_def dest: json_compact_idem)

end
