(* ===== verification/RowTransform.thy ===== *)
theory RowTransform
  imports SchemaTypes GoJson ServiceCore
begin

text \<open>
  The row transformation of \<open>backend/internal/transform/runtime.go\<close>: a compiled plan with one
  entry per column, the declarative rules of a task, and the conversion of a value between the
  universal types of the two sides. A value keeps the bytes the source protocol delivered.
\<close>

section \<open>Plans\<close>

record ColumnPlan =
  cp_Source :: ColumnInfo
  cp_Target :: ColumnInfo
  cp_From :: UniversalDataType
  cp_To :: UniversalDataType
  cp_Rules :: "TransformRule list"

text \<open>\<open>InvalidJSON\<close> stands for the scanner's error.\<close>

datatype transform_error =
    Message string
  | InvalidJSON
  | InColumn string int transform_error

fun TransformAction_string :: "TransformAction \<Rightarrow> string" where
  "TransformAction_string TransformTrim = ''TRIM''"
| "TransformAction_string TransformLower = ''LOWER''"
| "TransformAction_string TransformUpper = ''UPPER''"
| "TransformAction_string TransformEmptyToNull = ''EMPTY_TO_NULL''"
| "TransformAction_string TransformNullToValue = ''NULL_TO_VALUE''"
| "TransformAction_string TransformReplaceLiteral = ''REPLACE_LITERAL''"
| "TransformAction_string TransformZeroDateToNull = ''ZERO_DATE_TO_NULL''"
| "TransformAction_string TransformZeroDateToValue = ''ZERO_DATE_TO_VALUE''"
| "TransformAction_string TransformJSONCompact = ''JSON_COMPACT''"
| "TransformAction_string (TransformActionOther s) = s"

definition rule_error :: "int \<Rightarrow> TransformRule \<Rightarrow> string option" where
  "rule_error i r =
     (let path = ''transform_rules['' @ int_str i @ '']'' in
      if trim_space (tr_Column r) = [] then Some (path @ ''.column is required'')
      else case tr_Action r of
          TransformNullToValue \<Rightarrow>
            if tr_Value r = [] then Some (path @ ''.value is required for '' @ TransformAction_string (tr_Action r))
            else None
        | TransformZeroDateToValue \<Rightarrow>
            if tr_Value r = [] then Some (path @ ''.value is required for '' @ TransformAction_string (tr_Action r))
            else None
        | TransformReplaceLiteral \<Rightarrow>
            if tr_Match r = [] then Some (path @ ''.match is required for '' @ TransformAction_string (tr_Action r))
            else None
        | TransformActionOther s \<Rightarrow> Some (path @ '' unsupported action '' @ go_quote s)
        | _ \<Rightarrow> None)"

fun validate_from :: "int \<Rightarrow> TransformRule list \<Rightarrow> string option" where
  "validate_from i [] = None"
| "validate_from i (r # rs) = (case rule_error i r of Some e \<Rightarrow> Some e | None \<Rightarrow> validate_from (i + 1) rs)"

definition ValidateRules :: "TransformRule list \<Rightarrow> string option" where
  "ValidateRules rules = validate_from 0 rules"

definition rule_matches :: "string \<Rightarrow> string \<Rightarrow> string \<Rightarrow> TransformRule \<Rightarrow> bool" where
  "rule_matches schemaName tableName column r \<longleftrightarrow>
     equal_fold (trim_space (tr_Column r)) (trim_space column)
     \<and> (trim_space (tr_SourceSchema r) = [] \<or> equal_fold (trim_space (tr_SourceSchema r)) schemaName)
     \<and> (trim_space (tr_SourceTable r) = [] \<or> equal_fold (trim_space (tr_SourceTable r)) tableName)"

definition matchingRules :: "TransformRule list \<Rightarrow> string \<Rightarrow> string \<Rightarrow> string \<Rightarrow> TransformRule list" where
  "matchingRules rules schemaName tableName column = filter (rule_matches schemaName tableName column) rules"

definition CompileWithRules ::
  "ColumnInfo list \<Rightarrow> ColumnInfo list \<Rightarrow> TransformRule list \<Rightarrow> string \<Rightarrow> string \<Rightarrow>
   string + ColumnPlan list" where
  "CompileWithRules source target rules sourceSchema sourceTable =
     (if length source \<noteq> length target
      then Inl (''transform requires one-to-one column mapping: source='' @ int_str (int (length source))
             @ '' target='' @ int_str (int (length target)))
      else case ValidateRules rules of
          Some e \<Rightarrow> Inl e
        | None \<Rightarrow> Inr (map2 (\<lambda>s t. \<lparr>cp_Source = s, cp_Target = t, cp_From = uc_Type (NormalizeType s),
              cp_To = uc_Type (NormalizeType t),
              cp_Rules = matchingRules rules sourceSchema sourceTable (col_Name s)\<rparr>) source target))"

definition Compile :: "ColumnInfo list \<Rightarrow> ColumnInfo list \<Rightarrow> string + ColumnPlan list" where
  "Compile source target = CompileWithRules source target [] [] []"

section \<open>Values\<close>

abbreviation raw_value :: "string \<Rightarrow> Value" where
  "raw_value s \<equiv> \<lparr>v_Null = False, v_Raw = s\<rparr>"

abbreviation null_value :: Value where
  "null_value \<equiv> \<lparr>v_Null = True, v_Raw = []\<rparr>"

definition parseBool :: "string \<Rightarrow> transform_error + bool" where
  "parseBool raw = (let s = to_lower (trim_space raw) in
     if s \<in> {''1'', ''t'', ''true'', ''y'', ''yes'', ''on''} then Inr True
     else if s \<in> {''0'', ''f'', ''false'', ''n'', ''no'', ''off''} then Inr False
     else Inl (Message (''cannot normalize boolean value '' @ go_quote raw)))"

definition isIntegerType :: "UniversalDataType \<Rightarrow> bool" where
  "isIntegerType t \<longleftrightarrow> t = UniversalInteger \<or> t = UniversalBigInt"

definition zeroDate :: "string \<Rightarrow> bool" where
  "zeroDate raw \<longleftrightarrow> prefix ''0000-00-00'' (trim_space raw)"

definition applyRule :: "Value \<Rightarrow> TransformRule \<Rightarrow> transform_error + Value" where
  "applyRule v r =
     (if v_Null v
      then Inr (if tr_Action r = TransformNullToValue then raw_value (tr_Value r) else v)
      else let s = v_Raw v in case tr_Action r of
          TransformTrim \<Rightarrow> Inr (v\<lparr>v_Raw := trim_space s\<rparr>)
        | TransformLower \<Rightarrow> Inr (v\<lparr>v_Raw := to_lower s\<rparr>)
        | TransformUpper \<Rightarrow> Inr (v\<lparr>v_Raw := to_upper s\<rparr>)
        | TransformEmptyToNull \<Rightarrow> Inr (if s = [] then null_value else v)
        | TransformReplaceLiteral \<Rightarrow> Inr (v\<lparr>v_Raw := replace_all s (tr_Match r) (tr_Value r)\<rparr>)
        | TransformZeroDateToNull \<Rightarrow> Inr (if zeroDate s then null_value else v)
        | TransformZeroDateToValue \<Rightarrow> Inr (if zeroDate s then v\<lparr>v_Raw := tr_Value r\<rparr> else v)
        | TransformJSONCompact \<Rightarrow>
            (case json_compact s of None \<Rightarrow> Inl InvalidJSON | Some t \<Rightarrow> Inr (v\<lparr>v_Raw := t\<rparr>))
        | TransformNullToValue \<Rightarrow> Inr v
        | TransformActionOther a \<Rightarrow> Inl (Message (''unsupported transform action '' @ go_quote a)))"

fun applyRules :: "TransformRule list \<Rightarrow> Value \<Rightarrow> transform_error + Value" where
  "applyRules [] v = Inr v"
| "applyRules (r # rs) v = (case applyRule v r of Inl e \<Rightarrow> Inl e | Inr v' \<Rightarrow> applyRules rs v')"

text \<open>The conversion after the rules.\<close>

definition convertValue :: "UniversalDataType \<Rightarrow> UniversalDataType \<Rightarrow> Value \<Rightarrow> transform_error + Value" where
  "convertValue from to v =
     (if v_Null v then Inr null_value
      else if from = UniversalBoolean \<and> to = UniversalBoolean
      then (case parseBool (v_Raw v) of Inl e \<Rightarrow> Inl e
            | Inr b \<Rightarrow> Inr (raw_value (if b then ''true'' else ''false'')))
      else if from = UniversalBoolean \<and> isIntegerType to
      then (case parseBool (v_Raw v) of Inl e \<Rightarrow> Inl e
            | Inr b \<Rightarrow> Inr (raw_value (if b then ''1'' else ''0'')))
      else if isIntegerType from \<and> to = UniversalBoolean
      then let s = trim_space (v_Raw v) in
        if s = ''0'' then Inr (raw_value ''false'') else if s = ''1'' then Inr (raw_value ''true'')
        else Inl (Message (''integer '' @ go_quote s @ '' cannot be safely converted to boolean; only 0/1 are accepted''))
      else if to = UniversalJSON
      then let trimmed = trim_space (v_Raw v) in
        if json_valid trimmed then Inr (raw_value trimmed) else Inl (Message ''invalid JSON value'')
      else if (to = UniversalDate \<or> to = UniversalTimestamp) \<and> zeroDate (v_Raw v)
      then Inl (Message ''zero date/time requires an explicit transform policy'')
      else Inr v)"

definition transformValue :: "Value \<Rightarrow> ColumnPlan \<Rightarrow> transform_error + Value" where
  "transformValue v c = (case applyRules (cp_Rules c) v of
       Inl e \<Rightarrow> Inl e
     | Inr v' \<Rightarrow> convertValue (cp_From c) (cp_To c) v')"

section \<open>Rows\<close>

fun transform_row :: "int \<Rightarrow> ColumnPlan list \<Rightarrow> Value list \<Rightarrow> transform_error + Value list" where
  "transform_row ri (c # cs) (v # vs) =
     (case transformValue v c of
        Inl e \<Rightarrow> Inl (InColumn (col_Name (cp_Source c)) ri e)
      | Inr v' \<Rightarrow> (case transform_row ri cs vs of Inl e \<Rightarrow> Inl e | Inr vs' \<Rightarrow> Inr (v' # vs')))"
| "transform_row ri _ _ = Inr []"

fun transform_rows :: "int \<Rightarrow> ColumnPlan list \<Rightarrow> Value list list \<Rightarrow> transform_error + Value list list" where
  "transform_rows ri p [] = Inr []"
| "transform_rows ri p (row # rows) =
     (if length row \<noteq> length p
      then Inl (Message (''row '' @ int_str ri @ '' has '' @ int_str (int (length row)) @ '' values; expected ''
             @ int_str (int (length p))))
      else case transform_row ri p row of
          Inl e \<Rightarrow> Inl e
        | Inr r \<Rightarrow> (case transform_rows (ri + 1) p rows of Inl e \<Rightarrow> Inl e | Inr rs \<Rightarrow> Inr (r # rs)))"

definition TransformRows :: "ColumnPlan list option \<Rightarrow> Value list list \<Rightarrow> transform_error + Value list list" where
  "TransformRows p rows = (case p of
       None \<Rightarrow> Inl (Message ''nil transform plan'')
     | Some cs \<Rightarrow> transform_rows 0 cs rows)"

section \<open>What a transformed value is\<close>

text \<open>The values a sink accepts for a universal type, as far as the transformation looks at them.\<close>

definition fits :: "UniversalDataType \<Rightarrow> UniversalDataType \<Rightarrow> Value \<Rightarrow> bool" where
  "fits from to v \<longleftrightarrow> v_Null v \<and> v_Raw v = [] \<or> \<not> v_Null v \<and>
     (to = UniversalBoolean \<and> (from = UniversalBoolean \<or> isIntegerType from)
        \<longrightarrow> v_Raw v \<in> {''true'', ''false''}) \<and>
     (isIntegerType to \<and> from = UniversalBoolean \<longrightarrow> v_Raw v \<in> {''0'', ''1''}) \<and>
     (to = UniversalJSON \<longrightarrow> json_valid (v_Raw v)) \<and>
     (to = UniversalDate \<or> to = UniversalTimestamp \<longrightarrow> \<not> zeroDate (v_Raw v))"

lemma convertValue_fits: "convertValue from to v = Inr v' \<Longrightarrow> fits from to v'"
  by (auto simp: convertValue_def fits_def isIntegerType_def Let_def split: if_splits sum.splits)

lemma transformValue_fits: "transformValue v c = Inr v' \<Longrightarrow> fits (cp_From c) (cp_To c) v'"
  by (auto simp: transformValue_def split: sum.splits dest: convertValue_fits)

lemma transform_row_all2:
  "transform_row ri cs vs = Inr out \<Longrightarrow> length vs = length cs \<Longrightarrow>
     length out = length cs \<and> (\<forall>i < length cs. transformValue (vs ! i) (cs ! i) = Inr (out ! i))"
proof (induction ri cs vs arbitrary: out rule: transform_row.induct)
  case (1 ri c cs v vs)
  then obtain v' vs' where "transformValue v c = Inr v'" "transform_row ri cs vs = Inr vs'" "out = v' # vs'"
    by (auto split: sum.splits)
  with 1 show ?case by (auto simp: nth_Cons split: nat.splits)
qed auto

lemma transform_rows_all2:
  "transform_rows ri cs rows = Inr outs \<Longrightarrow> length outs = length rows \<and>
     (\<forall>r < length rows. length (rows ! r) = length cs \<and> length (outs ! r) = length cs \<and>
        (\<forall>i < length cs. transformValue (rows ! r ! i) (cs ! i) = Inr (outs ! r ! i)))"
proof (induction ri cs rows arbitrary: outs rule: transform_rows.induct)
  case (2 ri p row rows)
  then obtain r rs where "length row = length p" "transform_row ri p row = Inr r"
    "transform_rows (ri + 1) p rows = Inr rs" "outs = r # rs"
    by (auto split: if_splits sum.splits)
  with 2 transform_row_all2 [of ri p row r] show ?case by (auto simp: nth_Cons split: nat.splits)
qed auto


definition demo_plan :: "ColumnPlan list" where
  "demo_plan =
     (let c = \<lparr>col_Name = ''flag'', col_DataType = ''boolean'', col_ColumnType = ''boolean'', col_Nullable = True,
                col_Extra = [], col_Ordinal = 1, col_PrimaryKey = False\<rparr>;
          d = \<lparr>col_Name = ''doc'', col_DataType = ''json'', col_ColumnType = ''json'', col_Nullable = True,
                col_Extra = [], col_Ordinal = 2, col_PrimaryKey = False\<rparr>
      in case Compile [c, d] [c\<lparr>col_DataType := ''int''\<rparr>, d] of Inr p \<Rightarrow> p | Inl e \<Rightarrow> [])"


text \<open>Null stays null unless a rule replaces it, and a plan without rules on a column of the same
  plain type passes the bytes through.\<close>

lemma null_kept:
  "v_Null v \<Longrightarrow> \<forall>r \<in> set (cp_Rules c). tr_Action r \<noteq> TransformNullToValue \<Longrightarrow>
     transformValue v c = Inr null_value"
proof -
  assume n: "v_Null v" and r: "\<forall>r \<in> set (cp_Rules c). tr_Action r \<noteq> TransformNullToValue"
  have "applyRules rs v = Inr v" if "\<forall>r \<in> set rs. tr_Action r \<noteq> TransformNullToValue" for rs
    using that by (induction rs) (simp_all add: applyRule_def n)
  with r n show ?thesis by (simp add: transformValue_def convertValue_def)
qed

text \<open>A valid rule set never fails for its rules: what can fail is JSON that does not parse.\<close>

lemma valid_rule_applies:
  "rule_error i r = None \<Longrightarrow> applyRule v r = Inl e \<Longrightarrow> e = InvalidJSON \<and> tr_Action r = TransformJSONCompact"
  by (cases "tr_Action r") (auto simp: rule_error_def applyRule_def Let_def split: if_splits option.splits)

lemma validate_from_all: "validate_from i rs = None \<Longrightarrow> r \<in> set rs \<Longrightarrow> \<exists>k. rule_error k r = None"
  by (induction i rs rule: validate_from.induct) (auto split: option.splits)

end
