(* ===== verification/TopologyRecovery.thy ===== *)
theory TopologyRecovery
  imports FlowControl
begin

text \<open>
  How the measured performance of a table decides on the health of the storage topologies under it:
  \<open>recordTablePerformance\<close> and \<open>promoteHalfOpenTopologies\<close> of
  \<open>backend/internal/migration/service.go\<close>. A topology whose circuit is open leaves that state only
  through a probe after a cool-down, and becomes healthy again only after a row of good samples.
\<close>

section \<open>Settings\<close>

definition profileTargetSeconds :: "Env \<Rightarrow> int" where
  "profileTargetSeconds E = int_env E ''DTS_ADAPTIVE_CHUNK_TARGET_SECONDS'' 30"

definition topologyRecoveryMinDegradedDuration :: "Env \<Rightarrow> duration" where
  "topologyRecoveryMinDegradedDuration E =
     (let n = int_env E ''DTS_TOPOLOGY_RECOVERY_MIN_DEGRADED_SECONDS'' 30 in seconds (if n < 0 then 0 else n))"

definition topologyRecoveryHealthyGoodSamples :: "Env \<Rightarrow> int" where
  "topologyRecoveryHealthyGoodSamples E =
     (let n = int_env E ''DTS_TOPOLOGY_RECOVERY_HEALTHY_GOOD_SAMPLES'' 8 in if n < 2 then 2 else n)"

definition topologyRecoveryStepGoodSamples :: "Env \<Rightarrow> int" where
  "topologyRecoveryStepGoodSamples E =
     (let n = int_env E ''DTS_TOPOLOGY_RECOVERY_STEP_GOOD_SAMPLES'' 2 in if n < 1 then 1 else n)"

definition topologyRecoveryConcurrencyCap :: "Env \<Rightarrow> int \<Rightarrow> int" where
  "topologyRecoveryConcurrencyCap E goodStreak =
     (let base = TopologyDegradedMaxConcurrency (sv_env E); maxCap = TopologyRecoveryMaxConcurrency (sv_env E) in
      if maxCap \<le> base \<or> goodStreak \<le> 0 then base
      else let c = i64 (base + go_div goodStreak (topologyRecoveryStepGoodSamples E))
           in if c > maxCap then maxCap else c)"

definition topologyHalfOpenCooldown :: "Env \<Rightarrow> duration" where
  "topologyHalfOpenCooldown E = seconds (int_env E ''DTS_TOPOLOGY_HALF_OPEN_AFTER_SECONDS'' 300)"

definition slow_p99 :: "Env \<Rightarrow> int" where
  "slow_p99 E = int_env E ''DTS_TOPOLOGY_P99_SLOW_MS'' 90000"

section \<open>One sample of a topology\<close>

text \<open>\<open>bps\<close> is the rate of the sample, \<open>ms\<close> its duration; \<open>tableBPS\<close> is the table's rate with the sample
  in it.\<close>

definition below_table :: "int \<Rightarrow> int \<Rightarrow> bool" where
  "below_table bps tableBPS \<longleftrightarrow> tableBPS > 0 \<and> i64 (bps * 100) < i64 (tableBPS * 55)"

definition sample_bad :: "Env \<Rightarrow> int \<Rightarrow> int \<Rightarrow> int \<Rightarrow> bool" where
  "sample_bad E tableBPS bps ms \<longleftrightarrow> below_table bps tableBPS \<or> ms \<ge> slow_p99 E"

definition measured ::
  "Env \<Rightarrow> int \<Rightarrow> int \<Rightarrow> int \<Rightarrow> TableTopologyPerformance \<Rightarrow> TableTopologyPerformance" where
  "measured E bps rps ms p =
     (let alpha = int_env E ''DTS_TABLE_PROFILE_EWMA_ALPHA_PCT'' 25;
          rows = EWMA (ttp_RowsPerSec p) rps alpha;
          samples = AppendSample (ttp_DurationSamplesMS p) ms (int_env E ''DTS_TOPOLOGY_LATENCY_SAMPLES'' 64)
      in p\<lparr>ttp_BytesPerSec := EWMA (ttp_BytesPerSec p) bps alpha, ttp_RowsPerSec := rows,
           ttp_RecommendedChunkRows := RecommendChunkRows rows (profileTargetSeconds E)
             (positiveInt64Env E ''DTS_PREDICTED_CHUNK_MIN_ROWS'' 1000)
             (positiveInt64Env E ''DTS_PREDICTED_CHUNK_MAX_ROWS'' 10000000),
           ttp_Samples := ttp_Samples p + 1, ttp_DurationSamplesMS := samples,
           ttp_P95DurationMS := Percentile samples 95, ttp_P99DurationMS := Percentile samples 99\<rparr>)"

definition streaks :: "bool \<Rightarrow> TableTopologyPerformance \<Rightarrow> TableTopologyPerformance" where
  "streaks bad p =
     (if bad then p\<lparr>ttp_SlowStreak := ttp_SlowStreak p + 1, ttp_GoodStreak := 0\<rparr>
      else p\<lparr>ttp_SlowStreak := (if ttp_SlowStreak p > 0 then ttp_SlowStreak p - 1 else ttp_SlowStreak p),
             ttp_GoodStreak := ttp_GoodStreak p + 1\<rparr>)"

definition open_circuit :: "TableTopologyPerformance \<Rightarrow> TableTopologyPerformance" where
  "open_circuit p = p\<lparr>ttp_Health := ''CIRCUIT_OPEN'', ttp_RecoveryConcurrencyCap := 0\<rparr>"

definition after_half_open :: "Env \<Rightarrow> bool \<Rightarrow> TableTopologyPerformance \<Rightarrow> TableTopologyPerformance" where
  "after_half_open E bad p =
     (if bad
      then (open_circuit p)\<lparr>ttp_SlowStreak := (if ttp_SlowStreak p < 5 then 5 else ttp_SlowStreak p), ttp_GoodStreak := 0\<rparr>
      else p\<lparr>ttp_SlowStreak := (if ttp_SlowStreak p > 1 then 1 else ttp_SlowStreak p), ttp_Health := ''DEGRADED'',
             ttp_GoodStreak := 1, ttp_RecoveryConcurrencyCap := TopologyDegradedMaxConcurrency (sv_env E)\<rparr>)"

definition earned :: "Env \<Rightarrow> TableTopologyPerformance \<Rightarrow> TableTopologyPerformance" where
  "earned E p =
     (let c = topologyRecoveryConcurrencyCap E (ttp_GoodStreak p) in
      if ttp_GoodStreak p \<ge> topologyRecoveryHealthyGoodSamples E \<and> c \<ge> TopologyRecoveryMaxConcurrency (sv_env E)
      then p\<lparr>ttp_Health := ''HEALTHY'', ttp_SlowStreak := 0, ttp_GoodStreak := 0, ttp_RecoveryConcurrencyCap := 0\<rparr>
      else p\<lparr>ttp_Health := ''DEGRADED'', ttp_RecoveryConcurrencyCap := c\<rparr>)"

definition after_degraded :: "Env \<Rightarrow> time \<Rightarrow> bool \<Rightarrow> TableTopologyPerformance \<Rightarrow> TableTopologyPerformance" where
  "after_degraded E now bad p0 =
     (let p = (if ttp_HealthChangedAt p0 = 0 then p0\<lparr>ttp_HealthChangedAt := now\<rparr> else p0);
          held = p\<lparr>ttp_Health := ''DEGRADED'', ttp_RecoveryConcurrencyCap := TopologyDegradedMaxConcurrency (sv_env E)\<rparr>
      in if bad then (if ttp_SlowStreak p \<ge> 5 then open_circuit p else held)
         else if time_sub now (ttp_HealthChangedAt p) \<ge> topologyRecoveryMinDegradedDuration E then earned E p
         else held)"

definition after_healthy :: "Env \<Rightarrow> int \<Rightarrow> TableTopologyPerformance \<Rightarrow> TableTopologyPerformance" where
  "after_healthy E tableBPS p =
     (let profileBad = (below_table (ttp_BytesPerSec p) tableBPS \<or> ttp_P99DurationMS p \<ge> slow_p99 E) in
      p\<lparr>ttp_RecoveryConcurrencyCap := 0, ttp_GoodStreak := 0,
        ttp_Health := (if profileBad
          then TopologyHealthWithThreshold (ttp_BytesPerSec p) tableBPS (ttp_P99DurationMS p)
                 (ttp_SlowStreak p) (ttp_Samples p) (slow_p99 E)
          else ''HEALTHY'')\<rparr>)"

definition next_health ::
  "Env \<Rightarrow> time \<Rightarrow> int \<Rightarrow> bool \<Rightarrow> string \<Rightarrow> TableTopologyPerformance \<Rightarrow> TableTopologyPerformance" where
  "next_health E now tableBPS bad previous p =
     (if previous = ''CIRCUIT_OPEN'' then (open_circuit p)\<lparr>ttp_GoodStreak := 0\<rparr>
      else if previous = ''HALF_OPEN'' then after_half_open E bad p
      else if previous = ''DEGRADED'' then after_degraded E now bad p
      else after_healthy E tableBPS p)"

definition sample_topology ::
  "Env \<Rightarrow> time \<Rightarrow> int \<Rightarrow> int \<Rightarrow> int \<Rightarrow> int \<Rightarrow> TableTopologyPerformance \<Rightarrow> TableTopologyPerformance" where
  "sample_topology E now tableBPS bps rps ms p =
     (let previous = NormalizeTopologyHealth (ttp_Health p); bad = sample_bad E tableBPS bps ms;
          q = next_health E now tableBPS bad previous (streaks bad (measured E bps rps ms p))
      in if NormalizeTopologyHealth (ttp_Health q) \<noteq> previous then q\<lparr>ttp_HealthChangedAt := now\<rparr> else q)"

section \<open>The profile of a table\<close>

definition sample_table :: "Env \<Rightarrow> int \<Rightarrow> int \<Rightarrow> MigrationTable \<Rightarrow> MigrationTable" where
  "sample_table E bps rps table =
     (let alpha = int_env E ''DTS_TABLE_PROFILE_EWMA_ALPHA_PCT'' 25; rows = EWMA (tbl_ProfileRowsPerSec table) rps alpha
      in table\<lparr>tbl_ProfileBytesPerSec := EWMA (tbl_ProfileBytesPerSec table) bps alpha, tbl_ProfileRowsPerSec := rows,
           tbl_RecommendedChunkRows := RecommendChunkRows rows (profileTargetSeconds E)
             (positiveInt64Env E ''DTS_PREDICTED_CHUNK_MIN_ROWS'' 1000)
             (positiveInt64Env E ''DTS_PREDICTED_CHUNK_MAX_ROWS'' 10000000),
           tbl_PerformanceSamples := tbl_PerformanceSamples table + 1\<rparr>)"

definition topology_profile :: "MigrationTable \<Rightarrow> string \<Rightarrow> TableTopologyPerformance" where
  "topology_profile table i =
     (case map_of (tbl_TopologyPerformance table) i of None \<Rightarrow> zero_TableTopologyPerformance | Some p \<Rightarrow> p)"

definition recordTablePerformance :: "MigrationChunk \<Rightarrow> ChunkResult \<Rightarrow> unit svc" where
  "recordTablePerformance chunk result =
     (if cres_DurationMS result \<le> 0 \<or> cres_RowsWritten result \<le> 0 then ret ()
      else bnd (fetch (GetMigrationTable (ch_TableID chunk))) (\<lambda>table0. bnd (env id) (\<lambda>E.
        let ms = cres_DurationMS result; bps = go_div (i64 (cres_BytesWritten result * 1000)) ms;
            rps = go_div (i64 (cres_RowsWritten result * 1000)) ms; table = sample_table E bps rps table0 in
        if ch_TopologyID chunk = [] then must (write_repo (\<lambda>io. UpdateMigrationTable io table))
        else bnd clock (\<lambda>now.
          let i = ch_TopologyID chunk;
              p = sample_topology E now (tbl_ProfileBytesPerSec table) bps rps ms (topology_profile table i)
          in must (write_repo (\<lambda>io. UpdateMigrationTable io
               (table\<lparr>tbl_TopologyPerformance := AList.update i p (tbl_TopologyPerformance table)\<rparr>)))))))"

section \<open>Probes\<close>

definition cooled_down :: "time \<Rightarrow> duration \<Rightarrow> TableTopologyPerformance \<Rightarrow> bool" where
  "cooled_down now cooldown p \<longleftrightarrow> \<not> time_sub now (ttp_HealthChangedAt p) < cooldown
     \<and> (ttp_LastProbeAt p = 0 \<or> \<not> time_sub now (ttp_LastProbeAt p) < cooldown)"

definition promote_profile :: "time \<Rightarrow> duration \<Rightarrow> TableTopologyPerformance \<Rightarrow> TableTopologyPerformance" where
  "promote_profile now cooldown p =
     (if NormalizeTopologyHealth (ttp_Health p) \<noteq> ''CIRCUIT_OPEN'' then p
      else if ttp_HealthChangedAt p = 0 then p\<lparr>ttp_HealthChangedAt := now\<rparr>
      else if cooled_down now cooldown p
      then p\<lparr>ttp_Health := ''HALF_OPEN'', ttp_LastProbeAt := now, ttp_HealthChangedAt := now\<rparr>
      else p)"

definition promoted :: "time \<Rightarrow> duration \<Rightarrow> TableTopologyPerformance \<Rightarrow> bool" where
  "promoted now cooldown p \<longleftrightarrow> NormalizeTopologyHealth (ttp_Health p) = ''CIRCUIT_OPEN''
     \<and> ttp_HealthChangedAt p \<noteq> 0 \<and> cooled_down now cooldown p"

definition touched :: "time \<Rightarrow> duration \<Rightarrow> TableTopologyPerformance \<Rightarrow> bool" where
  "touched now cooldown p \<longleftrightarrow> NormalizeTopologyHealth (ttp_Health p) = ''CIRCUIT_OPEN''
     \<and> (ttp_HealthChangedAt p = 0 \<or> cooled_down now cooldown p)"

fun log_probes :: "string \<Rightarrow> string \<Rightarrow> string list \<Rightarrow> unit svc" where
  "log_probes task table [] = ret ()"
| "log_probes task table (i # is) =
     bnd (logTask task [] table [] ''INFO'' (''topology '' @ i @ '' entered HALF_OPEN probe after circuit cooldown''))
       (\<lambda>_. log_probes task table is)"

definition promote_table :: "time \<Rightarrow> duration \<Rightarrow> MigrationTask \<Rightarrow> MigrationTable \<Rightarrow> bool svc" where
  "promote_table now cooldown task table =
     (let ps = tbl_TopologyPerformance table; probes = filter (\<lambda>(i, p). promoted now cooldown p) ps in
      bnd (log_probes (mig_ID task) (tbl_ID table) (map fst probes)) (\<lambda>_.
      bnd (if list_ex (\<lambda>(i, p). touched now cooldown p) ps
           then must (write_repo (\<lambda>io. UpdateMigrationTable io
             (table\<lparr>tbl_TopologyPerformance := map (\<lambda>(i, p). (i, promote_profile now cooldown p)) ps\<rparr>)))
           else ret ()) (\<lambda>_.
      ret (probes \<noteq> []))))"

fun promote_tables :: "time \<Rightarrow> duration \<Rightarrow> MigrationTask \<Rightarrow> MigrationTable list \<Rightarrow> bool svc" where
  "promote_tables now cooldown task [] = ret False"
| "promote_tables now cooldown task (t # ts) =
     bnd (promote_table now cooldown task t) (\<lambda>a. bnd (promote_tables now cooldown task ts) (\<lambda>b. ret (a \<or> b)))"

fun promote_tasks :: "time \<Rightarrow> duration \<Rightarrow> MigrationTask list \<Rightarrow> bool svc" where
  "promote_tasks now cooldown [] = ret False"
| "promote_tasks now cooldown (t # ts) =
     bnd (if mig_Status t \<noteq> StatusFullMigrating then ret False
          else bnd (query (ListMigrationTables (mig_ID t))) (promote_tables now cooldown t)) (\<lambda>a.
     bnd (promote_tasks now cooldown ts) (\<lambda>b. ret (a \<or> b)))"

definition promoteHalfOpenTopologies :: "time \<Rightarrow> bool svc" where
  "promoteHalfOpenTopologies now =
     bnd (query ListMigrations) (\<lambda>ms. bnd (env topologyHalfOpenCooldown) (\<lambda>cooldown.
     promote_tasks now cooldown ms))"

section \<open>Recovery takes a probe and a row of good samples\<close>

datatype topology_event = Sample time int int int int | Promote time

fun topology_step :: "Env \<Rightarrow> topology_event \<Rightarrow> TableTopologyPerformance \<Rightarrow> TableTopologyPerformance" where
  "topology_step E (Sample now tableBPS bps rps ms) p = sample_topology E now tableBPS bps rps ms p"
| "topology_step E (Promote now) p = promote_profile now (topologyHalfOpenCooldown E) p"

fun bad_event :: "Env \<Rightarrow> topology_event \<Rightarrow> bool" where
  "bad_event E (Sample now tableBPS bps rps ms) = sample_bad E tableBPS bps ms"
| "bad_event E (Promote now) = False"

text \<open>The good samples in a row that end a history, which has its newest event first.\<close>

fun good_run :: "Env \<Rightarrow> topology_event list \<Rightarrow> int" where
  "good_run E [] = 0"
| "good_run E (Promote now # h) = good_run E h"
| "good_run E (e # h) = (if bad_event E e then 0 else good_run E h + 1)"

abbreviation health :: "TableTopologyPerformance \<Rightarrow> string" where
  "health p \<equiv> NormalizeTopologyHealth (ttp_Health p)"

lemma good_run_nonneg: "0 \<le> good_run E h"
  by (induction E h rule: good_run.induct) auto

lemmas health_defs = open_circuit_def after_half_open_def after_degraded_def after_healthy_def earned_def Let_def

lemma measured_keeps [simp]:
  "ttp_GoodStreak (measured E bps rps ms p) = ttp_GoodStreak p" "ttp_Health (measured E bps rps ms p) = ttp_Health p"
  "ttp_HealthChangedAt (measured E bps rps ms p) = ttp_HealthChangedAt p"
  by (simp_all add: measured_def Let_def)

lemma streaks_good: "ttp_GoodStreak (streaks bad p) = (if bad then 0 else ttp_GoodStreak p + 1)"
  by (simp add: streaks_def)

lemma next_health_streak:
  assumes "0 \<le> ttp_GoodStreak p" "\<not> bad \<Longrightarrow> 1 \<le> ttp_GoodStreak p" "bad \<Longrightarrow> ttp_GoodStreak p = 0"
  shows "ttp_GoodStreak (next_health E now tableBPS bad previous p) \<le> ttp_GoodStreak p"
  using assms by (auto simp: next_health_def health_defs)

lemma sample_streak:
  "0 \<le> ttp_GoodStreak p \<Longrightarrow> ttp_GoodStreak (sample_topology E now tableBPS bps rps ms p)
     \<le> (if sample_bad E tableBPS bps ms then 0 else ttp_GoodStreak p + 1)"
  using next_health_streak [of "streaks (sample_bad E tableBPS bps ms) (measured E bps rps ms p)"
      "sample_bad E tableBPS bps ms" E now tableBPS "health p"]
  by (auto simp: sample_topology_def Let_def streaks_good split: if_splits)

lemma next_health_streak_nonneg:
  "0 \<le> ttp_GoodStreak p \<Longrightarrow> 0 \<le> ttp_GoodStreak (next_health E now tableBPS bad previous p)"
  by (auto simp: next_health_def health_defs)

lemma step_streak:
  assumes "0 \<le> ttp_GoodStreak p" "ttp_GoodStreak p \<le> good_run E h"
  shows "0 \<le> ttp_GoodStreak (topology_step E e p)" "ttp_GoodStreak (topology_step E e p) \<le> good_run E (e # h)"
proof -
  show "0 \<le> ttp_GoodStreak (topology_step E e p)"
    using assms(1) by (cases e) (auto simp: promote_profile_def sample_topology_def Let_def streaks_good
      intro!: next_health_streak_nonneg)
  show "ttp_GoodStreak (topology_step E e p) \<le> good_run E (e # h)"
  proof (cases e)
    case (Sample now tableBPS bps rps ms)
    with assms sample_streak [OF assms(1), of E now tableBPS bps rps ms] show ?thesis by (auto split: if_splits)
  qed (use assms in \<open>auto simp: promote_profile_def\<close>)
qed

lemma history_streak:
  assumes "ttp_GoodStreak p = 0"
  shows "0 \<le> ttp_GoodStreak (foldr (topology_step E) h p) \<and> ttp_GoodStreak (foldr (topology_step E) h p) \<le> good_run E h"
  by (induction h) (use assms step_streak in auto)

text \<open>What a sample does to each health.\<close>

lemma sample_health:
  "health (sample_topology E now tableBPS bps rps ms p) =
     health (next_health E now tableBPS (sample_bad E tableBPS bps ms) (health p)
       (streaks (sample_bad E tableBPS bps ms) (measured E bps rps ms p)))"
  by (simp add: sample_topology_def Let_def)

lemma sample_open: "health p = ''CIRCUIT_OPEN'' \<Longrightarrow> health (sample_topology E now tableBPS bps rps ms p) = ''CIRCUIT_OPEN''"
  by (simp add: sample_health next_health_def health_defs)

lemma sample_half_open:
  "health p = ''HALF_OPEN'' \<Longrightarrow> health (sample_topology E now tableBPS bps rps ms p)
     = (if sample_bad E tableBPS bps ms then ''CIRCUIT_OPEN'' else ''DEGRADED'')"
  by (simp add: sample_health next_health_def health_defs)

lemma degraded_to_healthy:
  assumes "health p = ''DEGRADED''" "health (sample_topology E now tableBPS bps rps ms p) = ''HEALTHY''"
  shows "\<not> sample_bad E tableBPS bps ms \<and> topologyRecoveryHealthyGoodSamples E \<le> ttp_GoodStreak p + 1"
  using assms by (auto simp: sample_health next_health_def health_defs streaks_good split: if_splits)

text \<open>
  C36. A topology whose circuit is open leaves that state only through a probe, after the
  cool-down; the probe's sample decides between an open circuit and a degraded topology; and a
  topology that was not healthy becomes healthy only from the degraded state, when the newest
  samples, at least two and as many as configured, were all good. This holds after every history
  of samples and probes.
\<close>

theorem topology_recovery_staged:
  assumes start: "ttp_GoodStreak p = 0" and q: "q = foldr (topology_step E) h p" and r: "r = topology_step E e q"
  shows "(health q = ''CIRCUIT_OPEN'' \<longrightarrow> health r \<noteq> ''CIRCUIT_OPEN'' \<longrightarrow>
      health r = ''HALF_OPEN'' \<and> (\<exists>now. e = Promote now \<and> cooled_down now (topologyHalfOpenCooldown E) q)) \<and>
    (health q = ''HALF_OPEN'' \<longrightarrow> r = q \<or> health r = (if bad_event E e then ''CIRCUIT_OPEN'' else ''DEGRADED'')) \<and>
    (health q \<noteq> ''HEALTHY'' \<longrightarrow> health r = ''HEALTHY'' \<longrightarrow>
      health q = ''DEGRADED'' \<and> 2 \<le> good_run E (e # h) \<and> topologyRecoveryHealthyGoodSamples E \<le> good_run E (e # h))"
proof (intro conjI)
  show "health q = ''CIRCUIT_OPEN'' \<longrightarrow> health r \<noteq> ''CIRCUIT_OPEN'' \<longrightarrow>
      health r = ''HALF_OPEN'' \<and> (\<exists>now. e = Promote now \<and> cooled_down now (topologyHalfOpenCooldown E) q)"
    unfolding r by (cases e) (auto simp: sample_open promote_profile_def)
  show "health q = ''HALF_OPEN'' \<longrightarrow> r = q \<or> health r = (if bad_event E e then ''CIRCUIT_OPEN'' else ''DEGRADED'')"
    unfolding r by (cases e) (auto simp: sample_half_open promote_profile_def)
  show "health q \<noteq> ''HEALTHY'' \<longrightarrow> health r = ''HEALTHY'' \<longrightarrow>
      health q = ''DEGRADED'' \<and> 2 \<le> good_run E (e # h) \<and> topologyRecoveryHealthyGoodSamples E \<le> good_run E (e # h)"
  proof (intro impI)
    assume bad: "health q \<noteq> ''HEALTHY''" and good: "health r = ''HEALTHY''"
    obtain now tableBPS bps rps ms where e: "e = Sample now tableBPS bps rps ms"
      using bad good unfolding r by (cases e) (auto simp: promote_profile_def split: if_splits)
    have d: "health q = ''DEGRADED''"
      using bad good sample_open [of q E now tableBPS bps rps ms] sample_half_open [of q E now tableBPS bps rps ms]
      unfolding r e by (cases "ttp_Health q" rule: normalize_cases) (auto split: if_splits)
    with degraded_to_healthy [of q E now tableBPS bps rps ms] good history_streak [OF start, of E h]
    have "\<not> bad_event E e" "topologyRecoveryHealthyGoodSamples E \<le> good_run E h + 1"
      unfolding r e q by auto
    with d show "health q = ''DEGRADED'' \<and> 2 \<le> good_run E (e # h) \<and> topologyRecoveryHealthyGoodSamples E \<le> good_run E (e # h)"
      unfolding e by (auto simp: topologyRecoveryHealthyGoodSamples_def Let_def split: if_splits)
  qed
qed

text \<open>An open circuit is probed once five minutes have passed.\<close>

definition demo_open :: TableTopologyPerformance where
  "demo_open = zero_TableTopologyPerformance\<lparr>ttp_Health := ''CIRCUIT_OPEN'', ttp_HealthChangedAt := 1\<rparr>"

theorem topology_recovery_staged_witness:
  "\<forall>E :: Env. health (topology_step (E\<lparr>sv_env := \<lambda>k. []\<rparr>) (Promote (10 ^ 12)) demo_open) = ''HALF_OPEN''"
proof
  fix E :: Env
  let ?E = "E\<lparr>sv_env := \<lambda>k. []\<rparr>"
  have open_now: "health demo_open = ''CIRCUIT_OPEN''" by (simp add: demo_open_def)
  have "health (topology_step ?E (Promote (10 ^ 12)) demo_open) \<noteq> ''CIRCUIT_OPEN''"
    by (simp add: demo_open_def promote_profile_def cooled_down_def topologyHalfOpenCooldown_def
        int_env_def seconds_def time_sub_def i64_def zero_TableTopologyPerformance_def)
  then show "health (topology_step ?E (Promote (10 ^ 12)) demo_open) = ''HALF_OPEN''"
    using topology_recovery_staged [of demo_open demo_open ?E "[]" _ "Promote (10 ^ 12)"] open_now
    by (simp add: demo_open_def zero_TableTopologyPerformance_def)
qed

end
