(* ===== verification/ChunkCursor.thy ===== *)
theory ChunkCursor
  imports GoJson ServiceTypes
begin

text \<open>
  The resume cursors of chunks: JSON texts that the workers store with each committed batch and
  the service reads when it divides a running chunk. A numeric range keeps the last primary key,
  \<open>{"after_pk":17}\<close>; a keyset range keeps the key's values as \<open>[]connector.Value\<close>. Modelled are the
  part of \<open>json.Unmarshal\<close> that reads them and \<open>json.Marshal\<close> that wrote them. A struct field is
  matched regardless of case and the last occurrence wins; unknown fields are ignored.
\<close>

section \<open>JSON values\<close>

datatype json =
    JNull
  | JBool bool
  | JNum string
  | JStr string
  | JArr "json list"
  | JObj "(string \<times> json) list"

definition skip_ws :: "string \<Rightarrow> string" where
  "skip_ws s = dropWhile json_space s"

definition utf8 :: "nat \<Rightarrow> string" where
  "utf8 n = (if n < 128 then [char_of n]
     else if n < 2048 then [char_of (192 + n div 64), char_of (128 + n mod 64)]
     else if n < 65536 then [char_of (224 + n div 4096), char_of (128 + n div 64 mod 64), char_of (128 + n mod 64)]
     else [char_of (240 + n div 262144), char_of (128 + n div 4096 mod 64), char_of (128 + n div 64 mod 64),
           char_of (128 + n mod 64)])"

definition hex4 :: "string \<Rightarrow> nat option" where
  "hex4 s = (case map hex_val (take 4 s) of
       [Some a, Some b, Some c, Some d] \<Rightarrow> Some (((a * 16 + b) * 16 + c) * 16 + d)
     | _ \<Rightarrow> None)"

text \<open>The rune of a \<open>\u\<close> escape and what follows it; a surrogate that is not half of a pair is
  replaced by U+FFFD.\<close>

definition unicode_escape :: "string \<Rightarrow> (nat \<times> string) option" where
  "unicode_escape s = (case hex4 s of
       None \<Rightarrow> None
     | Some r \<Rightarrow>
         let t = drop 4 s in
         if r < 55296 \<or> 57343 < r then Some (r, t)
         else if r < 56320 \<and> prefix [CHR 0x5C, CHR ''u''] t
         then (case hex4 (drop 2 t) of
                 Some r2 \<Rightarrow>
                   if 56320 \<le> r2 \<and> r2 \<le> 57343
                   then Some (65536 + (r - 55296) * 1024 + (r2 - 56320), drop 6 t)
                   else Some (65533, t)
               | None \<Rightarrow> Some (65533, t))
         else Some (65533, t))"

definition plain_escape :: "char \<Rightarrow> char option" where
  "plain_escape c =
     (if c = CHR ''b'' then Some (CHR 0x08) else if c = CHR ''f'' then Some (CHR 0x0C)
      else if c = CHR ''n'' then Some (CHR 0x0A) else if c = CHR ''r'' then Some (CHR 0x0D)
      else if c = CHR ''t'' then Some (CHR 0x09)
      else if c = CHR ''/'' \<or> c = CHR 0x5C \<or> c = CHR 0x22 then Some c else None)"

text \<open>The string after its opening quote, and the rest of the input. Bytes from 128 are taken to be
  valid UTF-8. The number bounds the length.\<close>

fun parse_string :: "nat \<Rightarrow> string \<Rightarrow> (string \<times> string) option" where
  "parse_string 0 s = None"
| "parse_string (Suc k) [] = None"
| "parse_string (Suc k) (c # s) =
     (if c = CHR 0x22 then Some ([], s)
      else if c \<noteq> CHR 0x5C then map_option (\<lambda>(t, r). (c # t, r)) (parse_string k s)
      else case s of
          [] \<Rightarrow> None
        | e # s' \<Rightarrow>
            if e = CHR ''u''
            then (case unicode_escape s' of
                    None \<Rightarrow> None
                  | Some (n, s'') \<Rightarrow> map_option (\<lambda>(t, r). (utf8 n @ t, r)) (parse_string k s''))
            else (case plain_escape e of
                    None \<Rightarrow> None
                  | Some d \<Rightarrow> map_option (\<lambda>(t, r). (d # t, r)) (parse_string k s')))"

definition number_char :: "char \<Rightarrow> bool" where
  "number_char c \<longleftrightarrow> is_digit c \<or> c \<in> set ''+-.eE''"

text \<open>The parser runs on text the scanner has accepted. Each level of nesting and each element
  takes from the bound; twice the length is enough.\<close>

fun parse_value :: "nat \<Rightarrow> string \<Rightarrow> (json \<times> string) option"
and parse_elems :: "nat \<Rightarrow> string \<Rightarrow> (json list \<times> string) option"
and parse_members :: "nat \<Rightarrow> string \<Rightarrow> ((string \<times> json) list \<times> string) option" where
  "parse_value 0 s = None"
| "parse_value (Suc k) s = (case skip_ws s of
       [] \<Rightarrow> None
     | c # r \<Rightarrow>
         if c = CHR 0x22 then map_option (\<lambda>(t, r). (JStr t, r)) (parse_string (Suc (length r)) r)
         else if c = CHR ''['' then
           (if prefix '']'' (skip_ws r) then Some (JArr [], drop 1 (skip_ws r))
            else map_option (\<lambda>(vs, r). (JArr vs, r)) (parse_elems k r))
         else if c = CHR ''{'' then
           (if prefix ''}'' (skip_ws r) then Some (JObj [], drop 1 (skip_ws r))
            else map_option (\<lambda>(ms, r). (JObj ms, r)) (parse_members k r))
         else if c = CHR ''t'' then Some (JBool True, drop 3 r)
         else if c = CHR ''f'' then Some (JBool False, drop 4 r)
         else if c = CHR ''n'' then Some (JNull, drop 3 r)
         else Some (JNum (takeWhile number_char (c # r)), dropWhile number_char (c # r)))"
| "parse_elems 0 s = None"
| "parse_elems (Suc k) s = (case parse_value k s of
       None \<Rightarrow> None
     | Some (v, r) \<Rightarrow> (case skip_ws r of
           [] \<Rightarrow> None
         | c # r \<Rightarrow>
             if c = CHR '','' then map_option (\<lambda>(vs, r). (v # vs, r)) (parse_elems k r)
             else if c = CHR '']'' then Some ([v], r) else None))"
| "parse_members 0 s = None"
| "parse_members (Suc k) s = (case skip_ws s of
       [] \<Rightarrow> None
     | q # s' \<Rightarrow> (case parse_string (Suc (length s')) s' of
           None \<Rightarrow> None
         | Some (key, r) \<Rightarrow> (case parse_value k (drop 1 (skip_ws r)) of
               None \<Rightarrow> None
             | Some (v, r) \<Rightarrow> (case skip_ws r of
                   [] \<Rightarrow> None
                 | c # r \<Rightarrow>
                     if c = CHR '','' then map_option (\<lambda>(ms, r). ((key, v) # ms, r)) (parse_members k r)
                     else if c = CHR ''}'' then Some ([(key, v)], r) else None))))"

definition json_decode :: "string \<Rightarrow> json option" where
  "json_decode s = (if json_valid s then map_option fst (parse_value (2 * length s + 2) s) else None)"

section \<open>Numeric cursors\<close>

text \<open>\<open>json.Unmarshal\<close> into one \<open>int64\<close> field.\<close>

definition into_int64 :: "int \<Rightarrow> json \<Rightarrow> int option" where
  "into_int64 old v = (case v of JNull \<Rightarrow> Some old | JNum lit \<Rightarrow> atoi lit | _ \<Rightarrow> None)"

definition into_field :: "string \<Rightarrow> ('a \<Rightarrow> json \<Rightarrow> 'a option) \<Rightarrow> string \<times> json \<Rightarrow> 'a option \<Rightarrow> 'a option" where
  "into_field name f m acc =
     (if equal_fold (fst m) name then case acc of None \<Rightarrow> None | Some x \<Rightarrow> f x (snd m) else acc)"

definition numericResumeCursor :: "string \<Rightarrow> int option" where
  "numericResumeCursor raw = (case json_decode (trim_space raw) of
       Some JNull \<Rightarrow> Some 0
     | Some (JObj ms) \<Rightarrow> fold (into_field ''after_pk'' into_int64) ms (Some 0)
     | _ \<Rightarrow> None)"

text \<open>What a worker stores: \<open>json.Marshal(numericChunkCursor{AfterPK: n})\<close>.\<close>

definition numeric_cursor :: "int \<Rightarrow> string" where
  "numeric_cursor n = ''{'' @ [CHR 0x22] @ ''after_pk'' @ [CHR 0x22] @ '':'' @ int_str n @ ''}''"

section \<open>Keyset cursors\<close>

text \<open>Bytes are base64 text; an array of small numbers is accepted too.\<close>

definition into_byte :: "json \<Rightarrow> char option" where
  "into_byte v = (case v of
       JNull \<Rightarrow> Some (CHR 0x00)
     | JNum lit \<Rightarrow> (case atoi lit of Some n \<Rightarrow> if 0 \<le> n \<and> n < 256 then Some (char_of (nat n)) else None
                   | None \<Rightarrow> None)
     | _ \<Rightarrow> None)"

definition into_bytes :: "string \<Rightarrow> json \<Rightarrow> string option" where
  "into_bytes old v = (case v of
       JNull \<Rightarrow> Some []
     | JStr s \<Rightarrow> base64_decode s
     | JArr vs \<Rightarrow> those (map into_byte vs)
     | _ \<Rightarrow> None)"

definition into_bool :: "bool \<Rightarrow> json \<Rightarrow> bool option" where
  "into_bool old v = (case v of JNull \<Rightarrow> Some old | JBool b \<Rightarrow> Some b | _ \<Rightarrow> None)"

definition into_value :: "json \<Rightarrow> Value option" where
  "into_value v = (case v of
       JNull \<Rightarrow> Some \<lparr>v_Null = False, v_Raw = []\<rparr>
     | JObj ms \<Rightarrow>
         (case (fold (into_field ''Null'' into_bool) ms (Some False), fold (into_field ''Raw'' into_bytes) ms (Some [])) of
            (Some n, Some r) \<Rightarrow> Some \<lparr>v_Null = n, v_Raw = r\<rparr>
          | _ \<Rightarrow> None)
     | _ \<Rightarrow> None)"

definition decodeKeysetBound :: "string \<Rightarrow> Value list option" where
  "decodeKeysetBound raw = (let raw = trim_space raw in
     if raw = [] then Some []
     else case json_decode raw of
         Some JNull \<Rightarrow> Some []
       | Some (JArr vs) \<Rightarrow> those (map into_value vs)
       | _ \<Rightarrow> None)"

text \<open>\<open>json.Marshal\<close> of a key; a null value has no bytes.\<close>

definition value_json :: "Value \<Rightarrow> string" where
  "value_json v =
     ''{'' @ [CHR 0x22] @ ''Null'' @ [CHR 0x22] @ '':'' @ (if v_Null v then ''true'' else ''false'') @ '','' @
     [CHR 0x22] @ ''Raw'' @ [CHR 0x22] @ '':'' @
     (if v_Null v then ''null'' else [CHR 0x22] @ base64_encode (v_Raw v) @ [CHR 0x22]) @ ''}''"

definition marshal_key :: "Value list \<Rightarrow> string" where
  "marshal_key vs = ''['' @ join (map value_json vs) '','' @ '']''"

lemma cursor_examples:
  "numericResumeCursor (numeric_cursor (- 17)) = Some (- 17)"
  "decodeKeysetBound (marshal_key [\<lparr>v_Null = False, v_Raw = ''ab''\<rparr>, \<lparr>v_Null = True, v_Raw = []\<rparr>])
     = Some [\<lparr>v_Null = False, v_Raw = ''ab''\<rparr>, \<lparr>v_Null = True, v_Raw = []\<rparr>]"
  by code_simp+

section \<open>Cursors are read back\<close>

definition runs :: "json_scan \<Rightarrow> string \<Rightarrow> json_scan \<Rightarrow> bool" where
  "runs q s q' \<longleftrightarrow> (\<exists>out. json_run q s = Some (q', out))"

lemma runs_Nil: "runs q [] q"
  by (simp add: runs_def)

lemma runs_Cons: "json_step c q = Some (q1, k) \<Longrightarrow> runs q1 s q' \<Longrightarrow> runs q (c # s) q'"
  by (auto simp: runs_def)

lemma runs_append: "runs q s q1 \<Longrightarrow> runs q1 t q' \<Longrightarrow> runs q (s @ t) q'"
proof (induction s arbitrary: q)
  case (Cons c s)
  then obtain q2 k where "json_step c q = Some (q2, k)" "runs q2 s q1"
    by (auto simp: runs_def split: option.splits prod.splits)
  with Cons.IH [of q2] Cons.prems(2) show ?case by (auto intro: runs_Cons)
qed (simp add: runs_def)

lemma runs_valid: "runs json_start s (EndTop, []) \<Longrightarrow> json_valid s"
  by (auto simp: runs_def json_valid_def json_compact_def json_complete_def json_space_def)

lemma runs_digits: "list_all is_digit s \<Longrightarrow> runs (Digit1, ps) s (Digit1, ps)"
  by (induction s) (auto intro: runs_Nil runs_Cons)

text \<open>Digits, and the first of a positive number.\<close>

lemma is_digit_char: "d < 10 \<Longrightarrow> is_digit (char_of (48 + (d :: nat)))"
  by (simp add: is_digit_def digit_val_char)

lemma nat_str_first:
  "\<exists>c s. nat_str n = c # s \<and> is_digit c \<and> list_all is_digit s \<and> (c = CHR ''0'' \<longrightarrow> n = 0)"
proof (induction n rule: nat_str.induct)
  case (1 n)
  show ?case
  proof (cases "n < 10")
    case True
    have "n = 0" if "char_of (48 + n) = CHR ''0''"
    proof -
      from of_char_digit [OF True] that have "of_char CHR ''0'' = 48 + n" by simp
      then show ?thesis by simp
    qed
    moreover from True have "nat_str n = [char_of (48 + n)]" by (subst nat_str.simps) simp
    ultimately show ?thesis using True is_digit_char [of n] by auto
  next
    case False
    then have s: "nat_str n = nat_str (n div 10) @ [char_of (48 + n mod 10)]"
      by (subst nat_str.simps) simp
    from False have "n div 10 \<noteq> 0" by simp
    with 1 [OF False] s is_digit_char [of "n mod 10"] show ?thesis by auto
  qed
qed

lemma runs_number:
  "\<exists>st. runs (BeginValue, ps) (int_str n) (st, ps) \<and> (st = Digit0 \<or> st = Digit1)"
proof -
  have pos: "\<exists>st. runs (b, ps) (nat_str m) (st, ps) \<and> (st = Digit0 \<or> st = Digit1)"
    if b: "b = BeginValue \<or> b = Neg" for b m
  proof -
    obtain c s where m: "nat_str m = c # s" "is_digit c" "list_all is_digit s" "c = CHR ''0'' \<longrightarrow> m = 0"
      using nat_str_first by metis
    show ?thesis
    proof (cases "c = CHR ''0''")
      case True
      with m have "s = []" by (simp add: nat_str.simps)
      with True b m(1) show ?thesis
        by (auto simp: begin_value_def json_space_def intro!: exI [of _ Digit0] runs_Cons runs_Nil)
    next
      case False
      have "json_step c (b, ps) = go_on Digit1 ps"
      proof -
        have "c \<noteq> CHR ''{''" "c \<noteq> CHR ''[''" "c \<noteq> CHR 0x22" "c \<noteq> CHR ''-''" "c \<noteq> CHR ''t''" "c \<noteq> CHR ''f''"
          "c \<noteq> CHR ''n''" "\<not> json_space c"
          using m(2) by (auto simp: is_digit_def digit_val_def json_space_def)
        with False m(2) b show ?thesis by (auto simp: begin_value_def)
      qed
      with runs_digits [OF m(3), of ps] m(1) show ?thesis by (auto intro: exI [of _ Digit1] runs_Cons)
    qed
  qed
  show ?thesis
  proof (cases "n < 0")
    case True
    have "json_step CHR ''-'' (BeginValue, ps) = go_on Neg ps" by (simp add: begin_value_def json_space_def)
    moreover obtain st where "runs (Neg, ps) (nat_str (nat (- n))) (st, ps)" "st = Digit0 \<or> st = Digit1"
      using pos [of Neg "nat (- n)"] by blast
    ultimately show ?thesis using True runs_Cons by (fastforce simp: int_str_def)
  next
    case False
    with pos [of BeginValue] show ?thesis by (simp add: int_str_def)
  qed
qed

lemma json_runD: "json_run q s = Some (q', out) \<Longrightarrow> runs q s q'"
  by (auto simp: runs_def)

lemma numeric_prefix:
  "json_run json_start (''{'' @ [CHR 0x22] @ ''after_pk'' @ [CHR 0x22] @ '':'')
     = Some ((BeginValue, [ObjectValue]), ''{'' @ [CHR 0x22] @ ''after_pk'' @ [CHR 0x22] @ '':'')"
  by code_simp

lemma numeric_cursor_valid: "json_valid (numeric_cursor n)"
proof -
  obtain st where st: "runs (BeginValue, [ObjectValue]) (int_str n) (st, [ObjectValue])" "st = Digit0 \<or> st = Digit1"
    using runs_number by metis
  have "json_step CHR ''}'' (st, [ObjectValue]) = go_on EndTop []"
    using st(2) by (auto simp: end_value_def pop_open_def is_digit_def digit_val_def)
  then have "runs (st, [ObjectValue]) ''}'' (EndTop, [])" by (rule runs_Cons [OF _ runs_Nil])
  with st(1) have "runs (BeginValue, [ObjectValue]) (int_str n @ ''}'') (EndTop, [])" by (rule runs_append)
  from runs_append [OF json_runD [OF numeric_prefix] this] show ?thesis
    by (intro runs_valid) (simp add: numeric_cursor_def)
qed

lemma atoi_int_str: "in_i64 n \<Longrightarrow> atoi (int_str n) = Some n"
proof -
  assume n: "in_i64 n"
  obtain c s where m: "nat_str (nat n) = c # s" "is_digit c" using nat_str_first by metis
  then have "c \<noteq> CHR ''-''" "c \<noteq> CHR ''+''" by (auto simp: is_digit_def digit_val_def)
  with n m parse_nat_nat_str [of "nat n"] show ?thesis
    by (auto simp: atoi_def int_str_def)
qed

lemma number_taken:
  "takeWhile number_char (int_str n @ CHR ''}'' # r) = int_str n"
  "dropWhile number_char (int_str n @ CHR ''}'' # r) = CHR ''}'' # r"
proof -
  have "number_char c" if "c \<in> set (int_str n)" for c
    using int_str_chars [OF that] by (auto simp: number_char_def)
  moreover have "\<not> number_char CHR ''}''" by code_simp
  ultimately show "takeWhile number_char (int_str n @ CHR ''}'' # r) = int_str n"
    "dropWhile number_char (int_str n @ CHR ''}'' # r) = CHR ''}'' # r"
    by (simp_all add: takeWhile_append2 dropWhile_append2)
qed

lemma parse_number:
  "parse_value (Suc k) (int_str n @ CHR ''}'' # r) = Some (JNum (int_str n), CHR ''}'' # r)"
proof -
  obtain c s where s: "int_str n = c # s" "is_digit c \<or> c = CHR ''-''"
    using int_str_chars [of "hd (int_str n)" n] by (cases "int_str n") (auto simp: int_str_def split: if_splits)
  then have "\<not> json_space c" "c \<noteq> CHR 0x22" "c \<noteq> CHR ''[''" "c \<noteq> CHR ''{''" "c \<noteq> CHR ''t''" "c \<noteq> CHR ''f''" "c \<noteq> CHR ''n''"
    by (auto simp: is_digit_def digit_val_def json_space_def)
  with s number_taken [of n r] show ?thesis by (simp add: skip_ws_def)
qed

lemma numeric_cursor_trim: "trim_space (numeric_cursor n) = numeric_cursor n"
proof (rule trim_no_space)
  fix c
  assume "c \<in> set (numeric_cursor n)"
  then show "\<not> is_space c"
    using int_str_chars [of c n]
    by (auto simp: numeric_cursor_def is_space_def is_digit_def digit_val_def Let_def split: if_splits)
qed

text \<open>
  C1. The service reads back the primary key the worker stored as a numeric cursor, for every
  64-bit key.
\<close>

theorem numeric_cursor_roundtrip: "in_i64 n \<Longrightarrow> numericResumeCursor (numeric_cursor n) = Some n"
proof -
  assume n: "in_i64 n"
  let ?s = "numeric_cursor n"
  obtain m where "length ?s = Suc m" by (cases ?s) (auto simp: numeric_cursor_def)
  then obtain k where k: "2 * length ?s + 2 = Suc (Suc (Suc k))" by simp
  have "parse_value (Suc (Suc (Suc k))) ?s = Some (JObj [(''after_pk'', JNum (int_str n))], [])"
    using parse_number [of k n "[]"]
    by (simp add: numeric_cursor_def skip_ws_def json_space_def)
  with k have "json_decode ?s = Some (JObj [(''after_pk'', JNum (int_str n))])"
    by (simp add: json_decode_def numeric_cursor_valid)
  with n show ?thesis
    by (simp add: numericResumeCursor_def numeric_cursor_trim into_field_def into_int64_def atoi_int_str)
qed

theorem numeric_cursor_roundtrip_witness:
  "numericResumeCursor (numeric_cursor (2 ^ 63 - 1)) = Some (2 ^ 63 - 1)"
  by (rule numeric_cursor_roundtrip) (simp add: in_i64_def)

subsection \<open>Keyset cursors\<close>

text \<open>The characters of base64 text, which a JSON string holds as they are.\<close>

definition text_char :: "char \<Rightarrow> bool" where
  "text_char c \<longleftrightarrow> c \<noteq> CHR 0x22 \<and> c \<noteq> CHR 0x5C \<and> \<not> byte_nat c < 33"

lemma text_char_b64: "n < 64 \<Longrightarrow> text_char (b64_char n)"
proof -
  assume "n < 64"
  moreover have "list_all (\<lambda>n. text_char (b64_char n)) [0..<64]" by code_simp
  ultimately show ?thesis by (simp add: list_all_iff)
qed

lemma text_base64: "list_all text_char (base64_encode s)"
proof (induction s rule: base64_encode.induct)
  case (4 a b c rest)
  then show ?case
    using b64_first(1,2) [of "byte_nat a" "byte_nat b"] b64_second(1) [of "byte_nat b" "byte_nat c"]
    by (simp add: text_char_b64 byte_nat_less)
next
  case (3 a b)
  then show ?case
    using b64_first(1,2) [of "byte_nat a" "byte_nat b"] b64_second(1) [of "byte_nat b" 0]
    by (simp add: text_char_b64 byte_nat_less) (simp add: text_char_def byte_nat_def)
next
  case (2 a)
  then show ?case
    using b64_first(1,2) [of "byte_nat a" 0]
    by (simp add: text_char_b64 byte_nat_less) (simp add: text_char_def byte_nat_def)
qed simp

lemma runs_text: "list_all text_char s \<Longrightarrow> runs (InString, ps) s (InString, ps)"
  by (induction s) (auto simp: text_char_def intro: runs_Nil runs_Cons)

lemma parse_text: "list_all text_char s \<Longrightarrow> length s < k \<Longrightarrow> parse_string k (s @ CHR 0x22 # r) = Some (s, r)"
proof (induction s arbitrary: k)
  case Nil
  then show ?case by (cases k) auto
next
  case (Cons c s)
  then show ?case by (cases k) (auto simp: text_char_def)
qed

definition null_text :: "bool \<Rightarrow> string" where
  "null_text b = ''{'' @ [CHR 0x22] @ ''Null'' @ [CHR 0x22] @ '':'' @ (if b then ''true'' else ''false'') @ '','' @
     [CHR 0x22] @ ''Raw'' @ [CHR 0x22] @ '':''"

lemma value_json_split:
  "value_json v = null_text (v_Null v) @
     (if v_Null v then ''null}'' else [CHR 0x22] @ base64_encode (v_Raw v) @ [CHR 0x22] @ ''}'')"
  by (simp add: value_json_def null_text_def)

lemma null_text_runs:
  "b = BeginValue \<or> b = BeginValueOrEmpty \<Longrightarrow>
     runs (b, [ArrayValue]) (null_text n) (BeginValue, [ObjectValue, ArrayValue])"
proof -
  have "runs (b, [ArrayValue]) (null_text n) (BeginValue, [ObjectValue, ArrayValue])"
    if "json_run (b, [ArrayValue]) (null_text n) = Some ((BeginValue, [ObjectValue, ArrayValue]), null_text n)"
    using that by (rule json_runD)
  moreover have
    "json_run (BeginValue, [ArrayValue]) (null_text True) = Some ((BeginValue, [ObjectValue, ArrayValue]), null_text True)"
    "json_run (BeginValue, [ArrayValue]) (null_text False) = Some ((BeginValue, [ObjectValue, ArrayValue]), null_text False)"
    "json_run (BeginValueOrEmpty, [ArrayValue]) (null_text True) = Some ((BeginValue, [ObjectValue, ArrayValue]), null_text True)"
    "json_run (BeginValueOrEmpty, [ArrayValue]) (null_text False) = Some ((BeginValue, [ObjectValue, ArrayValue]), null_text False)"
    by code_simp+
  ultimately show "b = BeginValue \<or> b = BeginValueOrEmpty \<Longrightarrow> ?thesis" by (cases n) auto
qed

lemma null_runs: "runs (BeginValue, [ObjectValue, ArrayValue]) ''null}'' (EndValue, [ArrayValue])"
proof (rule json_runD)
  show "json_run (BeginValue, [ObjectValue, ArrayValue]) ''null}'' = Some ((EndValue, [ArrayValue]), ''null}'')"
    by code_simp
qed

lemma raw_runs:
  assumes "list_all text_char s"
  shows "runs (BeginValue, [ObjectValue, ArrayValue]) ([CHR 0x22] @ s @ [CHR 0x22] @ ''}'') (EndValue, [ArrayValue])"
proof (intro runs_append)
  show "runs (BeginValue, [ObjectValue, ArrayValue]) [CHR 0x22] (InString, [ObjectValue, ArrayValue])"
    by (rule json_runD) code_simp
  show "runs (InString, [ObjectValue, ArrayValue]) s (InString, [ObjectValue, ArrayValue])"
    using assms by (rule runs_text)
  show "runs (InString, [ObjectValue, ArrayValue]) [CHR 0x22] (EndValue, [ObjectValue, ArrayValue])"
    by (rule json_runD) code_simp
  show "runs (EndValue, [ObjectValue, ArrayValue]) ''}'' (EndValue, [ArrayValue])"
    by (rule json_runD) code_simp
qed

lemma value_runs:
  "b = BeginValue \<or> b = BeginValueOrEmpty \<Longrightarrow> runs (b, [ArrayValue]) (value_json v) (EndValue, [ArrayValue])"
  unfolding value_json_split using null_runs raw_runs [OF text_base64] by (auto intro: runs_append null_text_runs)

lemma values_run:
  "b = BeginValue \<or> b = BeginValueOrEmpty \<Longrightarrow> vs \<noteq> [] \<Longrightarrow>
     runs (b, [ArrayValue]) (join (map value_json vs) '','' @ '']'') (EndTop, [])"
proof (induction vs arbitrary: b)
  case (Cons v vs)
  show ?case
  proof (cases "vs = []")
    case True
    have "runs (EndValue, [ArrayValue]) '']'' (EndTop, [])" by (rule json_runD) code_simp
    with True value_runs [OF Cons.prems(1)] show ?thesis by (auto intro: runs_append)
  next
    case False
    have "runs (EndValue, [ArrayValue]) '','' (BeginValue, [ArrayValue])" by (rule json_runD) code_simp
    from runs_append [OF value_runs [OF Cons.prems(1), of v] runs_append [OF this Cons.IH]] False
    show ?thesis by (simp add: join_Cons)
  qed
qed simp

lemma marshal_key_valid: "json_valid (marshal_key vs)"
proof (cases "vs = []")
  case True
  have "json_valid ''[]''" by code_simp
  with True show ?thesis by (simp add: marshal_key_def)
next
  case False
  have "runs json_start ''['' (BeginValueOrEmpty, [ArrayValue])" by (rule json_runD) code_simp
  from runs_append [OF this values_run [of BeginValueOrEmpty]] False show ?thesis
    by (intro runs_valid) (simp add: marshal_key_def)
qed

definition value_obj :: "Value \<Rightarrow> json" where
  "value_obj v = JObj [(''Null'', JBool (v_Null v)),
     (''Raw'', if v_Null v then JNull else JStr (base64_encode (v_Raw v)))]"

lemma skip_ws_other: "\<not> json_space c \<Longrightarrow> skip_ws (c # r) = c # r"
  by (simp add: skip_ws_def)

lemma token_no_space [simp]:
  "\<not> json_space CHR 0x22" "\<not> json_space CHR '',''" "\<not> json_space CHR '':''" "\<not> json_space CHR ''{''"
  "\<not> json_space CHR ''[''" "\<not> json_space CHR '']''" "\<not> json_space CHR ''n''" "\<not> json_space CHR ''t''" "\<not> json_space CHR ''f''"
  by code_simp+

lemma parse_words:
  "parse_value (Suc k) (''null'' @ r) = Some (JNull, r)"
  "parse_value (Suc k) (''true'' @ r) = Some (JBool True, r)"
  "parse_value (Suc k) (''false'' @ r) = Some (JBool False, r)"
  by (simp_all add: skip_ws_other)

lemma parse_quoted:
  "list_all text_char s \<Longrightarrow> parse_value (Suc k) (CHR 0x22 # s @ CHR 0x22 # r) = Some (JStr s, r)"
  using parse_text [of s "Suc (length (s @ CHR 0x22 # r))" r] by (simp add: skip_ws_other)

lemma parse_object:
  "parse_value (Suc k) (CHR ''{'' # CHR 0x22 # s) = map_option (\<lambda>(ms, r). (JObj ms, r)) (parse_members k (CHR 0x22 # s))"
  by (simp add: skip_ws_other)

lemma parse_array:
  "parse_value (Suc k) (CHR ''['' # CHR ''{'' # t) = map_option (\<lambda>(vs, r). (JArr vs, r)) (parse_elems k (CHR ''{'' # t))"
  by (simp add: skip_ws_other)

text \<open>One member, after which a comma or the closing brace comes.\<close>

lemma parse_member:
  assumes "list_all text_char key"
  shows "parse_value k t = Some (v, CHR '','' # r) \<Longrightarrow>
      parse_members (Suc k) (CHR 0x22 # key @ CHR 0x22 # CHR '':'' # t)
        = map_option (\<lambda>(ms, r). ((key, v) # ms, r)) (parse_members k r)"
    and "parse_value k t = Some (v, CHR ''}'' # r) \<Longrightarrow>
      parse_members (Suc k) (CHR 0x22 # key @ CHR 0x22 # CHR '':'' # t) = Some ([(key, v)], r)"
  using parse_text [OF assms, of "Suc (length (key @ CHR 0x22 # CHR '':'' # t))" "CHR '':'' # t"]
  by (simp_all add: skip_ws_other)

lemma key_names: "list_all text_char ''Null''" "list_all text_char ''Raw''"
  by code_simp+

lemma parse_value_json:
  "parse_value (Suc (Suc (Suc (Suc k)))) (value_json v @ r) = Some (value_obj v, r)"
proof -
  let ?raw = "if v_Null v then ''null'' else CHR 0x22 # base64_encode (v_Raw v) @ [CHR 0x22]"
    and ?val = "if v_Null v then JNull else JStr (base64_encode (v_Raw v))"
  have raw: "parse_value (Suc k) (?raw @ CHR ''}'' # r) = Some (?val, CHR ''}'' # r)"
  proof (cases "v_Null v")
    case True
    with parse_words(1) [of k "CHR ''}'' # r"] show ?thesis by simp
  next
    case False
    with parse_quoted [OF text_base64, of k "v_Raw v" "CHR ''}'' # r"] show ?thesis by simp
  qed
  have members: "parse_members (Suc (Suc k)) (CHR 0x22 # ''Raw'' @ CHR 0x22 # CHR '':'' # ?raw @ CHR ''}'' # r)
      = Some ([(''Raw'', ?val)], r)"
    using raw by (rule parse_member(2) [OF key_names(2)])
  have bool: "parse_value (Suc (Suc k)) ((if v_Null v then ''true'' else ''false'') @ CHR '','' # s)
      = Some (JBool (v_Null v), CHR '','' # s)" for s
    using parse_words(2,3) [of "Suc k" "CHR '','' # s"] by simp
  have "value_json v @ r = CHR ''{'' # CHR 0x22 # ''Null'' @ CHR 0x22 # CHR '':'' #
      (if v_Null v then ''true'' else ''false'') @ CHR '','' # CHR 0x22 # ''Raw'' @ CHR 0x22 # CHR '':'' # ?raw @ CHR ''}'' # r"
    by (simp add: value_json_def)
  then show ?thesis
    using members parse_member(1) [OF key_names(1) bool]
    by (simp only: parse_object option.map prod.case value_obj_def)
qed

lemma parse_elem:
  assumes "parse_value k s = Some (v, r)"
  shows "r = CHR '','' # r' \<Longrightarrow> parse_elems (Suc k) s = map_option (\<lambda>(vs, r). (v # vs, r)) (parse_elems k r')"
    and "r = CHR '']'' # r' \<Longrightarrow> parse_elems (Suc k) s = Some ([v], r')"
  using assms by (simp_all add: skip_ws_other)

lemma parse_values:
  "vs \<noteq> [] \<Longrightarrow> parse_elems (length vs + 4 + k) (join (map value_json vs) '','' @ CHR '']'' # r)
     = Some (map value_obj vs, r)"
proof (induction vs)
  case (Cons v vs)
  have fuel: "length (v # vs) + 4 + k = Suc (Suc (Suc (Suc (Suc (length vs + k)))))" by simp
  note v = parse_value_json [of "length vs + k" v]
  show ?case
  proof (cases "vs = []")
    case True
    with parse_elem(2) [OF v refl] show ?thesis unfolding fuel by simp
  next
    case False
    have "length vs + 4 + k = Suc (Suc (Suc (Suc (length vs + k))))" by simp
    with Cons.IH [OF False] parse_elem(1) [OF v refl, of "join (map value_json vs) '','' @ CHR '']'' # r"] False
    show ?thesis unfolding fuel by (simp only: join_Cons list.map append_assoc append_Cons append_Nil
          option.map prod.case map_is_Nil_conv not_False_eq_True simp_thms)
  qed
qed simp

lemma length_values: "length vs \<le> length (join (map value_json vs) '','')"
proof (induction vs)
  case (Cons v vs)
  moreover have "1 \<le> length (value_json v)" by (simp add: value_json_def)
  ultimately show ?case by (cases "vs = []") (simp_all add: join_Cons)
qed simp

lemma into_value_obj: "v_Null v \<longrightarrow> v_Raw v = [] \<Longrightarrow> into_value (value_obj v) = Some v"
proof -
  have names: "equal_fold ''Null'' ''Null''" "\<not> equal_fold ''Raw'' ''Null''" "equal_fold ''Raw'' ''Raw''"
    "\<not> equal_fold ''Null'' ''Raw''" by code_simp+
  assume "v_Null v \<longrightarrow> v_Raw v = []"
  with names show ?thesis
    by (cases v) (simp add: into_value_def value_obj_def into_field_def into_bool_def into_bytes_def)
qed

lemma those_map_Some: "(\<And>x. x \<in> set xs \<Longrightarrow> f x = Some (g x)) \<Longrightarrow> those (map f xs) = Some (map g xs)"
  by (induction xs) auto

lemma marshal_key_trim: "trim_space (marshal_key vs) = marshal_key vs"
proof -
  have "dropWhile is_space (marshal_key vs) = marshal_key vs"
    by (simp add: marshal_key_def is_space_def)
  moreover have "dropWhile is_space (rev (marshal_key vs)) = rev (marshal_key vs)"
    by (simp add: marshal_key_def is_space_def)
  ultimately show ?thesis by (simp add: trim_space_def)
qed

text \<open>
  C33. A keyset bound the service or a worker has stored is read back as the same key, with any
  bytes in it and nulls kept apart from empty values.
\<close>

theorem keyset_bound_roundtrip:
  assumes "\<forall>v \<in> set vs. v_Null v \<longrightarrow> v_Raw v = []"
  shows "decodeKeysetBound (marshal_key vs) = Some vs"
proof (cases "vs = []")
  case True
  have "decodeKeysetBound ''[]'' = Some []" by code_simp
  with True show ?thesis by (simp add: marshal_key_def)
next
  case False
  let ?s = "marshal_key vs"
  have "length vs + 4 \<le> 2 * length ?s + 1"
    using length_values [of vs] False by (cases vs) (simp_all add: marshal_key_def)
  then obtain k where len: "2 * length ?s + 1 = length vs + 4 + k" by (metis le_Suc_ex)
  obtain v r where vs: "vs = v # r" using False by (cases vs) auto
  obtain t where brace: "join (map value_json vs) '','' @ '']'' = CHR ''{'' # t"
    unfolding vs by (cases r) (simp_all add: value_json_def)
  then have "parse_value (Suc (length vs + 4 + k)) ?s = Some (JArr (map value_obj vs), [])"
    using parse_values [OF False, of k "[]"] by (simp only: marshal_key_def append_Cons append_Nil parse_array option.map prod.case)
  then have "json_decode ?s = Some (JArr (map value_obj vs))"
    using len by (simp add: json_decode_def marshal_key_valid)
  moreover have "those (map into_value (map value_obj vs)) = Some vs"
    using those_map_Some [of vs "into_value \<circ> value_obj" id] assms into_value_obj by (simp add: comp_def)
  ultimately show ?thesis
    by (simp add: decodeKeysetBound_def marshal_key_trim) (simp add: marshal_key_def)
qed

theorem keyset_bound_roundtrip_witness:
  "decodeKeysetBound (marshal_key [\<lparr>v_Null = False, v_Raw = ''k''\<rparr>]) = Some [\<lparr>v_Null = False, v_Raw = ''k''\<rparr>]"
  by (rule keyset_bound_roundtrip) simp

end
