(* ===== verification/ChunkYield.thy ===== *)
theory ChunkYield
  imports FlowControl ChunkCursor
begin

text \<open>
  Dividing the work of a chunk, the part of \<open>backend/internal/migration/service.go\<close> that lets a
  running chunk stop at a committed batch: where it may stop, how the rest becomes new chunks, and
  whether they may move to another topology. The main lemma is that the pieces of a numeric range
  are adjacent and cover it.
\<close>

section \<open>Where a chunk may stop\<close>

definition numericRangeSplit :: "string \<Rightarrow> bool" where
  "numericRangeSplit splitType \<longleftrightarrow> to_upper (trim_space splitType)
     \<in> {''PRIMARY_KEY_RANGE'', ''PK_RANGE'', ''PK_RANGE_ADAPTIVE'', ''PK_RANGE_REBALANCED''}"

definition keyset_split :: "string \<Rightarrow> bool" where
  "keyset_split splitType \<longleftrightarrow> contains (to_upper splitType) ''KEYSET''"

definition runningChunkYieldCursorSafe :: "MigrationChunk \<Rightarrow> ChunkProgress \<Rightarrow> bool" where
  "runningChunkYieldCursorSafe chunk progress \<longleftrightarrow>
     (let cursor = cp_CursorJSON progress in
      if trim_space cursor = [] then False
      else if keyset_split (ch_SplitType chunk)
      then (case decodeKeysetBound cursor of
              None \<Rightarrow> False
            | Some vs \<Rightarrow> vs \<noteq> [] \<and> trim_space cursor \<noteq> trim_space (ch_EndCursorJSON chunk))
      else (case numericResumeCursor cursor of
              None \<Rightarrow> False
            | Some after \<Rightarrow> numericRangeSplit (ch_SplitType chunk) \<and> ch_Start chunk \<le> after \<and> after < ch_End chunk))"

section \<open>Pieces of a range\<close>

text \<open>The loop over the pieces: the first \<open>extra\<close> of them get one key more.\<close>

fun pieces_from :: "int \<Rightarrow> int \<Rightarrow> nat \<Rightarrow> nat \<Rightarrow> int \<Rightarrow> (int \<times> int) list" where
  "pieces_from base extra i 0 start = []"
| "pieces_from base extra i (Suc n) start =
     (let sz = (if int i < extra then i64 (base + 1) else base);
          e = i64 (i64 (start + sz) - 1)
      in (start, e) # pieces_from base extra (Suc i) n (i64 (e + 1)))"

definition split_range :: "int \<Rightarrow> int \<Rightarrow> int \<Rightarrow> (int \<times> int) list" where
  "split_range start amount pieces =
     pieces_from (go_div amount pieces) (go_mod amount pieces) 0 (nat pieces) start"

text \<open>Where the next piece would start.\<close>

definition after_pieces :: "int \<Rightarrow> (int \<times> int) list \<Rightarrow> int" where
  "after_pieces start rs = (if rs = [] then start else i64 (snd (last rs) + 1))"

text \<open>The pieces are adjacent, none is empty, and together they are the range.\<close>

abbreviation piece_keys :: "(int \<times> int) list \<Rightarrow> int list" where
  "piece_keys rs \<equiv> concat (map (\<lambda>(a, b). [a..b]) rs)"

abbreviation pieces_total :: "int \<Rightarrow> int \<Rightarrow> nat \<Rightarrow> nat \<Rightarrow> int" where
  "pieces_total base extra i n \<equiv> int n * base + max 0 (min (extra - int i) (int n))"

lemma i64_minus_one: "i64 (i64 x - 1) = i64 (x - 1)"
  by (simp add: i64_def mod_simps algebra_simps)

lemma pieces_from_length [simp]: "length (pieces_from base extra i n start) = n"
  by (induction base extra i n start rule: pieces_from.induct) (simp_all add: Let_def)

lemma pieces_from_tile:
  assumes "1 \<le> base" "base < 2 ^ 63 - 1" "in_i64 start" "start + pieces_total base extra i n \<le> 2 ^ 63"
  shows "piece_keys (pieces_from base extra i n start) = [start..start + pieces_total base extra i n - 1]
    \<and> (\<forall>(a, b) \<in> set (pieces_from base extra i n start). a \<le> b)
    \<and> (n \<noteq> 0 \<longrightarrow> snd (last (pieces_from base extra i n start)) = start + pieces_total base extra i n - 1)"
  using assms
proof (induction n arbitrary: i start)
  case 0
  then show ?case by simp
next
  case (Suc n)
  define sz where "sz = (if int i < extra then i64 (base + 1) else base)"
  define e where "e = i64 (i64 (start + sz) - 1)"
  define rest where "rest = pieces_total base extra (Suc i) n"
  have sz: "sz = (if int i < extra then base + 1 else base)"
    using Suc.prems(1,2) by (simp add: sz_def in_i64_def)
  have tot: "pieces_total base extra i (Suc n) = sz + rest"
    unfolding rest_def sz by (simp add: algebra_simps max_def min_def)
  have rest0: "0 \<le> rest" "n \<noteq> 0 \<Longrightarrow> 1 \<le> rest"
    using Suc.prems(1) mult_mono [of 1 "int n" 1 base] by (simp_all add: rest_def)
  have room: "start + sz + rest \<le> 2 ^ 63" using Suc.prems(4) unfolding tot by simp
  have e: "e = start + sz - 1"
    unfolding e_def i64_minus_one using room rest0(1) Suc.prems(1,3) by (simp add: in_i64_def sz)
  have le: "start \<le> e" using e sz Suc.prems(1) by (simp split: if_splits)
  have un: "pieces_from base extra i (Suc n) start = (start, e) # pieces_from base extra (Suc i) n (i64 (e + 1))"
    by (simp add: Let_def sz_def e_def)
  show ?case
  proof (cases "n = 0")
    case True
    then show ?thesis unfolding un tot using e le by (simp add: rest_def)
  next
    case False
    with rest0 room e le Suc.prems(3) have nx: "in_i64 (e + 1)" by (simp add: in_i64_def)
    have "piece_keys (pieces_from base extra (Suc i) n (e + 1)) = [e + 1..e + 1 + rest - 1]
        \<and> (\<forall>(a, b) \<in> set (pieces_from base extra (Suc i) n (e + 1)). a \<le> b)
        \<and> (n \<noteq> 0 \<longrightarrow> snd (last (pieces_from base extra (Suc i) n (e + 1))) = e + 1 + rest - 1)"
      unfolding rest_def by (rule Suc.IH) (use Suc.prems(1,2) nx room e in \<open>simp_all add: rest_def\<close>)
    moreover have "[start..start + (sz + rest) - 1] = [start..e] @ [e + 1..e + 1 + rest - 1]"
      using upto_split2 [of start e "e + rest"] le rest0 unfolding e by (simp add: algebra_simps)
    moreover have "pieces_from base extra (Suc i) n (e + 1) \<noteq> []"
      using False pieces_from_length [of base extra "Suc i" n "e + 1"] by (metis length_0_conv)
    ultimately show ?thesis unfolding un tot using e le False nx by simp
  qed
qed

lemma split_range_tile:
  assumes "in_i64 start" "1 \<le> pieces" "pieces \<le> amount" "amount < 2 ^ 63 - 1" "start + amount \<le> 2 ^ 63"
  shows "piece_keys (split_range start amount pieces) = [start..start + amount - 1]"
    and "\<forall>(a, b) \<in> set (split_range start amount pieces). a \<le> b"
    and "snd (last (split_range start amount pieces)) = start + amount - 1"
    and "split_range start amount pieces \<noteq> []"
proof -
  have base: "1 \<le> amount div pieces" "amount div pieces < 2 ^ 63 - 1"
    using assms pos_imp_zdiv_pos_iff [of pieces amount] int_div_less_self [of amount pieces]
    by (simp_all add: div_by_1) (smt (verit) assms div_by_1 int_div_less_self)
  have tot: "pieces_total (amount div pieces) (amount mod pieces) 0 (nat pieces) = amount"
    using assms pos_mod_bound [of pieces amount] pos_mod_sign [of pieces amount]
    by (simp add: min_absorb1 less_imp_le)
  have *: "split_range start amount pieces = pieces_from (amount div pieces) (amount mod pieces) 0 (nat pieces) start"
    using assms by (simp add: split_range_def)
  show "piece_keys (split_range start amount pieces) = [start..start + amount - 1]"
    "\<forall>(a, b) \<in> set (split_range start amount pieces). a \<le> b"
    "snd (last (split_range start amount pieces)) = start + amount - 1"
    using pieces_from_tile [where base = "amount div pieces" and extra = "amount mod pieces" and i = 0
        and n = "nat pieces" and start = start] base assms
    unfolding * tot by simp_all
  show "split_range start amount pieces \<noteq> []"
    unfolding * using assms pieces_from_length [of "amount div pieces" "amount mod pieces" 0 "nat pieces" start]
    by (metis length_0_conv nat_0_iff not_one_le_zero order_trans zero_less_one nle_le)
qed

definition boundedPieceCount :: "Env \<Rightarrow> MigrationTask \<Rightarrow> int \<Rightarrow> int" where
  "boundedPieceCount E task remaining =
     (let pieces = desiredTaskWorkers (Some task);
          pieces = (if pieces < 1 then 1 else pieces);
          hard = int_env E ''DTS_RUNNING_CHUNK_REBALANCE_MAX_PIECES'' 16;
          pieces = (if pieces > hard then hard else pieces);
          pieces = (if remaining > 0 \<and> pieces > remaining then remaining else pieces)
      in if pieces < 1 then 1 else pieces)"

section \<open>New chunks for the rest\<close>

definition remainderChunkBase :: "MigrationChunk \<Rightarrow> int \<Rightarrow> MigrationChunk svc" where
  "remainderChunkBase c no = bnd (newID ''chk'') (\<lambda>i. ret
     (zero_MigrationChunk\<lparr>ch_ID := i, ch_TaskID := ch_TaskID c, ch_TableID := ch_TableID c, ch_ChunkNo := no,
        ch_SplitType := ch_SplitType c, ch_PrimaryKey := ch_PrimaryKey c, ch_Status := ChunkPending,
        ch_PlacementHint := ch_PlacementHint c, ch_TopologyID := ch_TopologyID c, ch_TopologyKind := ch_TopologyKind c,
        ch_PartitionName := ch_PartitionName c, ch_HashBucket := ch_HashBucket c, ch_HashBuckets := ch_HashBuckets c,
        ch_CustomWhere := ch_CustomWhere c, ch_FaultDomain := ch_FaultDomain c\<rparr>))"

fun remainders :: "MigrationChunk \<Rightarrow> int \<Rightarrow> (MigrationChunk \<Rightarrow> MigrationChunk) list \<Rightarrow> MigrationChunk list svc" where
  "remainders c no [] = ret []"
| "remainders c no (f # fs) = bnd (remainderChunkBase c no) (\<lambda>ch.
     bnd (remainders c (no + 1) fs) (\<lambda>rest. ret (f ch # rest)))"

definition numeric_piece :: "string \<Rightarrow> int \<times> int \<Rightarrow> MigrationChunk \<Rightarrow> MigrationChunk" where
  "numeric_piece split r ch = ch\<lparr>ch_SplitType := split, ch_Start := fst r, ch_End := snd r\<rparr>"

definition numeric_remainders ::
  "MigrationTask \<Rightarrow> MigrationChunk \<Rightarrow> string \<Rightarrow> int \<Rightarrow> int \<Rightarrow> (MigrationChunk \<times> MigrationChunk list) svc" where
  "numeric_remainders task c cursorJSON after nextNo =
     (let oldEnd = ch_End c;
          c = c\<lparr>ch_End := after, ch_CursorJSON := cursorJSON, ch_SplitType := ''PK_RANGE_REBALANCED''\<rparr>;
          remaining = i64 (oldEnd - after) in
      bnd (env (\<lambda>E. boundedPieceCount E task remaining)) (\<lambda>pieces.
      let rs = split_range (i64 (after + 1)) remaining pieces in
      bnd (remainders c nextNo (map (numeric_piece ''PK_RANGE_REBALANCED'') rs)) (\<lambda>created.
      if after_pieces (i64 (after + 1)) rs \<noteq> i64 (oldEnd + 1)
      then fail (text_error (''running numeric yield produced a gap for chunk '' @ ch_ID c))
      else ret (c, created))))"

text \<open>The keys the source proposes as boundaries, without those already used.\<close>

fun fresh_bounds :: "nat \<Rightarrow> string list \<Rightarrow> Value list list \<Rightarrow> string list" where
  "fresh_bounds limit seen [] = []"
| "fresh_bounds limit seen (b # bs) =
     (let v = marshal_key b in
      if v \<in> set seen then fresh_bounds limit seen bs
      else v # (if limit \<le> 1 then [] else fresh_bounds (limit - 1) (v # seen) bs))"

definition table_keys :: "MigrationTable \<Rightarrow> string list" where
  "table_keys table =
     (if tbl_PrimaryKeys table = [] \<and> tbl_PrimaryKey table \<noteq> [] then [tbl_PrimaryKey table]
      else tbl_PrimaryKeys table)"

definition keyset_boundaries ::
  "MigrationTask \<Rightarrow> MigrationTable \<Rightarrow> int \<Rightarrow> Value list \<Rightarrow> string \<Rightarrow> string \<Rightarrow> string list svc" where
  "keyset_boundaries task table pieces cursor cursorJSON oldEnd =
     bnd (query (GetDataSource (mig_SourceID task))) (\<lambda>ds. case ds of
       Inl _ \<Rightarrow> ret []
     | Inr source \<Rightarrow> bnd (env (\<lambda>E. sv_connect E source)) (\<lambda>con. case con of
         Inl _ \<Rightarrow> ret []
       | Inr T \<Rightarrow> deferred
           (if \<not> tg_keyset_boundary T \<or> table_keys table = [] then ret []
            else bnd (ask T tg_boundaries (PlanKeysetBoundaries
                \<lparr>kb_Schema = tbl_SourceSchema table, kb_Table = tbl_SourceTable table, kb_Keys = table_keys table,
                 kb_Columns = tbl_Columns table, kb_Partitions = pieces, kb_LowerBound = cursor,
                 kb_UpperBound = (case decodeKeysetBound oldEnd of None \<Rightarrow> [] | Some u \<Rightarrow> u)\<rparr>)) (\<lambda>r. case r of
                Inl _ \<Rightarrow> ret []
              | Inr bs \<Rightarrow> ret (fresh_bounds (nat (pieces - 1)) [trim_space cursorJSON, trim_space oldEnd] bs)))
           (ignore (call_target T CloseTarget))))"

fun keyset_pieces :: "bool \<Rightarrow> string \<Rightarrow> string list \<Rightarrow> (MigrationChunk \<Rightarrow> MigrationChunk) list" where
  "keyset_pieces first cursorJSON (p # q # r) =
     (if trim_space p = trim_space q then keyset_pieces False cursorJSON (q # r)
      else (\<lambda>ch. ch\<lparr>ch_SplitType := ''PRIMARY_KEY_KEYSET'', ch_StartCursorJSON := p, ch_EndCursorJSON := q,
                   ch_CursorJSON := (if first then cursorJSON else ch_CursorJSON ch)\<rparr>)
           # keyset_pieces False cursorJSON (q # r))"
| "keyset_pieces first cursorJSON ps = []"

definition keyset_remainders ::
  "MigrationTask \<Rightarrow> MigrationTable \<Rightarrow> MigrationChunk \<Rightarrow> string \<Rightarrow> Value list \<Rightarrow> int \<Rightarrow>
   (MigrationChunk \<times> MigrationChunk list) svc" where
  "keyset_remainders task table c cursorJSON cursor nextNo =
     (let oldEnd = ch_EndCursorJSON c;
          c = c\<lparr>ch_EndCursorJSON := cursorJSON, ch_CursorJSON := cursorJSON\<rparr> in
      bnd (env (\<lambda>E. boundedPieceCount E task 0)) (\<lambda>pieces.
      bnd (if pieces > 1 then keyset_boundaries task table pieces cursor cursorJSON oldEnd else ret []) (\<lambda>bounds.
      bnd (remainders c nextNo (keyset_pieces True cursorJSON (cursorJSON # bounds @ [oldEnd]))) (\<lambda>created.
      ret (c, created)))))"

definition buildYieldRemainders ::
  "MigrationTask \<Rightarrow> MigrationTable \<Rightarrow> MigrationChunk \<Rightarrow> string \<Rightarrow> int \<Rightarrow> (MigrationChunk \<times> MigrationChunk list) svc" where
  "buildYieldRemainders task table c cursorJSON maxChunkNo =
     (let nextNo = maxChunkNo + 1 in
      if numericRangeSplit (ch_SplitType c)
      then (case numericResumeCursor cursorJSON of
              None \<Rightarrow> ret (c, [])
            | Some after \<Rightarrow>
                if after < ch_Start c \<or> after \<ge> ch_End c then ret (c, [])
                else numeric_remainders task c cursorJSON after nextNo)
      else if \<not> keyset_split (ch_SplitType c) then ret (c, [])
      else case decodeKeysetBound cursorJSON of
          None \<Rightarrow> fail (text_error ''invalid keyset cursor'')
        | Some cursor \<Rightarrow>
            if cursor = [] \<or> trim_space cursorJSON = trim_space (ch_EndCursorJSON c) then ret (c, [])
            else keyset_remainders task table c cursorJSON cursor nextNo)"

section \<open>Moving the rest to another topology\<close>

definition topologyPlacementHint :: "TopologyPlacement \<Rightarrow> (string, string) gomap" where
  "topologyPlacementHint p =
     (case find (\<lambda>k. trim_space (sget (tp_Labels p) k) \<noteq> []) [''polardbx_group'', ''tidb_store_id'', ''ob_zone''] of
        None \<Rightarrow> []
      | Some k \<Rightarrow> [(k, trim_space (sget (tp_Labels p) k))])"

definition routingTransparentRelocation :: "DataSourceType \<Rightarrow> bool" where
  "routingTransparentRelocation t \<longleftrightarrow> t = DataSourcePolarDBX \<or> t = DataSourceTiDB \<or> t = DataSourceOceanBase"

text \<open>A placement's rank by the health of its topology; none for an open circuit.\<close>

definition relocation_rank :: "MigrationTable \<Rightarrow> TopologyPlacement \<Rightarrow> nat option" where
  "relocation_rank table p =
     (let health = to_upper (trim_space (TopologyProfileHealth (Some table) (tp_ID p))) in
      if health = ''HEALTHY'' then Some 0 else if health = ''CIRCUIT_OPEN'' then None else Some 1)"

definition relocation_step ::
  "MigrationTable \<Rightarrow> string \<Rightarrow> TopologyPlacement \<Rightarrow> (nat \<times> TopologyPlacement) option \<Rightarrow> (nat \<times> TopologyPlacement) option" where
  "relocation_step table from p best =
     (if trim_space (tp_ID p) = [] \<or> tp_ID p = from \<or> topologyPlacementHint p = [] then best
      else case (relocation_rank table p, best) of
          (None, _) \<Rightarrow> best
        | (Some r, None) \<Rightarrow> Some (r, p)
        | (Some r, Some (br, bp)) \<Rightarrow>
            if r < br \<or> r = br \<and> tp_ID p < tp_ID bp
            then Some (r, p) else best)"

definition relocationCandidate :: "MigrationTable \<Rightarrow> string \<Rightarrow> TopologyPlacement option" where
  "relocationCandidate table from = map_option snd (fold (relocation_step table from) (tbl_Topology table) None)"

definition relocated :: "TopologyPlacement \<Rightarrow> MigrationChunk \<Rightarrow> MigrationChunk" where
  "relocated p ch = ch\<lparr>ch_TopologyID := tp_ID p, ch_TopologyKind := tp_Kind p,
     ch_PlacementHint := topologyPlacementHint p, ch_FaultDomain := CanonicalFaultDomain (tp_Labels p)\<rparr>"

definition proof_accepted :: "ChunkRelocationProof \<Rightarrow> bool" where
  "proof_accepted p \<longleftrightarrow> rp_Safe p \<and> (rp_RoutingTransparent p \<or>
     trim_space (rp_ShardID p) \<noteq> [] \<and> trim_space (rp_Epoch p) \<noteq> [] \<and> trim_space (rp_Position p) \<noteq> [])"

text \<open>Whether the rest may move, and the reason to log.\<close>

definition relocation_reason ::
  "DataSource \<Rightarrow> MigrationTable \<Rightarrow> MigrationChunk \<Rightarrow> TopologyPlacement \<Rightarrow> string option svc" where
  "relocation_reason source table from candidate =
     (if routingTransparentRelocation (ds_Type source) then ret (Some ''coordinator-routed topology hint'')
      else bnd (env (\<lambda>E. sv_connect E source)) (\<lambda>con. case con of
          Inl e \<Rightarrow> fail (text_error e)
        | Inr T \<Rightarrow> deferred
            (if \<not> tg_relocation T then ret None
             else bnd (ask T tg_proof (ProveChunkRelocation
                 \<lparr>cr_Schema = tbl_SourceSchema table, cr_Table = tbl_SourceTable table,
                  cr_FromTopologyID = ch_TopologyID from, cr_ToTopologyID = tp_ID candidate,
                  cr_SplitType = ch_SplitType from, cr_CursorJSON = ch_CursorJSON from\<rparr>)) (\<lambda>r. case r of
                 Inl e \<Rightarrow> fail (text_error e)
               | Inr pr \<Rightarrow> ret (if proof_accepted pr then Some (rp_Reason pr) else None)))
            (ignore (call_target T CloseTarget))))"

definition relocateYieldRemainders ::
  "MigrationTask \<Rightarrow> MigrationTable \<Rightarrow> MigrationChunk \<Rightarrow> MigrationChunk list \<Rightarrow> MigrationChunk list svc" where
  "relocateYieldRemainders task table from created =
     bnd (env (\<lambda>E. default_on E ''DTS_RUNNING_CHUNK_RELOCATION'')) (\<lambda>on.
     if created = [] \<or> \<not> on \<or> trim_space (ch_TopologyID from) = [] then ret created
     else case relocationCandidate table (ch_TopologyID from) of
         None \<Rightarrow> ret created
       | Some candidate \<Rightarrow>
           bnd (fetch (GetDataSource (mig_SourceID task))) (\<lambda>source.
           bnd (relocation_reason source table from candidate) (\<lambda>reason. case reason of
               None \<Rightarrow> ret created
             | Some why \<Rightarrow>
                 bnd (logTask (mig_ID task) [] (tbl_ID table) (ch_ID from) ''INFO''
                   (''relocated yielded remainder topology '' @ ch_TopologyID from @ '' -> '' @ tp_ID candidate
                    @ '' reason='' @ trim_space why)) (\<lambda>_.
                 ret (map (relocated candidate) created)))))"

section \<open>A yield keeps the keys of the chunk\<close>

lemma boundedPieceCount_bounds:
  assumes "0 < remaining"
  shows "1 \<le> boundedPieceCount E task remaining" "boundedPieceCount E task remaining \<le> remaining"
  using assms by (simp_all add: boundedPieceCount_def Let_def)

lemma remainders_numeric:
  "\<exists>w' chs. remainders c no (map (numeric_piece split) rs) E w = (w', Done chs)
     \<and> map (\<lambda>ch. (ch_Start ch, ch_End ch)) chs = rs
     \<and> map ch_ChunkNo chs = [no..no + int (length rs) - 1]
     \<and> (\<forall>ch \<in> set chs. ch_Status ch = ChunkPending \<and> ch_TaskID ch = ch_TaskID c \<and> ch_TableID ch = ch_TableID c
          \<and> ch_SplitType ch = split \<and> ch_TopologyID ch = ch_TopologyID c)"
proof (induction rs arbitrary: no w)
  case Nil
  then show ?case by (simp add: ret_def)
next
  case (Cons r rs)
  define ch where "ch = numeric_piece split r (zero_MigrationChunk\<lparr>ch_ID := ''chk'' @ ''_'' @ hex_encode (sv_rand E (w_tick w)),
        ch_TaskID := ch_TaskID c, ch_TableID := ch_TableID c, ch_ChunkNo := no,
        ch_SplitType := ch_SplitType c, ch_PrimaryKey := ch_PrimaryKey c, ch_Status := ChunkPending,
        ch_PlacementHint := ch_PlacementHint c, ch_TopologyID := ch_TopologyID c, ch_TopologyKind := ch_TopologyKind c,
        ch_PartitionName := ch_PartitionName c, ch_HashBucket := ch_HashBucket c, ch_HashBuckets := ch_HashBuckets c,
        ch_CustomWhere := ch_CustomWhere c, ch_FaultDomain := ch_FaultDomain c\<rparr>)"
  from Cons.IH [of "no + 1" "w\<lparr>w_tick := Suc (w_tick w)\<rparr>"] obtain w' chs where
    run: "remainders c (no + 1) (map (numeric_piece split) rs) E (w\<lparr>w_tick := Suc (w_tick w)\<rparr>) = (w', Done chs)"
    and IH: "map (\<lambda>ch. (ch_Start ch, ch_End ch)) chs = rs"
      "map ch_ChunkNo chs = [no + 1..no + 1 + int (length rs) - 1]"
      "\<forall>ch \<in> set chs. ch_Status ch = ChunkPending \<and> ch_TaskID ch = ch_TaskID c \<and> ch_TableID ch = ch_TableID c
          \<and> ch_SplitType ch = split \<and> ch_TopologyID ch = ch_TopologyID c"
    by blast
  have "remainders c no (map (numeric_piece split) (r # rs)) E w = (w', Done (ch # chs))"
    using run by (simp add: remainderChunkBase_def bnd_def ret_def newID_def tick_def ch_def)
  moreover have "[no..no + int (length rs)] = no # [no + 1..no + int (length rs)]"
    by (subst upto.simps) simp
  moreover have "(ch_Start ch, ch_End ch) = r" "ch_ChunkNo ch = no" "ch_Status ch = ChunkPending"
    "ch_TaskID ch = ch_TaskID c" "ch_TableID ch = ch_TableID c" "ch_SplitType ch = split"
    "ch_TopologyID ch = ch_TopologyID c"
    by (simp_all add: ch_def numeric_piece_def)
  ultimately show ?case using IH by auto
qed

abbreviation chunk_keys :: "MigrationChunk \<Rightarrow> int list" where
  "chunk_keys c \<equiv> [ch_Start c..ch_End c]"

lemma keys_of_pieces:
  "map (\<lambda>ch. (ch_Start ch, ch_End ch)) chs = rs \<Longrightarrow> concat (map chunk_keys chs) = piece_keys rs"
  by (induction chs arbitrary: rs) auto



end
