(* ===== verification/ChunkPressure.thy ===== *)
theory ChunkPressure
  imports TopologyRecovery ChunkYield CdcDelivery
begin

text \<open>
  Handing chunks to workers and holding running work back, the part of
  \<open>backend/internal/migration/service.go\<close> behind a worker's claim and its heartbeat: sampling the load of
  both databases and of the change spool, the feedback on the task's parallelism, throttling and
  draining of unhealthy topologies, and the decision to let a running chunk stop.
\<close>

section \<open>Sampling\<close>

definition sample_side :: "string \<Rightarrow> string \<Rightarrow> string \<times> string \<Rightarrow> (string \<times> string) svc" where
  "sample_side name i acc =
     bnd (query (GetDataSource i)) (\<lambda>ds. case ds of
       Inl _ \<Rightarrow> ret acc
     | Inr d \<Rightarrow> bnd (env (\<lambda>E. sv_connect E d)) (\<lambda>con. case con of
         Inl _ \<Rightarrow> ret acc
       | Inr T \<Rightarrow>
           if \<not> tg_runtime_load T then bnd (ignore (call_target T CloseTarget)) (\<lambda>_. ret acc)
           else bnd (ask T tg_load SampleRuntimeLoad) (\<lambda>r.
             bnd (ignore (call_target T CloseTarget)) (\<lambda>_. case r of
               Inl _ \<Rightarrow> ret acc
             | Inr ld \<Rightarrow> bnd (env (\<lambda>E. loadPressureLevel E name ld)) (\<lambda>cand.
                 ret (if pressureRank (fst cand) > pressureRank (fst acc) then cand else acc))))))"

definition sampleTaskDatabasePressure :: "MigrationTask \<Rightarrow> (string \<times> string) svc" where
  "sampleTaskDatabasePressure task =
     bnd (sample_side ''source'' (mig_SourceID task) (''NORMAL'', [])) (sample_side ''target'' (mig_TargetID task))"

record spool_sample =
  sm_level :: string
  sm_reason :: string
  sm_bytes :: int
  sm_growth :: int
  sm_eta :: int

definition calm_spool :: spool_sample where
  "calm_spool = \<lparr>sm_level = ''NORMAL'', sm_reason = [], sm_bytes = 0, sm_growth = 0, sm_eta = 0\<rparr>"

text \<open>The backlog at which pressure is critical, and the one at which it is a warning.\<close>

definition spool_critical :: "Env \<Rightarrow> int" where
  "spool_critical E = (let m = positiveInt64Env E ''DTS_CDC_SPOOL_MAX_PENDING_BYTES'' (2 ^ 36) in
     positiveInt64Env E ''DTS_CDC_SPOOL_BACKLOG_CRITICAL_BYTES'' (go_div (i64 (m * 4)) 5))"

definition spool_warn :: "Env \<Rightarrow> int" where
  "spool_warn E = (let m = positiveInt64Env E ''DTS_CDC_SPOOL_MAX_PENDING_BYTES'' (2 ^ 36);
       w = positiveInt64Env E ''DTS_CDC_SPOOL_BACKLOG_WARN_BYTES'' (go_div m 2)
     in if w \<ge> spool_critical E then go_div (spool_critical E) 2 else w)"

definition spool_level :: "Env \<Rightarrow> CDCSpoolStats \<Rightarrow> string \<times> string" where
  "spool_level E st =
     (let pending = ss_PendingBytes st in
      if equal_fold (ss_StorageLevel st) ''CRITICAL'' \<or> pending \<ge> spool_critical E
      then (''CRITICAL'', ''CDC spool backlog critical pending='' @ int_str pending @ ''B critical=''
              @ int_str (spool_critical E) @ ''B storage='' @ ss_StorageLevel st)
      else if equal_fold (ss_StorageLevel st) ''WARN'' \<or> pending \<ge> spool_warn E
      then (''WARN'', ''CDC spool backlog warning pending='' @ int_str pending @ ''B warn=''
              @ int_str (spool_warn E) @ ''B storage='' @ ss_StorageLevel st)
      else (''NORMAL'', []))"

definition forecast_level :: "Env \<Rightarrow> int \<Rightarrow> string" where
  "forecast_level E headroom =
     (if headroom \<le> int_env E ''DTS_CDC_SPOOL_PREDICT_CRITICAL_SECONDS'' 300 then ''CRITICAL''
      else if headroom \<le> int_env E ''DTS_CDC_SPOOL_PREDICT_WARN_SECONDS'' 900 then ''WARN'' else ''NORMAL'')"

definition spool_forecast :: "Env \<Rightarrow> int \<Rightarrow> int \<Rightarrow> string \<times> string \<Rightarrow> spool_sample" where
  "spool_forecast E pending growth now_level =
     (let critical = spool_critical E;
          s = \<lparr>sm_level = fst now_level, sm_reason = snd now_level, sm_bytes = pending, sm_growth = growth, sm_eta = 0\<rparr>
      in if growth > 0 \<and> pending < critical
         then let headroom = go_div (i64 (critical - pending)) growth; l = forecast_level E headroom in
           (if pressureRank l > pressureRank (sm_level s)
            then s\<lparr>sm_level := l, sm_reason := ''CDC spool backlog growing '' @ int_str growth
                     @ ''B/s; projected critical headroom='' @ int_str headroom @ ''s pending='' @ int_str pending
                     @ ''B critical='' @ int_str critical @ ''B''\<rparr>
            else s)\<lparr>sm_eta := headroom\<rparr>
         else s)"

definition spool_growth :: "time \<Rightarrow> taskPressureSample \<Rightarrow> int \<Rightarrow> int" where
  "spool_growth now previous pending =
     (let dt = seconds_f64 (time_sub now (ps_At previous)) in
      if dt \<ge> 1 / 2
      then f64_to_i64 (f64 (f64 (of_int (i64 (pending - ps_SpoolPendingBytes previous))) / dt)) else 0)"

definition sampleCDCSpoolPressure :: "MigrationTask \<Rightarrow> taskPressureSample \<Rightarrow> spool_sample svc" where
  "sampleCDCSpoolPressure task previous =
     (if mig_Status task \<noteq> StatusFullMigrating \<or> mig_Mode task \<noteq> ModeFullAndIncremental then ret calm_spool
      else bnd (query (CDCSpoolStats_of (mig_ID task) ''forward'')) (\<lambda>st.
        let pending = ss_PendingBytes st in
        bnd (if ps_At previous \<noteq> 0 \<and> pending > ps_SpoolPendingBytes previous
             then bnd clock (\<lambda>now. ret (spool_growth now previous pending)) else ret 0) (\<lambda>growth.
        env (\<lambda>E. spool_forecast E pending growth (spool_level E st)))))"

section \<open>Feedback on the parallelism of the task\<close>

definition needs_more :: "MigrationTask \<Rightarrow> bool" where
  "needs_more task \<longleftrightarrow> mig_ControllerTargetBytesSec task \<le> 0 \<or> mig_SpeedBytesSec task \<le> 0
     \<or> i64 (mig_SpeedBytesSec task * 100) < i64 (mig_ControllerTargetBytesSec task * 95)"

definition grow_step :: "MigrationTask \<Rightarrow> int" where
  "grow_step task = (if mig_ControllerTargetBytesSec task > 0 \<and> mig_SpeedBytesSec task > 0
     \<and> i64 (mig_SpeedBytesSec task * 100) < i64 (mig_ControllerTargetBytesSec task * 80) then 2 else 1)"

definition current_parallelism :: "MigrationTask \<Rightarrow> int \<Rightarrow> int" where
  "current_parallelism task parallelismCap =
     (let c = (if mig_EffectiveParallelism task \<le> 0 \<or> mig_EffectiveParallelism task > parallelismCap
               then parallelismCap else mig_EffectiveParallelism task)
      in if c \<le> 0 then 1 else c)"

definition desired_parallelism :: "string \<Rightarrow> MigrationTask \<Rightarrow> int \<Rightarrow> int" where
  "desired_parallelism level task parallelismCap =
     (let current = current_parallelism task parallelismCap in
      if level = ''CRITICAL'' then (if go_div current 2 < 1 then 1 else go_div current 2)
      else if level = ''WARN'' then (if current - 1 < 1 then 1 else current - 1)
      else if needs_more task \<and> current < parallelismCap
      then (if current + grow_step task > parallelismCap then parallelismCap else current + grow_step task)
      else current)"

definition auto_target :: "Env \<Rightarrow> string \<Rightarrow> time \<Rightarrow> MigrationTask \<Rightarrow> MigrationTask" where
  "auto_target E level now task =
     (if mig_AutoThroughputEnabled task \<and> mig_SpeedBytesSec task > 0
      then let target = capControllerTarget E task
                 (go_div (i64 (mig_SpeedBytesSec task * pressured_pct level (autoProbePct task))) 100) now
           in task\<lparr>mig_ControllerTargetBytesSec := target,
                   mig_ThroughputControllerReason := auto_reason task level target\<rparr>
      else task)"

definition worst :: "string \<times> string \<Rightarrow> string \<times> string \<Rightarrow> string \<times> string" where
  "worst a b = (if pressureRank (fst b) > pressureRank (fst a) then b else a)"

definition level_changed :: "MigrationTask \<Rightarrow> int \<Rightarrow> string \<times> string \<Rightarrow> spool_sample \<Rightarrow> bool" where
  "level_changed task desired lr sm \<longleftrightarrow> mig_EffectiveParallelism task \<noteq> desired \<or> mig_FlowControlLevel task \<noteq> fst lr
     \<or> mig_FlowControlReason task \<noteq> snd lr \<or> mig_CDCSpoolGrowthBytesSec task \<noteq> sm_growth sm
     \<or> mig_CDCSpoolCriticalETASeconds task \<noteq> sm_eta sm"

definition announce_level :: "MigrationTask \<Rightarrow> string \<Rightarrow> int \<Rightarrow> string \<times> string \<Rightarrow> unit svc" where
  "announce_level task previousLevel desired lr =
     (let tid = mig_ID task; par = ''effective_parallelism='' @ int_str desired in
      if fst lr = ''CRITICAL'' \<and> previousLevel \<noteq> ''CRITICAL''
      then bnd clock (\<lambda>now. bnd (alert ''critical'' ''Migration pressure critical'' (snd lr) tid now) (\<lambda>_.
        logTask tid [] [] [] ''WARN'' (''flow control CRITICAL; '' @ par @ '' reason='' @ snd lr)))
      else if fst lr = ''WARN'' \<and> previousLevel = ''NORMAL''
      then logTask tid [] [] [] ''WARN'' (''flow control WARN; '' @ par @ '' reason='' @ snd lr)
      else if fst lr = ''NORMAL'' \<and> previousLevel \<noteq> [] \<and> previousLevel \<noteq> ''NORMAL''
      then logTask tid [] [] [] ''INFO'' (''flow control recovered; '' @ par)
      else ret ())"

definition store_level ::
  "MigrationTask \<Rightarrow> int \<Rightarrow> string \<times> string \<Rightarrow> spool_sample \<Rightarrow> MigrationTask svc" where
  "store_level task desired lr sm =
     (if \<not> level_changed task desired lr sm then ret task
      else bnd clock (\<lambda>now.
        let task' = task\<lparr>mig_EffectiveParallelism := desired, mig_FlowControlLevel := fst lr,
              mig_FlowControlReason := snd lr, mig_CDCSpoolGrowthBytesSec := sm_growth sm,
              mig_CDCSpoolCriticalETASeconds := sm_eta sm, mig_UpdatedAt := now\<rparr> in
        bnd (ignore (write_repo (\<lambda>io. UpdateMigration io task'))) (\<lambda>_.
        bnd (announce_level task' (to_upper (trim_space (mig_FlowControlLevel task))) desired lr) (\<lambda>_.
        ret task'))))"

definition keep_sample :: "string \<Rightarrow> taskPressureSample \<Rightarrow> unit svc" where
  "keep_sample i p E w = (w\<lparr>w_pressure := AList.update i p (w_pressure w)\<rparr>, Done ())"

definition last_sample :: "string \<Rightarrow> taskPressureSample svc" where
  "last_sample i E w = (w, Done (case map_of (w_pressure w) i of
       None \<Rightarrow> \<lparr>ps_At = 0, ps_Level = [], ps_Reason = [], ps_SpoolPendingBytes = 0, ps_SpoolGrowthBPS = 0\<rparr>
     | Some p \<Rightarrow> p))"

text \<open>A sample that is fresh enough is used again, unless the worker saw something worse.\<close>

definition sample_fresh :: "string \<Rightarrow> taskPressureSample \<Rightarrow> bool svc" where
  "sample_fresh observed previous =
     (if ps_At previous = 0 then ret False
      else bnd clock (\<lambda>now. env (\<lambda>E.
        time_sub now (ps_At previous) < seconds (int_env E ''DTS_DB_PRESSURE_SAMPLE_SECONDS'' 5)
        \<and> pressureRank observed \<le> pressureRank (ps_Level previous))))"

definition resample ::
  "MigrationTask \<Rightarrow> string \<times> string \<Rightarrow> taskPressureSample \<Rightarrow> (MigrationTask \<times> string \<times> string) svc" where
  "resample task observed previous =
     bnd (sampleTaskDatabasePressure task) (\<lambda>db.
     bnd (sampleCDCSpoolPressure task previous) (\<lambda>sm.
     let lr = worst (worst db (sm_level sm, sm_reason sm)) observed in
     bnd clock (\<lambda>now. bnd (env (\<lambda>E. auto_target E (fst lr) now task)) (\<lambda>task.
     bnd clock (\<lambda>now. bnd (env (\<lambda>E. desired_parallelism (fst lr) task (resolveTaskParallelismCap E (Some task) now)))
       (\<lambda>desired.
     bnd (store_level task desired lr sm) (\<lambda>task.
     bnd clock (\<lambda>now.
     bnd (keep_sample (mig_ID task) \<lparr>ps_At = now, ps_Level = fst lr, ps_Reason = snd lr,
            ps_SpoolPendingBytes = sm_bytes sm, ps_SpoolGrowthBPS = sm_growth sm\<rparr>) (\<lambda>_.
     ret (task, fst lr, snd lr))))))))))"

definition reconcileTaskFlowControl ::
  "MigrationTask \<Rightarrow> string \<Rightarrow> string \<Rightarrow> (MigrationTask \<times> string \<times> string) svc" where
  "reconcileTaskFlowControl task observedLevel observedReason =
     bnd (last_sample (mig_ID task)) (\<lambda>previous.
     bnd (sample_fresh observedLevel previous) (\<lambda>fresh.
     if fresh then ret (task, ps_Level previous, ps_Reason previous)
     else resample task (observedLevel, observedReason) previous))"

section \<open>Throttling an unhealthy topology\<close>

definition appendControlReason :: "string \<Rightarrow> string \<Rightarrow> string" where
  "appendControlReason base0 extra0 =
     (let base = trim_space base0; extra = trim_space extra0 in
      if base = [] then extra else if extra = [] then base else base @ ''; '' @ extra)"

text \<open>How strong a brake is: a percentage of the batch and the budgets, and a pause.\<close>

record brake =
  bk_pct :: int
  bk_pause :: int
  bk_reasons :: "string list"

definition harder :: "int \<Rightarrow> int \<Rightarrow> string \<Rightarrow> brake \<Rightarrow> brake" where
  "harder pct pause reason b =
     \<lparr>bk_pct = (if pct < bk_pct b then pct else bk_pct b), bk_pause = (if pause > bk_pause b then pause else bk_pause b),
      bk_reasons = bk_reasons b @ [reason]\<rparr>"

definition degraded_brake :: "Env \<Rightarrow> MigrationTable \<Rightarrow> string \<Rightarrow> brake \<Rightarrow> brake" where
  "degraded_brake E table i b =
     (if default_on E ''DTS_TOPOLOGY_DEGRADED_THROTTLE'' \<and> TopologyProfileHealth (Some table) i = ''DEGRADED''
      then let e = sv_env E; pct = clampInt (int_env E ''DTS_TOPOLOGY_DEGRADED_BATCH_PCT'' 50) 10 100;
               base = TopologyDegradedMaxConcurrency e; eff = TopologyEffectiveConcurrencyCap e (Some table) i;
               top = TopologyRecoveryMaxConcurrency e; recovering = (eff > base \<and> top > base);
               pct = (if recovering
                      then let p = i64 (pct + go_div (i64 ((100 - pct) * (eff - base))) (top - base))
                           in if p > 100 then 100 else p
                      else pct);
               pause = int_env E ''DTS_TOPOLOGY_DEGRADED_PAUSE_MS'' 250;
               pause = (if recovering then go_div (i64 (pause * (top - eff))) (top - base) else pause)
           in harder pct pause (''topology '' @ i @ '' DEGRADED throttle batch='' @ int_str pct
                @ ''% recovery_cap='' @ int_str eff) b
      else b)"

definition domain_brake :: "Env \<Rightarrow> MigrationTable \<Rightarrow> string \<Rightarrow> brake \<Rightarrow> brake" where
  "domain_brake E table i b =
     (let risk = TopologyFaultDomainPeerRisk (sv_env E) (Some table) i;
          critical = (risk \<ge> TopologyHealthRank ''HALF_OPEN'') in
      if FaultDomainProtectionEnabled (sv_env E) \<and> risk > 0
      then let pct = (if critical then int_env E ''DTS_TOPOLOGY_FAULT_DOMAIN_CRITICAL_BATCH_PCT'' 50
                      else int_env E ''DTS_TOPOLOGY_FAULT_DOMAIN_DEGRADED_BATCH_PCT'' 75);
               pause = (if critical then int_env E ''DTS_TOPOLOGY_FAULT_DOMAIN_CRITICAL_PAUSE_MS'' 250
                        else int_env E ''DTS_TOPOLOGY_FAULT_DOMAIN_DEGRADED_PAUSE_MS'' 100);
               pct = clampInt pct 10 100
           in harder pct pause (''fault-domain peer risk='' @ int_str risk @ '' throttle batch='' @ int_str pct @ ''%'') b
      else b)"

definition scaleBudget :: "int \<Rightarrow> int \<Rightarrow> int" where
  "scaleBudget pct v = (if v \<le> 0 then 0 else let n = go_div (i64 (v * pct)) 100 in if n < 1 then 1 else n)"

definition braked_max :: "MigrationTask \<Rightarrow> brake \<Rightarrow> ChunkControl \<Rightarrow> int" where
  "braked_max task b control =
     (let base = (if mig_BatchRows task \<le> 0 then 500 else mig_BatchRows task);
          mx = max 50 (go_div (i64 (base * bk_pct b)) 100)
      in if cc_MaxBatchRows control \<le> 0 \<or> mx < cc_MaxBatchRows control then mx else cc_MaxBatchRows control)"

definition apply_brake :: "MigrationTask \<Rightarrow> brake \<Rightarrow> ChunkControl \<Rightarrow> ChunkControl" where
  "apply_brake task b control =
     control\<lparr>cc_MaxBatchRows := braked_max task b control,
       cc_TargetBatchRows := (if cc_TargetBatchRows control \<le> 0
           \<or> cc_TargetBatchRows control > braked_max task b control
         then braked_max task b control else cc_TargetBatchRows control),
       cc_PauseMS := (if bk_pause b > cc_PauseMS control then bk_pause b else cc_PauseMS control),
       cc_Level := (if cc_Level control = [] \<or> cc_Level control = ''NORMAL'' then ''WARN'' else cc_Level control),
       cc_Reason := fold (\<lambda>r acc. appendControlReason acc r) (bk_reasons b) (cc_Reason control),
       cc_ReadBytesPerSec := scaleBudget (bk_pct b) (cc_ReadBytesPerSec control),
       cc_WriteBytesPerSec := scaleBudget (bk_pct b) (cc_WriteBytesPerSec control),
       cc_TargetBytesPerSec := scaleBudget (bk_pct b) (cc_TargetBytesPerSec control)\<rparr>"

definition applyTopologyRunningPressure ::
  "Env \<Rightarrow> MigrationTask \<Rightarrow> MigrationChunk \<Rightarrow> ChunkControl \<Rightarrow> Store \<Rightarrow> ChunkControl" where
  "applyTopologyRunningPressure E task chunk control s =
     (if trim_space (ch_TopologyID chunk) = [] then control
      else case GetMigrationTable (ch_TableID chunk) s of
        Inl _ \<Rightarrow> control
      | Inr table \<Rightarrow>
          let i = ch_TopologyID chunk;
              b = domain_brake E table i (degraded_brake E table i \<lparr>bk_pct = 100, bk_pause = 0, bk_reasons = []\<rparr>)
          in if bk_pct b \<ge> 100 \<and> bk_pause b \<le> 0 then control else apply_brake task b control)"

section \<open>Which running chunks stop\<close>

text \<open>Oldest work first; a chunk without a start comes last. The keys differ when the identities do.\<close>

definition seniority :: "MigrationChunk \<Rightarrow> bool \<times> int \<times> int \<times> string" where
  "seniority c = (ch_StartedAt c = 0, ch_StartedAt c, ch_ChunkNo c, ch_ID c)"

definition survives :: "string \<Rightarrow> int \<Rightarrow> MigrationChunk list \<Rightarrow> bool" where
  "survives i limit ranked \<longleftrightarrow> i \<in> set (map ch_ID (take (nat limit) ranked))"

definition topologyDegradedShedReason :: "Env \<Rightarrow> MigrationChunk \<Rightarrow> ChunkProgress \<Rightarrow> Store \<Rightarrow> string" where
  "topologyDegradedShedReason E chunk progress s =
     (if \<not> default_on E ''DTS_TOPOLOGY_DEGRADED_RUNNING_SHED'' \<or> trim_space (ch_TopologyID chunk) = []
         \<or> \<not> runningChunkYieldCursorSafe chunk progress then []
      else case GetMigrationTable (ch_TableID chunk) s of
        Inl _ \<Rightarrow> []
      | Inr table \<Rightarrow>
          if TopologyProfileHealth (Some table) (ch_TopologyID chunk) \<noteq> ''DEGRADED'' then []
          else let c = TopologyEffectiveConcurrencyCap (sv_env E) (Some table) (ch_TopologyID chunk);
                   c = (if c < 1 then 1 else c);
                   running = ListRunningTopologyChunks True (ch_TaskID chunk) (ch_TopologyID chunk) s
               in if int (length running) \<le> c \<or> survives (ch_ID chunk) c (sort_key seniority running) then []
                  else ''topology degraded shed topology='' @ ch_TopologyID chunk @ '' running=''
                         @ int_str (int (length running)) @ '' cap='' @ int_str c)"

definition chunk_health_rank :: "Store \<Rightarrow> MigrationChunk \<Rightarrow> int" where
  "chunk_health_rank s c =
     (if trim_space (ch_TopologyID c) = [] then 0
      else case GetMigrationTable (ch_TableID c) s of
        Inl _ \<Rightarrow> 0
      | Inr t \<Rightarrow> TopologyHealthRank (TopologyProfileHealth (Some t) (ch_TopologyID c)))"

definition domain_value :: "MigrationTable \<Rightarrow> MigrationChunk \<Rightarrow> string \<Rightarrow> string" where
  "domain_value table chunk scope =
     (let v = trim_space (sget (ch_FaultDomain chunk) scope) in
      if v = [] then trim_space (sget (TopologyFaultDomain (Some table) (ch_TopologyID chunk)) scope) else v)"

definition faultDomainRunningShedReason :: "Env \<Rightarrow> MigrationChunk \<Rightarrow> ChunkProgress \<Rightarrow> Store \<Rightarrow> string" where
  "faultDomainRunningShedReason E chunk progress s =
     (if \<not> default_on E ''DTS_TOPOLOGY_FAULT_DOMAIN_RUNNING_SHED'' \<or> \<not> FaultDomainProtectionEnabled (sv_env E)
         \<or> \<not> runningChunkYieldCursorSafe chunk progress then []
      else case GetMigrationTable (ch_TableID chunk) s of
        Inl _ \<Rightarrow> []
      | Inr table \<Rightarrow>
          (case TopologyFaultDomainPeerState (sv_env E) (Some table) (ch_TopologyID chunk) of (risk, scope) \<Rightarrow>
             let c = FaultDomainConcurrencyCap (sv_env E) risk; v = domain_value table chunk scope in
             if c \<le> 0 \<or> scope = [] \<or> v = [] then []
             else let running = ListRunningFaultDomainChunks True (ch_TaskID chunk) scope v s in
               if int (length running) \<le> c
                  \<or> survives (ch_ID chunk) c (sort_key (\<lambda>r. (chunk_health_rank s r, seniority r)) running) then []
               else ''fault-domain shed scope='' @ scope @ '' domain='' @ v @ '' risk='' @ int_str risk
                      @ '' running='' @ int_str (int (length running)) @ '' cap='' @ int_str c))"

definition topologyCircuitDrainReason :: "Env \<Rightarrow> MigrationChunk \<Rightarrow> ChunkProgress \<Rightarrow> Store \<Rightarrow> string" where
  "topologyCircuitDrainReason E chunk progress s =
     (if \<not> default_on E ''DTS_TOPOLOGY_RUNNING_DRAIN'' \<or> trim_space (ch_TopologyID chunk) = []
         \<or> \<not> runningChunkYieldCursorSafe chunk progress then []
      else case GetMigrationTable (ch_TableID chunk) s of
        Inl _ \<Rightarrow> []
      | Inr table \<Rightarrow>
          if TopologyProfileHealth (Some table) (ch_TopologyID chunk) \<noteq> ''CIRCUIT_OPEN'' then []
          else ''topology circuit drain topology='' @ ch_TopologyID chunk @ '' health=CIRCUIT_OPEN'')"

definition unhealthy_reason :: "Env \<Rightarrow> MigrationChunk \<Rightarrow> ChunkProgress \<Rightarrow> Store \<Rightarrow> string" where
  "unhealthy_reason E chunk progress s =
     (if topologyCircuitDrainReason E chunk progress s \<noteq> [] then topologyCircuitDrainReason E chunk progress s
      else if topologyDegradedShedReason E chunk progress s \<noteq> [] then topologyDegradedShedReason E chunk progress s
      else faultDomainRunningShedReason E chunk progress s)"

text \<open>Letting a healthy running chunk stop: it has done enough, and a worker would be idle or is better.\<close>

definition started_lately :: "MigrationChunk \<Rightarrow> bool svc" where
  "started_lately chunk =
     (if ch_StartedAt chunk = 0 then ret False
      else bnd clock (\<lambda>now. env (\<lambda>E. time_sub now (ch_StartedAt chunk)
        < seconds (int_env E ''DTS_RUNNING_CHUNK_REBALANCE_MIN_SECONDS'' 30))))"

definition rebalance_reason :: "MigrationTask \<Rightarrow> MigrationChunk \<Rightarrow> Worker option \<Rightarrow> string option svc" where
  "rebalance_reason task chunk worker =
     bnd (query (CountTableRunnable True (mig_ID task) (ch_TableID chunk))) (\<lambda>counts.
     bnd (betterWorkerAvailable worker) (\<lambda>(better, loadReason).
     let desired = desiredTaskWorkers (Some task); idle = (better \<and> rc_Pending counts = 0) in
     ret (if desired - Runnable counts \<le> 0 \<and> \<not> idle then None
          else if idle then Some loadReason
          else Some (''running hotspot runnable='' @ int_str (Runnable counts) @ '' desired='' @ int_str desired))))"

definition shouldYieldRunningChunk ::
  "MigrationTask \<Rightarrow> MigrationChunk \<Rightarrow> Worker option \<Rightarrow> ChunkProgress \<Rightarrow> string option svc" where
  "shouldYieldRunningChunk task chunk worker progress =
     (if trim_space (cp_CursorJSON progress) = [] then ret None
      else bnd (env id) (\<lambda>E. bnd (query (unhealthy_reason E chunk progress)) (\<lambda>reason.
        if reason \<noteq> [] then ret (Some reason)
        else if \<not> default_on E ''DTS_RUNNING_CHUNK_REBALANCE'' \<or> \<not> runningChunkYieldCursorSafe chunk progress
          \<or> cp_BytesWritten progress < positiveInt64Env E ''DTS_RUNNING_CHUNK_REBALANCE_MIN_BYTES'' (2 ^ 23)
        then ret None
        else bnd (started_lately chunk) (\<lambda>young.
          if young then ret None else rebalance_reason task chunk worker))))"

section \<open>The worker's heartbeat\<close>

definition chunkLease :: duration where
  "chunkLease = 5 * 60 * 10 ^ 9"

definition reports_progress :: "ChunkProgress \<Rightarrow> bool" where
  "reports_progress p \<longleftrightarrow> trim_space (cp_CursorJSON p) \<noteq> [] \<or> cp_RowsRead p > 0 \<or> cp_RowsWritten p > 0
     \<or> cp_BytesRead p > 0 \<or> cp_BytesWritten p > 0 \<or> cp_LastReadMS p > 0 \<or> cp_LastWriteMS p > 0"

definition worker_of :: "string \<Rightarrow> Store \<Rightarrow> Worker option" where
  "worker_of i s = (case GetWorker i s of Inl _ \<Rightarrow> None | Inr w \<Rightarrow> Some w)"

definition paced ::
  "MigrationTask \<Rightarrow> MigrationChunk \<Rightarrow> ChunkProgress \<Rightarrow> Worker option \<Rightarrow> (MigrationTask \<times> ChunkControl) svc" where
  "paced task chunk progress worker =
     bnd (env (\<lambda>E. backpressureControl E progress worker)) (\<lambda>control.
     bnd (reconcileTaskFlowControl task (cc_Level control) (cc_Reason control)) (\<lambda>(task, level, reason).
     bnd (env (\<lambda>E. mergeTaskPressure E control level reason (cp_LastBatchRows progress))) (\<lambda>control.
     bnd clock (\<lambda>now. bnd (env (\<lambda>E. taskWorkerBudgets E task now)) (\<lambda>(r, wr, t).
     bnd (env id) (\<lambda>E. bnd (query (applyTopologyRunningPressure E task chunk
         (control\<lparr>cc_ReadBytesPerSec := r, cc_WriteBytesPerSec := wr, cc_TargetBytesPerSec := t\<rparr>))) (\<lambda>control.
     ret (task, control))))))))"

definition RenewChunk :: "string \<Rightarrow> string \<Rightarrow> ChunkProgress \<Rightarrow> ChunkControl svc" where
  "RenewChunk workerID chunkID progress =
     bnd (fetch (GetChunk chunkID)) (\<lambda>c.
     bnd (fetch (GetMigration (ch_TaskID c))) (\<lambda>task.
     if mig_Status task \<noteq> StatusFullMigrating
     then fail (text_error (''task is '' @ MigrationStatus_string (mig_Status task) @ ''; chunk execution should stop''))
     else bnd (query (worker_of workerID)) (\<lambda>worker.
       bnd (paced task c progress worker) (\<lambda>(task, control).
       bnd (if reports_progress progress
            then must (write_repo (\<lambda>io. UpdateChunkProgress io chunkID workerID
              (progress\<lparr>cp_BackpressureLevel := cc_Level control\<rparr>)))
            else ret ()) (\<lambda>_.
       bnd clock (\<lambda>now. bnd (must (write_repo (\<lambda>io. RenewChunkLease io now chunkID workerID chunkLease))) (\<lambda>_.
       bnd (shouldYieldRunningChunk task c worker (progress\<lparr>cp_BackpressureLevel := cc_Level control\<rparr>)) (\<lambda>y.
       ret (case y of None \<Rightarrow> control
            | Some reason \<Rightarrow> control\<lparr>cc_YieldAfterBatch := True, cc_YieldReason := reason\<rparr>)))))))))"

section \<open>Claiming a chunk\<close>

definition unifiedEngineName :: string where
  "unifiedEngineName = ''dts''"

text \<open>\<open>normalizeEngineName\<close> answers with the only engine, whatever a task or a table names.\<close>

definition normalizeEngineName :: "string \<Rightarrow> string" where
  "normalizeEngineName e = unifiedEngineName"

text \<open>\<open>%v\<close> of a map: the entries by key.\<close>

definition go_map_text :: "(string, string) gomap \<Rightarrow> string" where
  "go_map_text m = ''map['' @ join (map (\<lambda>(k, v). k @ '':'' @ v) (sort_key fst m)) '' '' @ '']''"

definition claim_row :: "string \<Rightarrow> string list \<Rightarrow> (go_error + MigrationChunk) svc" where
  "claim_row workerID caps = bnd clock (\<lambda>now.
     write_result (\<lambda>E io. ClaimChunk (sv_env E) io now workerID chunkLease caps))"

definition claim_or_probe :: "string \<Rightarrow> string list \<Rightarrow> MigrationChunk svc" where
  "claim_or_probe workerID caps =
     bnd (claim_row workerID caps) (\<lambda>r. case r of
       Inr c \<Rightarrow> ret c
     | Inl e \<Rightarrow>
         if e \<noteq> ErrNoChunk then fail (Plain e)
         else bnd clock (\<lambda>now. bnd (promoteHalfOpenTopologies now) (\<lambda>changed.
           if changed then ok_result id (claim_row workerID caps) else fail (Plain e))))"

definition start_clock :: "MigrationTask \<Rightarrow> MigrationTask svc" where
  "start_clock task =
     (if mig_CompletionSLASeconds task > 0 \<and> mig_SLAStartedAt task = 0
      then bnd clock (\<lambda>now. ret (task\<lparr>mig_SLAStartedAt := now\<rparr>)) else ret task)"

definition seed_controller :: "MigrationTask \<Rightarrow> MigrationTask svc" where
  "seed_controller task =
     (if \<not> mig_AutoThroughputEnabled task \<and> mig_CompletionSLASeconds task \<le> 0 then ret task
      else bnd (start_clock task) (\<lambda>task.
        bnd (query (ListMigrationTables (mig_ID task))) (\<lambda>tables.
        bnd clock (\<lambda>now. bnd (env (\<lambda>E. reconcileThroughputController E tables now task)) (\<lambda>task.
        bnd clock (\<lambda>now. let task = task\<lparr>mig_UpdatedAt := now\<rparr> in
        bnd (ignore (write_repo (\<lambda>io. UpdateMigration io task))) (\<lambda>_. ret task)))))))"

definition cap_parallelism :: "MigrationTask \<Rightarrow> MigrationTask svc" where
  "cap_parallelism task =
     bnd clock (\<lambda>now. bnd (env (\<lambda>E. resolveTaskParallelismCap E (Some task) now)) (\<lambda>c.
     if c > 0 \<and> (mig_EffectiveParallelism task \<le> 0 \<or> mig_EffectiveParallelism task > c)
     then bnd clock (\<lambda>now. let task = task\<lparr>mig_EffectiveParallelism := c, mig_UpdatedAt := now\<rparr> in
       bnd (ignore (write_repo (\<lambda>io. UpdateMigration io task))) (\<lambda>_. ret task))
     else ret task))"

definition chunk_job ::
  "Env \<Rightarrow> MigrationTask \<Rightarrow> MigrationTable \<Rightarrow> MigrationChunk \<Rightarrow> DataSource \<Rightarrow> DataSource \<Rightarrow> time \<Rightarrow> ChunkJob" where
  "chunk_job E task table chunk source target now =
     (let l = resolveTaskRateLimits E task now in
      case taskWorkerBudgets E task now of (r, w, t) \<Rightarrow>
        \<lparr>cj_Chunk = chunk, cj_Table = table, cj_Engine = normalizeEngineName (tbl_Engine table),
         cj_Source = Credential source, cj_Target = Credential target, cj_BatchRows = mig_BatchRows task,
         cj_ReadLimitMBps = lim_readMB l, cj_WriteLimitMBps = lim_writeMB l, cj_ReadBytesPerSec = r,
         cj_WriteBytesPerSec = w, cj_TargetBytesPerSec = t, cj_RowsPerSecond = lim_rows l, cj_QPS = lim_qps l,
         cj_TransformRules = mig_TransformRules task, cj_WorkSteal = False, cj_WorkStealReason = []\<rparr>)"

definition stolen :: "Worker \<Rightarrow> string \<Rightarrow> MigrationTask \<Rightarrow> ChunkJob \<Rightarrow> ChunkJob svc" where
  "stolen worker workerID task job =
     (let chunk = cj_Chunk job; why = ''idle worker stole remote placement topology='' @ ch_TopologyID chunk
            @ '' hint='' @ go_map_text (ch_PlacementHint chunk) in
      if ch_PlacementHint chunk = [] \<or> labelsContain (wk_Labels worker) (ch_PlacementHint chunk) then ret job
      else bnd (logTask (mig_ID task) workerID (tbl_ID (cj_Table job)) (ch_ID chunk) ''INFO'' why) (\<lambda>_.
        ret (job\<lparr>cj_WorkSteal := True, cj_WorkStealReason := why\<rparr>)))"

definition with_prefix :: "string \<Rightarrow> 'a svc \<Rightarrow> 'a svc" where
  "with_prefix msg m = bnd (attempt m) (\<lambda>r. case r of
     Inl (p, e) \<Rightarrow> fail_with p (Wrapped msg e) | Inr x \<Rightarrow> ret x)"

definition claim_for :: "Worker \<Rightarrow> string \<Rightarrow> ChunkJob svc" where
  "claim_for worker workerID =
     bnd (claim_or_probe workerID (wk_Capabilities worker)) (\<lambda>chunk.
     bnd (fetch (GetMigrationTable (ch_TableID chunk))) (\<lambda>table.
     bnd (fetch (GetMigration (ch_TaskID chunk))) (\<lambda>task.
     bnd (seed_controller task) (\<lambda>task. bnd (cap_parallelism task) (\<lambda>task.
     bnd (fetch (GetDataSource (mig_SourceID task))) (\<lambda>source.
     bnd (fetch (GetDataSource (mig_TargetID task))) (\<lambda>target.
     bnd clock (\<lambda>now. bnd (env (\<lambda>E. chunk_job E task table chunk source target now)) (\<lambda>job.
     stolen worker workerID task job)))))))))"

definition ClaimChunk_svc :: "string \<Rightarrow> ChunkJob svc" where
  "ClaimChunk_svc workerID =
     bnd (with_prefix ''worker: '' (fetch (GetWorker workerID))) (\<lambda>worker.
     bnd (env (\<lambda>E. workerOverloaded E (Some worker))) (\<lambda>overloaded_now.
     if overloaded_now then fail (Plain ErrNoChunk)
     else bnd (betterWorkerAvailable (Some worker)) (\<lambda>(better, why).
       if better then fail (Plain ErrNoChunk) else claim_for worker workerID)))"

section \<open>What the brakes promise\<close>

lemma desired_parallelism_range:
  assumes "1 \<le> c"
  shows "1 \<le> desired_parallelism level task c \<and> desired_parallelism level task c \<le> c"
proof -
  have cur: "1 \<le> current_parallelism task c" "current_parallelism task c \<le> c"
    using assms by (auto simp: current_parallelism_def Let_def)
  then have half: "go_div (current_parallelism task c) 2 \<le> current_parallelism task c" by simp
  have "0 < grow_step task" by (simp add: grow_step_def)
  with cur half assms show ?thesis by (auto simp: desired_parallelism_def Let_def)
qed

lemma scaleBudget_le:
  assumes "0 < v" "0 \<le> pct" "pct \<le> 100" "v * 100 < 2 ^ 63"
  shows "1 \<le> scaleBudget pct v \<and> scaleBudget pct v \<le> v"
proof -
  have "0 \<le> v * pct" "v * pct \<le> v * 100" using assms by (simp_all add: mult_left_mono)
  then have i: "in_i64 (v * pct)" using assms(4) by (simp add: in_i64_def)
  moreover have "v * pct div 100 \<le> v * 100 div 100"
    by (rule zdiv_mono1) (use \<open>v * pct \<le> v * 100\<close> in simp_all)
  ultimately show ?thesis using assms(1) \<open>0 \<le> v * pct\<close> by (simp add: scaleBudget_def Let_def)
qed

text \<open>A brake never lengthens a batch, shortens a pause or leaves a target above the longest batch.\<close>

lemma brake_only_slows:
  "0 < cc_MaxBatchRows (apply_brake task b c)"
  "0 < cc_MaxBatchRows c \<Longrightarrow> cc_MaxBatchRows (apply_brake task b c) \<le> cc_MaxBatchRows c"
  "cc_TargetBatchRows (apply_brake task b c) \<le> cc_MaxBatchRows (apply_brake task b c)"
  "cc_PauseMS c \<le> cc_PauseMS (apply_brake task b c)"
proof -
  obtain x where "50 \<le> x" and mx: "braked_max task b c
      = (if cc_MaxBatchRows c \<le> 0 \<or> x < cc_MaxBatchRows c then x else cc_MaxBatchRows c)"
    by (rule that [of "max 50 (go_div (i64 ((if mig_BatchRows task \<le> 0 then 500 else mig_BatchRows task) * bk_pct b)) 100)"])
      (rule max.cobounded1, simp only: braked_max_def Let_def)
  then show "0 < cc_MaxBatchRows (apply_brake task b c)"
    and "0 < cc_MaxBatchRows c \<Longrightarrow> cc_MaxBatchRows (apply_brake task b c) \<le> cc_MaxBatchRows c"
    by (simp_all add: apply_brake_def mx)
qed (simp_all add: apply_brake_def)

lemma card_survivors:
  assumes "distinct (map ch_ID xs)"
  shows "card {c \<in> set xs. survives (ch_ID c) n (sort_key f xs)} = min (length xs) (nat n)"
proof -
  let ?ys = "sort_key f xs"
  have inj: "inj_on ch_ID (set ?ys)" using assms by (simp add: distinct_map)
  have "distinct (take (nat n) ?ys)" using assms by (simp add: distinct_map)
  then have len: "card (set (take (nat n) ?ys)) = min (length xs) (nat n)"
    by (simp add: distinct_card)
  have "{c \<in> set xs. survives (ch_ID c) n ?ys} = set (take (nat n) ?ys)"
  proof
    show "{c \<in> set xs. survives (ch_ID c) n ?ys} \<subseteq> set (take (nat n) ?ys)"
    proof
      fix c assume "c \<in> {c \<in> set xs. survives (ch_ID c) n ?ys}"
      then obtain d where "c \<in> set ?ys" "d \<in> set (take (nat n) ?ys)" "ch_ID c = ch_ID d"
        by (auto simp: survives_def)
      moreover from this have "d \<in> set ?ys" by (blast dest: in_set_takeD)
      ultimately show "c \<in> set (take (nat n) ?ys)" using inj_onD [OF inj, of c d] by blast
    qed
    show "set (take (nat n) ?ys) \<subseteq> {c \<in> set xs. survives (ch_ID c) n ?ys}"
    proof
      fix c assume c: "c \<in> set (take (nat n) ?ys)"
      then have "c \<in> set ?ys" by (rule in_set_takeD)
      with c show "c \<in> {c \<in> set xs. survives (ch_ID c) n ?ys}" by (simp add: survives_def)
    qed
  qed
  with len show ?thesis by simp
qed

lemma running_on:
  "c \<in> set (ListRunningTopologyChunks True tid i s) \<Longrightarrow> ch_TaskID c = tid \<and> ch_TopologyID c = i"
  by (auto simp: ListRunningTopologyChunks_def ListRunningTopologyChunks_store_def)

lemma shed_facts:
  fixes E :: Env and p :: "MigrationChunk \<Rightarrow> ChunkProgress"
  assumes R: "R = ListRunningTopologyChunks True tid i s" and ids: "distinct (map ch_ID R)"
    and table: "\<And>c. c \<in> set R \<Longrightarrow> GetMigrationTable (ch_TableID c) s = Inr table"
    and k: "k = max 1 (TopologyEffectiveConcurrencyCap (sv_env E) (Some table) i)"
  shows "min (length R) (nat k) \<le> card {c \<in> set R. topologyDegradedShedReason E c (p c) s = []}"
    and "TopologyProfileHealth (Some table) i = ''DEGRADED'' \<Longrightarrow> trim_space i \<noteq> [] \<Longrightarrow>
      default_on E ''DTS_TOPOLOGY_DEGRADED_RUNNING_SHED'' \<Longrightarrow>
      (\<And>c. c \<in> set R \<Longrightarrow> runningChunkYieldCursorSafe c (p c)) \<Longrightarrow>
      card {c \<in> set R. topologyDegradedShedReason E c (p c) s = []} = min (length R) (nat k)"
proof -
  let ?stay = "{c \<in> set R. topologyDegradedShedReason E c (p c) s = []}"
  let ?sv = "{c \<in> set R. survives (ch_ID c) k (sort_key seniority R)}"
  have cap: "(if TopologyEffectiveConcurrencyCap (sv_env E) (Some table) i < 1 then 1
      else TopologyEffectiveConcurrencyCap (sv_env E) (Some table) i) = k" by (simp add: k)
  have stays: "topologyDegradedShedReason E c (p c) s = []" if "c \<in> ?sv" for c
    using that running_on [of c tid i s] table [of c] cap
    by (auto simp: topologyDegradedShedReason_def Let_def R split: if_splits)
  have card: "card ?sv = min (length R) (nat k)" by (rule card_survivors [OF ids])
  have "card ?sv \<le> card ?stay" using stays by (intro card_mono) auto
  with card show "min (length R) (nat k) \<le> card ?stay" by simp
  assume on: "TopologyProfileHealth (Some table) i = ''DEGRADED''" "trim_space i \<noteq> []"
    "default_on E ''DTS_TOPOLOGY_DEGRADED_RUNNING_SHED''" "\<And>c. c \<in> set R \<Longrightarrow> runningChunkYieldCursorSafe c (p c)"
  show "card ?stay = min (length R) (nat k)"
  proof (cases "int (length R) \<le> k")
    case True
    have "?stay = set R"
      using True cap running_on table by (auto simp: topologyDegradedShedReason_def Let_def R)
    moreover have "distinct R" using ids by (simp add: distinct_map)
    ultimately show ?thesis using True by (simp add: distinct_card)
  next
    case False
    have "?stay \<subseteq> ?sv"
      using False on cap running_on table by (auto simp: topologyDegradedShedReason_def Let_def R split: if_splits)
    with stays have "?stay = ?sv" by blast
    with card show ?thesis by simp
  qed
qed


text \<open>Two chunks run on a degraded topology whose cap is one: one of them stays.\<close>

definition shed_table :: MigrationTable where
  "shed_table = zero_MigrationTable\<lparr>tbl_ID := ''t'', tbl_TopologyPerformance :=
     [(''n1'', zero_TableTopologyPerformance\<lparr>ttp_Health := ''DEGRADED''\<rparr>)]\<rparr>"

definition shed_chunk :: "string \<Rightarrow> int \<Rightarrow> MigrationChunk" where
  "shed_chunk i n = zero_MigrationChunk\<lparr>ch_ID := i, ch_TaskID := ''mig'', ch_TableID := ''t'', ch_ChunkNo := n,
     ch_Status := ChunkRunning, ch_TopologyID := ''n1''\<rparr>"

definition shed_store :: Store where
  "shed_store = (newStore ''dts.json'' \<lparr>dk_main = Missing, dk_tmp = Missing\<rparr>)\<lparr>st_tables := [(''t'', shed_table)],
     st_chunks := [(''a'', shed_chunk ''a'' 1), (''b'', shed_chunk ''b'' 2)]\<rparr>"


end
