(* ===== verification/ChunkOps.thy ===== *)
theory ChunkOps
  imports ChunkPressure StateMachine
begin

text \<open>
  The end of a chunk, the part of \<open>backend/internal/migration/service.go\<close> a worker reaches with its
  result: completing, yielding and failing a chunk, refining the chunks that still wait, the progress
  of the task, and the work that follows the last chunk (generated values, indexes, foreign keys).
\<close>

section \<open>DDL after the load\<close>

definition postLoadMode :: "string \<Rightarrow> string" where
  "postLoadMode m = (let mode = to_upper (trim_space m) in if mode = [] then ''NONE'' else mode)"

definition hasSecondaryIndexes :: "MigrationTable list \<Rightarrow> bool" where
  "hasSecondaryIndexes tables \<longleftrightarrow>
     list_ex (\<lambda>t. list_ex (\<lambda>i. \<not> idx_Primary i \<and> idx_Columns i \<noteq> []) (tbl_Indexes t)) tables"

definition hasForeignKeys :: "MigrationTable list \<Rightarrow> bool" where
  "hasForeignKeys tables \<longleftrightarrow> list_ex (\<lambda>t. tbl_ForeignKeys t \<noteq> []) tables"

definition sameColumnsFold :: "string list \<Rightarrow> string list \<Rightarrow> bool" where
  "sameColumnsFold a b \<longleftrightarrow> list_all2 equal_fold a b"

definition indexCompatible :: "IndexInfo \<Rightarrow> IndexInfo list \<Rightarrow> bool" where
  "indexCompatible index existing \<longleftrightarrow> list_ex (\<lambda>c. idx_Primary c = idx_Primary index \<and> idx_Unique c = idx_Unique index
     \<and> sameColumnsFold (idx_Columns c) (idx_Columns index)) existing"

definition foreignKeyCompatible :: "ForeignKeyInfo \<Rightarrow> ForeignKeyInfo list \<Rightarrow> bool" where
  "foreignKeyCompatible fk existing \<longleftrightarrow> list_ex (\<lambda>c. sameColumnsFold (fk_Columns c) (fk_Columns fk)
     \<and> sameColumnsFold (fk_ReferencedColumns c) (fk_ReferencedColumns fk)
     \<and> equal_fold (fk_ReferencedSchema c) (fk_ReferencedSchema fk)
     \<and> equal_fold (fk_ReferencedTable c) (fk_ReferencedTable fk)) existing"

text \<open>None when no DDL is needed, or the target does not offer it, which raises an alert.\<close>

definition postLoadConnector :: "MigrationTask \<Rightarrow> bool \<Rightarrow> Target option svc" where
  "postLoadConnector task required =
     (if \<not> required then ret None
      else bnd (fetch (GetDataSource (mig_TargetID task))) (\<lambda>ds.
        bnd (env (\<lambda>E. sv_require E ''post-load-schema'' (ds_Type ds))) (\<lambda>missing. case missing of
          Some _ \<Rightarrow> bnd clock (\<lambda>now. bnd (alert ''warning'' ''Post-load DDL deferred''
            ''Target DTS connector does not yet advertise post-load-schema capability; the unified engine will not delegate this DDL to another runtime''
            (mig_ID task) now) (\<lambda>_. ret None))
        | None \<Rightarrow> bnd (env (\<lambda>E. sv_connect E ds)) (\<lambda>con. case con of
            Inl e \<Rightarrow> fail (text_error e)
          | Inr T \<Rightarrow>
              if tg_post_load_schema T then ret (Some T)
              else bnd (ignore (call_target T CloseTarget)) (\<lambda>_. fail (text_error
                (''target connector '' @ DataSourceType_string (ds_Type ds) @ '' does not support post-load schema DDL'')))))))"

fun create_indexes :: "Target \<Rightarrow> MigrationTable \<Rightarrow> IndexInfo list \<Rightarrow> IndexInfo list \<Rightarrow> unit svc" where
  "create_indexes T table existing [] = ret ()"
| "create_indexes T table existing (idx # r) =
     (if idx_Primary idx \<or> idx_Columns idx = [] \<or> indexCompatible idx existing then create_indexes T table existing r
      else bnd (ok_call None (tbl_TargetSchema table @ ''.'' @ tbl_TargetTable table @ '' index '' @ idx_Name idx @ '': '')
               T (CreateIndex (tbl_TargetSchema table) (tbl_TargetTable table) idx)) (\<lambda>_.
        create_indexes T table (existing @ [idx]) r))"

fun create_keys :: "Target \<Rightarrow> MigrationTable \<Rightarrow> ForeignKeyInfo list \<Rightarrow> ForeignKeyInfo list \<Rightarrow> unit svc" where
  "create_keys T table existing [] = ret ()"
| "create_keys T table existing (fk # r) =
     (if fk_Columns fk = [] \<or> foreignKeyCompatible fk existing then create_keys T table existing r
      else bnd (ok_call None (tbl_TargetSchema table @ ''.'' @ tbl_TargetTable table @ '' foreign key '' @ fk_Name fk @ '': '')
               T (CreateForeignKey (tbl_TargetSchema table) (tbl_TargetTable table) fk)) (\<lambda>_.
        create_keys T table (existing @ [fk]) r))"

definition read_metadata :: "Target \<Rightarrow> MigrationTable \<Rightarrow> TableMetadata svc" where
  "read_metadata T table =
     bnd (ask T tg_metadata (GetTableMetadata (tbl_TargetSchema table) (tbl_TargetTable table))) (\<lambda>r. case r of
       Inl e \<Rightarrow> fail (text_error e) | Inr m \<Rightarrow> ret m)"

fun each :: "('a \<Rightarrow> unit svc) \<Rightarrow> 'a list \<Rightarrow> unit svc" where
  "each f [] = ret ()"
| "each f (x # xs) = bnd (f x) (\<lambda>_. each f xs)"

definition with_ddl :: "MigrationTask \<Rightarrow> bool \<Rightarrow> (Target \<Rightarrow> unit svc) \<Rightarrow> unit svc" where
  "with_ddl task required body =
     bnd (postLoadConnector task required) (\<lambda>ddl. case ddl of
       None \<Rightarrow> ret ()
     | Some T \<Rightarrow> deferred (body T) (ignore (call_target T CloseTarget)))"

definition applyPostLoadIndexes :: "MigrationTask \<Rightarrow> MigrationTable list \<Rightarrow> unit svc" where
  "applyPostLoadIndexes task tables =
     (let mode = postLoadMode (mig_PostLoadDDLMode task) in
      if mode \<noteq> ''INDEXES'' \<and> mode \<noteq> ''INDEXES_AND_FOREIGN_KEYS'' then ret ()
      else with_ddl task (hasSecondaryIndexes tables) (\<lambda>T.
        each (\<lambda>t. bnd (read_metadata T t) (\<lambda>m. create_indexes T t (tm_Indexes m) (tbl_Indexes t))) tables))"

definition applyPostLoadForeignKeys :: "MigrationTask \<Rightarrow> MigrationTable list \<Rightarrow> unit svc" where
  "applyPostLoadForeignKeys task tables =
     (if postLoadMode (mig_PostLoadDDLMode task) \<noteq> ''INDEXES_AND_FOREIGN_KEYS'' \<or> \<not> hasForeignKeys tables then ret ()
      else with_ddl task True (\<lambda>T.
        each (\<lambda>t. bnd (read_metadata T t) (\<lambda>m. create_keys T t (tm_ForeignKeys m) (tbl_ForeignKeys t))) tables))"

definition generated_columns :: "MigrationTable \<Rightarrow> ColumnInfo list" where
  "generated_columns t = (if tbl_TargetColumns t = [] then tbl_Columns t else tbl_TargetColumns t)"

definition on_target :: "MigrationTask \<Rightarrow> (Target \<Rightarrow> bool) \<Rightarrow> (Target \<Rightarrow> unit svc) \<Rightarrow> unit svc" where
  "on_target task offers body =
     bnd (fetch (GetDataSource (mig_TargetID task))) (\<lambda>ds.
     bnd (env (\<lambda>E. sv_connect E ds)) (\<lambda>con. case con of
       Inl e \<Rightarrow> fail (text_error e)
     | Inr T \<Rightarrow> deferred (if offers T then body T else ret ()) (ignore (call_target T CloseTarget))))"

definition syncGeneratedValueState :: "MigrationTask \<Rightarrow> MigrationTable list \<Rightarrow> unit svc" where
  "syncGeneratedValueState task tables = on_target task tg_sync_generated (\<lambda>T.
     each (\<lambda>t. ok_call None (tbl_TargetSchema t @ ''.'' @ tbl_TargetTable t @ '' generated-value state: '') T
       (SyncGeneratedValueState (tbl_TargetSchema t) (tbl_TargetTable t) (generated_columns t))) tables)"

definition finalizeGeneratedValueModes :: "MigrationTask \<Rightarrow> MigrationTable list \<Rightarrow> unit svc" where
  "finalizeGeneratedValueModes task tables = on_target task tg_finalize_generated (\<lambda>T.
     each (\<lambda>t. ok_call None (tbl_TargetSchema t @ ''.'' @ tbl_TargetTable t @ '' generated-value mode finalization: '') T
       (FinalizeGeneratedValueModes (tbl_TargetSchema t) (tbl_TargetTable t) (generated_columns t))) tables)"

section \<open>Progress of the task\<close>

text \<open>The largest percentiles of all topologies and the topology of the largest 99th; the order of
  a Go map is not fixed, which matters only between equal ones.\<close>

definition tail_step ::
  "string \<times> TableTopologyPerformance \<Rightarrow> int \<times> int \<times> string \<Rightarrow> int \<times> int \<times> string" where
  "tail_step e acc = (case (e, acc) of ((i, p), (p95, p99, who)) \<Rightarrow>
     (if ttp_P95DurationMS p > p95 then ttp_P95DurationMS p else p95,
      if ttp_P99DurationMS p > p99 then ttp_P99DurationMS p else p99,
      if ttp_P99DurationMS p > p99 then i else who))"

definition worst_tail :: "MigrationTable list \<Rightarrow> int \<times> int \<times> string" where
  "worst_tail tables = fold tail_step (concat (map tbl_TopologyPerformance tables)) (0, 0, [])"

definition sla_remaining :: "MigrationTask \<Rightarrow> time \<Rightarrow> int" where
  "sla_remaining task now = (let r = i64 (mig_CompletionSLASeconds task - whole_seconds (time_sub now (mig_SLAStartedAt task)))
     in if r < 0 then 0 else r)"

definition sla_level :: "MigrationTask \<Rightarrow> int \<Rightarrow> string" where
  "sla_level task remaining =
     (if mig_SLAP99ETASeconds task > remaining then ''CRITICAL''
      else if mig_SLAP95ETASeconds task > remaining then ''WARN'' else ''NORMAL'')"

definition updateSLATailRisk :: "Env \<Rightarrow> MigrationTable list \<Rightarrow> time \<Rightarrow> MigrationTask \<Rightarrow> MigrationTask" where
  "updateSLATailRisk E tables now task0 =
     (case worst_tail tables of (p95, p99, who) \<Rightarrow>
      let targetMS = i64 (profileTargetSeconds E * 1000);
          task = task0\<lparr>
            mig_SLAP95ETASeconds := TailRiskETA (mig_ETASeconds task0) targetMS p95 (int_env E ''DTS_SLA_P95_TAIL_WEIGHT_PCT'' 25),
            mig_SLAP99ETASeconds := TailRiskETA (mig_ETASeconds task0) targetMS p99 (int_env E ''DTS_SLA_P99_TAIL_WEIGHT_PCT'' 50)\<rparr>;
          base = int_str (mig_ETASeconds task) @ ''s''; e95 = int_str (mig_SLAP95ETASeconds task) @ ''s'';
          e99 = int_str (mig_SLAP99ETASeconds task) @ ''s''
      in if mig_CompletionSLASeconds task \<le> 0 \<or> mig_SLAStartedAt task = 0
         then task\<lparr>mig_SLARiskLevel := ''NONE'', mig_SLARiskReason :=
           (if p99 > targetMS \<and> mig_ETASeconds task > 0
            then ''tail-only estimate topology='' @ who @ '' base='' @ base @ '' p95='' @ e95 @ '' p99='' @ e99
            else [])\<rparr>
         else let remaining = sla_remaining task now in
           task\<lparr>mig_SLARiskLevel := sla_level task remaining, mig_SLARiskReason :=
             ''sla_remaining='' @ int_str remaining @ ''s base_eta='' @ base @ '' p95_eta='' @ e95 @ '' p99_eta='' @ e99
             @ '' worst_topology='' @ who\<rparr>)"

definition table_progress :: "TaskChunkSummary \<Rightarrow> MigrationTable \<Rightarrow> MigrationTable" where
  "table_progress summary t =
     (let c = (case map_of (ts_Tables summary) (tbl_ID t) of None \<Rightarrow> zero_ChunkTableSummary | Some c \<Rightarrow> c) in
      t\<lparr>tbl_TotalChunks := cs_Total c, tbl_FinishedChunks := cs_Success c, tbl_RowsMigrated := cs_RowsWritten c,
        tbl_BytesMigrated := cs_BytesWritten c,
        tbl_Status := (if cs_Total c > 0 \<and> cs_Success c = cs_Total c then ''FINISHED''
                       else if cs_Success c > 0 then ''RUNNING'' else tbl_Status t)\<rparr>)"

definition task_progress :: "TaskChunkSummary \<Rightarrow> MigrationTask \<Rightarrow> MigrationTask" where
  "task_progress summary m =
     (let c = ts_all summary in
      m\<lparr>mig_TotalChunks := cs_Total c, mig_FinishedChunks := cs_Success c, mig_RowsMigrated := cs_RowsWritten c,
        mig_BytesMigrated := cs_BytesWritten c,
        mig_Progress := (if cs_Total c > 0
          then f64 (f64 (f64 (of_int (cs_Success c)) * 100) / f64 (of_int (cs_Total c))) else mig_Progress m)\<rparr>)"

definition measured_speed :: "Env \<Rightarrow> ChunkResult \<Rightarrow> MigrationTask \<Rightarrow> MigrationTask" where
  "measured_speed E r m =
     (if cres_DurationMS r \<le> 0 then m
      else m\<lparr>mig_SpeedBytesSec := ewmaRate E (mig_SpeedBytesSec m) (go_div (i64 (cres_BytesWritten r * 1000)) (cres_DurationMS r)),
             mig_SpeedRowsSec := ewmaRate E (mig_SpeedRowsSec m) (go_div (i64 (cres_RowsWritten r * 1000)) (cres_DurationMS r))\<rparr>)"

definition sum_i64 :: "int list \<Rightarrow> int" where
  "sum_i64 xs = fold (\<lambda>x a. i64 (a + x)) xs 0"

definition eta_seconds :: "MigrationTable list \<Rightarrow> MigrationTask \<Rightarrow> int" where
  "eta_seconds tables m =
     (let bytes = sum_i64 (map tbl_DataLength tables); rows = sum_i64 (map tbl_EstimatedRows tables) in
      if mig_SpeedBytesSec m > 0 \<and> bytes > mig_BytesMigrated m
      then go_div (i64 (bytes - mig_BytesMigrated m)) (mig_SpeedBytesSec m)
      else if mig_SpeedRowsSec m > 0 \<and> rows > mig_RowsMigrated m
      then go_div (i64 (rows - mig_RowsMigrated m)) (mig_SpeedRowsSec m) else 0)"

definition controlled :: "Env \<Rightarrow> MigrationTable list \<Rightarrow> time \<Rightarrow> MigrationTask \<Rightarrow> MigrationTask" where
  "controlled E tables now m =
     (let m = reconcileThroughputController E tables now (learnThroughputController tables now m)
      in updateSLATailRisk E tables now (m\<lparr>mig_ETASeconds := eta_seconds tables m\<rparr>))"

section \<open>After the last chunk\<close>

text \<open>\<open>_ = Transition(task, to)\<close>: a refused transition leaves the task as it is.\<close>

definition moved :: "MigrationStatus \<Rightarrow> MigrationTask \<Rightarrow> MigrationTask" where
  "moved to m = (case Transition m to of Inl _ \<Rightarrow> m | Inr m' \<Rightarrow> m')"

definition stopped_by :: "string \<Rightarrow> string \<Rightarrow> svc_error \<Rightarrow> MigrationTask \<Rightarrow> MigrationTask svc" where
  "stopped_by title msg e m =
     (let m' = m\<lparr>mig_Status := StatusFailed, mig_LastError := msg @ error_text e\<rparr> in
      bnd clock (\<lambda>now. bnd (alert ''critical'' title (mig_LastError m') (mig_ID m') now) (\<lambda>_. ret m')))"

text \<open>Run a step; its error stops the task and the rest is skipped.\<close>

definition or_stop ::
  "unit svc \<Rightarrow> string \<Rightarrow> string \<Rightarrow> MigrationTask \<Rightarrow> (MigrationTask \<times> bool) svc \<Rightarrow> (MigrationTask \<times> bool) svc" where
  "or_stop step title msg m next =
     bnd (attempt step) (\<lambda>r. case r of
       Inl (_, e) \<Rightarrow> bnd (stopped_by title msg e m) (\<lambda>m. ret (m, False))
     | Inr _ \<Rightarrow> next)"

definition finish_without_validation :: "MigrationTask \<Rightarrow> MigrationTable list \<Rightarrow> (MigrationTask \<times> bool) svc" where
  "finish_without_validation m tables =
     or_stop (applyPostLoadForeignKeys m tables) ''Post-load DDL failed'' ''post-load foreign key creation failed: '' m
       (if mig_Mode m = ModeFull
        then or_stop (finalizeGeneratedValueModes m tables) ''Generated-value mode finalization failed''
               ''generated-value mode finalization failed: '' m (ret (moved StatusFinished m, False))
        else ret (moved StatusCDCCatchingUp m, False))"

text \<open>The task after its last chunk, and whether a validation has to start.\<close>

definition finish_full :: "MigrationTask \<Rightarrow> MigrationTable list \<Rightarrow> (MigrationTask \<times> bool) svc" where
  "finish_full m tables =
     or_stop (syncGeneratedValueState m tables) ''Generated-value state sync failed''
       ''generated-value state synchronization failed: '' m
       (or_stop (applyPostLoadIndexes m tables) ''Post-load DDL failed'' ''post-load index creation failed: '' m
         (if mig_Mode m = ModeFullAndIncremental then ret (moved StatusCDCCatchingUp m, False)
          else if mig_ValidationEnabled m then ret (moved StatusValidating m, True)
          else finish_without_validation m tables))"

definition all_done :: "TaskChunkSummary \<Rightarrow> MigrationTask \<Rightarrow> bool" where
  "all_done summary m \<longleftrightarrow> cs_Total (ts_all summary) > 0 \<and> cs_Success (ts_all summary) = cs_Total (ts_all summary)
     \<and> mig_Status m = StatusFullMigrating"

definition after_chunk ::
  "TaskChunkSummary \<Rightarrow> MigrationTable list \<Rightarrow> MigrationTask \<Rightarrow> (MigrationTask \<times> bool) svc" where
  "after_chunk summary tables m =
     (if \<not> all_done summary m then ret (m, False)
      else case Transition m StatusFullFinished of
        Inl _ \<Rightarrow> ret (m, False)
      | Inr m' \<Rightarrow> finish_full m' tables)"

definition scheduleCDCSpoolDrain :: "string \<Rightarrow> string \<Rightarrow> unit svc" where
  "scheduleCDCSpoolDrain taskID direction = spawn (SpawnDrain taskID direction)"

definition refreshProgress :: "string \<Rightarrow> ChunkResult \<Rightarrow> unit svc" where
  "refreshProgress taskID r =
     bnd (query (SummarizeChunks True taskID)) (\<lambda>summary.
     bnd (fetch (GetMigration taskID)) (\<lambda>m.
     bnd (query (ListMigrationTables taskID)) (\<lambda>tables0.
     let tables = map (table_progress summary) tables0 in
     bnd (each (\<lambda>t. ignore (write_repo (\<lambda>io. UpdateMigrationTable io t))) tables) (\<lambda>_.
     bnd (env (\<lambda>E. measured_speed E r (task_progress summary m))) (\<lambda>m.
     bnd clock (\<lambda>now. bnd (env (\<lambda>E. controlled E tables now m)) (\<lambda>m.
     bnd clock (\<lambda>now.
     bnd (after_chunk summary tables (m\<lparr>mig_UpdatedAt := now\<rparr>)) (\<lambda>(m, validate).
     bnd (must (write_repo (\<lambda>io. UpdateMigration io m))) (\<lambda>_.
     bnd (if mig_Status m = StatusCDCCatchingUp then scheduleCDCSpoolDrain (mig_ID m) ''forward'' else ret ()) (\<lambda>_.
     if validate then ignore (startValidation (mig_ID m)) else ret ())))))))))))"

section \<open>Refining the chunks that wait\<close>

definition recommendedRowsForTopology :: "MigrationTable \<Rightarrow> string \<Rightarrow> int" where
  "recommendedRowsForTopology table topologyID =
     (case (if topologyID = [] then None else map_of (tbl_TopologyPerformance table) topologyID) of
        Some p \<Rightarrow> if ttp_RecommendedChunkRows p > 0 then ttp_RecommendedChunkRows p else tbl_RecommendedChunkRows table
      | None \<Rightarrow> tbl_RecommendedChunkRows table)"

definition range_span :: "int \<Rightarrow> int \<Rightarrow> int" where
  "range_span a b = i64 (i64 (b - a) + 1)"

definition estimateNumericChunkRows :: "MigrationTable \<Rightarrow> MigrationChunk \<Rightarrow> int" where
  "estimateNumericChunkRows table chunk =
     (if tbl_EstimatedRows table \<le> 0 \<or> tbl_MaxPK table < tbl_MinPK table \<or> ch_End chunk < ch_Start chunk then 0
      else let all = range_span (tbl_MinPK table) (tbl_MaxPK table) in
        if all \<le> 0 then 0
        else go_div (i64 (i64 (i64 (tbl_EstimatedRows table * range_span (ch_Start chunk) (ch_End chunk)) + all) - 1)) all)"

text \<open>The chunk took twice the target time, or ran far below the task's speed.\<close>

definition chunk_rate :: "ChunkResult \<Rightarrow> int" where
  "chunk_rate r = go_div (i64 (cres_BytesWritten r * 1000)) (cres_DurationMS r)"

definition slow_chunk :: "Env \<Rightarrow> MigrationTask \<Rightarrow> ChunkResult \<Rightarrow> bool" where
  "slow_chunk E task r \<longleftrightarrow>
     cres_DurationMS r \<ge> i64 (i64 (int_env E ''DTS_ADAPTIVE_CHUNK_TARGET_SECONDS'' 30 * 2) * 1000)
     \<or> mig_SpeedBytesSec task > 0 \<and> chunk_rate r > 0
       \<and> i64 (chunk_rate r * 100) < i64 (mig_SpeedBytesSec task * int_env E ''DTS_ADAPTIVE_CHUNK_HOTSPOT_PCT'' 50)"

definition predicted_splits :: "MigrationTable \<Rightarrow> string \<Rightarrow> int \<Rightarrow> MigrationChunk \<Rightarrow> int \<Rightarrow> int" where
  "predicted_splits table tableID hardMax ch m =
     (let rec = recommendedRowsForTopology table (ch_TopologyID ch) in
      if ch_TableID ch \<noteq> tableID \<or> ch_Status ch \<noteq> ChunkPending \<or> \<not> numericRangeSplit (ch_SplitType ch) \<or> rec \<le> 0
      then m else max m (PiecesForRows (estimateNumericChunkRows table ch) rec hardMax - 1))"

definition split_budget :: "Env \<Rightarrow> MigrationTable \<Rightarrow> string \<Rightarrow> MigrationChunk list \<Rightarrow> int \<Rightarrow> int" where
  "split_budget E table tableID chunks deficit =
     (let base = max 1 (int_env E ''DTS_ADAPTIVE_CHUNK_MAX_SPLITS'' 8);
          m = min (max 1 deficit) base;
          hardMax = int_env E ''DTS_ADAPTIVE_CHUNK_HARD_MAX_SPLITS'' 16;
          m = (if default_on E ''DTS_PREDICTIVE_CHUNK_SIZING''
               then fold (predicted_splits table tableID hardMax) chunks m else m)
      in min (min m hardMax) base)"

text \<open>The loop over the waiting chunks: the splits so far, the runnable chunks, the largest number,
  the chunks to create.\<close>

record refining =
  rf_splits :: int
  rf_runnable :: int
  rf_maxNo :: int
  rf_created :: "MigrationChunk list"

definition pieces_for :: "int \<Rightarrow> int \<Rightarrow> refining \<Rightarrow> int" where
  "pieces_for maxSplits desired st =
     (let p = maxSplits - rf_splits st + 1; need = i64 (desired - rf_runnable st) + 1
      in max 2 (if need > 1 \<and> need < p then need else p))"

fun adaptive_pieces :: "MigrationChunk \<Rightarrow> int \<Rightarrow> (int \<times> int) list \<Rightarrow> MigrationChunk list svc" where
  "adaptive_pieces c no [] = ret []"
| "adaptive_pieces c no ((a, b) # r) = bnd (newID ''chk'') (\<lambda>i. bnd (adaptive_pieces c (no + 1) r) (\<lambda>rest.
     ret (zero_MigrationChunk\<lparr>ch_ID := i, ch_TaskID := ch_TaskID c, ch_TableID := ch_TableID c, ch_ChunkNo := no,
       ch_SplitType := ''PK_RANGE_ADAPTIVE'', ch_PrimaryKey := ch_PrimaryKey c, ch_Start := a, ch_End := b,
       ch_Status := ChunkPending\<rparr> # rest)))"

definition numeric_refinable :: "string \<Rightarrow> MigrationChunk \<Rightarrow> bool" where
  "numeric_refinable tableID c \<longleftrightarrow> ch_TableID c = tableID \<and> ch_Status c = ChunkPending
     \<and> ch_SplitType c \<in> {''PRIMARY_KEY_RANGE'', ''PK_RANGE'', ''PK_RANGE_ADAPTIVE''} \<and> ch_End c > ch_Start c"

definition refine_numeric :: "MigrationChunk \<Rightarrow> int \<Rightarrow> refining \<Rightarrow> refining svc" where
  "refine_numeric c pieces st =
     (let rs = split_range (ch_Start c) (range_span (ch_Start c) (ch_End c)) pieces in
      bnd (must (write_repo (\<lambda>io. UpdateChunk io
        (c\<lparr>ch_Start := fst (hd rs), ch_End := snd (hd rs), ch_SplitType := ''PK_RANGE_ADAPTIVE''\<rparr>)))) (\<lambda>_.
      bnd (adaptive_pieces c (rf_maxNo st + 1) (tl rs)) (\<lambda>new.
      if after_pieces (ch_Start c) rs \<noteq> i64 (ch_End c + 1)
      then fail (text_error (''adaptive numeric split produced a gap for chunk '' @ ch_ID c))
      else ret (st\<lparr>rf_splits := rf_splits st + int (length new), rf_runnable := rf_runnable st + pieces - 1,
        rf_maxNo := rf_maxNo st + int (length new), rf_created := rf_created st @ new\<rparr>))))"

fun refine_numerics :: "string \<Rightarrow> int \<Rightarrow> int \<Rightarrow> MigrationChunk list \<Rightarrow> refining \<Rightarrow> refining svc" where
  "refine_numerics tableID maxSplits desired [] st = ret st"
| "refine_numerics tableID maxSplits desired (c # cs) st =
     (if rf_splits st \<ge> maxSplits then ret st
      else if \<not> numeric_refinable tableID c then refine_numerics tableID maxSplits desired cs st
      else let pieces = min (pieces_for maxSplits desired st) (range_span (ch_Start c) (ch_End c)) in
        if pieces < 2 then refine_numerics tableID maxSplits desired cs st
        else bnd (refine_numeric c pieces st) (\<lambda>st. refine_numerics tableID maxSplits desired cs st))"

definition keyset_refinable :: "string \<Rightarrow> MigrationChunk \<Rightarrow> bool" where
  "keyset_refinable tableID c \<longleftrightarrow> ch_TableID c = tableID \<and> ch_Status c = ChunkPending
     \<and> ch_SplitType c = ''PRIMARY_KEY_KEYSET'' \<and> trim_space (ch_CursorJSON c) = []
     \<and> ch_RowsRead c \<le> 0 \<and> ch_RowsWritten c \<le> 0"

fun keyset_ranges :: "string list \<Rightarrow> (MigrationChunk \<Rightarrow> MigrationChunk) list" where
  "keyset_ranges (p # q # r) =
     (\<lambda>ch. ch\<lparr>ch_SplitType := ''PRIMARY_KEY_KEYSET'', ch_StartCursorJSON := p, ch_EndCursorJSON := q\<rparr>)
     # keyset_ranges (q # r)"
| "keyset_ranges ps = []"

definition refine_keyset :: "MigrationChunk \<Rightarrow> string list \<Rightarrow> refining \<Rightarrow> refining svc" where
  "refine_keyset c bounds st =
     (if bounds = [] then ret st
      else let c' = c\<lparr>ch_EndCursorJSON := hd bounds\<rparr> in
        bnd (must (write_repo (\<lambda>io. UpdateChunk io c'))) (\<lambda>_.
        bnd (remainders c' (rf_maxNo st + 1) (keyset_ranges (bounds @ [ch_EndCursorJSON c]))) (\<lambda>new.
        ret (st\<lparr>rf_splits := rf_splits st + int (length new), rf_runnable := rf_runnable st + int (length new),
          rf_maxNo := rf_maxNo st + int (length new), rf_created := rf_created st @ new\<rparr>))))"

definition keyset_of :: "string \<Rightarrow> string \<Rightarrow> Value list svc" where
  "keyset_of msg s = (case decodeKeysetBound s of
     None \<Rightarrow> fail (Wrapped msg (text_error ''invalid keyset cursor'')) | Some k \<Rightarrow> ret k)"

fun refine_keysets ::
  "Target \<Rightarrow> MigrationTable \<Rightarrow> string \<Rightarrow> int \<Rightarrow> int \<Rightarrow> MigrationChunk list \<Rightarrow> refining \<Rightarrow> refining svc" where
  "refine_keysets T table tableID maxSplits desired [] st = ret st"
| "refine_keysets T table tableID maxSplits desired (c # cs) st =
     (if rf_splits st \<ge> maxSplits then ret st
      else if \<not> keyset_refinable tableID c then refine_keysets T table tableID maxSplits desired cs st
      else bnd (keyset_of ''decode adaptive keyset lower bound: '' (ch_StartCursorJSON c)) (\<lambda>lower.
        bnd (keyset_of ''decode adaptive keyset upper bound: '' (ch_EndCursorJSON c)) (\<lambda>upper.
        bnd (ask T tg_boundaries (PlanKeysetBoundaries
          \<lparr>kb_Schema = tbl_SourceSchema table, kb_Table = tbl_SourceTable table, kb_Keys = table_keys table,
           kb_Columns = tbl_Columns table, kb_Partitions = pieces_for maxSplits desired st,
           kb_LowerBound = lower, kb_UpperBound = upper\<rparr>)) (\<lambda>r. case r of
            Inl _ \<Rightarrow> refine_keysets T table tableID maxSplits desired cs st
          | Inr bs \<Rightarrow>
              bnd (refine_keyset c (fresh_bounds (nat (maxSplits - rf_splits st))
                [trim_space (ch_StartCursorJSON c), trim_space (ch_EndCursorJSON c)] bs) st) (\<lambda>st.
              refine_keysets T table tableID maxSplits desired cs st)))))"

definition add_refined :: "MigrationTask \<Rightarrow> refining \<Rightarrow> unit svc" where
  "add_refined task st =
     bnd (must (write_repo (\<lambda>io. CreateChunks io (rf_created st)))) (\<lambda>_. bnd clock (\<lambda>now.
     ignore (write_repo (\<lambda>io. UpdateMigration io (task\<lparr>mig_UpdatedAt := now,
       mig_AdaptiveHotspotSplits := mig_AdaptiveHotspotSplits task + int (length (rf_created st))\<rparr>)))))"

definition refine_by_keys ::
  "MigrationTask \<Rightarrow> MigrationTable \<Rightarrow> string \<Rightarrow> int \<Rightarrow> int \<Rightarrow> MigrationChunk list \<Rightarrow> refining \<Rightarrow> unit svc" where
  "refine_by_keys task table tableID maxSplits desired chunks st =
     bnd (fetch (GetDataSource (mig_SourceID task))) (\<lambda>ds.
     bnd (env (\<lambda>E. sv_connect E ds)) (\<lambda>con. case con of
       Inl _ \<Rightarrow> ret ()
     | Inr T \<Rightarrow> deferred
         (if \<not> tg_keyset_boundary T \<or> table_keys table = [] then ret ()
          else bnd (refine_keysets T table tableID maxSplits desired chunks st) (\<lambda>st.
            if rf_created st = [] then ret () else add_refined task st))
         (ignore (call_target T CloseTarget))))"

definition refine_pending ::
  "MigrationTask \<Rightarrow> MigrationTable \<Rightarrow> MigrationChunk \<Rightarrow> ChunkResult \<Rightarrow> unit svc" where
  "refine_pending task table completed r =
     (let tableID = ch_TableID completed; desired = worker_count task in
      bnd (query (ListPendingTableChunks True (ch_TaskID completed) tableID)) (\<lambda>chunks.
      bnd (query (MaxTaskChunkNo True (ch_TaskID completed))) (\<lambda>maxNo.
      bnd (query (CountTableRunnable True (ch_TaskID completed) tableID)) (\<lambda>counts.
      bnd (env (\<lambda>E. split_budget E table tableID chunks (i64 (desired - Runnable counts)))) (\<lambda>maxSplits.
      let st = \<lparr>rf_splits = 0, rf_runnable = Runnable counts, rf_maxNo = maxNo, rf_created = []\<rparr> in
      bnd (refine_numerics tableID maxSplits desired chunks st) (\<lambda>st.
      if rf_created st = [] then refine_by_keys task table tableID maxSplits desired chunks st
      else bnd (add_refined task st) (\<lambda>_.
        logTask (mig_ID task) [] (tbl_ID table) (ch_ID completed) ''INFO''
          (''adaptive hotspot rebalance created='' @ int_str (int (length (rf_created st))) @ '' chunk_bps='' @ int_str (chunk_rate r)
           @ '' task_bps='' @ int_str (mig_SpeedBytesSec task) @ '' runnable='' @ int_str (rf_runnable st)
           @ '' desired='' @ int_str desired))))))))"

definition adaptPendingChunks :: "MigrationChunk \<Rightarrow> ChunkResult \<Rightarrow> unit svc" where
  "adaptPendingChunks completed r =
     (if cres_DurationMS r \<le> 0 then ret ()
      else bnd (fetch (GetMigrationTable (ch_TableID completed))) (\<lambda>table.
        bnd (fetch (GetMigration (ch_TaskID completed))) (\<lambda>task.
        bnd (env (\<lambda>E. slow_chunk E task r)) (\<lambda>slow.
        if \<not> slow \<or> normalizeEngineName (if tbl_Engine table = [] then unifiedEngineName else tbl_Engine table) \<noteq> unifiedEngineName
        then ret () else refine_pending task table completed r))))"

section \<open>The result of a chunk\<close>

definition with_counts :: "ChunkResult \<Rightarrow> MigrationChunk \<Rightarrow> MigrationChunk" where
  "with_counts r c = c\<lparr>ch_RowsRead := cres_RowsRead r, ch_RowsWritten := cres_RowsWritten r,
     ch_BytesRead := cres_BytesRead r, ch_BytesWritten := cres_BytesWritten r\<rparr>"

definition finished_at_cursor :: "MigrationChunk \<Rightarrow> string \<Rightarrow> bool" where
  "finished_at_cursor c cursor =
     (if numericRangeSplit (ch_SplitType c)
      then (case numericResumeCursor cursor of None \<Rightarrow> False | Some after \<Rightarrow> ch_End c \<le> after)
      else keyset_split (ch_SplitType c) \<and> trim_space cursor \<noteq> [] \<and> trim_space cursor = trim_space (ch_EndCursorJSON c))"

definition succeeded :: "time \<Rightarrow> MigrationChunk \<Rightarrow> MigrationChunk" where
  "succeeded now c = c\<lparr>ch_Status := ChunkSuccess, ch_WorkerID := [], ch_LeaseUntil := 0, ch_FinishedAt := now\<rparr>"

definition count_yield :: "string \<Rightarrow> int \<Rightarrow> MigrationTask \<Rightarrow> MigrationTask" where
  "count_yield reason n task =
     (let why = to_lower (trim_space reason) in
      task\<lparr>mig_AdaptiveRunningYields := mig_AdaptiveRunningYields task + 1,
        mig_AdaptiveHotspotSplits := mig_AdaptiveHotspotSplits task + n,
        mig_AdaptiveTopologyDrains := mig_AdaptiveTopologyDrains task + of_bool (prefix ''topology circuit drain'' why),
        mig_AdaptiveTopologyDegradedYields :=
          mig_AdaptiveTopologyDegradedYields task + of_bool (prefix ''topology degraded shed'' why),
        mig_AdaptiveFaultDomainYields := mig_AdaptiveFaultDomainYields task + of_bool (prefix ''fault-domain shed'' why)\<rparr>)"

definition completeYieldedChunk :: "string \<Rightarrow> MigrationChunk \<Rightarrow> ChunkResult \<Rightarrow> unit svc" where
  "completeYieldedChunk workerID c r =
     bnd (fetch (GetMigration (ch_TaskID c))) (\<lambda>task.
     bnd (fetch (GetMigrationTable (ch_TableID c))) (\<lambda>table.
     bnd (query (MaxTaskChunkNo True (ch_TaskID c))) (\<lambda>maxNo.
     let cursor = (if trim_space (cres_CursorJSON r) = [] then trim_space (ch_CursorJSON c) else trim_space (cres_CursorJSON r)) in
     bnd (buildYieldRemainders task table ((with_counts r c)\<lparr>ch_CursorJSON := cursor\<rparr>) cursor maxNo) (\<lambda>(completed, created).
     bnd (if created = [] then ret [] else relocateYieldRemainders task table c created) (\<lambda>created.
     if created = []
     then (if \<not> finished_at_cursor c cursor
           then fail (text_error (''refusing to complete yielded chunk '' @ ch_ID c @ '' without a provable remainder or end cursor''))
           else bnd clock (\<lambda>now. bnd (must (write_repo (\<lambda>io. UpdateChunk io (succeeded now completed)))) (\<lambda>_.
             refreshProgress (ch_TaskID c) r)))
     else bnd clock (\<lambda>now.
       bnd (must (write_repo (\<lambda>io. YieldChunk io workerID (Some (succeeded now completed)) created))) (\<lambda>_.
       bnd clock (\<lambda>now.
       bnd (ignore (write_repo (\<lambda>io. UpdateMigration io
         ((count_yield (cres_YieldReason r) (int (length created)) task)\<lparr>mig_UpdatedAt := now\<rparr>)))) (\<lambda>_.
       bnd (logTask (ch_TaskID c) workerID (ch_TableID c) (ch_ID c) ''INFO''
         (''running chunk yielded cursor='' @ cursor @ '' remainders='' @ int_str (int (length created)) @ '' reason=''
          @ (if trim_space (cres_YieldReason r) = [] then ''adaptive rebalance'' else trim_space (cres_YieldReason r)))) (\<lambda>_.
       refreshProgress (ch_TaskID c) r))))))))))"

text \<open>The chunk, if this worker is running it.\<close>

definition running_chunk :: "string \<Rightarrow> string \<Rightarrow> MigrationChunk svc" where
  "running_chunk workerID chunkID =
     bnd (fetch (GetChunk chunkID)) (\<lambda>c.
     if ch_Status c \<noteq> ChunkRunning \<or> ch_WorkerID c \<noteq> workerID then fail (Plain ErrLeaseOwner) else ret c)"

definition CompleteChunk :: "string \<Rightarrow> string \<Rightarrow> ChunkResult \<Rightarrow> unit svc" where
  "CompleteChunk workerID chunkID r =
     bnd (running_chunk workerID chunkID) (\<lambda>c.
     bnd (recordTablePerformance c r) (\<lambda>_.
     if cres_Yielded r then completeYieldedChunk workerID c r
     else bnd clock (\<lambda>now.
       let c = (with_counts r c)\<lparr>ch_Status := ChunkSuccess, ch_FinishedAt := now, ch_LeaseUntil := 0\<rparr> in
       bnd (must (write_repo (\<lambda>io. UpdateChunk io c))) (\<lambda>_.
       bnd (adaptPendingChunks c r) (\<lambda>_.
       bnd (logTask (ch_TaskID c) workerID (ch_TableID c) (ch_ID c) ''INFO''
         (''chunk #'' @ int_str (ch_ChunkNo c) @ '' completed rows='' @ int_str (cres_RowsWritten r) @ '' bytes=''
          @ int_str (cres_BytesWritten r) @ '' duration_ms='' @ int_str (cres_DurationMS r))) (\<lambda>_.
       refreshProgress (ch_TaskID c) r))))))"

text \<open>A failed chunk waits for another attempt, or fails its task with the last one.\<close>

definition fail_task_of_chunk :: "MigrationTask \<Rightarrow> MigrationChunk \<Rightarrow> string \<Rightarrow> MigrationChunk svc" where
  "fail_task_of_chunk task c why =
     bnd clock (\<lambda>now1. bnd clock (\<lambda>now2.
     bnd (ignore (write_repo (\<lambda>io. UpdateMigration io (task\<lparr>mig_Status := StatusFailed,
       mig_LastError := ''chunk '' @ ch_ID c @ '' failed after '' @ int_str (ch_RetryCount c) @ '' attempts: '' @ why,
       mig_UpdatedAt := now2\<rparr>)))) (\<lambda>_.
     ret (c\<lparr>ch_Status := ChunkFailed, ch_FinishedAt := now1\<rparr>))))"

definition FailChunk :: "string \<Rightarrow> string \<Rightarrow> ChunkResult \<Rightarrow> unit svc" where
  "FailChunk workerID chunkID r =
     bnd (running_chunk workerID chunkID) (\<lambda>c.
     bnd (fetch (GetMigration (ch_TaskID c))) (\<lambda>task.
     let c = c\<lparr>ch_LastError := cres_Error r, ch_LeaseUntil := 0, ch_WorkerID := []\<rparr> in
     if mig_Status task = StatusPaused \<or> mig_Status task = StatusCancelled
     then must (write_repo (\<lambda>io. UpdateChunk io (c\<lparr>ch_Status := ChunkPending\<rparr>)))
     else let c = c\<lparr>ch_RetryCount := i64 (ch_RetryCount c + 1)\<rparr> in
       bnd (if ch_RetryCount c \<le> mig_MaxRetries task then ret (c\<lparr>ch_Status := ChunkPending\<rparr>)
            else fail_task_of_chunk task c (cres_Error r)) (\<lambda>c.
       bnd (must (write_repo (\<lambda>io. UpdateChunk io c))) (\<lambda>_.
       logTask (ch_TaskID c) workerID (ch_TableID c) (ch_ID c)
         (if ch_Status c = ChunkFailed then ''ERROR'' else ''WARN'')
         (''chunk #'' @ int_str (ch_ChunkNo c) @ '' failed retry='' @ int_str (ch_RetryCount c) @ ''/''
          @ int_str (mig_MaxRetries task) @ '': '' @ cres_Error r)))))"

end
