(* ===== verification/SchemaObjects.thy ===== *)
theory SchemaObjects
  imports ServiceCore
begin

text \<open>
  Schema objects beside tables, the pure part of \<open>PlanSchemaObjects\<close> in
  \<open>backend/internal/migration/service.go\<close>: where an object belongs on the target, what may be done with
  it automatically, and the order in which views are created. The order is Kahn's algorithm; the
  main theorem is that an applied view comes after every applied view it depends on, and that no
  view is given up without a cycle.
\<close>

section \<open>Plans\<close>

datatype SchemaObjectPlanAction = SchemaObjectApplySafe | SchemaObjectSyncSequence
  | SchemaObjectSkipExisting | SchemaObjectManual | SchemaObjectPlanActionOther string

record SchemaObjectPlanItem =
  pi_Source :: SchemaObject
  pi_TargetSchema :: string
  pi_TargetName :: string
  pi_TargetRelatedTo :: string
  pi_TargetExists :: bool
  pi_Action :: SchemaObjectPlanAction
  pi_Reason :: string
  pi_TargetDDL :: string
  pi_TranslationEvidenceSHA256 :: string

record SchemaObjectPlan =
  sp_TaskID :: string
  sp_SafeActions :: int
  sp_Manual :: int
  sp_Skipped :: int
  sp_Items :: "SchemaObjectPlanItem list"
  sp_PlannedAt :: time

fun SchemaObjectType_string :: "SchemaObjectType \<Rightarrow> string" where
  "SchemaObjectType_string SchemaObjectView = ''VIEW''"
| "SchemaObjectType_string SchemaObjectSequence = ''SEQUENCE''"
| "SchemaObjectType_string SchemaObjectTrigger = ''TRIGGER''"
| "SchemaObjectType_string SchemaObjectFunction = ''FUNCTION''"
| "SchemaObjectType_string SchemaObjectProcedure = ''PROCEDURE''"
| "SchemaObjectType_string (SchemaObjectTypeOther s) = s"

section \<open>Where an object belongs\<close>

definition sameNativeDatabaseFamily :: "DataSourceType \<Rightarrow> DataSourceType \<Rightarrow> bool" where
  "sameNativeDatabaseFamily a b \<longleftrightarrow> IsMySQLFamily a \<and> IsMySQLFamily b \<or> IsPostgreSQLFamily a \<and> IsPostgreSQLFamily b
     \<or> a = DataSourceOracle \<and> b = DataSourceOracle \<or> a = DataSourceSQLServer \<and> b = DataSourceSQLServer"

definition or_text :: "string \<Rightarrow> string \<Rightarrow> string" where
  "or_text s d = (if s = [] then d else s)"

definition identity_column :: "ColumnMapping \<Rightarrow> bool" where
  "identity_column c \<longleftrightarrow> equal_fold (cmap_SourceColumn c) (or_text (trim_space (cmap_TargetColumn c)) (cmap_SourceColumn c))"

definition schemaObjectIdentityMappings :: "TableMapping list \<Rightarrow> bool" where
  "schemaObjectIdentityMappings mappings \<longleftrightarrow> list_all (\<lambda>m.
     equal_fold (tmap_SourceSchema m) (tmap_TargetSchema m) \<and> equal_fold (tmap_SourceTable m) (tmap_TargetTable m)
     \<and> list_all identity_column (tmap_Columns m)) mappings"

text \<open>The map of candidates by lower-case name keeps the last spelling of each.\<close>

definition schemaObjectTargetSchema ::
  "SchemaObject \<Rightarrow> TableMapping list \<Rightarrow> DataSource \<Rightarrow> DataSource \<Rightarrow> string option" where
  "schemaObjectTargetSchema obj mappings sourceDS targetDS =
     (let here = filter (\<lambda>m. equal_fold (tmap_SourceSchema m) (so_Schema obj)) mappings;
          candidates = map tmap_TargetSchema (filter (\<lambda>m. tmap_TargetSchema m \<noteq> []) here)
      in case (if so_RelatedTo obj = [] then None else find (\<lambda>m. equal_fold (tmap_SourceTable m) (so_RelatedTo obj)) here) of
           Some m \<Rightarrow> Some (tmap_TargetSchema m)
         | None \<Rightarrow> (case remdups (map to_lower candidates) of
             [_] \<Rightarrow> Some (last candidates)
           | _ # _ # _ \<Rightarrow> None
           | [] \<Rightarrow> if equal_fold (so_Schema obj) (defaultSchema sourceDS) \<and> defaultSchema targetDS \<noteq> []
                   then Some (defaultSchema targetDS) else None))"

text \<open>Both parts of \<open>table.column\<close>, cut at the first dot.\<close>

definition splitSchemaObjectRelatedTo :: "string \<Rightarrow> (string \<times> string) option" where
  "splitSchemaObjectRelatedTo value =
     (let v = trim_space value; a = takeWhile (\<lambda>c. c \<noteq> CHR ''.'') v; b = drop (length a + 1) v
      in if CHR ''.'' \<notin> set v \<or> trim_space a = [] \<or> trim_space b = [] then None else Some (a, b))"

definition target_column :: "ColumnMapping list \<Rightarrow> string \<Rightarrow> string" where
  "target_column cs column = (case find (\<lambda>c. equal_fold (cmap_SourceColumn c) column) cs of
     Some c \<Rightarrow> if trim_space (cmap_TargetColumn c) \<noteq> [] then cmap_TargetColumn c else column
   | None \<Rightarrow> column)"

definition schemaObjectTargetRelatedTo :: "SchemaObject \<Rightarrow> TableMapping list \<Rightarrow> string \<Rightarrow> string option" where
  "schemaObjectTargetRelatedTo obj mappings targetSchema =
     (if trim_space (so_RelatedTo obj) = [] then Some []
      else case splitSchemaObjectRelatedTo (so_RelatedTo obj) of
          None \<Rightarrow> None
        | Some (table, column) \<Rightarrow>
            (case find (\<lambda>m. equal_fold (tmap_SourceSchema m) (so_Schema obj) \<and> equal_fold (tmap_SourceTable m) table) mappings of
               None \<Rightarrow> None
             | Some m \<Rightarrow>
                 if \<not> equal_fold (or_text (trim_space (tmap_TargetSchema m)) targetSchema) targetSchema then None
                 else Some (or_text (trim_space (tmap_TargetTable m)) table @ ''.'' @ target_column (tmap_Columns m) column)))"

definition schemaObjectKey :: "SchemaObjectType \<Rightarrow> string \<Rightarrow> string" where
  "schemaObjectKey t name = to_upper (SchemaObjectType_string t) @ [CHR 0x00] @ to_lower name"

text \<open>\<open>strings.Fields\<close>: the words between runs of space.\<close>

fun words_from :: "string \<Rightarrow> string \<Rightarrow> string list" where
  "words_from w [] = (if w = [] then [] else [rev w])"
| "words_from w (c # s) =
     (if \<not> is_space c then words_from (c # w) s
      else if w = [] then words_from [] s else rev w # words_from [] s)"

definition trim_suffix :: "string \<Rightarrow> string \<Rightarrow> string" where
  "trim_suffix s e = (if e \<noteq> [] \<and> length e \<le> length s \<and> drop (length s - length e) s = e
     then take (length s - length e) s else s)"

definition normalizedSchemaObjectDefinition :: "string \<Rightarrow> string" where
  "normalizedSchemaObjectDefinition value =
     join (words_from [] (trim_space (trim_suffix (trim_space value) '';''))) '' ''"

definition equivalentViewDefinition :: "SchemaObject \<Rightarrow> SchemaObject \<Rightarrow> bool" where
  "equivalentViewDefinition s t \<longleftrightarrow> (let a = normalizedSchemaObjectDefinition (so_Definition s);
     b = normalizedSchemaObjectDefinition (so_Definition t) in a \<noteq> [] \<and> b \<noteq> [] \<and> a = b)"

section \<open>What may be done with an object\<close>

text \<open>What the two ends offer: the interfaces of their connectors, the types of the data sources.\<close>

record plan_ends =
  pe_source :: DataSource
  pe_target :: DataSource
  pe_identity :: bool
  pe_source_sequences :: bool
  pe_target_sequences :: bool
  pe_target_ddl :: bool
  pe_target_binding :: bool

definition manual :: "string \<Rightarrow> SchemaObjectPlanItem \<Rightarrow> SchemaObjectPlanItem" where
  "manual why item = item\<lparr>pi_Action := SchemaObjectManual, pi_Reason := why\<rparr>"

definition sequence_safe :: "plan_ends \<Rightarrow> SchemaObject \<Rightarrow> string \<Rightarrow> bool" where
  "sequence_safe ends obj targetSchema \<longleftrightarrow> IsPostgreSQLFamily (ds_Type (pe_source ends))
     \<and> IsPostgreSQLFamily (ds_Type (pe_target ends)) \<and> pe_source_sequences ends \<and> pe_target_sequences ends
     \<and> pe_target_ddl ends \<and> so_Schema obj = targetSchema \<and> trim_space (so_DDL obj) \<noteq> []"

definition sequence_reason :: "bool \<Rightarrow> SchemaObject \<Rightarrow> string" where
  "sequence_reason exists obj =
     (if equal_fold (so_Definition obj) ''OWNED'' \<and> exists
      then ''target SERIAL sequence exists; restore OWNED BY/default binding and synchronize last_value/is_called''
      else if equal_fold (so_Definition obj) ''OWNED''
      then ''create SERIAL backing sequence, restore OWNED BY/default binding, and synchronize last_value/is_called''
      else if equal_fold (so_Definition obj) ''IDENTITY''
      then ''matching target IDENTITY sequence exists; synchronize last_value/is_called without changing identity semantics''
      else if exists then ''target standalone sequence exists; synchronize last_value/is_called after full load''
      else ''create the standalone PostgreSQL sequence and synchronize last_value/is_called'')"

definition owned_binding ::
  "plan_ends \<Rightarrow> TableMapping list \<Rightarrow> SchemaObject \<Rightarrow> string \<Rightarrow> SchemaObjectPlanItem \<Rightarrow> SchemaObjectPlanItem \<times> bool" where
  "owned_binding ends mappings obj targetSchema item =
     (if \<not> equal_fold (so_Definition obj) ''OWNED'' then (item, True)
      else let item = item\<lparr>pi_TargetRelatedTo :=
          (case schemaObjectTargetRelatedTo obj mappings targetSchema of None \<Rightarrow> [] | Some r \<Rightarrow> r)\<rparr> in
        if pi_TargetRelatedTo item = []
        then (manual ''SERIAL sequence ownership cannot be mapped unambiguously to a target table/column'' item, False)
        else if \<not> pe_target_binding ends
        then (manual ''target connector cannot restore PostgreSQL sequence OWNED BY/default binding'' item, False)
        else (item, True))"

definition plan_sequence ::
  "plan_ends \<Rightarrow> TableMapping list \<Rightarrow> SchemaObject \<Rightarrow> string \<Rightarrow> SchemaObject option \<Rightarrow> SchemaObjectPlanItem \<Rightarrow>
   SchemaObjectPlanItem" where
  "plan_sequence ends mappings obj targetSchema existing item =
     (let identity = equal_fold (so_Definition obj) ''IDENTITY'' in
      if \<not> sequence_safe ends obj targetSchema
      then manual ''automatic sequence migration is limited to PostgreSQL-family targets with identical schema names'' item
      else if \<not> so_BindingKnown obj
      then manual ''sequence ownership/identity metadata is unavailable; automatic migration is disabled to avoid changing SERIAL/IDENTITY semantics'' item
      else if identity \<and> existing = None
      then manual ''identity-backed sequence has no matching target object; preserve PostgreSQL IDENTITY semantics manually instead of converting it to a plain sequence'' item
      else if identity \<and> \<not> equal_fold (so_Definition (the existing)) ''IDENTITY''
      then manual ''source sequence backs an IDENTITY column but the same-name target sequence is not identity-backed; automatic synchronization would change semantics'' item
      else case owned_binding ends mappings obj targetSchema item of (item, ok) \<Rightarrow>
        if \<not> ok then item
        else item\<lparr>pi_Action := SchemaObjectSyncSequence, pi_Reason := sequence_reason (existing \<noteq> None) obj\<rparr>)"

definition plan_view ::
  "plan_ends \<Rightarrow> SchemaObject \<Rightarrow> string \<Rightarrow> SchemaObject option \<Rightarrow> SchemaObjectPlanItem \<Rightarrow> SchemaObjectPlanItem" where
  "plan_view ends obj targetSchema existing item =
     (case existing of
        Some t \<Rightarrow>
          if pe_identity ends \<and> equivalentViewDefinition obj t
          then item\<lparr>pi_Action := SchemaObjectSkipExisting,
                 pi_Reason := ''target view already exists with an equivalent discovered definition''\<rparr>
          else manual ''target view already exists but its definition is different or cannot be proven equivalent; DTS will not overwrite it automatically'' item
      | None \<Rightarrow>
          if \<not> so_DependenciesKnown obj
          then manual ''view dependency metadata is unavailable; automatic creation is disabled to avoid applying dependent views out of order'' item
          else if pe_identity ends \<and> so_Schema obj = targetSchema \<and> trim_space (so_DDL obj) \<noteq> []
          then (if pe_target_ddl ends
                then item\<lparr>pi_Action := SchemaObjectApplySafe,
                  pi_Reason := ''same-family identity mapping; discovered view DDL can be applied safely after base tables exist''\<rparr>
                else manual ''target connector cannot execute DDL'' item)
          else manual ''view requires manual conversion because database family/schema/table/column mappings are not identity-safe'' item)"

text \<open>Each branch counts its item under the action it leaves.\<close>

definition add_item :: "SchemaObjectPlanItem \<Rightarrow> SchemaObjectPlan \<Rightarrow> SchemaObjectPlan" where
  "add_item item plan =
     (let a = pi_Action item in
      plan\<lparr>sp_Items := sp_Items plan @ [item],
        sp_SafeActions := sp_SafeActions plan + of_bool (a = SchemaObjectApplySafe \<or> a = SchemaObjectSyncSequence),
        sp_Skipped := sp_Skipped plan + of_bool (a = SchemaObjectSkipExisting),
        sp_Manual := sp_Manual plan + of_bool (a = SchemaObjectManual)\<rparr>)"

section \<open>The order of views\<close>

definition view_key :: "SchemaObjectPlanItem \<Rightarrow> string" where
  "view_key item = to_lower (objectName (so_Schema (pi_Source item)) (so_Name (pi_Source item)))"

definition safe_view :: "SchemaObjectPlanItem \<Rightarrow> bool" where
  "safe_view item \<longleftrightarrow> so_Type (pi_Source item) = SchemaObjectView \<and> pi_Action item = SchemaObjectApplySafe"

text \<open>The position of each view by name; of two with one name the later.\<close>

definition view_index :: "SchemaObjectPlanItem list \<Rightarrow> (string, nat) gomap" where
  "view_index items = fold (\<lambda>i. AList.update (view_key (items ! i)) i)
     (filter (\<lambda>i. safe_view (items ! i)) [0..<length items]) []"

text \<open>The views an item depends on, itself included, once for each mention.\<close>

definition view_deps :: "SchemaObjectPlanItem list \<Rightarrow> nat \<Rightarrow> nat list" where
  "view_deps items i = concat (map (\<lambda>d. case map_of (view_index items) (to_lower (trim_space d)) of
     None \<Rightarrow> [] | Some k \<Rightarrow> [k]) (so_Dependencies (pi_Source (items ! i))))"

definition view_edges :: "(nat \<Rightarrow> nat list) \<Rightarrow> nat list \<Rightarrow> nat \<Rightarrow> nat list" where
  "view_edges deps views k = concat (map (\<lambda>i. if i = k then [] else map (\<lambda>_. i) (filter ((=) k) (deps i))) views)"

text \<open>One dependency of each of these views is done; a view without others enters the queue.\<close>

fun release :: "(nat \<Rightarrow> string) \<Rightarrow> nat list \<Rightarrow> nat list \<times> (nat \<Rightarrow> int) \<Rightarrow> nat list \<times> (nat \<Rightarrow> int)" where
  "release name [] (queue, degree) = (queue, degree)"
| "release name (i # is) (queue, degree) =
     (let degree = degree(i := degree i - 1);
          queue = (if degree i = 0 then sort_key name (queue @ [i]) else queue)
      in release name is (queue, degree))"

fun kahn :: "nat \<Rightarrow> (nat \<Rightarrow> string) \<Rightarrow> (nat \<Rightarrow> nat list) \<Rightarrow> nat list \<Rightarrow> (nat \<Rightarrow> int) \<Rightarrow> nat list" where
  "kahn 0 name edges queue degree = []"
| "kahn (Suc n) name edges [] degree = []"
| "kahn (Suc n) name edges (i # queue) degree =
     (case release name (edges i) (queue, degree) of (queue', degree') \<Rightarrow> i # kahn n name edges queue' degree')"

definition view_order :: "SchemaObjectPlanItem list \<Rightarrow> nat list" where
  "view_order items =
     (let views = map snd (view_index items); deps = view_deps items; name = (\<lambda>i. view_key (items ! i));
          degree = (\<lambda>i. int (length (deps i)))
      in kahn (length views) name (view_edges deps views) (sort_key name (filter (\<lambda>i. degree i = 0) views)) degree)"

definition cycle_reason :: string where
  "cycle_reason = ''view dependency cycle detected; create the involved views manually in a coordinated order''"

text \<open>Sequences first, then the views in order, then the rest as it was.\<close>

definition new_order :: "SchemaObjectPlanItem list \<Rightarrow> nat list \<Rightarrow> nat list" where
  "new_order items ordered =
     (let syncs = filter (\<lambda>i. pi_Action (items ! i) = SchemaObjectSyncSequence) [0..<length items];
          views = filter (\<lambda>i. pi_Action (items ! i) = SchemaObjectApplySafe) ordered
      in syncs @ views @ filter (\<lambda>i. i \<notin> set syncs \<and> i \<notin> set views) [0..<length items])"

definition give_up :: "nat list \<Rightarrow> SchemaObjectPlanItem list \<Rightarrow> SchemaObjectPlanItem list" where
  "give_up stuck items = map (\<lambda>i. if i \<in> set stuck then manual cycle_reason (items ! i) else items ! i) [0..<length items]"

definition finalizeSchemaObjectViewDependencies :: "SchemaObjectPlan \<Rightarrow> SchemaObjectPlan" where
  "finalizeSchemaObjectViewDependencies plan =
     (let items = sp_Items plan; views = map snd (view_index items); ordered = view_order items;
          stuck = filter (\<lambda>i. i \<notin> set ordered) views; items' = give_up stuck items
      in if views = [] then plan
         else plan\<lparr>sp_Items := map ((!) items') (new_order items' ordered),
           sp_SafeActions := sp_SafeActions plan - int (length stuck), sp_Manual := sp_Manual plan + int (length stuck)\<rparr>)"

section \<open>Kahn's algorithm is right\<close>

lemma count_list_map_const: "count_list (map (\<lambda>_. i) xs) j = (if i = j then length xs else 0)"
  by (induction xs) auto

lemma count_list_concat: "count_list (concat xss) x = sum_list (map (\<lambda>xs. count_list xs x) xss)"
  by (induction xss) (simp_all add: count_list_append)

lemma count_edges:
  assumes "distinct V"
  shows "count_list (view_edges D V k) i = (if i \<in> set V \<and> i \<noteq> k then count_list (D i) k else 0)"
  using assms
proof (induction V)
  case (Cons v V)
  have "length (filter ((=) k) (D v)) = count_list (D v) k" by (simp add: count_list_eq_length_filter)
  with Cons show ?case by (auto simp: view_edges_def count_list_append count_list_map_const)
qed (simp add: view_edges_def)

lemma release_spec:
  assumes "\<forall>j \<in> set es. int (count_list es j) \<le> degree j" "distinct q" "set es \<inter> set q = {}"
  shows "\<exists>q'. release name es (q, degree) = (q', \<lambda>j. degree j - int (count_list es j))
    \<and> distinct q' \<and> set q' = set q \<union> {j \<in> set es. degree j = int (count_list es j)}"
  using assms
proof (induction es arbitrary: q degree)
  case (Cons i es)
  define d1 where "d1 = degree(i := degree i - 1)"
  define q1 where "q1 = (if d1 i = 0 then sort_key name (q @ [i]) else q)"
  have last: "i \<notin> set es" if "d1 i = 0"
  proof -
    have "count_list es i = 0" using that Cons.prems(1) by (simp add: d1_def)
    then show ?thesis by (simp add: count_list_0_iff)
  qed
  have "\<forall>j \<in> set es. int (count_list es j) \<le> d1 j" using Cons.prems(1) by (auto simp: d1_def split: if_splits)
  moreover have "distinct q1" using Cons.prems(2,3) by (auto simp: q1_def)
  moreover have "set es \<inter> set q1 = {}" using Cons.prems(3) last by (auto simp: q1_def)
  ultimately obtain q' where q': "release name es (q1, d1) = (q', \<lambda>j. d1 j - int (count_list es j))" "distinct q'"
      "set q' = set q1 \<union> {j \<in> set es. d1 j = int (count_list es j)}"
    using Cons.IH by blast
  have "release name (i # es) (q, degree) = (q', \<lambda>j. degree j - int (count_list (i # es) j))"
    using q'(1) by (auto simp: q1_def d1_def Let_def fun_eq_iff)
  moreover have "set q' = set q \<union> {j \<in> set (i # es). degree j = int (count_list (i # es) j)}"
    unfolding q'(3) using last by (auto simp: q1_def d1_def count_list_0_iff split: if_splits)
  ultimately show ?case using q'(2) by blast
qed simp

text \<open>What holds when \<open>done\<close> is ordered and \<open>q\<close> waits.\<close>

definition kahn_inv :: "(nat \<Rightarrow> nat list) \<Rightarrow> nat list \<Rightarrow> nat list \<Rightarrow> nat list \<Rightarrow> (nat \<Rightarrow> int) \<Rightarrow> bool" where
  "kahn_inv D V ready q degree \<longleftrightarrow> distinct (ready @ q) \<and> set (ready @ q) \<subseteq> set V
     \<and> (\<forall>i \<in> set V. degree i = int (length (filter (\<lambda>d. d \<notin> set ready \<or> d = i) (D i))))
     \<and> (\<forall>i \<in> set V. i \<in> set (ready @ q) \<longleftrightarrow> degree i = 0)
     \<and> (\<forall>xs i ys. ready = xs @ i # ys \<longrightarrow> set (D i) \<subseteq> set xs)"

lemma filter_one_more:
  assumes "i \<notin> set ready" "j \<noteq> i"
  shows "length (filter (\<lambda>d. d \<notin> set ready \<or> d = j) ds)
    = length (filter (\<lambda>d. d \<notin> set (ready @ [i]) \<or> d = j) ds) + count_list ds i"
  using assms by (induction ds) auto

lemma kahn_step:
  assumes inv: "kahn_inv D V ready (i # q) degree" and V: "distinct V"
  shows "\<exists>q' degree'. release name (view_edges D V i) (q, degree) = (q', degree') \<and> kahn_inv D V (ready @ [i]) q' degree'"
proof -
  let ?es = "view_edges D V i"
  have i: "i \<in> set V" "i \<notin> set ready" "i \<notin> set q" "distinct (ready @ i # q)" "degree i = 0"
    and deg: "\<forall>j \<in> set V. degree j = int (length (filter (\<lambda>d. d \<notin> set ready \<or> d = j) (D j)))"
    and zero: "\<forall>j \<in> set V. j \<in> set (ready @ i # q) \<longleftrightarrow> degree j = 0"
    and sub: "set (ready @ i # q) \<subseteq> set V"
    and ord: "\<And>xs j ys. ready = xs @ j # ys \<Longrightarrow> set (D j) \<subseteq> set xs"
    using inv by (auto simp: kahn_inv_def)
  have cnt: "count_list ?es j = (if j \<in> set V \<and> j \<noteq> i then count_list (D j) i else 0)" for j
    by (rule count_edges [OF V])
  have es: "j \<in> set V \<and> j \<noteq> i \<and> i \<in> set (D j)" if "j \<in> set ?es" for j
    using that cnt [of j] count_list_0_iff [of ?es j] count_list_0_iff [of "D j" i] by (auto split: if_splits)
  have deg': "degree j - int (count_list ?es j)
      = int (length (filter (\<lambda>d. d \<notin> set (ready @ [i]) \<or> d = j) (D j)))" if "j \<in> set V" for j
  proof (cases "j = i")
    case True
    then show ?thesis using deg that cnt [of j] i(5)
      by (auto simp: filter_empty_conv)
  next
    case False
    then show ?thesis using filter_one_more [OF i(2) False, of "D j"] deg that cnt [of j] by simp
  qed
  have a: "\<forall>j \<in> set ?es. int (count_list ?es j) \<le> degree j"
  proof
    fix j assume "j \<in> set ?es"
    then have "j \<in> set V" using es by blast
    from deg' [OF this] show "int (count_list ?es j) \<le> degree j" by linarith
  qed
  have pos: "degree j \<noteq> 0" if "j \<in> set ?es" for j
    using a that count_list_0_iff [of ?es j] by fastforce
  have b: "set ?es \<inter> set q = {}" using pos zero es by fastforce
  obtain q' where q': "release name ?es (q, degree) = (q', \<lambda>j. degree j - int (count_list ?es j))" "distinct q'"
      "set q' = set q \<union> {j \<in> set ?es. degree j = int (count_list ?es j)}"
    using release_spec [OF a _ b, of name] i(4) by force
  have new: "j \<notin> set (ready @ [i])" if "j \<in> set ?es" for j
    using pos [OF that] zero es [OF that] by auto
  have "kahn_inv D V (ready @ [i]) q' (\<lambda>j. degree j - int (count_list ?es j))"
    unfolding kahn_inv_def
  proof (intro conjI)
    show "distinct ((ready @ [i]) @ q')" using i(4) q'(2,3) new by auto
    show "set ((ready @ [i]) @ q') \<subseteq> set V" using sub q'(3) es by auto
    show "\<forall>j \<in> set V. degree j - int (count_list ?es j)
        = int (length (filter (\<lambda>d. d \<notin> set (ready @ [i]) \<or> d = j) (D j)))" using deg' by blast
    show "\<forall>j \<in> set V. j \<in> set ((ready @ [i]) @ q') \<longleftrightarrow> degree j - int (count_list ?es j) = 0"
    proof
      fix j assume j: "j \<in> set V"
      show "j \<in> set ((ready @ [i]) @ q') \<longleftrightarrow> degree j - int (count_list ?es j) = 0"
      proof (cases "j \<in> set ?es")
        case True
        then show ?thesis using q'(3) new b by auto
      next
        case False
        then have "count_list ?es j = 0" by (simp add: count_list_0_iff)
        then show ?thesis using zero j q'(3) False by auto
      qed
    qed
    show "\<forall>xs j ys. ready @ [i] = xs @ j # ys \<longrightarrow> set (D j) \<subseteq> set xs"
    proof (intro allI impI)
      fix xs j ys assume *: "ready @ [i] = xs @ j # ys"
      show "set (D j) \<subseteq> set xs"
      proof (cases ys rule: rev_cases)
        case Nil
        then have "xs = ready" "j = i" using * by auto
        moreover have "\<forall>d \<in> set (D i). d \<in> set ready" using deg i(1,5) by (auto simp: filter_empty_conv)
        ultimately show ?thesis by blast
      next
        case (snoc zs z)
        then have "ready = xs @ j # zs" using * by simp
        then show ?thesis by (rule ord)
      qed
    qed
  qed
  with q'(1) show ?thesis by blast
qed

lemma kahn_correct:
  assumes "kahn_inv D V ready q degree" "distinct V" "length V \<le> length ready + n"
  shows "\<exists>degree'. kahn_inv D V (ready @ kahn n name (view_edges D V) q degree) [] degree'"
  using assms
proof (induction n arbitrary: ready q degree)
  case 0
  have "card (set (ready @ q)) \<le> card (set V)"
    using 0(1) by (intro card_mono) (auto simp: kahn_inv_def)
  moreover have "card (set (ready @ q)) = length (ready @ q)"
    by (rule distinct_card) (use 0(1) in \<open>simp add: kahn_inv_def\<close>)
  moreover have "card (set V) = length V" using 0(2) by (rule distinct_card)
  ultimately have "length q = 0" using 0(3) length_append [of ready q] by linarith
  with 0(1) show ?case by auto
next
  case (Suc n)
  show ?case
  proof (cases q)
    case Nil
    with Suc.prems show ?thesis by auto
  next
    case (Cons i r)
    with Suc.prems(1,2) obtain q' degree' where
      r: "release name (view_edges D V i) (r, degree) = (q', degree')" "kahn_inv D V (ready @ [i]) q' degree'"
      using kahn_step by blast
    show ?thesis using Suc.IH [OF r(2) Suc.prems(2)] Suc.prems(3) by (simp add: Cons r(1))
  qed
qed

lemma kahn_order:
  fixes name :: "nat \<Rightarrow> string"
  assumes V: "distinct V" and D: "\<forall>i \<in> set V. set (D i) \<subseteq> set V"
  defines "degree \<equiv> (\<lambda>i. int (length (D i)))"
  defines "r \<equiv> kahn (length V) name (view_edges D V) (sort_key name (filter (\<lambda>i. degree i = 0) V)) degree"
  shows "distinct r" "set r \<subseteq> set V" "\<And>xs i ys. r = xs @ i # ys \<Longrightarrow> set (D i) \<subseteq> set xs"
    "\<And>i. i \<in> set V - set r \<Longrightarrow> \<exists>d \<in> set (D i). d \<in> set V - set r"
proof -
  have "kahn_inv D V [] (sort_key name (filter (\<lambda>i. degree i = 0) V)) degree"
    using V by (auto simp: kahn_inv_def degree_def)
  from kahn_correct [OF this V, of "length V" name] obtain degree' where inv: "kahn_inv D V r [] degree'"
    by (auto simp: r_def)
  then show "distinct r" "set r \<subseteq> set V" "\<And>xs i ys. r = xs @ i # ys \<Longrightarrow> set (D i) \<subseteq> set xs"
    by (simp_all add: kahn_inv_def)
  fix i assume i: "i \<in> set V - set r"
  with inv have "degree' i \<noteq> 0" "degree' i = int (length (filter (\<lambda>d. d \<notin> set r \<or> d = i) (D i)))"
    by (auto simp: kahn_inv_def)
  then have "filter (\<lambda>d. d \<notin> set r \<or> d = i) (D i) \<noteq> []" by auto
  then obtain d where "d \<in> set (D i)" "d \<notin> set r \<or> d = i" by (auto simp: filter_empty_conv)
  with i D show "\<exists>d \<in> set (D i). d \<in> set V - set r" by auto
qed

section \<open>The plan after the views are ordered\<close>

lemma view_index_fold:
  assumes "distinct (map (\<lambda>i. view_key (items ! i)) is)" "distinct (map fst m)"
    "set (map fst m) \<inter> set (map (\<lambda>i. view_key (items ! i)) is) = {}"
  shows "fold (\<lambda>i. AList.update (view_key (items ! i)) i) is m = m @ map (\<lambda>i. (view_key (items ! i), i)) is"
  using assms
proof (induction "is" arbitrary: m)
  case (Cons i "is")
  have "AList.update (view_key (items ! i)) i m = m @ [(view_key (items ! i), i)]"
    using Cons.prems(3) by (induction m) auto
  with Cons show ?case by auto
qed simp

abbreviation safe_positions :: "SchemaObjectPlanItem list \<Rightarrow> nat list" where
  "safe_positions items \<equiv> filter (\<lambda>i. safe_view (items ! i)) [0..<length items]"

abbreviation distinct_views :: "SchemaObjectPlanItem list \<Rightarrow> bool" where
  "distinct_views items \<equiv> distinct (map (\<lambda>i. view_key (items ! i)) (safe_positions items))"

lemma view_index_distinct:
  assumes "distinct_views items"
  shows "view_index items = map (\<lambda>i. (view_key (items ! i), i)) (safe_positions items)"
  using view_index_fold [OF assms, of "[]"] by (simp add: view_index_def)

lemma view_deps_iff:
  assumes "distinct_views items"
  shows "k \<in> set (view_deps items i) \<longleftrightarrow> k < length items \<and> safe_view (items ! k)
    \<and> view_key (items ! k) \<in> (\<lambda>d. to_lower (trim_space d)) ` set (so_Dependencies (pi_Source (items ! i)))"
proof -
  have d: "distinct (map fst (map (\<lambda>i. (view_key (items ! i), i)) (safe_positions items)))"
    using assms by (simp add: comp_def)
  have "map_of (view_index items) d = Some k \<longleftrightarrow> k < length items \<and> safe_view (items ! k) \<and> view_key (items ! k) = d" for d
    unfolding view_index_distinct [OF assms] map_of_eq_Some_iff [OF d] by auto
  moreover have "k \<in> set (case x of None \<Rightarrow> [] | Some k \<Rightarrow> [k]) \<longleftrightarrow> x = Some k" for x by (cases x) auto
  ultimately show ?thesis by (auto simp: view_deps_def)
qed

definition dep_keys :: "SchemaObjectPlanItem \<Rightarrow> string set" where
  "dep_keys v = (\<lambda>d. to_lower (trim_space d)) ` set (so_Dependencies (pi_Source v))"

lemma view_order_spec:
  assumes "distinct_views items"
  shows "distinct (view_order items)" "set (view_order items) \<subseteq> set (safe_positions items)"
    "\<And>xs i ys. view_order items = xs @ i # ys \<Longrightarrow> set (view_deps items i) \<subseteq> set xs"
    "\<And>i. i \<in> set (safe_positions items) - set (view_order items)
      \<Longrightarrow> \<exists>d \<in> set (view_deps items i). d \<in> set (safe_positions items) - set (view_order items)"
proof -
  have V: "map snd (view_index items) = safe_positions items"
    by (simp add: view_index_distinct [OF assms] comp_def)
  have "\<forall>i \<in> set (safe_positions items). set (view_deps items i) \<subseteq> set (safe_positions items)"
    by (auto simp: view_deps_iff [OF assms])
  note k = kahn_order [OF _ this, where name = "\<lambda>i. view_key (items ! i)"]
  have *: "view_order items = kahn (length (safe_positions items)) (\<lambda>i. view_key (items ! i))
      (view_edges (view_deps items) (safe_positions items))
      (sort_key (\<lambda>i. view_key (items ! i)) (filter (\<lambda>i. int (length (view_deps items i)) = 0) (safe_positions items)))
      (\<lambda>i. int (length (view_deps items i)))"
    unfolding view_order_def Let_def V ..
  show "distinct (view_order items)" unfolding * by (rule k(1)) simp
  show "set (view_order items) \<subseteq> set (safe_positions items)" unfolding * by (rule k(2)) simp
  show "\<And>xs i ys. view_order items = xs @ i # ys \<Longrightarrow> set (view_deps items i) \<subseteq> set xs"
    unfolding * by (rule k(3), simp, assumption)
  show "\<And>i. i \<in> set (safe_positions items) - set (view_order items)
      \<Longrightarrow> \<exists>d \<in> set (view_deps items i). d \<in> set (safe_positions items) - set (view_order items)"
    unfolding * by (rule k(4), simp, assumption)
qed

abbreviation stuck_views :: "SchemaObjectPlanItem list \<Rightarrow> nat list" where
  "stuck_views items \<equiv> filter (\<lambda>i. i \<notin> set (view_order items)) (map snd (view_index items))"

lemma nth_give_up:
  "i < length items \<Longrightarrow> give_up stuck items ! i = (if i \<in> set stuck then manual cycle_reason (items ! i) else items ! i)"
  by (simp add: give_up_def)

lemma length_give_up [simp]: "length (give_up stuck items) = length items"
  by (simp add: give_up_def)

lemma give_up_source: "i < length items \<Longrightarrow> pi_Source (give_up stuck items ! i) = pi_Source (items ! i)"
  by (simp add: nth_give_up manual_def)

lemma safe_after:
  assumes "distinct_views items" "i < length items"
  shows "safe_view (give_up (stuck_views items) items ! i) \<longleftrightarrow> i \<in> set (view_order items)"
  using view_order_spec(2) [OF assms(1)] assms
  by (auto simp: nth_give_up view_index_distinct safe_view_def manual_def)

lemma new_order_perm:
  assumes "distinct_views items"
  defines "items' \<equiv> give_up (stuck_views items) items"
  shows "mset (new_order items' (view_order items)) = mset [0..<length items]"
    "\<exists>syncs rest. new_order items' (view_order items) = syncs @ view_order items @ rest"
proof -
  have safe: "pi_Action (items' ! i) = SchemaObjectApplySafe" if "i \<in> set (view_order items)" for i
    using safe_after [OF assms(1), of i] that view_order_spec(2) [OF assms(1)]
    by (auto simp: items'_def safe_view_def)
  then have v: "filter (\<lambda>i. pi_Action (items' ! i) = SchemaObjectApplySafe) (view_order items) = view_order items"
    by (simp add: filter_id_conv)
  show "\<exists>syncs rest. new_order items' (view_order items) = syncs @ view_order items @ rest"
    unfolding new_order_def Let_def v by blast
  let ?n = "length items" and ?s = "\<lambda>i. pi_Action (items' ! i) = SchemaObjectSyncSequence"
  let ?o = "view_order items"
  have "mset ?o = mset (filter (\<lambda>i. i \<in> set ?o) [0..<?n])"
    using view_order_spec(1,2) [OF assms(1)] by (subst set_eq_iff_mset_eq_distinct [symmetric]) auto
  moreover have "filter (\<lambda>i. i \<notin> set (filter ?s [0..<?n]) \<and> i \<notin> set ?o) [0..<?n]
      = filter (\<lambda>i. \<not> ?s i \<and> i \<notin> set ?o) [0..<?n]" by (rule filter_cong) auto
  moreover have "filter (\<lambda>i. i \<in> set ?o) [0..<?n] = filter (\<lambda>i. \<not> ?s i \<and> i \<in> set ?o) [0..<?n]"
    using safe by (intro filter_cong) auto
  ultimately have *: "mset (new_order items' ?o) = filter_mset ?s (mset [0..<?n])
      + (filter_mset (\<lambda>i. \<not> ?s i \<and> i \<in> set ?o) (mset [0..<?n])
      + filter_mset (\<lambda>i. \<not> ?s i \<and> i \<notin> set ?o) (mset [0..<?n]))"
    unfolding new_order_def Let_def v by (simp add: items'_def mset_filter del: mset_upt)
  have "filter_mset (\<lambda>i. \<not> ?s i \<and> i \<in> set ?o) M + filter_mset (\<lambda>i. \<not> ?s i \<and> i \<notin> set ?o) M
      = filter_mset (\<lambda>i. \<not> ?s i) M" for M :: "nat multiset"
    by (induction M) auto
  then show "mset (new_order items' ?o) = mset [0..<?n]" unfolding * by (simp only: multiset_partition [symmetric])
qed

lemma no_rank_stuck:
  assumes "distinct_views items"
    and "\<And>i k. i < length items \<Longrightarrow> safe_view (items ! i) \<Longrightarrow> k \<in> set (view_deps items i) \<Longrightarrow> (rank k :: nat) < rank i"
  shows "stuck_views items = []"
proof (rule ccontr)
  let ?S = "set (safe_positions items) - set (view_order items)"
  assume "stuck_views items \<noteq> []"
  then have "?S \<noteq> {}" by (auto simp: view_index_distinct [OF assms(1)] filter_empty_conv)
  then obtain i where i: "i \<in> ?S" "\<And>j. j \<in> ?S \<Longrightarrow> rank i \<le> rank j"
    using exists_least_iff [of "\<lambda>r. \<exists>i \<in> ?S. rank i = r"] by (metis (no_types, lifting) not_le ex_in_conv)
  obtain d where "d \<in> set (view_deps items i)" "d \<in> ?S" using view_order_spec(4) [OF assms(1) i(1)] by blast
  with i(1) i(2) [of d] assms(2) [of i d] show False by auto
qed

text \<open>The items in their new order.\<close>

definition finished_items :: "SchemaObjectPlanItem list \<Rightarrow> SchemaObjectPlanItem list" where
  "finished_items its = (let new = give_up (stuck_views its) its in map ((!) new) (new_order new (view_order its)))"

lemma finalized:
  assumes "map snd (view_index (sp_Items plan)) \<noteq> []"
  shows "finalizeSchemaObjectViewDependencies plan = plan\<lparr>sp_Items := finished_items (sp_Items plan),
     sp_SafeActions := sp_SafeActions plan - int (length (stuck_views (sp_Items plan))),
     sp_Manual := sp_Manual plan + int (length (stuck_views (sp_Items plan)))\<rparr>"
  using assms unfolding finalizeSchemaObjectViewDependencies_def Let_def finished_items_def by (simp only: if_False)

lemma no_safe_views:
  assumes "distinct_views its" "map snd (view_index its) = []" "v \<in> set its"
  shows "\<not> safe_view v"
  using assms by (auto simp: view_index_distinct [OF assms(1)] filter_empty_conv in_set_conv_nth)

lemma finished_perm:
  assumes "distinct_views its"
  shows "mset (map f (finished_items its)) = mset (map f (give_up (stuck_views its) its))"
proof -
  let ?new = "give_up (stuck_views its) its"
  have "mset (map f (finished_items its)) = image_mset (\<lambda>i. f (?new ! i)) (mset (new_order ?new (view_order its)))"
    by (simp add: finished_items_def Let_def multiset.map_comp comp_def)
  also have "\<dots> = mset (map f (map ((!) ?new) [0..<length ?new]))"
    unfolding new_order_perm(1) [OF assms] by (simp add: multiset.map_comp comp_def)
  finally show ?thesis by (simp only: map_nth)
qed

lemma finished_sources:
  assumes "distinct_views its"
  shows "mset (map pi_Source (finished_items its)) = mset (map pi_Source its)"
proof -
  have "map pi_Source (give_up (stuck_views its) its) = map pi_Source its"
    by (rule nth_equalityI) (simp_all add: give_up_source)
  then show ?thesis by (simp only: finished_perm [OF assms])
qed

lemma finished_in_order:
  assumes d: "distinct_views its" and split: "finished_items its = xs @ v # ys" and v: "safe_view v"
    and w: "w \<in> set (finished_items its)" "safe_view w" and dep: "view_key w \<in> dep_keys v"
  shows "w \<in> set xs"
proof -
  let ?new = "give_up (stuck_views its) its" and ?order = "new_order (give_up (stuck_views its) its) (view_order its)"
  note spec = view_order_spec [OF d]
  obtain ps p qs where P: "?order = ps @ p # qs" "xs = map ((!) ?new) ps" "v = ?new ! p"
    using split unfolding finished_items_def Let_def by (auto simp: map_eq_append_conv)
  have all: "set ?order = {0..<length its}" "distinct ?order"
    using new_order_perm(1) [OF d] by (metis set_mset_mset set_upt, metis distinct_upt mset_eq_imp_distinct_iff)
  have p: "p < length its" using all(1) unfolding P(1) by auto
  obtain a where a: "a < length its" "w = ?new ! a" using w(1) all(1) unfolding finished_items_def Let_def by auto
  have in_order: "p \<in> set (view_order its)" "a \<in> set (view_order its)"
    using safe_after [OF d] p a v w(2) P(3) by auto
  then have "safe_view (its ! p)" "safe_view (its ! a)" using spec(2) by auto
  moreover have "view_key w = view_key (its ! a)" "dep_keys v = dep_keys (its ! p)"
    using a p P(3) by (simp_all add: view_key_def dep_keys_def give_up_source)
  ultimately have "a \<in> set (view_deps its p)" using dep a(1) by (simp add: view_deps_iff [OF d] dep_keys_def)
  moreover obtain os1 os2 where o: "view_order its = os1 @ p # os2" using in_order(1) by (metis split_list)
  ultimately have "a \<in> set os1" using spec(3) by blast
  moreover obtain syncs rest where "?order = syncs @ view_order its @ rest" using new_order_perm(2) [OF d] by blast
  then have two: "ps @ p # qs = (syncs @ os1) @ p # (os2 @ rest)" using P(1) o by simp
  have "distinct (ps @ p # qs)" using all(2) P(1) by simp
  then have "p \<notin> set ps" "p \<notin> set qs" by simp_all
  with two have "ps = syncs @ os1" using append_Cons_eq_iff [of p ps qs "syncs @ os1" "os2 @ rest"] by blast
  ultimately show ?thesis using P(2) a(2) by auto
qed

text \<open>Nothing is given up when the dependencies have no cycle.\<close>

abbreviation ranked :: "SchemaObjectPlanItem list \<Rightarrow> (string \<Rightarrow> nat) \<Rightarrow> bool" where
  "ranked its rank \<equiv> \<forall>v \<in> set its. \<forall>w \<in> set its.
     safe_view v \<and> safe_view w \<and> view_key w \<in> dep_keys v \<longrightarrow> rank (view_key w) < rank (view_key v)"

lemma finished_acyclic:
  assumes d: "distinct_views its" and rank: "ranked its rank"
  shows "mset (finished_items its) = mset its"
proof -
  have "stuck_views its = []"
    by (rule no_rank_stuck [OF d, where rank = "\<lambda>i. rank (view_key (its ! i))"])
      (use rank in \<open>auto simp: view_deps_iff [OF d] dep_keys_def\<close>)
  then have "give_up (stuck_views its) its = its" by (simp add: give_up_def map_nth)
  then show ?thesis using finished_perm [OF d, of id] by simp
qed


definition demo_view :: "string \<Rightarrow> string list \<Rightarrow> SchemaObjectPlanItem" where
  "demo_view name deps = \<lparr>pi_Source = \<lparr>so_Schema = ''app'', so_Name = name, so_Type = SchemaObjectView, so_RelatedTo = [],
      so_DDL = ''create view'', so_Definition = [], so_Dependencies = deps, so_DependenciesKnown = True,
      so_BindingKnown = False\<rparr>, pi_TargetSchema = ''app'', pi_TargetName = name, pi_TargetRelatedTo = [],
    pi_TargetExists = False, pi_Action = SchemaObjectApplySafe, pi_Reason = [], pi_TargetDDL = [],
    pi_TranslationEvidenceSHA256 = []\<rparr>"

definition demo_plan_views :: SchemaObjectPlan where
  "demo_plan_views = \<lparr>sp_TaskID = ''mig_1'', sp_SafeActions = 4, sp_Manual = 0, sp_Skipped = 0,
     sp_Items = [demo_view ''C'' [''app.B''], demo_view ''B'' [''app.a''], demo_view ''loop'' [''app.loop''], demo_view ''A'' []],
     sp_PlannedAt = 0\<rparr>"


end
