(* ===== verification/SchemaPlan.thy ===== *)
theory SchemaPlan
  imports SchemaObjects ChunkOps
begin

text \<open>
  Planning and applying schema objects with the connectors: \<open>PlanSchemaObjects\<close>,
  \<open>ApplySchemaObjects\<close> and \<open>resolveMappings\<close> of \<open>backend/internal/migration/service.go\<close>, and the checks of
  \<open>backend/internal/schematranslate/provider.go\<close> on a translation. The answer of the translation
  service is a parameter of the environment.
\<close>

section \<open>Connectors\<close>

definition connect :: "DataSource \<Rightarrow> Target svc" where
  "connect ds = bnd (env (\<lambda>E. sv_connect E ds)) (\<lambda>c. case c of Inl e \<Rightarrow> fail (text_error e) | Inr T \<Rightarrow> ret T)"

definition closing :: "Target \<Rightarrow> 'a svc \<Rightarrow> 'a svc" where
  "closing T m = deferred m (ignore (call_target T CloseTarget))"

definition asked :: "string \<Rightarrow> Target \<Rightarrow> (Target \<Rightarrow> target_call list \<Rightarrow> 'a) \<Rightarrow> target_call \<Rightarrow> 'a svc" where
  "asked msg T f c = bnd (ask T f c) (\<lambda>r. case r of
     Inl e \<Rightarrow> fail (if msg = [] then text_error e else Wrapped msg (text_error e)) | Inr x \<Rightarrow> ret x)"

section \<open>Table mappings\<close>

definition complete_mapping :: "string \<Rightarrow> string \<Rightarrow> TableMapping \<Rightarrow> string + TableMapping" where
  "complete_mapping sourceSchema targetSchema x =
     (let source = or_text (tmap_SourceSchema x) sourceSchema;
          target = or_text (or_text (tmap_TargetSchema x) targetSchema) source in
      if tmap_SourceTable x = [] then Inl ''source_table is required''
      else if source = [] \<or> target = [] then Inl ''source/target schema is required''
      else Inr (x\<lparr>tmap_SourceSchema := source, tmap_TargetSchema := target,
        tmap_TargetTable := or_text (tmap_TargetTable x) (tmap_SourceTable x)\<rparr>))"

fun complete_mappings :: "string \<Rightarrow> string \<Rightarrow> TableMapping list \<Rightarrow> string + TableMapping list" where
  "complete_mappings s t [] = Inr []"
| "complete_mappings s t (x # xs) = (case complete_mapping s t x of
     Inl e \<Rightarrow> Inl e
   | Inr y \<Rightarrow> (case complete_mappings s t xs of Inl e \<Rightarrow> Inl e | Inr ys \<Rightarrow> Inr (y # ys)))"

definition table_mapping :: "string \<Rightarrow> TableInfo \<Rightarrow> TableMapping" where
  "table_mapping target t = \<lparr>tmap_SourceSchema = ti_Schema t, tmap_SourceTable = ti_Name t, tmap_TargetSchema = target,
     tmap_TargetTable = ti_Name t, tmap_Columns = [], tmap_SplitStrategy = [], tmap_Partitions = [],
     tmap_HashBuckets = 0, tmap_CustomWhere = []\<rparr>"

definition resolveMappings ::
  "Target \<Rightarrow> DataSource \<Rightarrow> DataSource \<Rightarrow> TableMapping list \<Rightarrow> TableMapping list svc" where
  "resolveMappings src sourceDS targetDS configured =
     (let source = defaultSchema sourceDS; target = defaultSchema targetDS in
      if configured \<noteq> []
      then (case complete_mappings source target configured of Inl e \<Rightarrow> fail (text_error e) | Inr ms \<Rightarrow> ret ms)
      else if source = []
      then fail (text_error ''source datasource default schema/database is required when tables are not explicitly configured'')
      else bnd (asked [] src tg_tables (ListTables source)) (\<lambda>tables.
        ret (map (table_mapping (or_text target source)) tables)))"

section \<open>Translations\<close>

definition trim_right_slashes :: "string \<Rightarrow> string" where
  "trim_right_slashes s = rev (dropWhile (\<lambda>c. c = CHR ''/'') (rev s))"

text \<open>Whether a translation service is configured, or the error of its certificate.\<close>

definition FromEnv :: "Env \<Rightarrow> string + bool" where
  "FromEnv E =
     (let u = trim_right_slashes (trim_space (sv_env E ''DTS_SCHEMA_TRANSLATION_URL'')) in
      if u = [] then Inr False
      else if prefix ''https://'' (to_lower u) \<and> trim_space (sv_env E ''DTS_SCHEMA_TRANSLATION_CA'') \<noteq> [] \<and> sv_tls E \<noteq> None
      then Inl ''schema translation CA contains no certificate'' else Inr True)"

definition check_translation :: "TranslationResponse \<Rightarrow> string + TranslationResponse" where
  "check_translation answer =
     (let out = answer\<lparr>tr_TargetDDL := trim_space (tr_TargetDDL answer)\<rparr> in
      if tr_TargetDDL out = [] then Inl ''schema translation provider returned empty target DDL''
      else if \<not> tr_SemanticReview out \<or> \<not> tr_SideEffectReview out \<or> \<not> tr_SafeAutoApply out
      then Inl ''schema translation provider did not attest semantic/side-effect/safe-auto-apply review''
      else if \<not> equal_fold (trim_space (tr_TargetDDLSHA256 out)) (hex_encode (sha256 (tr_TargetDDL out)))
      then Inl ''schema translation provider target DDL SHA-256 proof mismatch''
      else Inr out)"

definition Translate :: "TranslationRequest \<Rightarrow> (string + TranslationResponse) svc" where
  "Translate q =
     (if trim_space (tq_SourceDDL q) = [] then ret (Inl ''schema translation requires source DDL'')
      else tick (\<lambda>n E w. (w, Done (case sv_translation E n q of Inl e \<Rightarrow> Inl e | Inr r \<Rightarrow> check_translation r))))"

section \<open>The plan\<close>

type_synonym catalog = "(string, SchemaObject) gomap"

definition read_catalog :: "Target option \<Rightarrow> string \<Rightarrow> catalog svc" where
  "read_catalog dst schema = (case dst of
     None \<Rightarrow> ret []
   | Some D \<Rightarrow>
       if \<not> tg_schema_objects D \<or> schema = [] then ret []
       else bnd (ask D tg_schemas ListSchemas) (\<lambda>r. case r of
           Inl _ \<Rightarrow> ret []
         | Inr names \<Rightarrow>
             if \<not> list_ex (\<lambda>n. equal_fold n schema) names then ret []
             else bnd (ask D tg_objects (ListSchemaObjects schema)) (\<lambda>r. case r of
                 Inl _ \<Rightarrow> ret []
               | Inr objs \<Rightarrow> ret (fold (\<lambda>x. AList.update (schemaObjectKey (so_Type x) (so_Name x)) x) objs []))))"

definition load_catalog ::
  "Target option \<Rightarrow> string \<Rightarrow> (string, catalog) gomap \<Rightarrow> ((string, catalog) gomap \<times> catalog) svc" where
  "load_catalog dst schema cache =
     (case map_of cache (to_lower schema) of
        Some c \<Rightarrow> ret (cache, c)
      | None \<Rightarrow> bnd (read_catalog dst schema) (\<lambda>c. ret (AList.update (to_lower schema) c cache, c)))"

definition routine_reason :: string where
  "routine_reason = ''stored procedural object requires semantic and side-effect review''"

definition plan_routine ::
  "bool \<Rightarrow> plan_ends \<Rightarrow> SchemaObject \<Rightarrow> string \<Rightarrow> SchemaObjectPlanItem \<Rightarrow> SchemaObjectPlanItem svc" where
  "plan_routine translator ends obj targetSchema item =
     (if \<not> translator \<or> \<not> pe_target_ddl ends \<or> trim_space (so_DDL obj) = [] then ret (manual routine_reason item)
      else bnd (Translate \<lparr>tq_SourceFamily = DataSourceType_string (ds_Type (pe_source ends)),
            tq_TargetFamily = DataSourceType_string (ds_Type (pe_target ends)),
            tq_ObjectType = SchemaObjectType_string (so_Type obj), tq_SourceSchema = so_Schema obj,
            tq_TargetSchema = targetSchema, tq_Name = so_Name obj, tq_SourceDDL = so_DDL obj\<rparr>) (\<lambda>r. case r of
          Inl e \<Rightarrow> ret (manual (routine_reason @ '': '' @ e) item)
        | Inr t \<Rightarrow> ret (item\<lparr>pi_Action := SchemaObjectApplySafe, pi_TargetDDL := tr_TargetDDL t,
            pi_TranslationEvidenceSHA256 := tr_TargetDDLSHA256 t,
            pi_Reason := ''external translation provider attested semantic/side-effect review and deterministic target DDL''\<rparr>)))"

definition new_item :: "SchemaObject \<Rightarrow> string \<Rightarrow> SchemaObjectPlanItem" where
  "new_item obj schema = \<lparr>pi_Source = obj, pi_TargetSchema = schema, pi_TargetName = so_Name obj, pi_TargetRelatedTo = [],
     pi_TargetExists = False, pi_Action = SchemaObjectManual, pi_Reason = [], pi_TargetDDL = [],
     pi_TranslationEvidenceSHA256 = []\<rparr>"

definition plan_kind ::
  "bool \<Rightarrow> plan_ends \<Rightarrow> TableMapping list \<Rightarrow> SchemaObject \<Rightarrow> string \<Rightarrow> SchemaObject option \<Rightarrow> SchemaObjectPlanItem \<Rightarrow>
   SchemaObjectPlanItem svc" where
  "plan_kind translator ends mappings obj schema existing item = (case so_Type obj of
     SchemaObjectSequence \<Rightarrow> ret (plan_sequence ends mappings obj schema existing item)
   | SchemaObjectView \<Rightarrow> ret (plan_view ends obj schema existing item)
   | SchemaObjectTypeOther _ \<Rightarrow> ret (manual ''schema object type is not eligible for automatic execution'' item)
   | _ \<Rightarrow> plan_routine translator ends obj schema item)"

definition plan_object ::
  "bool \<Rightarrow> plan_ends \<Rightarrow> Target option \<Rightarrow> TableMapping list \<Rightarrow> SchemaObject \<Rightarrow>
   (string, catalog) gomap \<times> SchemaObjectPlan \<Rightarrow> ((string, catalog) gomap \<times> SchemaObjectPlan) svc" where
  "plan_object translator ends dst mappings obj st = (case st of (cache, plan) \<Rightarrow>
     let schema = (case schemaObjectTargetSchema obj mappings (pe_source ends) (pe_target ends) of None \<Rightarrow> [] | Some s \<Rightarrow> s);
         item = new_item obj schema in
     if schema = []
     then ret (cache, add_item (manual ''source schema maps to multiple target schemas; select/convert this object manually'' item) plan)
     else bnd (load_catalog dst schema cache) (\<lambda>(cache, catalog).
       let existing = map_of catalog (schemaObjectKey (so_Type obj) (so_Name obj)) in
       bnd (plan_kind translator ends mappings obj schema existing (item\<lparr>pi_TargetExists := existing \<noteq> None\<rparr>)) (\<lambda>item.
       ret (cache, add_item item plan))))"

fun plan_objects ::
  "(SchemaObject \<Rightarrow> 's \<Rightarrow> 's svc) \<Rightarrow> SchemaObject list \<Rightarrow> 's \<Rightarrow> 's svc" where
  "plan_objects f [] st = ret st"
| "plan_objects f (x # xs) st = bnd (f x st) (plan_objects f xs)"

fun plan_schemas ::
  "Target \<Rightarrow> (SchemaObject \<Rightarrow> 's \<Rightarrow> 's svc) \<Rightarrow> string list \<Rightarrow> 's \<Rightarrow> 's svc" where
  "plan_schemas src f [] st = ret st"
| "plan_schemas src f (s # ss) st =
     bnd (asked (''discover schema objects in '' @ s @ '': '') src tg_objects (ListSchemaObjects s)) (\<lambda>objs.
     bnd (plan_objects f objs st) (plan_schemas src f ss))"

text \<open>The default schema first, then the schemas of the mappings, each once.\<close>

definition add_schema :: "string \<Rightarrow> string list \<Rightarrow> string list" where
  "add_schema s ss = (if s = [] \<or> to_lower s \<in> set (map to_lower ss) then ss else ss @ [s])"

definition source_schemas :: "DataSource \<Rightarrow> TableMapping list \<Rightarrow> string list" where
  "source_schemas ds mappings = fold add_schema (defaultSchema ds # map tmap_SourceSchema mappings) []"

definition ends_of :: "DataSource \<Rightarrow> DataSource \<Rightarrow> TableMapping list \<Rightarrow> Target \<Rightarrow> Target option \<Rightarrow> plan_ends" where
  "ends_of sourceDS targetDS mappings src dst = \<lparr>pe_source = sourceDS, pe_target = targetDS,
     pe_identity = sameNativeDatabaseFamily (ds_Type sourceDS) (ds_Type targetDS) \<and> schemaObjectIdentityMappings mappings,
     pe_source_sequences = tg_sequence_state src,
     pe_target_sequences = (case dst of None \<Rightarrow> False | Some D \<Rightarrow> tg_sequence_state D),
     pe_target_ddl = (case dst of None \<Rightarrow> False | Some D \<Rightarrow> tg_ddl D),
     pe_target_binding = (case dst of None \<Rightarrow> False | Some D \<Rightarrow> tg_sequence_binding D)\<rparr>"

definition plan_with ::
  "string \<Rightarrow> DataSource \<Rightarrow> DataSource \<Rightarrow> TableMapping list \<Rightarrow> Target \<Rightarrow> Target option \<Rightarrow> SchemaObjectPlan svc" where
  "plan_with taskID sourceDS targetDS mappings src dst =
     bnd clock (\<lambda>now. bnd (env FromEnv) (\<lambda>t. case t of
       Inl e \<Rightarrow> fail (text_error e)
     | Inr translator \<Rightarrow>
         bnd (plan_schemas src (plan_object translator (ends_of sourceDS targetDS mappings src dst) dst mappings)
           (source_schemas sourceDS mappings)
           ([], \<lparr>sp_TaskID = taskID, sp_SafeActions = 0, sp_Manual = 0, sp_Skipped = 0, sp_Items = [], sp_PlannedAt = now\<rparr>))
           (\<lambda>(_, plan). ret (finalizeSchemaObjectViewDependencies plan))))"

definition PlanSchemaObjects :: "string \<Rightarrow> SchemaObjectPlan svc" where
  "PlanSchemaObjects taskID =
     bnd (fetch (GetMigration taskID)) (\<lambda>task.
     bnd (fetch (GetDataSource (mig_SourceID task))) (\<lambda>sourceDS.
     bnd (fetch (GetDataSource (mig_TargetID task))) (\<lambda>targetDS.
     bnd (connect sourceDS) (\<lambda>src. closing src
       (if \<not> tg_schema_objects src then fail (text_error ''source connector does not support schema object discovery'')
        else bnd (resolveMappings src sourceDS targetDS (mig_Tables task)) (\<lambda>mappings.
          bnd (env (\<lambda>E. sv_require E ''schema-objects'' (ds_Type targetDS))) (\<lambda>missing. case missing of
            Some _ \<Rightarrow> plan_with taskID sourceDS targetDS mappings src None
          | None \<Rightarrow> bnd (connect targetDS) (\<lambda>dst. closing dst
              (plan_with taskID sourceDS targetDS mappings src (Some dst))))))))))"

section \<open>Applying a plan\<close>

record SchemaObjectApplyRequest =
  sq_Confirm :: bool
  sq_Types :: "SchemaObjectType list"

record SchemaObjectApplyItemResult =
  si_Type :: SchemaObjectType
  si_SourceSchema :: string
  si_Name :: string
  si_TargetSchema :: string
  si_Status :: string
  si_Message :: string

record SchemaObjectApplyResult =
  sr_TaskID :: string
  sr_Applied :: int
  sr_Skipped :: int
  sr_Failed :: int
  sr_Items :: "SchemaObjectApplyItemResult list"

definition containsSchemaObjectType :: "SchemaObjectType list \<Rightarrow> SchemaObjectType \<Rightarrow> bool" where
  "containsSchemaObjectType types t \<longleftrightarrow> types = [] \<or> t \<in> set types"

text \<open>Calls in a row up to the first error, whose text is prefixed.\<close>

definition said :: "string \<Rightarrow> Target \<Rightarrow> target_call \<Rightarrow> string option svc" where
  "said msg T c = bnd (call_target T c) (\<lambda>r. ret (map_option ((@) msg) r))"

fun in_turn :: "string option svc list \<Rightarrow> string option svc" where
  "in_turn [] = ret None"
| "in_turn (m # ms) = bnd m (\<lambda>r. case r of Some e \<Rightarrow> ret (Some e) | None \<Rightarrow> in_turn ms)"

definition ensured :: "Target \<Rightarrow> SchemaObjectPlanItem \<Rightarrow> string option svc" where
  "ensured dst item = (if tg_schema dst then said [] dst (EnsureSchema (pi_TargetSchema item)) else ret None)"

definition apply_safe :: "Target \<Rightarrow> SchemaObjectPlanItem \<Rightarrow> (string + string) svc" where
  "apply_safe dst item =
     (if \<not> tg_ddl dst then ret (Inl ''target connector cannot execute DDL'')
      else bnd (in_turn [ensured dst item,
          said [] dst (ExecDDL (pi_TargetSchema item)
            (if trim_space (pi_TargetDDL item) = [] then so_DDL (pi_Source item) else pi_TargetDDL item))]) (\<lambda>r.
        ret (case r of Some e \<Rightarrow> Inl e | None \<Rightarrow> Inr [])))"

definition bind_sequence :: "Target \<Rightarrow> SchemaObjectPlanItem \<Rightarrow> string option svc" where
  "bind_sequence dst item =
     (if \<not> equal_fold (so_Definition (pi_Source item)) ''OWNED'' then ret None
      else if \<not> tg_sequence_binding dst then ret (Some ''target connector cannot restore sequence binding'')
      else case splitSchemaObjectRelatedTo (pi_TargetRelatedTo item) of
          None \<Rightarrow> ret (Some (''invalid target sequence binding '' @ pi_TargetRelatedTo item))
        | Some (table, column) \<Rightarrow> said ''restore sequence binding: '' dst
            (BindSequence (pi_TargetSchema item) (pi_TargetName item) table column))"

definition create_sequence :: "Target \<Rightarrow> SchemaObjectPlanItem \<Rightarrow> string option svc" where
  "create_sequence dst item =
     (if pi_TargetExists item then ret None
      else said ''create sequence: '' dst (ExecDDL (pi_TargetSchema item) (so_DDL (pi_Source item))))"

definition copy_state :: "Target \<Rightarrow> Target \<Rightarrow> SchemaObjectPlanItem \<Rightarrow> (string + string) svc" where
  "copy_state src dst item =
     bnd (ask src tg_sequence (GetSequenceState (so_Schema (pi_Source item)) (so_Name (pi_Source item)))) (\<lambda>r. case r of
       Inl e \<Rightarrow> ret (Inl (''read source sequence state: '' @ e))
     | Inr (v, called) \<Rightarrow>
         bnd (call_target dst (SetSequenceState (pi_TargetSchema item) (pi_TargetName item) v called)) (\<lambda>r. case r of
           Some e \<Rightarrow> ret (Inl (''set target sequence state: '' @ e))
         | None \<Rightarrow> ret (Inr (''sequence state synchronized to last_value='' @ v))))"

definition sync_sequence :: "Target \<Rightarrow> Target \<Rightarrow> SchemaObjectPlanItem \<Rightarrow> (string + string) svc" where
  "sync_sequence src dst item =
     (if \<not> tg_ddl dst \<or> \<not> tg_sequence_state src \<or> \<not> tg_sequence_state dst
      then ret (Inl ''sequence synchronization connectors are unavailable'')
      else bnd (in_turn [ensured dst item, create_sequence dst item, bind_sequence dst item]) (\<lambda>r. case r of
          Some e \<Rightarrow> ret (Inl e) | None \<Rightarrow> copy_state src dst item))"

definition entry_of :: "SchemaObjectPlanItem \<Rightarrow> string \<Rightarrow> string \<Rightarrow> SchemaObjectApplyItemResult" where
  "entry_of item status message = \<lparr>si_Type = so_Type (pi_Source item), si_SourceSchema = so_Schema (pi_Source item),
     si_Name = so_Name (pi_Source item), si_TargetSchema = pi_TargetSchema item, si_Status = status, si_Message = message\<rparr>"

text \<open>The result so far, and whether a sequence was applied and whether one failed.\<close>

definition record_outcome ::
  "SchemaObjectPlanItem \<Rightarrow> string + string \<Rightarrow> SchemaObjectApplyResult \<times> bool \<times> bool \<Rightarrow>
   SchemaObjectApplyResult \<times> bool \<times> bool" where
  "record_outcome item r st = (case st of (out, applied, failed) \<Rightarrow>
     let seq = (pi_Action item = SchemaObjectSyncSequence) in case r of
       Inl e \<Rightarrow> (out\<lparr>sr_Failed := sr_Failed out + 1, sr_Items := sr_Items out @ [entry_of item ''FAILED'' e]\<rparr>,
                 applied, failed \<or> seq)
     | Inr m \<Rightarrow> (out\<lparr>sr_Applied := sr_Applied out + 1, sr_Items := sr_Items out @ [entry_of item ''APPLIED'' m]\<rparr>,
                 applied \<or> seq, failed))"

definition skipped :: "SchemaObjectPlanItem \<Rightarrow> string \<Rightarrow> SchemaObjectApplyResult \<Rightarrow> SchemaObjectApplyResult" where
  "skipped item why out = out\<lparr>sr_Skipped := sr_Skipped out + 1, sr_Items := sr_Items out @ [entry_of item ''SKIPPED'' why]\<rparr>"

definition apply_item ::
  "Target \<Rightarrow> Target \<Rightarrow> SchemaObjectPlanItem \<Rightarrow> SchemaObjectApplyResult \<times> bool \<times> bool \<Rightarrow>
   (SchemaObjectApplyResult \<times> bool \<times> bool) svc" where
  "apply_item src dst item st = (case pi_Action item of
     SchemaObjectApplySafe \<Rightarrow> bnd (apply_safe dst item) (\<lambda>r. ret (record_outcome item r st))
   | SchemaObjectSyncSequence \<Rightarrow> bnd (sync_sequence src dst item) (\<lambda>r. ret (record_outcome item r st))
   | SchemaObjectPlanActionOther _ \<Rightarrow> ret (skipped item ''unsupported plan action'' (fst st), snd st)
   | _ \<Rightarrow> ret (skipped item (pi_Reason item) (fst st), snd st))"

fun apply_items ::
  "Target \<Rightarrow> Target \<Rightarrow> SchemaObjectType list \<Rightarrow> SchemaObjectPlanItem list \<Rightarrow> SchemaObjectApplyResult \<times> bool \<times> bool \<Rightarrow>
   (SchemaObjectApplyResult \<times> bool \<times> bool) svc" where
  "apply_items src dst types [] st = ret st"
| "apply_items src dst types (item # items) st =
     (if \<not> containsSchemaObjectType types (so_Type (pi_Source item)) then apply_items src dst types items st
      else bnd (apply_item src dst item st) (apply_items src dst types items))"

definition objects_allowed :: "MigrationStatus \<Rightarrow> bool" where
  "objects_allowed s \<longleftrightarrow> s \<in> {StatusFullFinished, StatusValidating, StatusCDCCatchingUp, StatusReadyCutover,
     StatusCutoverRunning, StatusFinished}"

definition ApplySchemaObjects :: "string \<Rightarrow> SchemaObjectApplyRequest \<Rightarrow> SchemaObjectApplyResult svc" where
  "ApplySchemaObjects taskID req =
     (if \<not> sq_Confirm req then fail (text_error ''confirm=true is required to apply schema objects'')
      else bnd (PlanSchemaObjects taskID) (\<lambda>plan.
        bnd (fetch (GetMigration taskID)) (\<lambda>task.
        if mig_Mode task = ModeIncremental
        then fail (text_error ''schema object apply is not available for incremental-only tasks'')
        else if \<not> objects_allowed (mig_Status task)
        then fail (text_error (''schema objects can only be applied after base-table full load completes; current status=''
               @ MigrationStatus_string (mig_Status task)))
        else bnd (fetch (GetDataSource (mig_SourceID task))) (\<lambda>sourceDS.
          bnd (fetch (GetDataSource (mig_TargetID task))) (\<lambda>targetDS.
          bnd (connect sourceDS) (\<lambda>src. closing src
          (bnd (connect targetDS) (\<lambda>dst. closing dst
          (bnd (apply_items src dst (sq_Types req) (sp_Items plan)
              (\<lparr>sr_TaskID = taskID, sr_Applied = 0, sr_Skipped = 0, sr_Failed = 0, sr_Items = []\<rparr>, False, False))
            (\<lambda>(out, applied, failed).
            if \<not> applied \<or> failed then ret out
            else bnd clock (\<lambda>now1. bnd clock (\<lambda>now2.
              bnd (must (write_repo (\<lambda>io. UpdateMigration io (task\<lparr>mig_SequenceSyncedAt := now1, mig_UpdatedAt := now2\<rparr>)))) (\<lambda>_.
              ret out)))))))))))))"

end
