(* ===== verification/TaskStatus.thy ===== *)
theory TaskStatus
  imports SchemaPlan CdcDelivery
begin

text \<open>
  What the operations on a task share, from \<open>backend/internal/migration/service.go\<close>: changing and failing
  its status, the managed capture job, and the log position a capture starts from.
\<close>

section \<open>Status\<close>

definition to_status :: "MigrationStatus \<Rightarrow> MigrationTask \<Rightarrow> MigrationTask svc" where
  "to_status to m = (case Transition m to of Inl e \<Rightarrow> fail (Plain e) | Inr m' \<Rightarrow> ret m')"

definition stored :: "MigrationTask \<Rightarrow> unit svc" where
  "stored m = bnd clock (\<lambda>now. must (write_repo (\<lambda>io. UpdateMigration io (m\<lparr>mig_UpdatedAt := now\<rparr>))))"

definition setStatus :: "string \<Rightarrow> MigrationStatus \<Rightarrow> unit svc" where
  "setStatus taskID to =
     bnd (fetch (GetMigration taskID)) (\<lambda>m.
     bnd (to_status to m) (\<lambda>m'.
     bnd (stored m') (\<lambda>_.
     logTask taskID [] [] [] ''INFO''
       (''status '' @ MigrationStatus_string (mig_Status m) @ '' -> '' @ MigrationStatus_string to))))"

definition at_rest :: "MigrationStatus \<Rightarrow> bool" where
  "at_rest s \<longleftrightarrow> s = StatusCancelled \<or> s = StatusPaused \<or> s = StatusFinished"

definition failTask :: "string \<Rightarrow> string \<Rightarrow> unit svc" where
  "failTask taskID cause =
     bnd (query (GetMigration taskID)) (\<lambda>r. case r of
       Inl _ \<Rightarrow> ret ()
     | Inr m \<Rightarrow>
         if at_rest (mig_Status m) then ret ()
         else bnd clock (\<lambda>now.
           bnd (ignore (write_repo (\<lambda>io. UpdateMigration io
             (m\<lparr>mig_Status := StatusFailed, mig_LastError := cause, mig_UpdatedAt := now\<rparr>)))) (\<lambda>_.
           bnd clock (\<lambda>now. bnd (alert ''critical'' ''Migration failed'' cause taskID now) (\<lambda>_.
           logTask taskID [] [] [] ''ERROR'' (''migration failed: '' @ cause))))))"

definition cancelled :: "bool svc" where
  "cancelled = tick (\<lambda>n E w. (w, Done (sv_cancelled E n)))"

definition failTaskUnlessCanceled :: "string \<Rightarrow> string \<Rightarrow> unit svc" where
  "failTaskUnlessCanceled taskID cause = bnd cancelled (\<lambda>c. if c then ret () else failTask taskID cause)"

section \<open>The managed capture job\<close>

definition cdcEngineForDirection :: "MigrationTask \<Rightarrow> string \<Rightarrow> string" where
  "cdcEngineForDirection task direction = (if mig_Mode task = ModeFull then [] else unifiedEngineName)"

definition live_job :: "string \<Rightarrow> string \<Rightarrow> EngineJob \<Rightarrow> bool" where
  "live_job direction engine j \<longleftrightarrow> ej_Kind j = ''CDC'' \<and> ej_Direction j = direction \<and> ej_Engine j = engine
     \<and> ej_Status j \<noteq> EngineJobStopped \<and> ej_Status j \<noteq> EngineJobFailed"

definition ensureManagedCDCJob :: "MigrationTask \<Rightarrow> string \<Rightarrow> unit svc" where
  "ensureManagedCDCJob task direction =
     (let engine = cdcEngineForDirection task direction in
      bnd (query (ListEngineJobs (mig_ID task))) (\<lambda>jobs.
      if list_ex (live_job direction engine) jobs then ret ()
      else bnd clock (\<lambda>now. bnd (newID ''eng'') (\<lambda>i.
        must (write_repo (\<lambda>io. CreateEngineJob io (zero_EngineJob\<lparr>ej_ID := i, ej_TaskID := mig_ID task,
          ej_Kind := ''CDC'', ej_Direction := direction, ej_Engine := engine, ej_Status := EngineJobPending,
          ej_UpdatedAt := now\<rparr>)))))))"

definition stop_job :: "EngineJob \<Rightarrow> unit svc" where
  "stop_job j = (case ej_Status j of
     EngineJobRunning \<Rightarrow> bnd clock (\<lambda>now.
       must (write_repo (\<lambda>io. UpdateEngineJob io (j\<lparr>ej_Status := EngineJobStopRequested, ej_UpdatedAt := now\<rparr>))))
   | EngineJobPending \<Rightarrow> bnd clock (\<lambda>now1. bnd clock (\<lambda>now2.
       must (write_repo (\<lambda>io. UpdateEngineJob io
         (j\<lparr>ej_Status := EngineJobStopped, ej_UpdatedAt := now1, ej_FinishedAt := now2\<rparr>)))))
   | _ \<Rightarrow> ret ())"

definition requestStopEngineJobs :: "string \<Rightarrow> string \<Rightarrow> unit svc" where
  "requestStopEngineJobs taskID direction =
     bnd (query (ListEngineJobs taskID)) (\<lambda>jobs.
     each stop_job (filter (\<lambda>j. ej_Kind j = ''CDC'' \<and> ej_Direction j = direction) jobs))"

section \<open>Where a capture starts\<close>

record position_messages =
  pm_selection :: string
  pm_mysql :: string
  pm_slot :: string
  pm_source :: string
  pm_none :: string

definition slot_name :: "string \<Rightarrow> string" where
  "slot_name s = take 63 (to_lower (replace_all s ''-'' ''_''))"

definition capture_position ::
  "position_messages \<Rightarrow> Target \<Rightarrow> DataSourceType \<Rightarrow> TableMapping list \<Rightarrow> string \<Rightarrow> CDCPosition svc" where
  "capture_position ms T ty selection slot =
     (if tg_selection_position T then asked (pm_selection ms) T tg_position (CurrentCDCPositionForSelection selection)
      else if tg_mysql_binlog T \<and> IsMySQLFamily ty \<and> ty \<noteq> DataSourceTiDB \<and> ty \<noteq> DataSourceOceanBase
      then asked (pm_mysql ms) T tg_position CurrentCDCPosition
      else if tg_checkpoint T \<and> IsPostgreSQLFamily ty then asked (pm_slot ms) T tg_position (CreateCDCCheckpoint slot)
      else if tg_cdc_source T then asked (pm_source ms) T tg_position CurrentCDCPosition
      else fail (text_error (pm_none ms)))"

text \<open>Record a position of a task in a direction.\<close>

definition record_position :: "string \<Rightarrow> string \<Rightarrow> CDCPosition \<Rightarrow> go_error option svc" where
  "record_position taskID direction p =
     bnd (newID ''cdc'') (\<lambda>i. bnd clock (\<lambda>now. write_repo (\<lambda>io. CreateCDCPosition io
       (p\<lparr>pos_ID := i, pos_TaskID := taskID, pos_Direction := direction, pos_RecordedAt := now\<rparr>))))"

section \<open>Capabilities\<close>

definition required :: "string \<Rightarrow> string \<Rightarrow> DataSourceType \<Rightarrow> unit svc" where
  "required msg capability ty = bnd (env (\<lambda>E. sv_require E capability ty)) (\<lambda>r. case r of
     None \<Rightarrow> ret () | Some e \<Rightarrow> fail (Wrapped msg (text_error e)))"

definition requireFullPair :: "DataSource \<Rightarrow> DataSource \<Rightarrow> unit svc" where
  "requireFullPair source target =
     bnd (required (''source '' @ DataSourceType_string (ds_Type source) @ '': '') ''full-read'' (ds_Type source)) (\<lambda>_.
     required (''target '' @ DataSourceType_string (ds_Type target) @ '': '') ''full-write'' (ds_Type target))"

definition requireCDCPair :: "DataSource \<Rightarrow> DataSource \<Rightarrow> unit svc" where
  "requireCDCPair source target =
     bnd (required (''CDC source '' @ DataSourceType_string (ds_Type source) @ '': '') ''cdc-read'' (ds_Type source)) (\<lambda>_.
     required (''CDC target '' @ DataSourceType_string (ds_Type target) @ '': '') ''cdc-apply'' (ds_Type target))"

definition validateCDCEngineSource :: "string \<Rightarrow> DataSource \<Rightarrow> string \<Rightarrow> string option" where
  "validateCDCEngineSource engineName ds role =
     (let legacy = trim_space engineName; ty = DataSourceType_string (ds_Type ds) in
      if legacy = ''native-mysql-cdc'' \<and> \<not> IsMySQLFamily (ds_Type ds)
      then Some (role @ '' legacy native-mysql-cdc requires a MySQL-family source, got '' @ ty)
      else if legacy = ''native-postgres-cdc'' \<and> \<not> IsPostgreSQLFamily (ds_Type ds)
      then Some (role @ '' legacy native-postgres-cdc requires a PostgreSQL-family source, got '' @ ty)
      else None)"

text \<open>A check that has only an error, and a question that has none.\<close>

definition checked :: "string option \<Rightarrow> unit svc" where
  "checked r = (case r of None \<Rightarrow> ret () | Some e \<Rightarrow> fail (text_error e))"

definition told :: "Target \<Rightarrow> (Target \<Rightarrow> target_call list \<Rightarrow> 'a) \<Rightarrow> target_call \<Rightarrow> 'a svc" where
  "told T f c = tick (\<lambda>n E w.
     if sv_crash E n then (w, Crashed)
     else let cs = w_calls w @ [c] in (w\<lparr>w_calls := cs\<rparr>, Done (f T cs)))"

datatype metadata_answer = MetaUnavailable string | MetaError string | Meta TableMetadata

definition ask_metadata :: "Target \<Rightarrow> string \<Rightarrow> string \<Rightarrow> metadata_answer svc" where
  "ask_metadata T schema table = told T (\<lambda>T cs. case tg_answer T cs of
       None \<Rightarrow> Meta (tg_metadata T cs)
     | Some e \<Rightarrow> if tg_no_metadata T cs then MetaUnavailable e else MetaError e)
     (GetTableMetadata schema table)"

end
