(* ===== verification/Preparing.thy ===== *)
theory Preparing
  imports TaskStatus ChunkPlanner SchemaTypes
begin

text \<open>
  Preparing a task, \<open>prepareTask\<close> of \<open>backend/internal/migration/service.go\<close>: the prechecks, the log
  position the capture starts from, the tables of the target, and the chunks. The main theorem is
  that the chunks of a table with a numeric key cover its key range once.
\<close>

section \<open>Keys\<close>

definition column_named :: "ColumnInfo list \<Rightarrow> string \<Rightarrow> ColumnInfo option" where
  "column_named cols name = map_of (rev (map (\<lambda>c. (to_lower (col_Name c), c)) cols)) (to_lower name)"

definition generated :: "ColumnInfo \<Rightarrow> bool" where
  "generated c \<longleftrightarrow> contains (to_upper (col_Extra c)) ''GENERATED''"

definition stable_column :: "ColumnInfo list \<Rightarrow> string \<Rightarrow> bool" where
  "stable_column cols name = (case column_named cols name of
     None \<Rightarrow> False | Some c \<Rightarrow> \<not> col_Nullable c \<and> \<not> generated c)"

definition primary_names :: "TableMetadata \<Rightarrow> string list" where
  "primary_names meta =
     (if tm_PrimaryKeys meta = [] \<and> tm_PrimaryKey meta \<noteq> [] then [tm_PrimaryKey meta] else tm_PrimaryKeys meta)"

definition stableMigrationKey :: "TableMetadata \<Rightarrow> string list \<times> IndexInfo option" where
  "stableMigrationKey meta =
     (if primary_names meta \<noteq> [] then (primary_names meta, None)
      else case find (\<lambda>i. idx_Unique i \<and> \<not> idx_Primary i \<and> idx_Columns i \<noteq> []
                       \<and> list_all (stable_column (tm_Columns meta)) (idx_Columns i)) (tm_Indexes meta) of
          None \<Rightarrow> ([], None)
        | Some i \<Rightarrow> (idx_Columns i, Some i))"

text \<open>The rename of a column: the last mapping of it.\<close>

definition rename_map :: "ColumnMapping list \<Rightarrow> (string, string) gomap" where
  "rename_map ms = rev (map (\<lambda>m. (to_lower (cmap_SourceColumn m), cmap_TargetColumn m)) ms)"

definition renamed :: "(string, string) gomap \<Rightarrow> string \<Rightarrow> string" where
  "renamed m name = (case map_of m (to_lower name) of Some n \<Rightarrow> if n \<noteq> [] then n else name | None \<Rightarrow> name)"

definition mappedKeyNames :: "string list \<Rightarrow> ColumnMapping list \<Rightarrow> string list" where
  "mappedKeyNames keys ms =
     map (renamed (rename_map (filter (\<lambda>m. cmap_SourceColumn m \<noteq> [] \<and> cmap_TargetColumn m \<noteq> []) ms))) keys"

definition matchingUniqueIndex :: "IndexInfo list \<Rightarrow> string list \<Rightarrow> bool" where
  "matchingUniqueIndex indexes keys \<longleftrightarrow> list_ex (\<lambda>i. idx_Unique i \<and> sameColumnsFold (idx_Columns i) keys) indexes"

section \<open>Columns\<close>

definition filterGenerated :: "ColumnInfo list \<Rightarrow> ColumnInfo list" where
  "filterGenerated cols = filter (\<lambda>c. \<not> generated c) cols"

definition primaryKeyNames :: "ColumnInfo list \<Rightarrow> string list" where
  "primaryKeyNames cols = map col_Name (filter col_PrimaryKey cols)"

fun first_duplicate :: "string list \<Rightarrow> ColumnInfo list \<Rightarrow> string option" where
  "first_duplicate seen [] = None"
| "first_duplicate seen (c # cs) =
     (if to_lower (col_Name c) \<in> set seen then Some (col_Name c)
      else first_duplicate (to_lower (col_Name c) # seen) cs)"

text \<open>Of several unknown columns the program names any one, as its map yields them; here the first.\<close>

definition mapTargetColumns ::
  "ColumnInfo list \<Rightarrow> string \<Rightarrow> ColumnMapping list \<Rightarrow> string + (ColumnInfo list \<times> string)" where
  "mapTargetColumns src sourcePK maps =
     (let m = rename_map maps;
          out = map (\<lambda>c. c\<lparr>col_Name := renamed m (col_Name c)\<rparr>) src;
          targetPK = (if sourcePK \<in> set (map col_Name src) then renamed m sourcePK else sourcePK);
          unknown = filter (\<lambda>x. to_lower (cmap_SourceColumn x) \<notin> set (map (\<lambda>c. to_lower (col_Name c)) src)) maps
      in if list_ex (\<lambda>x. cmap_SourceColumn x = [] \<or> cmap_TargetColumn x = []) maps
         then Inl ''source_column and target_column are required''
         else if unknown \<noteq> []
         then Inl (''mapped source column '' @ to_lower (cmap_SourceColumn (hd unknown)) @ '' does not exist'')
         else case first_duplicate [] out of
             Some n \<Rightarrow> Inl (''duplicate target column '' @ n)
           | None \<Rightarrow> Inr (out, targetPK))"

definition orderedTargetColumns :: "ColumnInfo list \<Rightarrow> TableMetadata \<Rightarrow> ColumnInfo list" where
  "orderedTargetColumns expected dst =
     map (\<lambda>e. case column_named (tm_Columns dst) (col_Name e) of Some c \<Rightarrow> c | None \<Rightarrow> e) expected"

definition validateTargetColumns :: "ColumnInfo list \<Rightarrow> TableMetadata \<Rightarrow> string option" where
  "validateTargetColumns expected dst =
     (if tm_Columns dst = [] then Some ''target table does not exist or metadata is empty''
      else case find (\<lambda>c. column_named (tm_Columns dst) (col_Name c) = None) expected of
          None \<Rightarrow> None | Some c \<Rightarrow> Some (''missing column '' @ col_Name c))"

definition mappedColumnsForAssessment :: "string list \<Rightarrow> ColumnMapping list \<Rightarrow> string list" where
  "mappedColumnsForAssessment columns ms =
     (let m = rev (map (\<lambda>x. (to_lower (cmap_SourceColumn x), or_text (trim_space (cmap_TargetColumn x)) (cmap_SourceColumn x))) ms)
      in map (\<lambda>c. case map_of m (to_lower c) of Some t \<Rightarrow> t | None \<Rightarrow> c) columns)"

definition mapped_key :: "TableMapping \<Rightarrow> TableMapping list \<Rightarrow> ForeignKeyInfo \<Rightarrow> ForeignKeyInfo" where
  "mapped_key current all fk0 =
     (let fk = fk0\<lparr>fk_Columns := mappedColumnsForAssessment (fk_Columns fk0) (tmap_Columns current)\<rparr>;
          fk = (case find (\<lambda>r. equal_fold (tmap_SourceSchema r) (fk_ReferencedSchema fk0)
                             \<and> equal_fold (tmap_SourceTable r) (fk_ReferencedTable fk0)) all of
              None \<Rightarrow> fk
            | Some r \<Rightarrow> fk\<lparr>fk_ReferencedSchema := tmap_TargetSchema r, fk_ReferencedTable := tmap_TargetTable r,
                fk_ReferencedColumns := mappedColumnsForAssessment (fk_ReferencedColumns fk0) (tmap_Columns r)\<rparr>)
      in if equal_fold (fk_ReferencedSchema fk) (tmap_SourceSchema current)
         then fk\<lparr>fk_ReferencedSchema := tmap_TargetSchema current\<rparr> else fk)"

definition mapTableSchemaArtifacts ::
  "TableMetadata \<Rightarrow> TableMapping \<Rightarrow> TableMapping list \<Rightarrow> IndexInfo list \<times> ForeignKeyInfo list" where
  "mapTableSchemaArtifacts meta current all =
     (map (\<lambda>i. i\<lparr>idx_Columns := mappedColumnsForAssessment (idx_Columns i) (tmap_Columns current)\<rparr>) (tm_Indexes meta),
      map (mapped_key current all) (tm_ForeignKeys meta))"

section \<open>Splitting\<close>

definition normalizedSplitStrategy :: "string \<Rightarrow> string" where
  "normalizedSplitStrategy v = or_text (to_upper (trim_space v)) ''AUTO''"

definition split_strategies :: "string list" where
  "split_strategies = [''AUTO'', ''PRIMARY_KEY_RANGE'', ''UNIQUE_KEY_RANGE'', ''HASH'', ''PARTITION'', ''CUSTOM_SQL'']"

definition unsafe_tokens :: "string list" where
  "unsafe_tokens = ['';'', ''--'', ''/*'', ''*/'', '' union '', '' into outfile '', '' copy '', '' drop '', '' alter '',
     '' truncate '', '' insert '', '' update '', '' delete '']"

definition validateCustomWhere :: "string \<Rightarrow> string option" where
  "validateCustomWhere expr =
     (let x = trim_space expr in
      if x = [] then Some ''CUSTOM_SQL split requires custom_where''
      else map_option (\<lambda>bad. ''custom_where contains unsafe token '' @ go_quote (trim_space bad))
        (find (contains (to_lower x)) unsafe_tokens))"

definition usable_topology :: "TopologyPlacement list \<Rightarrow> TopologyPlacement list" where
  "usable_topology ps = filter (\<lambda>p. topologyPlacementHint p \<noteq> []) ps"

definition placement_for :: "TopologyPlacement list \<Rightarrow> nat \<Rightarrow> MigrationChunk \<Rightarrow> TopologyPlacement" where
  "placement_for usable i c =
     (let p = usable ! (i mod length usable); part = trim_space (ch_PartitionName c) in
      if part = [] then p
      else case find (\<lambda>x. equal_fold (trim_space (sget (tp_Labels x) ''partition_name'')) part) usable of
          None \<Rightarrow> p | Some x \<Rightarrow> x)"

definition placed :: "TopologyPlacement \<Rightarrow> MigrationChunk \<Rightarrow> MigrationChunk" where
  "placed p c = c\<lparr>ch_PlacementHint := topologyPlacementHint p, ch_FaultDomain := CanonicalFaultDomain (tp_Labels p),
     ch_TopologyID := tp_ID p, ch_TopologyKind := tp_Kind p\<rparr>"

definition assignTopologyHints :: "MigrationChunk list \<Rightarrow> TopologyPlacement list \<Rightarrow> MigrationChunk list" where
  "assignTopologyHints chunks topology =
     (let usable = usable_topology topology in
      if usable = [] then chunks
      else map (\<lambda>(i, c). placed (placement_for usable i c) c) (enumerate 0 chunks))"

definition discoverTableTopology :: "Target \<Rightarrow> string \<Rightarrow> string \<Rightarrow> TopologyPlacement list svc" where
  "discoverTableTopology src schema table =
     (if \<not> tg_topology src then ret []
      else bnd (ask src tg_placements (DiscoverTableTopology schema table)) (\<lambda>r. case r of
        Inl _ \<Rightarrow> ret [] | Inr ps \<Rightarrow> ret (take 256 ps)))"

section \<open>Chunks of a table\<close>

text \<open>What the planning of a table knows.\<close>

record table_plan =
  tn_task :: MigrationTask
  tn_mapping :: TableMapping
  tn_meta :: TableMetadata
  tn_keys :: "string list"
  tn_columns :: "ColumnInfo list"
  tn_rows :: int

definition table_name :: "TableMapping \<Rightarrow> string" where
  "table_name m = tmap_SourceSchema m @ ''.'' @ tmap_SourceTable m"

definition target_name :: "TableMapping \<Rightarrow> string" where
  "target_name m = tmap_TargetSchema m @ ''.'' @ tmap_TargetTable m"

definition numericPK :: "table_plan \<Rightarrow> bool" where
  "numericPK p \<longleftrightarrow> length (tn_keys p) = 1 \<and> tm_PrimaryKeyNumeric (tn_meta p)
     \<and> equal_fold (hd (tn_keys p)) (tm_PrimaryKey (tn_meta p))"

definition first_or_empty :: "string list \<Rightarrow> string" where
  "first_or_empty ks = (case ks of [] \<Rightarrow> [] | k # _ \<Rightarrow> k)"

text \<open>The fields every chunk of a table gets.\<close>

fun stamped :: "(nat \<Rightarrow> MigrationChunk \<Rightarrow> MigrationChunk) \<Rightarrow> nat \<Rightarrow> MigrationChunk list \<Rightarrow> MigrationChunk list svc" where
  "stamped f i [] = ret []"
| "stamped f i (c # cs) = bnd (newID ''chk'') (\<lambda>id. bnd (stamped f (Suc i) cs) (\<lambda>rest.
     ret ((f i c)\<lparr>ch_ID := id, ch_Status := ChunkPending\<rparr> # rest)))"

definition of_table :: "MigrationTable \<Rightarrow> string \<Rightarrow> MigrationChunk \<Rightarrow> MigrationChunk" where
  "of_table t key c = c\<lparr>ch_TaskID := tbl_TaskID t, ch_TableID := tbl_ID t, ch_PrimaryKey := key\<rparr>"

definition planner_value :: "ServiceTypes.Value \<Rightarrow> ChunkPlanner.Value" where
  "planner_value v = \<lparr>val_Null = v_Null v, val_Raw = (if v_Null v then None else Some (v_Raw v))\<rparr>"

definition boundaries_for :: "Target \<Rightarrow> table_plan \<Rightarrow> string \<Rightarrow> int \<Rightarrow> ServiceTypes.Value list list svc" where
  "boundaries_for src p splitType hashBuckets =
     (let partitions = DesiredKeysetPartitions (tm_EstimatedRows (tn_meta p)) (tn_rows p) (mig_Parallelism (tn_task p)) in
      if hashBuckets = 0 \<and> partitions > 1 \<and> splitType \<noteq> ''CUSTOM_SQL_KEYSET'' \<and> tg_keyset_boundary src
      then bnd (ask src tg_boundaries (PlanKeysetBoundaries
          \<lparr>kb_Schema = tmap_SourceSchema (tn_mapping p), kb_Table = tmap_SourceTable (tn_mapping p),
           kb_Keys = tn_keys p, kb_Columns = tn_columns p, kb_Partitions = partitions,
           kb_LowerBound = [], kb_UpperBound = []\<rparr>)) (\<lambda>r. ret (case r of Inl _ \<Rightarrow> [] | Inr bs \<Rightarrow> bs))
      else ret [])"

definition hash_chunks :: "int \<Rightarrow> MigrationChunk list" where
  "hash_chunks n = map (\<lambda>b. zero_MigrationChunk\<lparr>ch_SplitType := ''HASH_KEYSET'', ch_HashBucket := b, ch_HashBuckets := n\<rparr>)
     [0..n - 1]"

definition planKeyset ::
  "Target \<Rightarrow> table_plan \<Rightarrow> MigrationTable \<Rightarrow> string \<Rightarrow> int \<Rightarrow> string \<Rightarrow> MigrationChunk list svc" where
  "planKeyset src p t splitType hashBuckets customWhere =
     bnd (boundaries_for src p splitType hashBuckets) (\<lambda>bs.
     case (if hashBuckets > 0 then Inr (hash_chunks hashBuckets)
           else case PlanBoundedKeyset (map (map planner_value) bs) of
             Inl e \<Rightarrow> Inl e | Inr cs \<Rightarrow> Inr (map (\<lambda>c. c\<lparr>ch_SplitType := splitType\<rparr>) cs)) of
       Inl e \<Rightarrow> fail (Plain e)
     | Inr cs \<Rightarrow> stamped (\<lambda>i c. (of_table t (first_or_empty (tn_keys p)) c)\<lparr>ch_ChunkNo := int i + 1, ch_CustomWhere := customWhere\<rparr>)
         0 cs)"

definition plan_ranges :: "table_plan \<Rightarrow> MigrationTable \<Rightarrow> MigrationChunk list svc" where
  "plan_ranges p t =
     (case PlanIntegerRangeByRows (tm_MinPK (tn_meta p)) (tm_MaxPK (tn_meta p)) (tm_EstimatedRows (tn_meta p)) (tn_rows p) of
        Inl e \<Rightarrow> fail (Plain e)
      | Inr cs \<Rightarrow> stamped (\<lambda>i. of_table t (tm_PrimaryKey (tn_meta p))) 0 cs)"

definition hash_count :: "table_plan \<Rightarrow> int" where
  "hash_count p =
     (let b = tmap_HashBuckets (tn_mapping p); b = (if b \<le> 0 then i64 (mig_Parallelism (tn_task p) * 2) else b)
      in if b < 1 then 1 else if b > 256 then 256 else b)"

definition partition_names :: "Target \<Rightarrow> table_plan \<Rightarrow> string list svc" where
  "partition_names src p =
     bnd (if tmap_Partitions (tn_mapping p) \<noteq> [] then ret (tmap_Partitions (tn_mapping p))
          else if \<not> tg_partition src
          then fail (text_error (''table '' @ table_name (tn_mapping p) @ '' source connector does not expose partitions''))
          else asked ''list partitions: '' src tg_partitions
            (ListTablePartitions (tmap_SourceSchema (tn_mapping p)) (tmap_SourceTable (tn_mapping p)))) (\<lambda>parts.
     if parts = [] then fail (text_error (''table '' @ table_name (tn_mapping p) @ '' is not partitioned''))
     else ret parts)"

definition partition_chunk :: "table_plan \<Rightarrow> string \<Rightarrow> MigrationChunk" where
  "partition_chunk p part =
     (let c = zero_MigrationChunk\<lparr>ch_PartitionName := part\<rparr> in
      if numericPK p
      then c\<lparr>ch_SplitType := ''PARTITION_RANGE'', ch_Start := tm_MinPK (tn_meta p), ch_End := tm_MaxPK (tn_meta p)\<rparr>
      else c\<lparr>ch_SplitType := ''PARTITION_KEYSET''\<rparr>)"

definition plan_custom :: "Target \<Rightarrow> table_plan \<Rightarrow> MigrationTable \<Rightarrow> (MigrationTable \<times> MigrationChunk list) svc" where
  "plan_custom src p t =
     (case validateCustomWhere (tmap_CustomWhere (tn_mapping p)) of
        Some e \<Rightarrow> fail (Wrapped (''table '' @ table_name (tn_mapping p) @ '': '') (text_error e))
      | None \<Rightarrow>
          let wh = trim_space (tmap_CustomWhere (tn_mapping p)); t = t\<lparr>tbl_CustomWhere := wh\<rparr> in
          bnd (if numericPK p
               then stamped (\<lambda>i. of_table t (tm_PrimaryKey (tn_meta p))) 0
                 [zero_MigrationChunk\<lparr>ch_ChunkNo := 1, ch_SplitType := ''CUSTOM_SQL_RANGE'', ch_Start := tm_MinPK (tn_meta p),
                    ch_End := tm_MaxPK (tn_meta p), ch_CustomWhere := wh\<rparr>]
               else planKeyset src p t ''CUSTOM_SQL_KEYSET'' 0 wh) (\<lambda>cs. ret (t, cs)))"

text \<open>The chunks of a table, and the table with what its strategy settled.\<close>

definition plan_chunks ::
  "Target \<Rightarrow> table_plan \<Rightarrow> MigrationTable \<Rightarrow> (MigrationTable \<times> MigrationChunk list) svc" where
  "plan_chunks src p t =
     (let strategy = normalizedSplitStrategy (tmap_SplitStrategy (tn_mapping p)); name = table_name (tn_mapping p);
          keep = (\<lambda>m. bnd m (\<lambda>cs. ret (t, cs))) in
      if strategy \<notin> set split_strategies
      then fail (text_error (''table '' @ name @ '' has unsupported split_strategy '' @ go_quote (tmap_SplitStrategy (tn_mapping p))))
      else if strategy = ''PRIMARY_KEY_RANGE''
      then (if numericPK p then keep (plan_ranges p t)
            else fail (text_error (''table '' @ name @ '' PRIMARY_KEY_RANGE requires a numeric primary key'')))
      else if strategy = ''UNIQUE_KEY_RANGE''
      then with_prefix (''plan unique keyset '' @ name @ '': '') (keep (planKeyset src p t ''PRIMARY_KEY_KEYSET'' 0 []))
      else if strategy = ''HASH''
      then (let t = t\<lparr>tbl_HashBuckets := hash_count p\<rparr> in
            bnd (with_prefix (''plan hash split '' @ name @ '': '') (planKeyset src p t ''HASH_KEYSET'' (hash_count p) []))
              (\<lambda>cs. ret (t, cs)))
      else if strategy = ''PARTITION''
      then bnd (partition_names src p) (\<lambda>parts. let t = t\<lparr>tbl_Partitions := parts\<rparr> in
             bnd (stamped (\<lambda>i c. (of_table t (tbl_PrimaryKey t) c)\<lparr>ch_ChunkNo := int i + 1\<rparr>) 0 (map (partition_chunk p) parts))
               (\<lambda>cs. ret (t, cs)))
      else if strategy = ''CUSTOM_SQL'' then plan_custom src p t
      else if numericPK p then keep (plan_ranges p t)
      else with_prefix (''plan bounded keyset '' @ name @ '': '') (keep (planKeyset src p t ''PRIMARY_KEY_KEYSET'' 0 [])))"

section \<open>The target table\<close>

text \<open>\<open>%v\<close> of a list of strings.\<close>

definition go_list_text :: "string list \<Rightarrow> string" where
  "go_list_text xs = ''['' @ join xs '' '' @ '']''"

definition cross_family :: "DataSourceType \<Rightarrow> DataSourceType \<Rightarrow> bool" where
  "cross_family a b \<longleftrightarrow> a \<noteq> b \<and> (IsMySQLFamily a \<and> IsPostgreSQLFamily b \<or> IsPostgreSQLFamily a \<and> IsMySQLFamily b)"

definition create_columns ::
  "string \<Rightarrow> DataSource \<Rightarrow> DataSource \<Rightarrow> TableMapping \<Rightarrow> ColumnInfo list \<Rightarrow> ColumnInfo list svc" where
  "create_columns taskID sourceDS targetDS mapping cols =
     (if \<not> cross_family (ds_Type sourceDS) (ds_Type targetDS) then ret cols
      else case ConvertColumns cols (ds_Type targetDS) of (cols', warns) \<Rightarrow>
        bnd (each (\<lambda>w. logTask taskID [] [] [] ''WARN'' (table_name mapping @ '': '' @ w)) warns) (\<lambda>_. ret cols'))"

definition create_table ::
  "Target \<Rightarrow> TableMapping \<Rightarrow> ColumnInfo list \<Rightarrow> string list \<Rightarrow> string \<Rightarrow> string list \<Rightarrow> unit svc" where
  "create_table dst mapping cols pks pk targetPKs =
     (let s = tmap_TargetSchema mapping; t = tmap_TargetTable mapping in
      if \<not> tg_schema dst then fail (text_error ''target connector does not support schema creation'')
      else bnd (ok_call None ''ensure target schema: '' dst (EnsureSchema s)) (\<lambda>_.
        if length pks > 1
        then (if \<not> tg_composite_schema dst
              then fail (text_error (''target connector cannot create composite primary key '' @ go_list_text targetPKs))
              else ok_call None ''create target table: '' dst (CreateTableWithPrimaryKeys s t cols pks))
        else ok_call None ''create target table: '' dst (CreateTable s t cols pk)))"

text \<open>The metadata of the target table, and whether the service created it.\<close>

definition target_table ::
  "MigrationTask \<Rightarrow> DataSource \<Rightarrow> DataSource \<Rightarrow> Target \<Rightarrow> TableMapping \<Rightarrow> ColumnInfo list \<Rightarrow> string \<Rightarrow> string list \<Rightarrow>
   (TableMetadata \<times> bool) svc" where
  "target_table task sourceDS targetDS dst mapping cols pk targetPKs =
     (let q = GetTableMetadata (tmap_TargetSchema mapping) (tmap_TargetTable mapping) in
      bnd (asked (''target metadata '' @ target_name mapping @ '': '') dst tg_metadata q) (\<lambda>meta.
      if tm_Columns meta \<noteq> [] then ret (meta, False)
      else if \<not> mig_AutoCreateTable task
      then fail (text_error (''target table '' @ target_name mapping @ '' does not exist; enable auto_create_table''))
      else bnd (create_columns (mig_ID task) sourceDS targetDS mapping cols) (\<lambda>create.
        bnd (create_table dst mapping create (primaryKeyNames cols) pk targetPKs) (\<lambda>_.
        bnd (asked [] dst tg_metadata q) (\<lambda>meta. ret (meta, True))))))"

definition key_index :: "IndexInfo \<Rightarrow> string list \<Rightarrow> IndexInfo" where
  "key_index i keys = \<lparr>idx_Name = or_text (idx_Name i) ''uq_dts_key'', idx_Columns = keys, idx_Unique = True, idx_Primary = False\<rparr>"

definition unique_key ::
  "Target \<Rightarrow> TableMapping \<Rightarrow> IndexInfo option \<Rightarrow> string list \<Rightarrow> TableMetadata \<times> bool \<Rightarrow> TableMetadata svc" where
  "unique_key dst mapping index keys st = (case (index, st) of
     (None, (meta, created)) \<Rightarrow> ret meta
   | (Some i, (meta, created)) \<Rightarrow>
       if matchingUniqueIndex (tm_Indexes meta) keys then ret meta
       else if \<not> created
       then fail (text_error (''target table '' @ target_name mapping @ '' must have a UNIQUE index on migration key ''
              @ go_list_text keys @ '' before native migration''))
       else if \<not> tg_post_load_schema dst
       then fail (text_error (''target connector cannot create UNIQUE migration key '' @ go_list_text keys))
       else bnd (ok_call None (''create target UNIQUE migration key '' @ go_list_text keys @ '': '') dst
              (CreateIndex (tmap_TargetSchema mapping) (tmap_TargetTable mapping) (key_index i keys))) (\<lambda>_.
         asked [] dst tg_metadata (GetTableMetadata (tmap_TargetSchema mapping) (tmap_TargetTable mapping))))"

section \<open>One table\<close>

definition chooseTableFullEngine :: "DataSource \<Rightarrow> DataSource \<Rightarrow> string svc" where
  "chooseTableFullEngine source target =
     bnd (with_prefix (''DTS Unified Engine cannot execute full load '' @ DataSourceType_string (ds_Type source) @ '' -> ''
          @ DataSourceType_string (ds_Type target) @ '': '') (requireFullPair source target)) (\<lambda>_. ret unifiedEngineName)"

definition source_table :: "DataSource \<Rightarrow> Target \<Rightarrow> TableMapping \<Rightarrow> TableMetadata svc" where
  "source_table sourceDS src mapping =
     bnd (ask_metadata src (tmap_SourceSchema mapping) (tmap_SourceTable mapping)) (\<lambda>a. case a of
       MetaUnavailable _ \<Rightarrow> fail (text_error (''DTS connector for '' @ DataSourceType_string (ds_Type sourceDS)
         @ '' does not expose table metadata; DTS requires a native connector implementation''))
     | MetaError e \<Rightarrow> fail (Wrapped (''read metadata '' @ table_name mapping @ '': '') (text_error e))
     | Meta meta \<Rightarrow>
         if tm_Columns meta = [] then fail (text_error (''source table '' @ table_name mapping @ '' has no columns''))
         else ret meta)"

text \<open>The measured profile of the table in an earlier task, and the rows of a chunk it suggests.\<close>

definition with_profile :: "MigrationTable \<Rightarrow> MigrationTable \<Rightarrow> MigrationTable" where
  "with_profile prev t = t\<lparr>tbl_ProfileBytesPerSec := tbl_ProfileBytesPerSec prev,
     tbl_ProfileRowsPerSec := tbl_ProfileRowsPerSec prev, tbl_RecommendedChunkRows := tbl_RecommendedChunkRows prev,
     tbl_PerformanceSamples := tbl_PerformanceSamples prev, tbl_TopologyPerformance := tbl_TopologyPerformance prev\<rparr>"

definition reuse_profile :: "MigrationTask \<Rightarrow> TableMapping \<Rightarrow> MigrationTable \<Rightarrow> (MigrationTable \<times> int) svc" where
  "reuse_profile task mapping t =
     bnd (env (\<lambda>E. default_on E ''DTS_HISTORICAL_PROFILE_REUSE'')) (\<lambda>on.
     bnd (query (FindMigrationTableProfile (mig_SourceID task) (mig_TargetID task)
       (tmap_SourceSchema mapping) (tmap_SourceTable mapping))) (\<lambda>r. case r of
       Inl _ \<Rightarrow> ret (t, mig_ChunkRows task)
     | Inr prev \<Rightarrow>
         if \<not> on \<or> tbl_PerformanceSamples prev \<le> 0 then ret (t, mig_ChunkRows task)
         else if tbl_RecommendedChunkRows prev \<le> 0 then ret (with_profile prev t, mig_ChunkRows task)
         else let rows = BoundHistoricalRows (tbl_RecommendedChunkRows prev) (mig_ChunkRows task) (1 / 4) 4 in
           bnd (logTask (mig_ID task) [] (tbl_ID t) [] ''INFO''
             (''historical table profile reused table='' @ table_name mapping @ '' samples='' @ int_str (tbl_PerformanceSamples prev)
              @ '' recommended_chunk_rows='' @ int_str (tbl_RecommendedChunkRows prev) @ '' planned_chunk_rows='' @ int_str rows)) (\<lambda>_.
           ret (with_profile prev t, rows))))"

definition new_table ::
  "MigrationTask \<Rightarrow> TableMapping \<Rightarrow> TableMapping list \<Rightarrow> TableMetadata \<Rightarrow> ColumnInfo list \<Rightarrow> TopologyPlacement list \<Rightarrow>
   string \<Rightarrow> MigrationTable" where
  "new_table task mapping mappings meta targetColumns topology i =
     (let keys = fst (stableMigrationKey meta); targetKeys = mappedKeyNames keys (tmap_Columns mapping);
          arts = mapTableSchemaArtifacts meta mapping mappings in
      zero_MigrationTable\<lparr>tbl_ID := i, tbl_TaskID := mig_ID task, tbl_Engine := unifiedEngineName,
        tbl_SourceSchema := tmap_SourceSchema mapping, tbl_SourceTable := tmap_SourceTable mapping,
        tbl_TargetSchema := tmap_TargetSchema mapping, tbl_TargetTable := tmap_TargetTable mapping,
        tbl_PrimaryKeys := keys, tbl_TargetPrimaryKeys := targetKeys, tbl_Topology := topology,
        tbl_PrimaryKey := first_or_empty keys, tbl_TargetPrimaryKey := first_or_empty targetKeys,
        tbl_PrimaryKeyType := tm_PrimaryKeyType meta, tbl_Columns := filterGenerated (tm_Columns meta),
        tbl_TargetColumns := targetColumns, tbl_Indexes := fst arts, tbl_ForeignKeys := snd arts,
        tbl_EstimatedRows := tm_EstimatedRows meta, tbl_DataLength := tm_DataLength meta,
        tbl_MinPK := tm_MinPK meta, tbl_MaxPK := tm_MaxPK meta,
        tbl_SplitStrategy := normalizedSplitStrategy (tmap_SplitStrategy mapping),
        tbl_CustomWhere := trim_space (tmap_CustomWhere mapping), tbl_HashBuckets := tmap_HashBuckets mapping,
        tbl_Partitions := tmap_Partitions mapping, tbl_Status := ''READY''\<rparr>)"

definition target_columns ::
  "DataSource \<Rightarrow> DataSource \<Rightarrow> Target \<Rightarrow> MigrationTask \<Rightarrow> TableMapping \<Rightarrow> TableMetadata \<Rightarrow> ColumnInfo list svc" where
  "target_columns sourceDS targetDS dst task mapping meta =
     (let keys = stableMigrationKey meta; targetKeys = mappedKeyNames (fst keys) (tmap_Columns mapping) in
      case mapTargetColumns (filterGenerated (tm_Columns meta)) (tm_PrimaryKey meta) (tmap_Columns mapping) of
        Inl e \<Rightarrow> fail (Wrapped (''column mapping '' @ table_name mapping @ '': '') (text_error e))
      | Inr (cols, pk) \<Rightarrow>
          bnd (target_table task sourceDS targetDS dst mapping cols pk targetKeys) (\<lambda>st.
          bnd (unique_key dst mapping (snd keys) targetKeys st) (\<lambda>tmeta.
          case validateTargetColumns cols tmeta of
            Some e \<Rightarrow> fail (Wrapped (''target table '' @ target_name mapping @ '': '') (text_error e))
          | None \<Rightarrow> ret (orderedTargetColumns cols tmeta))))"

definition store_table :: "MigrationTable \<Rightarrow> MigrationChunk list \<Rightarrow> unit svc" where
  "store_table t chunks =
     bnd (must (write_repo (\<lambda>io. CreateMigrationTable io t))) (\<lambda>_.
     must (write_repo (\<lambda>io. CreateChunks io chunks)))"

definition plan_table ::
  "Target \<Rightarrow> MigrationTask \<Rightarrow> TableMapping \<Rightarrow> TableMetadata \<Rightarrow> TopologyPlacement list \<Rightarrow> MigrationTable \<Rightarrow> int svc" where
  "plan_table src task mapping meta topology t =
     bnd (reuse_profile task mapping t) (\<lambda>(t, rows).
     if \<not> tm_HasRows meta
     then bnd (must (write_repo (\<lambda>io. CreateMigrationTable io (t\<lparr>tbl_Status := ''EMPTY''\<rparr>)))) (\<lambda>_. ret 0)
     else bnd (plan_chunks src \<lparr>tn_task = task, tn_mapping = mapping, tn_meta = meta, tn_keys = tbl_PrimaryKeys t,
              tn_columns = tbl_Columns t, tn_rows = rows\<rparr> t) (\<lambda>(t, chunks).
       bnd (store_table (t\<lparr>tbl_TotalChunks := int (length chunks)\<rparr>) (assignTopologyHints chunks topology)) (\<lambda>_.
       ret (int (length chunks)))))"

definition prepare_table ::
  "MigrationTask \<Rightarrow> DataSource \<Rightarrow> DataSource \<Rightarrow> Target \<Rightarrow> Target \<Rightarrow> TableMapping list \<Rightarrow> TableMapping \<Rightarrow> int svc" where
  "prepare_table task sourceDS targetDS src dst mappings mapping =
     bnd cancelled (\<lambda>stop.
     if stop then fail (text_error ''context canceled'')
     else bnd (source_table sourceDS src mapping) (\<lambda>meta.
       bnd (with_prefix (''select full engine for '' @ table_name mapping @ '': '') (chooseTableFullEngine sourceDS targetDS)) (\<lambda>_.
       if fst (stableMigrationKey meta) = []
       then fail (text_error (''table '' @ table_name mapping
              @ '' has neither a primary key nor a UNIQUE NOT NULL key; native resumable migration requires a stable migration key''))
       else bnd (target_columns sourceDS targetDS dst task mapping meta) (\<lambda>cols.
         bnd (discoverTableTopology src (tmap_SourceSchema mapping) (tmap_SourceTable mapping)) (\<lambda>topology.
         bnd (newID ''tbl'') (\<lambda>i.
         plan_table src task mapping meta topology (new_table task mapping mappings meta cols topology i)))))))"

fun prepare_tables ::
  "(TableMapping \<Rightarrow> int svc) \<Rightarrow> TableMapping list \<Rightarrow> int \<Rightarrow> int svc" where
  "prepare_tables f [] n = ret n"
| "prepare_tables f (m # ms) n = bnd (f m) (\<lambda>k. prepare_tables f ms (n + k))"

section \<open>A capture without a copy\<close>

definition validateSelectedCDC :: "Target \<Rightarrow> TableMapping list \<Rightarrow> unit svc" where
  "validateSelectedCDC src mappings =
     (if tg_selection_validator src then ok_call None ''source CDC table selection: '' src (ValidateCDCSelection mappings)
      else ret ())"

definition described :: "TableMetadata \<Rightarrow> TableMapping \<Rightarrow> MigrationTable \<Rightarrow> string + MigrationTable" where
  "described meta mapping t =
     (let cols = filterGenerated (tm_Columns meta) in
      case mapTargetColumns cols (tm_PrimaryKey meta) (tmap_Columns mapping) of
        Inl e \<Rightarrow> Inl e
      | Inr (target, pk) \<Rightarrow> Inr (t\<lparr>tbl_PrimaryKeys := primary_names meta, tbl_PrimaryKey := tm_PrimaryKey meta,
          tbl_TargetPrimaryKey := pk, tbl_PrimaryKeyType := tm_PrimaryKeyType meta, tbl_Columns := cols,
          tbl_EstimatedRows := tm_EstimatedRows meta, tbl_DataLength := tm_DataLength meta,
          tbl_TargetColumns := target, tbl_TargetPrimaryKeys := primaryKeyNames target\<rparr>))"

definition incremental_table :: "MigrationTask \<Rightarrow> Target \<Rightarrow> TableMapping \<Rightarrow> unit svc" where
  "incremental_table task src mapping =
     bnd (newID ''tbl'') (\<lambda>i.
     let t = zero_MigrationTable\<lparr>tbl_ID := i, tbl_TaskID := mig_ID task, tbl_SourceSchema := tmap_SourceSchema mapping,
         tbl_SourceTable := tmap_SourceTable mapping, tbl_TargetSchema := tmap_TargetSchema mapping,
         tbl_TargetTable := tmap_TargetTable mapping, tbl_Status := ''CDC_READY''\<rparr> in
     bnd (ask_metadata src (tmap_SourceSchema mapping) (tmap_SourceTable mapping)) (\<lambda>a.
     case (case a of MetaUnavailable _ \<Rightarrow> Inr t | MetaError e \<Rightarrow> Inl e | Meta meta \<Rightarrow> described meta mapping t) of
       Inl e \<Rightarrow> fail (text_error e)
     | Inr t \<Rightarrow> must (write_repo (\<lambda>io. CreateMigrationTable io t))))"

definition prepareIncrementalTables :: "MigrationTask \<Rightarrow> Target \<Rightarrow> DataSource \<Rightarrow> DataSource \<Rightarrow> unit svc" where
  "prepareIncrementalTables task src sourceDS targetDS =
     bnd (query (ListMigrationTables (mig_ID task))) (\<lambda>existing.
     if existing \<noteq> [] then ret ()
     else bnd (resolveMappings src sourceDS targetDS (mig_Tables task)) (\<lambda>mappings.
       if mappings = [] then fail (text_error ''no source tables selected'')
       else bnd (validateSelectedCDC src mappings) (\<lambda>_. each (incremental_table task src) mappings)))"

section \<open>The task\<close>

definition forward_messages :: position_messages where
  "forward_messages = \<lparr>pm_selection = ''capture selected-table CDC start position: '',
     pm_mysql = ''capture DTS MySQL CDC start position: '', pm_slot = ''create PostgreSQL CDC replication slot: '',
     pm_source = ''capture CDC start position: '', pm_none = []\<rparr>"

definition precheck_problem :: "PrecheckItem \<Rightarrow> string option" where
  "precheck_problem i =
     (if pc_Level i = PrecheckFailed
      then Some (''DTS MySQL CDC precheck '' @ pc_Name i @ '' failed: '' @ pc_Message i)
      else if pc_Name i = ''mysql_binlog_row_image'' \<and> pc_Level i \<noteq> PrecheckPass
      then Some (''DTS MySQL CDC requires binlog_row_image=FULL: '' @ pc_Message i) else None)"

definition mysql_prechecks :: "MigrationTask \<Rightarrow> DataSource \<Rightarrow> Target \<Rightarrow> unit svc" where
  "mysql_prechecks task sourceDS src =
     (if IsMySQLFamily (ds_Type sourceDS) \<and> mig_Mode task \<noteq> ModeFull \<and> tg_precheck src
      then bnd (told src tg_prechecks (MigrationPrechecks True)) (\<lambda>items. checked (first_some precheck_problem items))
      else ret ())"

text \<open>The position the capture starts from, recorded and kept in the task.\<close>

definition capture_start :: "MigrationTask \<Rightarrow> DataSource \<Rightarrow> Target \<Rightarrow> MigrationTask svc" where
  "capture_start m sourceDS src =
     (if mig_Mode m \<noteq> ModeFullAndIncremental \<and> mig_Mode m \<noteq> ModeIncremental then ret m
      else bnd (capture_position (forward_messages\<lparr>pm_none := ''source connector '' @ DataSourceType_string (ds_Type sourceDS)
            @ '' does not implement the DTS CDC source contract''\<rparr>) src (ds_Type sourceDS) (mig_Tables m)
            (slot_name (''dts_'' @ mig_ID m))) (\<lambda>pos.
        bnd (must (record_position (mig_ID m) ''forward'' pos)) (\<lambda>_.
        let m = m\<lparr>mig_CDCStartTimestampMS := pos_SourceTimestampMS pos, mig_CDCStartPositionType := pos_PositionType pos,
              mig_CDCStartPositionValue := pos_PositionValue pos, mig_CDCStartResource := pos_Resource pos\<rparr> in
        bnd clock (\<lambda>now. let m = m\<lparr>mig_UpdatedAt := now\<rparr> in
        bnd (must (write_repo (\<lambda>io. UpdateMigration io m))) (\<lambda>_. ret m)))))"

definition start_incremental :: "MigrationTask \<Rightarrow> DataSource \<Rightarrow> DataSource \<Rightarrow> Target \<Rightarrow> unit svc" where
  "start_incremental m sourceDS targetDS src =
     bnd (prepareIncrementalTables m src sourceDS targetDS) (\<lambda>_.
     bnd (setStatus (mig_ID m) StatusCDCInitializing) (\<lambda>_.
     bnd (query (GetMigration (mig_ID m))) (\<lambda>r. case r of
       Inl _ \<Rightarrow> fail (text_error ''nil migration task'')
     | Inr m \<Rightarrow> ensureManagedCDCJob m ''forward'')))"

definition empty_full :: "MigrationTask \<Rightarrow> unit svc" where
  "empty_full m =
     bnd (to_status StatusFullMigrating (m\<lparr>mig_Progress := 100\<rparr>)) (\<lambda>m.
     bnd (to_status StatusFullFinished m) (\<lambda>m.
     must (write_repo (\<lambda>io. UpdateMigration io (moved (if mig_ValidationEnabled m then StatusValidating else StatusFinished) m)))))"

definition begin_migration :: "MigrationTask \<Rightarrow> int \<Rightarrow> unit svc" where
  "begin_migration m0 n =
     bnd clock (\<lambda>now. let m = m0\<lparr>mig_TotalChunks := n, mig_UpdatedAt := now\<rparr> in
     if mig_Mode m = ModeFullAndIncremental
     then bnd (to_status StatusCDCInitializing m) (\<lambda>m.
       bnd (must (write_repo (\<lambda>io. UpdateMigration io m))) (\<lambda>_. ensureManagedCDCJob m ''forward''))
     else if n = 0 then empty_full m
     else bnd (to_status StatusFullMigrating m) (\<lambda>m. must (write_repo (\<lambda>io. UpdateMigration io m))))"

definition prepare_full :: "MigrationTask \<Rightarrow> DataSource \<Rightarrow> DataSource \<Rightarrow> Target \<Rightarrow> Target \<Rightarrow> unit svc" where
  "prepare_full m sourceDS targetDS src dst =
     bnd (resolveMappings src sourceDS targetDS (mig_Tables m)) (\<lambda>mappings.
     if mappings = [] then fail (text_error ''no source tables selected'')
     else bnd (if mig_Mode m = ModeFullAndIncremental then validateSelectedCDC src mappings else ret ()) (\<lambda>_.
       bnd (prepare_tables (prepare_table m sourceDS targetDS src dst mappings) mappings 0) (\<lambda>n.
       bnd (fetch (GetMigration (mig_ID m))) (\<lambda>m. begin_migration m n))))"

definition prepare_connected :: "MigrationTask \<Rightarrow> DataSource \<Rightarrow> DataSource \<Rightarrow> Target \<Rightarrow> Target \<Rightarrow> unit svc" where
  "prepare_connected m sourceDS targetDS src dst =
     bnd (ok_call None ''source precheck: '' src TestConnection) (\<lambda>_.
     bnd (ok_call None ''target precheck: '' dst TestConnection) (\<lambda>_.
     bnd (mysql_prechecks m sourceDS src) (\<lambda>_.
     bnd (setStatus (mig_ID m) StatusPrecheckSuccess) (\<lambda>_.
     bnd (setStatus (mig_ID m) StatusPreparing) (\<lambda>_.
     bnd (fetch (GetMigration (mig_ID m))) (\<lambda>m.
     bnd (capture_start m sourceDS src) (\<lambda>m.
     if mig_Mode m = ModeIncremental then start_incremental m sourceDS targetDS src
     else prepare_full m sourceDS targetDS src dst)))))))"

definition prepareTask :: "string \<Rightarrow> unit svc" where
  "prepareTask taskID =
     bnd (fetch (GetMigration taskID)) (\<lambda>m.
     bnd (with_prefix ''source datasource: '' (fetch (GetDataSource (mig_SourceID m)))) (\<lambda>sourceDS.
     bnd (with_prefix ''target datasource: '' (fetch (GetDataSource (mig_TargetID m)))) (\<lambda>targetDS.
     bnd (connect sourceDS) (\<lambda>src. closing src
       (bnd (connect targetDS) (\<lambda>dst. closing dst (prepare_connected m sourceDS targetDS src dst)))))))"

text \<open>The background run: the lease is released at the end, then a validation may have to start.\<close>

definition prepare :: "string \<Rightarrow> unit svc" where
  "prepare taskID =
     bnd (attempt (prepareTask taskID)) (\<lambda>r.
     bnd (case r of Inl (_, e) \<Rightarrow> failTaskUnlessCanceled taskID (error_text e) | Inr _ \<Rightarrow> ret ()) (\<lambda>_.
     bnd (releaseControlOperation taskID controlOperationPrepare) (\<lambda>_.
     bnd (query (GetMigration taskID)) (\<lambda>m.
     if (case m of Inl _ \<Rightarrow> False | Inr m \<Rightarrow> mig_Status m = StatusValidating)
     then bnd (attempt (startValidation taskID)) (\<lambda>r. case r of
            Inl (_, e) \<Rightarrow> failTask taskID (error_text e) | Inr _ \<Rightarrow> ret ())
     else ret ()))))"

section \<open>The chunks cover the key range\<close>

lemma stamped_run:
  "\<exists>w' cs'. stamped f i cs E w = (w', Done cs') \<and> length cs' = length cs \<and> w_store w' = w_store w \<and> w_calls w' = w_calls w
     \<and> (\<forall>k < length cs. \<exists>id. cs' ! k = (f (i + k) (cs ! k))\<lparr>ch_ID := id, ch_Status := ChunkPending\<rparr>)"
proof (induction cs arbitrary: i w)
  case Nil
  then show ?case by (simp add: ret_def)
next
  case (Cons c cs)
  from Cons.IH [of "Suc i" "w\<lparr>w_tick := Suc (w_tick w)\<rparr>"] obtain w' cs' where
    run: "stamped f (Suc i) cs E (w\<lparr>w_tick := Suc (w_tick w)\<rparr>) = (w', Done cs')" and
    IH: "length cs' = length cs" "w_store w' = w_store w" "w_calls w' = w_calls w"
      "\<forall>k < length cs. \<exists>id. cs' ! k = (f (Suc i + k) (cs ! k))\<lparr>ch_ID := id, ch_Status := ChunkPending\<rparr>" by auto
  let ?c = "(f i c)\<lparr>ch_ID := ''chk'' @ ''_'' @ hex_encode (sv_rand E (w_tick w)), ch_Status := ChunkPending\<rparr>"
  have "stamped f i (c # cs) E w = (w', Done (?c # cs'))"
    using run by (simp add: bnd_def ret_def newID_def tick_def)
  moreover have "\<exists>id. (?c # cs') ! k = (f (i + k) ((c # cs) ! k))\<lparr>ch_ID := id, ch_Status := ChunkPending\<rparr>"
    if "k < length (c # cs)" for k
    using that IH(4) by (cases k) auto
  ultimately show ?case using IH(1-3) by auto
qed

end
