(* ===== verification/Lifecycle.thy ===== *)
theory Lifecycle
  imports Preparing RowTransform
begin

text \<open>
  The life cycle of a task, from \<open>backend/internal/migration/service.go\<close>: creating, starting, pausing and
  cancelling it, recovery after a restart, validation on demand, cutover, repair and rollback.
\<close>

section \<open>Creating a task\<close>

definition defaulted :: "time \<Rightarrow> string \<Rightarrow> MigrationTask \<Rightarrow> MigrationTask" where
  "defaulted now i m0 =
     (let cdc = mig_Mode m0 = ModeFullAndIncremental \<or> mig_Mode m0 = ModeIncremental;
          engine = (if cdc then unifiedEngineName else []);
          m = m0\<lparr>mig_ID := i, mig_Status := StatusCreated, mig_CreatedAt := now, mig_UpdatedAt := now,
            mig_FullEngine := unifiedEngineName, mig_CDCEngine := engine, mig_RollbackCDCEngine := engine,
            mig_ChunkRows := (if mig_ChunkRows m0 \<le> 0 then 100000 else mig_ChunkRows m0),
            mig_BatchRows := (if mig_BatchRows m0 \<le> 0 then 500 else mig_BatchRows m0),
            mig_Parallelism := (if mig_Parallelism m0 \<le> 0 then 4 else mig_Parallelism m0),
            mig_MaxRetries := (if mig_MaxRetries m0 \<le> 0 then 3 else mig_MaxRetries m0),
            mig_FlowControlLevel := (if trim_space (mig_FlowControlLevel m0) = [] then ''NORMAL'' else mig_FlowControlLevel m0),
            mig_WorkerAffinity := to_upper (trim_space
              (if trim_space (mig_WorkerAffinity m0) = [] then ''PREFERRED'' else mig_WorkerAffinity m0)),
            mig_RateLimitTimezone :=
              (if trim_space (mig_RateLimitTimezone m0) = [] then ''Local'' else mig_RateLimitTimezone m0),
            mig_ValidationMode := or_text (mig_ValidationMode m0) ''CHUNK_CHECKSUM'',
            mig_PostLoadDDLMode := to_upper (trim_space (or_text (mig_PostLoadDDLMode m0) ''INDEXES'')),
            mig_CDCDDLMode := to_upper (trim_space (or_text (mig_CDCDDLMode m0) ''REJECT'')),
            mig_CDCConflictMode := to_upper (trim_space (or_text (mig_CDCConflictMode m0) ''SOURCE_WINS'')),
            mig_Tables := map (\<lambda>t. t\<lparr>tmap_SplitStrategy := normalizedSplitStrategy (tmap_SplitStrategy t)\<rparr>) (mig_Tables m0)\<rparr>
      in m\<lparr>mig_EffectiveParallelism := (if mig_EffectiveParallelism m \<le> 0 \<or> mig_EffectiveParallelism m > mig_Parallelism m
             then mig_Parallelism m else mig_EffectiveParallelism m)\<rparr>)"

definition maxSafeTargetThroughputMBps :: int where
  "maxSafeTargetThroughputMBps = (2 ^ 63 - 1) div 2 ^ 20"

definition affinity_error :: "MigrationTask \<Rightarrow> string option" where
  "affinity_error m =
     (if mig_WorkerAffinity m \<notin> {''PREFERRED'', ''REQUIRED''}
      then Some (''unsupported worker_affinity '' @ go_quote (mig_WorkerAffinity m))
      else if list_ex (\<lambda>(k, v). trim_space k = [] \<or> trim_space v = []) (mig_WorkerSelector m)
      then Some ''worker_selector keys and values must be non-empty'' else None)"

definition limit_error :: "MigrationTask \<Rightarrow> string option" where
  "limit_error m =
     (if mig_RowsLimitPerSec m < 0 \<or> mig_QPSLimit m < 0 \<or> mig_ReadLimitMBps m < 0 \<or> mig_WriteLimitMBps m < 0
         \<or> mig_TargetThroughputMBps m < 0 \<or> mig_CompletionSLASeconds m < 0
      then Some ''rate limits and completion_sla_seconds cannot be negative''
      else if mig_TargetThroughputMBps m > 0 \<and> (mig_AutoThroughputEnabled m \<or> mig_CompletionSLASeconds m > 0)
      then Some ''target_throughput_mbps cannot be combined with auto_throughput_enabled or completion_sla_seconds''
      else if mig_AutoThroughputEnabled m \<and> mig_CompletionSLASeconds m > 0
      then Some ''auto_throughput_enabled and completion_sla_seconds are mutually exclusive''
      else if mig_TargetThroughputMBps m > maxSafeTargetThroughputMBps
      then Some (''target_throughput_mbps is too large: '' @ int_str (mig_TargetThroughputMBps m)) else None)"

definition zone_error :: "Env \<Rightarrow> MigrationTask \<Rightarrow> string option" where
  "zone_error E m =
     (if equal_fold (mig_RateLimitTimezone m) ''Local'' then None
      else case sv_zone E (mig_RateLimitTimezone m) of
          Inl e \<Rightarrow> Some (''invalid rate_limit_timezone '' @ go_quote (mig_RateLimitTimezone m) @ '': '' @ e)
        | Inr _ \<Rightarrow> None)"

definition window_error :: "int \<times> RateLimitWindow \<Rightarrow> string option" where
  "window_error iw = (case iw of (i, w) \<Rightarrow>
     let loc = ''rate_limit_windows['' @ int_str i @ '']'' in
     if parseClockMinutes (rlw_Start w) = None then Some (loc @ ''.start must be HH:MM'')
     else if parseClockMinutes (rlw_End w) = None then Some (loc @ ''.end must be HH:MM'')
     else if rlw_ReadLimitMBps w < 0 \<or> rlw_WriteLimitMBps w < 0 \<or> rlw_TargetThroughputMBps w < 0 \<or> rlw_RowsPerSecond w < 0
          \<or> rlw_QPS w < 0 \<or> rlw_Parallelism w < 0 then Some (loc @ '' values cannot be negative'')
     else if rlw_TargetThroughputMBps w > maxSafeTargetThroughputMBps
     then Some (loc @ ''.target_throughput_mbps is too large: '' @ int_str (rlw_TargetThroughputMBps w)) else None)"

definition split_error :: "int \<times> TableMapping \<Rightarrow> string option" where
  "split_error it = (case it of (i, t) \<Rightarrow>
     let loc = ''table mapping '' @ int_str i in
     if tmap_SplitStrategy t \<notin> set split_strategies
     then Some (''table '' @ tmap_SourceSchema t @ ''.'' @ tmap_SourceTable t @ '' unsupported split_strategy '' @ go_quote (tmap_SplitStrategy t))
     else case (if tmap_SplitStrategy t = ''CUSTOM_SQL'' then validateCustomWhere (tmap_CustomWhere t) else None) of
         Some e \<Rightarrow> Some (loc @ '': '' @ e)
       | None \<Rightarrow> if tmap_HashBuckets t < 0 \<or> tmap_HashBuckets t > 256 then Some (loc @ '' hash_buckets must be 0..256'') else None)"

definition conflict_error :: "MigrationTask \<Rightarrow> string option" where
  "conflict_error m =
     (if mig_CDCConflictMode m = ''SOURCE_WINS'' then None
      else if mig_CDCConflictMode m = ''LAST_WRITE_WINS''
      then (if trim_space (mig_CDCConflictColumn m) = [] then Some ''cdc_conflict_column is required for LAST_WRITE_WINS'' else None)
      else Some (''unsupported cdc_conflict_mode '' @ go_quote (mig_CDCConflictMode m)))"

definition numbered :: "'a list \<Rightarrow> (int \<times> 'a) list" where
  "numbered xs = zip [0..int (length xs) - 1] xs"

text \<open>The first error of the checks, in the order of the code.\<close>

definition create_error :: "Env \<Rightarrow> MigrationTask \<Rightarrow> string option" where
  "create_error E m = first_some (\<lambda>f. f ())
     [\<lambda>_. affinity_error m, \<lambda>_. limit_error m, \<lambda>_. zone_error E m,
      \<lambda>_. first_some window_error (numbered (mig_RateLimitWindows m)), \<lambda>_. ValidateRules (mig_TransformRules m),
      \<lambda>_. first_some split_error (numbered (mig_Tables m)), \<lambda>_. conflict_error m]"

definition Create :: "MigrationTask \<Rightarrow> MigrationTask svc" where
  "Create m0 =
     bnd clock (\<lambda>now. bnd (newID ''mig'') (\<lambda>i.
     let m = defaulted now i m0 in
     bnd (env (\<lambda>E. create_error E m)) (\<lambda>e.
     bnd (checked e) (\<lambda>_.
     bnd (must (write_repo (\<lambda>io. CreateMigration io m))) (\<lambda>_.
     bnd (logTask i [] [] [] ''INFO'' ''migration task created'') (\<lambda>_. ret m))))))"

section \<open>The plan of a start\<close>

definition ddl_family :: "DataSourceType \<Rightarrow> DataSourceType \<Rightarrow> bool" where
  "ddl_family s t \<longleftrightarrow> sameNativeDatabaseFamily s t \<or> s = DataSourceGaussDB \<and> t = DataSourceGaussDB"

definition ddl_mode_error :: "MigrationTask \<Rightarrow> DataSource \<Rightarrow> DataSource \<Rightarrow> string option" where
  "ddl_mode_error m source target =
     (let mode = to_upper (trim_space (mig_CDCDDLMode m)) in
      if to_upper (trim_space (mig_PostLoadDDLMode m)) \<notin> {[], ''NONE'', ''INDEXES'', ''INDEXES_AND_FOREIGN_KEYS''}
      then Some (''unsupported post_load_ddl_mode '' @ go_quote (mig_PostLoadDDLMode m))
      else if mode \<in> {[], ''REJECT''} then None
      else if mode = ''SAME_FAMILY''
      then (if ddl_family (ds_Type source) (ds_Type target) then None
            else Some (''cdc_ddl_mode SAME_FAMILY requires same-family source/target, got ''
              @ DataSourceType_string (ds_Type source) @ '' -> '' @ DataSourceType_string (ds_Type target)))
      else Some (''unsupported cdc_ddl_mode '' @ go_quote (mig_CDCDDLMode m)))"

definition rollback_check :: "MigrationTask \<Rightarrow> DataSource \<Rightarrow> unit svc" where
  "rollback_check m target =
     (if trim_space (mig_RollbackCDCEngine m) = [] then ret ()
      else bnd (checked (validateCDCEngineSource (mig_RollbackCDCEngine m) target ''rollback'')) (\<lambda>_.
        required (''rollback CDC source '' @ DataSourceType_string (ds_Type target) @ '': '') ''cdc-read'' (ds_Type target)))"

definition validateExecutionPlan :: "MigrationTask \<Rightarrow> unit svc" where
  "validateExecutionPlan m =
     bnd (with_prefix ''source datasource: '' (fetch (GetDataSource (mig_SourceID m)))) (\<lambda>source.
     bnd (with_prefix ''target datasource: '' (fetch (GetDataSource (mig_TargetID m)))) (\<lambda>target.
     bnd (if mig_Mode m = ModeIncremental then ret () else requireFullPair source target) (\<lambda>_.
     bnd (if mig_Mode m = ModeFull then ret ()
          else bnd (checked (validateCDCEngineSource (mig_CDCEngine m) source ''forward'')) (\<lambda>_.
            bnd (requireCDCPair source target) (\<lambda>_. rollback_check m target))) (\<lambda>_.
     checked (ddl_mode_error m source target)))))"

section \<open>Starting, pausing, cancelling\<close>

definition inferResumeStatus :: "MigrationTask \<Rightarrow> Store \<Rightarrow> MigrationStatus" where
  "inferResumeStatus m s =
     (if prefix ''ROLLBACK_'' (MigrationStatus_string (mig_PausedFromStatus m)) then mig_PausedFromStatus m
      else if mig_Mode m = ModeIncremental then StatusCDCCatchingUp
      else if mig_TotalChunks m > 0 \<and> mig_FinishedChunks m < mig_TotalChunks m then StatusFullMigrating
      else if mig_ValidationEnabled m \<and> ListValidationResults (mig_ID m) s = [] then StatusValidating
      else if mig_Mode m = ModeFullAndIncremental then StatusCDCCatchingUp
      else StatusFullMigrating)"

definition after_resume :: "MigrationTask \<Rightarrow> MigrationStatus \<Rightarrow> unit svc" where
  "after_resume m resume =
     (if resume = StatusCDCInitializing \<or> resume = StatusCDCCatchingUp then ensureManagedCDCJob m ''forward''
      else if resume = StatusRollbackSyncing then ensureManagedCDCJob m ''reverse''
      else if resume = StatusValidating then startValidation (mig_ID m) else ret ())"

definition resume_task :: "MigrationTask \<Rightarrow> unit svc" where
  "resume_task m =
     bnd (query (inferResumeStatus m)) (\<lambda>inferred.
     let resume = (if MigrationStatus_string (mig_PausedFromStatus m) = [] then inferred else mig_PausedFromStatus m) in
     bnd (to_status resume m) (\<lambda>m.
     bnd clock (\<lambda>now. let m = m\<lparr>mig_PausedFromStatus := MigrationStatusOther [], mig_UpdatedAt := now\<rparr> in
     bnd (must (write_repo (\<lambda>io. UpdateMigration io m))) (\<lambda>_. after_resume m resume))))"

text \<open>The lease is given back unless the preparation has been launched.\<close>

definition unless_launched :: "string \<Rightarrow> unit svc \<Rightarrow> unit svc" where
  "unless_launched taskID m =
     bnd (attempt m) (\<lambda>r. case r of
       Inr _ \<Rightarrow> ret ()
     | Inl (p, e) \<Rightarrow> bnd (releaseControlOperation taskID controlOperationPrepare) (\<lambda>_. fail_with p e))"

definition launch :: "MigrationTask \<Rightarrow> unit svc" where
  "launch m0 =
     (let m = m0\<lparr>mig_FullEngine := unifiedEngineName,
            mig_CDCEngine := (if mig_Mode m0 = ModeFull then mig_CDCEngine m0 else unifiedEngineName)\<rparr> in
      bnd (unless_launched (mig_ID m) (bnd (to_status StatusPrechecking m) stored)) (\<lambda>_.
      launchPrepareWithLease (mig_ID m)))"

definition Start :: "string \<Rightarrow> unit svc" where
  "Start taskID =
     bnd (fetch (GetMigration taskID)) (\<lambda>m.
     if mig_Status m = StatusPaused then resume_task m
     else if mig_Status m \<noteq> StatusCreated
     then fail (text_error (''task cannot start from '' @ MigrationStatus_string (mig_Status m)))
     else bnd (validateExecutionPlan m) (\<lambda>_.
       bnd (acquireControlOperation taskID controlOperationPrepare) (\<lambda>acquired.
       if \<not> acquired then fail (text_error ''another server is already preparing this task'')
       else launch m)))"

definition Resume :: "string \<Rightarrow> unit svc" where
  "Resume taskID = Start taskID"

text \<open>Cancelling the runner of a task is the cancellation its background operation sees.\<close>

definition Pause :: "string \<Rightarrow> unit svc" where
  "Pause taskID =
     bnd (fetch (GetMigration taskID)) (\<lambda>m.
     let from = mig_Status m in
     bnd (to_status StatusPaused m) (\<lambda>m.
     bnd (stored (m\<lparr>mig_PausedFromStatus := from\<rparr>)) (\<lambda>_.
     if from = StatusCDCInitializing \<or> from = StatusCDCCatchingUp then ignore (requestStopEngineJobs taskID ''forward'')
     else if from = StatusRollbackSyncing then ignore (requestStopEngineJobs taskID ''reverse'')
     else ret ())))"

definition Cancel :: "string \<Rightarrow> unit svc" where
  "Cancel taskID =
     bnd (fetch (GetMigration taskID)) (\<lambda>m.
     if mig_Status m = StatusFinished then fail (text_error ''finished task cannot be cancelled'')
     else stored (m\<lparr>mig_Status := StatusCancelled\<rparr>))"

end
