(* ===== verification/Cutover.thy ===== *)
theory Cutover
  imports Lifecycle ValidationArchive
begin

text \<open>
  Recovery after a restart, validation on demand, cutover, repair and rollback, from
  \<open>backend/internal/migration/service.go\<close>. The main theorem is what a cutover has done when it
  reports success.
\<close>

section \<open>Recovery\<close>

definition recovery :: string where
  "recovery = ''recovery''"

definition recover_precheck :: "MigrationTask \<Rightarrow> string option svc" where
  "recover_precheck task =
     bnd (attempt (acquireControlOperation (mig_ID task) controlOperationPrepare)) (\<lambda>r. case r of
       Inl (_, e) \<Rightarrow> ret (Some (''recover task '' @ mig_ID task @ '' precheck: '' @ error_text e))
     | Inr acquired \<Rightarrow>
         if \<not> acquired then ret None
         else bnd (logTask (mig_ID task) [] [] [] ''WARN'' ''restarting interrupted precheck after control-operation lease expiry'') (\<lambda>_.
           bnd (launchPrepareWithLease (mig_ID task)) (\<lambda>_. ret None)))"

definition recover_validation :: "MigrationTask \<Rightarrow> string option svc" where
  "recover_validation task =
     bnd (attempt (startValidation (mig_ID task))) (\<lambda>r. case r of
       Inr _ \<Rightarrow> ret None
     | Inl (_, e) \<Rightarrow>
         if contains (error_text e) ''already running validation'' then ret None
         else ret (Some (''recover task '' @ mig_ID task @ '' validation: '' @ error_text e)))"

definition recover_preparation :: "MigrationTask \<Rightarrow> string option svc" where
  "recover_preparation task =
     bnd (attempt (acquireControlOperation (mig_ID task) recovery)) (\<lambda>r. case r of
       Inl (_, e) \<Rightarrow> ret (Some (''recover task '' @ mig_ID task @ '' preparation: '' @ error_text e))
     | Inr acquired \<Rightarrow>
         if \<not> acquired then ret None
         else bnd (failTask (mig_ID task) (''server restarted during '' @ MigrationStatus_string (mig_Status task)
             @ ''; automatic replay is unsafe after target preparation may have begun; inspect target objects, then repair or recreate the task'')) (\<lambda>_.
           bnd (releaseControlOperation (mig_ID task) recovery) (\<lambda>_. ret None)))"

definition recover_task :: "MigrationTask \<Rightarrow> string option svc" where
  "recover_task task = (case mig_Status task of
     StatusPrechecking \<Rightarrow> recover_precheck task
   | StatusValidating \<Rightarrow> recover_validation task
   | StatusPrecheckSuccess \<Rightarrow> recover_preparation task
   | StatusPreparing \<Rightarrow> recover_preparation task
   | _ \<Rightarrow> ret None)"

text \<open>The errors of the tasks, joined by line ends as \<open>errors.Join\<close> prints them.\<close>

fun recover_tasks :: "MigrationTask list \<Rightarrow> string list \<Rightarrow> unit svc" where
  "recover_tasks [] errs = (if errs = [] then ret () else fail (text_error (join errs [CHR 0x0A])))"
| "recover_tasks (t # ts) errs =
     bnd cancelled (\<lambda>stop. if stop then fail (text_error ''context canceled'')
       else bnd (recover_task t) (\<lambda>r. recover_tasks ts (case r of None \<Rightarrow> errs | Some e \<Rightarrow> errs @ [e])))"

definition RecoverInterrupted :: "unit svc" where
  "RecoverInterrupted = bnd (query ListMigrations) (\<lambda>tasks. recover_tasks tasks [])"

section \<open>Evidence\<close>

definition ensure_archive :: "string \<Rightarrow> int \<Rightarrow> (go_error + ValidationArchive option \<times> bool) svc" where
  "ensure_archive taskID pageSize = tick (\<lambda>n E w.
     if sv_crash E n then (w, Crashed)
     else case EnsureValidationArchive (sv_io E n) (sv_now E n) (sv_others E n) taskID pageSize (w_store w) of
         None \<Rightarrow> (w, Crashed)
       | Some (s, r) \<Rightarrow> (w\<lparr>w_store := s\<rparr>, Done r))"

definition archiveValidationBestEffort :: "string \<Rightarrow> unit svc" where
  "archiveValidationBestEffort taskID =
     (if taskID = [] then ret ()
      else bnd (envInt64 ''DTS_VALIDATION_ARCHIVE_PAGE_SIZE'' 512) (\<lambda>n.
        bnd (ensure_archive taskID n) (\<lambda>r. case r of
          Inr _ \<Rightarrow> ret ()
        | Inl e \<Rightarrow>
            if e = ErrNoValidationEvidence \<or> e = ErrValidationArchiveNotTerminal then ret ()
            else logTask taskID [] [] [] ''WARN'' (''validation archive creation failed: '' @ go_error_text e))))"

definition requireSuccessfulValidation :: "MigrationTask \<Rightarrow> unit svc" where
  "requireSuccessfulValidation task =
     bnd (query (FirstInvalidSuccessfulChunk_any True (mig_ID task))) (\<lambda>(chunkID, status).
     if chunkID = [] then ret ()
     else if status = ValidationStatusOther []
     then fail (text_error (''validation result is missing for chunk '' @ chunkID))
     else fail (text_error (''validation for chunk '' @ chunkID @ '' is '' @ ValidationStatus_string status)))"

section \<open>Validation on demand\<close>

definition may_validate :: "MigrationStatus \<Rightarrow> bool" where
  "may_validate s \<longleftrightarrow> s \<in> {StatusFullFinished, StatusFinished, StatusValidating, StatusCDCCatchingUp}"

definition ValidateNow :: "string \<Rightarrow> unit svc" where
  "ValidateNow taskID =
     bnd (fetch (GetMigration taskID)) (\<lambda>m.
     if \<not> may_validate (mig_Status m)
     then fail (text_error (''task cannot validate from '' @ MigrationStatus_string (mig_Status m)))
     else bnd (if mig_Mode m \<noteq> ModeFull \<and> mig_Status m \<noteq> StatusValidating then fetch (GetMigration taskID) else ret m) (\<lambda>m.
       bnd (query (CDCSpoolStats_of taskID ''forward'')) (\<lambda>stats.
       if mig_Status m = StatusCDCCatchingUp \<and> ss_PendingTransactions stats > 0
       then fail (text_error (''task cannot validate while CDC spool has '' @ int_str (ss_PendingTransactions stats)
              @ '' pending transactions''))
       else bnd (if mig_Status m = StatusValidating then ret ()
              else bnd (captureValidationBarrier m) (\<lambda>m. bnd (to_status StatusValidating m) stored)) (\<lambda>_.
         startValidation taskID))))"

section \<open>The capture has started\<close>

text \<open>\<open>Transition\<close> whose error is ignored leaves the task as it is.\<close>

definition MarkCDCStarted :: "string \<Rightarrow> CDCPosition option \<Rightarrow> unit svc" where
  "MarkCDCStarted taskID p =
     bnd (fetch (GetMigration taskID)) (\<lambda>task.
     if mig_Status task \<noteq> StatusCDCInitializing
     then fail (text_error (''task cannot start CDC from '' @ MigrationStatus_string (mig_Status task)))
     else bnd (case p of None \<Rightarrow> ret ()
            | Some p \<Rightarrow> if pos_PositionValue p \<noteq> [] \<or> pos_LagMS p \<noteq> 0
                then ignore (record_position taskID ''forward'' p) else ret ()) (\<lambda>_.
       bnd (if mig_Mode task = ModeIncremental then to_status StatusCDCCatchingUp task
            else bnd (to_status StatusFullMigrating task) (\<lambda>task.
              ret (if mig_TotalChunks task \<noteq> 0 then task
                   else moved StatusCDCCatchingUp (moved StatusFullFinished (task\<lparr>mig_Progress := 100\<rparr>))))) (\<lambda>task.
       bnd (stored task) (\<lambda>_.
       if mig_Status task = StatusCDCCatchingUp then scheduleCDCSpoolDrain (mig_ID task) ''forward'' else ret ()))))"

section \<open>The cutover gate\<close>

definition sequence_age :: "string \<Rightarrow> int" where
  "sequence_age raw = (case atoi (trim_space raw) of
     None \<Rightarrow> 60 | Some n \<Rightarrow> if 0 < n \<and> n \<le> 3600 then n else 60)"

definition sequenceSyncFreshness :: "duration svc" where
  "sequenceSyncFreshness = bnd (getenv ''DTS_SEQUENCE_SYNC_MAX_AGE_SECONDS'') (\<lambda>raw.
     ret (sequence_age raw * 10 ^ 9))"

definition check_sequence_age :: "MigrationTask \<Rightarrow> unit svc" where
  "check_sequence_age task =
     (if mig_SequenceSyncedAt task = 0
      then fail (text_error ''PostgreSQL sequences have not been synchronized; apply safe schema objects immediately before cutover'')
      else bnd sequenceSyncFreshness (\<lambda>maxAge. bnd clock (\<lambda>now.
        let age = max 0 (time_sub now (mig_SequenceSyncedAt task)) in
        if age > maxAge
        then fail (text_error (''PostgreSQL sequence synchronization is stale ('' @ duration_str (round_duration age (10 ^ 9))
               @ '' old, max '' @ duration_str maxAge @ ''); re-apply safe schema objects before cutover''))
        else ret ())))"

definition requireFreshSequenceSync :: "MigrationTask \<Rightarrow> unit svc" where
  "requireFreshSequenceSync task =
     bnd (fetch (GetDataSource (mig_SourceID task))) (\<lambda>sourceDS.
     bnd (fetch (GetDataSource (mig_TargetID task))) (\<lambda>targetDS.
     if \<not> IsPostgreSQLFamily (ds_Type sourceDS) \<or> \<not> IsPostgreSQLFamily (ds_Type targetDS) then ret ()
     else bnd (with_prefix ''sequence cutover assessment: '' (PlanSchemaObjects (mig_ID task))) (\<lambda>plan.
       if list_ex (\<lambda>i. pi_Action i = SchemaObjectSyncSequence) (sp_Items plan) then check_sequence_age task else ret ())))"

text \<open>What the two gates ask of the newest checkpoint of their direction.\<close>

record gate_messages =
  gm_none :: string
  gm_external :: string
  gm_still :: string
  gm_latest :: string

definition gate_threshold :: "int \<Rightarrow> int" where
  "gate_threshold maxLag = (if maxLag \<le> 0 then 5000 else maxLag)"

definition lag_text :: "string \<Rightarrow> int \<Rightarrow> int \<Rightarrow> string" where
  "lag_text what lag maxLag = what @ '' lag '' @ int_str lag @ ''ms exceeds threshold '' @ int_str maxLag @ ''ms''"

definition checkpoint_error :: "gate_messages \<Rightarrow> int \<Rightarrow> CDCPosition option \<Rightarrow> string option" where
  "checkpoint_error gm maxLag latest = (case latest of
     None \<Rightarrow> Some (gm_none gm)
   | Some p \<Rightarrow>
       if pos_PositionType p = ''EXTERNAL_MANAGED'' \<and> prefix ''pending external'' (pos_PositionValue p)
       then Some (gm_external gm)
       else if pos_EventsPending p > 0
       then Some (gm_still gm @ '' still has '' @ int_str (pos_EventsPending p) @ '' pending events'')
       else if pos_LagMS p > maxLag then Some (lag_text (gm_latest gm) (pos_LagMS p) maxLag) else None)"

definition forward_gate :: gate_messages where
  "forward_gate = \<lparr>gm_none = ''no forward CDC position has been reported'',
     gm_external = ''external CDC engine has not reported an active source position'',
     gm_still = ''cdc'', gm_latest = ''latest cdc''\<rparr>"

definition reverse_gate :: gate_messages where
  "reverse_gate = \<lparr>gm_none = ''no reverse CDC position has been reported'',
     gm_external = ''external reverse CDC engine has not reported an active source position'',
     gm_still = ''reverse cdc'', gm_latest = ''latest reverse cdc''\<rparr>"

definition forward_spool_error :: "CDCSpoolStats \<Rightarrow> string option" where
  "forward_spool_error st =
     (if ss_PendingTransactions st > 0
      then Some (''cdc spool still has '' @ int_str (ss_PendingTransactions st) @ '' pending transactions (''
        @ int_str (ss_PendingEvents st) @ '' events), first='' @ ss_FirstPosition st @ '' last='' @ ss_LastPosition st)
      else None)"

definition reverse_spool_error :: "CDCSpoolStats \<Rightarrow> string option" where
  "reverse_spool_error st =
     (if ss_PendingTransactions st > 0
      then Some (''reverse cdc spool still has '' @ int_str (ss_PendingTransactions st) @ '' pending transactions'') else None)"

definition checked_in :: "(Store \<Rightarrow> string option) \<Rightarrow> unit svc" where
  "checked_in f = bnd (query f) checked"

definition pass_gate :: "string \<Rightarrow> int \<Rightarrow> MigrationTask \<Rightarrow> unit svc" where
  "pass_gate taskID maxLag task =
     bnd (checked_in (\<lambda>s. forward_spool_error (CDCSpoolStats_of taskID ''forward'' s))) (\<lambda>_.
     bnd (checked_in (\<lambda>s. checkpoint_error forward_gate maxLag (latestCDC taskID ''forward'' s))) (\<lambda>_.
     bnd (if mig_ValidationEnabled task then requireSuccessfulValidation task else ret ()) (\<lambda>_.
     bnd (requireFreshSequenceSync task) (\<lambda>_.
     bnd (to_status StatusReadyCutover task) stored))))"

definition ReadyForCutover :: "string \<Rightarrow> int \<Rightarrow> unit svc" where
  "ReadyForCutover taskID maxLagMS =
     bnd (fetch (GetMigration taskID)) (\<lambda>task.
     let maxLag = gate_threshold maxLagMS in
     if mig_Status task \<noteq> StatusCDCCatchingUp
     then fail (text_error (''task cannot enter cutover from '' @ MigrationStatus_string (mig_Status task)))
     else if mig_CDCLagMS task > maxLag then fail (text_error (lag_text ''cdc'' (mig_CDCLagMS task) maxLag))
     else pass_gate taskID maxLag task)"

section \<open>Cutover\<close>

definition cutoverEngineStopTimeout :: "duration svc" where
  "cutoverEngineStopTimeout = bnd (envInt64 ''DTS_CUTOVER_ENGINE_STOP_TIMEOUT_SECONDS'' 60) (\<lambda>n.
     ret (max 5 (min 600 n) * 10 ^ 9))"

definition capture_jobs :: "string \<Rightarrow> string \<Rightarrow> Store \<Rightarrow> EngineJob list" where
  "capture_jobs taskID direction s =
     filter (\<lambda>j. ej_Kind j = ''CDC'' \<and> ej_Direction j = direction) (ListEngineJobs taskID s)"

definition active_job :: "EngineJob \<Rightarrow> bool" where
  "active_job j \<longleftrightarrow> ej_Status j \<in> {EngineJobPending, EngineJobRunning, EngineJobStopRequested}"

text \<open>One poll per step, every 100 ms; other processes act meanwhile. The fuel is only there for
  a clock that stands still.\<close>

fun poll_stopped :: "nat \<Rightarrow> string \<Rightarrow> string \<Rightarrow> time \<Rightarrow> unit svc" where
  "poll_stopped fuel taskID direction deadline =
     bnd (query (capture_jobs taskID direction)) (\<lambda>jobs.
     case find (\<lambda>j. ej_Status j = EngineJobFailed) jobs of
       Some j \<Rightarrow> fail (text_error (''CDC engine job '' @ ej_ID j @ '' failed while stopping for cutover: '' @ ej_LastError j))
     | None \<Rightarrow>
         let active = length (filter active_job jobs);
             late = fail (text_error (''timed out stopping '' @ nat_str active
               @ '' forward CDC engine job(s) before cutover'')) in
         if active = 0 then ret ()
         else bnd clock (\<lambda>now.
           if now > deadline then late
           else bnd cancelled (\<lambda>stop.
             if stop then fail (text_error ''context canceled'')
             else bnd wait_for_others (\<lambda>_. case fuel of
                 0 \<Rightarrow> late | Suc k \<Rightarrow> poll_stopped k taskID direction deadline))))"

declare poll_stopped.simps [simp del]

definition poll_fuel :: nat where
  "poll_fuel = 6001"

definition waitEngineJobsStopped :: "string \<Rightarrow> string \<Rightarrow> unit svc" where
  "waitEngineJobsStopped taskID direction =
     bnd clock (\<lambda>now. bnd cutoverEngineStopTimeout (\<lambda>limit. poll_stopped poll_fuel taskID direction (now + limit)))"

definition spool_empty :: "CDCSpoolStats \<Rightarrow> bool" where
  "spool_empty st \<longleftrightarrow> ss_PendingTransactions st = 0 \<and> ss_PendingEvents st = 0"

fun drain_passes :: "nat \<Rightarrow> string \<Rightarrow> unit svc" where
  "drain_passes 0 taskID =
     bnd (query (CDCSpoolStats_of taskID ''forward'')) (\<lambda>st.
     fail (text_error (''final cutover CDC spool did not drain: '' @ int_str (ss_PendingTransactions st)
       @ '' transactions / '' @ int_str (ss_PendingEvents st) @ '' events remain'')))"
| "drain_passes (Suc k) taskID =
     bnd (DrainCDCSpool taskID ''forward'' 10000) (\<lambda>st. if spool_empty st then ret () else drain_passes k taskID)"

definition drainFinalCutoverSpool :: "string \<Rightarrow> unit svc" where
  "drainFinalCutoverSpool taskID = drain_passes 100 taskID"

text \<open>A step after \<open>CUTOVER_RUNNING\<close> that fails marks the task as failed.\<close>

definition or_failed :: "MigrationTask \<Rightarrow> string \<Rightarrow> unit svc \<Rightarrow> unit svc" where
  "or_failed task msg m =
     bnd (attempt m) (\<lambda>r. case r of
       Inr _ \<Rightarrow> ret ()
     | Inl (_, e) \<Rightarrow> let text = msg @ error_text e in
         bnd (ignore (write_repo (\<lambda>io. UpdateMigration io (task\<lparr>mig_Status := StatusFailed, mig_LastError := text\<rparr>)))) (\<lambda>_.
         fail (text_error text)))"

definition touched_task :: "MigrationTask \<Rightarrow> MigrationTask svc" where
  "touched_task m = bnd clock (\<lambda>now. let m = m\<lparr>mig_UpdatedAt := now\<rparr> in
     bnd (must (write_repo (\<lambda>io. UpdateMigration io m))) (\<lambda>_. ret m))"

definition finish_cutover :: "MigrationTask \<Rightarrow> MigrationTask svc" where
  "finish_cutover task =
     bnd (query (ListMigrationTables (mig_ID task))) (\<lambda>tables.
     bnd (or_failed task ''cutover generated-value state synchronization failed: '' (syncGeneratedValueState task tables)) (\<lambda>_.
     bnd (or_failed task ''cutover generated-value mode finalization failed: '' (finalizeGeneratedValueModes task tables)) (\<lambda>_.
     bnd (to_status StatusFinished task) (\<lambda>task. touched_task (task\<lparr>mig_Progress := 100\<rparr>)))))"

text \<open>Everything before the evidence is archived; the finished task is returned.\<close>

definition cut_over :: "string \<Rightarrow> MigrationTask svc" where
  "cut_over taskID =
     bnd (fetch (GetMigration taskID)) (\<lambda>task.
     if mig_Status task \<noteq> StatusReadyCutover
     then fail (text_error (''task cannot cut over from '' @ MigrationStatus_string (mig_Status task)))
     else bnd (with_prefix ''request forward CDC stop for cutover: '' (requestStopEngineJobs taskID ''forward'')) (\<lambda>_.
       bnd (waitEngineJobsStopped taskID ''forward'') (\<lambda>_.
       bnd (with_prefix ''drain final CDC spool for cutover: '' (drainFinalCutoverSpool taskID)) (\<lambda>_.
       bnd (to_status StatusCutoverRunning task) (\<lambda>task.
       bnd (touched_task task) finish_cutover)))))"

definition Cutover :: "string \<Rightarrow> unit svc" where
  "Cutover taskID = bnd (cut_over taskID) (\<lambda>task. archiveValidationBestEffort (mig_ID task))"

section \<open>Repair\<close>

definition repaired_chunk :: "MigrationChunk \<Rightarrow> MigrationChunk" where
  "repaired_chunk c = c\<lparr>ch_Status := ChunkPending, ch_WorkerID := [], ch_LeaseUntil := 0,
     ch_LastError := ''repair scheduled after validation mismatch'', ch_FinishedAt := 0\<rparr>"

fun reset_chunks :: "string list \<Rightarrow> int \<Rightarrow> int svc" where
  "reset_chunks [] n = ret n"
| "reset_chunks (i # is) n =
     bnd (query (GetChunk i)) (\<lambda>r. case r of
       Inl _ \<Rightarrow> reset_chunks is n
     | Inr c \<Rightarrow> bnd (write_repo (\<lambda>io. UpdateChunk io (repaired_chunk c))) (\<lambda>e.
         reset_chunks is (if e = None then n + 1 else n)))"

definition RepairValidation :: "string \<Rightarrow> int svc" where
  "RepairValidation taskID =
     bnd (fetch (GetMigration taskID)) (\<lambda>task.
     bnd (query (GetValidationArchive taskID)) (\<lambda>archive.
     if archive \<noteq> None
     then fail (text_error ''validation evidence is sealed in an immutable archive; repair is no longer available'')
     else bnd (query (ListRepairableValidationChunkIDs_any True taskID 100000)) (\<lambda>bad.
       if bad = [] then fail (text_error ''no mismatched validation chunks'')
       else bnd (reset_chunks bad 0) (\<lambda>n.
         bnd (stored (task\<lparr>mig_Status := StatusFullMigrating, mig_LastError := []\<rparr>)) (\<lambda>_. ret n)))))"

section \<open>Rollback\<close>

definition chooseRollbackCDCEngine :: "DataSource \<Rightarrow> string svc" where
  "chooseRollbackCDCEngine ds = bnd (env (\<lambda>E. sv_require E ''cdc-read'' (ds_Type ds))) (\<lambda>r.
     ret (if r = None then unifiedEngineName else []))"

definition reverse_mapping :: "MigrationTable \<Rightarrow> TableMapping" where
  "reverse_mapping t = \<lparr>tmap_SourceSchema = tbl_TargetSchema t, tmap_SourceTable = tbl_TargetTable t,
     tmap_TargetSchema = tbl_SourceSchema t, tmap_TargetTable = tbl_SourceTable t, tmap_Columns = [], tmap_SplitStrategy = [],
     tmap_Partitions = [], tmap_HashBuckets = 0, tmap_CustomWhere = []\<rparr>"

definition reverse_messages :: "DataSource \<Rightarrow> position_messages" where
  "reverse_messages ds = \<lparr>pm_selection = ''capture reverse selected-table CDC start position: '',
     pm_mysql = ''capture reverse native MySQL CDC start position: '',
     pm_slot = ''create reverse PostgreSQL CDC replication slot: '',
     pm_source = ''capture reverse CDC start position: '',
     pm_none = ''target connector '' @ DataSourceType_string (ds_Type ds) @ '' cannot provide a DTS reverse CDC start position''\<rparr>"

definition prepare_reverse :: "MigrationTask \<Rightarrow> DataSource \<Rightarrow> Target \<Rightarrow> unit svc" where
  "prepare_reverse task targetDS T =
     bnd (query (ListMigrationTables (mig_ID task))) (\<lambda>tables.
     bnd (capture_position (reverse_messages targetDS) T (ds_Type targetDS) (map reverse_mapping tables)
       (slot_name (''dts_rb_'' @ mig_ID task))) (\<lambda>pos.
     bnd (must (record_position (mig_ID task) ''reverse'' pos)) (\<lambda>_.
     bnd (touched_task (task\<lparr>mig_CDCLagMS := 0\<rparr>)) (\<lambda>task.
     ensureManagedCDCJob task ''reverse''))))"

definition PrepareRollback :: "string \<Rightarrow> unit svc" where
  "PrepareRollback taskID =
     bnd (fetch (GetMigration taskID)) (\<lambda>task.
     if mig_Status task \<noteq> StatusFinished
     then fail (text_error (''rollback can only be prepared after cutover; current status=''
            @ MigrationStatus_string (mig_Status task)))
     else bnd (to_status StatusRollbackPreparing task) (\<lambda>task.
       bnd (fetch (GetDataSource (mig_TargetID task))) (\<lambda>targetDS.
       bnd (chooseRollbackCDCEngine targetDS) (\<lambda>engine.
       if engine = [] then fail (text_error ''no reverse CDC engine is available for rollback'')
       else bnd (connect targetDS) (\<lambda>T.
         closing T (prepare_reverse (task\<lparr>mig_RollbackCDCEngine := engine\<rparr>) targetDS T))))))"

definition MarkRollbackCDCStarted :: "string \<Rightarrow> CDCPosition option \<Rightarrow> unit svc" where
  "MarkRollbackCDCStarted taskID p =
     bnd (fetch (GetMigration taskID)) (\<lambda>task.
     if mig_Status task \<noteq> StatusRollbackPreparing
     then fail (text_error (''reverse CDC cannot start from '' @ MigrationStatus_string (mig_Status task)))
     else bnd (case p of None \<Rightarrow> ret ()
            | Some p \<Rightarrow> if pos_PositionValue p \<noteq> [] \<or> pos_LagMS p \<noteq> 0 \<or> pos_EventsTotal p \<noteq> 0
                then must (record_position taskID ''reverse'' p) else ret ()) (\<lambda>_.
       bnd (to_status StatusRollbackSyncing task) stored))"

definition ReadyForRollback :: "string \<Rightarrow> int \<Rightarrow> unit svc" where
  "ReadyForRollback taskID maxLagMS =
     bnd (fetch (GetMigration taskID)) (\<lambda>task.
     let maxLag = gate_threshold maxLagMS in
     if mig_Status task \<noteq> StatusRollbackSyncing
     then fail (text_error (''task cannot enter rollback-ready from '' @ MigrationStatus_string (mig_Status task)))
     else if mig_CDCLagMS task > maxLag then fail (text_error (lag_text ''reverse cdc'' (mig_CDCLagMS task) maxLag))
     else bnd (checked_in (\<lambda>s. reverse_spool_error (CDCSpoolStats_of taskID ''reverse'' s))) (\<lambda>_.
       bnd (checked_in (\<lambda>s. checkpoint_error reverse_gate maxLag (latestCDC taskID ''reverse'' s))) (\<lambda>_.
       bnd (to_status StatusRollbackReady task) stored)))"

definition Rollback :: "string \<Rightarrow> unit svc" where
  "Rollback taskID =
     bnd (fetch (GetMigration taskID)) (\<lambda>task.
     if mig_Status task \<noteq> StatusRollbackReady
     then fail (text_error (''task cannot roll back from '' @ MigrationStatus_string (mig_Status task)))
     else bnd (to_status StatusRollbackRunning task) (\<lambda>task.
       bnd (touched_task task) (\<lambda>task.
       bnd (to_status StatusRolledBack task) (\<lambda>task.
       bnd (touched_task task) (\<lambda>task.
       bnd (archiveValidationBestEffort (mig_ID task)) (\<lambda>_.
       ignore (requestStopEngineJobs taskID ''reverse'')))))))"

end
