(* ===== verification/CutoverSafety.thy ===== *)
theory CutoverSafety
  imports Cutover DeliverySafety
begin

text \<open>
  What the gates and the cutover promise: a task is ready only with a drained spool, a recent
  checkpoint and a successful validation, and a cutover that reports success has stopped the
  capture, drained the spool and finished the task.
\<close>

section \<open>Frames\<close>

lemma write_frame:
  assumes w: "writes f upd" and up: "\<And>s. P s \<Longrightarrow> P (upd s)" and dk: "\<And>s d. P s \<Longrightarrow> P (s\<lparr>st_disk := d\<rparr>)"
  shows "keeps (on_store P) (write_repo f)"
proof -
  have "P (fst (f io s))" if "P s" for io s
  proof -
    from w consider "f io s = persistLocked io (upd s)" | "fst (f io s) = s" by (auto simp: writes_def)
    then show ?thesis
    proof cases
      case 1
      have "P (fst (persistLocked io (upd s)))"
        using up [OF that] dk by (cases io) (auto simp: persistLocked_def)
      with 1 show ?thesis by simp
    qed (use that in simp)
  qed
  then show ?thesis
    by (auto simp: spec_def write_repo_def tick_def on_store_def case_prod_unfold Let_def)
qed

text \<open>A predicate on the jobs of the store.\<close>

abbreviation jobs_are :: "((string, EngineJob) gomap \<Rightarrow> bool) \<Rightarrow> World \<Rightarrow> bool" where
  "jobs_are Q \<equiv> on_store (\<lambda>s. Q (st_engineJobs s))"

lemma jobs_writes [held_rule]:
  "keeps (jobs_are Q) (write_repo (\<lambda>io. CreateTaskLog io l))"
  "keeps (jobs_are Q) (write_repo (\<lambda>io. CreateAlert io a))"
  "keeps (jobs_are Q) (write_repo (\<lambda>io. UpdateMigration io m))"
  "keeps (jobs_are Q) (write_repo (\<lambda>io. CreateCDCConflict io c))"
  "keeps (jobs_are Q) (write_repo (\<lambda>io. CreateCDCDeadLetter io v))"
  "keeps (jobs_are Q) (write_repo (\<lambda>io. UpdateCDCDeadLetter io v))"
  "keeps (jobs_are Q) (write_repo (\<lambda>io. DeleteCDCDeadLetter io i))"
  "keeps (jobs_are Q) (write_repo (\<lambda>io. CreateCDCPosition io p))"
  "keeps (jobs_are Q) (write_repo (\<lambda>io. MarkCDCSpoolApplied io i tm))"
  "keeps (jobs_are Q) (write_repo (\<lambda>io. DeleteAppliedCDCSpool io t d n))"
  by (rule writes_neutral(1) [THEN write_frame] writes_neutral(2) [THEN write_frame]
      writes_neutral(3) [THEN write_frame] writes_neutral(4) [THEN write_frame]
      writes_letter(1) [THEN write_frame] writes_letter(2) [THEN write_frame] writes_letter(3) [THEN write_frame]
      writes_position [THEN write_frame] writes_mark [THEN write_frame] writes_purge [THEN write_frame];
      simp add: with_letter_def without_letter_def with_position_def with_mark_def with_purge_def Let_def split: option.split)+

lemma jobs_acquire [held_rule]: "keeps (jobs_are Q) (acquireControlOperation t op)"
proof -
  have "keeps (jobs_are Q) (write_result (\<lambda>E io. AcquireControlOperation io now t op owner ttl))" for now owner ttl
    by (auto simp: spec_def write_result_def tick_def on_store_def AcquireControlOperation_def persistLocked_def
        Let_def case_prod_unfold split: io.splits option.splits)
  then show ?thesis
    unfolding acquireControlOperation_def controlOperationLeaseTTL_def ok_result_def
    by (intro held_rule) (auto intro!: held_rule split: sum.split)
qed

lemma jobs_helpers [held_rule]:
  "keeps (jobs_are Q) (logTask l0 l1 l2 l3 l4 l5)" "keeps (jobs_are Q) (alert a0 a1 a2 a3 a4)"
  unfolding logTask_def alert_def by (intro held_rule)+

lemma jobs_letters [held_rule]:
  "keeps (jobs_are Q) (maybeAlertCDCLag t d lag)"
  "keeps (jobs_are Q) (beginCDCCommitFence t d evs)" "keeps (jobs_are Q) (completeCDCCommitFence fence)"
  "keeps (jobs_are Q) (cleanupTransientCDCCommitFence t d ev)"
  "keeps (jobs_are Q) (recordCDCDeadLetter t d req cause)"
  unfolding maybeAlertCDCLag_def beginCDCCommitFence_def completeCDCCommitFence_def
    cleanupTransientCDCCommitFence_def recordCDCDeadLetter_def Let_def
  by (intro held_rule)+

lemma jobs_conflicts [held_rule]: "keeps (jobs_are Q) (create_conflicts res pend)"
  by (induction pend) (auto intro!: held_rule)

lemma jobs_progress [held_rule]:
  "keeps (jobs_are Q) (recordCDCProgress t p)" "keeps (jobs_are Q) (RecordRollbackCDCProgress t p)"
  unfolding recordCDCProgress_def RecordRollbackCDCProgress_def Let_def by (intro held_rule)+

lemma jobs_persist [held_rule]: "keeps (jobs_are Q) (persistCDCApplyResult t d ds result ev)"
  unfolding persistCDCApplyResult_def Let_def by (intro held_rule)

lemma jobs_finish [held_rule]: "keeps (jobs_are Q) (finish_apply t d ds ev res pend fence)"
  unfolding finish_apply_def by (intro held_rule)

lemma jobs_requests [held_rule]:
  "keeps (jobs_are Q) (apply_row_request t d task ds td T evs)"
  "keeps (jobs_are Q) (apply_ddl_request t d task ds td T evs)"
  unfolding apply_row_request_def apply_ddl_request_def rollback_on_error_def apply_and_fence_def Let_def
  by (intro held_rule; auto intro!: held_rule split: prod.split option.split sum.split)+

lemma jobs_apply [held_rule]: "keeps (jobs_are Q) (ApplyCDCEvents b t req)"
  unfolding ApplyCDCEvents_def Let_def
  by (intro held_rule; auto intro!: held_rule split: prod.split option.split sum.split)

lemma jobs_item [held_rule]: "keeps (jobs_are Q) (drain_item t d v)"
  unfolding drain_item_def Let_def by (intro held_rule)

lemma jobs_items [held_rule]: "keeps (jobs_are Q) (drain_items t d n vs)"
  by (induction vs arbitrary: n) (auto intro!: held_rule)

lemma keeps_when: "(c \<Longrightarrow> keeps I a) \<Longrightarrow> (\<not> c \<Longrightarrow> keeps I b) \<Longrightarrow> keeps I (if c then a else b)"
  by simp

lemma jobs_loop [held_rule]: "keeps (jobs_are Q) (drain_loop t d n)"
proof (induction n rule: less_induct)
  case (less n)
  have "keeps (jobs_are Q) (bnd (drain_items t d n items) (\<lambda>_. drain_loop t d (n - length items)))"
    if "n \<noteq> 0" "items \<noteq> []" for items
    using that by (intro held_rule less) (cases items, auto)
  then show ?case
    unfolding drain_loop.simps [of t d n] by (intro keeps_when keeps_bnd [OF keeps_query] keeps_ret)
qed

lemma jobs_start [held_rule]: "keeps (jobs_are Q) (maybeStartValidationAfterCatchup t)"
  unfolding maybeStartValidationAfterCatchup_def validationCatchupMaxLagMS_def start_validation_at_barrier_def
    captureValidationBarrier_def validationStableWindow_def startValidation_def Let_def
  by (intro held_rule; auto intro!: held_rule split: sum.split)

lemma jobs_drain [held_rule]: "keeps (jobs_are Q) (DrainCDCSpool t d n)"
  unfolding DrainCDCSpool_def drainCDCSpoolLocked_def Let_def by (intro held_rule)

section \<open>The cutover\<close>

definition idle :: "string \<Rightarrow> (string, EngineJob) gomap \<Rightarrow> bool" where
  "idle tid jobs \<longleftrightarrow> (\<forall>(i, j) \<in> set jobs. ej_TaskID j = tid \<and> ej_Kind j = ''CDC'' \<and> ej_Direction j = ''forward''
     \<longrightarrow> \<not> active_job j \<and> ej_Status j \<noteq> EngineJobFailed)"

definition sealed :: "string \<Rightarrow> Store \<Rightarrow> bool" where
  "sealed tid s \<longleftrightarrow> idle tid (st_engineJobs s) \<and> spool_empty (CDCSpoolStats_of tid ''forward'' s)"

lemma idle_jobs:
  assumes "find (\<lambda>j. ej_Status j = EngineJobFailed) (capture_jobs tid ''forward'' s) = None"
    "length (filter active_job (capture_jobs tid ''forward'' s)) = 0"
  shows "idle tid (st_engineJobs s)"
  unfolding idle_def
proof (clarify)
  fix i j
  assume "(i, j) \<in> set (st_engineJobs s)" "tid = ej_TaskID j" "ej_Kind j = ''CDC''" "ej_Direction j = ''forward''"
  then have "j \<in> set (capture_jobs tid ''forward'' s)"
    by (force simp: capture_jobs_def ListEngineJobs_def StoreCatalog.newest_first_def)
  with assms show "\<not> active_job j \<and> ej_Status j \<noteq> EngineJobFailed"
    by (auto simp: find_None_iff filter_empty_conv)
qed

text \<open>What holds when an operation ends without an error.\<close>

abbreviation ends :: "(World \<Rightarrow> bool) \<Rightarrow> 'a svc \<Rightarrow> ('a \<Rightarrow> World \<Rightarrow> bool) \<Rightarrow> bool" where
  "ends P m Q \<equiv> spec P m Q (\<lambda>_ _ _. True) (\<lambda>_. True)"

lemma ends_bnd: "(\<And>x. ends (\<lambda>_. True) (f x) Q) \<Longrightarrow> ends P (bnd m f) Q"
  by (rule spec_bnd [where R = "\<lambda>_ _. True"]) (auto simp: spec_def split: prod.split outcome.split)

lemma ends_fail: "ends P (fail_with r e) Q"
  by (rule spec_fail) simp

lemma ends_keeps: "keeps P m \<Longrightarrow> ends P m (\<lambda>_. P)"
  by (erule spec_weaken) simp_all

lemma ends_if: "(c \<Longrightarrow> ends P a Q) \<Longrightarrow> (\<not> c \<Longrightarrow> ends P b Q) \<Longrightarrow> ends P (if c then a else b) Q"
  by simp

lemma polled: "ends (\<lambda>_. True) (poll_stopped k tid ''forward'' deadline) (\<lambda>_. jobs_are (idle tid))"
proof (induction k)
  case 0
  show ?case
    unfolding poll_stopped.simps [of 0] Let_def nat.case
    by (intro spec_query_bnd spec_option ends_fail ends_if ends_bnd)
      (auto simp: on_store_def intro: idle_jobs spec_ret)
next
  case (Suc k)
  show ?case
    unfolding poll_stopped.simps [of "Suc k"] Let_def nat.case
    by (intro spec_query_bnd spec_option ends_fail ends_if ends_bnd Suc.IH)
      (auto simp: on_store_def intro: idle_jobs spec_ret)
qed

lemma waited: "ends P (waitEngineJobsStopped tid ''forward'') (\<lambda>_. jobs_are (idle tid))"
  unfolding waitEngineJobsStopped_def by (intro ends_bnd polled)

text \<open>Draining reports the spool as it leaves it.\<close>

abbreviation quiet :: "((string, EngineJob) gomap \<Rightarrow> CDCSpoolRecord list \<Rightarrow> bool) \<Rightarrow> World \<Rightarrow> bool" where
  "quiet Q \<equiv> on_store (\<lambda>s. Q (st_engineJobs s) (st_cdcSpool s))"

lemma quiet_writes [held_rule]:
  "keeps (quiet Q) (write_repo (\<lambda>io. CreateTaskLog io l))"
  "keeps (quiet Q) (write_repo (\<lambda>io. CreateAlert io a))"
  "keeps (quiet Q) (write_repo (\<lambda>io. UpdateMigration io m))"
  by (rule writes_neutral(1) [THEN write_frame] writes_neutral(2) [THEN write_frame]
      writes_neutral(3) [THEN write_frame]; simp)+

lemma quiet_acquire [held_rule]: "keeps (quiet Q) (acquireControlOperation t op)"
proof -
  have "keeps (quiet Q) (write_result (\<lambda>E io. AcquireControlOperation io now t op owner ttl))" for now owner ttl
    by (auto simp: spec_def write_result_def tick_def on_store_def AcquireControlOperation_def persistLocked_def
        Let_def case_prod_unfold split: io.splits option.splits)
  then show ?thesis
    unfolding acquireControlOperation_def controlOperationLeaseTTL_def ok_result_def
    by (intro held_rule) (auto intro!: held_rule split: sum.split)
qed

lemma quiet_log [held_rule]: "keeps (quiet Q) (logTask l0 l1 l2 l3 l4 l5)"
  unfolding logTask_def by (intro held_rule)

lemma quiet_start [held_rule]: "keeps (quiet Q) (maybeStartValidationAfterCatchup t)"
  unfolding maybeStartValidationAfterCatchup_def validationCatchupMaxLagMS_def start_validation_at_barrier_def
    captureValidationBarrier_def validationStableWindow_def startValidation_def Let_def
  by (intro held_rule; auto intro!: held_rule split: sum.split)

definition stats_told :: "string \<Rightarrow> CDCSpoolStats \<Rightarrow> Store \<Rightarrow> bool" where
  "stats_told tid st s \<longleftrightarrow> idle tid (st_engineJobs s) \<and>
     st = fold (stats_step tid ''forward'') (st_cdcSpool s) zero_CDCSpoolStats"

lemma told_query: "spec (jobs_are (idle tid)) (query (CDCSpoolStats_of tid ''forward''))
    (\<lambda>st. on_store (stats_told tid st)) F C"
  by (simp add: spec_def query_def on_store_def stats_told_def CDCSpoolStats_of_def)

lemma locked_told: "ends (jobs_are (idle tid)) (drainCDCSpoolLocked tid ''forward'' n) (\<lambda>st. on_store (stats_told tid st))"
proof -
  have "spec (jobs_are (idle tid)) (drainCDCSpoolLocked tid ''forward'' n) (\<lambda>st. on_store (stats_told tid st))
      (\<lambda>_ _. jobs_are (idle tid)) (jobs_are (idle tid))"
    unfolding drainCDCSpoolLocked_def Let_def
    by (intro spec_bnd [OF keeps_fetch] spec_if told_query spec_bnd [OF jobs_loop] spec_bnd [OF keeps_getenv]
        spec_bnd [OF keeps_ignore [OF jobs_writes(10)]])
  then show ?thesis by (rule spec_weaken) simp_all
qed

lemma drain_told: "ends (jobs_are (idle tid)) (DrainCDCSpool tid ''forward'' n) (\<lambda>st. on_store (stats_told tid st))"
proof -
  have "ends (on_store (stats_told tid st))
     (bnd (if ''forward'' = ''forward'' then ignore (maybeStartValidationAfterCatchup tid) else ret ()) (\<lambda>_. ret st))
     (\<lambda>st. on_store (stats_told tid st))" for st
    unfolding stats_told_def
    by (rule spec_bnd [where R = "\<lambda>_. on_store (\<lambda>s. idle tid (st_engineJobs s) \<and>
          st = fold (stats_step tid ''forward'') (st_cdcSpool s) zero_CDCSpoolStats)"])
      (simp, rule ends_keeps, intro held_rule, rule spec_ret)
  then show ?thesis
    unfolding DrainCDCSpool_def Let_def by (auto intro!: spec_bnd [OF locked_told])
qed

lemma drain_seals: "ends (jobs_are (idle tid)) (drain_passes k tid) (\<lambda>_. on_store (sealed tid))"
proof (induction k)
  case 0
  show ?case by (simp, intro spec_query_bnd ends_fail)
next
  case (Suc k)
  show ?case
    unfolding drain_passes.simps
    by (rule spec_bnd [OF drain_told], rule ends_if)
      (rule spec_ret, simp add: on_store_def stats_told_def sealed_def CDCSpoolStats_of_def,
       rule spec_pre [OF Suc.IH], simp add: on_store_def stats_told_def)
qed

section \<open>After the drain\<close>

lemma keeps_each [held_rule]: "(\<And>x. keeps I (f x)) \<Longrightarrow> keeps I (each f xs)"
  by (induction xs) (auto intro!: held_rule)

lemma generated_frames [held_rule]:
  "keeps (on_store P) (syncGeneratedValueState task tables)" "keeps (on_store P) (finalizeGeneratedValueModes task tables)"
  unfolding syncGeneratedValueState_def finalizeGeneratedValueModes_def on_target_def
  by (intro held_rule; auto intro!: held_rule split: sum.split)+

lemma quiet_or_failed [held_rule]: "keeps (quiet Q) m \<Longrightarrow> keeps (quiet Q) (or_failed task msg m)"
  unfolding or_failed_def Let_def by (intro held_rule)

lemma to_status_spec: "(\<And>m'. Transition m to = Inr m' \<Longrightarrow> spec P (ret m') Q F C) \<Longrightarrow> (\<And>e w. P w \<Longrightarrow> F None e w) \<Longrightarrow>
    spec P (to_status to m) Q F C"
  by (auto simp: to_status_def intro: spec_fail split: sum.split)

text \<open>A task that was written is what the store has.\<close>

lemma update_spec:
  "ends (quiet Q) (must (write_repo (\<lambda>io. UpdateMigration io m)))
     (\<lambda>_ w. quiet Q w \<and> GetMigration (mig_ID m) (w_store w) = Inr m)"
proof -
  have "spec (quiet Q) (write_repo (\<lambda>io. UpdateMigration io m))
     (\<lambda>r w. quiet Q w \<and> (r = None \<longrightarrow> quiet Q w \<and> GetMigration (mig_ID m) (w_store w) = Inr m)) (\<lambda>_ _. quiet Q) (quiet Q)"
  proof (rule specI)
    fix E w w' r
    assume q: "quiet Q w" and u: "write_repo (\<lambda>io. UpdateMigration io m) E w = (w', Done r)"
    have "quiet Q w'" using spec_Done [OF quiet_writes(3) q u] .
    moreover have "GetMigration (mig_ID m) (w_store w') = Inr m" if "r = None"
      using u that by (auto simp: write_repo_def tick_def UpdateMigration_def persistLocked_def GetMigration_def
          found_def update_conv split: if_splits io.splits prod.splits)
    ultimately show "quiet Q w' \<and> (r = None \<longrightarrow> quiet Q w' \<and> GetMigration (mig_ID m) (w_store w') = Inr m)" by blast
  qed (use spec_Failed [OF quiet_writes(3)] spec_Crashed [OF quiet_writes(3)] in blast)+
  from spec_ok_or [OF this] show ?thesis by (rule spec_weaken) simp_all
qed

lemma touched_spec:
  "ends (quiet Q) (touched_task m)
     (\<lambda>m' w. quiet Q w \<and> GetMigration (mig_ID m') (w_store w) = Inr m' \<and> mig_Status m' = mig_Status m \<and> mig_Progress m' = mig_Progress m)"
  unfolding touched_task_def Let_def
  by (rule spec_bnd [OF ends_keeps [OF held_clock]], rule spec_bnd [OF update_spec], rule spec_ret) simp

lemma to_status_any: "ends P (to_status to m) (\<lambda>m'. P)"
  by (rule to_status_spec) (auto intro: spec_ret)

lemma ends_prefix: "ends P m Q \<Longrightarrow> ends P (with_prefix p m) Q"
  unfolding with_prefix_def
  by (rule spec_bnd [where R = "\<lambda>r w. case r of Inl _ \<Rightarrow> True | Inr x \<Rightarrow> Q x w"], rule spec_attempt)
    (auto intro: ends_fail spec_ret split: sum.split)

definition finished_here :: "MigrationTask \<Rightarrow> World \<Rightarrow> bool" where
  "finished_here task w \<longleftrightarrow> GetMigration (mig_ID task) (w_store w) = Inr task \<and> mig_Status task = StatusFinished
     \<and> mig_Progress task = 100"

lemma finish_spec: "ends (quiet Q) (finish_cutover task) (\<lambda>t w. quiet Q w \<and> finished_here t w)"
  unfolding finish_cutover_def
  by (intro spec_bnd [OF ends_keeps [OF keeps_query]] spec_bnd [OF ends_keeps [OF quiet_or_failed]] generated_frames
      spec_bnd [where R = "\<lambda>t w. quiet Q w \<and> mig_Status t = StatusFinished"] to_status_spec spec_ret)
    (auto simp: Transition_Inr_iff finished_here_def intro!: spec_conj_pure spec_weaken [OF touched_spec])

text \<open>The jobs and the spool decide whether a task is sealed.\<close>

lemma sealed_quiet: "on_store (sealed tid) = quiet (\<lambda>jobs sp. idle tid jobs \<and>
    spool_empty (fold (stats_step tid ''forward'') sp zero_CDCSpoolStats))"
  by (rule ext) (simp add: on_store_def sealed_def CDCSpoolStats_of_def)

lemma cut_over_spec:
  "ends (\<lambda>w. w = w0) (cut_over tid) (\<lambda>t w. (on_store (sealed tid) w \<and> finished_here t w) \<and>
     (\<exists>t0. GetMigration tid (w_store w0) = Inr t0 \<and> mig_Status t0 = StatusReadyCutover))"
proof -
  have rest: "ends P (bnd (with_prefix p (requestStopEngineJobs tid ''forward'')) (\<lambda>_.
       bnd (waitEngineJobsStopped tid ''forward'') (\<lambda>_.
       bnd (with_prefix q (drainFinalCutoverSpool tid)) (\<lambda>_.
       bnd (to_status StatusCutoverRunning task) (\<lambda>task.
       bnd (touched_task task) finish_cutover))))) (\<lambda>t w. on_store (sealed tid) w \<and> finished_here t w)" for P p q task
    unfolding sealed_quiet drainFinalCutoverSpool_def
    by (rule ends_bnd, rule spec_bnd [OF waited], rule spec_bnd [OF ends_prefix [OF drain_seals]], unfold sealed_quiet,
        intro spec_bnd [OF to_status_any] spec_bnd [OF touched_spec] finish_spec spec_pre [OF finish_spec]) simp_all
  have gate: "spec (\<lambda>w. w = w0 \<and> GetMigration tid (w_store w) = Inr t0) (if mig_Status t0 \<noteq> StatusReadyCutover then fail e else m)
     (\<lambda>t w. Q t w \<and> (\<exists>t0. GetMigration tid (w_store w0) = Inr t0 \<and> mig_Status t0 = StatusReadyCutover))
     (\<lambda>_ _ _. True) (\<lambda>_. True)"
    if "\<And>P. ends P m Q" for t0 e m and Q :: "MigrationTask \<Rightarrow> World \<Rightarrow> bool"
  proof (cases "GetMigration tid (w_store w0) = Inr t0 \<and> mig_Status t0 = StatusReadyCutover")
    case True
    then show ?thesis by (auto intro!: spec_weaken [OF that])
  next
    case False
    then show ?thesis by (auto intro!: spec_False ends_fail)
  qed
  have got: "ends (\<lambda>w. w = w0) (fetch (GetMigration tid)) (\<lambda>t0 w. w = w0 \<and> GetMigration tid (w_store w) = Inr t0)"
    by (rule spec_fetch) simp_all
  show ?thesis
    unfolding cut_over_def
    by (rule spec_bnd [OF got], rule gate [where Q = "\<lambda>t w. on_store (sealed tid) w \<and> finished_here t w"], rule rest)
qed

text \<open>
  C40. A reported cutover was sealed.

  When \<open>Cutover\<close> reports success, the task was stored as READY_FOR_CUTOVER when it began; and just
  before the evidence of the validation is archived, the store holds a task that is finished, no
  forward capture job of it is active or failed, and its forward spool holds nothing pending.
  Whatever the other workers do while the service waits is part of the environment.
\<close>

theorem cutover_seals:
  assumes "Cutover tid E w = (w', Done ())"
  shows "\<exists>v task t0. cut_over tid E w = (v, Done task) \<and> archiveValidationBestEffort (mig_ID task) E v = (w', Done ())
     \<and> GetMigration tid (w_store w) = Inr t0 \<and> mig_Status t0 = StatusReadyCutover
     \<and> finished_here task v \<and> sealed tid (w_store v)"
proof -
  from assms obtain v task where cut: "cut_over tid E w = (v, Done task)"
      and "archiveValidationBestEffort (mig_ID task) E v = (w', Done ())"
    by (auto simp: Cutover_def bnd_def split: prod.splits outcome.splits)
  moreover from spec_Done [OF cut_over_spec refl cut] have "finished_here task v" "sealed tid (w_store v)"
    "\<exists>t0. GetMigration tid (w_store w) = Inr t0 \<and> mig_Status t0 = StatusReadyCutover" by (auto simp: on_store_def)
  ultimately show ?thesis by blast
qed

text \<open>A running capture job is asked to stop, and its worker stops it while the service waits.\<close>

definition cutover_job :: "EngineJobStatus \<Rightarrow> EngineJob" where
  "cutover_job status = zero_EngineJob\<lparr>ej_ID := ''eng'', ej_TaskID := ''mig'', ej_Kind := ''CDC'', ej_Direction := ''forward'',
     ej_Status := status\<rparr>"

definition cutover_world :: World where
  "cutover_world = demo_world\<lparr>w_store := (newStore [] \<lparr>dk_main = Missing, dk_tmp = Missing\<rparr>)\<lparr>
     st_datasources := [(''ds'', zero_DataSource\<lparr>ds_ID := ''ds''\<rparr>)],
     st_engineJobs := [(''eng'', cutover_job EngineJobRunning)],
     st_migrations := [(''mig'', zero_MigrationTask\<lparr>mig_ID := ''mig'', mig_Status := StatusReadyCutover,
       mig_TargetID := ''ds''\<rparr>)]\<rparr>\<rparr>"

definition cutover_env :: Env where
  "cutover_env = (demo_env (\<lambda>n. False))\<lparr>sv_others := \<lambda>n s. s\<lparr>st_engineJobs := [(''eng'', cutover_job EngineJobStopped)]\<rparr>\<rparr>"

lemmas cutover_defs = cut_over_def requestStopEngineJobs_def stop_job_def ListEngineJobs_def StoreCatalog.newest_first_def
  waitEngineJobsStopped_def cutoverEngineStopTimeout_def capture_jobs_def active_job_def cancelled_def wait_for_others_def
  UpdateEngineJob_def drainFinalCutoverSpool_def DrainCDCSpool_def drainCDCSpoolLocked_def drain_loop.simps cdcApplyReady_def
  ListCDCSpool_def spool_keep_def DeleteAppliedCDCSpool_def maybeStartValidationAfterCatchup_def validation_due_def
  spool_empty_def to_status_def touched_task_def finish_cutover_def or_failed_def with_prefix_def
  syncGeneratedValueState_def finalizeGeneratedValueModes_def on_target_def GetDataSource_def Transition_def
  CDCSpoolStats_of_def zero_CDCSpoolStats_def cutover_job_def cutover_env_def cutover_world_def

lemmas cutover_eval = cutover_defs svc_eval demo_env_def demo_world_def newStore_def found_def GetMigration_def
     zero_MigrationTask_def zero_DataSource_def zero_EngineJob_def persistLocked_def Let_def

definition asked_to_stop :: World where
  "asked_to_stop = cutover_world\<lparr>w_tick := 2, w_store := (w_store cutover_world)\<lparr>
     st_engineJobs := [(''eng'', (cutover_job EngineJobStopRequested)\<lparr>ej_UpdatedAt := 0\<rparr>)]\<rparr>\<rparr>"

definition all_stopped :: World where
  "all_stopped = cutover_world\<lparr>w_tick := 6, w_store := (w_store cutover_world)\<lparr>
     st_engineJobs := [(''eng'', cutover_job EngineJobStopped)]\<rparr>\<rparr>"

lemma cutover_stops: "requestStopEngineJobs ''mig'' ''forward'' cutover_env cutover_world = (asked_to_stop, Done ())"
  by (simp add: asked_to_stop_def cutover_eval)

lemma cutover_waits: "waitEngineJobsStopped ''mig'' ''forward'' cutover_env asked_to_stop = (all_stopped, Done ())"
  by (simp add: asked_to_stop_def all_stopped_def cutover_eval poll_fuel_def poll_stopped.simps [of 6001]
    poll_stopped.simps [of 6000] trim_space_def)

lemma cutover_drains: "drainFinalCutoverSpool ''mig'' cutover_env all_stopped = (all_stopped\<lparr>w_tick := 7\<rparr>, Done ())"
  using drain_passes.simps(2) [of 99] by (simp add: all_stopped_def cutover_eval trim_space_def)

definition cut_world :: World where
  "cut_world = all_stopped\<lparr>w_tick := 13, w_calls := [CloseTarget, CloseTarget],
     w_store := (w_store all_stopped)\<lparr>st_migrations := [(''mig'', zero_MigrationTask\<lparr>mig_ID := ''mig'',
       mig_Status := StatusFinished, mig_TargetID := ''ds'', mig_Progress := 100, mig_UpdatedAt := 11\<rparr>)]\<rparr>\<rparr>"

lemma cutover_runs: "cut_over ''mig'' cutover_env cutover_world = (cut_world, Done (zero_MigrationTask\<lparr>mig_ID := ''mig'',
       mig_Status := StatusFinished, mig_TargetID := ''ds'', mig_Progress := 100, mig_UpdatedAt := 11\<rparr>))"
proof -
  have "fetch (GetMigration ''mig'') cutover_env cutover_world = (cutover_world, Done (zero_MigrationTask\<lparr>mig_ID := ''mig'',
      mig_Status := StatusReadyCutover, mig_TargetID := ''ds''\<rparr>))"
    by (simp add: fetch_def cutover_world_def demo_world_def GetMigration_def found_def)
  note steps = this cutover_stops cutover_waits cutover_drains
  have "attempt (requestStopEngineJobs ''mig'' ''forward'') cutover_env cutover_world = (asked_to_stop, Done (Inr ()))"
    "attempt (drainFinalCutoverSpool ''mig'') cutover_env all_stopped = (all_stopped\<lparr>w_tick := 7\<rparr>, Done (Inr ()))"
    by (simp_all add: attempt_def steps)
  note steps = steps this
  show ?thesis
    unfolding cut_over_def bnd_def [of "fetch _"] steps(1)
    by (simp add: bnd_def with_prefix_def steps ret_def)
      (simp add: cut_world_def all_stopped_def cutover_eval UpdateMigration_def CanTransition_def demo_target_def ListMigrationTables_def)
qed

lemma cutover_archives: "archiveValidationBestEffort ''mig'' cutover_env cut_world
    = (cut_world\<lparr>w_tick := 14\<rparr>, Done ())"
  by (simp add: archiveValidationBestEffort_def ensure_archive_def cut_world_def all_stopped_def EnsureValidationArchive_def
      cutover_eval terminalValidationArchiveStatus_def build_archive_def trim_space_def GetValidationArchive_def
      ListMigrationTables_def archive_head_def buildLegacyValidationArchive_def ListValidationResults_def zero_ValidationArchive_def)

theorem cutover_seals_witness:
  "Cutover ''mig'' cutover_env cutover_world = (cut_world\<lparr>w_tick := 14\<rparr>, Done ()) \<and> sealed ''mig'' (w_store cut_world)"
proof -
  have run: "Cutover ''mig'' cutover_env cutover_world = (cut_world\<lparr>w_tick := 14\<rparr>, Done ())"
    by (simp add: Cutover_def bnd_def cutover_runs cutover_archives)
  from cutover_seals [OF this] have "sealed ''mig'' (w_store cut_world)" by (auto simp: cutover_runs)
  with run show ?thesis by simp
qed

section \<open>Polling is fuelled enough\<close>

text \<open>When the clock is not set back and a poll takes at least 100 ms of it, more fuel changes nothing.\<close>

lemma poll_more:
  assumes steps: "\<And>n. sv_now E n + 10 ^ 8 \<le> sv_now E (n + 3)"
    and late: "deadline < sv_now E (w_tick w) + int k * 10 ^ 8"
  shows "poll_stopped (k + j) tid d deadline E w = poll_stopped k tid d deadline E w"
  using late
proof (induction k arbitrary: w)
  case 0
  then show ?case
    unfolding poll_stopped.simps [of 0] poll_stopped.simps [of "0 + j"] Let_def
    by (auto simp: bnd_def query_def clock_def tick_def intro!: ext split: option.split)
next
  case (Suc k)
  let ?w = "w\<lparr>w_tick := Suc (Suc (Suc (w_tick w))), w_store := sv_others E (Suc (Suc (w_tick w))) (w_store w)\<rparr>"
  have "poll_stopped (k + j) tid d deadline E ?w = poll_stopped k tid d deadline E ?w"
    by (rule Suc.IH) (use Suc.prems steps [of "w_tick w"] in \<open>simp add: eval_nat_numeral algebra_simps\<close>)
  then show ?case
    unfolding poll_stopped.simps [of "Suc k"] poll_stopped.simps [of "Suc k + j"] Let_def
    by (simp add: bnd_def query_def clock_def tick_def cancelled_def wait_for_others_def ret_def split: option.split)
qed

lemma cutover_limit: "cutoverEngineStopTimeout E w = (w, Done n) \<Longrightarrow> n \<le> 600 * 10 ^ 9"
  by (auto simp: cutoverEngineStopTimeout_def envInt64_def bnd_def getenv_def env_def ret_def Let_def split: option.splits if_splits)

lemma poll_fuel_enough:
  assumes steps: "\<And>n. sv_now E n + 10 ^ 8 \<le> sv_now E (n + 3)" and mono: "\<And>n. sv_now E n \<le> sv_now E (Suc n)"
  shows "waitEngineJobsStopped tid d E w = bnd clock (\<lambda>now. bnd cutoverEngineStopTimeout (\<lambda>limit.
     poll_stopped (poll_fuel + j) tid d (now + limit))) E w"
proof -
  let ?w = "w\<lparr>w_tick := Suc (w_tick w)\<rparr>"
  have "poll_stopped (poll_fuel + j) tid d (sv_now E (w_tick w) + n) E ?w = poll_stopped poll_fuel tid d (sv_now E (w_tick w) + n) E ?w"
    if "n \<le> 600 * 10 ^ 9" for n
    by (rule poll_more [OF steps]) (use that mono [of "w_tick w"] in \<open>simp add: poll_fuel_def\<close>)
  moreover obtain n where "cutoverEngineStopTimeout E ?w = (?w, Done n)"
    by (auto simp: cutoverEngineStopTimeout_def envInt64_def bnd_def getenv_def env_def ret_def Let_def)
  moreover note cutover_limit [OF this]
  ultimately show ?thesis
    unfolding waitEngineJobsStopped_def by (simp add: bnd_def clock_def tick_def)
qed

end
