(* ===== verification/GateSafety.thy ===== *)
theory GateSafety
  imports CutoverSafety
begin

text \<open>
  What a task has shown when it becomes ready for its cutover: the gate reads one state of the
  repository, and planning the schema objects for it changes nothing.
\<close>

section \<open>Planning does not write\<close>

lemma held_ask [held_rule]: "keeps (on_store P) (ask T f c)"
  by (auto simp: spec_def ask_def tick_def on_store_def Let_def)

lemma held_asked [held_rule]: "keeps (on_store P) (asked msg T f c)"
  unfolding asked_def by (intro held_rule)

lemma held_prefix [held_rule]: "keeps (on_store P) m \<Longrightarrow> keeps (on_store P) (with_prefix msg m)"
  unfolding with_prefix_def by (intro held_rule) (auto intro!: held_rule split: sum.split)

lemma held_connect [held_rule]: "keeps (on_store P) (connect ds)"
  and held_closing [held_rule]: "keeps (on_store P) m \<Longrightarrow> keeps (on_store P) (closing T m)"
  unfolding connect_def closing_def by (intro held_rule; assumption?)+

lemma held_mappings [held_rule]: "keeps (on_store P) (resolveMappings T s t ms)"
  unfolding resolveMappings_def Let_def by (intro held_rule)

lemma held_translate [held_rule]: "keeps (on_store P) (Translate q)"
  by (auto simp: spec_def Translate_def tick_def on_store_def ret_def)

lemma held_catalog [held_rule]: "keeps (on_store P) (load_catalog dst schema cache)"
  unfolding load_catalog_def read_catalog_def by (intro held_rule)

lemma held_kind [held_rule]: "keeps (on_store P) (plan_kind t pe ms obj schema existing item)"
proof -
  have "keeps (on_store P) (plan_routine t pe obj schema item)"
    unfolding plan_routine_def by (intro held_rule)
  then show ?thesis unfolding plan_kind_def by (cases "so_Type obj") (simp_all add: keeps_ret)
qed

lemma held_object [held_rule]: "keeps (on_store P) (plan_object t pe dst ms obj st)"
  unfolding plan_object_def Let_def by (intro held_rule)

lemma held_objects [held_rule]: "(\<And>x st. keeps (on_store P) (f x st)) \<Longrightarrow> keeps (on_store P) (plan_objects f xs st)"
  by (induction xs arbitrary: st) (auto intro!: held_rule)

lemma held_schemas [held_rule]: "(\<And>x st. keeps (on_store P) (f x st)) \<Longrightarrow> keeps (on_store P) (plan_schemas T f ss st)"
  by (induction ss arbitrary: st) (auto intro!: held_rule)

lemma held_plan [held_rule]: "keeps (on_store P) (PlanSchemaObjects tid)"
  unfolding PlanSchemaObjects_def plan_with_def by (intro held_rule)

lemma held_sequences [held_rule]: "keeps (on_store P) (requireFreshSequenceSync task)"
  unfolding requireFreshSequenceSync_def check_sequence_age_def sequenceSyncFreshness_def Let_def by (intro held_rule)

section \<open>The gate\<close>

lemma first_invalid_none:
  assumes "fst (first_invalid latest chs) = []" "\<forall>ch \<in> set chs. ch_ID ch \<noteq> []" "ch \<in> set chs"
  shows "\<exists>v. map_of latest (ch_ID ch) = Some v \<and> vr_Status v = ValidationSuccess"
  using assms by (induction latest chs rule: first_invalid.induct) (auto split: option.splits if_splits)

text \<open>Every copied chunk has a newest validation result, and it is a success.\<close>

definition all_validated :: "string \<Rightarrow> Store \<Rightarrow> bool" where
  "all_validated tid s \<longleftrightarrow> (\<forall>ch \<in> set (success_chunks tid s). \<exists>v.
     map_of (latest_results newer (task_results tid s)) (ch_ID ch) = Some v \<and> vr_Status v = ValidationSuccess)"

definition named_chunks :: "Store \<Rightarrow> bool" where
  "named_chunks s \<longleftrightarrow> (\<forall>ch \<in> set (map snd (st_chunks s)). ch_ID ch \<noteq> [])"

lemma validated:
  "ends (\<lambda>w. w_store w = s) (requireSuccessfulValidation task)
     (\<lambda>_ w. w_store w = s \<and> (named_chunks s \<longrightarrow> all_validated (mig_ID task) s))"
proof -
  have "all_validated (mig_ID task) s" if "fst (FirstInvalidSuccessfulChunk (mig_ID task) s) = []" "named_chunks s"
    unfolding all_validated_def
    by (intro ballI first_invalid_none [OF that(1) [unfolded FirstInvalidSuccessfulChunk_def]])
      (use that(2) in \<open>auto simp: named_chunks_def success_chunks_def\<close>)
  then show ?thesis
    unfolding requireSuccessfulValidation_def FirstInvalidSuccessfulChunk_any_def
    by (auto simp: spec_def bnd_def query_def ret_def fail_with_def split: prod.split)
qed

lemma checked_spec: "ends (\<lambda>w. w_store w = s) (checked_in f) (\<lambda>_ w. w_store w = s \<and> f s = None)"
  by (auto simp: spec_def checked_in_def bnd_def query_def checked_def ret_def fail_with_def split: option.split)

definition gate_open :: "string \<Rightarrow> int \<Rightarrow> Store \<Rightarrow> MigrationTask \<Rightarrow> bool" where
  "gate_open tid maxLag s t \<longleftrightarrow> GetMigration tid s = Inr t \<and> mig_Status t = StatusCDCCatchingUp
     \<and> mig_CDCLagMS t \<le> gate_threshold maxLag \<and> ss_PendingTransactions (CDCSpoolStats_of tid ''forward'' s) \<le> 0
     \<and> (\<exists>p. latestCDC tid ''forward'' s = Some p \<and> pos_EventsPending p \<le> 0 \<and> pos_LagMS p \<le> gate_threshold maxLag)
     \<and> (mig_ValidationEnabled t \<and> named_chunks s \<longrightarrow> all_validated (mig_ID t) s)"

lemma store_is: "(\<lambda>w. w_store w = s) = on_store (\<lambda>x. x = s)"
  by (rule ext) (simp add: on_store_def)

lemma stored_spec: "ends P (stored m) (\<lambda>_ w. \<exists>now. GetMigration (mig_ID m) (w_store w) = Inr (m\<lparr>mig_UpdatedAt := now\<rparr>))"
proof -
  have "ends (quiet (\<lambda>_ _. True)) (stored m) (\<lambda>_ w. \<exists>now. GetMigration (mig_ID m) (w_store w) = Inr (m\<lparr>mig_UpdatedAt := now\<rparr>))"
    unfolding stored_def
    by (rule spec_bnd [OF ends_keeps [OF held_clock]], rule spec_weaken [OF update_spec]) (auto simp: on_store_def)
  then show ?thesis by (rule spec_pre) (simp add: on_store_def)
qed

lemma moved_spec: "ends P (bnd (to_status to t) stored)
    (\<lambda>_ w. \<exists>now. GetMigration (mig_ID t) (w_store w) = Inr (t\<lparr>mig_Status := to, mig_UpdatedAt := now\<rparr>))"
proof (rule spec_bnd [where R = "\<lambda>m _. m = t\<lparr>mig_Status := to\<rparr>"])
  show "ends P (to_status to t) (\<lambda>m _. m = t\<lparr>mig_Status := to\<rparr>)"
    by (rule to_status_spec) (auto simp: Transition_Inr_iff intro: spec_ret)
  show "ends (\<lambda>_. m = t\<lparr>mig_Status := to\<rparr>) (stored m)
      (\<lambda>_ w. \<exists>now. GetMigration (mig_ID t) (w_store w) = Inr (t\<lparr>mig_Status := to, mig_UpdatedAt := now\<rparr>))" for m
  proof (cases "m = t\<lparr>mig_Status := to\<rparr>")
    case True
    show ?thesis by (rule spec_weaken [OF stored_spec [of "\<lambda>_. True" m]]) (simp_all add: True)
  qed (simp add: spec_False)
qed

lemma if_validated:
  "ends (\<lambda>w. w_store w = s) (if mig_ValidationEnabled t then requireSuccessfulValidation t else ret ())
     (\<lambda>_ w. w_store w = s \<and> (mig_ValidationEnabled t \<and> named_chunks s \<longrightarrow> all_validated (mig_ID t) s))"
  by (rule ends_if) (auto intro: spec_weaken [OF validated] spec_ret)

lemma pass_gate_spec:
  assumes t: "GetMigration tid s = Inr t" "mig_Status t = StatusCDCCatchingUp" "mig_CDCLagMS t \<le> gate_threshold maxLag"
  shows "ends (\<lambda>v. w_store v = s) (pass_gate tid (gate_threshold maxLag) t) (\<lambda>_ v. gate_open tid maxLag s t \<and>
     (\<exists>now. GetMigration (mig_ID t) (w_store v) = Inr (t\<lparr>mig_Status := StatusReadyCutover, mig_UpdatedAt := now\<rparr>)))"
  unfolding pass_gate_def
proof (intro spec_bnd [OF checked_spec] spec_conj_pure spec_bnd [OF if_validated] ends_bnd [where m = "requireFreshSequenceSync _"])
  assume "forward_spool_error (CDCSpoolStats_of tid ''forward'' s) = None"
    "checkpoint_error forward_gate (gate_threshold maxLag) (latestCDC tid ''forward'' s) = None"
    "mig_ValidationEnabled t \<and> named_chunks s \<longrightarrow> all_validated (mig_ID t) s"
  with t have "gate_open tid maxLag s t"
    by (auto simp: gate_open_def checkpoint_error_def forward_spool_error_def not_less split: option.splits if_splits)
  then show "ends (\<lambda>_. True) (bnd (to_status StatusReadyCutover t) stored) (\<lambda>_ v. gate_open tid maxLag s t \<and>
      (\<exists>now. GetMigration (mig_ID t) (w_store v) = Inr (t\<lparr>mig_Status := StatusReadyCutover, mig_UpdatedAt := now\<rparr>)))"
    by (auto intro: spec_weaken [OF moved_spec])
qed

text \<open>
  C39. A task becomes ready for its cutover only when it has caught up.

  When \<open>ReadyForCutover\<close> reports success, the task was catching up, its lag was within the
  threshold, nothing was pending in its spool or in its newest checkpoint, and every copied chunk
  was validated if validation is asked for; and the stored task then differs from what was read
  only in its status and the time of its update.
\<close>

theorem ready_means_caught_up:
  assumes "ReadyForCutover tid maxLag E w = (w', Done ())"
  shows "\<exists>t now. gate_open tid maxLag (w_store w) t \<and>
     GetMigration (mig_ID t) (w_store w') = Inr (t\<lparr>mig_Status := StatusReadyCutover, mig_UpdatedAt := now\<rparr>)"
proof -
  obtain t where t: "GetMigration tid (w_store w) = Inr t" "mig_Status t = StatusCDCCatchingUp"
      "mig_CDCLagMS t \<le> gate_threshold maxLag"
    and run: "pass_gate tid (gate_threshold maxLag) t E w = (w', Done ())"
    using assms by (auto simp: ReadyForCutover_def bnd_def [of "fetch _"] fetch_def Let_def fail_with_def
        split: sum.splits if_splits)
  from spec_Done [OF pass_gate_spec [OF t] refl run] show ?thesis by blast
qed

definition caught_up_world :: World where
  "caught_up_world = cutover_world\<lparr>w_store := (w_store cutover_world)\<lparr>
     st_cdcPositions := [zero_CDCPosition\<lparr>pos_TaskID := ''mig'', pos_Direction := ''forward'', pos_LagMS := 40\<rparr>],
     st_migrations := [(''mig'', zero_MigrationTask\<lparr>mig_ID := ''mig'', mig_Status := StatusCDCCatchingUp, mig_SourceID := ''ds'',
       mig_TargetID := ''ds'', mig_ValidationEnabled := True\<rparr>)]\<rparr>\<rparr>"

definition ready_world :: World where
  "ready_world = caught_up_world\<lparr>w_tick := 2, w_store := (w_store caught_up_world)\<lparr>
     st_migrations := [(''mig'', zero_MigrationTask\<lparr>mig_ID := ''mig'', mig_Status := StatusReadyCutover, mig_SourceID := ''ds'',
       mig_TargetID := ''ds'', mig_ValidationEnabled := True\<rparr>)]\<rparr>\<rparr>"

theorem ready_means_caught_up_witness:
  "ReadyForCutover ''mig'' 0 cutover_env caught_up_world = (ready_world, Done ())
   \<and> (\<exists>t. gate_open ''mig'' 0 (w_store caught_up_world) t \<and> mig_ValidationEnabled t)"
proof -
  have run: "ReadyForCutover ''mig'' 0 cutover_env caught_up_world = (ready_world, Done ())"
    by (simp add: ready_world_def caught_up_world_def ReadyForCutover_def pass_gate_def gate_threshold_def checked_in_def
        forward_spool_error_def checkpoint_error_def latestCDC_def ListCDCPositions_def newest_matching_def page_limit_def
        requireSuccessfulValidation_def FirstInvalidSuccessfulChunk_any_def FirstInvalidSuccessfulChunk_def success_chunks_def
        requireFreshSequenceSync_def IsPostgreSQLFamily_def stored_def UpdateMigration_def CanTransition_def checked_def
        zero_CDCPosition_def cutover_eval)
  from ready_means_caught_up [OF this] obtain t where "gate_open ''mig'' 0 (w_store caught_up_world) t" by blast
  moreover from this have "mig_ValidationEnabled t"
    by (auto simp: gate_open_def GetMigration_def found_def caught_up_world_def)
  ultimately show ?thesis using run by blast
qed

end
