(* ===== verification/EngineJobs.thy ===== *)
theory EngineJobs
  imports Cutover
begin

text \<open>
  The managed capture jobs, from \<open>backend/internal/migration/service.go\<close>: a worker claims a job with
  the configuration of its reader, starts and renews it, asks whether to stop, and completes or
  fails it.
\<close>

section \<open>What a reader is started with\<close>

definition engineJobLease :: duration where
  "engineJobLease = 5 * 60 * 10 ^ 9"

record EngineJobClaim =
  ec_Job :: EngineJob
  ec_RuntimeConfig :: RuntimeSpec

definition reversed_table :: "MigrationTable \<Rightarrow> MigrationTable" where
  "reversed_table t = t\<lparr>tbl_SourceSchema := tbl_TargetSchema t, tbl_TargetSchema := tbl_SourceSchema t,
     tbl_SourceTable := tbl_TargetTable t, tbl_TargetTable := tbl_SourceTable t,
     tbl_PrimaryKey := tbl_TargetPrimaryKey t, tbl_TargetPrimaryKey := tbl_PrimaryKey t,
     tbl_PrimaryKeys := tbl_TargetPrimaryKeys t, tbl_TargetPrimaryKeys := tbl_PrimaryKeys t,
     tbl_Columns := tbl_TargetColumns t, tbl_TargetColumns := tbl_Columns t\<rparr>"

definition reverseMigrationTables :: "MigrationTable list \<Rightarrow> MigrationTable list" where
  "reverseMigrationTables tables = map reversed_table tables"

definition from_checkpoint :: "CDCPosition option \<Rightarrow> MigrationTask \<Rightarrow> MigrationTask" where
  "from_checkpoint latest task = (case latest of
     None \<Rightarrow> task
   | Some p \<Rightarrow>
       if trim_space (pos_PositionValue p) = [] \<or> pos_PositionType p = ''EXTERNAL_MANAGED'' then task
       else task\<lparr>mig_CDCStartTimestampMS := pos_SourceTimestampMS p, mig_CDCStartPositionType := pos_PositionType p,
              mig_CDCStartPositionValue := pos_PositionValue p, mig_CDCStartResource := pos_Resource p\<rparr>)"

definition from_spool :: "go_error + CDCSpoolRecord \<Rightarrow> MigrationTask \<Rightarrow> MigrationTask" where
  "from_spool staged task = (case staged of
     Inl _ \<Rightarrow> task
   | Inr v \<Rightarrow>
       if trim_space (sp_PositionValue v) = [] then task
       else task\<lparr>mig_CDCStartTimestampMS := sp_SourceTimestampMS v, mig_CDCStartPositionType := sp_PositionType v,
              mig_CDCStartPositionValue := sp_PositionValue v, mig_CDCStartResource := sp_Resource v\<rparr>)"

text \<open>The newest pending transaction of the spool goes before the newest checkpoint.\<close>

definition cdcRenderTask ::
  "MigrationTask \<Rightarrow> string \<Rightarrow> (MigrationTask \<times> DataSource \<times> DataSource \<times> MigrationTable list) svc" where
  "cdcRenderTask task direction =
     bnd (fetch (GetDataSource (mig_SourceID task))) (\<lambda>src.
     bnd (fetch (GetDataSource (mig_TargetID task))) (\<lambda>dst.
     bnd (query (ListMigrationTables (mig_ID task))) (\<lambda>tables.
     bnd (query (latestCDC (mig_ID task) direction)) (\<lambda>latest.
     bnd (query (LatestPendingCDCSpool (mig_ID task) direction)) (\<lambda>staged.
     let copy = from_spool staged (from_checkpoint latest
           (task\<lparr>mig_Mode := ModeIncremental, mig_CDCEngine := cdcEngineForDirection task direction\<rparr>)) in
     ret (if direction = ''reverse'' then (copy, dst, src, reverseMigrationTables tables) else (copy, src, dst, tables)))))))"

section \<open>Jobs\<close>

definition ClaimEngineJob :: "string \<Rightarrow> EngineJobClaim svc" where
  "ClaimEngineJob workerID =
     bnd (fetch (GetWorker workerID)) (\<lambda>worker.
     bnd (env (\<lambda>E. workerOverloaded E (Some worker))) (\<lambda>busy.
     if busy then fail (Plain ErrNoChunk)
     else bnd clock (\<lambda>now.
       bnd (ok_result id (write_result (\<lambda>E io.
         StoreJobs.ClaimEngineJob io now workerID engineJobLease (wk_Capabilities worker)))) (\<lambda>job.
       bnd (fetch (GetMigration (ej_TaskID job))) (\<lambda>task.
       bnd (cdcRenderTask task (ej_Direction job)) (\<lambda>(copy, src, dst, tables).
       bnd (env (\<lambda>E. sv_render E copy src dst tables)) (\<lambda>r. case r of
         Inl e \<Rightarrow> fail (text_error e)
       | Inr cfg \<Rightarrow> ret \<lparr>ec_Job = job, ec_RuntimeConfig = cfg\<rparr>)))))))"

definition StartEngineJob :: "string \<Rightarrow> string \<Rightarrow> unit svc" where
  "StartEngineJob workerID jobID =
     bnd (fetch (GetEngineJob jobID)) (\<lambda>j.
     if ej_Status j \<noteq> EngineJobRunning \<or> ej_WorkerID j \<noteq> workerID then fail (Plain ErrLeaseOwner)
     else bnd (fetch (GetMigration (ej_TaskID j))) (\<lambda>task.
       bnd clock (\<lambda>now. bnd (must (write_repo (\<lambda>io. UpdateEngineJob io (j\<lparr>ej_UpdatedAt := now\<rparr>)))) (\<lambda>_.
       if ej_Direction j = ''reverse''
       then (if mig_Status task = StatusRollbackPreparing then MarkRollbackCDCStarted (mig_ID task) None else ret ())
       else if mig_Status task = StatusCDCInitializing then MarkCDCStarted (mig_ID task) None else ret ()))))"

definition RenewEngineJob :: "string \<Rightarrow> string \<Rightarrow> unit svc" where
  "RenewEngineJob workerID jobID = bnd clock (\<lambda>now.
     must (write_repo (\<lambda>io. RenewEngineJobLease io now jobID workerID engineJobLease)))"

definition EngineJobControl :: "string \<Rightarrow> string \<Rightarrow> bool svc" where
  "EngineJobControl workerID jobID =
     bnd (fetch (GetEngineJob jobID)) (\<lambda>j.
     if ej_WorkerID j \<noteq> workerID then fail (Plain ErrLeaseOwner)
     else ret (ej_Status j = EngineJobStopRequested))"

text \<open>Whether the reader may capture, and the status of the task.\<close>

definition EngineJobCDCReady :: "string \<Rightarrow> string \<Rightarrow> (bool \<times> MigrationStatus) svc" where
  "EngineJobCDCReady workerID jobID =
     bnd (fetch (GetEngineJob jobID)) (\<lambda>j.
     if ej_WorkerID j \<noteq> workerID then fail (Plain ErrLeaseOwner)
     else if ej_Status j \<noteq> EngineJobRunning \<and> ej_Status j \<noteq> EngineJobStopRequested
     then fail (text_error (''engine job '' @ jobID @ '' cannot query CDC readiness from '' @ EngineJobStatus_string (ej_Status j)))
     else bnd (fetch (GetMigration (ej_TaskID j))) (\<lambda>task.
       bnd (if cdcApplyReady task (ej_Direction j) then spawn (SpawnDrain (mig_ID task) (ej_Direction j)) else ret ()) (\<lambda>_.
       ret (cdcCaptureReady task (ej_Direction j), mig_Status task))))"

text \<open>The replication slot a stopped capture has used is dropped.\<close>

definition reverse_resource :: "string \<Rightarrow> Store \<Rightarrow> string" where
  "reverse_resource taskID s = (case find (\<lambda>p. pos_Direction p = ''reverse'' \<and> pos_Resource p \<noteq> []) (ListCDCPositions taskID 200 s) of
     None \<Rightarrow> [] | Some p \<Rightarrow> pos_Resource p)"

definition cleanupCDCCheckpoint :: "string \<Rightarrow> string \<Rightarrow> unit svc" where
  "cleanupCDCCheckpoint taskID direction =
     bnd (fetch (GetMigration taskID)) (\<lambda>task.
     bnd (query (\<lambda>s. if direction = ''reverse'' then (mig_TargetID task, reverse_resource taskID s)
                       else (mig_SourceID task, mig_CDCStartResource task))) (\<lambda>(dsID, resource).
     if resource = [] then ret ()
     else bnd (fetch (GetDataSource dsID)) (\<lambda>ds.
       bnd (connect ds) (\<lambda>T. closing T
         (if \<not> tg_checkpoint T then ret () else ok_call None [] T (DropCDCCheckpoint resource))))))"

definition CompleteEngineJob :: "string \<Rightarrow> string \<Rightarrow> EngineJobResult \<Rightarrow> unit svc" where
  "CompleteEngineJob workerID jobID result =
     bnd (fetch (GetEngineJob jobID)) (\<lambda>j.
     if ej_WorkerID j \<noteq> workerID then fail (Plain ErrLeaseOwner)
     else bnd clock (\<lambda>fin. bnd clock (\<lambda>upd.
       let stop = (ej_Status j = EngineJobStopRequested);
           j = j\<lparr>ej_WorkerID := [], ej_LeaseUntil := 0, ej_FinishedAt := fin, ej_UpdatedAt := upd\<rparr>;
           j = (if stop \<or> er_Error result = [] then j\<lparr>ej_Status := EngineJobStopped\<rparr>
                else j\<lparr>ej_Status := EngineJobFailed, ej_LastError := er_Error result\<rparr>) in
       bnd (must (write_repo (\<lambda>io. UpdateEngineJob io j))) (\<lambda>_.
       if stop then ignore (cleanupCDCCheckpoint (ej_TaskID j) (ej_Direction j)) else ret ()))))"

definition engine_retries :: "go_error + MigrationTask \<Rightarrow> int" where
  "engine_retries task = (case task of Inl _ \<Rightarrow> 3 | Inr m \<Rightarrow> if mig_MaxRetries m > 0 then mig_MaxRetries m else 3)"

definition FailEngineJob :: "string \<Rightarrow> string \<Rightarrow> EngineJobResult \<Rightarrow> unit svc" where
  "FailEngineJob workerID jobID result =
     bnd (fetch (GetEngineJob jobID)) (\<lambda>j.
     if ej_WorkerID j \<noteq> workerID then fail (Plain ErrLeaseOwner)
     else bnd clock (\<lambda>now.
       let j = j\<lparr>ej_RetryCount := i64 (ej_RetryCount j + 1), ej_LastError := er_Error result, ej_WorkerID := [],
             ej_LeaseUntil := 0, ej_UpdatedAt := now\<rparr> in
       bnd (query (GetMigration (ej_TaskID j))) (\<lambda>task.
       if ej_RetryCount j \<le> engine_retries task
       then must (write_repo (\<lambda>io. UpdateEngineJob io (j\<lparr>ej_Status := EngineJobPending\<rparr>)))
       else bnd clock (\<lambda>fin.
         bnd (case task of Inl _ \<Rightarrow> ret ()
            | Inr m \<Rightarrow> failTask (mig_ID m) (''managed '' @ ej_Engine j @ '' CDC engine failed after ''
                @ int_str (ej_RetryCount j) @ '' attempts: '' @ er_Error result)) (\<lambda>_.
         must (write_repo (\<lambda>io. UpdateEngineJob io (j\<lparr>ej_Status := EngineJobFailed, ej_FinishedAt := fin\<rparr>))))))))"

end
