(* ===== verification/Spec2Isabelle.thy ===== *)
theory Spec2Isabelle
  imports StateMachine ChunkPlanner TopologyPolicy StoreChunks StoreJobs StoreCDC ValidationArchive
    StoreQueries StorePrune OrderedMerge BinlogTx CdcRuntime Pipeline CdcSafety CdcDelivery DeliverySafety RowTransform ChunkOps SchemaPlan Lifecycle GateSafety EngineJobs
begin

text \<open>
  Verification of the data transfer service in \<open>backend/internal\<close>: a service that copies the
  tables of a source database to a target in chunks, captures the changes made meanwhile,
  applies them in source order, validates the copy and switches over.

  \<^bold>\<open>The program.\<close> A task is a \<open>domain.MigrationTask\<close>. Its tables are planned into chunks
  (\<open>migration/chunk_planner.go\<close>), workers claim the chunks from the repository under a lease
  (\<open>repository/memory\<close>) and copy each through a prefetching pipeline (\<open>pipeline/full.go\<close>).
  Readers of the source's log (\<open>cdc/...\<close>) group its events into transactions, which the runner
  (\<open>cdc/runtime\<close>) hands to the service; the service spools, applies and checkpoints them. Then
  the rows are validated, the evidence is archived, and the status of the task
  (\<open>migration/state_machine.go\<close>) opens the cutover. \<open>migration/service.go\<close> holds these operations.

  \<^bold>\<open>Theories: the language.\<close> \<open>GoPrelude\<close>, \<open>GoResult\<close>, \<open>GoStrings\<close>, \<open>GoCodec\<close>, \<open>GoJson\<close>, \<open>GoFloat\<close>,
  \<open>GoSha256\<close> hold the fragment of Go and its standard library the program uses (strings of bytes,
  words, maps, errors as sums, panics, the functions of \<open>strings\<close>, base64, hexadecimal, the JSON
  scanner, \<open>float64\<close> as rounded rationals, SHA-256, calendar time), with the lemma collections
  \<open>go\<close> and its fellows.

  \<^bold>\<open>Theories: data and pure functions.\<close>
  \<^item> \<open>Domain\<close>, \<open>ServiceTypes\<close>: \<open>domain/models.go\<close> and the structs of \<open>connector/connector.go\<close>; a
    struct is a record, an enumeration a datatype or the strings themselves, a nil pointer \<open>None\<close>.
  \<^item> \<open>StateMachine\<close>, \<open>ChunkPlanner\<close>, \<open>PerfModel\<close>, \<open>TopologyPolicy\<close>: the files of those names.
  \<^item> \<open>SchemaTypes\<close>: \<open>schema/universal.go\<close> and \<open>schema/converter.go\<close>; \<open>RowTransform\<close>:
    \<open>transform/runtime.go\<close>.

  \<^bold>\<open>Theories: the repository.\<close>
  \<^item> \<open>RepoSpec\<close>: the contracts (locales) of the repository: keyed maps, leases, append-only
    archives, queues; each is interpreted on the store's own operations where these are defined.
  \<^item> \<open>StoreCore\<close>, \<open>StoreCatalog\<close>, \<open>StoreChunks\<close>, \<open>StoreJobs\<close>, \<open>StoreCDC\<close>, \<open>StoreValidation\<close>,
    \<open>StoreQueries\<close>, \<open>StorePrune\<close>: \<open>repository/memory/memory.go\<close>, one record \<open>Store\<close> with a field
    per field of the struct. A method is a function of the store, the clock where the source
    reads it, and the outcome of the file operations of \<open>persistLocked\<close>; it returns the new
    store with the result or the error. The mutex makes every method one step, so interleavings
    of clients are sequences of method calls.
  \<^item> \<open>ValidationArchive\<close>: \<open>repository/validation_archive.go\<close>, the permanent proof of a task.

  \<^bold>\<open>Theories: capture and copy.\<close> \<open>OrderedMerge\<close>, \<open>BinlogEvents\<close>, \<open>BinlogTx\<close>, \<open>Gtid\<close>, \<open>PgOutput\<close>,
  \<open>CdcRuntime\<close> are the capture side, byte by byte for MySQL and PostgreSQL; \<open>Pipeline\<close> is the two
  goroutines of a chunk as an inductive step relation.

  \<^bold>\<open>Theories: the migration service.\<close> \<open>ServiceCore\<close> fixes how an operation of \<open>migration/service.go\<close>
  runs: \<open>'a svc\<close> is a function of an environment \<open>Env\<close> and a \<open>World\<close> (store, target sessions, a
  counter of the calls made) to a new world and an outcome: a result, an error, a panic, or the
  death of the process at any call outside. \<open>ServiceLogic\<close> is the logic of such operations;
  \<open>ServiceOps\<close> holds what they share.
  \<^item> \<open>TaskStatus\<close>, \<open>Preparing\<close>, \<open>Lifecycle\<close>: creating, preparing (\<open>prepareTask\<close>), starting, pausing,
    resuming and cancelling a task.
  \<^item> \<open>SchemaObjects\<close>, \<open>SchemaPlan\<close>: planning and applying views, routines, triggers and
    sequences, with the checks of \<open>schematranslate/provider.go\<close> on a translation.
  \<^item> \<open>FlowControl\<close>, \<open>TopologyRecovery\<close>, \<open>ChunkPressure\<close>, \<open>ChunkCursor\<close>, \<open>ChunkYield\<close>, \<open>ChunkOps\<close>:
    how fast a task may go, which worker gets which chunk, how running chunks are held back and
    divided, and how a chunk ends.
  \<^item> \<open>CdcApply\<close>, \<open>CdcDelivery\<close>: applying captured transactions, staging and draining the spool, dead
    letters. \<open>CdcSafety\<close>, \<open>DurableLogic\<close>, \<open>DeliverySafety\<close> prove what they promise.
  \<^item> \<open>Cutover\<close>, \<open>EngineJobs\<close>: recovery after a restart, validation on demand, cutover, repair,
    rollback, and the managed capture jobs. \<open>CutoverSafety\<close>, \<open>GateSafety\<close> prove the gates.

  \<^bold>\<open>What the lemmas show.\<close> The life cycle reaches the cutover only through its gates: a task is
  ready only with a drained spool, a recent checkpoint and a successful validation, and a cutover
  that reports success has stopped the capture and emptied the spool. Plans partition the key
  range exactly, and dividing a running chunk keeps its remaining keys. Claims hand out the first
  admissible item and a lease excludes every other worker in any interleaving. Writes of the
  snapshot are atomic under any file fault, and a restart restores what was written except for
  the fields the JSON leaves out. The spool refines a queue; checkpoints never move backwards,
  not even under retention. Evidence pages, counts and their fallbacks agree; the archive covers
  every successful chunk once and never changes. Decoders do not panic, and decode what the
  protocol lays out. A transaction is acknowledged only after it was applied, it is drained in
  order, and a transactional target commits it at most once, whatever fails and however often it
  is delivered. A pipeline commits prefixes, and all of the chunk when it ends without error.
  Converted columns and transformed rows fit the types of the target.

  \<^bold>\<open>Bounds and fuel.\<close> Go's integers keep their width, as words or with \<open>i64\<close>, wherever the code
  computes with them; counters of the repository are words or integers as in the source. Loops
  that may not end (the archive's pages, the capture loop) are \<open>partial_function (option)\<close>; that
  they return is proved. Four loops run on fuel: the JSON parser of \<open>ChunkCursor\<close> on twice the
  length of the text and two, more than its nesting and its elements can use; the order of views
  on their number, proved enough in \<open>SchemaObjects\<close>; the wait for the capture jobs on 6001
  looks, as the longest time allowed is 600 seconds at ten looks a second, proved enough in
  \<open>CutoverSafety\<close> for a clock that advances; the passes that drain the spool, 100 as in the code.

  \<^bold>\<open>Parameters.\<close> Databases and their drivers, file operations, the clock, time zones, random
  identifiers, the process environment, cancellation, injected faults, the death of the process,
  the replication streams, the translation service and the rendering of a reader's configuration
  are arguments of the definitions or fields of \<open>Env\<close>. So are \<open>time.Parse\<close>, \<open>big.Rat.SetString\<close>,
  \<open>strconv.ParseFloat\<close>, the length of a value's JSON, and \<open>sv_others\<close>, what other goroutines do to
  the store between two calls. A connector is taken to be registered for every supported type;
  the texts of JSON errors are abstracted.

  \<^bold>\<open>Not modelled.\<close> The connectors and the PostgreSQL repository (SQL text whose meaning is the
  database's), the HTTP layer, command-line programs, report rendering, encryption and object
  storage wrappers, test tooling, native code and the web console; of the service the ticker of
  \<open>StartRecoveryLoop\<close> and the goroutine that renews leases. The row decoder of the binlog, the DB2
  log parser and the Kafka reader are pure in parts but not modelled.
\<close>

end
